(* ===== verification/Prelude.thy ===== *)
theory Prelude
  imports Main
begin

text \<open>
  Shared vocabulary of the development: the error values of the server, the result type of a
  fallible Go function together with its sequencing combinators, decimal printing as done by
  \<^verbatim>\<open>strconv.FormatInt\<close> and \<^verbatim>\<open>fmt.Sprintf("%d")\<close>, and generic facts about lists that several
  components use.
\<close>

named_theorems result_simps "equations of the result combinators"

named_theorems decimal_simps "facts about decimal numerals"

section \<open>Errors and results\<close>

text \<open>
  Each constructor is a sentinel error of the server (or one of its error constructors); the string
  is the formatted message. \<open>Wrapped\<close> and \<open>DatabaseError\<close> keep the error they wrap. \<open>Panic\<close> is a Go run-time panic such as a nil dereference.
\<close>

datatype err =
    Invalid string
  | Conflict string
  | NotFound string
  | NoRowsAffected string
  | InvalidArgument string
  | KeyConflict string
  | DatabaseError err
  | DuplicateKeyError
  | DriverError string
  | ContextCanceled
  | DeadlineExceeded
  | Forbidden
  | EnvironmentNotFound
  | ConcurrentChange
  | CacheNotFound
  | InvalidTTL
  | CacheError string
  | Unauthenticated
  | ProjectMismatch
  | RefreshTokenNotFound
  | RefreshTokenExpired
  | RefreshTokenReplay
  | UserNotFound
  | AuthFailed
  | AuthRateLimited
  | AuthUnavailable string
  | OtherError string
  | Wrapped string err
  | Panic string

type_synonym 'a result = "err + 'a"

definition bindR :: "'a result \<Rightarrow> ('a \<Rightarrow> 'b result) \<Rightarrow> 'b result" where
  "bindR r f = (case r of Inl e \<Rightarrow> Inl e | Inr a \<Rightarrow> f a)"

text \<open>A Go \<open>for range\<close> loop whose body returns early on an error.\<close>

fun forR :: "('a \<Rightarrow> 'b result) \<Rightarrow> 'a list \<Rightarrow> 'b list result" where
  "forR f [] = Inr []"
| "forR f (x # xs) = bindR (f x) (\<lambda>y. bindR (forR f xs) (\<lambda>ys. Inr (y # ys)))"

fun checkR :: "('a \<Rightarrow> unit result) \<Rightarrow> 'a list \<Rightarrow> unit result" where
  "checkR f [] = Inr ()"
| "checkR f (x # xs) = bindR (f x) (\<lambda>_. checkR f xs)"

definition guardR :: "bool \<Rightarrow> err \<Rightarrow> unit result" where
  "guardR bad e = (if bad then Inl e else Inr ())"

section \<open>Decimal numerals\<close>

definition digit_char :: "int \<Rightarrow> char" where
  "digit_char d = char_of (48 + d)"

text \<open>The digits of a non-negative integer.\<close>

function decimal :: "int \<Rightarrow> string" where
  "decimal n =
     (if n < 10 then [digit_char n] else decimal (n div 10) @ [digit_char (n mod 10)])"
  by pat_completeness auto
termination
  by (relation "measure nat") auto

declare decimal.simps [simp del]

definition FormatInt :: "int \<Rightarrow> string" where
  "FormatInt i = (if i < 0 then CHR ''-'' # decimal (- i) else decimal i)"

abbreviation byte :: "char \<Rightarrow> int" where
  "byte c \<equiv> of_char c"

definition is_digit :: "char \<Rightarrow> bool" where
  "is_digit c \<longleftrightarrow> 48 \<le> byte c \<and> byte c \<le> 57"

definition digit_val :: "char \<Rightarrow> int" where
  "digit_val c = byte c - 48"

fun decimal_value :: "int \<Rightarrow> string \<Rightarrow> int" where
  "decimal_value acc [] = acc"
| "decimal_value acc (c # cs) = decimal_value (10 * acc + digit_val c) cs"

section \<open>Facts about results\<close>

lemma bindR_simps [simp, result_simps]:
  "bindR (Inl e) f = Inl e"
  "bindR (Inr a) f = f a"
  by (simp_all add: bindR_def)

lemma bindR_Inr_iff [result_simps]: "bindR r f = Inr b \<longleftrightarrow> (\<exists>a. r = Inr a \<and> f a = Inr b)"
  by (cases r) auto

lemma bindR_Inl_iff [result_simps]:
  "bindR r f = Inl e \<longleftrightarrow> r = Inl e \<or> (\<exists>a. r = Inr a \<and> f a = Inl e)"
  by (cases r) auto

lemma guardR_Inr_iff [simp, result_simps]: "guardR bad e = Inr u \<longleftrightarrow> \<not> bad"
  by (simp add: guardR_def)

lemma guardR_Inl_iff [simp, result_simps]: "guardR bad e = Inl e' \<longleftrightarrow> bad \<and> e' = e"
  by (auto simp: guardR_def)

lemma checkR_Inr_iff [result_simps]: "checkR f xs = Inr u \<longleftrightarrow> (\<forall>x \<in> set xs. f x = Inr ())"
  by (induction xs) (auto simp: result_simps)

lemma checkR_InlD: "checkR f xs = Inl e \<Longrightarrow> \<exists>x \<in> set xs. f x = Inl e"
  by (induction xs) (auto simp: result_simps)

lemma forR_Inr_iff [result_simps]:
  "forR f xs = Inr ys \<longleftrightarrow> list_all2 (\<lambda>x y. f x = Inr y) xs ys"
  by (induction xs arbitrary: ys) (auto simp: result_simps list_all2_Cons1)

lemma forR_InlD: "forR f xs = Inl e \<Longrightarrow> \<exists>x \<in> set xs. f x = Inl e"
  by (induction xs) (auto simp: result_simps)

section \<open>Facts about decimal numerals\<close>

lemma of_char_digit_char [decimal_simps]: "0 \<le> d \<Longrightarrow> d < 10 \<Longrightarrow> byte (digit_char d) = 48 + d"
  by (simp add: digit_char_def)

lemma is_digit_digit_char [decimal_simps]: "0 \<le> d \<Longrightarrow> d < 10 \<Longrightarrow> is_digit (digit_char d)"
  by (simp add: is_digit_def decimal_simps)

lemma digit_val_digit_char [decimal_simps]: "0 \<le> d \<Longrightarrow> d < 10 \<Longrightarrow> digit_val (digit_char d) = d"
  by (simp add: digit_val_def decimal_simps)

lemma decimal_digits: "0 \<le> n \<Longrightarrow> c \<in> set (decimal n) \<Longrightarrow> is_digit c"
proof (induction n rule: decimal.induct)
  case (1 n)
  then show ?case
    by (cases "n < 10") (auto simp: decimal.simps [of n] decimal_simps)
qed

lemma list_all_is_digit_decimal: "0 \<le> n \<Longrightarrow> list_all is_digit (decimal n)"
  by (auto simp: list_all_iff dest: decimal_digits)

lemma decimal_value_append:
  "decimal_value a (xs @ ys) = decimal_value (decimal_value a xs) ys"
  by (induction xs arbitrary: a) auto

lemma decimal_value_decimal: "0 \<le> n \<Longrightarrow> decimal_value 0 (decimal n) = n"
proof (induction n rule: decimal.induct)
  case (1 n)
  show ?case
  proof (cases "n < 10")
    case True
    with 1 show ?thesis by (simp add: decimal.simps [of n] decimal_simps)
  next
    case False
    with 1 show ?thesis
      by (simp add: decimal.simps [of n] decimal_value_append decimal_simps)
  qed
qed

lemma decimal_inject: "0 \<le> m \<Longrightarrow> 0 \<le> n \<Longrightarrow> decimal m = decimal n \<longleftrightarrow> m = n"
  by (metis decimal_value_decimal)

lemma decimal_nonempty [simp]: "decimal n \<noteq> []"
  by (subst decimal.simps) simp

lemma minus_notin_decimal: "0 \<le> n \<Longrightarrow> CHR ''-'' \<notin> set (decimal n)"
  by (auto dest!: decimal_digits simp: is_digit_def)

lemma FormatInt_inject [simp]: "FormatInt i = FormatInt j \<longleftrightarrow> i = j"
proof
  assume eq: "FormatInt i = FormatInt j"
  show "i = j"
  proof (cases "i < 0 \<longleftrightarrow> j < 0")
    case True
    with eq show ?thesis by (auto simp: FormatInt_def decimal_inject split: if_splits)
  next
    case False
    then have "0 \<le> i \<and> j < 0 \<or> i < 0 \<and> 0 \<le> j" by auto
    moreover have "CHR ''-'' \<in> set (decimal n)" if "CHR ''-'' # cs = decimal n" for cs n
      by (metis that list.set_intros(1))
    ultimately have "(0 \<le> i \<and> CHR ''-'' \<in> set (decimal i)) \<or> (0 \<le> j \<and> CHR ''-'' \<in> set (decimal j))"
      using eq by (auto simp: FormatInt_def)
    then show ?thesis using minus_notin_decimal by blast
  qed
qed simp

lemma FormatInt_chars: "c \<in> set (FormatInt i) \<Longrightarrow> is_digit c \<or> c = CHR ''-''"
  by (auto simp: FormatInt_def dest: decimal_digits [rotated] split: if_splits)

lemma colon_notin_FormatInt: "CHR '':'' \<notin> set (FormatInt i)"
  by (auto dest!: FormatInt_chars simp: is_digit_def)

section \<open>Facts about lists\<close>

lemma append_sep_inject:
  assumes "x \<notin> set as" "x \<notin> set as'"
  shows "as @ x # bs = as' @ x # bs' \<longleftrightarrow> as = as' \<and> bs = bs'"
  using assms
proof (induction as arbitrary: as')
  case Nil
  then show ?case by (cases as') auto
next
  case (Cons a as)
  then show ?case by (cases as') auto
qed

lemma append_sep_inject_last:
  assumes "x \<notin> set bs" "x \<notin> set bs'"
  shows "as @ x # bs = as' @ x # bs' \<longleftrightarrow> as = as' \<and> bs = bs'"
proof
  assume "as @ x # bs = as' @ x # bs'"
  then have "rev bs @ x # rev as = rev bs' @ x # rev as'"
    by (metis (no_types) append.assoc append_Cons append_Nil rev.simps(2) rev_append)
  with append_sep_inject [of x "rev bs" "rev bs'" "rev as" "rev as'"] assms
  show "as = as' \<and> bs = bs'" by simp
qed simp

end
