(* ===== verification/Text.thy ===== *)
theory Text
  imports Prelude
begin

text \<open>
  What the server uses of Go's text packages. A Go string is a list of bytes (\<open>char\<close>). The theory
  models UTF-8 decoding (\<^verbatim>\<open>utf8.RuneCountInString\<close>, \<^verbatim>\<open>strings.TrimSpace\<close>), the two anchored patterns
  of \<^verbatim>\<open>entity/schema.go\<close>, \<^verbatim>\<open>strconv.ParseInt\<close> and the success condition of \<^verbatim>\<open>strconv.ParseFloat\<close>
  on 64 bits, and \<^verbatim>\<open>time.Parse\<close> for the three layouts the schema uses.
\<close>

section \<open>UTF-8\<close>

definition between :: "int \<Rightarrow> int \<Rightarrow> int \<Rightarrow> bool" where
  "between lo hi n \<longleftrightarrow> lo \<le> n \<and> n \<le> hi"

definition cont :: "char \<Rightarrow> bool" where
  "cont c \<longleftrightarrow> between 128 191 (byte c)"

definition RuneError :: int where "RuneError = 65533"

text \<open>\<^verbatim>\<open>utf8.DecodeRuneInString\<close>: the code point and its width; an invalid byte has width one.\<close>

fun decode_rune :: "string \<Rightarrow> int \<times> nat" where
  "decode_rune [] = (RuneError, 0)"
| "decode_rune (a # s) =
     (if byte a < 128 then (byte a, 1)
      else case s of
        [] \<Rightarrow> (RuneError, 1)
      | b # s' \<Rightarrow>
          if between 194 223 (byte a) \<and> cont b
          then ((byte a - 192) * 64 + (byte b - 128), 2)
          else case s' of
            [] \<Rightarrow> (RuneError, 1)
          | c # s'' \<Rightarrow>
              if cont c \<and>
                 (byte a = 224 \<and> between 160 191 (byte b) \<or>
                  (between 225 236 (byte a) \<or> between 238 239 (byte a)) \<and> cont b \<or>
                  byte a = 237 \<and> between 128 159 (byte b))
              then ((byte a - 224) * 4096 + (byte b - 128) * 64 + (byte c - 128), 3)
              else case s'' of
                [] \<Rightarrow> (RuneError, 1)
              | d # _ \<Rightarrow>
                  if cont c \<and> cont d \<and>
                     (byte a = 240 \<and> between 144 191 (byte b) \<or>
                      between 241 243 (byte a) \<and> cont b \<or>
                      byte a = 244 \<and> between 128 143 (byte b))
                  then ((byte a - 240) * 262144 + (byte b - 128) * 4096 +
                        (byte c - 128) * 64 + (byte d - 128), 4)
                  else (RuneError, 1))"

function runes :: "string \<Rightarrow> (int \<times> string) list" where
  "runes [] = []"
| "runes (a # s) =
     (let (r, n) = decode_rune (a # s); w = max 1 n
      in (r, take w (a # s)) # runes (drop w (a # s)))"
  by pat_completeness auto
termination
  by (relation "measure length") (auto simp: max_def)

definition RuneCountInString :: "string \<Rightarrow> nat" where
  "RuneCountInString s = length (runes s)"

definition IsSpace :: "int \<Rightarrow> bool" where
  "IsSpace r \<longleftrightarrow> between 9 13 r \<or> r = 32 \<or> r = 133 \<or> r = 160 \<or> r = 5760 \<or>
     between 8192 8202 r \<or> r = 8232 \<or> r = 8233 \<or> r = 8239 \<or> r = 8287 \<or> r = 12288"

definition TrimSpace :: "string \<Rightarrow> string" where
  "TrimSpace s =
     concat (map snd (rev (dropWhile (\<lambda>p. IsSpace (fst p))
       (rev (dropWhile (\<lambda>p. IsSpace (fst p)) (runes s))))))"

section \<open>Anchored patterns\<close>

definition is_upper :: "char \<Rightarrow> bool" where "is_upper c \<longleftrightarrow> between 65 90 (byte c)"
definition is_lower :: "char \<Rightarrow> bool" where "is_lower c \<longleftrightarrow> between 97 122 (byte c)"
definition is_alpha :: "char \<Rightarrow> bool" where "is_alpha c \<longleftrightarrow> is_upper c \<or> is_lower c"

section \<open>Integers and floats\<close>

text \<open>
  \<^verbatim>\<open>strconv.ParseInt(s, 10, 64)\<close>: an optional sign, at least one digit, nothing else, and the value in
  the range of \<open>int64\<close>.
\<close>

definition ParseInt64 :: "string \<Rightarrow> int option" where
  "ParseInt64 s =
     (let (neg, ds) = (case s of
            c # cs \<Rightarrow> if c = CHR ''-'' then (True, cs) else if c = CHR ''+'' then (False, cs) else (False, s)
          | [] \<Rightarrow> (False, s));
          v = (if neg then - decimal_value 0 ds else decimal_value 0 ds)
      in if ds \<noteq> [] \<and> list_all is_digit ds \<and> - (2 ^ 63) \<le> v \<and> v < 2 ^ 63 then Some v else None)"

text \<open>
  The numbers a JSON decoder hands over: sign, integer digits, fraction digits and decimal exponent.
\<close>

definition take_digits :: "string \<Rightarrow> string \<times> string" where
  "take_digits s = (takeWhile is_digit s, dropWhile is_digit s)"

definition split_sign :: "string \<Rightarrow> bool \<times> string" where
  "split_sign s = (case s of
       c # cs \<Rightarrow> if c = CHR ''-'' then (True, cs) else if c = CHR ''+'' then (False, cs) else (False, s)
     | [] \<Rightarrow> (False, s))"

text \<open>Mantissa digits, power of ten, and what is left; \<open>None\<close> when the text has no digit.\<close>

definition read_decimal :: "string \<Rightarrow> (int \<times> int \<times> string) option" where
  "read_decimal s =
     (let (ip, rest) = take_digits s;
          (fp, rest2) = (case rest of c # cs \<Rightarrow> if c = CHR ''.'' then take_digits cs else ([], rest)
                                    | [] \<Rightarrow> ([], rest))
      in if ip = [] \<and> fp = [] then None
         else Some (decimal_value 0 (ip @ fp), - int (length fp), rest2))"

definition read_exponent :: "string \<Rightarrow> (int \<times> string) option" where
  "read_exponent s = (case s of
       c # cs \<Rightarrow>
         if c = CHR ''e'' \<or> c = CHR ''E''
         then (let (neg, ds) = split_sign cs; (es, rest) = take_digits ds
               in if es = [] then None
                  else Some (if neg then - decimal_value 0 es else decimal_value 0 es, rest))
         else Some (0, s)
     | [] \<Rightarrow> Some (0, []))"

text \<open>
  Decimal text rounds to infinity exactly when its magnitude reaches the midpoint above the largest
  finite double, \<open>2^1024 - 2^970\<close>; \<open>ParseFloat\<close> then reports a range error.
\<close>

definition float64_overflow :: "int \<Rightarrow> int \<Rightarrow> bool" where
  "float64_overflow m e =
     (if 0 \<le> e then m * 10 ^ nat e \<ge> 2 ^ 1024 - 2 ^ 970
      else m \<ge> (2 ^ 1024 - 2 ^ 970) * 10 ^ nat (- e))"

definition ParseFloat64_ok :: "string \<Rightarrow> bool" where
  "ParseFloat64_ok s =
     (case read_decimal (snd (split_sign s)) of
        None \<Rightarrow> False
      | Some (m, e, rest) \<Rightarrow>
          (case read_exponent rest of
             None \<Rightarrow> False
           | Some (x, rest2) \<Rightarrow> rest2 = [] \<and> \<not> float64_overflow m (e + x)))"

section \<open>Dates and times\<close>

text \<open>
  The pieces of \<^verbatim>\<open>time.Parse\<close> for the layouts \<^verbatim>\<open>2006-01-02\<close>, \<^verbatim>\<open>15:04:05\<close> and
  \<^verbatim>\<open>2006-01-02 15:04:05\<close>. The hour field accepts one or two digits, all other two-digit fields are
  fixed; a fraction may follow the seconds; a space of the layout matches any run of spaces.
\<close>

definition getnum :: "bool \<Rightarrow> string \<Rightarrow> (int \<times> string) option" where
  "getnum fixed s = (case s of
       [] \<Rightarrow> None
     | a # s' \<Rightarrow>
         if \<not> is_digit a then None
         else case s' of
           b # s'' \<Rightarrow> if is_digit b then Some (digit_val a * 10 + digit_val b, s'')
                      else if fixed then None else Some (digit_val a, s')
         | [] \<Rightarrow> if fixed then None else Some (digit_val a, s'))"

definition getyear :: "string \<Rightarrow> (int \<times> string) option" where
  "getyear s = (if length s \<ge> 4 \<and> list_all is_digit (take 4 s)
                then Some (decimal_value 0 (take 4 s), drop 4 s) else None)"

definition skip_char :: "char \<Rightarrow> string \<Rightarrow> string option" where
  "skip_char c s = (case s of a # s' \<Rightarrow> if a = c then Some s' else None | [] \<Rightarrow> None)"

definition skip_space :: "string \<Rightarrow> string option" where
  "skip_space s = (if s \<noteq> [] \<and> hd s \<noteq> CHR '' '' then None
                   else Some (dropWhile (\<lambda>c. c = CHR '' '') s))"

definition skip_fraction :: "string \<Rightarrow> string" where
  "skip_fraction s = (case s of
       a # b # s' \<Rightarrow> if (a = CHR ''.'' \<or> a = CHR '','') \<and> is_digit b then dropWhile is_digit s' else s
     | _ \<Rightarrow> s)"

definition is_leap :: "int \<Rightarrow> bool" where
  "is_leap y \<longleftrightarrow> y mod 4 = 0 \<and> (y mod 100 \<noteq> 0 \<or> y mod 400 = 0)"

definition daysIn :: "int \<Rightarrow> int \<Rightarrow> int" where
  "daysIn m y = (if m = 2 then if is_leap y then 29 else 28
                 else if m \<in> {4, 6, 9, 11} then 30 else 31)"

definition parse_date_prefix :: "string \<Rightarrow> string option" where
  "parse_date_prefix s =
     Option.bind (getyear s) (\<lambda>(y, s1).
     Option.bind (skip_char CHR ''-'' s1) (\<lambda>s2.
     Option.bind (getnum True s2) (\<lambda>(m, s3).
     if m = 0 \<or> m > 12 then None else
     Option.bind (skip_char CHR ''-'' s3) (\<lambda>s4.
     Option.bind (getnum True s4) (\<lambda>(d, s5).
     if d < 1 \<or> d > daysIn m y then None else Some s5)))))"

definition parse_clock_prefix :: "string \<Rightarrow> string option" where
  "parse_clock_prefix s =
     Option.bind (getnum False s) (\<lambda>(h, s1).
     if h \<ge> 24 then None else
     Option.bind (skip_char CHR '':'' s1) (\<lambda>s2.
     Option.bind (getnum True s2) (\<lambda>(m, s3).
     if m \<ge> 60 then None else
     Option.bind (skip_char CHR '':'' s3) (\<lambda>s4.
     Option.bind (getnum True s4) (\<lambda>(sec, s5).
     if sec \<ge> 60 then None else Some (skip_fraction s5))))))"

datatype layout = DateLayout | TimeLayout | DateTimeLayout

definition time_Parse_ok :: "layout \<Rightarrow> string \<Rightarrow> bool" where
  "time_Parse_ok l s =
     (case l of
        DateLayout \<Rightarrow> parse_date_prefix s = Some []
      | TimeLayout \<Rightarrow> parse_clock_prefix s = Some []
      | DateTimeLayout \<Rightarrow>
          Option.bind (parse_date_prefix s) (\<lambda>s1.
          Option.bind (skip_space s1) parse_clock_prefix) = Some [])"

section \<open>Facts about UTF-8 and numbers\<close>

lemma decode_rune_ascii: "byte a < 128 \<Longrightarrow> decode_rune (a # s) = (byte a, 1)"
  by simp

lemma runes_ascii: "byte a < 128 \<Longrightarrow> runes (a # s) = (byte a, [a]) # runes s"
  by (simp add: decode_rune_ascii)

lemma runes_ascii_string: "list_all (\<lambda>c. byte c < 128) s \<Longrightarrow> runes s = map (\<lambda>c. (byte c, [c])) s"
  by (induction s) (simp_all del: decode_rune.simps runes.simps(2) add: runes_ascii)

lemma concat_runes: "concat (map snd (runes s)) = s"
proof (induction s rule: runes.induct)
  case (2 a s)
  then show ?case
    by (cases "decode_rune (a # s)") (simp add: Let_def del: decode_rune.simps drop_Cons' take_Cons')
qed simp

lemma RuneCountInString_le: "RuneCountInString s \<le> length s"
proof (induction s rule: runes.induct)
  case (2 a s)
  obtain r n where d: "decode_rune (a # s) = (r, n)" by fastforce
  have "RuneCountInString (drop (max 1 n) (a # s)) \<le> length (drop (max 1 n) (a # s))"
    using 2 [OF d [symmetric] refl refl] by simp
  also have "\<dots> \<le> length s" by (simp add: max_def) arith
  finally show ?case using d by (simp add: RuneCountInString_def Let_def del: decode_rune.simps)
qed (simp add: RuneCountInString_def)

lemma hd_decimal: "0 \<le> n \<Longrightarrow> decimal n = c # cs \<Longrightarrow> is_digit c"
  by (metis list.set_intros(1) decimal_digits)

lemma ParseInt64_FormatInt:
  assumes "- (2 ^ 63) \<le> i" "i < 2 ^ 63"
  shows "ParseInt64 (FormatInt i) = Some i"
proof (cases "i < 0")
  case True
  with assms show ?thesis
    by (simp add: ParseInt64_def FormatInt_def decimal_value_decimal list_all_is_digit_decimal)
next
  case False
  obtain c cs where cs: "decimal i = c # cs"
    by (meson neq_Nil_conv decimal_nonempty)
  have c: "c \<noteq> CHR ''-''" "c \<noteq> CHR ''+''"
    using hd_decimal [OF _ cs] False by (auto simp: is_digit_def)
  have v: "decimal_value 0 (c # cs) = i" "list_all is_digit (c # cs)"
    using False decimal_value_decimal [of i] list_all_is_digit_decimal [of i] by (simp_all add: cs)
  show ?thesis
    using False assms c v
    by (simp add: ParseInt64_def FormatInt_def cs del: decimal_value.simps list.pred_inject)
qed

end
