(* ===== verification/Json.thy ===== *)
theory Json
  imports Text
begin

text \<open>
  JSON as the server uses it through Go's \<^verbatim>\<open>encoding/json\<close>: the values a decoder with
  \<^verbatim>\<open>UseNumber\<close> produces, decoding of one value from a text, and \<^verbatim>\<open>decodeJSON\<close> of
  \<^verbatim>\<open>entity/schema.go\<close>, which accepts exactly one value surrounded by white space. A number stays the
  text it was written as; an object keeps the last value of a repeated key, as a Go map does.
\<close>

section \<open>Values\<close>

datatype json =
    JNull
  | JBool bool
  | JNumber string
  | JString string
  | JArray "json list"
  | JObject "(string \<times> json) list"

text \<open>\<^verbatim>\<open>object[key]\<close> and \<^verbatim>\<open>len(object)\<close> on a decoded \<^verbatim>\<open>map[string]any\<close>.\<close>

definition obj_get :: "(string \<times> json) list \<Rightarrow> string \<Rightarrow> json option" where
  "obj_get obj k = map_of obj k"

definition obj_len :: "(string \<times> json) list \<Rightarrow> nat" where
  "obj_len obj = length (remdups (map fst obj))"

section \<open>Lexical elements\<close>

definition json_space :: "char \<Rightarrow> bool" where
  "json_space c \<longleftrightarrow> c = CHR '' '' \<or> byte c = 9 \<or> byte c = 10 \<or> byte c = 13"

definition skip_ws :: "string \<Rightarrow> string" where
  "skip_ws s = dropWhile json_space s"

definition quote_char :: char where "quote_char = CHR 34"
definition backslash :: char where "backslash = CHR 92"

fun strip_prefix :: "string \<Rightarrow> string \<Rightarrow> string option" where
  "strip_prefix [] s = Some s"
| "strip_prefix (p # ps) [] = None"
| "strip_prefix (p # ps) (c # cs) = (if p = c then strip_prefix ps cs else None)"

definition hex_val :: "char \<Rightarrow> int option" where
  "hex_val c =
     (if is_digit c then Some (digit_val c)
      else if between 97 102 (byte c) then Some (byte c - 87)
      else if between 65 70 (byte c) then Some (byte c - 55) else None)"

definition getu4 :: "string \<Rightarrow> (int \<times> string) option" where
  "getu4 s = (case s of
       a # b # c # d # s' \<Rightarrow>
         (case (hex_val a, hex_val b, hex_val c, hex_val d) of
            (Some w, Some x, Some y, Some z) \<Rightarrow> Some (w * 4096 + x * 256 + y * 16 + z, s')
          | _ \<Rightarrow> None)
     | _ \<Rightarrow> None)"

definition encode_rune :: "int \<Rightarrow> string" where
  "encode_rune r =
     (let r' = (if between 55296 57343 r \<or> r > 1114111 then RuneError else r)
      in if r' < 128 then [char_of r']
         else if r' < 2048 then [char_of (192 + r' div 64), char_of (128 + r' mod 64)]
         else if r' < 65536
         then [char_of (224 + r' div 4096), char_of (128 + r' div 64 mod 64),
               char_of (128 + r' mod 64)]
         else [char_of (240 + r' div 262144), char_of (128 + r' div 4096 mod 64),
               char_of (128 + r' div 64 mod 64), char_of (128 + r' mod 64)])"

text \<open>The text after \<^verbatim>\<open>\u\<close>: one escape, or a surrogate pair written as two escapes.\<close>

definition unicode_escape :: "string \<Rightarrow> (string \<times> string) option" where
  "unicode_escape s = (case getu4 s of
       None \<Rightarrow> None
     | Some (r, s1) \<Rightarrow>
         if between 55296 56319 r
         then (case strip_prefix [backslash, CHR ''u''] s1 of
                 None \<Rightarrow> Some (encode_rune RuneError, s1)
               | Some s2 \<Rightarrow>
                   (case getu4 s2 of
                      None \<Rightarrow> Some (encode_rune RuneError, s1)
                    | Some (r2, s3) \<Rightarrow>
                        if between 56320 57343 r2
                        then Some (encode_rune (65536 + (r - 55296) * 1024 + (r2 - 56320)), s3)
                        else Some (encode_rune RuneError, s1)))
         else Some (encode_rune r, s1))"

definition simple_escape :: "char \<Rightarrow> string option" where
  "simple_escape c =
     (if c = quote_char \<or> c = backslash \<or> c = CHR ''/'' then Some [c]
      else if c = CHR ''b'' then Some [char_of (8::int)]
      else if c = CHR ''f'' then Some [char_of (12::int)]
      else if c = CHR ''n'' then Some [char_of (10::int)]
      else if c = CHR ''r'' then Some [char_of (13::int)]
      else if c = CHR ''t'' then Some [char_of (9::int)] else None)"

text \<open>One unit of a string literal after the opening quote: the bytes it denotes and the rest.\<close>

definition string_unit :: "string \<Rightarrow> (string \<times> string) option" where
  "string_unit s = (case s of
       [] \<Rightarrow> None
     | c # s' \<Rightarrow>
         if c = backslash
         then (case s' of
                 [] \<Rightarrow> None
               | e # s'' \<Rightarrow>
                   if e = CHR ''u'' then unicode_escape s''
                   else map_option (\<lambda>b. (b, s'')) (simple_escape e))
         else if byte c < 32 then None
         else (case decode_rune s of
                 (r, n) \<Rightarrow> if r = RuneError \<and> n = 1 then Some (encode_rune RuneError, s')
                           else Some (take n s, drop n s)))"

function parse_string :: "string \<Rightarrow> (string \<times> string) option" where
  "parse_string s = (case s of
       [] \<Rightarrow> None
     | c # s' \<Rightarrow>
         if c = quote_char then Some ([], s')
         else (case string_unit s of
                 None \<Rightarrow> None
               | Some (b, rest) \<Rightarrow>
                   if length rest < length s
                   then map_option (\<lambda>(bs, r). (b @ bs, r)) (parse_string rest) else None))"
  by pat_completeness auto
termination
  by (relation "measure length") auto

declare parse_string.simps [simp del]

text \<open>A number literal, as text, and the rest.\<close>

definition parse_int_part :: "string \<Rightarrow> (string \<times> string) option" where
  "parse_int_part s = (case s of
       [] \<Rightarrow> None
     | c # s' \<Rightarrow> if c = CHR ''0'' then Some ([c], s')
                 else if is_digit c then Some (takeWhile is_digit s, dropWhile is_digit s) else None)"

definition parse_frac_part :: "string \<Rightarrow> (string \<times> string) option" where
  "parse_frac_part s = (case s of
       c # s' \<Rightarrow>
         if c = CHR ''.''
         then (if takeWhile is_digit s' = [] then None
               else Some (c # takeWhile is_digit s', dropWhile is_digit s'))
         else Some ([], s)
     | [] \<Rightarrow> Some ([], []))"

definition parse_exp_part :: "string \<Rightarrow> (string \<times> string) option" where
  "parse_exp_part s = (case s of
       c # s' \<Rightarrow>
         if c = CHR ''e'' \<or> c = CHR ''E''
         then (let (sg, ds) = (case s' of d # s'' \<Rightarrow> if d = CHR ''+'' \<or> d = CHR ''-'' then ([d], s'') else ([], s')
                                        | [] \<Rightarrow> ([], s'))
               in if takeWhile is_digit ds = [] then None
                  else Some (c # sg @ takeWhile is_digit ds, dropWhile is_digit ds))
         else Some ([], s)
     | [] \<Rightarrow> Some ([], []))"

definition parse_number :: "string \<Rightarrow> (string \<times> string) option" where
  "parse_number s =
     (let (sg, s0) = (case s of c # s' \<Rightarrow> if c = CHR ''-'' then ([c], s') else ([], s) | [] \<Rightarrow> ([], s))
      in Option.bind (parse_int_part s0) (\<lambda>(ip, s1).
         Option.bind (parse_frac_part s1) (\<lambda>(fp, s2).
         Option.bind (parse_exp_part s2) (\<lambda>(ep, s3). Some (sg @ ip @ fp @ ep, s3)))))"

section \<open>Values from text\<close>

definition max_depth :: int where "max_depth = 10000"

function parse_value :: "int \<Rightarrow> string \<Rightarrow> (json \<times> string) option"
  and parse_items :: "int \<Rightarrow> string \<Rightarrow> (json list \<times> string) option"
  and parse_members :: "int \<Rightarrow> string \<Rightarrow> ((string \<times> json) list \<times> string) option" where
  "parse_value d s = (case s of
       [] \<Rightarrow> None
     | c # s' \<Rightarrow>
         if json_space c then parse_value d s'
         else if c = quote_char then map_option (\<lambda>(t, r). (JString t, r)) (parse_string s')
         else if c = CHR ''['' then
           (if d \<ge> max_depth then None
            else case strip_prefix '']'' (skip_ws s') of
                   Some r \<Rightarrow> Some (JArray [], r)
                 | None \<Rightarrow> map_option (\<lambda>(vs, r). (JArray vs, r)) (parse_items (d + 1) s'))
         else if c = CHR ''{'' then
           (if d \<ge> max_depth then None
            else case strip_prefix ''}'' (skip_ws s') of
                   Some r \<Rightarrow> Some (JObject [], r)
                 | None \<Rightarrow> map_option (\<lambda>(ms, r). (JObject (rev ms), r)) (parse_members (d + 1) s'))
         else case strip_prefix ''true'' s of Some r \<Rightarrow> Some (JBool True, r)
         | None \<Rightarrow> case strip_prefix ''false'' s of Some r \<Rightarrow> Some (JBool False, r)
         | None \<Rightarrow> case strip_prefix ''null'' s of Some r \<Rightarrow> Some (JNull, r)
         | None \<Rightarrow> map_option (\<lambda>(t, r). (JNumber t, r)) (parse_number s))"
| "parse_items d s = (case parse_value d s of
       None \<Rightarrow> None
     | Some (v, r) \<Rightarrow>
         (case skip_ws r of
            [] \<Rightarrow> None
          | c # r' \<Rightarrow>
              if c = CHR '']'' then Some ([v], r')
              else if c = CHR '','' \<and> length r' < length s
              then map_option (\<lambda>(vs, q). (v # vs, q)) (parse_items d r') else None))"
| "parse_members d s = (case skip_ws s of
       [] \<Rightarrow> None
     | q # s1 \<Rightarrow>
         if q \<noteq> quote_char then None
         else case parse_string s1 of
           None \<Rightarrow> None
         | Some (k, s2) \<Rightarrow>
             (case skip_ws s2 of
                [] \<Rightarrow> None
              | c # s3 \<Rightarrow>
                  if c \<noteq> CHR '':'' \<or> length s3 \<ge> length s then None
                  else case parse_value d s3 of
                    None \<Rightarrow> None
                  | Some (v, r) \<Rightarrow>
                      (case skip_ws r of
                         [] \<Rightarrow> None
                       | e # r' \<Rightarrow>
                           if e = CHR ''}'' then Some ([(k, v)], r')
                           else if e = CHR '','' \<and> length r' < length s
                           then map_option (\<lambda>(ms, z). ((k, v) # ms, z)) (parse_members d r') else None)))"
  by pat_completeness auto
termination
  by (relation "measures [\<lambda>x. case x of Inl (d, s) \<Rightarrow> length s | Inr (Inl (d, s)) \<Rightarrow> length s
       | Inr (Inr (d, s)) \<Rightarrow> length s,
      \<lambda>x. case x of Inl _ \<Rightarrow> 0 | Inr _ \<Rightarrow> 1]") auto

declare parse_value.simps [simp del] parse_items.simps [simp del] parse_members.simps [simp del]

text \<open>
  \<^verbatim>\<open>decoder.Decode\<close> followed by the two checks of \<^verbatim>\<open>decodeJSON\<close>: \<^verbatim>\<open>decoder.More\<close> looks at the next byte
  that is not white space, and the remaining bytes must be empty after trimming.
\<close>

definition decoder_More :: "string \<Rightarrow> bool" where
  "decoder_More rest = (case skip_ws rest of [] \<Rightarrow> False | c # _ \<Rightarrow> c \<noteq> CHR '']'' \<and> c \<noteq> CHR ''}'')"

definition decodeJSON :: "string \<Rightarrow> json result" where
  "decodeJSON value =
     (case parse_value 0 value of
        None \<Rightarrow> Inl (OtherError ''invalid JSON'')
      | Some (v, rest) \<Rightarrow>
          if decoder_More rest then Inl (OtherError ''multiple JSON values'')
          else if TrimSpace rest \<noteq> [] then Inl (OtherError ''trailing JSON data'')
          else Inr v)"

end
