(* ===== verification/Util_Set.thy ===== *)
theory Util_Set
  imports Prelude
begin

text \<open>
  The generic set of \<^verbatim>\<open>server/internal/util/set/hashset.go\<close>. The Go type wraps a
  \<^verbatim>\<open>map[T]struct{}\<close>, which is a finite set of members; \<^verbatim>\<open>Values\<close> returns them in the iteration order
  of the map, which the language leaves unspecified and the model takes as an argument.
\<close>

definition set_Add :: "'a set \<Rightarrow> 'a list \<Rightarrow> 'a set" where
  "set_Add s items = foldl (\<lambda>acc item. insert item acc) s items"

definition set_New :: "'a list \<Rightarrow> 'a set" where
  "set_New items = set_Add {} items"

definition set_Remove :: "'a set \<Rightarrow> 'a list \<Rightarrow> 'a set" where
  "set_Remove s items = foldl (\<lambda>acc item. acc - {item}) s items"

definition set_Contains :: "'a set \<Rightarrow> 'a \<Rightarrow> bool" where
  "set_Contains s item \<longleftrightarrow> item \<in> s"

definition set_Size :: "'a set \<Rightarrow> nat" where
  "set_Size s = card s"

definition set_Values :: "('a set \<Rightarrow> 'a list) \<Rightarrow> 'a set \<Rightarrow> 'a list" where
  "set_Values iterate s = iterate s"

text \<open>Iteration over a Go map visits every key once, in an unspecified order.\<close>

definition map_iteration :: "('a list \<Rightarrow> 'a list) \<Rightarrow> bool" where
  "map_iteration iter \<longleftrightarrow> (\<forall>ks. distinct ks \<longrightarrow> distinct (iter ks) \<and> set (iter ks) = set ks)"

lemma set_Add_eq [simp]: "set_Add s items = s \<union> set items"
  by (induction items arbitrary: s) (auto simp: set_Add_def)

lemma set_New_eq [simp]: "set_New items = set items"
  by (simp add: set_New_def)

lemma set_Remove_eq [simp]: "set_Remove s items = s - set items"
  by (induction items arbitrary: s) (auto simp: set_Remove_def)

lemma set_Contains_eq [simp]: "set_Contains s item \<longleftrightarrow> item \<in> s"
  by (simp add: set_Contains_def)

lemma map_iteration_id: "map_iteration (\<lambda>ks. ks)"
  by (simp add: map_iteration_def)

text \<open>
  The contract a client of the set relies on: membership after each operation, and a size that
  counts distinct members.
\<close>

locale member_set =
  fixes new :: "'a list \<Rightarrow> 's"
    and add :: "'s \<Rightarrow> 'a list \<Rightarrow> 's"
    and remove :: "'s \<Rightarrow> 'a list \<Rightarrow> 's"
    and contains :: "'s \<Rightarrow> 'a \<Rightarrow> bool"
    and size_of :: "'s \<Rightarrow> nat"
    and wf :: "'s \<Rightarrow> bool"
  assumes contains_new: "contains (new xs) x \<longleftrightarrow> x \<in> set xs"
    and contains_add: "contains (add s xs) x \<longleftrightarrow> contains s x \<or> x \<in> set xs"
    and contains_remove: "contains (remove s xs) x \<longleftrightarrow> contains s x \<and> x \<notin> set xs"
    and size_eq: "wf s \<Longrightarrow> size_of s = card {x. contains s x}"
    and wf_new: "wf (new xs)"
    and wf_add: "wf s \<Longrightarrow> wf (add s xs)"
    and wf_remove: "wf s \<Longrightarrow> wf (remove s xs)"
begin

lemma add_remove_other:
  "\<not> contains s x \<Longrightarrow> contains (remove (add s [x]) [x]) y \<longleftrightarrow> contains s y"
  by (auto simp: contains_add contains_remove)

lemma size_add_member: "wf s \<Longrightarrow> contains s x \<Longrightarrow> size_of (add s [x]) = size_of s"
proof -
  assume "wf s" "contains s x"
  then have "{y. contains (add s [x]) y} = {y. contains s y}" by (auto simp: contains_add)
  with \<open>wf s\<close> show ?thesis by (simp add: size_eq wf_add)
qed

lemma size_new: "size_of (new xs) = card (set xs)"
  by (simp add: size_eq wf_new contains_new)

end

interpretation hs: member_set set_New set_Add set_Remove set_Contains set_Size finite
  by unfold_locales (auto simp: set_Size_def)

end
