(* ===== verification/Schema.thy ===== *)
theory Schema
  imports Json Util_Set
begin

text \<open>
  The configuration schema of \<^verbatim>\<open>server/internal/entity/schema.go\<close>: messages of
  \<^verbatim>\<open>api/common/entity.proto\<close>, construction and validation of a schema (\<^verbatim>\<open>NewSchema\<close>), validation of
  a value, default values, the expanded tree, and the filter of structure choices. A nil pointer is
  \<open>None\<close>; dereferencing one is \<open>Panic\<close>. Recursion that the code bounds with a set of structures on the
  current path terminates because that set grows inside the finite schema. The order in which Go
  iterates over the map of structures is the argument \<open>iter\<close>.
\<close>

section \<open>Messages\<close>

datatype kind = BaseType int | StructureKey string | EnumKey string

type_synonym field_type = "kind option"

record Field =
  Field_Key :: string
  Field_Name :: string
  Field_Description :: string
  Field_IsArray :: bool
  Field_Type :: "field_type option"

record SelectOption =
  Option_Label :: string
  Option_Value :: string
  Option_Description :: string

record proto_meta =
  Meta_CreatedBy :: string
  Meta_UpdatedBy :: string
  Meta_CreatedAt :: string
  Meta_UpdatedAt :: string
  Meta_Version :: int

record Structure =
  Structure_Id :: int
  Structure_ConfigId :: int
  Structure_Key :: string
  Structure_Name :: string
  Structure_Description :: string
  Structure_Fields :: "Field option list"
  Structure_Meta :: proto_meta

record ConfigEnum =
  Enum_Id :: int
  Enum_ConfigId :: int
  Enum_Key :: string
  Enum_Name :: string
  Enum_Description :: string
  Enum_Values :: "SelectOption option list"
  Enum_Meta :: proto_meta

record Config =
  Config_Id :: int
  Config_ProjectId :: int
  Config_Key :: string
  Config_Description :: string
  Config_IsArray :: bool
  Config_Type :: "field_type option"
  Config_Value :: string
  Config_RuntimeVersion :: int
  Config_Meta :: proto_meta

datatype tree_node = TreeNode Field "tree_node list"

definition zero_meta :: proto_meta where
  "zero_meta = \<lparr>Meta_CreatedBy = '''', Meta_UpdatedBy = '''', Meta_CreatedAt = '''',
     Meta_UpdatedAt = '''', Meta_Version = 0\<rparr>"

definition Field_STRING :: int where "Field_STRING = 1"
definition Field_INT :: int where "Field_INT = 2"
definition Field_DECIMAL :: int where "Field_DECIMAL = 3"
definition Field_BOOLEAN :: int where "Field_BOOLEAN = 4"
definition Field_TIME :: int where "Field_TIME = 5"
definition Field_DATE :: int where "Field_DATE = 6"
definition Field_DATETIME :: int where "Field_DATETIME = 7"
definition Field_TIME_RANGE :: int where "Field_TIME_RANGE = 8"
definition Field_DATE_RANGE :: int where "Field_DATE_RANGE = 9"
definition Field_DATETIME_RANGE :: int where "Field_DATETIME_RANGE = 10"
definition Field_IMAGE :: int where "Field_IMAGE = 11"
definition Field_VIDEO :: int where "Field_VIDEO = 12"
definition Field_FILE :: int where "Field_FILE = 13"

lemmas base_type_defs =
  Field_STRING_def Field_INT_def Field_DECIMAL_def Field_BOOLEAN_def Field_TIME_def Field_DATE_def
  Field_DATETIME_def Field_TIME_RANGE_def Field_DATE_RANGE_def Field_DATETIME_RANGE_def
  Field_IMAGE_def Field_VIDEO_def Field_FILE_def

text \<open>\<^verbatim>\<open>BaseType.String()\<close> of the generated enum, used in messages.\<close>

definition base_type_name :: "int \<Rightarrow> string" where
  "base_type_name b =
     (if b = 1 then ''STRING'' else if b = 2 then ''INT'' else if b = 3 then ''DECIMAL''
      else if b = 4 then ''BOOLEAN'' else if b = 5 then ''TIME'' else if b = 6 then ''DATE''
      else if b = 7 then ''DATETIME'' else if b = 8 then ''TIME_RANGE'' else if b = 9 then ''DATE_RANGE''
      else if b = 10 then ''DATETIME_RANGE'' else if b = 11 then ''IMAGE'' else if b = 12 then ''VIDEO''
      else if b = 13 then ''FILE'' else if b = 0 then ''BASE_TYPE_UNSPECIFIED'' else FormatInt b)"

text \<open>The nil-safe getters of the generated code.\<close>

definition GetStructureKey :: "field_type option \<Rightarrow> string" where
  "GetStructureKey t = (case t of Some (Some (StructureKey k)) \<Rightarrow> k | _ \<Rightarrow> '''')"

definition GetEnumKey :: "field_type option \<Rightarrow> string" where
  "GetEnumKey t = (case t of Some (Some (EnumKey k)) \<Rightarrow> k | _ \<Rightarrow> '''')"

definition GetType :: "Field option \<Rightarrow> field_type option" where
  "GetType f = Option.bind f Field_Type"

section \<open>Keys and names\<close>

definition schemaKeyPattern :: "string \<Rightarrow> bool" where
  "schemaKeyPattern s =
     (case s of [] \<Rightarrow> False | c # cs \<Rightarrow> is_alpha c \<and> list_all (\<lambda>x. is_alpha x \<or> is_digit x) cs)"

definition enumValuePattern :: "string \<Rightarrow> bool" where
  "enumValuePattern s =
     (case s of [] \<Rightarrow> False
      | c # cs \<Rightarrow> is_upper c \<and> list_all (\<lambda>x. is_upper x \<or> is_digit x \<or> x = CHR ''_'') cs)"

definition validKey :: "string \<Rightarrow> bool" where
  "validKey value \<longleftrightarrow> length value \<le> 64 \<and> schemaKeyPattern value"

definition validName :: "string \<Rightarrow> bool" where
  "validName value \<longleftrightarrow> TrimSpace value \<noteq> '''' \<and> RuneCountInString value \<le> 64"

section \<open>Schemas\<close>

record schema =
  structures :: "(string \<times> Structure) list"
  enums :: "(string \<times> ConfigEnum) list"

definition validateType :: "schema \<Rightarrow> field_type option \<Rightarrow> unit result" where
  "validateType s t =
     (case t of
        None \<Rightarrow> Inl (Invalid ''field type is required'')
      | Some None \<Rightarrow> Inl (Invalid ''field type is required'')
      | Some (Some (BaseType b)) \<Rightarrow>
          if b < Field_STRING \<or> b > Field_FILE then Inl (Invalid ''unsupported base type'') else Inr ()
      | Some (Some (StructureKey k)) \<Rightarrow>
          if map_of (structures s) k = None
          then Inl (Invalid (''referenced structure '' @ k @ '' does not exist'')) else Inr ()
      | Some (Some (EnumKey k)) \<Rightarrow>
          if map_of (enums s) k = None
          then Inl (Invalid (''referenced enum '' @ k @ '' does not exist'')) else Inr ())"

fun enum_values_loop :: "string \<Rightarrow> string set \<Rightarrow> SelectOption option list \<Rightarrow> unit result" where
  "enum_values_loop key seen [] = Inr ()"
| "enum_values_loop key seen (opt # opts) =
     (case opt of
        None \<Rightarrow> Inl (Invalid (''enum '' @ key @ '' contains an invalid or duplicate value''))
      | Some v \<Rightarrow>
          if \<not> enumValuePattern (Option_Value v) \<or> \<not> validName (Option_Label v) \<or>
             RuneCountInString (Option_Description v) > 255 \<or> set_Contains seen (Option_Value v)
          then Inl (Invalid (''enum '' @ key @ '' contains an invalid or duplicate value''))
          else enum_values_loop key (set_Add seen [Option_Value v]) opts)"

definition validateEnumValues :: "ConfigEnum \<Rightarrow> unit result" where
  "validateEnumValues item = enum_values_loop (Enum_Key item) (set_New []) (Enum_Values item)"

fun structure_fields_loop ::
  "schema \<Rightarrow> string \<Rightarrow> string set \<Rightarrow> Field option list \<Rightarrow> unit result" where
  "structure_fields_loop s key seen [] = Inr ()"
| "structure_fields_loop s key seen (fld # flds) =
     (case fld of
        None \<Rightarrow> Inl (Invalid (''structure '' @ key @ '' contains an invalid or duplicate field''))
      | Some f \<Rightarrow>
          if \<not> validKey (Field_Key f) \<or> \<not> validName (Field_Name f) \<or>
             RuneCountInString (Field_Description f) > 255 \<or> set_Contains seen (Field_Key f)
          then Inl (Invalid (''structure '' @ key @ '' contains an invalid or duplicate field''))
          else bindR (validateType s (Field_Type f)) (\<lambda>_.
               structure_fields_loop s key (set_Add seen [Field_Key f]) flds))"

definition validateStructureFields :: "schema \<Rightarrow> Structure \<Rightarrow> unit result" where
  "validateStructureFields s item =
     structure_fields_loop s (Structure_Key item) (set_New []) (Structure_Fields item)"

fun join :: "string \<Rightarrow> string list \<Rightarrow> string" where
  "join sep [] = []"
| "join sep [x] = x"
| "join sep (x # y # xs) = x @ sep @ join sep (y # xs)"

lemma bindR_cong [fundef_cong]:
  "r = r' \<Longrightarrow> (\<And>a. r' = Inr a \<Longrightarrow> f a = g a) \<Longrightarrow> bindR r f = bindR r' g"
  by (cases r') auto

definition keys_outside :: "schema \<Rightarrow> string set \<Rightarrow> nat" where
  "keys_outside s p = card (fst ` set (structures s) - p)"

lemma keys_outside_less [termination_simp]:
  assumes "map_of (structures s) k = Some v" "k \<notin> p"
  shows "keys_outside s (insert k p) < keys_outside s p"
proof -
  have "k \<in> fst ` set (structures s) - p"
    using assms map_of_SomeD [of "structures s" k v] by force
  moreover have "fst ` set (structures s) - insert k p = (fst ` set (structures s) - p) - {k}"
    by blast
  ultimately show ?thesis
    unfolding keys_outside_def by (metis List.finite_set card_Diff1_less finite_Diff finite_imageI)
qed

text \<open>
  The depth-first search of \<^verbatim>\<open>validateCycles\<close>. Its set \<open>visiting\<close> is restored when a call returns, so
  the model passes it down; \<open>visited\<close> is threaded through.
\<close>

function walk ::
  "schema \<Rightarrow> string set \<Rightarrow> string set \<Rightarrow> string \<Rightarrow> string list \<Rightarrow> string set result"
  and walk_fields ::
  "schema \<Rightarrow> string set \<Rightarrow> string set \<Rightarrow> Field option list \<Rightarrow> string list \<Rightarrow> string set result" where
  "walk s visiting visited key path =
     (if key \<in> visiting
      then Inl (Conflict (''structure cycle: '' @ join '' -> '' (path @ [key])))
      else if key \<in> visited then Inr visited
      else case map_of (structures s) key of
             None \<Rightarrow> Inl (Panic ''nil structure'')
           | Some st \<Rightarrow>
               bindR (walk_fields s (insert key visiting) visited (Structure_Fields st) (path @ [key]))
                 (\<lambda>visited'. Inr (insert key visited')))"
| "walk_fields s visiting visited [] path = Inr visited"
| "walk_fields s visiting visited (fld # flds) path =
     (if GetStructureKey (GetType fld) = '''' then walk_fields s visiting visited flds path
      else bindR (walk s visiting visited (GetStructureKey (GetType fld)) path) (\<lambda>visited'.
           walk_fields s visiting visited' flds path))"
  by pat_completeness auto
termination
  by (relation "measures [\<lambda>x. case x of Inl (s, vg, _) \<Rightarrow> keys_outside s vg | Inr (s, vg, _) \<Rightarrow> keys_outside s vg,
      \<lambda>x. case x of Inl _ \<Rightarrow> 0 | Inr (_, _, _, fs, _) \<Rightarrow> Suc (length fs)]")
    (auto simp: keys_outside_less)

declare walk.simps [simp del]

fun walk_keys :: "schema \<Rightarrow> string set \<Rightarrow> string list \<Rightarrow> unit result" where
  "walk_keys s visited [] = Inr ()"
| "walk_keys s visited (k # ks) =
     bindR (walk s (set_New []) visited k []) (\<lambda>visited'. walk_keys s visited' ks)"

definition validateCycles :: "(string list \<Rightarrow> string list) \<Rightarrow> schema \<Rightarrow> unit result" where
  "validateCycles iter s = walk_keys s (set_New []) (iter (map fst (structures s)))"

fun collect_structures ::
  "(string \<times> Structure) list \<Rightarrow> Structure option list \<Rightarrow> (string \<times> Structure) list result" where
  "collect_structures acc [] = Inr acc"
| "collect_structures acc (x # xs) =
     (case x of
        None \<Rightarrow> Inl (Invalid ''structure key is required'')
      | Some item \<Rightarrow>
          if \<not> validKey (Structure_Key item) \<or> \<not> validName (Structure_Name item) \<or>
             RuneCountInString (Structure_Description item) > 255
          then Inl (Invalid ''structure key is required'')
          else if map_of acc (Structure_Key item) \<noteq> None
          then Inl (Conflict (''duplicate structure key '' @ Structure_Key item))
          else collect_structures (acc @ [(Structure_Key item, item)]) xs)"

fun collect_enums ::
  "(string \<times> ConfigEnum) list \<Rightarrow> ConfigEnum option list \<Rightarrow> (string \<times> ConfigEnum) list result" where
  "collect_enums acc [] = Inr acc"
| "collect_enums acc (x # xs) =
     (case x of
        None \<Rightarrow> Inl (Invalid ''enum key and values are required'')
      | Some item \<Rightarrow>
          if \<not> validKey (Enum_Key item) \<or> \<not> validName (Enum_Name item) \<or>
             RuneCountInString (Enum_Description item) > 255 \<or> Enum_Values item = []
          then Inl (Invalid ''enum key and values are required'')
          else if map_of acc (Enum_Key item) \<noteq> None
          then Inl (Conflict (''duplicate enum key '' @ Enum_Key item))
          else bindR (validateEnumValues item) (\<lambda>_. collect_enums (acc @ [(Enum_Key item, item)]) xs))"

definition NewSchema ::
  "(string list \<Rightarrow> string list) \<Rightarrow> Structure option list \<Rightarrow> ConfigEnum option list \<Rightarrow> schema result" where
  "NewSchema iter ss es =
     bindR (collect_structures [] ss) (\<lambda>sm.
     bindR (collect_enums [] es) (\<lambda>em.
     let result = \<lparr>structures = sm, enums = em\<rparr> in
     bindR (checkR (\<lambda>x. case x of None \<Rightarrow> Inl (Panic ''nil structure'')
                               | Some item \<Rightarrow> validateStructureFields result item) ss) (\<lambda>_.
     bindR (validateCycles iter result) (\<lambda>_.
     Inr result))))"

end
