(* ===== verification/Schema_Values.thy ===== *)
theory Schema_Values
  imports Schema "HOL-Library.Char_ord" "HOL-Library.List_Lexorder"
begin

text \<open>
  The operations of a \<^verbatim>\<open>Schema\<close> that run after construction (\<^verbatim>\<open>server/internal/entity/schema.go\<close>):
  \<^verbatim>\<open>ValidateConfig\<close> with its recursive value check, \<^verbatim>\<open>DefaultValue\<close>, \<^verbatim>\<open>BuildTree\<close> and
  \<^verbatim>\<open>FilterStructureChoices\<close>. The set of structures on the current path, which the code adds to and
  removes from, is passed down.
\<close>

section \<open>Value validation\<close>

definition validTime :: "json \<Rightarrow> layout \<Rightarrow> bool" where
  "validTime value l = (case value of JString text \<Rightarrow> time_Parse_ok l text | _ \<Rightarrow> False)"

definition validRange :: "json \<Rightarrow> layout \<Rightarrow> bool" where
  "validRange value l = (case value of JArray [a, b] \<Rightarrow> validTime a l \<and> validTime b l | _ \<Rightarrow> False)"

definition base_value_ok :: "int \<Rightarrow> json \<Rightarrow> bool" where
  "base_value_ok b value =
     (if b \<in> {Field_STRING, Field_IMAGE, Field_VIDEO, Field_FILE}
      then (case value of JString _ \<Rightarrow> True | _ \<Rightarrow> False)
      else if b = Field_INT then (case value of JNumber n \<Rightarrow> ParseInt64 n \<noteq> None | _ \<Rightarrow> False)
      else if b = Field_DECIMAL then (case value of JNumber n \<Rightarrow> ParseFloat64_ok n | _ \<Rightarrow> False)
      else if b = Field_BOOLEAN then (case value of JBool _ \<Rightarrow> True | _ \<Rightarrow> False)
      else if b = Field_DATE then validTime value DateLayout
      else if b = Field_TIME then validTime value TimeLayout
      else if b = Field_DATETIME then validTime value DateTimeLayout
      else if b = Field_DATE_RANGE then validRange value DateLayout
      else if b = Field_TIME_RANGE then validRange value TimeLayout
      else if b = Field_DATETIME_RANGE then validRange value DateTimeLayout
      else False)"

definition validateBaseValue :: "int \<Rightarrow> json \<Rightarrow> string \<Rightarrow> unit result" where
  "validateBaseValue b value path =
     (if base_value_ok b value then Inr ()
      else Inl (Invalid (path @ '' does not match '' @ base_type_name b)))"

fun enum_option_loop :: "string \<Rightarrow> string \<Rightarrow> SelectOption option list \<Rightarrow> unit result" where
  "enum_option_loop text path [] = Inl (Invalid (path @ '' contains an unknown enum value''))"
| "enum_option_loop text path (opt # opts) =
     (case opt of
        None \<Rightarrow> Inl (Panic ''nil option'')
      | Some v \<Rightarrow> if Option_Value v = text then Inr () else enum_option_loop text path opts)"

definition validateEnumValue :: "schema \<Rightarrow> string \<Rightarrow> json \<Rightarrow> string \<Rightarrow> unit result" where
  "validateEnumValue s key value path =
     (case value of
        JString text \<Rightarrow>
          (case map_of (enums s) key of
             None \<Rightarrow> Inl (Panic ''nil enum'')
           | Some e \<Rightarrow> enum_option_loop text path (Enum_Values e))
      | _ \<Rightarrow> Inl (Invalid (path @ '' must be an enum string'')))"

lemma map_of_size [termination_simp]:
  "map_of obj k = Some v \<Longrightarrow> size v < size_list (size_prod (\<lambda>x. 0) size) obj"
  by (induction obj) (auto split: if_splits)

text \<open>
  \<^verbatim>\<open>validateValue\<close> with \<^verbatim>\<open>validateArrayValue\<close> (its loop is \<open>validate_items\<close>) and
  \<^verbatim>\<open>validateStructureValue\<close> (its loop is \<open>validate_fields\<close>); every recursive call is on a part of the
  decoded value.
\<close>

definition itemField :: "Field \<Rightarrow> Field" where
  "itemField f = \<lparr>Field_Key = Field_Key f, Field_Name = Field_Name f,
     Field_Description = Field_Description f, Field_IsArray = False, Field_Type = Field_Type f\<rparr>"

function validateValue ::
  "schema \<Rightarrow> Field \<Rightarrow> json \<Rightarrow> string \<Rightarrow> string set \<Rightarrow> unit result"
  and validate_items ::
  "schema \<Rightarrow> Field \<Rightarrow> int \<Rightarrow> json list \<Rightarrow> string \<Rightarrow> string set \<Rightarrow> unit result"
  and validate_fields ::
  "schema \<Rightarrow> Field option list \<Rightarrow> (string \<times> json) list \<Rightarrow> string \<Rightarrow> string set \<Rightarrow> unit result" where
  "validateValue s f value path structs =
     (if Field_IsArray f
      then (case value of
              JArray items \<Rightarrow> validate_items s (itemField f) 0 items path structs
            | _ \<Rightarrow> Inl (Invalid (path @ '' must be an array'')))
      else (case Field_Type f of
              None \<Rightarrow> Inl (Panic ''nil field type'')
            | Some None \<Rightarrow> Inl (Invalid (path @ '' has no field type''))
            | Some (Some (BaseType b)) \<Rightarrow> validateBaseValue b value path
            | Some (Some (EnumKey key)) \<Rightarrow> validateEnumValue s key value path
            | Some (Some (StructureKey key)) \<Rightarrow>
                (case value of
                   JObject obj \<Rightarrow>
                     if key \<in> structs then Inl (Conflict (''structure cycle contains '' @ key))
                     else (case map_of (structures s) key of
                             None \<Rightarrow> Inl (Panic ''nil structure'')
                           | Some st \<Rightarrow>
                               if obj_len obj \<noteq> length (Structure_Fields st)
                               then Inl (Invalid (path @ '' does not match structure '' @ key))
                               else validate_fields s (Structure_Fields st) obj path (insert key structs))
                 | _ \<Rightarrow> Inl (Invalid (path @ '' must be an object'')))))"
| "validate_items s f i [] path structs = Inr ()"
| "validate_items s f i (item # items) path structs =
     bindR (validateValue s f item (path @ ''['' @ FormatInt i @ '']'') structs) (\<lambda>_.
       validate_items s f (i + 1) items path structs)"
| "validate_fields s [] obj path structs = Inr ()"
| "validate_fields s (fld # flds) obj path structs =
     (case fld of
        None \<Rightarrow> Inl (Panic ''nil field'')
      | Some child \<Rightarrow>
          (case map_of obj (Field_Key child) of
             None \<Rightarrow> Inl (Invalid (path @ ''.'' @ Field_Key child @ '' is required''))
           | Some v \<Rightarrow>
               bindR (validateValue s child v (path @ ''.'' @ Field_Key child) structs) (\<lambda>_.
                 validate_fields s flds obj path structs)))"
  by pat_completeness auto
termination
  by (relation "measures [\<lambda>x. case x of Inl (_, _, v, _) \<Rightarrow> size v
        | Inr (Inl (_, _, _, vs, _)) \<Rightarrow> size_list size vs
        | Inr (Inr (_, _, obj, _)) \<Rightarrow> size_list (size_prod (\<lambda>x. 0) size) obj,
      \<lambda>x. case x of Inl _ \<Rightarrow> 0 | Inr (Inl _) \<Rightarrow> 0 | Inr (Inr (_, fs, _)) \<Rightarrow> length fs]")
    (auto simp: map_of_size)

declare validateValue.simps [simp del]

definition ValidateConfig :: "schema \<Rightarrow> Config option \<Rightarrow> unit result" where
  "ValidateConfig s config =
     (case config of
        None \<Rightarrow> Inl (Invalid ''config and type are required'')
      | Some c \<Rightarrow>
          if Config_Type c = None \<or> \<not> validKey (Config_Key c)
          then Inl (Invalid ''config and type are required'')
          else bindR (validateType s (Config_Type c)) (\<lambda>_.
               case decodeJSON (Config_Value c) of
                 Inl _ \<Rightarrow> Inl (Invalid ''config value is not valid JSON'')
               | Inr value \<Rightarrow>
                   validateValue s
                     \<lparr>Field_Key = Config_Key c, Field_Name = Config_Key c, Field_Description = '''',
                      Field_IsArray = Config_IsArray c, Field_Type = Config_Type c\<rparr>
                     value ''$'' (set_New [])))"

section \<open>Default values\<close>

definition obj_put :: "(string \<times> json) list \<Rightarrow> string \<Rightarrow> json \<Rightarrow> (string \<times> json) list" where
  "obj_put obj k v = filter (\<lambda>p. fst p \<noteq> k) obj @ [(k, v)]"

definition default_base_value :: "int \<Rightarrow> json" where
  "default_base_value b =
     (if b = Field_INT \<or> b = Field_DECIMAL then JNumber ''0''
      else if b = Field_BOOLEAN then JBool False
      else if b = Field_TIME_RANGE \<or> b = Field_DATE_RANGE \<or> b = Field_DATETIME_RANGE then JArray []
      else JString '''')"

function defaultValue :: "schema \<Rightarrow> Field \<Rightarrow> string set \<Rightarrow> json result"
  and default_fields ::
  "schema \<Rightarrow> Field option list \<Rightarrow> (string \<times> json) list \<Rightarrow> string set \<Rightarrow> json result" where
  "defaultValue s f structs =
     (if Field_IsArray f then Inr (JArray [])
      else (case Field_Type f of
              None \<Rightarrow> Inl (Panic ''nil field type'')
            | Some None \<Rightarrow> Inl (Invalid ''field type is required'')
            | Some (Some (BaseType b)) \<Rightarrow> Inr (default_base_value b)
            | Some (Some (EnumKey key)) \<Rightarrow>
                (case map_of (enums s) key of
                   None \<Rightarrow> Inl (Panic ''nil enum'')
                 | Some e \<Rightarrow>
                     (case Enum_Values e of
                        Some v # _ \<Rightarrow> Inr (JString (Option_Value v))
                      | _ \<Rightarrow> Inl (Panic ''no enum value'')))
            | Some (Some (StructureKey key)) \<Rightarrow>
                if key \<in> structs then Inl (Conflict (''structure cycle contains '' @ key))
                else (case map_of (structures s) key of
                        None \<Rightarrow> Inl (Panic ''nil structure'')
                      | Some st \<Rightarrow> default_fields s (Structure_Fields st) [] (insert key structs))))"
| "default_fields s [] acc structs = Inr (JObject acc)"
| "default_fields s (fld # flds) acc structs =
     (case fld of
        None \<Rightarrow> Inl (Panic ''nil field'')
      | Some child \<Rightarrow>
          bindR (defaultValue s child structs) (\<lambda>v.
            default_fields s flds (obj_put acc (Field_Key child) v) structs))"
  by pat_completeness auto
termination
  by (relation "measures [\<lambda>x. case x of Inl (s, _, p) \<Rightarrow> keys_outside s p | Inr (s, _, _, p) \<Rightarrow> keys_outside s p,
      \<lambda>x. case x of Inl _ \<Rightarrow> 0 | Inr (_, fs, _) \<Rightarrow> Suc (length fs)]")
    (auto simp: keys_outside_less)

declare defaultValue.simps [simp del]

text \<open>\<^verbatim>\<open>json.Marshal\<close> on the values built above: sorted object keys, HTML-safe string escapes.\<close>

definition hex_digit :: "int \<Rightarrow> char" where
  "hex_digit d = (if d < 10 then char_of (48 + d) else char_of (87 + d))"

definition hex4 :: "int \<Rightarrow> string" where
  "hex4 n = [backslash, CHR ''u'', hex_digit (n div 4096), hex_digit (n div 256 mod 16),
             hex_digit (n div 16 mod 16), hex_digit (n mod 16)]"

definition escape_rune :: "int \<times> string \<Rightarrow> string" where
  "escape_rune p = (case p of (r, bytes) \<Rightarrow>
     if r = 34 \<or> r = 92 then [backslash, char_of r]
     else if r = 8 then [backslash, CHR ''b'']
     else if r = 12 then [backslash, CHR ''f'']
     else if r = 10 then [backslash, CHR ''n'']
     else if r = 13 then [backslash, CHR ''r'']
     else if r = 9 then [backslash, CHR ''t'']
     else if r < 32 \<or> r = 60 \<or> r = 62 \<or> r = 38 \<or> r = 8232 \<or> r = 8233 then hex4 r
     else if r = RuneError \<and> length bytes = 1 then hex4 RuneError
     else bytes)"

definition marshal_string :: "string \<Rightarrow> string" where
  "marshal_string s = [quote_char] @ concat (map escape_rune (runes s)) @ [quote_char]"

fun Marshal :: "json \<Rightarrow> string" where
  "Marshal JNull = ''null''"
| "Marshal (JBool b) = (if b then ''true'' else ''false'')"
| "Marshal (JNumber n) = n"
| "Marshal (JString s) = marshal_string s"
| "Marshal (JArray vs) = ''['' @ join '','' (map Marshal vs) @ '']''"
| "Marshal (JObject ms) =
     ''{'' @ join '','' (map (\<lambda>p. marshal_string (fst p) @ '':'' @ snd p)
       (sort_key fst (map (\<lambda>p. (fst p, Marshal (snd p))) ms))) @ ''}''"

definition DefaultValue :: "schema \<Rightarrow> field_type option \<Rightarrow> bool \<Rightarrow> string result" where
  "DefaultValue s configType isArray =
     bindR (validateType s configType) (\<lambda>_.
     bindR (defaultValue s
              \<lparr>Field_Key = ''value'', Field_Name = ''value'', Field_Description = '''',
               Field_IsArray = isArray, Field_Type = configType\<rparr> (set_New [])) (\<lambda>value.
     Inr (Marshal value)))"

section \<open>The editor tree\<close>

function children :: "schema \<Rightarrow> field_type option \<Rightarrow> string set \<Rightarrow> tree_node list result"
  and children_fields :: "schema \<Rightarrow> Field option list \<Rightarrow> string set \<Rightarrow> tree_node list result" where
  "children s t path =
     (let key = GetStructureKey t in
      if key = '''' then Inr []
      else if key \<in> path then Inl (Conflict (''structure cycle contains '' @ key))
      else (case map_of (structures s) key of
              None \<Rightarrow> Inl (Panic ''nil structure'')
            | Some st \<Rightarrow> children_fields s (Structure_Fields st) (insert key path)))"
| "children_fields s [] path = Inr []"
| "children_fields s (fld # flds) path =
     (case fld of
        None \<Rightarrow> Inl (Panic ''nil field'')
      | Some f \<Rightarrow>
          bindR (children s (Field_Type f) path) (\<lambda>cs.
          bindR (children_fields s flds path) (\<lambda>ns. Inr (TreeNode f cs # ns))))"
  by pat_completeness auto
termination
  by (relation "measures [\<lambda>x. case x of Inl (s, _, p) \<Rightarrow> keys_outside s p | Inr (s, _, p) \<Rightarrow> keys_outside s p,
      \<lambda>x. case x of Inl _ \<Rightarrow> 0 | Inr (_, fs, _) \<Rightarrow> Suc (length fs)]")
    (auto simp: keys_outside_less)

declare children.simps [simp del]

text \<open>The display name of the root node, three Chinese characters in UTF-8.\<close>

definition root_name :: string where
  "root_name = [CHR 0xE9, CHR 0x85, CHR 0x8D, CHR 0xE7, CHR 0xBD, CHR 0xAE, CHR 0xE5, CHR 0x80, CHR 0xBC]"

definition BuildTree :: "schema \<Rightarrow> Config option \<Rightarrow> tree_node result" where
  "BuildTree s config =
     (case config of
        None \<Rightarrow> Inl (Invalid ''config and type are required'')
      | Some c \<Rightarrow>
          if Config_Type c = None then Inl (Invalid ''config and type are required'')
          else bindR (validateType s (Config_Type c)) (\<lambda>_.
               bindR (children s (Config_Type c) (set_New [])) (\<lambda>cs.
               Inr (TreeNode
                 \<lparr>Field_Key = Config_Key c, Field_Name = root_name,
                  Field_Description = Config_Description c, Field_IsArray = Config_IsArray c,
                  Field_Type = Config_Type c\<rparr> cs))))"

section \<open>Structure choices\<close>

definition referencesRejectedStructure :: "Structure \<Rightarrow> string set \<Rightarrow> bool" where
  "referencesRejectedStructure item rejected \<longleftrightarrow>
     list_ex (\<lambda>f. set_Contains rejected (GetStructureKey (GetType f))) (Structure_Fields item)"

fun rejectDependentStructures :: "Structure list \<Rightarrow> string set \<Rightarrow> bool \<Rightarrow> string set \<times> bool" where
  "rejectDependentStructures [] rejected changed = (rejected, changed)"
| "rejectDependentStructures (item # items) rejected changed =
     (if set_Contains rejected (Structure_Key item) \<or> \<not> referencesRejectedStructure item rejected
      then rejectDependentStructures items rejected changed
      else rejectDependentStructures items (set_Add rejected [Structure_Key item]) True)"

definition choices_left :: "Structure list \<Rightarrow> string set \<Rightarrow> nat" where
  "choices_left items rejected = card (Structure_Key ` set items - rejected)"

lemma reject_pass_grows:
  "rejectDependentStructures items r c = (r', c') \<Longrightarrow> r \<subseteq> r' \<and> (c \<longrightarrow> c')"
  by (induction items r c rule: rejectDependentStructures.induct) (auto split: if_splits)

lemma reject_pass_changed:
  "rejectDependentStructures items r False = (r', True) \<Longrightarrow>
   \<exists>k \<in> Structure_Key ` set items. k \<in> r' \<and> k \<notin> r"
proof (induction items arbitrary: r)
  case (Cons item items)
  show ?case
  proof (cases "Structure_Key item \<in> r \<or> \<not> referencesRejectedStructure item r")
    case True
    with Cons show ?thesis by (auto split: if_splits)
  next
    case False
    with Cons.prems have "rejectDependentStructures items (insert (Structure_Key item) r) True = (r', True)"
      by simp
    with reject_pass_grows False show ?thesis by fastforce
  qed
qed simp

lemma choices_left_less [termination_simp]:
  assumes "rejectDependentStructures items r False = (r', True)"
  shows "choices_left items r' < choices_left items r"
proof -
  have "Structure_Key ` set items - r' \<subset> Structure_Key ` set items - r"
    using reject_pass_grows [OF assms] reject_pass_changed [OF assms] by blast
  then show ?thesis unfolding choices_left_def by (intro psubset_card_mono) auto
qed

function reject_loop :: "Structure list \<Rightarrow> string set \<Rightarrow> string set" where
  "reject_loop items rejected =
     (case rejectDependentStructures items rejected False of
        (rejected', changed) \<Rightarrow> if changed then reject_loop items rejected' else rejected')"
  by pat_completeness auto
termination
  by (relation "measure (\<lambda>(items, r). choices_left items r)")
    (auto simp: choices_left_less dest: sym)

declare reject_loop.simps [simp del]

definition FilterStructureChoices :: "Structure list \<Rightarrow> int \<Rightarrow> Structure list result" where
  "FilterStructureChoices items ignoreID =
     (if ignoreID \<le> 0 then Inr items
      else case find (\<lambda>item. Structure_Id item = ignoreID) items of
             None \<Rightarrow> Inr items
           | Some ignored \<Rightarrow>
               (let rejected = reject_loop items (set_New [Structure_Key ignored])
                in Inr (filter (\<lambda>item. \<not> set_Contains rejected (Structure_Key item)) items)))"

end
