(* ===== verification/Schema_Props.thy ===== *)
theory Schema_Props
  imports Schema_Values
begin

text \<open>
  What a schema built by \<^verbatim>\<open>NewSchema\<close> guarantees: the exact acceptance condition (unique valid keys,
  resolved references, no reference cycle), independence from the iteration order of Go maps, total
  correctness of the editor tree and of default values, and the equivalence of the recursive value
  check with a declarative conformance relation.
\<close>

section \<open>The reference graph\<close>

definition refgraph :: "schema \<Rightarrow> (string \<times> string) set" where
  "refgraph s = {(k, d). \<exists>st f. map_of (structures s) k = Some st \<and> f \<in> set (Structure_Fields st) \<and>
     GetStructureKey (GetType f) = d \<and> d \<noteq> ''''}"

definition settled :: "schema \<Rightarrow> string set \<Rightarrow> bool" where
  "settled s V \<longleftrightarrow> (\<forall>k \<in> V. refgraph s `` {k} \<subseteq> V \<and> (k, k) \<notin> (refgraph s)\<^sup>+)"

definition field_refs :: "Field option list \<Rightarrow> string set" where
  "field_refs fs = {GetStructureKey (GetType f) | f. f \<in> set fs} - {''''}"

lemma refgraph_Image:
  "map_of (structures s) k = Some st \<Longrightarrow> refgraph s `` {k} = field_refs (Structure_Fields st)"
  by (auto simp: refgraph_def field_refs_def)

lemma field_refs_simps [simp]:
  "field_refs [] = {}"
  "field_refs (f # fs) = (if GetStructureKey (GetType f) = '''' then field_refs fs
     else insert (GetStructureKey (GetType f)) (field_refs fs))"
  by (auto simp: field_refs_def)

lemma trancl_stays:
  assumes "(a, b) \<in> r\<^sup>+" "a \<in> V" "\<And>k. k \<in> V \<Longrightarrow> r `` {k} \<subseteq> V"
  shows "b \<in> V"
  using assms by (induction rule: trancl_induct) auto

lemma settled_insert:
  assumes "settled s V" "refgraph s `` {k} \<subseteq> V" "k \<notin> V"
  shows "settled s (insert k V)"
proof -
  have "(k, k) \<notin> (refgraph s)\<^sup>+"
  proof
    assume "(k, k) \<in> (refgraph s)\<^sup>+"
    then obtain d where d: "(k, d) \<in> refgraph s" "(d, k) \<in> (refgraph s)\<^sup>*"
      by (blast dest: tranclD)
    then have "d \<in> V" using assms(2) by auto
    with d(2) have "k \<in> V"
      using trancl_stays [of d k "refgraph s" V] assms(1) by (auto simp: settled_def dest!: rtranclD)
    with assms(3) show False ..
  qed
  with assms show ?thesis by (auto simp: settled_def)
qed

lemma walk_settles:
  "settled s V \<Longrightarrow> walk s vg V k p = Inr V' \<Longrightarrow>
     settled s V' \<and> V \<subseteq> V' \<and> k \<in> V' \<and> V' \<inter> vg \<subseteq> V"
  "settled s V \<Longrightarrow> walk_fields s vg V fs p = Inr V' \<Longrightarrow>
     settled s V' \<and> V \<subseteq> V' \<and> field_refs fs \<subseteq> V' \<and> V' \<inter> vg \<subseteq> V"
proof (induction s vg V k p and s vg V fs p arbitrary: V' and V' rule: walk_walk_fields.induct)
  case (1 s vg V k p)
  show ?case
  proof (cases "k \<in> V")
    case True
    with 1 show ?thesis by (auto simp: walk.simps split: if_splits)
  next
    case False
    with 1(3) obtain st W where st: "map_of (structures s) k = Some st" "k \<notin> vg"
      and W: "walk_fields s (insert k vg) V (Structure_Fields st) (p @ [k]) = Inr W" "V' = insert k W"
      by (auto simp: walk.simps bindR_Inr_iff split: if_splits option.splits)
    have IH: "settled s W" "V \<subseteq> W" "field_refs (Structure_Fields st) \<subseteq> W" "W \<inter> insert k vg \<subseteq> V"
      using 1(1) [OF st(2) False st(1) 1(2) W(1)] by auto
    then have "settled s V'"
      using False W(2) settled_insert [of s W k] by (auto simp: refgraph_Image [OF st(1)])
    with IH W(2) st(2) show ?thesis by auto
  qed
next
  case (2 s vg V p)
  then show ?case by simp
next
  case (3 s vg V f fs p)
  show ?case
  proof (cases "GetStructureKey (GetType f) = ''''")
    case True
    with 3(1,4,5) show ?thesis by simp
  next
    case False
    with 3(5) obtain W where W: "walk s vg V (GetStructureKey (GetType f)) p = Inr W"
      "walk_fields s vg W fs p = Inr V'"
      by (auto simp: bindR_Inr_iff)
    from 3(2) [OF False 3(4) W(1)] 3(3) [OF False W(1) _ W(2)] False show ?thesis by auto
  qed
qed

definition refs_exist :: "schema \<Rightarrow> bool" where
  "refs_exist s \<longleftrightarrow> Range (refgraph s) \<subseteq> dom (map_of (structures s))"

lemma walk_returns:
  "acyclic (refgraph s) \<Longrightarrow> refs_exist s \<Longrightarrow> k \<in> dom (map_of (structures s)) \<Longrightarrow>
     (\<And>v. v \<in> vg \<Longrightarrow> (v, k) \<in> (refgraph s)\<^sup>+) \<Longrightarrow> \<exists>V'. walk s vg V k p = Inr V'"
  "acyclic (refgraph s) \<Longrightarrow> refs_exist s \<Longrightarrow> field_refs fs \<subseteq> dom (map_of (structures s)) \<Longrightarrow>
     (\<And>v d. v \<in> vg \<Longrightarrow> d \<in> field_refs fs \<Longrightarrow> (v, d) \<in> (refgraph s)\<^sup>+) \<Longrightarrow>
     \<exists>V'. walk_fields s vg V fs p = Inr V'"
proof (induction s vg V k p and s vg V fs p rule: walk_walk_fields.induct)
  case (1 s vg V k p)
  obtain st where st: "map_of (structures s) k = Some st" using 1(4) by blast
  have edge: "(k, d) \<in> refgraph s" if "d \<in> field_refs (Structure_Fields st)" for d
    using that refgraph_Image [OF st] by blast
  have nv: "k \<notin> vg" using 1(2,5) by (auto simp: acyclic_def)
  show ?case
  proof (cases "k \<in> V")
    case True
    with nv show ?thesis by (simp add: walk.simps)
  next
    case False
    have "\<exists>W. walk_fields s (insert k vg) V (Structure_Fields st) (p @ [k]) = Inr W"
    proof (rule 1(1) [OF nv False st])
      show "field_refs (Structure_Fields st) \<subseteq> dom (map_of (structures s))"
        using edge 1(3) by (force simp: refs_exist_def)
    next
      fix v d assume "v \<in> insert k vg" "d \<in> field_refs (Structure_Fields st)"
      then show "(v, d) \<in> (refgraph s)\<^sup>+"
        using edge 1(5) by (auto intro: trancl_into_trancl)
    qed (use 1 in auto)
    then show ?thesis using nv False st by (auto simp: walk.simps)
  qed
next
  case (2 s vg V p)
  then show ?case by simp
next
  case (3 s vg V f fs p)
  show ?case
  proof (cases "GetStructureKey (GetType f) = ''''")
    case True
    with 3(1,4-7) show ?thesis by auto
  next
    case False
    then obtain W where W: "walk s vg V (GetStructureKey (GetType f)) p = Inr W"
      using 3(2) [OF False] 3(4-7) by auto
    with False 3(3) [OF False W] 3(4-7) show ?thesis by auto
  qed
qed

section \<open>Cycle detection\<close>

lemma walk_keys_settles:
  "settled s V \<Longrightarrow> walk_keys s V ks = Inr () \<Longrightarrow> \<exists>W. settled s W \<and> V \<subseteq> W \<and> set ks \<subseteq> W"
proof (induction ks arbitrary: V)
  case Nil
  then show ?case by auto
next
  case (Cons k ks)
  then obtain V' where V': "walk s {} V k [] = Inr V'" "walk_keys s V' ks = Inr ()"
    by (auto simp: bindR_Inr_iff)
  have w: "settled s V'" "V \<subseteq> V'" "k \<in> V'"
    using walk_settles(1) [OF Cons.prems(1) V'(1)] by auto
  from Cons.IH [OF w(1) V'(2)] obtain W where "settled s W" "V' \<subseteq> W" "set ks \<subseteq> W" by auto
  with w show ?case by (intro exI [of _ W]) auto
qed

lemma walk_keys_returns:
  assumes "acyclic (refgraph s)" "refs_exist s" "set ks \<subseteq> dom (map_of (structures s))"
  shows "walk_keys s V ks = Inr ()"
  using assms(3)
proof (induction ks arbitrary: V)
  case (Cons k ks)
  obtain V' where "walk s {} V k [] = Inr V'"
    using walk_returns(1) [OF assms(1,2), of k "{}" V "[]"] Cons.prems by fastforce
  with Cons show ?case by simp
qed simp

lemma refgraph_Domain: "Domain (refgraph s) \<subseteq> fst ` set (structures s)"
  by (auto simp: refgraph_def dest!: map_of_SomeD) force

lemma validateCycles_iff:
  assumes "map_iteration iter" "distinct (map fst (structures s))" "refs_exist s"
  shows "validateCycles iter s = Inr () \<longleftrightarrow> acyclic (refgraph s)"
proof
  assume "acyclic (refgraph s)"
  with assms show "validateCycles iter s = Inr ()"
    unfolding validateCycles_def
    by (intro walk_keys_returns) (auto simp: map_iteration_def dom_map_of_conv_image_fst)
next
  assume v: "validateCycles iter s = Inr ()"
  have "settled s {}" by (simp add: settled_def)
  from walk_keys_settles [OF this] v obtain W
    where W: "settled s W" "set (iter (map fst (structures s))) \<subseteq> W"
    by (auto simp: validateCycles_def)
  then have "Domain (refgraph s) \<subseteq> W"
    using assms(1,2) refgraph_Domain [of s] by (auto simp: map_iteration_def)
  then show "acyclic (refgraph s)"
    using W(1) unfolding acyclic_def settled_def by (meson Domain.DomainI subsetD tranclD)
qed

section \<open>Well-formed schemas\<close>

definition valid_field :: "schema \<Rightarrow> Field \<Rightarrow> bool" where
  "valid_field s f \<longleftrightarrow> validKey (Field_Key f) \<and> validName (Field_Name f) \<and>
     RuneCountInString (Field_Description f) \<le> 255 \<and> validateType s (Field_Type f) = Inr ()"

definition valid_structure :: "schema \<Rightarrow> Structure \<Rightarrow> bool" where
  "valid_structure s st \<longleftrightarrow> validKey (Structure_Key st) \<and> validName (Structure_Name st) \<and>
     RuneCountInString (Structure_Description st) \<le> 255 \<and>
     (\<exists>fs. Structure_Fields st = map Some fs \<and> distinct (map Field_Key fs) \<and>
           (\<forall>f \<in> set fs. valid_field s f))"

definition valid_option :: "SelectOption \<Rightarrow> bool" where
  "valid_option v \<longleftrightarrow> enumValuePattern (Option_Value v) \<and> validName (Option_Label v) \<and>
     RuneCountInString (Option_Description v) \<le> 255"

definition valid_enum :: "ConfigEnum \<Rightarrow> bool" where
  "valid_enum e \<longleftrightarrow> validKey (Enum_Key e) \<and> validName (Enum_Name e) \<and>
     RuneCountInString (Enum_Description e) \<le> 255 \<and>
     (\<exists>vs. Enum_Values e = map Some vs \<and> vs \<noteq> [] \<and> distinct (map Option_Value vs) \<and>
           (\<forall>v \<in> set vs. valid_option v))"

definition well_formed :: "schema \<Rightarrow> bool" where
  "well_formed s \<longleftrightarrow>
     distinct (map fst (structures s)) \<and> distinct (map fst (enums s)) \<and>
     (\<forall>(k, st) \<in> set (structures s). Structure_Key st = k \<and> valid_structure s st) \<and>
     (\<forall>(k, e) \<in> set (enums s). Enum_Key e = k \<and> valid_enum e) \<and>
     acyclic (refgraph s)"

lemma ex_map_Some_Cons:
  "(\<exists>ss. Some a # xs = map Some ss \<and> Q ss) \<longleftrightarrow> (\<exists>ss. xs = map Some ss \<and> Q (a # ss))"
  by (auto simp: Cons_eq_map_conv)

lemma enum_values_loop_iff:
  "enum_values_loop key seen opts = Inr () \<longleftrightarrow>
     (\<exists>vs. opts = map Some vs \<and> distinct (map Option_Value vs) \<and> (\<forall>v \<in> set vs. valid_option v) \<and>
        Option_Value ` set vs \<inter> seen = {})"
proof (induction opts arbitrary: seen)
  case (Cons x xs)
  show ?case
  proof (cases x)
    case None
    then show ?thesis by (auto simp: Cons_eq_map_conv)
  next
    case (Some v)
    have "(\<exists>vs. x # xs = map Some vs \<and> distinct (map Option_Value vs) \<and>
            (\<forall>v\<in>set vs. valid_option v) \<and> Option_Value ` set vs \<inter> seen = {}) \<longleftrightarrow>
          (\<exists>vs. xs = map Some vs \<and> distinct (map Option_Value (v # vs)) \<and>
            (\<forall>v\<in>set (v # vs). valid_option v) \<and> Option_Value ` set (v # vs) \<inter> seen = {})"
      using Some by (auto simp: Cons_eq_map_conv)
    also have "\<dots> \<longleftrightarrow> valid_option v \<and> Option_Value v \<notin> seen \<and>
          (\<exists>vs. xs = map Some vs \<and> distinct (map Option_Value vs) \<and> (\<forall>v\<in>set vs. valid_option v) \<and>
             Option_Value ` set vs \<inter> insert (Option_Value v) seen = {})"
      by auto
    finally show ?thesis using Some Cons.IH by (auto simp: valid_option_def not_less)
  qed
qed simp

lemma structure_fields_loop_iff:
  "structure_fields_loop s key seen flds = Inr () \<longleftrightarrow>
     (\<exists>fs. flds = map Some fs \<and> distinct (map Field_Key fs) \<and> (\<forall>f \<in> set fs. valid_field s f) \<and>
        Field_Key ` set fs \<inter> seen = {})"
proof (induction flds arbitrary: seen)
  case (Cons x xs)
  show ?case
  proof (cases x)
    case None
    then show ?thesis by (auto simp: Cons_eq_map_conv)
  next
    case (Some f)
    have "(\<exists>fs. x # xs = map Some fs \<and> distinct (map Field_Key fs) \<and>
            (\<forall>f\<in>set fs. valid_field s f) \<and> Field_Key ` set fs \<inter> seen = {}) \<longleftrightarrow>
          (\<exists>fs. xs = map Some fs \<and> distinct (map Field_Key (f # fs)) \<and>
            (\<forall>f\<in>set (f # fs). valid_field s f) \<and> Field_Key ` set (f # fs) \<inter> seen = {})"
      using Some by (auto simp: Cons_eq_map_conv)
    also have "\<dots> \<longleftrightarrow> valid_field s f \<and> Field_Key f \<notin> seen \<and>
          (\<exists>fs. xs = map Some fs \<and> distinct (map Field_Key fs) \<and> (\<forall>f\<in>set fs. valid_field s f) \<and>
             Field_Key ` set fs \<inter> insert (Field_Key f) seen = {})"
      by auto
    finally show ?thesis using Some Cons.IH
      by (auto simp: valid_field_def not_less bindR_Inr_iff)
  qed
qed simp

text \<open>The two loops that fill the maps of a schema have the same shape.\<close>

lemma collect_loop:
  assumes nil: "\<And>acc. F acc [] = Inr acc"
    and none: "\<And>acc xs r. F acc (None # xs) \<noteq> Inr r"
    and some: "\<And>acc x xs r. F acc (Some x # xs) = Inr r \<longleftrightarrow>
        ok x \<and> key x \<notin> fst ` set acc \<and> F (acc @ [(key x, x)]) xs = Inr r"
  shows "F acc xs = Inr r \<longleftrightarrow>
     (\<exists>ss. xs = map Some ss \<and> r = acc @ map (\<lambda>x. (key x, x)) ss \<and> distinct (map key ss) \<and>
        key ` set ss \<inter> fst ` set acc = {} \<and> (\<forall>x \<in> set ss. ok x))"
proof (induction xs arbitrary: acc)
  case Nil
  then show ?case by (auto simp: nil)
next
  case (Cons x xs)
  show ?case
  proof (cases x)
    case None
    then show ?thesis by (auto simp: none Cons_eq_map_conv)
  next
    case (Some a)
    have "(ok a \<and> key a \<notin> fst ` set acc) \<and> xs = map Some ss \<and>
        r = (acc @ [(key a, a)]) @ map (\<lambda>x. (key x, x)) ss \<and> distinct (map key ss) \<and>
        key ` set ss \<inter> fst ` set (acc @ [(key a, a)]) = {} \<and> (\<forall>x \<in> set ss. ok x) \<longleftrightarrow>
      xs = map Some ss \<and> r = acc @ map (\<lambda>x. (key x, x)) (a # ss) \<and> distinct (map key (a # ss)) \<and>
        key ` set (a # ss) \<inter> fst ` set acc = {} \<and> (\<forall>x \<in> set (a # ss). ok x)" for ss
      by auto
    then show ?thesis
      unfolding Some some Cons.IH ex_map_Some_Cons ex_simps(1,2) [symmetric] conj_assoc by presburger
  qed
qed

lemma collect_structures_iff:
  "collect_structures acc xs = Inr sm \<longleftrightarrow>
     (\<exists>ss. xs = map Some ss \<and> sm = acc @ map (\<lambda>st. (Structure_Key st, st)) ss \<and>
        distinct (map Structure_Key ss) \<and> Structure_Key ` set ss \<inter> fst ` set acc = {} \<and>
        (\<forall>st \<in> set ss. validKey (Structure_Key st) \<and> validName (Structure_Name st) \<and>
           RuneCountInString (Structure_Description st) \<le> 255))"
  by (rule collect_loop) (auto simp: map_of_eq_None_iff)

lemma validateEnumValues_iff:
  "validateEnumValues e = Inr u \<longleftrightarrow>
     (\<exists>vs. Enum_Values e = map Some vs \<and> distinct (map Option_Value vs) \<and> (\<forall>v \<in> set vs. valid_option v))"
  by (simp add: validateEnumValues_def enum_values_loop_iff)

lemma valid_enum_iff:
  "valid_enum e \<longleftrightarrow> validKey (Enum_Key e) \<and> validName (Enum_Name e) \<and>
     RuneCountInString (Enum_Description e) \<le> 255 \<and> Enum_Values e \<noteq> [] \<and> validateEnumValues e = Inr ()"
  by (auto simp: valid_enum_def validateEnumValues_iff)

lemma collect_enums_iff:
  "collect_enums acc xs = Inr em \<longleftrightarrow>
     (\<exists>es. xs = map Some es \<and> em = acc @ map (\<lambda>e. (Enum_Key e, e)) es \<and>
        distinct (map Enum_Key es) \<and> Enum_Key ` set es \<inter> fst ` set acc = {} \<and>
        (\<forall>e \<in> set es. valid_enum e))"
  by (rule collect_loop) (auto simp: map_of_eq_None_iff bindR_Inr_iff valid_enum_iff)

lemma validateStructureFields_iff:
  "validateStructureFields s st = Inr u \<longleftrightarrow>
     (\<exists>fs. Structure_Fields st = map Some fs \<and> distinct (map Field_Key fs) \<and> (\<forall>f \<in> set fs. valid_field s f))"
  by (simp add: validateStructureFields_def structure_fields_loop_iff)

lemma valid_structure_iff:
  "valid_structure s st \<longleftrightarrow> validKey (Structure_Key st) \<and> validName (Structure_Name st) \<and>
     RuneCountInString (Structure_Description st) \<le> 255 \<and> validateStructureFields s st = Inr ()"
  by (simp add: valid_structure_def validateStructureFields_iff)

lemma validateType_structure:
  "validateType s t = Inr () \<Longrightarrow> GetStructureKey t \<noteq> '''' \<Longrightarrow>
   GetStructureKey t \<in> dom (map_of (structures s))"
  by (auto simp: validateType_def GetStructureKey_def split: option.splits kind.splits if_splits)

lemma valid_structures_refs_exist:
  assumes "\<And>k st. map_of (structures s) k = Some st \<Longrightarrow> validateStructureFields s st = Inr ()"
  shows "refs_exist s"
  unfolding refs_exist_def
proof
  fix d assume "d \<in> Range (refgraph s)"
  then obtain k st f where st: "map_of (structures s) k = Some st" "f \<in> set (Structure_Fields st)"
    and d: "GetStructureKey (GetType f) = d" "d \<noteq> ''''"
    by (auto simp: refgraph_def)
  from assms [OF st(1)] st(2) obtain g where "f = Some g" "valid_field s g"
    by (auto simp: validateStructureFields_iff)
  with d show "d \<in> dom (map_of (structures s))"
    using validateType_structure [of s "Field_Type g"] by (auto simp: GetType_def valid_field_def)
qed

lemma well_formed_refs_exist: "well_formed s \<Longrightarrow> refs_exist s"
  by (rule valid_structures_refs_exist)
    (auto simp: well_formed_def valid_structure_iff dest!: map_of_SomeD)

lemma schema_eta: "\<lparr>structures = structures s, enums = enums s\<rparr> = (s :: schema)"
  by simp

text \<open>\<^verbatim>\<open>NewSchema\<close> accepts exactly the well-formed schemas, whatever order the map is iterated in.\<close>

lemma NewSchema_iff:
  assumes "map_iteration iter"
  shows "NewSchema iter xs ys = Inr s \<longleftrightarrow> well_formed s \<and>
     (\<exists>ss es. xs = map Some ss \<and> ys = map Some es \<and>
        structures s = map (\<lambda>st. (Structure_Key st, st)) ss \<and> enums s = map (\<lambda>e. (Enum_Key e, e)) es)"
    (is "?new \<longleftrightarrow> well_formed s \<and> ?maps")
proof
  assume new: ?new
  then obtain ss es where ss: "xs = map Some ss" "distinct (map Structure_Key ss)"
      "\<forall>st \<in> set ss. validKey (Structure_Key st) \<and> validName (Structure_Name st) \<and>
           RuneCountInString (Structure_Description st) \<le> 255"
    and es: "ys = map Some es" "distinct (map Enum_Key es)" "\<forall>e \<in> set es. valid_enum e"
    and s: "s = \<lparr>structures = map (\<lambda>st. (Structure_Key st, st)) ss, enums = map (\<lambda>e. (Enum_Key e, e)) es\<rparr>"
    and fields: "\<forall>st \<in> set ss. validateStructureFields s st = Inr ()"
    and cyc: "validateCycles iter s = Inr ()"
    by (auto simp: NewSchema_def Let_def bindR_Inr_iff collect_structures_iff collect_enums_iff
        checkR_Inr_iff split: option.splits)
  have dist: "distinct (map fst (structures s))" "distinct (map fst (enums s))"
    using ss(2) es(2) by (simp_all add: s comp_def)
  moreover have "refs_exist s"
    by (rule valid_structures_refs_exist) (use fields in \<open>auto simp: s dest!: map_of_SomeD\<close>)
  ultimately have "acyclic (refgraph s)"
    using cyc validateCycles_iff [OF assms] by blast
  then have "well_formed s"
    using dist ss(3) es(3) fields by (auto simp: well_formed_def valid_structure_iff s)
  moreover have ?maps using ss(1) es(1) by (auto simp: s)
  ultimately show "well_formed s \<and> ?maps" ..
next
  assume "well_formed s \<and> ?maps"
  then obtain ss es where wf: "well_formed s" and xs: "xs = map Some ss" "ys = map Some es"
    and s: "structures s = map (\<lambda>st. (Structure_Key st, st)) ss" "enums s = map (\<lambda>e. (Enum_Key e, e)) es"
    by auto
  have "collect_structures [] xs = Inr (structures s)" "collect_enums [] ys = Inr (enums s)"
    using wf by (auto simp: collect_structures_iff collect_enums_iff xs s well_formed_def
        valid_structure_iff comp_def)
  moreover have "validateCycles iter s = Inr ()"
    using validateCycles_iff [OF assms _ well_formed_refs_exist [OF wf]] wf by (simp add: well_formed_def)
  moreover have "checkR (\<lambda>x. case x of None \<Rightarrow> Inl (Panic ''nil structure'')
        | Some item \<Rightarrow> validateStructureFields s item) xs = Inr ()"
    using wf by (auto simp: checkR_Inr_iff xs s well_formed_def valid_structure_iff)
  ultimately show ?new by (simp add: NewSchema_def Let_def schema_eta)
qed

section \<open>The editor tree\<close>

lemma well_formed_fields:
  assumes "well_formed s" "map_of (structures s) k = Some st"
  obtains fs where "Structure_Fields st = map Some fs" "distinct (map Field_Key fs)"
    "\<And>f. f \<in> set fs \<Longrightarrow> valid_field s f"
  using assms by (force simp: well_formed_def valid_structure_def dest!: map_of_SomeD)

lemma well_formed_enum_values:
  assumes "well_formed s" "map_of (enums s) k = Some e"
  obtains vs where "Enum_Values e = map Some vs" "vs \<noteq> []"
  using assms by (force simp: well_formed_def valid_enum_def dest!: map_of_SomeD)

text \<open>
  The paths the recursive operations keep: every structure on the path reaches the one about to be
  entered, so in an acyclic schema the entered one is never on the path.
\<close>

definition leads_to :: "schema \<Rightarrow> string set \<Rightarrow> string set \<Rightarrow> bool" where
  "leads_to s path ds \<longleftrightarrow> (\<forall>v \<in> path. \<forall>d \<in> ds. (v, d) \<in> (refgraph s)\<^sup>+)"

lemma leads_to_empty [simp]: "leads_to s {} ds"
  by (simp add: leads_to_def)

lemma leads_to_subset: "leads_to s path ds \<Longrightarrow> ds' \<subseteq> ds \<Longrightarrow> leads_to s path ds'"
  by (auto simp: leads_to_def)

lemma leads_to_fresh: "well_formed s \<Longrightarrow> leads_to s path {k} \<Longrightarrow> k \<notin> path"
  by (auto simp: leads_to_def well_formed_def acyclic_def)

lemma leads_to_enter:
  assumes "map_of (structures s) k = Some st" "leads_to s path {k}"
  shows "leads_to s (insert k path) (field_refs (Structure_Fields st))"
  using assms(2) refgraph_Image [OF assms(1)]
  by (auto simp: leads_to_def intro: trancl_into_trancl)

definition type_refs :: "field_type option \<Rightarrow> string set" where
  "type_refs t = {GetStructureKey t} - {''''}"

lemma type_refs_field: "type_refs (Field_Type f) \<subseteq> field_refs (Some f # fs)"
  by (auto simp: type_refs_def GetType_def)

lemma field_refs_tl: "field_refs fs \<subseteq> field_refs (f # fs)"
  by auto

lemma type_refs_StructureKey:
  "type_refs (Some (Some (StructureKey k))) = (if k = '''' then {} else {k})"
  by (simp add: type_refs_def GetStructureKey_def)

lemma well_formed_key_nonempty: "well_formed s \<Longrightarrow> map_of (structures s) k = Some st \<Longrightarrow> k \<noteq> ''''"
  by (force simp: well_formed_def valid_structure_def validKey_def schemaKeyPattern_def
      dest!: map_of_SomeD)

fun node_field :: "tree_node \<Rightarrow> Field" where
  "node_field (TreeNode f cs) = f"

fun expanded :: "schema \<Rightarrow> tree_node \<Rightarrow> bool" where
  "expanded s (TreeNode f cs) =
     ((\<forall>c \<in> set cs. expanded s c) \<and>
      (case map_of (structures s) (GetStructureKey (Field_Type f)) of
         None \<Rightarrow> cs = []
       | Some st \<Rightarrow> map (\<lambda>c. Some (node_field c)) cs = Structure_Fields st))"

lemma children_total:
  "well_formed s \<Longrightarrow> validateType s t = Inr () \<Longrightarrow> leads_to s path (type_refs t) \<Longrightarrow>
     \<exists>cs. children s t path = Inr cs \<and> (\<forall>c \<in> set cs. expanded s c) \<and>
       (case map_of (structures s) (GetStructureKey t) of
          None \<Rightarrow> cs = [] | Some st \<Rightarrow> map (\<lambda>c. Some (node_field c)) cs = Structure_Fields st)"
  "well_formed s \<Longrightarrow> (\<exists>gs. fs = map Some gs \<and> (\<forall>f \<in> set gs. valid_field s f)) \<Longrightarrow>
     leads_to s path (field_refs fs) \<Longrightarrow>
     \<exists>ns. children_fields s fs path = Inr ns \<and> (\<forall>c \<in> set ns. expanded s c) \<and>
       map (\<lambda>c. Some (node_field c)) ns = fs"
proof (induction s t path and s fs path rule: children_children_fields.induct)
  case (1 s t path)
  show ?case
  proof (cases "GetStructureKey t = ''''")
    case True
    with well_formed_key_nonempty [OF 1(2)] show ?thesis
      by (auto simp: children.simps split: option.splits)
  next
    case False
    then obtain st where st: "map_of (structures s) (GetStructureKey t) = Some st"
      using validateType_structure [OF 1(3)] by blast
    have lead: "leads_to s path {GetStructureKey t}"
      using 1(4) False by (simp add: type_refs_def)
    then have fresh: "GetStructureKey t \<notin> path" by (rule leads_to_fresh [OF 1(2)])
    obtain gs where "Structure_Fields st = map Some gs" "\<And>f. f \<in> set gs \<Longrightarrow> valid_field s f"
      using well_formed_fields [OF 1(2) st] by metis
    then obtain ns where "children_fields s (Structure_Fields st) (insert (GetStructureKey t) path) = Inr ns"
      "\<forall>c \<in> set ns. expanded s c" "map (\<lambda>c. Some (node_field c)) ns = Structure_Fields st"
      using 1(1) [OF refl False fresh st 1(2) _ leads_to_enter [OF st lead]] by blast
    with False fresh st show ?thesis by (simp add: children.simps)
  qed
next
  case (2 s path)
  then show ?case by simp
next
  case (3 s fld flds path)
  then obtain f gs where f: "fld = Some f" "valid_field s f" "flds = map Some gs" "\<forall>f \<in> set gs. valid_field s f"
    by auto
  have "leads_to s path (type_refs (Field_Type f))"
    using 3(5) type_refs_field [of f flds] f(1) by (auto intro: leads_to_subset)
  then obtain cs where cs: "children s (Field_Type f) path = Inr cs" "\<forall>c \<in> set cs. expanded s c"
     "case map_of (structures s) (GetStructureKey (Field_Type f)) of
        None \<Rightarrow> cs = [] | Some st \<Rightarrow> map (\<lambda>c. Some (node_field c)) cs = Structure_Fields st"
    using 3(1) [OF f(1) 3(3)] f(2) by (auto simp: valid_field_def)
  obtain ns where "children_fields s flds path = Inr ns" "\<forall>c \<in> set ns. expanded s c"
     "map (\<lambda>c. Some (node_field c)) ns = flds"
    using 3(2) [OF f(1) cs(1) 3(3)] f(3,4) 3(5) leads_to_subset [OF _ field_refs_tl] by blast
  with cs f(1) show ?case by simp
qed

section \<open>Default values\<close>

lemma defaultValue_total:
  "well_formed s \<Longrightarrow> validateType s (Field_Type f) = Inr () \<Longrightarrow>
     leads_to s path (type_refs (Field_Type f)) \<Longrightarrow> \<exists>v. defaultValue s f path = Inr v"
  "well_formed s \<Longrightarrow> (\<exists>gs. fs = map Some gs \<and> (\<forall>f \<in> set gs. valid_field s f)) \<Longrightarrow>
     leads_to s path (field_refs fs) \<Longrightarrow> \<exists>v. default_fields s fs acc path = Inr v"
proof (induction s f path and s fs acc path rule: defaultValue_default_fields.induct)
  case (1 s f path)
  show ?case
  proof (cases "Field_IsArray f")
    case True
    then show ?thesis by (simp add: defaultValue.simps)
  next
    case False
    from 1(3) obtain k where k: "Field_Type f = Some (Some k)"
      by (auto simp: validateType_def split: option.splits)
    show ?thesis
    proof (cases k)
      case (BaseType b)
      with False k show ?thesis by (simp add: defaultValue.simps)
    next
      case (EnumKey key)
      with 1(3) k obtain e where e: "map_of (enums s) key = Some e"
        by (auto simp: validateType_def split: if_splits)
      obtain vs where "Enum_Values e = map Some vs" "vs \<noteq> []"
        using well_formed_enum_values [OF 1(2) e] .
      with False k EnumKey e show ?thesis
        by (cases vs) (auto simp: defaultValue.simps)
    next
      case (StructureKey key)
      with 1(3) k obtain st where st: "map_of (structures s) key = Some st"
        by (auto simp: validateType_def split: if_splits)
      have lead: "leads_to s path {key}"
        using 1(4) k StructureKey well_formed_key_nonempty [OF 1(2) st]
        by (simp add: type_refs_StructureKey)
      then have fresh: "key \<notin> path" by (rule leads_to_fresh [OF 1(2)])
      obtain gs where "Structure_Fields st = map Some gs" "\<And>f. f \<in> set gs \<Longrightarrow> valid_field s f"
        using well_formed_fields [OF 1(2) st] by metis
      then have "\<exists>v. default_fields s (Structure_Fields st) [] (insert key path) = Inr v"
        using 1(1) [OF False k _ _ fresh st 1(2) _ leads_to_enter [OF st lead]] StructureKey by blast
      with False k StructureKey st fresh show ?thesis by (auto simp: defaultValue.simps)
    qed
  qed
next
  case (2 s acc path)
  then show ?case by simp
next
  case (3 s fld flds acc path)
  then obtain f gs where f: "fld = Some f" "valid_field s f" "flds = map Some gs" "\<forall>f \<in> set gs. valid_field s f"
    by auto
  have "leads_to s path (type_refs (Field_Type f))"
    using 3(5) type_refs_field [of f flds] f(1) by (auto intro: leads_to_subset)
  then obtain v where v: "defaultValue s f path = Inr v"
    using 3(1) [OF f(1) 3(3)] f(2) by (auto simp: valid_field_def)
  with 3(2) [OF f(1) v 3(3)] f 3(5) leads_to_subset [OF _ field_refs_tl] show ?case by auto
qed

section \<open>Conformance\<close>

inductive conforms :: "schema \<Rightarrow> Field \<Rightarrow> json \<Rightarrow> bool" for s where
  array: "Field_IsArray f \<Longrightarrow> (\<And>v. v \<in> set vs \<Longrightarrow> conforms s (itemField f) v) \<Longrightarrow> conforms s f (JArray vs)"
| base: "\<not> Field_IsArray f \<Longrightarrow> Field_Type f = Some (Some (BaseType b)) \<Longrightarrow> base_value_ok b v \<Longrightarrow>
    conforms s f v"
| enum: "\<not> Field_IsArray f \<Longrightarrow> Field_Type f = Some (Some (EnumKey k)) \<Longrightarrow> map_of (enums s) k = Some e \<Longrightarrow>
    Some opt \<in> set (Enum_Values e) \<Longrightarrow> conforms s f (JString (Option_Value opt))"
| struct: "\<not> Field_IsArray f \<Longrightarrow> Field_Type f = Some (Some (StructureKey k)) \<Longrightarrow>
    map_of (structures s) k = Some st \<Longrightarrow>
    fst ` set obj = (\<lambda>c. Field_Key (the c)) ` set (Structure_Fields st) \<Longrightarrow>
    (\<And>c v. Some c \<in> set (Structure_Fields st) \<Longrightarrow> map_of obj (Field_Key c) = Some v \<Longrightarrow> conforms s c v) \<Longrightarrow>
    conforms s f (JObject obj)"

lemma conforms_array_iff:
  "Field_IsArray f \<Longrightarrow> conforms s f v \<longleftrightarrow> (\<exists>vs. v = JArray vs \<and> (\<forall>x \<in> set vs. conforms s (itemField f) x))"
  by (subst conforms.simps) auto

lemma conforms_base_iff:
  "\<not> Field_IsArray f \<Longrightarrow> Field_Type f = Some (Some (BaseType b)) \<Longrightarrow> conforms s f v \<longleftrightarrow> base_value_ok b v"
  by (subst conforms.simps) auto

lemma conforms_enum_iff:
  "\<not> Field_IsArray f \<Longrightarrow> Field_Type f = Some (Some (EnumKey k)) \<Longrightarrow> map_of (enums s) k = Some e \<Longrightarrow>
   conforms s f v \<longleftrightarrow> (\<exists>opt. Some opt \<in> set (Enum_Values e) \<and> v = JString (Option_Value opt))"
  by (subst conforms.simps) auto

lemma conforms_struct_iff:
  "\<not> Field_IsArray f \<Longrightarrow> Field_Type f = Some (Some (StructureKey k)) \<Longrightarrow> map_of (structures s) k = Some st \<Longrightarrow>
   conforms s f v \<longleftrightarrow> (\<exists>obj. v = JObject obj \<and>
     fst ` set obj = (\<lambda>c. Field_Key (the c)) ` set (Structure_Fields st) \<and>
     (\<forall>c w. Some c \<in> set (Structure_Fields st) \<longrightarrow> map_of obj (Field_Key c) = Some w \<longrightarrow> conforms s c w))"
  by (subst conforms.simps) auto

lemmas conforms_iffs = conforms_array_iff conforms_base_iff conforms_enum_iff conforms_struct_iff

lemma enum_option_loop_iff:
  "enum_option_loop text path (map Some vs) = Inr () \<longleftrightarrow> (\<exists>v \<in> set vs. Option_Value v = text)"
  by (induction vs) auto

lemma obj_len_card: "obj_len obj = card (fst ` set obj)"
  by (simp add: obj_len_def length_remdups_card_conv)

text \<open>
  The code compares the number of members with the number of fields and then looks every field up;
  for distinct field keys this is equality of the two key sets.
\<close>

lemma same_keys_iff:
  assumes "distinct (map Field_Key fs)"
  shows "obj_len obj = length fs \<and> (\<forall>f \<in> set fs. map_of obj (Field_Key f) \<noteq> None) \<longleftrightarrow>
    fst ` set obj = Field_Key ` set fs"
proof -
  have len: "length fs = card (Field_Key ` set fs)"
    using assms by (metis distinct_card length_map set_map)
  have "(\<forall>f \<in> set fs. map_of obj (Field_Key f) \<noteq> None) \<longleftrightarrow> Field_Key ` set fs \<subseteq> fst ` set obj"
    by (auto simp: map_of_eq_None_iff)
  then show ?thesis
    unfolding obj_len_card len using card_subset_eq [of "fst ` set obj" "Field_Key ` set fs"]
    by (metis List.finite_set finite_imageI order_refl)
qed

lemma members_lookup:
  assumes "distinct (map Field_Key fs)"
  shows "fst ` set obj = Field_Key ` set fs \<and>
      (\<forall>c w. c \<in> set fs \<longrightarrow> map_of obj (Field_Key c) = Some w \<longrightarrow> P c w) \<longleftrightarrow>
    obj_len obj = length fs \<and> (\<forall>c \<in> set fs. \<exists>w. map_of obj (Field_Key c) = Some w \<and> P c w)"
  unfolding same_keys_iff [OF assms, symmetric] by (auto; metis option.inject)

lemma conforms_struct_lookup:
  assumes "\<not> Field_IsArray f" "Field_Type f = Some (Some (StructureKey k))"
    "map_of (structures s) k = Some st" "Structure_Fields st = map Some gs" "distinct (map Field_Key gs)"
  shows "conforms s f v \<longleftrightarrow> (\<exists>obj. v = JObject obj \<and> obj_len obj = length gs \<and>
    (\<forall>c \<in> set gs. \<exists>w. map_of obj (Field_Key c) = Some w \<and> conforms s c w))"
proof -
  have "conforms s f v \<longleftrightarrow> (\<exists>obj. v = JObject obj \<and> (fst ` set obj = Field_Key ` set gs \<and>
     (\<forall>c w. c \<in> set gs \<longrightarrow> map_of obj (Field_Key c) = Some w \<longrightarrow> conforms s c w)))"
    unfolding conforms_struct_iff [OF assms(1-3)] by (simp add: assms(4) image_image image_iff)
  then show ?thesis unfolding members_lookup [OF assms(5)] .
qed

lemma itemField_simps [simp]:
  "Field_IsArray (itemField f) = False" "Field_Type (itemField f) = Field_Type f"
  by (simp_all add: itemField_def)

definition value_check :: "unit result \<Rightarrow> bool \<Rightarrow> bool" where
  "value_check r ok \<longleftrightarrow> (case r of Inr _ \<Rightarrow> ok | Inl (Invalid _) \<Rightarrow> \<not> ok | _ \<Rightarrow> False)"

lemma value_check_simps [simp]:
  "value_check (Inr u) ok = ok" "value_check (Inl (Invalid m)) ok = (\<not> ok)"
  by (simp_all add: value_check_def)

lemma value_check_bind:
  "value_check r a \<Longrightarrow> (r = Inr () \<Longrightarrow> value_check (f ()) b) \<Longrightarrow> value_check (bindR r f) (a \<and> b)"
  by (auto simp: value_check_def bindR_def split: sum.splits err.splits)

lemma value_check_enum: "value_check (enum_option_loop text path (map Some vs)) (\<exists>v \<in> set vs. Option_Value v = text)"
  by (induction vs) auto

text \<open>
  The recursive check decides conformance: it accepts exactly the conforming values, rejects the
  others with \<open>Invalid\<close>, and neither panics nor reports a cycle.
\<close>

lemma validateValue_correct:
  "well_formed s \<Longrightarrow> validateType s (Field_Type f) = Inr () \<Longrightarrow>
     leads_to s structs (type_refs (Field_Type f)) \<Longrightarrow>
     value_check (validateValue s f v path structs) (conforms s f v)"
  "well_formed s \<Longrightarrow> validateType s (Field_Type f) = Inr () \<Longrightarrow>
     leads_to s structs (type_refs (Field_Type f)) \<Longrightarrow>
     value_check (validate_items s f i vs path structs) (\<forall>v \<in> set vs. conforms s f v)"
  "well_formed s \<Longrightarrow> (\<exists>gs. fs = map Some gs \<and> (\<forall>f \<in> set gs. valid_field s f)) \<Longrightarrow>
     leads_to s structs (field_refs fs) \<Longrightarrow>
     value_check (validate_fields s fs obj path structs)
       (\<forall>c. Some c \<in> set fs \<longrightarrow> (\<exists>w. map_of obj (Field_Key c) = Some w \<and> conforms s c w))"
proof (induction s f v path structs and s f i vs path structs and s fs obj path structs
    rule: validateValue_validate_items_validate_fields.induct)
  case (1 s f v path structs)
  show ?case
  proof (cases "Field_IsArray f")
    case True
    show ?thesis
    proof (cases v)
      case (JArray vs)
      with 1(1) [OF True JArray 1(3)] 1(4,5) True show ?thesis
        by (simp add: validateValue.simps conforms_array_iff)
    qed (use True in \<open>auto simp: validateValue.simps conforms_array_iff\<close>)
  next
    case False
    from 1(4) obtain k where k: "Field_Type f = Some (Some k)"
      by (auto simp: validateType_def split: option.splits)
    show ?thesis
    proof (cases k)
      case (BaseType b)
      with False k show ?thesis
        by (simp add: validateValue.simps validateBaseValue_def conforms_base_iff)
    next
      case (EnumKey key)
      with 1(4) k obtain e where e: "map_of (enums s) key = Some e"
        by (auto simp: validateType_def split: if_splits)
      obtain vs where vs: "Enum_Values e = map Some vs" by (rule well_formed_enum_values [OF 1(3) e])
      have conf: "\<And>v. conforms s f v \<longleftrightarrow> (\<exists>text. v = JString text \<and> (\<exists>opt \<in> set vs. Option_Value opt = text))"
        using conforms_enum_iff [OF False k [unfolded EnumKey] e] by (auto simp: vs)
      show ?thesis
        using False k EnumKey e vs value_check_enum
        by (cases v) (simp_all add: validateValue.simps validateEnumValue_def conf)
    next
      case (StructureKey key)
      with 1(4) k obtain st where st: "map_of (structures s) key = Some st"
        by (auto simp: validateType_def split: if_splits)
      have lead: "leads_to s structs {key}"
        using 1(5) k StructureKey well_formed_key_nonempty [OF 1(3) st]
        by (simp add: type_refs_StructureKey)
      then have fresh: "key \<notin> structs" by (rule leads_to_fresh [OF 1(3)])
      obtain gs where gs: "Structure_Fields st = map Some gs" "distinct (map Field_Key gs)"
          "\<And>f. f \<in> set gs \<Longrightarrow> valid_field s f"
        using well_formed_fields [OF 1(3) st] by metis
      have conf: "\<And>v. conforms s f v \<longleftrightarrow> (\<exists>obj. v = JObject obj \<and> obj_len obj = length gs \<and>
          (\<forall>c. Some c \<in> set (Structure_Fields st) \<longrightarrow>
             (\<exists>w. map_of obj (Field_Key c) = Some w \<and> conforms s c w)))"
        using conforms_struct_lookup [OF False k [unfolded StructureKey] st gs(1,2)] by (simp add: gs(1) image_iff Ball_def)
      show ?thesis
      proof (cases v)
        case (JObject obj)
        show ?thesis
        proof (cases "obj_len obj = length gs")
          case True
          have "value_check (validate_fields s (Structure_Fields st) obj path (insert key structs))
              (\<forall>c. Some c \<in> set (Structure_Fields st) \<longrightarrow>
                 (\<exists>w. map_of obj (Field_Key c) = Some w \<and> conforms s c w))"
            using 1(2) [OF False k _ StructureKey JObject fresh st _ 1(3) _ leads_to_enter [OF st lead]]
              gs(1,3) True by auto
          with False k StructureKey st fresh JObject True gs(1) show ?thesis
            by (simp add: validateValue.simps conf)
        next
          case False
          with \<open>\<not> Field_IsArray f\<close> k StructureKey st fresh JObject gs(1) show ?thesis
            by (simp add: validateValue.simps conf)
        qed
      qed (use False k StructureKey in \<open>simp_all add: validateValue.simps conf\<close>)
    qed
  qed
next
  case (2 s f i path structs)
  then show ?case by simp
next
  case (3 s f i v vs path structs)
  then show ?case by (auto intro: value_check_bind)
next
  case (4 s obj path structs)
  then show ?case by simp
next
  case (5 s fld flds obj path structs)
  then obtain f gs where f: "fld = Some f" "valid_field s f" "flds = map Some gs" "\<forall>f \<in> set gs. valid_field s f"
    by auto
  have lead: "leads_to s structs (type_refs (Field_Type f))" "leads_to s structs (field_refs flds)"
    using 5(5) type_refs_field [of f flds] field_refs_tl [of flds fld] f(1) by (auto intro: leads_to_subset)
  have split: "(\<forall>c. Some c \<in> set (fld # flds) \<longrightarrow> (\<exists>w. map_of obj (Field_Key c) = Some w \<and> conforms s c w)) \<longleftrightarrow>
      (\<exists>w. map_of obj (Field_Key f) = Some w \<and> conforms s f w) \<and>
      (\<forall>c. Some c \<in> set flds \<longrightarrow> (\<exists>w. map_of obj (Field_Key c) = Some w \<and> conforms s c w))"
    using f(1) by auto
  show ?case
  proof (cases "map_of obj (Field_Key f)")
    case None
    then show ?thesis unfolding split using f(1) by simp
  next
    case (Some w)
    have "value_check (validateValue s f w (path @ ''.'' @ Field_Key f) structs) (conforms s f w)"
      using 5(1) [OF f(1) Some 5(3)] f(2) lead(1) by (simp add: valid_field_def)
    moreover have "value_check (validate_fields s flds obj path structs)
        (\<forall>c. Some c \<in> set flds \<longrightarrow> (\<exists>w. map_of obj (Field_Key c) = Some w \<and> conforms s c w))"
      if "validateValue s f w (path @ ''.'' @ Field_Key f) structs = Inr ()"
      using 5(2) [OF f(1) Some that 5(3) _ lead(2)] f(3,4) by blast
    ultimately show ?thesis
      unfolding split using f(1) Some by (simp add: value_check_bind)
  qed
qed

section \<open>Structure choices\<close>

definition choice_graph :: "Structure list \<Rightarrow> (string \<times> string) set" where
  "choice_graph items = {(k, d). \<exists>item \<in> set items. \<exists>f \<in> set (Structure_Fields item).
     Structure_Key item = k \<and> GetStructureKey (GetType f) = d}"

lemma references_iff:
  "referencesRejectedStructure item rejected \<longleftrightarrow>
     (\<exists>f \<in> set (Structure_Fields item). GetStructureKey (GetType f) \<in> rejected)"
  by (auto simp: referencesRejectedStructure_def list_ex_iff)

lemma reject_pass_sound:
  "rejectDependentStructures xs r c = (r', c') \<Longrightarrow> set xs \<subseteq> set items \<Longrightarrow>
   r \<subseteq> {k. (k, g) \<in> (choice_graph items)\<^sup>*} \<Longrightarrow> r' \<subseteq> {k. (k, g) \<in> (choice_graph items)\<^sup>*}"
proof (induction xs r c rule: rejectDependentStructures.induct)
  case (2 item xs r c)
  have "(Structure_Key item, g) \<in> (choice_graph items)\<^sup>*" if "referencesRejectedStructure item r"
  proof -
    from that obtain f where "f \<in> set (Structure_Fields item)" "GetStructureKey (GetType f) \<in> r"
      by (auto simp: references_iff)
    moreover from this(1) 2(4) have "(Structure_Key item, GetStructureKey (GetType f)) \<in> choice_graph items"
      by (auto simp: choice_graph_def)
    ultimately show ?thesis using 2(5) by (blast intro: converse_rtrancl_into_rtrancl)
  qed
  then show ?case using 2 by (cases "set_Contains r (Structure_Key item) \<or> \<not> referencesRejectedStructure item r") simp_all
qed simp

lemma reject_pass_stable:
  "rejectDependentStructures items r False = (r', False) \<Longrightarrow>
   r' = r \<and> (\<forall>item \<in> set items. Structure_Key item \<in> r \<or> \<not> referencesRejectedStructure item r)"
proof (induction items arbitrary: r)
  case (Cons item items)
  then show ?case using reject_pass_grows [of items "insert (Structure_Key item) r" True r' False]
    by (auto split: if_splits)
qed simp

lemma reject_loop_closed:
  "r \<subseteq> {k. (k, g) \<in> (choice_graph items)\<^sup>*} \<Longrightarrow> g \<in> r \<Longrightarrow>
   reject_loop items r = {k. (k, g) \<in> (choice_graph items)\<^sup>*}"
proof (induction items r rule: reject_loop.induct)
  case (1 items r)
  obtain r' c' where pass: "rejectDependentStructures items r False = (r', c')" by fastforce
  have grow: "r \<subseteq> r'" "r' \<subseteq> {k. (k, g) \<in> (choice_graph items)\<^sup>*}"
    using reject_pass_grows [OF pass] reject_pass_sound [OF pass order_refl 1(2)] by auto
  show ?case
  proof (cases c')
    case True
    then show ?thesis using 1(1) [OF pass [symmetric] True grow(2)] grow(1) 1(3)
      by (subst reject_loop.simps) (auto simp: pass)
  next
    case False
    with reject_pass_stable [of items r r'] pass have st: "r' = r"
      "\<And>item. item \<in> set items \<Longrightarrow> Structure_Key item \<in> r \<or> \<not> referencesRejectedStructure item r"
      by auto
    have "k \<in> r" if "(k, g) \<in> (choice_graph items)\<^sup>*" for k
      using that 1(3) st(2)
      by (induction rule: converse_rtrancl_induct) (auto simp: choice_graph_def references_iff)
    with 1(2) have "r = {k. (k, g) \<in> (choice_graph items)\<^sup>*}" by auto
    with False st(1) pass show ?thesis by (subst reject_loop.simps) simp
  qed
qed

lemma FilterStructureChoices_keeps:
  assumes "0 < ignoreID" "find (\<lambda>item. Structure_Id item = ignoreID) items = Some ignored"
  shows "FilterStructureChoices items ignoreID =
    Inr (filter (\<lambda>item. (Structure_Key item, Structure_Key ignored) \<notin> (choice_graph items)\<^sup>*) items)"
proof -
  have "reject_loop items {Structure_Key ignored} =
      {k. (k, Structure_Key ignored) \<in> (choice_graph items)\<^sup>*}"
    by (rule reject_loop_closed) auto
  with assms show ?thesis by (simp add: FilterStructureChoices_def set_New_def)
qed

section \<open>Default values\<close>

definition temporal :: "int \<Rightarrow> bool" where
  "temporal b \<longleftrightarrow> Field_TIME \<le> b \<and> b \<le> Field_DATETIME_RANGE"

definition plain_field :: "Field \<Rightarrow> bool" where
  "plain_field f \<longleftrightarrow> Field_IsArray f \<or>
     (case Field_Type f of Some (Some (BaseType b)) \<Rightarrow> \<not> temporal b | _ \<Rightarrow> True)"

definition plain_schema :: "schema \<Rightarrow> bool" where
  "plain_schema s \<longleftrightarrow> (\<forall>(k, st) \<in> set (structures s). \<forall>f. Some f \<in> set (Structure_Fields st) \<longrightarrow> plain_field f)"

lemma default_base_ok:
  "Field_STRING \<le> b \<Longrightarrow> b \<le> Field_FILE \<Longrightarrow> \<not> temporal b \<Longrightarrow> base_value_ok b (default_base_value b)"
proof -
  assume "Field_STRING \<le> b" "b \<le> Field_FILE" "\<not> temporal b"
  then have "b \<in> {1, 2, 3, 4, 11, 12, 13}"
    by (auto simp: base_type_defs temporal_def)
  moreover have "ParseInt64 ''0'' = Some 0" "ParseFloat64_ok ''0''" by code_simp+
  ultimately show ?thesis
    by (auto simp: base_value_ok_def default_base_value_def base_type_defs)
qed

lemma map_of_obj_put: "map_of (obj_put obj k v) k' = (if k' = k then Some v else map_of obj k')"
proof -
  have "map_of (filter (\<lambda>p. fst p \<noteq> k) obj) k' = (if k' = k then None else map_of obj k')"
    by (induction obj) auto
  then show ?thesis by (simp add: obj_put_def map_add_def split: option.splits)
qed

lemma keys_obj_put: "fst ` set (obj_put obj k v) = insert k (fst ` set obj)"
  by (force simp: obj_put_def)

lemma defaultValue_conforms:
  "well_formed s \<Longrightarrow> plain_schema s \<Longrightarrow> validateType s (Field_Type f) = Inr () \<Longrightarrow> plain_field f \<Longrightarrow>
     defaultValue s f path = Inr v \<Longrightarrow> conforms s f v"
  "well_formed s \<Longrightarrow> plain_schema s \<Longrightarrow> fs = map Some gs \<Longrightarrow> distinct (map Field_Key gs) \<Longrightarrow>
     (\<forall>f \<in> set gs. valid_field s f \<and> plain_field f) \<Longrightarrow>
     default_fields s fs acc path = Inr v \<Longrightarrow>
     \<exists>obj. v = JObject obj \<and> fst ` set obj = fst ` set acc \<union> Field_Key ` set gs \<and>
       (\<forall>c \<in> set gs. \<forall>w. map_of obj (Field_Key c) = Some w \<longrightarrow> conforms s c w) \<and>
       (\<forall>k. k \<notin> Field_Key ` set gs \<longrightarrow> map_of obj k = map_of acc k)"
proof (induction s f path and s fs acc path arbitrary: v and v gs rule: defaultValue_default_fields.induct)
  case (1 s f path)
  show ?case
  proof (cases "Field_IsArray f")
    case True
    with 1(6) show ?thesis by (auto simp: defaultValue.simps conforms_array_iff)
  next
    case False
    from 1(4) obtain k where k: "Field_Type f = Some (Some k)"
      by (auto simp: validateType_def split: option.splits)
    show ?thesis
    proof (cases k)
      case (BaseType b)
      with False k 1(4,5,6) default_base_ok [of b] show ?thesis
        by (auto simp: defaultValue.simps conforms_base_iff plain_field_def validateType_def split: if_splits)
    next
      case (EnumKey key)
      with 1(4) k obtain e where e: "map_of (enums s) key = Some e"
        by (auto simp: validateType_def split: if_splits)
      with False k EnumKey 1(6) show ?thesis
        by (auto simp: defaultValue.simps conforms_enum_iff [OF False k [unfolded EnumKey] e]
            split: list.splits option.splits)
    next
      case (StructureKey key)
      with 1(4) k obtain st where st: "map_of (structures s) key = Some st"
        by (auto simp: validateType_def split: if_splits)
      obtain gs where gs: "Structure_Fields st = map Some gs" "distinct (map Field_Key gs)"
          "\<And>f. f \<in> set gs \<Longrightarrow> valid_field s f"
        using well_formed_fields [OF 1(2) st] by metis
      have plain: "plain_field f" if "f \<in> set gs" for f
        using that 1(3) map_of_SomeD [OF st] gs(1) by (fastforce simp: plain_schema_def)
      have fresh: "key \<notin> path"
        and def: "default_fields s (Structure_Fields st) [] (insert key path) = Inr v"
        using 1(6) False k StructureKey st by (auto simp: defaultValue.simps split: if_splits)
      from 1(1) [OF False k refl StructureKey fresh st 1(2,3) gs(1,2) _ def] gs(3) plain
      obtain obj where "v = JObject obj" "fst ` set obj = Field_Key ` set gs"
        "\<forall>c \<in> set gs. \<forall>w. map_of obj (Field_Key c) = Some w \<longrightarrow> conforms s c w"
        by auto
      then show ?thesis
        unfolding conforms_struct_iff [OF False k [unfolded StructureKey] st]
        by (auto simp: gs(1) image_image)
    qed
  qed
next
  case (2 s acc path)
  then show ?case by auto
next
  case (3 s fld flds acc path)
  from 3(5) obtain f hs where f: "fld = Some f" "flds = map Some hs" "gs = f # hs"
    by (cases gs) auto
  from 3(8) f obtain w where w: "defaultValue s f path = Inr w"
    and rest: "default_fields s flds (obj_put acc (Field_Key f) w) path = Inr v"
    by (auto simp: bindR_Inr_iff)
  have conf: "conforms s f w"
    using 3(1) [OF f(1) 3(3,4) _ _ w] 3(7) f(3) by (auto simp: valid_field_def)
  have "\<exists>obj. v = JObject obj \<and> fst ` set obj = insert (Field_Key f) (fst ` set acc) \<union> Field_Key ` set hs \<and>
       (\<forall>c \<in> set hs. \<forall>w. map_of obj (Field_Key c) = Some w \<longrightarrow> conforms s c w) \<and>
       (\<forall>k. k \<notin> Field_Key ` set hs \<longrightarrow> map_of obj k = map_of (obj_put acc (Field_Key f) w) k)"
    using 3(2) [OF f(1) w 3(3,4) f(2) _ _ rest] 3(6,7) f(3) by (simp add: keys_obj_put)
  then obtain obj where obj: "v = JObject obj"
      "fst ` set obj = insert (Field_Key f) (fst ` set acc) \<union> Field_Key ` set hs"
      "\<forall>c \<in> set hs. \<forall>w. map_of obj (Field_Key c) = Some w \<longrightarrow> conforms s c w"
      "\<forall>k. k \<notin> Field_Key ` set hs \<longrightarrow> map_of obj k = map_of (obj_put acc (Field_Key f) w) k"
    by blast
  moreover have "map_of obj (Field_Key f) = Some w"
    using obj(4) 3(6) f(3) by (auto simp: map_of_obj_put)
  ultimately show ?case using conf f(3) by (auto simp: map_of_obj_put)
qed

end
