(* ===== verification/SafeInt.thy ===== *)
theory SafeInt
  imports Prelude "HOL-Library.Word"
begin

text \<open>
  The checked integer conversions of \<^verbatim>\<open>server/internal/util/safeint/safeint.go\<close>. A Go \<open>int64\<close> or
  \<open>uint64\<close> is a 64-bit word read by \<open>sint\<close> or \<open>uint\<close>; the platform type \<open>int\<close> is a word of any
  length, and \<^verbatim>\<open>strconv.IntSize\<close> is that length, so each function is verified for 32-bit and 64-bit
  targets at once. A Go integer conversion keeps the low bits of the sign- or zero-extended value,
  which is \<open>word_of_int\<close> of the value read.
\<close>

section \<open>Conversions\<close>

definition MaxUint32 :: int where "MaxUint32 = 2 ^ 32 - 1"
definition MaxInt32 :: int where "MaxInt32 = 2 ^ 31 - 1"
definition MaxInt64 :: int where "MaxInt64 = 2 ^ 63 - 1"

definition does_not_fit :: "int \<Rightarrow> string \<Rightarrow> err" where
  "does_not_fit i t = OtherError (FormatInt i @ '' does not fit in '' @ t)"

definition Uint32FromInt64 :: "64 word \<Rightarrow> 32 word result" where
  "Uint32FromInt64 value =
     (if sint value < 0 \<or> sint value > MaxUint32
      then Inl (does_not_fit (sint value) ''uint32'')
      else Inr (word_of_int (sint value)))"

definition Uint32FromInt :: "'a::len word \<Rightarrow> 32 word result" where
  "Uint32FromInt value =
     (if sint value < 0 \<or>
         (LENGTH('a) = 64 \<and> uint (word_of_int (sint value) :: 64 word) > MaxUint32)
      then Inl (does_not_fit (sint value) ''uint32'')
      else Inr (word_of_int (sint value)))"

definition Uint64FromInt64 :: "64 word \<Rightarrow> 64 word result" where
  "Uint64FromInt64 value =
     (if sint value < 0 then Inl (does_not_fit (sint value) ''uint64'')
      else Inr (word_of_int (sint value)))"

definition Uint64FromInt :: "'a::len word \<Rightarrow> 64 word result" where
  "Uint64FromInt value =
     (if sint value < 0 then Inl (does_not_fit (sint value) ''uint64'')
      else Inr (word_of_int (sint value)))"

definition Int64FromUint64 :: "64 word \<Rightarrow> 64 word result" where
  "Int64FromUint64 value =
     (if uint value > MaxInt64 then Inl (does_not_fit (uint value) ''int64'')
      else Inr (word_of_int (uint value)))"

definition IntFromUint64 :: "64 word \<Rightarrow> 'a::len word result" where
  "IntFromUint64 value =
     (if (LENGTH('a) = 32 \<and> uint value > MaxInt32) \<or> (LENGTH('a) = 64 \<and> uint value > MaxInt64)
      then Inl (does_not_fit (uint value) ''int'')
      else Inr (word_of_int (uint value)))"

definition IntFromUint32 :: "32 word \<Rightarrow> 'a::len word result" where
  "IntFromUint32 value =
     (if LENGTH('a) = 32 \<and> uint value > MaxInt32
      then Inl (does_not_fit (uint value) ''int'')
      else Inr (word_of_int (uint value)))"

lemmas safeint_bounds = MaxUint32_def MaxInt32_def MaxInt64_def

section \<open>Reading converted values\<close>

lemma uint_word_of_int_small:
  "0 \<le> i \<Longrightarrow> i < 2 ^ LENGTH('a) \<Longrightarrow> uint (word_of_int i :: 'a::len word) = i"
  by (simp add: uint_word_of_int)

lemma sint_word_of_int_small:
  assumes "0 \<le> i" "i < 2 ^ (LENGTH('a) - 1)"
  shows "sint (word_of_int i :: 'a::len word) = i"
  using assms by (simp add: sint_sbintrunc' signed_take_bit_int_eq_self)

lemma sint_upper: "sint (w :: 'a::len word) < 2 ^ (LENGTH('a) - 1)"
  using sint_lt [of w] by simp

lemma uint_upper: "uint (w :: 'a::len word) < 2 ^ LENGTH('a)"
  by (rule uint_lt2p)

section \<open>The conversion contract\<close>

text \<open>
  A checked conversion succeeds exactly on the values the target type can hold, and then the value
  read is unchanged. Everything callers rely on follows from that one law.
\<close>

locale checked_conversion =
  fixes read_source :: "'s \<Rightarrow> int"
    and read_target :: "'t \<Rightarrow> int"
    and convert :: "'s \<Rightarrow> 't result"
  assumes exact: "convert v = Inr u \<longleftrightarrow> read_source v = read_target u"
begin

lemma succeeds_iff: "(\<exists>u. convert v = Inr u) \<longleftrightarrow> (\<exists>u. read_source v = read_target u)"
  by (simp add: exact)

lemma rejects_iff: "(\<exists>e. convert v = Inl e) \<longleftrightarrow> (\<forall>u. read_source v \<noteq> read_target u)"
proof -
  have "(\<exists>e. convert v = Inl e) \<longleftrightarrow> \<not> (\<exists>u. convert v = Inr u)" by (cases "convert v") auto
  then show ?thesis by (simp add: exact)
qed

end

lemma word_of_int_sint_eq:
  fixes v :: "'a::len word" and u :: "'b::len word"
  assumes "0 \<le> sint v" "sint v < 2 ^ LENGTH('b)"
  shows "word_of_int (sint v) = u \<longleftrightarrow> sint v = uint u"
  using assms uint_word_of_int_small [of "sint v", where 'a = 'b]
  by (auto simp: word_uint_eq_iff)

lemma word_of_int_uint_eq:
  fixes v :: "'a::len word" and u :: "'b::len word"
  assumes "uint v < 2 ^ (LENGTH('b) - 1)"
  shows "word_of_int (uint v) = u \<longleftrightarrow> uint v = sint u"
  using assms sint_word_of_int_small [of "uint v", where 'a = 'b]
  by (auto intro!: signed_word_eqI)

lemma sint_eq_uint_bounds:
  fixes v :: "'a::len word" and u :: "'b::len word"
  shows "sint v = uint u \<Longrightarrow> 0 \<le> sint v \<and> sint v < 2 ^ LENGTH('b)"
  using uint_upper [of u] by simp

lemma uint_eq_sint_bounds:
  fixes v :: "'a::len word" and u :: "'b::len word"
  shows "uint v = sint u \<Longrightarrow> uint v < 2 ^ (LENGTH('b) - 1)"
  using sint_upper [of u] by simp

lemmas conversion_eqs = word_of_int_sint_eq word_of_int_uint_eq
lemmas conversion_bounds = sint_eq_uint_bounds uint_eq_sint_bounds

lemma Uint32FromInt64_exact: "Uint32FromInt64 v = Inr u \<longleftrightarrow> sint v = uint u"
  using word_of_int_sint_eq [of v u] sint_eq_uint_bounds [of v u]
  by (auto simp: Uint32FromInt64_def safeint_bounds)

lemma Uint64FromInt64_exact: "Uint64FromInt64 v = Inr u \<longleftrightarrow> sint v = uint u"
  using word_of_int_sint_eq [of v u] sint_eq_uint_bounds [of v u] sint_upper [of v]
  by (auto simp: Uint64FromInt64_def)

lemma Int64FromUint64_exact: "Int64FromUint64 v = Inr u \<longleftrightarrow> uint v = sint u"
  using word_of_int_uint_eq [of v u] uint_eq_sint_bounds [of v u]
  by (auto simp: Int64FromUint64_def safeint_bounds)

lemma Uint32FromInt_exact:
  fixes v :: "'a::len word"
  assumes "LENGTH('a) = 32 \<or> LENGTH('a) = 64"
  shows "Uint32FromInt v = Inr u \<longleftrightarrow> sint v = uint u"
proof -
  have "uint (word_of_int (sint v) :: 64 word) = sint v" if "0 \<le> sint v"
    using that assms sint_upper [of v] by (intro uint_word_of_int_small) auto
  then show ?thesis
    using assms word_of_int_sint_eq [of v u] sint_eq_uint_bounds [of v u] sint_upper [of v]
    by (auto simp: Uint32FromInt_def safeint_bounds)
qed

lemma Uint64FromInt_exact:
  fixes v :: "'a::len word"
  assumes "LENGTH('a) = 32 \<or> LENGTH('a) = 64"
  shows "Uint64FromInt v = Inr u \<longleftrightarrow> sint v = uint u"
  using assms word_of_int_sint_eq [of v u] sint_eq_uint_bounds [of v u] sint_upper [of v]
  by (auto simp: Uint64FromInt_def)

lemma IntFromUint64_exact:
  fixes u :: "'a::len word"
  assumes "LENGTH('a) = 32 \<or> LENGTH('a) = 64"
  shows "IntFromUint64 v = Inr u \<longleftrightarrow> uint v = sint u"
  using assms word_of_int_uint_eq [of v u] uint_eq_sint_bounds [of v u]
  by (auto simp: IntFromUint64_def safeint_bounds)

lemma IntFromUint32_exact:
  fixes u :: "'a::len word"
  assumes "LENGTH('a) = 32 \<or> LENGTH('a) = 64"
  shows "IntFromUint32 v = Inr u \<longleftrightarrow> uint v = sint u"
  using assms word_of_int_uint_eq [of v u] uint_eq_sint_bounds [of v u] uint_upper [of v]
  by (auto simp: IntFromUint32_def safeint_bounds)

interpretation u32_i64: checked_conversion sint uint Uint32FromInt64
  by unfold_locales (rule Uint32FromInt64_exact)

interpretation u64_i64: checked_conversion sint uint Uint64FromInt64
  by unfold_locales (rule Uint64FromInt64_exact)

interpretation i64_u64: checked_conversion uint sint Int64FromUint64
  by unfold_locales (rule Int64FromUint64_exact)

interpretation u32_int: checked_conversion sint uint "Uint32FromInt :: 64 word \<Rightarrow> 32 word result"
  by unfold_locales (simp add: Uint32FromInt_exact)

interpretation u64_int: checked_conversion sint uint "Uint64FromInt :: 64 word \<Rightarrow> 64 word result"
  by unfold_locales (simp add: Uint64FromInt_exact)

interpretation int_u64: checked_conversion uint sint "IntFromUint64 :: 64 word \<Rightarrow> 64 word result"
  by unfold_locales (simp add: IntFromUint64_exact)

interpretation int_u32: checked_conversion uint sint "IntFromUint32 :: 32 word \<Rightarrow> 64 word result"
  by unfold_locales (simp add: IntFromUint32_exact)

end
