(* ===== verification/Schema_Spec.thy ===== *)
theory Schema_Spec
  imports Schema_Props SafeInt
begin

text \<open>
  What \<^verbatim>\<open>server/internal/entity/schema.go\<close> promises, stated over the whole operations, and the
  exactness of the integer conversions of \<^verbatim>\<open>server/internal/util/safeint\<close>. Every statement is applied
  to one small schema: an enum, a structure that uses it, and a structure that nests the first.
\<close>

section \<open>An example schema\<close>

definition example_enum :: ConfigEnum where
  "example_enum = \<lparr>Enum_Id = 1, Enum_ConfigId = 1, Enum_Key = ''Color'', Enum_Name = ''c'',
     Enum_Description = '''',
     Enum_Values = [Some \<lparr>Option_Label = ''r'', Option_Value = ''RED'', Option_Description = ''''\<rparr>],
     Enum_Meta = zero_meta\<rparr>"

definition example_field :: "string \<Rightarrow> kind \<Rightarrow> Field" where
  "example_field k t = \<lparr>Field_Key = k, Field_Name = ''n'', Field_Description = '''',
     Field_IsArray = False, Field_Type = Some (Some t)\<rparr>"

definition example_structure :: "int \<Rightarrow> string \<Rightarrow> Field list \<Rightarrow> Structure" where
  "example_structure i k fs = \<lparr>Structure_Id = i, Structure_ConfigId = 1, Structure_Key = k,
     Structure_Name = ''n'', Structure_Description = '''', Structure_Fields = map Some fs,
     Structure_Meta = zero_meta\<rparr>"

definition example_point :: Structure where
  "example_point = example_structure 1 ''Point''
     [example_field ''x'' (BaseType Field_INT), example_field ''c'' (EnumKey ''Color'')]"

definition example_line :: Structure where
  "example_line = example_structure 2 ''Line'' [example_field ''a'' (StructureKey ''Point'')]"

definition example_schema :: schema where
  "example_schema = \<lparr>structures = [(''Point'', example_point), (''Line'', example_line)],
     enums = [(''Color'', example_enum)]\<rparr>"

definition example_config :: "string \<Rightarrow> Config" where
  "example_config v = \<lparr>Config_Id = 1, Config_ProjectId = 1, Config_Key = ''origin'',
     Config_Description = '''', Config_IsArray = False, Config_Type = Some (Some (StructureKey ''Point'')),
     Config_Value = v, Config_RuntimeVersion = 0, Config_Meta = zero_meta\<rparr>"

lemmas example_defs = example_enum_def example_field_def example_structure_def example_point_def
  example_line_def example_schema_def example_config_def

lemma example_accepted:
  "NewSchema (\<lambda>ks. ks) [Some example_point, Some example_line] [Some example_enum] = Inr example_schema"
  by code_simp

lemma example_type: "validateType example_schema (Some (Some (StructureKey ''Line''))) = Inr ()"
  by code_simp

lemma example_config_type: "validateType example_schema (Config_Type (example_config v)) = Inr ()"
  by (simp add: validateType_def example_defs)

section \<open>Construction\<close>

text \<open>
  C12. \<^verbatim>\<open>NewSchema\<close> accepts exactly the well-formed schemas, and returns the two maps keyed by the
  members' own keys: all keys and names valid, keys distinct, field keys and enum values distinct inside
  each member, every reference resolved, and no structure reachable from itself. The verdict does not
  depend on the order in which Go iterates over the map of structures.
\<close>

theorem NewSchema_accepts_iff:
  assumes "map_iteration iter"
  shows "NewSchema iter xs ys = Inr s \<longleftrightarrow>
    well_formed s \<and> acyclic (refgraph s) \<and> refs_exist s \<and>
    (\<exists>ss es. xs = map Some ss \<and> ys = map Some es \<and>
       structures s = map (\<lambda>st. (Structure_Key st, st)) ss \<and> enums s = map (\<lambda>e. (Enum_Key e, e)) es)"
  using NewSchema_iff [OF assms, of xs ys s] well_formed_refs_exist [of s]
  by (auto simp: well_formed_def)

theorem NewSchema_accepts_iff_witness: "well_formed example_schema"
  using NewSchema_accepts_iff [OF map_iteration_id, THEN iffD1, OF example_accepted] by blast

section \<open>Values\<close>

definition config_field :: "Config \<Rightarrow> Field" where
  "config_field c = \<lparr>Field_Key = Config_Key c, Field_Name = Config_Key c, Field_Description = '''',
     Field_IsArray = Config_IsArray c, Field_Type = Config_Type c\<rparr>"

lemma accepted_well_formed: "map_iteration iter \<Longrightarrow> NewSchema iter xs ys = Inr s \<Longrightarrow> well_formed s"
  by (simp add: NewSchema_iff)

lemma value_check_decides:
  "value_check r ok \<Longrightarrow> (r = Inr () \<longleftrightarrow> ok) \<and> (\<forall>e. r = Inl e \<longrightarrow> (\<exists>m. e = Invalid m))"
  by (auto simp: value_check_def split: sum.splits err.splits)

lemma validateType_errors: "validateType s t = Inl e \<Longrightarrow> \<exists>m. e = Invalid m"
  by (auto simp: validateType_def split: option.splits kind.splits if_splits)

text \<open>
  C13. On an accepted schema \<^verbatim>\<open>ValidateConfig\<close> decides conformance: it accepts a config exactly when its
  key is valid, its type resolves and its value is one JSON document that conforms to the type; otherwise
  it answers \<open>ErrInvalid\<close>. It never dereferences nil and never reports a cycle.
\<close>

theorem ValidateConfig_decides:
  assumes "map_iteration iter" "NewSchema iter xs ys = Inr s"
  shows "(ValidateConfig s (Some c) = Inr () \<longleftrightarrow>
      validKey (Config_Key c) \<and> validateType s (Config_Type c) = Inr () \<and>
      (\<exists>v. decodeJSON (Config_Value c) = Inr v \<and> conforms s (config_field c) v)) \<and>
    (\<forall>e. ValidateConfig s (Some c) = Inl e \<longrightarrow> (\<exists>m. e = Invalid m))"
proof (cases "Config_Type c = None \<or> \<not> validKey (Config_Key c)")
  case True
  then show ?thesis by (auto simp: ValidateConfig_def validateType_def)
next
  case False
  show ?thesis
  proof (cases "validateType s (Config_Type c)")
    case (Inl e)
    with False validateType_errors [OF Inl] show ?thesis by (auto simp: ValidateConfig_def)
  next
    case (Inr u)
    have "value_check (validateValue s (config_field c) v ''$'' {}) (conforms s (config_field c) v)" for v
      using validateValue_correct(1) [OF accepted_well_formed [OF assms], of "config_field c" "{}"] Inr
      by (simp add: config_field_def)
    note decides = value_check_decides [OF this]
    have run: "ValidateConfig s (Some c) = (case decodeJSON (Config_Value c) of
        Inl _ \<Rightarrow> Inl (Invalid ''config value is not valid JSON'')
      | Inr v \<Rightarrow> validateValue s (config_field c) v ''$'' {})"
      using False Inr by (auto simp: ValidateConfig_def config_field_def split: sum.split)
    show ?thesis unfolding run
      using False Inr decides by (cases "decodeJSON (Config_Value c)") simp_all
  qed
qed

text \<open>The sample document \<^verbatim>\<open>{"x":1,"c":"RED"}\<close> and one whose number is not an integer.\<close>

definition point_json :: "string \<Rightarrow> string" where
  "point_json n = ''{'' @ [quote_char] @ ''x'' @ [quote_char] @ '':'' @ n @ '','' @
     [quote_char] @ ''c'' @ [quote_char] @ '':'' @ [quote_char] @ ''RED'' @ [quote_char] @ ''}''"

theorem ValidateConfig_decides_witness:
  "(\<exists>v. decodeJSON (point_json ''1'') = Inr v \<and> conforms example_schema (config_field (example_config (point_json ''1''))) v) \<and>
   \<not> (\<exists>v. decodeJSON (point_json ''1.5'') = Inr v \<and> conforms example_schema (config_field (example_config (point_json ''1.5''))) v)"
proof -
  have "ValidateConfig example_schema (Some (example_config (point_json ''1''))) = Inr ()" by code_simp
  moreover have "ValidateConfig example_schema (Some (example_config (point_json ''1.5''))) \<noteq> Inr ()" by code_simp
  moreover have "validKey ''origin''" by code_simp
  ultimately show ?thesis
    using ValidateConfig_decides [OF map_iteration_id example_accepted, of "example_config (point_json ''1'')"]
      ValidateConfig_decides [OF map_iteration_id example_accepted, of "example_config (point_json ''1.5'')"]
      example_config_type [of "point_json ''1''"] example_config_type [of "point_json ''1.5''"]
    by (simp add: example_config_def)
qed

section \<open>Trees and defaults\<close>

text \<open>
  C14. On an accepted schema \<^verbatim>\<open>BuildTree\<close> returns a tree for every config with a resolvable type: the
  recursion ends, the root carries the config's key, array flag and type, and every node has exactly the
  fields of the structure it refers to as children, in order, and none otherwise.
\<close>

theorem BuildTree_complete:
  assumes "map_iteration iter" "NewSchema iter xs ys = Inr s" "validateType s (Config_Type c) = Inr ()"
  shows "\<exists>t. BuildTree s (Some c) = Inr t \<and> expanded s t \<and> Field_Key (node_field t) = Config_Key c \<and>
    Field_Type (node_field t) = Config_Type c \<and> Field_IsArray (node_field t) = Config_IsArray c"
proof -
  from children_total(1) [OF accepted_well_formed [OF assms(1,2)] assms(3), of "{}"]
  obtain cs where "children s (Config_Type c) {} = Inr cs" "\<forall>c \<in> set cs. expanded s c"
    "case map_of (structures s) (GetStructureKey (Config_Type c)) of
       None \<Rightarrow> cs = [] | Some st \<Rightarrow> map (\<lambda>c. Some (node_field c)) cs = Structure_Fields st"
    by auto
  moreover have "Config_Type c \<noteq> None" using assms(3) by (cases "Config_Type c") (auto simp: validateType_def)
  ultimately show ?thesis using assms(3) by (simp add: BuildTree_def)
qed

theorem BuildTree_complete_witness:
  "\<exists>t. BuildTree example_schema (Some (example_config ''0'')) = Inr t \<and> expanded example_schema t"
  using BuildTree_complete [OF map_iteration_id example_accepted example_config_type [of "''0''"]] by blast

text \<open>
  C16. On an accepted schema \<^verbatim>\<open>DefaultValue\<close> always returns the JSON text of a value for a resolvable type;
  unless a date or time type is involved (whose default, the empty string or the empty range, is a
  placeholder to be filled in), that value conforms to the type.
\<close>

theorem DefaultValue_conforms:
  assumes "map_iteration iter" "NewSchema iter xs ys = Inr s" "validateType s t = Inr ()"
    and f: "f = \<lparr>Field_Key = ''value'', Field_Name = ''value'', Field_Description = '''',
               Field_IsArray = isArray, Field_Type = t\<rparr>"
  shows "\<exists>v. DefaultValue s t isArray = Inr (Marshal v) \<and>
    (plain_schema s \<longrightarrow> plain_field f \<longrightarrow> conforms s f v)"
proof -
  note wf = accepted_well_formed [OF assms(1,2)]
  obtain v where v: "defaultValue s f {} = Inr v"
    using defaultValue_total(1) [OF wf, of f "{}"] assms(3) f by auto
  then show ?thesis
    using defaultValue_conforms(1) [OF wf, of f "{}" v] assms(3) f by (auto simp: DefaultValue_def)
qed

theorem DefaultValue_conforms_witness:
  "\<exists>v. DefaultValue example_schema (Some (Some (StructureKey ''Line''))) False = Inr (Marshal v) \<and>
     conforms example_schema (example_field ''value'' (StructureKey ''Line'')\<lparr>Field_Name := ''value''\<rparr>) v"
proof -
  have "plain_schema example_schema"
    by (auto simp: plain_schema_def plain_field_def example_defs temporal_def base_type_defs)
  then show ?thesis
    using DefaultValue_conforms [OF map_iteration_id example_accepted example_type refl, of False]
    by (simp add: plain_field_def example_field_def)
qed

section \<open>Structure choices\<close>

text \<open>
  C17. When the stored structures have no reference cycle, the choices offered for a field of an edited
  structure (\<^verbatim>\<open>FilterStructureChoices\<close>) are exactly those structures that can be referenced from it
  without creating a cycle.
\<close>

theorem FilterStructureChoices_safe:
  assumes "0 < ignoreID" "find (\<lambda>item. Structure_Id item = ignoreID) items = Some ignored"
    "acyclic (choice_graph items)"
  shows "FilterStructureChoices items ignoreID =
    Inr (filter (\<lambda>item. acyclic (insert (Structure_Key ignored, Structure_Key item) (choice_graph items))) items)"
  using FilterStructureChoices_keeps [OF assms(1,2)] assms(3) by (simp add: acyclic_insert)

lemma example_choice_graph:
  "choice_graph [example_point, example_line] = {(''Point'', ''''), (''Line'', ''Point'')}"
  by (auto simp: choice_graph_def example_defs GetStructureKey_def GetType_def)

theorem FilterStructureChoices_safe_witness:
  "FilterStructureChoices [example_point, example_line] 2 = Inr [example_point] \<and>
   acyclic (insert (''Line'', ''Point'') (choice_graph [example_point, example_line]))"
proof -
  have acyc: "acyclic (choice_graph [example_point, example_line])"
    unfolding example_choice_graph by (rule wf_acyclic) (auto intro: wf_insert simp: rtrancl_insert)
  have run: "FilterStructureChoices [example_point, example_line] 2 = Inr [example_point]" by code_simp
  have "find (\<lambda>item. Structure_Id item = 2) [example_point, example_line] = Some example_line"
    by (simp add: example_defs)
  from FilterStructureChoices_safe [OF _ this acyc] run show ?thesis
    by (simp add: example_point_def example_line_def example_structure_def split: if_splits)
qed

section \<open>Integer conversions\<close>

text \<open>
  C22. Every conversion of \<^verbatim>\<open>safeint\<close> is exact on a 32-bit and on a 64-bit platform: it succeeds with a
  result exactly when that result has the same numeric value as the argument, so a value the target
  cannot hold is an error and nothing wraps around.
\<close>

theorem safeint_lossless:
  fixes i :: "'a::len word"
  assumes "LENGTH('a) = 32 \<or> LENGTH('a) = 64"
  shows "(Uint32FromInt64 a = Inr b \<longleftrightarrow> sint a = uint b) \<and>
    (Uint64FromInt64 a = Inr c \<longleftrightarrow> sint a = uint c) \<and>
    (Int64FromUint64 c = Inr a \<longleftrightarrow> uint c = sint a) \<and>
    (Uint32FromInt i = Inr b \<longleftrightarrow> sint i = uint b) \<and>
    (Uint64FromInt i = Inr c \<longleftrightarrow> sint i = uint c) \<and>
    (IntFromUint64 c = Inr i \<longleftrightarrow> uint c = sint i) \<and>
    (IntFromUint32 b = Inr i \<longleftrightarrow> uint b = sint i)"
  using assms
  by (simp add: Uint32FromInt64_exact Uint64FromInt64_exact Int64FromUint64_exact Uint32FromInt_exact
      Uint64FromInt_exact IntFromUint64_exact IntFromUint32_exact)

theorem safeint_lossless_witness:
  "Uint32FromInt64 5 = Inr 5 \<and> IntFromUint32 5 = Inr (5 :: 64 word) \<and>
   (\<forall>u :: 32 word. Uint32FromInt (-1 :: 64 word) \<noteq> Inr u)"
proof -
  have "uint u \<noteq> - 1" for u :: "32 word" using uint_ge_0 [of u] by linarith
  then show ?thesis
    using safeint_lossless [where i = "5 :: 64 word", of 5 5 5]
      safeint_lossless [where i = "-1 :: 64 word"] by (auto simp: eq_commute [of "- 1"])
qed

end
