(* ===== verification/Cache.thy ===== *)
theory Cache
  imports Text
begin

text \<open>
  The process-local cache of \<^verbatim>\<open>server/internal/infra/cache/cache.go\<close>. A \<^verbatim>\<open>time.Time\<close> is the number of
  nanoseconds since the zero time, so \<^verbatim>\<open>IsZero\<close> is equality with 0; durations are nanoseconds. The
  reading of \<^verbatim>\<open>s.now()\<close> and of \<^verbatim>\<open>ctx.Err()\<close> are arguments of each operation. The mutex makes every
  operation atomic. The Redis implementation of the same interface runs in the Redis server and is
  covered only by the contract \<open>byte_store\<close>, which the memory store is shown to satisfy.
\<close>

section \<open>Operations\<close>

record memoryEntry =
  entry_value :: string
  entry_expiresAt :: int

record memoryStore =
  store_entries :: "string \<rightharpoonup> memoryEntry"

definition newMemory :: memoryStore where
  "newMemory = \<lparr>store_entries = Map.empty\<rparr>"

definition expired :: "int \<Rightarrow> memoryEntry \<Rightarrow> bool" where
  "expired now entry \<longleftrightarrow> entry_expiresAt entry \<noteq> 0 \<and> \<not> now < entry_expiresAt entry"

definition drop_entry :: "string \<Rightarrow> memoryStore \<Rightarrow> memoryStore" where
  "drop_entry key s = s\<lparr>store_entries := (store_entries s)(key := None)\<rparr>"

definition put_entry :: "string \<Rightarrow> memoryEntry \<Rightarrow> memoryStore \<Rightarrow> memoryStore" where
  "put_entry key entry s = s\<lparr>store_entries := (store_entries s)(key \<mapsto> entry)\<rparr>"

definition memory_Get :: "err option \<Rightarrow> int \<Rightarrow> string \<Rightarrow> memoryStore \<Rightarrow> string result \<times> memoryStore" where
  "memory_Get ctx now key s =
     (case ctx of
        Some e \<Rightarrow> (Inl e, s)
      | None \<Rightarrow>
          (case store_entries s key of
             None \<Rightarrow> (Inl CacheNotFound, s)
           | Some entry \<Rightarrow>
               if expired now entry then (Inl CacheNotFound, drop_entry key s)
               else (Inr (entry_value entry), s)))"

definition memory_Set ::
  "err option \<Rightarrow> int \<Rightarrow> string \<Rightarrow> string \<Rightarrow> int \<Rightarrow> memoryStore \<Rightarrow> unit result \<times> memoryStore" where
  "memory_Set ctx now key value ttl s =
     (case ctx of
        Some e \<Rightarrow> (Inl e, s)
      | None \<Rightarrow>
          if ttl < 0 then (Inl (CacheError ''cache TTL cannot be negative''), s)
          else (Inr (), put_entry key
                 \<lparr>entry_value = value, entry_expiresAt = (if ttl > 0 then now + ttl else 0)\<rparr> s))"

definition MaxInt64_value :: int where "MaxInt64_value = 2 ^ 63 - 1"

definition memory_Increment ::
  "err option \<Rightarrow> int \<Rightarrow> string \<Rightarrow> int \<Rightarrow> memoryStore \<Rightarrow> int result \<times> memoryStore" where
  "memory_Increment ctx now key ttl s =
     (case ctx of
        Some e \<Rightarrow> (Inl e, s)
      | None \<Rightarrow>
          if ttl \<le> 0 then (Inl InvalidTTL, s)
          else
            (let (found, s1) =
               (case store_entries s key of
                  None \<Rightarrow> (None, s)
                | Some entry \<Rightarrow> if expired now entry then (None, drop_entry key s) else (Some entry, s))
             in case found of
                  None \<Rightarrow> (Inr 1, put_entry key \<lparr>entry_value = ''1'', entry_expiresAt = now + ttl\<rparr> s1)
                | Some entry \<Rightarrow>
                    (case ParseInt64 (entry_value entry) of
                       None \<Rightarrow> (Inl (CacheError ''value is not an integer''), s1)
                     | Some current \<Rightarrow>
                         if current = MaxInt64_value then (Inl (CacheError ''counter overflow''), s1)
                         else (Inr (current + 1),
                               put_entry key (entry\<lparr>entry_value := FormatInt (current + 1)\<rparr>) s1))))"

definition memory_Delete :: "err option \<Rightarrow> string \<Rightarrow> memoryStore \<Rightarrow> unit result \<times> memoryStore" where
  "memory_Delete ctx key s = (case ctx of Some e \<Rightarrow> (Inl e, s) | None \<Rightarrow> (Inr (), drop_entry key s))"

section \<open>The store contract\<close>

text \<open>
  What the users of the cache rely on, stated with the relation \<open>holds s k v\<close>: the store may answer \<open>v\<close>
  for \<open>k\<close>. A read answers only with what the store holds, a write adds nothing but the written pair, an
  acknowledged deletion removes the key, and entries may disappear at any time.
\<close>

locale byte_store =
  fixes holds :: "'s \<Rightarrow> string \<Rightarrow> string \<Rightarrow> bool"
    and get :: "err option \<Rightarrow> int \<Rightarrow> string \<Rightarrow> 's \<Rightarrow> string result \<times> 's"
    and put :: "err option \<Rightarrow> int \<Rightarrow> string \<Rightarrow> string \<Rightarrow> int \<Rightarrow> 's \<Rightarrow> unit result \<times> 's"
    and del :: "err option \<Rightarrow> string \<Rightarrow> 's \<Rightarrow> unit result \<times> 's"
  assumes get_value: "get ctx now k s = (Inr v, s') \<Longrightarrow> holds s k v"
    and get_keeps: "get ctx now k s = (r, s') \<Longrightarrow> holds s' k' v' \<Longrightarrow> holds s k' v'"
    and put_adds: "put ctx now k v ttl s = (u, s') \<Longrightarrow> holds s' k' v' \<Longrightarrow>
          holds s k' v' \<or> (u = Inr () \<and> k' = k \<and> v' = v)"
    and put_replaces: "put ctx now k v ttl s = (Inr (), s') \<Longrightarrow> holds s' k v' \<Longrightarrow> v' = v"
    and del_keeps: "del ctx k s = (u, s') \<Longrightarrow> holds s' k' v' \<Longrightarrow> holds s k' v'"
    and del_removes: "del ctx k s = (Inr (), s') \<Longrightarrow> \<not> holds s' k v'"
begin

definition entries_satisfy :: "(string \<Rightarrow> string \<Rightarrow> bool) \<Rightarrow> 's \<Rightarrow> bool" where
  "entries_satisfy P s \<longleftrightarrow> (\<forall>k v. holds s k v \<longrightarrow> P k v)"

lemma satisfy_get: "entries_satisfy P s \<Longrightarrow> get ctx now k s = (r, s') \<Longrightarrow> entries_satisfy P s'"
  unfolding entries_satisfy_def using get_keeps by blast

lemma satisfy_get_value: "entries_satisfy P s \<Longrightarrow> get ctx now k s = (Inr v, s') \<Longrightarrow> P k v"
  unfolding entries_satisfy_def using get_value by blast

lemma satisfy_put: "entries_satisfy P s \<Longrightarrow> put ctx now k v ttl s = (r, s') \<Longrightarrow> P k v \<Longrightarrow> entries_satisfy P s'"
  unfolding entries_satisfy_def using put_adds by blast

lemma satisfy_del: "entries_satisfy P s \<Longrightarrow> del ctx k s = (r, s') \<Longrightarrow> entries_satisfy P s'"
  unfolding entries_satisfy_def using del_keeps by blast

lemma satisfy_mono: "entries_satisfy P s \<Longrightarrow> (\<And>k v. P k v \<Longrightarrow> Q k v) \<Longrightarrow> entries_satisfy Q s"
  unfolding entries_satisfy_def by blast

end

definition memory_holds :: "memoryStore \<Rightarrow> string \<Rightarrow> string \<Rightarrow> bool" where
  "memory_holds s k v \<longleftrightarrow> (\<exists>entry. store_entries s k = Some entry \<and> entry_value entry = v)"

lemma store_entries_simps [simp]:
  "store_entries (drop_entry key s) = (store_entries s)(key := None)"
  "store_entries (put_entry key entry s) = (store_entries s)(key \<mapsto> entry)"
  by (simp_all add: drop_entry_def put_entry_def)

interpretation mem: byte_store memory_holds memory_Get memory_Set memory_Delete
  by unfold_locales
    (auto simp: memory_holds_def memory_Get_def memory_Set_def memory_Delete_def
      split: option.splits if_splits)

section \<open>Reading back\<close>

lemma Set_then_Get:
  assumes "0 \<le> ttl" "0 \<le> now" "ttl > 0 \<longrightarrow> later < now + ttl"
  shows "memory_Get None later key (snd (memory_Set None now key value ttl s)) =
    (Inr value, snd (memory_Set None now key value ttl s))"
  using assms by (simp add: memory_Get_def memory_Set_def expired_def)

lemma Get_after_expiry:
  assumes "0 < ttl" "0 \<le> now" "now + ttl \<le> later"
  shows "fst (memory_Get None later key (snd (memory_Set None now key value ttl s))) = Inl CacheNotFound"
  using assms by (simp add: memory_Get_def memory_Set_def expired_def)

lemma Delete_then_Get:
  "fst (memory_Get None later key (snd (memory_Delete None key s))) = Inl CacheNotFound"
  by (simp add: memory_Get_def memory_Delete_def)

section \<open>Counting windows\<close>

text \<open>A run of increments of one key, each with its own clock reading and ttl.\<close>

fun increments :: "string \<Rightarrow> (int \<times> int) list \<Rightarrow> memoryStore \<Rightarrow> int result list \<times> memoryStore" where
  "increments key [] s = ([], s)"
| "increments key ((now, ttl) # calls) s =
     (case memory_Increment None now key ttl s of
        (r, s') \<Rightarrow> (case increments key calls s' of (rs, s'') \<Rightarrow> (r # rs, s'')))"

definition counter_at :: "string \<Rightarrow> int \<Rightarrow> int \<Rightarrow> memoryStore \<Rightarrow> bool" where
  "counter_at key n expiry s \<longleftrightarrow>
     store_entries s key = Some \<lparr>entry_value = FormatInt n, entry_expiresAt = expiry\<rparr>"

lemma FormatInt_1: "FormatInt 1 = ''1''"
  by code_simp

lemma Increment_counts:
  assumes "counter_at key n expiry s" "now < expiry" "0 < ttl" "0 \<le> n" "n < MaxInt64_value"
  shows "fst (memory_Increment None now key ttl s) = Inr (n + 1) \<and>
    counter_at key (n + 1) expiry (snd (memory_Increment None now key ttl s))"
  using assms ParseInt64_FormatInt [of n]
  by (simp add: memory_Increment_def counter_at_def expired_def MaxInt64_value_def)

lemma increments_count:
  assumes "counter_at key n expiry s" "\<forall>(now, ttl) \<in> set calls. now < expiry \<and> 0 < ttl" "0 \<le> n"
    "n + int (length calls) \<le> MaxInt64_value"
  shows "fst (increments key calls s) = map Inr [n + 1 .. n + int (length calls)] \<and>
    counter_at key (n + int (length calls)) expiry (snd (increments key calls s))"
  using assms
proof (induction calls arbitrary: n s)
  case Nil
  then show ?case by simp
next
  case (Cons call calls)
  obtain now ttl where call: "call = (now, ttl)" by fastforce
  obtain r s1 where step: "memory_Increment None now key ttl s = (r, s1)" by fastforce
  have first: "r = Inr (n + 1)" "counter_at key (n + 1) expiry s1"
    using Increment_counts [OF Cons.prems(1), of now ttl] Cons.prems call step by auto
  from Cons.IH [OF this(2)] Cons.prems(2-4) call
  have rest: "fst (increments key calls s1) = map Inr [n + 2 .. n + 1 + int (length calls)]"
    "counter_at key (n + 1 + int (length calls)) expiry (snd (increments key calls s1))"
    by (auto simp: algebra_simps)
  have "[n + 1 .. n + int (length (call # calls))] = (n + 1) # [n + 2 .. n + 1 + int (length calls)]"
    by (simp add: upto_rec1 algebra_simps)
  then show ?case using first rest call step by (simp add: split_beta algebra_simps)
qed

lemma Increment_opens:
  assumes "case store_entries s key of None \<Rightarrow> True | Some entry \<Rightarrow> expired now entry" "0 < ttl"
  shows "fst (memory_Increment None now key ttl s) = Inr 1 \<and>
    counter_at key 1 (now + ttl) (snd (memory_Increment None now key ttl s))"
  using assms by (auto simp: memory_Increment_def counter_at_def FormatInt_1 split: option.splits)

text \<open>
  C23. Rate-limit windows of the cache cannot be extended: the increment that opens a window answers 1 and
  fixes the expiry, every further increment before that expiry answers the next number whatever ttl it
  asks for, and the expiry never moves.
\<close>

theorem Increment_window:
  assumes "case store_entries s key of None \<Rightarrow> True | Some entry \<Rightarrow> expired t0 entry" "0 < ttl0"
    "\<forall>(now, ttl) \<in> set calls. now < t0 + ttl0 \<and> 0 < ttl"
    "int (length calls) < MaxInt64_value"
  shows "fst (increments key ((t0, ttl0) # calls) s) = map Inr [1 .. int (length calls) + 1] \<and>
    store_entries (snd (increments key ((t0, ttl0) # calls) s)) key =
      Some \<lparr>entry_value = FormatInt (int (length calls) + 1), entry_expiresAt = t0 + ttl0\<rparr>"
proof -
  obtain r s1 where step: "memory_Increment None t0 key ttl0 s = (r, s1)" by fastforce
  with Increment_opens [OF assms(1,2)] have first: "r = Inr 1" "counter_at key 1 (t0 + ttl0) s1" by auto
  have "[1 .. int (length calls) + 1] = 1 # [2 .. int (length calls) + 1]"
    by (simp add: upto_rec1)
  with increments_count [OF first(2) assms(3)] assms(4) first step show ?thesis
    by (simp add: split_beta counter_at_def add.commute)
qed

theorem Increment_window_witness:
  "fst (increments ''ip'' [(10, 60), (20, 60), (69, 600)] newMemory) = [Inr 1, Inr 2, Inr 3]"
  using Increment_window [where s = newMemory and key = "''ip''" and ?t0.0 = 10 and ?ttl0.0 = 60 and
      calls = "[(20, 60), (69, 600)]"]
  by (simp add: newMemory_def MaxInt64_value_def upto_rec1 upto_rec2)

text \<open>
  The cache answers a read with the last value written until the entry expires or is deleted, and
  with a miss from then on; a ttl of 0 never expires.
\<close>

lemma Set_Get_Delete:
  assumes "0 \<le> ttl" "0 \<le> now"
  shows "let s' = snd (memory_Set None now key v ttl s) in
    fst (memory_Get None later key s') = (if ttl = 0 \<or> later < now + ttl then Inr v else Inl CacheNotFound) \<and>
    (\<forall>other. other \<noteq> key \<longrightarrow> fst (memory_Get None later other s') = fst (memory_Get None later other s)) \<and>
    fst (memory_Get None later key (snd (memory_Delete None key s'))) = Inl CacheNotFound"
  using assms Delete_then_Get
  by (auto simp: Let_def memory_Get_def memory_Set_def memory_Delete_def expired_def split: option.splits)

end
