(* ===== verification/Database.thy ===== *)
theory Database
  imports Cache
begin

text \<open>
  The database the server runs on, as far as the server's own code describes it: the tables of
  \<^verbatim>\<open>server/internal/model\<close> with the unique keys of its SQL schema, and the meaning of the statements the
  repositories write (selections with joins, guarded updates, inserts). What the outside world decides is
  an argument, the record \<open>engine\<close>: whether a statement fails and how, the readings of the clock and of
  \<^verbatim>\<open>ctx.Err()\<close>, and equality and \<^verbatim>\<open>LIKE\<close> patterns of text in the database's collation (MySQL compares the key
  columns without case, PostgreSQL with). Each interaction is numbered by \<open>tick\<close>. A fallible operation is a function of type
  \<open>'a M\<close>, state passing with an error result.

  The transaction runner is the third-party \<^verbatim>\<open>lorm\<close> engine and is a parameter \<open>tx\<close> of the operations that
  use it; \<open>transaction_runner\<close> states its documented behaviour. Row locks (\<^verbatim>\<open>FOR UPDATE\<close>) make concurrent
  transactions on the same rows run one after another, so an operation is one step here.
\<close>

section \<open>Rows\<close>

record meta =
  ID :: int
  CreatedBy :: int
  UpdatedBy :: int
  CreatedAt :: int
  UpdatedAt :: int
  Version :: int
  DeletedAt :: "int option"

record environment_row = meta +
  e_ProjectID :: int
  e_Key :: string
  e_Name :: string
  e_Description :: string
  e_Enabled :: bool

record user_row = meta +
  u_Username :: string
  u_DisplayName :: string
  u_PasswordHash :: string
  u_Enabled :: bool
  u_IsSystemAdmin :: bool
  u_MustChangePassword :: bool
  u_LastLoginAt :: "int option"

record role_row = meta +
  ro_Key :: string
  ro_Name :: string
  ro_Description :: string
  ro_Builtin :: bool

record project_row = meta +
  p_Key :: string
  p_Name :: string
  p_Description :: string

record config_row = meta +
  c_ProjectID :: int
  c_Key :: string
  c_Description :: string
  c_IsArray :: bool
  c_TypeJSON :: string
  c_Value :: string
  c_RuntimeVersion :: int

text \<open>
  Structures and enums of a config are stored alike: \<open>d_JSON\<close> is the column \<^verbatim>\<open>fields_json\<close> of a structure
  and \<^verbatim>\<open>values_json\<close> of an enum.
\<close>

record child_row = meta +
  d_ConfigID :: int
  d_Key :: string
  d_Name :: string
  d_Description :: string
  d_JSON :: string

datatype SnapshotStatus = StatusCode int

definition SnapshotStatusUnreleased :: SnapshotStatus where "SnapshotStatusUnreleased = StatusCode 1"
definition SnapshotStatusReleased :: SnapshotStatus where "SnapshotStatusReleased = StatusCode 3"

lemma status_distinct [simp]:
  "SnapshotStatusUnreleased \<noteq> SnapshotStatusReleased" "SnapshotStatusReleased \<noteq> SnapshotStatusUnreleased"
  by (simp_all add: SnapshotStatusUnreleased_def SnapshotStatusReleased_def)

record snapshot_row = meta +
  s_ProjectID :: int
  s_ConfigID :: int
  s_ConfigKey :: string
  s_Description :: string
  s_Content :: string
  s_Status :: SnapshotStatus
  s_TagsJSON :: string
  s_IsUsing :: bool
  s_PublishedAt :: "int option"
  s_PublishedBy :: "int option"

record record_meta =
  r_ID :: int
  r_CreatedAt :: int
  r_UpdatedAt :: int

record permission_row = record_meta +
  pm_Key :: string
  pm_Name :: string
  pm_Description :: string

record member_row = record_meta +
  m_UserID :: int
  m_EnvironmentID :: int
  m_RoleID :: int
  m_CreatedBy :: int

record grant_row = record_meta +
  g_RoleID :: int
  g_PermissionID :: int
  g_CreatedBy :: int

record api_key_row = record_meta +
  k_ProjectID :: int
  k_PublicID :: string
  k_Name :: string
  k_SecretHash :: string
  k_SecretSuffix :: string
  k_CreatedBy :: int
  k_LastUsedAt :: "int option"
  k_RevokedAt :: "int option"

record refresh_token_row = record_meta +
  t_UserID :: int
  t_SessionID :: string
  t_TokenHash :: string
  t_ExpiresAt :: int
  t_LastUsedAt :: "int option"
  t_RevokedAt :: "int option"
  t_ReplacedByID :: "int option"

record audit_row = record_meta +
  a_ActorUserID :: "int option"
  a_EnvironmentID :: "int option"
  a_Action :: string
  a_ResourceType :: string
  a_ResourceID :: string
  a_Result :: string
  a_RequestID :: string
  a_DetailsJSON :: "string option"

record import_row =
  i_ID :: int
  i_CreatedBy :: int
  i_UpdatedBy :: int
  i_CreatedAt :: int
  i_UpdatedAt :: int
  i_Version :: int
  i_UserID :: int
  i_SourceEnvironmentID :: int
  i_TargetEnvironmentID :: int
  i_SourceSnapshotID :: int
  i_TargetProjectID :: int
  i_TargetSnapshotID :: "int option"
  i_IdempotencyKey :: string
  i_RequestHash :: string
  i_Status :: string
  i_ResultJSON :: "string option"
  i_ErrorMessage :: string

record secrets_row =
  x_ID :: int
  x_JWTKeyID :: string
  x_JWTSigningKey :: string
  x_APIKeyPepper :: string
  x_AdminInitialized :: bool

section \<open>The state\<close>

record db =
  environments :: "environment_row list"
  users :: "user_row list"
  roles :: "role_row list"
  projects :: "project_row list"
  configs :: "config_row list"
  structure_rows :: "child_row list"
  enum_rows :: "child_row list"
  snapshots :: "snapshot_row list"
  permissions :: "permission_row list"
  members :: "member_row list"
  grants :: "grant_row list"
  api_keys :: "api_key_row list"
  refresh_tokens :: "refresh_token_row list"
  audit_logs :: "audit_row list"
  import_records :: "import_row list"
  application_secrets :: "secrets_row list"

datatype table_name =
    ConfigsTable | StructuresTable | EnumsTable | SnapshotsTable | APIKeysTable | RefreshTokensTable
  | AuditLogsTable | ImportRecordsTable | EnvironmentsTable | UsersTable | RolesTable | ProjectsTable
  | MembersTable | GrantsTable

text \<open>The identifiers handed out by a sequence are not taken back by a rollback.\<close>

record world =
  database :: db
  cache :: memoryStore
  last_id :: "table_name \<Rightarrow> int"
  tick :: nat

record engine =
  fault :: "nat \<Rightarrow> err option"
  clock :: "nat \<Rightarrow> int"
  ctx_error :: "nat \<Rightarrow> err option"
  same_text :: "string \<Rightarrow> string \<Rightarrow> bool"
  like_text :: "string \<Rightarrow> string \<Rightarrow> bool"

type_synonym 'a M = "engine \<Rightarrow> world \<Rightarrow> 'a result \<times> world"

section \<open>Operations with effects\<close>

definition returnM :: "'a \<Rightarrow> 'a M" where
  "returnM a = (\<lambda>E w. (Inr a, w))"

definition failM :: "err \<Rightarrow> 'a M" where
  "failM e = (\<lambda>E w. (Inl e, w))"

definition bindM :: "'a M \<Rightarrow> ('a \<Rightarrow> 'b M) \<Rightarrow> 'b M" where
  "bindM m f = (\<lambda>E w. case m E w of (Inl e, w') \<Rightarrow> (Inl e, w') | (Inr a, w') \<Rightarrow> f a E w')"

text \<open>A call whose error the caller inspects.\<close>

definition attemptM :: "'a M \<Rightarrow> 'a result M" where
  "attemptM m = (\<lambda>E w. case m E w of (r, w') \<Rightarrow> (Inr r, w'))"

definition liftR :: "'a result \<Rightarrow> 'a M" where
  "liftR r = (\<lambda>E w. (r, w))"

definition guardM :: "bool \<Rightarrow> err \<Rightarrow> unit M" where
  "guardM bad e = liftR (guardR bad e)"

definition mapErrM :: "(err \<Rightarrow> err) \<Rightarrow> 'a M \<Rightarrow> 'a M" where
  "mapErrM f m = (\<lambda>E w. case m E w of (Inl e, w') \<Rightarrow> (Inl (f e), w') | (Inr a, w') \<Rightarrow> (Inr a, w'))"

fun forM :: "('a \<Rightarrow> 'b M) \<Rightarrow> 'a list \<Rightarrow> 'b list M" where
  "forM f [] = returnM []"
| "forM f (x # xs) = bindM (f x) (\<lambda>y. bindM (forM f xs) (\<lambda>ys. returnM (y # ys)))"

text \<open>\<^verbatim>\<open>time.Now().UTC()\<close>.\<close>

definition nowM :: "int M" where
  "nowM = (\<lambda>E w. (Inr (clock E (tick w)), w\<lparr>tick := Suc (tick w)\<rparr>))"

text \<open>One selection, and one write that returns a value; either may be refused with a driver error.\<close>

definition queryM :: "(engine \<Rightarrow> db \<Rightarrow> 'a) \<Rightarrow> 'a M" where
  "queryM q = (\<lambda>E w.
     (case fault E (tick w) of
        Some e \<Rightarrow> (Inl e, w\<lparr>tick := Suc (tick w)\<rparr>)
      | None \<Rightarrow> (Inr (q E (database w)), w\<lparr>tick := Suc (tick w)\<rparr>)))"

definition execM :: "(engine \<Rightarrow> db \<Rightarrow> 'a result \<times> db) \<Rightarrow> 'a M" where
  "execM q = (\<lambda>E w.
     (case fault E (tick w) of
        Some e \<Rightarrow> (Inl e, w\<lparr>tick := Suc (tick w)\<rparr>)
      | None \<Rightarrow> (case q E (database w) of (r, d) \<Rightarrow> (r, w\<lparr>database := d, tick := Suc (tick w)\<rparr>))))"

text \<open>The rows an update matches are rewritten in place; the count is what \<^verbatim>\<open>Exec\<close> returns.\<close>

definition update_rows :: "('r \<Rightarrow> bool) \<Rightarrow> ('r \<Rightarrow> 'r) \<Rightarrow> 'r list \<Rightarrow> 'r list" where
  "update_rows cond f rows = map (\<lambda>r. if cond r then f r else r) rows"

definition matching :: "('r \<Rightarrow> bool) \<Rightarrow> 'r list \<Rightarrow> nat" where
  "matching cond rows = length (filter cond rows)"

text \<open>\<^verbatim>\<open>Get\<close> returns the first row, if any.\<close>

definition first_row :: "'r list \<Rightarrow> 'r option" where
  "first_row rows = (case rows of [] \<Rightarrow> None | r # _ \<Rightarrow> Some r)"

text \<open>The next identifier of a table.\<close>

definition fresh_id :: "table_name \<Rightarrow> int M" where
  "fresh_id t = (\<lambda>E w. (Inr (last_id w t + 1), w\<lparr>last_id := (last_id w)(t := last_id w t + 1)\<rparr>))"

definition IsDeleted :: "('a meta_scheme) \<Rightarrow> bool" where
  "IsDeleted r \<longleftrightarrow> DeletedAt r \<noteq> None"

section \<open>Error classification\<close>

definition WrapDatabaseError :: "err \<Rightarrow> err" where
  "WrapDatabaseError e = (if e = ContextCanceled \<or> e = DeadlineExceeded then e else DatabaseError e)"

definition isDuplicateKeyError :: "err \<Rightarrow> bool" where
  "isDuplicateKeyError e \<longleftrightarrow> e = DuplicateKeyError"

definition classifyKeyWriteError :: "string \<Rightarrow> err \<Rightarrow> err" where
  "classifyKeyWriteError resource e =
     (if isDuplicateKeyError e then KeyConflict resource else WrapDatabaseError e)"

text \<open>\<^verbatim>\<open>errors.Is(err, ErrNotFound)\<close>.\<close>

fun isNotFound :: "err \<Rightarrow> bool" where
  "isNotFound (NotFound _) = True"
| "isNotFound (Wrapped _ e) = isNotFound e"
| "isNotFound (DatabaseError e) = isNotFound e"
| "isNotFound _ = False"

text \<open>\<^verbatim>\<open>Get\<close> followed by the \<^verbatim>\<open>if !has\<close> of the repositories.\<close>

definition requireRow :: "string \<Rightarrow> 'r option \<Rightarrow> 'r M" where
  "requireRow resource row = (case row of None \<Rightarrow> failM (NotFound resource) | Some r \<Rightarrow> returnM r)"

definition requireAffected :: "string \<Rightarrow> nat \<Rightarrow> unit M" where
  "requireAffected resource n = guardM (n = 0) (NoRowsAffected resource)"

section \<open>Transactions\<close>

text \<open>
  \<^verbatim>\<open>TX\<close> runs the operation once; its error is returned and rolls the database back; otherwise either
  the commit succeeds and the operation's writes stay, or it fails with an error and rolls back. The cache
  is not part of a transaction.
\<close>

definition transaction_runner :: "('a M \<Rightarrow> 'a M) \<Rightarrow> bool" where
  "transaction_runner tx \<longleftrightarrow> (\<forall>m E w.
     (case m E w of
        (Inl e, w') \<Rightarrow> tx m E w = (Inl e, w'\<lparr>database := database w\<rparr>)
      | (Inr a, w') \<Rightarrow> tx m E w = (Inr a, w') \<or>
          (\<exists>e. tx m E w = (Inl e, w'\<lparr>database := database w\<rparr>))))"

text \<open>A runner whose commits always succeed.\<close>

definition run_tx :: "'a M \<Rightarrow> 'a M" where
  "run_tx m = (\<lambda>E w. case m E w of (Inl e, w') \<Rightarrow> (Inl e, w'\<lparr>database := database w\<rparr>) | (Inr a, w') \<Rightarrow> (Inr a, w'))"

section \<open>Running operations\<close>

named_theorems run_simps "results of the effectful combinators"

lemma run_basic [run_simps]:
  "returnM a E w = (Inr a, w)"
  "failM e E w = (Inl e, w)"
  "liftR r E w = (r, w)"
  "nowM E w = (Inr (clock E (tick w)), w\<lparr>tick := Suc (tick w)\<rparr>)"
  "fresh_id t E w = (Inr (last_id w t + 1), w\<lparr>last_id := (last_id w)(t := last_id w t + 1)\<rparr>)"
  by (simp_all add: returnM_def failM_def liftR_def nowM_def fresh_id_def)

lemma bindM_Inr [run_simps]:
  "bindM m f E w = (Inr b, w') \<longleftrightarrow> (\<exists>a w1. m E w = (Inr a, w1) \<and> f a E w1 = (Inr b, w'))"
  by (auto simp: bindM_def split: prod.splits sum.splits)

lemma bindM_Inl [run_simps]:
  "bindM m f E w = (Inl e, w') \<longleftrightarrow>
     m E w = (Inl e, w') \<or> (\<exists>a w1. m E w = (Inr a, w1) \<and> f a E w1 = (Inl e, w'))"
  by (auto simp: bindM_def split: prod.splits sum.splits)

lemma attemptM_Inr [run_simps]: "attemptM m E w = (Inr r, w') \<longleftrightarrow> m E w = (r, w')"
  by (auto simp: attemptM_def split: prod.splits)

lemma attemptM_Inl [run_simps]: "attemptM m E w = (Inl e, w') \<longleftrightarrow> False"
  by (auto simp: attemptM_def split: prod.splits)

lemma guardM_Inr [run_simps]: "guardM bad e E w = (Inr u, w') \<longleftrightarrow> \<not> bad \<and> w' = w"
  by (auto simp: guardM_def liftR_def guardR_def)

lemma guardM_Inl [run_simps]: "guardM bad e E w = (Inl e', w') \<longleftrightarrow> bad \<and> e' = e \<and> w' = w"
  by (auto simp: guardM_def liftR_def guardR_def)

lemma mapErrM_Inr [run_simps]: "mapErrM f m E w = (Inr a, w') \<longleftrightarrow> m E w = (Inr a, w')"
  by (auto simp: mapErrM_def split: prod.splits sum.splits)

lemma mapErrM_Inl [run_simps]: "mapErrM f m E w = (Inl e, w') \<longleftrightarrow> (\<exists>e'. m E w = (Inl e', w') \<and> e = f e')"
  by (auto simp: mapErrM_def split: prod.splits sum.splits)

lemma queryM_Inr [run_simps]:
  "queryM q E w = (Inr a, w') \<longleftrightarrow>
     fault E (tick w) = None \<and> a = q E (database w) \<and> w' = w\<lparr>tick := Suc (tick w)\<rparr>"
  by (auto simp: queryM_def split: option.splits)

lemma queryM_Inl [run_simps]:
  "queryM q E w = (Inl e, w') \<longleftrightarrow> fault E (tick w) = Some e \<and> w' = w\<lparr>tick := Suc (tick w)\<rparr>"
  by (auto simp: queryM_def split: option.splits)

lemma execM_Inr [run_simps]:
  "execM q E w = (Inr a, w') \<longleftrightarrow> fault E (tick w) = None \<and>
     (\<exists>d. q E (database w) = (Inr a, d) \<and> w' = w\<lparr>database := d, tick := Suc (tick w)\<rparr>)"
  by (auto simp: execM_def split: option.splits prod.splits)

lemma execM_Inl [run_simps]:
  "execM q E w = (Inl e, w') \<longleftrightarrow> (fault E (tick w) = Some e \<and> w' = w\<lparr>tick := Suc (tick w)\<rparr>) \<or>
     (fault E (tick w) = None \<and>
       (\<exists>d. q E (database w) = (Inl e, d) \<and> w' = w\<lparr>database := d, tick := Suc (tick w)\<rparr>))"
  by (auto simp: execM_def split: option.splits prod.splits)

lemma requireRow_Inr [run_simps]: "requireRow resource row E w = (Inr r, w') \<longleftrightarrow> row = Some r \<and> w' = w"
  by (auto simp: requireRow_def run_simps split: option.splits)

lemma requireRow_Inl [run_simps]:
  "requireRow resource row E w = (Inl e, w') \<longleftrightarrow> row = None \<and> e = NotFound resource \<and> w' = w"
  by (auto simp: requireRow_def run_simps split: option.splits)

lemma requireAffected_Inr [run_simps]: "requireAffected resource n E w = (Inr u, w') \<longleftrightarrow> 0 < n \<and> w' = w"
  by (auto simp: requireAffected_def run_simps)

lemma requireAffected_Inl [run_simps]:
  "requireAffected resource n E w = (Inl e, w') \<longleftrightarrow> n = 0 \<and> e = NoRowsAffected resource \<and> w' = w"
  by (auto simp: requireAffected_def run_simps)

lemma first_row_Some: "first_row rows = Some r \<Longrightarrow> r \<in> set rows"
  by (cases rows) (auto simp: first_row_def)

lemma first_row_None [simp]: "first_row rows = None \<longleftrightarrow> rows = []"
  by (cases rows) (auto simp: first_row_def)

lemma matching_pos [simp]: "0 < matching cond rows \<longleftrightarrow> (\<exists>r \<in> set rows. cond r)"
  by (auto simp: matching_def filter_empty_conv)

lemma set_update_rows: "set (update_rows cond f rows) = (\<lambda>r. if cond r then f r else r) ` set rows"
  by (simp add: update_rows_def)

lemma map_update_rows: "(\<And>r. g (f r) = g r) \<Longrightarrow> map g (update_rows cond f rows) = map g rows"
  by (induction rows) (auto simp: update_rows_def)

lemma row_unique: "distinct (map g rows) \<Longrightarrow> r \<in> set rows \<Longrightarrow> t \<in> set rows \<Longrightarrow> g r = g t \<Longrightarrow> r = t"
  by (metis distinct_map inj_onD)

lemma table_update_cong:
  "F (snapshots d) = G (snapshots d) \<Longrightarrow> snapshots_update F d = snapshots_update G d"
  "F' (configs d) = G' (configs d) \<Longrightarrow> configs_update F' d = configs_update G' d"
  "F'' (api_keys d) = G'' (api_keys d) \<Longrightarrow> api_keys_update F'' d = api_keys_update G'' d"
  by (cases d; simp)+

lemma update_rows_unique:
  assumes "distinct (map g rows)" "t \<in> set rows" "cond t" "\<And>r. cond r \<Longrightarrow> g r = g t" "f t = f' t"
  shows "update_rows cond f rows = update_rows (\<lambda>r. g r = g t) f' rows"
  unfolding update_rows_def
proof (rule map_cong [OF refl])
  fix r
  assume r: "r \<in> set rows"
  show "(if cond r then f r else r) = (if g r = g t then f' r else r)"
  proof (cases "g r = g t")
    case True
    with row_unique [OF assms(1) r assms(2)] have "r = t" .
    with assms(3,5) show ?thesis by simp
  next
    case False
    with assms(4) have "\<not> cond r" by blast
    with False show ?thesis by simp
  qed
qed

lemma distinct_update_rows:
  "(\<And>r. g (f r) = g r) \<Longrightarrow> distinct (map g (update_rows cond f rows)) \<longleftrightarrow> distinct (map g rows)"
  by (simp add: map_update_rows)

section \<open>Operations that only read\<close>

named_theorems reads_intro "operations that leave the database, the cache and the sequences unchanged"

definition quiet :: "world \<Rightarrow> world \<Rightarrow> bool" where
  "quiet w w' \<longleftrightarrow> database w' = database w \<and> cache w' = cache w \<and> last_id w' = last_id w"

definition reads :: "'a M \<Rightarrow> bool" where
  "reads m \<longleftrightarrow> (\<forall>E w r w'. m E w = (r, w') \<longrightarrow> quiet w w')"

lemma quiet_refl [simp]: "quiet w w" and quiet_tick [simp]: "quiet w (w\<lparr>tick := n\<rparr>)"
  by (simp_all add: quiet_def)

lemma quiet_trans: "quiet a b \<Longrightarrow> quiet b c \<Longrightarrow> quiet a c"
  by (simp add: quiet_def)

lemma readsD: "reads m \<Longrightarrow> m E w = (r, w') \<Longrightarrow> quiet w w'"
  by (simp add: reads_def)

lemma reads_basic [reads_intro]:
  "reads (returnM a)" "reads (failM e)" "reads (liftR r)" "reads (guardM b e)" "reads nowM" "reads (queryM q)"
  by (auto simp: reads_def run_basic guardM_def queryM_def split: option.splits)

lemma reads_bind [reads_intro]: "reads m \<Longrightarrow> (\<And>a. reads (f a)) \<Longrightarrow> reads (bindM m f)"
  unfolding reads_def bindM_def by (auto split: prod.splits sum.splits) (meson quiet_trans)

lemma reads_attempt [reads_intro]: "reads m \<Longrightarrow> reads (attemptM m)"
  by (auto simp: reads_def attemptM_def split: prod.splits)

lemma reads_mapErr [reads_intro]: "reads m \<Longrightarrow> reads (mapErrM f m)"
  unfolding reads_def mapErrM_def by (auto split: prod.splits sum.splits)

lemma reads_requireRow [reads_intro]: "reads (requireRow resource row)"
  by (auto simp: requireRow_def intro: reads_intro split: option.splits)

lemma reads_requireAffected [reads_intro]: "reads (requireAffected resource n)"
  by (auto simp: requireAffected_def intro: reads_intro)

lemma reads_if [reads_intro]: "reads m \<Longrightarrow> reads n \<Longrightarrow> reads (if b then m else n)"
  by simp

lemma reads_forM [reads_intro]: "(\<And>x. reads (f x)) \<Longrightarrow> reads (forM f xs)"
  by (induction xs) (auto intro: reads_intro)

lemma reads_option [reads_intro]: "reads m \<Longrightarrow> (\<And>x. reads (f x)) \<Longrightarrow> reads (case a of None \<Rightarrow> m | Some x \<Rightarrow> f x)"
  and reads_pair [reads_intro]: "(\<And>x y. reads (h x y)) \<Longrightarrow> reads (case p of (x, y) \<Rightarrow> h x y)"
  by (cases a; simp) (cases p; simp)

section \<open>Operations that leave the cache alone\<close>

named_theorems database_intro "operations that change only the database and advance the sequences"

definition database_step :: "world \<Rightarrow> world \<Rightarrow> bool" where
  "database_step w w' \<longleftrightarrow> cache w' = cache w \<and> (\<forall>t. last_id w t \<le> last_id w' t)"

definition database_only :: "'a M \<Rightarrow> bool" where
  "database_only m \<longleftrightarrow> (\<forall>E w r w'. m E w = (r, w') \<longrightarrow> database_step w w')"

lemma database_onlyD: "database_only m \<Longrightarrow> m E w = (r, w') \<Longrightarrow> database_step w w'"
  by (simp add: database_only_def)

lemma database_step_trans: "database_step a b \<Longrightarrow> database_step b c \<Longrightarrow> database_step a c"
  by (auto simp: database_step_def intro: order_trans)

lemma reads_database_only: "reads m \<Longrightarrow> database_only m"
  by (auto simp: reads_def database_only_def database_step_def quiet_def)

lemma database_bind [database_intro]: "database_only m \<Longrightarrow> (\<And>a. database_only (f a)) \<Longrightarrow> database_only (bindM m f)"
  unfolding database_only_def bindM_def by (auto split: prod.splits sum.splits) (meson database_step_trans)

lemma database_basic [database_intro]:
  "database_only (returnM a)" "database_only (failM e)" "database_only (liftR r)" "database_only (guardM b e)" "database_only nowM"
  "database_only (queryM q)" "database_only (requireRow resource row)" "database_only (requireAffected resource n)"
  by (rule reads_database_only, rule reads_intro)+

lemma database_exec [database_intro]: "database_only (execM q)"
  by (auto simp: database_only_def database_step_def execM_def split: option.splits prod.splits)

lemma database_fresh [database_intro]: "database_only (fresh_id t)"
  by (auto simp: database_only_def database_step_def fresh_id_def)

lemma database_attempt [database_intro]: "database_only m \<Longrightarrow> database_only (attemptM m)"
  by (auto simp: database_only_def attemptM_def split: prod.splits)

lemma database_mapErr [database_intro]: "database_only m \<Longrightarrow> database_only (mapErrM f m)"
  unfolding database_only_def mapErrM_def by (auto split: prod.splits sum.splits)

lemma database_if [database_intro]: "database_only m \<Longrightarrow> database_only n \<Longrightarrow> database_only (if b then m else n)"
  by simp

lemma database_option [database_intro]:
  "database_only m \<Longrightarrow> (\<And>x. database_only (f x)) \<Longrightarrow> database_only (case a of None \<Rightarrow> m | Some x \<Rightarrow> f x)"
  by (cases a) simp_all

lemma database_pair [database_intro]: "(\<And>x y. database_only (f x y)) \<Longrightarrow> database_only (case p of (x, y) \<Rightarrow> f x y)"
  by (cases p) simp

lemma database_sum [database_intro]:
  "(\<And>e. database_only (f e)) \<Longrightarrow> (\<And>x. database_only (g x)) \<Longrightarrow> database_only (case r of Inl e \<Rightarrow> f e | Inr x \<Rightarrow> g x)"
  by (cases r) simp_all

lemma database_forM [database_intro]: "(\<And>x. database_only (f x)) \<Longrightarrow> database_only (forM f xs)"
  by (induction xs) (auto intro: database_intro)

section \<open>Transactions and their users\<close>

locale transactional =
  fixes tx :: "'a M \<Rightarrow> 'a M"
  assumes runner: "transaction_runner tx"
begin

lemma commit: "tx m E w = (Inr a, w') \<Longrightarrow> m E w = (Inr a, w')"
  using runner [unfolded transaction_runner_def, rule_format, of m E w]
  by (auto split: prod.splits sum.splits)

lemma rollback:
  assumes "tx m E w = (Inl e, w')"
  shows "\<exists>r w1. m E w = (r, w1) \<and> w' = w1\<lparr>database := database w\<rparr>"
  using runner [unfolded transaction_runner_def, rule_format, of m E w] assms
  by (auto split: prod.splits sum.splits)

lemma atomic: "tx m E w = (r, w') \<Longrightarrow> database w' = database w \<or> (\<exists>a. r = Inr a \<and> m E w = (Inr a, w'))"
  using rollback commit by (cases r) fastforce+

lemma reads_tx: "reads m \<Longrightarrow> reads (tx m)"
  unfolding reads_def
proof (intro allI impI)
  fix E w r w'
  assume m: "\<forall>E w r w'. m E w = (r, w') \<longrightarrow> quiet w w'" and run: "tx m E w = (r, w')"
  show "quiet w w'"
  proof (cases r)
    case (Inl e)
    with rollback run m show ?thesis by (fastforce simp: quiet_def)
  next
    case (Inr a)
    with commit run m show ?thesis by blast
  qed
qed

end

lemma run_tx_runner: "transaction_runner run_tx"
  by (auto simp: transaction_runner_def run_tx_def split: prod.splits sum.splits)

interpretation plain_tx: transactional run_tx
  by unfold_locales (rule run_tx_runner)

lemmas tx_commit = transactional.commit [OF transactional.intro]
  and tx_rollback = transactional.rollback [OF transactional.intro]
  and tx_atomic = transactional.atomic [OF transactional.intro]
  and tx_reads = transactional.reads_tx [OF transactional.intro]

lemma database_tx:
  assumes "transaction_runner tx" "database_only m"
  shows "database_only (tx m)"
  unfolding database_only_def
proof (intro allI impI)
  fix E w r w'
  assume run: "tx m E w = (r, w')"
  show "database_step w w'"
  proof (cases r)
    case (Inl e)
    with tx_rollback [OF assms(1)] run database_onlyD [OF assms(2)] show ?thesis by (fastforce simp: database_step_def)
  next
    case (Inr a)
    with tx_commit [OF assms(1)] run database_onlyD [OF assms(2)] show ?thesis by blast
  qed
qed

end
