(* ===== verification/Scope.thy ===== *)
theory Scope
  imports Database
begin

text \<open>
  The shared query scopes and pagination of \<^verbatim>\<open>server/internal/repository\<close> (\<^verbatim>\<open>scope.go\<close>, \<^verbatim>\<open>page.go\<close>). A scope is
  the joined selection the builder describes, as a list of the primary rows; \<open>cond\<close> is the \<^verbatim>\<open>Where\<close> clause a
  repository adds over the joined aliases.
\<close>

section \<open>Pages\<close>

definition DefaultPageSize :: int where "DefaultPageSize = 20"
definition MaxPageSize :: int where "MaxPageSize = 100"

record PageRequest =
  Page_Offset :: int
  Page_Limit :: int

record 'r PageResult =
  Result_Items :: "'r list"
  Result_Total :: int
  Result_Offset :: int
  Result_Limit :: int

definition NormalizePage :: "PageRequest \<Rightarrow> PageRequest" where
  "NormalizePage page =
     (let page = (if Page_Offset page < 0 then page\<lparr>Page_Offset := 0\<rparr> else page);
          page = (if Page_Limit page \<le> 0 then page\<lparr>Page_Limit := DefaultPageSize\<rparr> else page)
      in if Page_Limit page > MaxPageSize then page\<lparr>Page_Limit := MaxPageSize\<rparr> else page)"

definition paginate :: "(engine \<Rightarrow> db \<Rightarrow> 'r list) \<Rightarrow> PageRequest \<Rightarrow> 'r PageResult M" where
  "paginate rows request =
     (let page = NormalizePage request in
      bindM (mapErrM WrapDatabaseError (queryM (\<lambda>E d. length (rows E d)))) (\<lambda>total.
        let result = \<lparr>Result_Items = [], Result_Total = int total,
                      Result_Offset = Page_Offset page, Result_Limit = Page_Limit page\<rparr>
        in if total = 0 then returnM result
           else bindM (mapErrM WrapDatabaseError
                  (queryM (\<lambda>E d. take (nat (Page_Limit page)) (drop (nat (Page_Offset page)) (rows E d)))))
                  (\<lambda>items. returnM (result\<lparr>Result_Items := items\<rparr>))))"

definition eqIf :: "'v option \<Rightarrow> 'v \<Rightarrow> bool" where
  "eqIf wanted actual \<longleftrightarrow> (case wanted of None \<Rightarrow> True | Some v \<Rightarrow> actual = v)"

definition neqIf :: "'v option \<Rightarrow> 'v \<Rightarrow> bool" where
  "neqIf unwanted actual \<longleftrightarrow> (case unwanted of None \<Rightarrow> True | Some v \<Rightarrow> actual \<noteq> v)"

section \<open>Scopes\<close>

definition configScope :: "(config_row \<Rightarrow> project_row \<Rightarrow> environment_row \<Rightarrow> bool) \<Rightarrow> db \<Rightarrow> config_row list" where
  "configScope cond d =
     [c. c \<leftarrow> configs d, p \<leftarrow> projects d, e \<leftarrow> environments d,
         ID p = c_ProjectID c \<and> DeletedAt p = None \<and> e_ProjectID e = ID p \<and> DeletedAt e = None \<and>
         DeletedAt c = None \<and> cond c p e]"

definition childScopeIncludingDeleted ::
  "(db \<Rightarrow> child_row list) \<Rightarrow> (child_row \<Rightarrow> config_row \<Rightarrow> project_row \<Rightarrow> environment_row \<Rightarrow> bool) \<Rightarrow> db \<Rightarrow> child_row list" where
  "childScopeIncludingDeleted table cond d =
     [s. s \<leftarrow> table d, c \<leftarrow> configs d, p \<leftarrow> projects d, e \<leftarrow> environments d,
         ID c = d_ConfigID s \<and> DeletedAt c = None \<and> ID p = c_ProjectID c \<and> DeletedAt p = None \<and>
         e_ProjectID e = ID p \<and> DeletedAt e = None \<and> cond s c p e]"

definition structureScopeIncludingDeleted ::
  "(child_row \<Rightarrow> config_row \<Rightarrow> project_row \<Rightarrow> environment_row \<Rightarrow> bool) \<Rightarrow> db \<Rightarrow> child_row list" where
  "structureScopeIncludingDeleted = childScopeIncludingDeleted structure_rows"

definition structureScope ::
  "(child_row \<Rightarrow> config_row \<Rightarrow> project_row \<Rightarrow> environment_row \<Rightarrow> bool) \<Rightarrow> db \<Rightarrow> child_row list" where
  "structureScope cond = structureScopeIncludingDeleted (\<lambda>s c p e. DeletedAt s = None \<and> cond s c p e)"

definition enumScopeIncludingDeleted ::
  "(child_row \<Rightarrow> config_row \<Rightarrow> project_row \<Rightarrow> environment_row \<Rightarrow> bool) \<Rightarrow> db \<Rightarrow> child_row list" where
  "enumScopeIncludingDeleted = childScopeIncludingDeleted enum_rows"

definition enumScope ::
  "(child_row \<Rightarrow> config_row \<Rightarrow> project_row \<Rightarrow> environment_row \<Rightarrow> bool) \<Rightarrow> db \<Rightarrow> child_row list" where
  "enumScope cond = enumScopeIncludingDeleted (\<lambda>s c p e. DeletedAt s = None \<and> cond s c p e)"

definition snapshotScope ::
  "(snapshot_row \<Rightarrow> config_row \<Rightarrow> project_row \<Rightarrow> environment_row \<Rightarrow> bool) \<Rightarrow> db \<Rightarrow> snapshot_row list" where
  "snapshotScope cond d =
     [s. s \<leftarrow> snapshots d, c \<leftarrow> configs d, p \<leftarrow> projects d, e \<leftarrow> environments d,
         ID c = s_ConfigID s \<and> c_ProjectID c = s_ProjectID s \<and> DeletedAt c = None \<and>
         ID p = s_ProjectID s \<and> DeletedAt p = None \<and> e_ProjectID e = ID p \<and> DeletedAt e = None \<and>
         DeletedAt s = None \<and> cond s c p e]"

definition projectScope :: "(project_row \<Rightarrow> environment_row \<Rightarrow> bool) \<Rightarrow> db \<Rightarrow> project_row list" where
  "projectScope cond d =
     [p. p \<leftarrow> projects d, e \<leftarrow> environments d,
         e_ProjectID e = ID p \<and> DeletedAt e = None \<and> DeletedAt p = None \<and> cond p e]"

definition apiKeyScope :: "(api_key_row \<Rightarrow> project_row \<Rightarrow> environment_row \<Rightarrow> bool) \<Rightarrow> db \<Rightarrow> api_key_row list" where
  "apiKeyScope cond d =
     [k. k \<leftarrow> api_keys d, p \<leftarrow> projects d, e \<leftarrow> environments d,
         ID p = k_ProjectID k \<and> DeletedAt p = None \<and> e_ProjectID e = ID p \<and> DeletedAt e = None \<and> cond k p e]"

text \<open>A \<^verbatim>\<open>Get\<close> on a scope.\<close>

definition getM :: "(engine \<Rightarrow> db \<Rightarrow> 'r list) \<Rightarrow> string \<Rightarrow> 'r M" where
  "getM rows resource =
     bindM (mapErrM WrapDatabaseError (queryM (\<lambda>E d. first_row (rows E d)))) (requireRow resource)"

definition lockScopedProject :: "int \<Rightarrow> int \<Rightarrow> unit M" where
  "lockScopedProject environmentID projectID =
     bindM (getM (\<lambda>E. projectScope (\<lambda>p e. ID e = environmentID \<and> ID p = projectID)) ''project'')
       (\<lambda>_. returnM ())"

definition lockScopedConfig :: "int \<Rightarrow> int \<Rightarrow> unit M" where
  "lockScopedConfig environmentID configID =
     bindM (getM (\<lambda>E. configScope (\<lambda>c p e. ID e = environmentID \<and> ID c = configID)) ''config'')
       (\<lambda>_. returnM ())"

section \<open>Facts\<close>

lemmas childScope_defs = structureScopeIncludingDeleted_def enumScopeIncludingDeleted_def
  structureScope_def enumScope_def

text \<open>The environment sees a project: both are live and the environment belongs to it.\<close>

definition env_project :: "db \<Rightarrow> environment_row \<Rightarrow> project_row \<Rightarrow> bool" where
  "env_project d e p \<longleftrightarrow> e \<in> set (environments d) \<and> p \<in> set (projects d) \<and>
     e_ProjectID e = ID p \<and> DeletedAt p = None \<and> DeletedAt e = None"

lemma set_concat_once:
  "(\<And>b. set (f b) = (if Q b then {a} else {})) \<Longrightarrow>
   set (concat (map f B)) = (if \<exists>b \<in> set B. Q b then {a} else {})"
  by (induction B) auto

lemma join1: "set [a. b \<leftarrow> B, P b] = (if \<exists>b \<in> set B. P b then {a} else {})"
  by (rule set_concat_once) simp

lemma join2: "x \<in> set [a. a \<leftarrow> A, b \<leftarrow> B, P a b] \<longleftrightarrow> x \<in> set A \<and> (\<exists>b \<in> set B. P x b)"
  by (induction A) (auto simp: join1)

lemma join2a: "set [a. b \<leftarrow> B, c \<leftarrow> C, P b c] = (if \<exists>b \<in> set B. \<exists>c \<in> set C. P b c then {a} else {})"
  by (rule set_concat_once) (rule join1)

lemma join3: "x \<in> set [a. a \<leftarrow> A, b \<leftarrow> B, c \<leftarrow> C, P a b c] \<longleftrightarrow>
    x \<in> set A \<and> (\<exists>b \<in> set B. \<exists>c \<in> set C. P x b c)"
  by (induction A) (auto simp: join2a simp del: set_concat)

lemma join3a: "set [a. b \<leftarrow> B, c \<leftarrow> C, e \<leftarrow> D, P b c e] =
    (if \<exists>b \<in> set B. \<exists>c \<in> set C. \<exists>e \<in> set D. P b c e then {a} else {})"
  by (rule set_concat_once) (rule join2a)

lemma join4: "x \<in> set [a. a \<leftarrow> A, b \<leftarrow> B, c \<leftarrow> C, e \<leftarrow> D, P a b c e] \<longleftrightarrow>
    x \<in> set A \<and> (\<exists>b \<in> set B. \<exists>c \<in> set C. \<exists>e \<in> set D. P x b c e)"
  by (induction A) (auto simp: join3a simp del: set_concat)

lemma configScope_iff:
  "c \<in> set (configScope cond d) \<longleftrightarrow> c \<in> set (configs d) \<and> DeletedAt c = None \<and>
     (\<exists>p e. env_project d e p \<and> ID p = c_ProjectID c \<and> cond c p e)"
  unfolding configScope_def join3 env_project_def by blast

lemma childScope_iff:
  "s \<in> set (childScopeIncludingDeleted table cond d) \<longleftrightarrow> s \<in> set (table d) \<and>
     (\<exists>c p e. c \<in> set (configs d) \<and> DeletedAt c = None \<and> ID c = d_ConfigID s \<and>
        env_project d e p \<and> ID p = c_ProjectID c \<and> cond s c p e)"
  unfolding childScopeIncludingDeleted_def join4 env_project_def by blast

lemma snapshotScope_iff:
  "s \<in> set (snapshotScope cond d) \<longleftrightarrow> s \<in> set (snapshots d) \<and> DeletedAt s = None \<and>
     (\<exists>c p e. c \<in> set (configs d) \<and> DeletedAt c = None \<and> ID c = s_ConfigID s \<and> c_ProjectID c = s_ProjectID s \<and>
        env_project d e p \<and> ID p = s_ProjectID s \<and> cond s c p e)"
  unfolding snapshotScope_def join4 env_project_def by blast

lemma projectScope_iff:
  "p \<in> set (projectScope cond d) \<longleftrightarrow> (\<exists>e. env_project d e p \<and> cond p e)"
  unfolding projectScope_def join2 env_project_def by blast

lemma apiKeyScope_iff:
  "k \<in> set (apiKeyScope cond d) \<longleftrightarrow> k \<in> set (api_keys d) \<and>
     (\<exists>p e. env_project d e p \<and> ID p = k_ProjectID k \<and> cond k p e)"
  unfolding apiKeyScope_def join3 env_project_def by blast

lemmas scope_iffs = configScope_iff childScope_iff snapshotScope_iff projectScope_iff apiKeyScope_iff

lemma getM_Inr:
  "getM rows resource E w = (Inr r, w') \<longleftrightarrow>
     fault E (tick w) = None \<and> first_row (rows E (database w)) = Some r \<and> w' = w\<lparr>tick := Suc (tick w)\<rparr>"
  by (auto simp: getM_def run_simps)

lemma getM_member: "getM rows resource E w = (Inr r, w') \<Longrightarrow> r \<in> set (rows E (database w))"
  by (auto simp: getM_Inr dest: first_row_Some)

lemma getM_Inl:
  "getM rows resource E w = (Inl e, w') \<longleftrightarrow> w' = w\<lparr>tick := Suc (tick w)\<rparr> \<and>
     ((\<exists>e'. fault E (tick w) = Some e' \<and> e = WrapDatabaseError e') \<or>
      (fault E (tick w) = None \<and> rows E (database w) = [] \<and> e = NotFound resource))"
  by (auto simp: getM_def run_simps)

lemma reads_getM [reads_intro]: "reads (getM rows resource)"
  unfolding getM_def by (intro reads_intro)

lemma reads_lockScopedProject [reads_intro]: "reads (lockScopedProject e p)"
  unfolding lockScopedProject_def by (intro reads_intro)

lemma reads_lockScopedConfig [reads_intro]: "reads (lockScopedConfig e c)"
  unfolding lockScopedConfig_def by (intro reads_intro)

lemma reads_paginate [reads_intro]: "reads (paginate rows page)"
  unfolding paginate_def Let_def by (intro reads_intro)

lemma WrapDatabaseError_not_missing [simp]: "\<not> isNotFound (WrapDatabaseError e)" if "\<not> isNotFound e" for e
  using that by (simp add: WrapDatabaseError_def)

section \<open>Pages of a result\<close>

lemma NormalizePage_bounds:
  "0 \<le> Page_Offset (NormalizePage page) \<and> 1 \<le> Page_Limit (NormalizePage page) \<and>
   Page_Limit (NormalizePage page) \<le> MaxPageSize"
  by (auto simp: NormalizePage_def Let_def DefaultPageSize_def MaxPageSize_def)

lemma NormalizePage_idem [simp]: "NormalizePage (NormalizePage page) = NormalizePage page"
  by (auto simp: NormalizePage_def Let_def DefaultPageSize_def MaxPageSize_def)

lemma NormalizePage_valid:
  "0 \<le> Page_Offset page \<Longrightarrow> 0 < Page_Limit page \<Longrightarrow> Page_Limit page \<le> MaxPageSize \<Longrightarrow> NormalizePage page = page"
  by (simp add: NormalizePage_def Let_def)

lemma paginate_Inr:
  "paginate rows page E w = (Inr res, w') \<Longrightarrow>
     let page' = NormalizePage page; all = rows E (database w) in
     res = \<lparr>Result_Items = take (nat (Page_Limit page')) (drop (nat (Page_Offset page')) all),
            Result_Total = int (length all), Result_Offset = Page_Offset page', Result_Limit = Page_Limit page'\<rparr> \<and>
     quiet w w'"
  by (auto simp: paginate_def Let_def run_simps split: if_splits)

text \<open>
  Every page a repository returns is a contiguous window of the selected rows: at most 100 of them,
  never from a negative offset, with the total of the whole selection; requests with a missing or
  excessive limit are brought into these bounds, and a request already inside them is served as asked.
\<close>

lemma paginate_window:
  assumes "paginate rows page E w = (Inr res, w')"
  shows "\<exists>pre post. rows E (database w) = pre @ Result_Items res @ post \<and>
    int (length pre) = min (Result_Offset res) (int (length (rows E (database w)))) \<and>
    Result_Total res = int (length (rows E (database w))) \<and>
    int (length (Result_Items res)) \<le> Result_Limit res \<and> 1 \<le> Result_Limit res \<and> Result_Limit res \<le> MaxPageSize \<and>
    0 \<le> Result_Offset res \<and>
    (0 \<le> Page_Offset page \<longrightarrow> Result_Offset res = Page_Offset page) \<and>
    (0 < Page_Limit page \<longrightarrow> Page_Limit page \<le> MaxPageSize \<longrightarrow> Result_Limit res = Page_Limit page) \<and>
    (post \<noteq> [] \<longrightarrow> int (length (Result_Items res)) = Result_Limit res) \<and> database w' = database w"
proof -
  define all where "all = rows E (database w)"
  define off lim where "off = nat (Page_Offset (NormalizePage page))" and "lim = nat (Page_Limit (NormalizePage page))"
  note bounds = NormalizePage_bounds [of page]
  have res: "res = \<lparr>Result_Items = take lim (drop off all), Result_Total = int (length all),
      Result_Offset = int off, Result_Limit = int lim\<rparr>" and q: "quiet w w'"
    using paginate_Inr [OF assms] bounds by (auto simp: Let_def all_def off_def lim_def)
  have split: "all = take off all @ take lim (drop off all) @ drop lim (drop off all)"
    by (metis append_take_drop_id)
  have keep: "0 \<le> Page_Offset page \<Longrightarrow> int off = Page_Offset page"
    "0 < Page_Limit page \<Longrightarrow> Page_Limit page \<le> MaxPageSize \<Longrightarrow> int lim = Page_Limit page"
    by (auto simp: off_def lim_def NormalizePage_def Let_def)
  show ?thesis
    using split res q keep bounds
    by (intro exI [of _ "take off all"] exI [of _ "drop lim (drop off all)"])
      (auto simp: all_def [symmetric] off_def lim_def quiet_def min_def)
qed

end
