(* ===== verification/Repo_Config.thy ===== *)
theory Repo_Config
  imports Scope
begin

text \<open>
  The repositories of configs, snapshots, publications and audit logs (\<^verbatim>\<open>server/internal/repository\<close>:
  \<^verbatim>\<open>config.go\<close>, \<^verbatim>\<open>snapshot.go\<close>, \<^verbatim>\<open>snapshot_publish.go\<close>, \<^verbatim>\<open>audit_log.go\<close>) and the insert hooks of
  \<^verbatim>\<open>model/base.go\<close>. A method that fills in fields of the record it is given returns the filled record.
\<close>

section \<open>Statements\<close>

definition updateM ::
  "(db \<Rightarrow> 'r list) \<Rightarrow> (('r list \<Rightarrow> 'r list) \<Rightarrow> db \<Rightarrow> db) \<Rightarrow> ('r \<Rightarrow> bool) \<Rightarrow> ('r \<Rightarrow> 'r) \<Rightarrow> nat M" where
  "updateM sel upd cond f =
     execM (\<lambda>E d. (Inr (matching cond (sel d)), upd (update_rows cond f) d))"

text \<open>\<^verbatim>\<open>Insert\<close> fills in the identifier; \<open>clash\<close> is the unique key of the table, besides its identifier.\<close>

definition insertM ::
  "table_name \<Rightarrow> (db \<Rightarrow> 'r list) \<Rightarrow> (('r list \<Rightarrow> 'r list) \<Rightarrow> db \<Rightarrow> db) \<Rightarrow>
   (engine \<Rightarrow> 'r \<Rightarrow> 'r \<Rightarrow> bool) \<Rightarrow> (int \<Rightarrow> 'r \<Rightarrow> 'r) \<Rightarrow> 'r \<Rightarrow> 'r M" where
  "insertM t sel upd clash setID row =
     bindM (fresh_id t) (\<lambda>i.
       execM (\<lambda>E d. if list_ex (\<lambda>r. clash E r row) (sel d) then (Inl DuplicateKeyError, d)
                    else (Inr (setID i row), upd (\<lambda>rows. rows @ [setID i row]) d)))"

section \<open>Insert hooks\<close>

definition insertTimes :: "int \<Rightarrow> int \<Rightarrow> (int \<times> int) M" where
  "insertTimes createdAt updatedAt =
     bindM nowM (\<lambda>now. returnM (if createdAt = 0 then now else createdAt, if updatedAt = 0 then now else updatedAt))"

definition PrepareInsert :: "'a meta_scheme \<Rightarrow> 'a meta_scheme M" where
  "PrepareInsert m =
     bindM (insertTimes (CreatedAt m) (UpdatedAt m)) (\<lambda>(c, u).
       returnM (m\<lparr>CreatedAt := c, UpdatedAt := u, Version := 1\<rparr>))"

definition RecordPrepareInsert :: "'a record_meta_scheme \<Rightarrow> 'a record_meta_scheme M" where
  "RecordPrepareInsert m =
     bindM (insertTimes (r_CreatedAt m) (r_UpdatedAt m)) (\<lambda>(c, u).
       returnM (m\<lparr>r_CreatedAt := c, r_UpdatedAt := u\<rparr>))"

section \<open>Audit logs\<close>

definition insertAudit :: "audit_row \<Rightarrow> audit_row M" where
  "insertAudit = insertM AuditLogsTable audit_logs audit_logs_update (\<lambda>E r row. False) (\<lambda>i row. row\<lparr>r_ID := i\<rparr>)"

definition RecordForEnvironment :: "int \<Rightarrow> audit_row \<Rightarrow> unit M" where
  "RecordForEnvironment environmentID log =
     bindM (RecordPrepareInsert (log\<lparr>a_EnvironmentID := Some environmentID\<rparr>)) (\<lambda>log.
     bindM (insertAudit log) (\<lambda>_. returnM ()))"

definition RecordSystem :: "audit_row \<Rightarrow> unit M" where
  "RecordSystem log = bindM (RecordPrepareInsert log) (\<lambda>log. bindM (insertAudit log) (\<lambda>_. returnM ()))"

section \<open>Configs\<close>

record ConfigFilter =
  Filter_ProjectID :: "int option"
  Filter_ProjectKey :: "string option"
  Filter_Key :: "string option"

record ConfigUpdate =
  Update_Description :: string
  Update_IsArray :: bool
  Update_TypeJSON :: string
  Update_UpdatedBy :: int
  Update_Version :: int

record ConfigValueUpdate =
  ValueUpdate_Value :: string
  ValueUpdate_UpdatedBy :: int
  ValueUpdate_Version :: int

definition insertConfig :: "config_row \<Rightarrow> config_row M" where
  "insertConfig = insertM ConfigsTable configs configs_update
     (\<lambda>E r row. c_ProjectID r = c_ProjectID row \<and> same_text E (c_Key r) (c_Key row)) (\<lambda>i row. row\<lparr>ID := i\<rparr>)"

definition updateConfigs :: "(config_row \<Rightarrow> bool) \<Rightarrow> (config_row \<Rightarrow> config_row) \<Rightarrow> nat M" where
  "updateConfigs = updateM configs configs_update"

definition lockConfigByKey :: "int \<Rightarrow> string \<Rightarrow> config_row option M" where
  "lockConfigByKey projectID key =
     mapErrM WrapDatabaseError (queryM (\<lambda>E d.
       first_row (filter (\<lambda>c. c_ProjectID c = projectID \<and> same_text E (c_Key c) key) (configs d))))"

definition resetConfigChildren :: "int \<Rightarrow> int \<Rightarrow> unit M" where
  "resetConfigChildren configID updatedBy =
     bindM nowM (\<lambda>now.
       let cond = (\<lambda>r. DeletedAt r = None \<and> d_ConfigID r = configID);
           f = (\<lambda>r. r\<lparr>DeletedAt := Some now, UpdatedBy := updatedBy, UpdatedAt := now, Version := Version r + 1\<rparr>)
       in bindM (mapErrM WrapDatabaseError (updateM structure_rows structure_rows_update cond f)) (\<lambda>_.
          bindM (mapErrM WrapDatabaseError (updateM enum_rows enum_rows_update cond f)) (\<lambda>_. returnM ())))"

definition config_restore :: "config_row \<Rightarrow> config_row \<Rightarrow> config_row M" where
  "config_restore existing config =
     (if DeletedAt existing = None then failM (KeyConflict ''config'')
      else bindM (resetConfigChildren (ID existing) (UpdatedBy config)) (\<lambda>_.
           bindM nowM (\<lambda>now.
           bindM (mapErrM (classifyKeyWriteError ''config'')
             (updateConfigs (\<lambda>r. ID r = ID existing)
               (\<lambda>r. r\<lparr>c_Description := c_Description config, c_IsArray := c_IsArray config,
                      c_TypeJSON := c_TypeJSON config, c_Value := c_Value config,
                      c_RuntimeVersion := c_RuntimeVersion config, CreatedBy := CreatedBy config,
                      UpdatedBy := UpdatedBy config, CreatedAt := now, UpdatedAt := now,
                      Version := Version existing + 1, DeletedAt := None\<rparr>))) (\<lambda>affected.
           bindM (requireAffected ''config'' affected) (\<lambda>_.
           returnM (config\<lparr>ID := ID existing, Version := Version existing + 1, CreatedAt := now, UpdatedAt := now\<rparr>))))))"

definition config_Create :: "int \<Rightarrow> int \<Rightarrow> config_row \<Rightarrow> config_row M" where
  "config_Create environmentID projectID config =
     bindM (lockScopedProject environmentID projectID) (\<lambda>_.
     bindM (lockConfigByKey projectID (c_Key config)) (\<lambda>existing.
       case existing of
         Some e \<Rightarrow> config_restore e config
       | None \<Rightarrow>
           bindM (PrepareInsert config) (\<lambda>config.
             mapErrM (classifyKeyWriteError ''config'') (insertConfig config))))"

definition config_FindByID :: "int \<Rightarrow> int \<Rightarrow> config_row M" where
  "config_FindByID environmentID configID =
     getM (\<lambda>E. configScope (\<lambda>c p e. ID e = environmentID \<and> ID c = configID)) ''config''"

definition config_LockByID :: "int \<Rightarrow> int \<Rightarrow> config_row M" where
  "config_LockByID environmentID configID =
     getM (\<lambda>E. configScope (\<lambda>c p e. ID e = environmentID \<and> ID c = configID)) ''config''"

definition eqText :: "engine \<Rightarrow> string option \<Rightarrow> string \<Rightarrow> bool" where
  "eqText E wanted actual \<longleftrightarrow> (case wanted of None \<Rightarrow> True | Some v \<Rightarrow> same_text E actual v)"

definition config_List :: "int \<Rightarrow> ConfigFilter \<Rightarrow> PageRequest \<Rightarrow> config_row PageResult M" where
  "config_List environmentID flt page =
     paginate (\<lambda>E d. rev (sort_key ID (configScope (\<lambda>c p e.
       ID e = environmentID \<and> eqIf (Filter_ProjectID flt) (ID p) \<and> eqText E (Filter_ProjectKey flt) (p_Key p) \<and>
       eqText E (Filter_Key flt) (c_Key c)) d))) page"

definition config_Update :: "int \<Rightarrow> int \<Rightarrow> ConfigUpdate \<Rightarrow> unit M" where
  "config_Update environmentID configID update =
     bindM (config_FindByID environmentID configID) (\<lambda>_.
     bindM nowM (\<lambda>now.
     bindM (mapErrM WrapDatabaseError
       (updateConfigs (\<lambda>r. DeletedAt r = None \<and> ID r = configID \<and> Version r = Update_Version update)
         (\<lambda>r. r\<lparr>c_Description := Update_Description update, c_IsArray := Update_IsArray update,
                c_TypeJSON := Update_TypeJSON update, UpdatedBy := Update_UpdatedBy update, UpdatedAt := now,
                Version := Update_Version update + 1\<rparr>))) (\<lambda>affected.
     requireAffected ''config'' affected)))"

definition config_UpdateValue :: "int \<Rightarrow> int \<Rightarrow> ConfigValueUpdate \<Rightarrow> unit M" where
  "config_UpdateValue environmentID configID update =
     bindM (config_FindByID environmentID configID) (\<lambda>_.
     bindM nowM (\<lambda>now.
     bindM (mapErrM WrapDatabaseError
       (updateConfigs (\<lambda>r. DeletedAt r = None \<and> ID r = configID \<and> Version r = ValueUpdate_Version update)
         (\<lambda>r. r\<lparr>c_Value := ValueUpdate_Value update, UpdatedBy := ValueUpdate_UpdatedBy update, UpdatedAt := now,
                Version := ValueUpdate_Version update + 1\<rparr>))) (\<lambda>affected.
     requireAffected ''config'' affected)))"

definition config_Delete :: "int \<Rightarrow> int \<Rightarrow> int \<Rightarrow> unit M" where
  "config_Delete environmentID configID updatedBy =
     bindM (config_FindByID environmentID configID) (\<lambda>_.
     bindM nowM (\<lambda>deletedAt. bindM nowM (\<lambda>updatedAt.
     bindM (mapErrM WrapDatabaseError
       (updateConfigs (\<lambda>r. DeletedAt r = None \<and> ID r = configID)
         (\<lambda>r. r\<lparr>Version := Version r + 1, DeletedAt := Some deletedAt, UpdatedBy := updatedBy,
                UpdatedAt := updatedAt\<rparr>))) (\<lambda>affected.
     requireAffected ''config'' affected))))"

section \<open>Snapshots\<close>

record SnapshotFilter =
  SFilter_ProjectID :: int
  SFilter_ConfigID :: int
  SFilter_Status :: "SnapshotStatus option"
  SFilter_IsUsing :: "bool option"

definition insertSnapshot :: "snapshot_row \<Rightarrow> snapshot_row M" where
  "insertSnapshot = insertM SnapshotsTable snapshots snapshots_update (\<lambda>E r row. False) (\<lambda>i row. row\<lparr>ID := i\<rparr>)"

definition updateSnapshots :: "(snapshot_row \<Rightarrow> bool) \<Rightarrow> (snapshot_row \<Rightarrow> snapshot_row) \<Rightarrow> nat M" where
  "updateSnapshots = updateM snapshots snapshots_update"

definition snapshot_Create :: "int \<Rightarrow> int \<Rightarrow> int \<Rightarrow> snapshot_row \<Rightarrow> snapshot_row M" where
  "snapshot_Create environmentID projectID configID snapshot =
     bindM (PrepareInsert (snapshot\<lparr>s_ProjectID := projectID, s_ConfigID := configID,
        s_Status := SnapshotStatusUnreleased, s_IsUsing := False\<rparr>)) insertSnapshot"

definition snapshot_FindByID :: "int \<Rightarrow> int \<Rightarrow> snapshot_row M" where
  "snapshot_FindByID environmentID snapshotID =
     getM (\<lambda>E. snapshotScope (\<lambda>s c p e. ID e = environmentID \<and> ID s = snapshotID)) ''snapshot''"

definition snapshot_LockByID :: "int \<Rightarrow> int \<Rightarrow> snapshot_row M" where
  "snapshot_LockByID environmentID snapshotID =
     getM (\<lambda>E. snapshotScope (\<lambda>s c p e. ID e = environmentID \<and> ID s = snapshotID)) ''snapshot''"

definition snapshot_List :: "int \<Rightarrow> SnapshotFilter \<Rightarrow> PageRequest \<Rightarrow> snapshot_row PageResult M" where
  "snapshot_List environmentID flt page =
     paginate (\<lambda>E d. rev (sort_key ID (snapshotScope (\<lambda>s c p e.
       ID e = environmentID \<and> ID p = SFilter_ProjectID flt \<and> ID c = SFilter_ConfigID flt \<and>
       eqIf (SFilter_Status flt) (s_Status s) \<and> eqIf (SFilter_IsUsing flt) (s_IsUsing s)) d))) page"

definition findForConfig :: "int \<Rightarrow> int \<Rightarrow> (snapshot_row \<Rightarrow> bool) \<Rightarrow> string \<Rightarrow> snapshot_row M" where
  "findForConfig environmentID configID cond resource =
     getM (\<lambda>E d. rev (sort_key ID (snapshotScope (\<lambda>s c p e.
       ID e = environmentID \<and> ID c = configID \<and> cond s) d))) resource"

definition FindReleasedForConfig :: "int \<Rightarrow> int \<Rightarrow> snapshot_row M" where
  "FindReleasedForConfig environmentID configID =
     findForConfig environmentID configID (\<lambda>s. s_Status s = SnapshotStatusReleased) ''released snapshot''"

definition FindCurrentForConfig :: "int \<Rightarrow> int \<Rightarrow> snapshot_row M" where
  "FindCurrentForConfig environmentID configID =
     findForConfig environmentID configID (\<lambda>s. s_IsUsing s) ''current snapshot''"

definition FindAnyForConfig :: "int \<Rightarrow> int \<Rightarrow> snapshot_row M" where
  "FindAnyForConfig environmentID configID = findForConfig environmentID configID (\<lambda>s. True) ''snapshot''"

definition ListReleasedConfigIDs :: "int \<Rightarrow> int \<Rightarrow> int list M" where
  "ListReleasedConfigIDs environmentID projectID =
     mapErrM WrapDatabaseError (queryM (\<lambda>E d. sort (remdups (map s_ConfigID (snapshotScope (\<lambda>s c p e.
       ID e = environmentID \<and> ID p = projectID \<and> s_Status s = SnapshotStatusReleased) d)))))"

definition snapshot_Delete :: "int \<Rightarrow> int \<Rightarrow> int \<Rightarrow> unit M" where
  "snapshot_Delete environmentID snapshotID updatedBy =
     bindM (snapshot_FindByID environmentID snapshotID) (\<lambda>_.
     bindM nowM (\<lambda>deletedAt. bindM nowM (\<lambda>updatedAt.
     bindM (mapErrM WrapDatabaseError
       (updateSnapshots
         (\<lambda>r. DeletedAt r = None \<and> ID r = snapshotID \<and> s_Status r = SnapshotStatusUnreleased)
         (\<lambda>r. r\<lparr>Version := Version r + 1, DeletedAt := Some deletedAt, UpdatedBy := updatedBy,
                UpdatedAt := updatedAt\<rparr>))) (\<lambda>affected.
     requireAffected ''snapshot'' affected))))"

definition findScopedConfig :: "int \<Rightarrow> int \<Rightarrow> config_row M" where
  "findScopedConfig environmentID configID =
     getM (\<lambda>E. configScope (\<lambda>c p e. ID e = environmentID \<and> ID c = configID)) ''config''"

definition SetCurrent :: "int \<Rightarrow> int \<Rightarrow> int \<Rightarrow> int \<Rightarrow> unit M" where
  "SetCurrent environmentID configID snapshotID updatedBy =
     bindM (findScopedConfig environmentID configID) (\<lambda>config.
     bindM (getM (\<lambda>E d. filter (\<lambda>s. DeletedAt s = None \<and> ID s = snapshotID \<and> s_ConfigID s = configID \<and>
              s_ProjectID s = c_ProjectID config) (snapshots d)) ''snapshot'') (\<lambda>_.
     bindM nowM (\<lambda>now.
     bindM (mapErrM WrapDatabaseError
       (updateSnapshots
         (\<lambda>r. DeletedAt r = None \<and> s_ConfigID r = configID \<and> s_ProjectID r = c_ProjectID config \<and>
              ID r \<noteq> snapshotID \<and> s_IsUsing r)
         (\<lambda>r. r\<lparr>Version := Version r + 1, s_IsUsing := False, UpdatedBy := updatedBy, UpdatedAt := now\<rparr>))) (\<lambda>_.
     bindM (mapErrM WrapDatabaseError
       (updateSnapshots
         (\<lambda>r. DeletedAt r = None \<and> ID r = snapshotID \<and> s_ConfigID r = configID \<and> s_ProjectID r = c_ProjectID config)
         (\<lambda>r. r\<lparr>Version := Version r + 1, s_IsUsing := True, UpdatedBy := updatedBy, UpdatedAt := now\<rparr>))) (\<lambda>affected.
     requireAffected ''current snapshot'' affected)))))"

section \<open>Publication\<close>

record SnapshotPublicationUpdate =
  Pub_EnvironmentID :: int
  Pub_ConfigID :: int
  Pub_SnapshotID :: int
  Pub_ExpectedVersion :: int
  Pub_UpdatedBy :: int
  Pub_ChangedAt :: int

definition LockForConfig :: "int \<Rightarrow> int \<Rightarrow> snapshot_row list M" where
  "LockForConfig environmentID configID =
     mapErrM WrapDatabaseError (queryM (\<lambda>E d.
       sort_key ID (snapshotScope (\<lambda>s c p e. ID e = environmentID \<and> ID c = configID) d)))"

definition SetReleased :: "SnapshotPublicationUpdate \<Rightarrow> unit M" where
  "SetReleased update =
     bindM (mapErrM WrapDatabaseError
       (updateSnapshots
         (\<lambda>r. DeletedAt r = None \<and> ID r = Pub_SnapshotID update \<and> s_ConfigID r = Pub_ConfigID update \<and>
              s_Status r = SnapshotStatusUnreleased \<and> Version r = Pub_ExpectedVersion update)
         (\<lambda>r. r\<lparr>s_Status := SnapshotStatusReleased, s_PublishedAt := Some (Pub_ChangedAt update),
                s_PublishedBy := Some (Pub_UpdatedBy update), UpdatedBy := Pub_UpdatedBy update,
                UpdatedAt := Pub_ChangedAt update, Version := Pub_ExpectedVersion update + 1\<rparr>)))
       (requireAffected ''snapshot publication'')"

definition SetUnreleased :: "SnapshotPublicationUpdate \<Rightarrow> unit M" where
  "SetUnreleased update =
     bindM (mapErrM WrapDatabaseError
       (updateSnapshots
         (\<lambda>r. DeletedAt r = None \<and> ID r = Pub_SnapshotID update \<and> s_ConfigID r = Pub_ConfigID update \<and>
              s_Status r = SnapshotStatusReleased \<and> Version r = Pub_ExpectedVersion update)
         (\<lambda>r. r\<lparr>s_Status := SnapshotStatusUnreleased, s_PublishedAt := None, s_PublishedBy := None,
                UpdatedBy := Pub_UpdatedBy update, UpdatedAt := Pub_ChangedAt update,
                Version := Pub_ExpectedVersion update + 1\<rparr>)))
       (requireAffected ''snapshot unpublication'')"

definition IncrementRuntimeVersion :: "int \<Rightarrow> int \<Rightarrow> unit M" where
  "IncrementRuntimeVersion environmentID configID =
     bindM (lockScopedConfig environmentID configID) (\<lambda>_.
     bindM nowM (\<lambda>now.
     bindM (mapErrM WrapDatabaseError
       (updateConfigs (\<lambda>r. DeletedAt r = None \<and> ID r = configID \<and> c_RuntimeVersion r < MaxInt64_value)
         (\<lambda>r. r\<lparr>c_RuntimeVersion := c_RuntimeVersion r + 1, UpdatedAt := now\<rparr>)))
       (requireAffected ''config runtime version'')))"

section \<open>Results of statements\<close>

lemma updateM_Inr [run_simps]:
  "updateM sel upd cond f E w = (Inr n, w') \<longleftrightarrow> fault E (tick w) = None \<and> n = matching cond (sel (database w)) \<and>
     w' = w\<lparr>database := upd (update_rows cond f) (database w), tick := Suc (tick w)\<rparr>"
  by (auto simp: updateM_def run_simps)

lemma updateM_Inl [run_simps]:
  "updateM sel upd cond f E w = (Inl e, w') \<longleftrightarrow> fault E (tick w) = Some e \<and> w' = w\<lparr>tick := Suc (tick w)\<rparr>"
  by (auto simp: updateM_def run_simps)

lemma insertM_Inr [run_simps]:
  "insertM t sel upd clash setID row E w = (Inr r, w') \<longleftrightarrow>
     fault E (tick w) = None \<and> \<not> list_ex (\<lambda>x. clash E x row) (sel (database w)) \<and>
     r = setID (last_id w t + 1) row \<and>
     w' = w\<lparr>database := upd (\<lambda>rows. rows @ [r]) (database w), last_id := (last_id w)(t := last_id w t + 1), tick := Suc (tick w)\<rparr>"
  by (auto simp: insertM_def run_simps split: if_splits)

lemma insertM_Inl:
  "insertM t sel upd clash setID row E w = (Inl e, w') \<Longrightarrow>
     w' = w\<lparr>last_id := (last_id w)(t := last_id w t + 1), tick := Suc (tick w)\<rparr>"
  by (auto simp: insertM_def run_simps split: if_splits)

lemma RecordForEnvironment_Inr:
  assumes "RecordForEnvironment environmentID log E w = (Inr u, w')"
  shows "\<exists>row. database w' = audit_logs_update (\<lambda>rows. rows @ [row]) (database w) \<and>
    a_EnvironmentID row = Some environmentID \<and> a_ActorUserID row = a_ActorUserID log \<and> a_Action row = a_Action log \<and>
    a_ResourceType row = a_ResourceType log \<and> a_ResourceID row = a_ResourceID log \<and> a_Result row = a_Result log \<and> a_RequestID row = a_RequestID log \<and>
    cache w' = cache w \<and> last_id w' = (last_id w)(AuditLogsTable := last_id w AuditLogsTable + 1)"
  using assms
  by (auto simp: RecordForEnvironment_def RecordPrepareInsert_def insertTimes_def insertAudit_def run_simps split: if_splits)

lemma database_updateM [database_intro]: "database_only (updateM sel upd cond f)"
  unfolding updateM_def by (intro database_intro)

lemma database_insertM [database_intro]: "database_only (insertM t sel upd clash setID row)"
  unfolding insertM_def by (intro database_intro)

lemmas database_getM [database_intro] = reads_getM [THEN reads_database_only]

end
