(* ===== verification/Permission.thy ===== *)
theory Permission
  imports Repo_Config Schema_Values
begin

text \<open>
  Authorization (\<^verbatim>\<open>server/internal/permission\<close>, \<^verbatim>\<open>server/internal/repository/permission.go\<close>): reading the
  identity of a caller, the permission sets cached per environment generation, and the decisions
  \<^verbatim>\<open>Require\<close> and \<^verbatim>\<open>RequireSystem\<close>. Log calls have no effect on the state and are left out.
\<close>

section \<open>The cache in the world\<close>

definition cacheGetM :: "string \<Rightarrow> string M" where
  "cacheGetM key = (\<lambda>E w. case memory_Get (ctx_error E (tick w)) (clock E (tick w)) key (cache w) of
     (r, s) \<Rightarrow> (r, w\<lparr>cache := s, tick := Suc (tick w)\<rparr>))"

definition cacheSetM :: "string \<Rightarrow> string \<Rightarrow> int \<Rightarrow> unit M" where
  "cacheSetM key value ttl = (\<lambda>E w. case memory_Set (ctx_error E (tick w)) (clock E (tick w)) key value ttl (cache w) of
     (r, s) \<Rightarrow> (r, w\<lparr>cache := s, tick := Suc (tick w)\<rparr>))"

definition cacheDeleteM :: "string \<Rightarrow> unit M" where
  "cacheDeleteM key = (\<lambda>E w. case memory_Delete (ctx_error E (tick w)) key (cache w) of
     (r, s) \<Rightarrow> (r, w\<lparr>cache := s, tick := Suc (tick w)\<rparr>))"

section \<open>The permission repository\<close>

record PermissionIdentity =
  Identity_SystemAdmin :: bool
  Identity_EnvironmentID :: int
  Identity_EnvironmentVersion :: int
  Identity_EnvironmentEnabled :: bool
  Identity_EnvironmentMember :: bool

definition enabledUser :: "int \<Rightarrow> user_row M" where
  "enabledUser userID =
     getM (\<lambda>E d. filter (\<lambda>u. ID u = userID \<and> u_Enabled u \<and> DeletedAt u = None) (users d)) ''permission identity''"

definition permission_Identity :: "int \<Rightarrow> int \<Rightarrow> PermissionIdentity M" where
  "permission_Identity userID environmentID =
     bindM (enabledUser userID) (\<lambda>user.
       let identity = \<lparr>Identity_SystemAdmin = u_IsSystemAdmin user, Identity_EnvironmentID = 0,
             Identity_EnvironmentVersion = 0, Identity_EnvironmentEnabled = False,
             Identity_EnvironmentMember = False\<rparr>
       in if environmentID \<le> 0 then returnM identity
          else bindM (mapErrM WrapDatabaseError (queryM (\<lambda>E d.
                 first_row (filter (\<lambda>e. ID e = environmentID \<and> DeletedAt e = None) (environments d))))) (\<lambda>found.
               let identity = (case found of None \<Rightarrow> identity
                     | Some e \<Rightarrow> identity\<lparr>Identity_EnvironmentID := ID e, Identity_EnvironmentVersion := Version e,
                                          Identity_EnvironmentEnabled := e_Enabled e\<rparr>)
               in bindM (mapErrM WrapDatabaseError (queryM (\<lambda>E d.
                    list_ex (\<lambda>m. m_UserID m = userID \<and> m_EnvironmentID m = environmentID) (members d)))) (\<lambda>member.
                  returnM (identity\<lparr>Identity_EnvironmentMember := member\<rparr>))))"

definition permission_SystemAdmin :: "int \<Rightarrow> bool M" where
  "permission_SystemAdmin userID = bindM (enabledUser userID) (\<lambda>user. returnM (u_IsSystemAdmin user))"

definition granted_keys :: "int \<Rightarrow> int \<Rightarrow> db \<Rightarrow> string list" where
  "granted_keys userID environmentID d =
     [pm_Key p. p \<leftarrow> permissions d, rp \<leftarrow> grants d, uer \<leftarrow> members d, r \<leftarrow> roles d,
        g_PermissionID rp = r_ID p \<and> m_RoleID uer = g_RoleID rp \<and> ID r = g_RoleID rp \<and> DeletedAt r = None \<and>
        m_UserID uer = userID \<and> m_EnvironmentID uer = environmentID]"

definition KeysForUserEnvironment :: "int \<Rightarrow> int \<Rightarrow> string list M" where
  "KeysForUserEnvironment userID environmentID =
     mapErrM WrapDatabaseError (queryM (\<lambda>E d. sort (remdups (granted_keys userID environmentID d))))"

definition permission_List :: "permission_row list M" where
  "permission_List = mapErrM WrapDatabaseError (queryM (\<lambda>E d. sort_key r_ID (permissions d)))"

section \<open>Permission sets\<close>

fun normalize_loop :: "string list \<Rightarrow> string list \<Rightarrow> string list" where
  "normalize_loop written [] = written"
| "normalize_loop written (key # keys) =
     (if key = '''' \<or> (written \<noteq> [] \<and> last written = key) then normalize_loop written keys
      else normalize_loop (written @ [key]) keys)"

definition normalize_keys :: "string list \<Rightarrow> string list" where
  "normalize_keys keys = normalize_loop [] (sort keys)"

definition permissionContentKey :: "int \<Rightarrow> int \<Rightarrow> int \<Rightarrow> string" where
  "permissionContentKey userID environmentID version =
     ''permission:user:'' @ FormatInt userID @ '':environment:'' @ FormatInt environmentID @
     '':version:'' @ FormatInt version"

text \<open>
  \<^verbatim>\<open>json.Marshal\<close> and \<^verbatim>\<open>json.Unmarshal\<close> at type \<^verbatim>\<open>[]string\<close>: the empty set is a nil slice, written
  \<^verbatim>\<open>null\<close>; a null element reads as the empty string.
\<close>

definition encodePermissions :: "string list \<Rightarrow> string" where
  "encodePermissions keys = Marshal (if keys = [] then JNull else JArray (map JString keys))"

definition string_element :: "json \<Rightarrow> string result" where
  "string_element v = (case v of JString s \<Rightarrow> Inr s | JNull \<Rightarrow> Inr [] | _ \<Rightarrow> Inl (OtherError ''not a string''))"

definition decodePermissions :: "string \<Rightarrow> string list result" where
  "decodePermissions text =
     (case parse_value 0 text of
        None \<Rightarrow> Inl (OtherError ''decode permission cache'')
      | Some (v, rest) \<Rightarrow>
          if skip_ws rest \<noteq> [] then Inl (OtherError ''decode permission cache'')
          else (case v of
                  JNull \<Rightarrow> Inr (normalize_keys [])
                | JArray items \<Rightarrow> bindR (forR string_element items) (\<lambda>keys. Inr (normalize_keys keys))
                | _ \<Rightarrow> Inl (OtherError ''decode permission cache'')))"

section \<open>The resolver\<close>

definition cacheTTL :: int where "cacheTTL = 60 * 1000000000"
definition maxResolveRetry :: nat where "maxResolveRetry = 3"

definition resolver_identity :: "int \<Rightarrow> int \<Rightarrow> PermissionIdentity M" where
  "resolver_identity userID environmentID =
     bindM (mapErrM (\<lambda>e. if isNotFound e then Forbidden else e) (permission_Identity userID environmentID)) (\<lambda>identity.
       if Identity_EnvironmentID identity = 0
       then failM (if Identity_SystemAdmin identity then EnvironmentNotFound else Forbidden)
       else if \<not> Identity_SystemAdmin identity \<and>
               (\<not> Identity_EnvironmentEnabled identity \<or> \<not> Identity_EnvironmentMember identity)
       then failM Forbidden
       else if Identity_EnvironmentVersion identity < 0 then failM (OtherError ''invalid environment permission version'')
       else returnM identity)"

definition allPermissionKeys :: "string list M" where
  "allPermissionKeys = bindM permission_List (\<lambda>items. returnM (normalize_keys (map pm_Key items)))"

definition cachedPermissions :: "string \<Rightarrow> string list option M" where
  "cachedPermissions key =
     bindM (attemptM (cacheGetM key)) (\<lambda>r.
       returnM (case r of Inl _ \<Rightarrow> None
                | Inr encoded \<Rightarrow> (case decodePermissions encoded of Inl _ \<Rightarrow> None | Inr keys \<Rightarrow> Some keys)))"

definition loadPermissions :: "int \<Rightarrow> int \<Rightarrow> string \<Rightarrow> (string list \<times> bool) M" where
  "loadPermissions userID environmentID key =
     bindM (cachedPermissions key) (\<lambda>cached.
       case cached of
         Some keys \<Rightarrow> returnM (keys, True)
       | None \<Rightarrow> bindM (KeysForUserEnvironment userID environmentID) (\<lambda>keys. returnM (normalize_keys keys, False)))"

definition cachePermissions :: "string \<Rightarrow> string list \<Rightarrow> unit M" where
  "cachePermissions key keys =
     bindM (attemptM (cacheSetM key (encodePermissions keys) cacheTTL)) (\<lambda>_. returnM ())"

definition resolveAttempt :: "int \<Rightarrow> int \<Rightarrow> (string list \<times> bool) M" where
  "resolveAttempt userID environmentID =
     bindM (resolver_identity userID environmentID) (\<lambda>identity.
       if Identity_SystemAdmin identity
       then bindM allPermissionKeys (\<lambda>keys. returnM (keys, True))
       else
         let contentKey = permissionContentKey userID environmentID (Identity_EnvironmentVersion identity) in
         bindM (loadPermissions userID environmentID contentKey) (\<lambda>(keys, cached).
         bindM (resolver_identity userID environmentID) (\<lambda>confirmed.
           if Identity_SystemAdmin confirmed
           then bindM allPermissionKeys (\<lambda>keys. returnM (keys, True))
           else if Identity_EnvironmentVersion confirmed \<noteq> Identity_EnvironmentVersion identity
           then failM ConcurrentChange
           else bindM (if \<not> cached then cachePermissions contentKey keys else returnM ()) (\<lambda>_.
                returnM (keys, False)))))"

fun resolve_loop :: "nat \<Rightarrow> int \<Rightarrow> int \<Rightarrow> (string list \<times> bool) M" where
  "resolve_loop 0 userID environmentID = failM ConcurrentChange"
| "resolve_loop (Suc attempts) userID environmentID =
     bindM (attemptM (resolveAttempt userID environmentID)) (\<lambda>r.
       case r of
         Inl e \<Rightarrow> if e = ConcurrentChange then resolve_loop attempts userID environmentID else failM e
       | Inr res \<Rightarrow> returnM res)"

definition Resolve :: "int \<Rightarrow> int \<Rightarrow> (string list \<times> bool) M" where
  "Resolve = resolve_loop maxResolveRetry"

definition Require :: "int \<Rightarrow> int \<Rightarrow> string list \<Rightarrow> unit M" where
  "Require userID environmentID required =
     bindM (Resolve userID environmentID) (\<lambda>(keys, systemAdmin).
       if systemAdmin then returnM ()
       else guardM (\<not> list_all (\<lambda>key. key \<in> set keys) required) Forbidden)"

definition RequireSystem :: "int \<Rightarrow> string \<Rightarrow> unit M" where
  "RequireSystem userID required =
     (if take 7 required \<noteq> ''system:'' then failM (OtherError ''system permission key required'')
      else bindM (mapErrM (\<lambda>e. if isNotFound e then Forbidden else e) (permission_SystemAdmin userID)) (\<lambda>admin.
           guardM (\<not> admin) Forbidden))"

definition Invalidate :: "int \<Rightarrow> int \<Rightarrow> unit M" where
  "Invalidate userID environmentID =
     bindM (attemptM (permission_Identity userID environmentID)) (\<lambda>r.
       case r of
         Inl e \<Rightarrow> if isNotFound e then returnM () else failM e
       | Inr identity \<Rightarrow>
           let previousVersion = Identity_EnvironmentVersion identity - 1 in
           if previousVersion < 0 then returnM ()
           else cacheDeleteM (permissionContentKey userID environmentID previousVersion))"

section \<open>Request identifiers\<close>

definition requestIDChar :: "char \<Rightarrow> bool" where
  "requestIDChar c \<longleftrightarrow> is_alpha c \<or> is_digit c \<or> c = CHR ''.'' \<or> c = CHR ''_'' \<or> c = CHR '':'' \<or> c = CHR ''-''"

definition validRequestID :: "string \<Rightarrow> bool" where
  "validRequestID s \<longleftrightarrow> s \<noteq> [] \<and> length s \<le> 128 \<and> list_all requestIDChar s"

record Actor =
  Actor_UserID :: int
  Actor_RequestID :: string

text \<open>
  \<^verbatim>\<open>ActorFromContext\<close> on the principal and the request header found in the context; \<open>fresh\<close> is the
  identifier \<^verbatim>\<open>uuid.NewString\<close> would make.
\<close>

definition ActorFromContext :: "int option \<Rightarrow> string option \<Rightarrow> string \<Rightarrow> Actor result" where
  "ActorFromContext caller header fresh =
     (case caller of
        None \<Rightarrow> Inl Forbidden
      | Some userID \<Rightarrow>
          if userID \<le> 0 then Inl Forbidden
          else let requestID = (case header of None \<Rightarrow> '''' | Some h \<Rightarrow> h)
               in Inr \<lparr>Actor_UserID = userID,
                       Actor_RequestID = (if validRequestID requestID then requestID else fresh)\<rparr>)"

end
