(* ===== verification/Example_World.thy ===== *)
theory Example_World
  imports Permission
begin

text \<open>
  A small installation the statements are applied to: one project with one enabled environment, a
  member (user 7) whose role holds every permission of the environment, and an engine on which no
  statement fails and no context is cancelled.
\<close>

definition example_permissions :: "permission_row list" where
  "example_permissions = map (\<lambda>(i, k). \<lparr>r_ID = i, r_CreatedAt = 1, r_UpdatedAt = 1, pm_Key = k, pm_Name = k, pm_Description = ''''\<rparr>)
     [(1, ''project:read''), (3, ''project:api_key:read''), (4, ''project:api_key:manage''), (5, ''config:read''),
      (6, ''config:write''), (7, ''structure:read''), (8, ''structure:write''), (9, ''enum:read''), (10, ''enum:write''),
      (11, ''snapshot:read''), (12, ''snapshot:write''), (13, ''snapshot:publish''), (14, ''snapshot:export''),
      (15, ''snapshot:import'')]"

definition example_db :: db where
  "example_db = \<lparr>
     environments = [\<lparr>ID = 1, CreatedBy = 7, UpdatedBy = 7, CreatedAt = 1, UpdatedAt = 1, Version = 1, DeletedAt = None,
       e_ProjectID = 1, e_Key = ''prod'', e_Name = ''prod'', e_Description = '''', e_Enabled = True\<rparr>],
     users = [\<lparr>ID = 7, CreatedBy = 7, UpdatedBy = 7, CreatedAt = 1, UpdatedAt = 1, Version = 1, DeletedAt = None,
       u_Username = ''ann'', u_DisplayName = ''Ann'', u_PasswordHash = ''h'', u_Enabled = True,
       u_IsSystemAdmin = False, u_MustChangePassword = False, u_LastLoginAt = None\<rparr>],
     roles = [\<lparr>ID = 4, CreatedBy = 7, UpdatedBy = 7, CreatedAt = 1, UpdatedAt = 1, Version = 1, DeletedAt = None,
       ro_Key = ''admin'', ro_Name = ''admin'', ro_Description = '''', ro_Builtin = True\<rparr>],
     projects = [\<lparr>ID = 1, CreatedBy = 7, UpdatedBy = 7, CreatedAt = 1, UpdatedAt = 1, Version = 1, DeletedAt = None,
       p_Key = ''shop'', p_Name = ''shop'', p_Description = ''''\<rparr>],
     configs = [], structure_rows = [], enum_rows = [], snapshots = [],
     permissions = example_permissions,
     members = [\<lparr>r_ID = 1, r_CreatedAt = 1, r_UpdatedAt = 1, m_UserID = 7, m_EnvironmentID = 1, m_RoleID = 4, m_CreatedBy = 7\<rparr>],
     grants = map (\<lambda>p. \<lparr>r_ID = r_ID p, r_CreatedAt = 1, r_UpdatedAt = 1, g_RoleID = 4, g_PermissionID = r_ID p, g_CreatedBy = 7\<rparr>) example_permissions,
     api_keys = [], refresh_tokens = [], audit_logs = [], import_records = [],
     application_secrets = [\<lparr>x_ID = 1, x_JWTKeyID = ''k'', x_JWTSigningKey = ''s'', x_APIKeyPepper = ''p'', x_AdminInitialized = False\<rparr>]\<rparr>"

definition example_engine :: engine where
  "example_engine = \<lparr>fault = (\<lambda>n. None), clock = (\<lambda>n. 1000 + int n), ctx_error = (\<lambda>n. None), same_text = (=),
     like_text = (\<lambda>s p. s = p \<or> (p \<noteq> [] \<and> last p = CHR ''%'' \<and> take (length p - 1) s = butlast p))\<rparr>"

definition example_world :: world where
  "example_world = \<lparr>database = example_db, cache = newMemory, last_id = (\<lambda>t. 100), tick = 0\<rparr>"

definition example_actor :: Actor where
  "example_actor = \<lparr>Actor_UserID = 7, Actor_RequestID = ''r1''\<rparr>"

end
