(* ===== verification/Permission_Props.thy ===== *)
theory Permission_Props
  imports Example_World
begin

text \<open>
  Correctness of authorization: the canonical form and the cache encoding of permission sets, the states
  the resolver goes through, coherence of the permission cache, and the decision \<^verbatim>\<open>Require\<close> takes.
\<close>

section \<open>Permission sets\<close>

lemma normalize_loop_correct:
  "sorted (written @ keys) \<Longrightarrow> distinct written \<Longrightarrow> '''' \<notin> set written \<Longrightarrow>
   sorted (normalize_loop written keys) \<and> distinct (normalize_loop written keys) \<and>
   set (normalize_loop written keys) = set written \<union> (set keys - {''''})"
proof (induction written keys rule: normalize_loop.induct)
  case (1 written)
  then show ?case by simp
next
  case (2 written key keys)
  have le: "\<forall>x \<in> set written. x \<le> key" and srt: "sorted (written @ keys)"
    using 2(3) by (auto simp: sorted_append)
  have fresh: "key \<notin> set written" if "\<not> (written \<noteq> [] \<and> last written = key)"
  proof
    assume "key \<in> set written"
    then obtain i where i: "i < length written" "written ! i = key" by (auto simp: in_set_conv_nth)
    have "sorted written" using srt by (simp add: sorted_append)
    then have "key \<le> last written"
      using i by (metis last_conv_nth length_greater_0_conv diff_less gr_implies_not0 less_one linorder_not_le
          nat_le_linear sorted_nth_mono Suc_pred' less_Suc_eq_le list.size(3))
    moreover have "last written \<le> key" using le i by (metis last_in_set length_greater_0_conv gr_implies_not0 not_gr_zero)
    ultimately show False using that i by auto
  qed
  show ?case
  proof (cases "key = '''' \<or> (written \<noteq> [] \<and> last written = key)")
    case True
    then have "set written \<union> (set keys - {''''}) = set written \<union> (set (key # keys) - {''''})"
      by (auto dest: last_in_set)
    with 2(1) [OF True srt 2(4,5)] True show ?thesis by simp
  next
    case False
    with 2(2) [OF False] 2(3-5) fresh show ?thesis by auto
  qed
qed

lemma normalize_props:
  "sorted (normalize_keys keys)" "distinct (normalize_keys keys)" "set (normalize_keys keys) = set keys - {''''}"
  using normalize_loop_correct [of "[]" "sort keys"] by (simp_all add: normalize_keys_def)

lemma normalize_unique:
  assumes "sorted xs" "distinct xs" "set xs = set keys - {''''}"
  shows "xs = normalize_keys keys"
  using sorted_distinct_set_unique [OF assms(1,2) normalize_props(1,2)] assms(3) normalize_props(3) by metis

lemma normalize_cong: "set xs - {''''} = set ys - {''''} \<Longrightarrow> normalize_keys xs = normalize_keys ys"
  by (rule normalize_unique) (simp_all add: normalize_props)

section \<open>Cache keys\<close>

lemma permissionContentKey_inject [simp]:
  "permissionContentKey u e v = permissionContentKey u' e' v' \<longleftrightarrow> u = u' \<and> e = e' \<and> v = v'"
  using append_sep_inject [OF colon_notin_FormatInt colon_notin_FormatInt]
  by (simp add: permissionContentKey_def)

section \<open>Cached permission sets\<close>

text \<open>Bytes that JSON writes as themselves.\<close>

definition plain_char :: "char \<Rightarrow> bool" where
  "plain_char c \<longleftrightarrow> 32 \<le> byte c \<and> byte c < 127 \<and> byte c \<notin> {34, 38, 60, 62, 92}"

definition quoted :: "string \<Rightarrow> string" where
  "quoted s = quote_char # s @ [quote_char]"

lemma plain_char_byte: "plain_char c \<Longrightarrow> 32 \<le> byte c \<and> byte c < 128 \<and> c \<noteq> quote_char \<and> c \<noteq> backslash"
  by (auto simp: plain_char_def quote_char_def backslash_def)

lemma escape_plain: "plain_char c \<Longrightarrow> escape_rune (byte c, [c]) = [c]"
  by (auto simp: plain_char_def escape_rune_def RuneError_def)

lemma marshal_string_plain:
  assumes "list_all plain_char s"
  shows "marshal_string s = quoted s"
proof -
  have "list_all (\<lambda>c. byte c < 128) s" using assms plain_char_byte by (auto simp: list_all_iff)
  moreover have "concat (map escape_rune (map (\<lambda>c. (byte c, [c])) s)) = s"
    using assms by (induction s) (auto simp: escape_plain)
  ultimately show ?thesis by (simp add: marshal_string_def runes_ascii_string quoted_def)
qed

lemma parse_string_plain: "list_all plain_char s \<Longrightarrow> parse_string (s @ quote_char # r) = Some (s, r)"
proof (induction s)
  case Nil
  then show ?case by (simp add: parse_string.simps)
next
  case (Cons c s)
  then have c: "32 \<le> byte c" "byte c < 128" "c \<noteq> quote_char" "c \<noteq> backslash"
    using plain_char_byte [of c] by auto
  have "string_unit (c # s @ quote_char # r) = Some ([c], s @ quote_char # r)"
    using c decode_rune_ascii [of c "s @ quote_char # r"]
    by (simp add: string_unit_def RuneError_def del: decode_rune.simps)
  with c Cons show ?case by (subst parse_string.simps) simp
qed

lemma parse_value_quoted:
  "list_all plain_char s \<Longrightarrow> parse_value d (quoted s @ r) = Some (JString s, r)"
proof -
  assume "list_all plain_char s"
  from parse_string_plain [OF this, of r] show ?thesis
    by (subst parse_value.simps) (simp add: quoted_def json_space_def, simp add: quote_char_def)
qed

lemma join_Cons: "xs \<noteq> [] \<Longrightarrow> join sep (x # xs) = x @ sep @ join sep xs"
  by (cases xs) simp_all

lemma parse_items_quoted:
  "keys \<noteq> [] \<Longrightarrow> list_all (list_all plain_char) keys \<Longrightarrow>
   parse_items d (join '','' (map quoted keys) @ '']'' @ r) = Some (map JString keys, r)"
proof (induction keys)
  case (Cons k keys)
  show ?case
  proof (cases "keys = []")
    case True
    with Cons.prems parse_value_quoted [of k d "'']'' @ r"] show ?thesis
      by (subst parse_items.simps) (simp add: skip_ws_def json_space_def)
  next
    case False
    have "parse_value d (quoted k @ '','' @ join '','' (map quoted keys) @ '']'' @ r) =
        Some (JString k, '','' @ join '','' (map quoted keys) @ '']'' @ r)"
      using Cons.prems parse_value_quoted by simp
    with Cons False show ?thesis
      by (subst parse_items.simps) (simp add: join_Cons skip_ws_def json_space_def)
  qed
qed simp

lemma decode_encodePermissions:
  assumes "list_all (list_all plain_char) keys"
  shows "decodePermissions (encodePermissions keys) = Inr (normalize_keys keys)"
proof (cases "keys = []")
  case True
  have "parse_value 0 ''null'' = Some (JNull, [])" by code_simp
  with True show ?thesis by (simp add: decodePermissions_def encodePermissions_def skip_ws_def)
next
  case False
  have enc: "encodePermissions keys = CHR ''['' # join '','' (map quoted keys) @ '']''"
    using False assms marshal_string_plain
    by (simp add: encodePermissions_def list_all_iff cong: map_cong)
  obtain k ks where ks: "keys = k # ks" using False by (cases keys) auto
  obtain u where "join '','' (map quoted keys) @ '']'' = quote_char # u"
    by (cases ks) (simp_all add: ks quoted_def)
  then have "strip_prefix '']'' (skip_ws (join '','' (map quoted keys) @ '']'')) = None"
    by (simp add: skip_ws_def json_space_def quote_char_def)
  then have "parse_value 0 (encodePermissions keys) = Some (JArray (map JString keys), [])"
    using parse_items_quoted [OF False assms, of 1 "[]"]
    by (subst parse_value.simps) (simp add: enc json_space_def max_depth_def quote_char_def)
  moreover have "forR string_element (map JString keys) = Inr keys"
    by (simp add: forR_Inr_iff list_all2_map1 string_element_def list_all2_same)
  ultimately show ?thesis by (simp add: decodePermissions_def skip_ws_def)
qed

section \<open>Steps of the resolver\<close>

lemma bindM_elim:
  assumes "bindM m f E w = (r, w')"
  obtains (fails) e where "m E w = (Inl e, w')" "r = Inl e"
  | (continues) a w1 where "m E w = (Inr a, w1)" "f a E w1 = (r, w')"
  using assms by (auto simp: bindM_def split: prod.splits sum.splits)

lemma mapErrM_elim:
  assumes "mapErrM g m E w = (r, w')"
  obtains (fails) e where "m E w = (Inl e, w')" "r = Inl (g e)"
  | (continues) a where "m E w = (Inr a, w')" "r = Inr a"
  using assms by (auto simp: mapErrM_def split: prod.splits sum.splits)

definition caller_row :: "db \<Rightarrow> int \<Rightarrow> user_row option" where
  "caller_row d u = first_row (filter (\<lambda>x. ID x = u \<and> u_Enabled x \<and> DeletedAt x = None) (users d))"

definition live_environment :: "db \<Rightarrow> int \<Rightarrow> environment_row option" where
  "live_environment d e = first_row (filter (\<lambda>x. ID x = e \<and> DeletedAt x = None) (environments d))"

definition is_member :: "db \<Rightarrow> int \<Rightarrow> int \<Rightarrow> bool" where
  "is_member d u e \<longleftrightarrow> list_ex (\<lambda>m. m_UserID m = u \<and> m_EnvironmentID m = e) (members d)"

text \<open>The identity the resolver accepts for a caller in an environment.\<close>

definition admitted :: "db \<Rightarrow> int \<Rightarrow> int \<Rightarrow> bool \<Rightarrow> environment_row \<Rightarrow> bool" where
  "admitted d u e admin env \<longleftrightarrow> 0 < e \<and> live_environment d e = Some env \<and> 0 \<le> Version env \<and>
     (\<exists>user. caller_row d u = Some user \<and> u_IsSystemAdmin user = admin) \<and>
     (admin \<or> e_Enabled env \<and> is_member d u e)"

lemma live_environment_ID: "live_environment d e = Some env \<Longrightarrow> ID env = e \<and> DeletedAt env = None \<and> env \<in> set (environments d)"
  by (auto simp: live_environment_def dest!: first_row_Some)

lemma permission_Identity_Inr:
  assumes "permission_Identity u e E w = (Inr i, w')"
  shows "\<exists>user. caller_row (database w) u = Some user \<and> Identity_SystemAdmin i = u_IsSystemAdmin user \<and>
    (if e \<le> 0 \<or> live_environment (database w) e = None then Identity_EnvironmentID i = 0
     else \<exists>env. live_environment (database w) e = Some env \<and> Identity_EnvironmentID i = e \<and>
       Identity_EnvironmentVersion i = Version env \<and> Identity_EnvironmentEnabled i = e_Enabled env \<and>
       Identity_EnvironmentMember i = is_member (database w) u e)"
  using assms live_environment_ID [of "database w" e]
  by (auto simp: permission_Identity_def enabledUser_def getM_Inr run_simps Let_def caller_row_def [symmetric]
      live_environment_def [symmetric] is_member_def [symmetric] split: if_splits option.splits)

lemma reads_permission_Identity [reads_intro]: "reads (permission_Identity u e)"
  unfolding permission_Identity_def enabledUser_def Let_def by (intro reads_intro)

lemma reads_resolver_identity [reads_intro]: "reads (resolver_identity u e)"
  unfolding resolver_identity_def by (intro reads_intro)

lemma resolver_identity_Inr:
  assumes "resolver_identity u e E w = (Inr i, w')"
  shows "\<exists>env. admitted (database w) u e (Identity_SystemAdmin i) env \<and> Identity_EnvironmentVersion i = Version env"
proof -
  from assms have run: "permission_Identity u e E w = (Inr i, w')" and ok: "Identity_EnvironmentID i \<noteq> 0"
    "Identity_SystemAdmin i \<or> (Identity_EnvironmentEnabled i \<and> Identity_EnvironmentMember i)"
    "0 \<le> Identity_EnvironmentVersion i"
    by (auto simp: resolver_identity_def run_simps split: if_splits)
  from permission_Identity_Inr [OF run] ok show ?thesis
    by (auto simp: admitted_def split: if_splits)
qed

section \<open>The permission cache\<close>

definition perm_coherent :: "db \<Rightarrow> memoryStore \<Rightarrow> bool" where
  "perm_coherent d s \<longleftrightarrow> (\<forall>u e env content keys.
     live_environment d e = Some env \<longrightarrow> memory_holds s (permissionContentKey u e (Version env)) content \<longrightarrow>
     decodePermissions content = Inr keys \<longrightarrow> keys = normalize_keys (granted_keys u e d))"

definition plain_catalog :: "db \<Rightarrow> bool" where
  "plain_catalog d \<longleftrightarrow> (\<forall>p \<in> set (permissions d). list_all plain_char (pm_Key p))"

text \<open>What an authorization check may do to the state: only entries of the permission cache are added.\<close>

definition auth_frame :: "world \<Rightarrow> world \<Rightarrow> bool" where
  "auth_frame w w' \<longleftrightarrow> database w' = database w \<and> last_id w' = last_id w \<and>
     (\<forall>k v. memory_holds (cache w') k v \<longrightarrow>
        memory_holds (cache w) k v \<or> (\<exists>u e n. k = permissionContentKey u e n))"

lemma auth_frame_refl [simp]: "auth_frame w w"
  by (simp add: auth_frame_def)

lemma auth_frame_trans: "auth_frame a b \<Longrightarrow> auth_frame b c \<Longrightarrow> auth_frame a c"
  by (simp add: auth_frame_def) metis

lemma quiet_auth_frame: "quiet w w' \<Longrightarrow> auth_frame w w'"
  by (simp add: quiet_def auth_frame_def)

lemma granted_keys_member: "k \<in> set (granted_keys u e d) \<Longrightarrow> \<exists>p \<in> set (permissions d). k = pm_Key p"
  by (auto simp: granted_keys_def)

lemma cacheGetM_effect:
  assumes "cacheGetM key E w = (r, w')"
  shows "database w' = database w" "last_id w' = last_id w"
    "memory_holds (cache w') k v \<Longrightarrow> memory_holds (cache w) k v"
    "r = Inr content \<Longrightarrow> memory_holds (cache w) key content"
  using assms mem.get_keeps mem.get_value
  by (auto simp: cacheGetM_def split: prod.splits)

lemma cacheSetM_effect:
  assumes "cacheSetM key content ttl E w = (r, w')"
  shows "database w' = database w" "last_id w' = last_id w"
    "memory_holds (cache w') k v \<Longrightarrow> memory_holds (cache w) k v \<or> (k = key \<and> v = content)"
  using assms by (auto simp: cacheSetM_def split: prod.splits dest: mem.put_adds)

lemma perm_coherent_shrink:
  assumes "perm_coherent d s" "\<And>k v. memory_holds s' k v \<Longrightarrow> memory_holds s k v"
  shows "perm_coherent d s'"
  using assms unfolding perm_coherent_def by blast

lemma loadPermissions_effect:
  assumes "loadPermissions u e (permissionContentKey u e (Version env)) E w = (r, w')"
    "perm_coherent (database w) (cache w)" "live_environment (database w) e = Some env"
  shows "auth_frame w w' \<and> perm_coherent (database w') (cache w') \<and>
    (\<forall>keys cached. r = Inr (keys, cached) \<longrightarrow> keys = normalize_keys (granted_keys u e (database w)))"
proof -
  let ?key = "permissionContentKey u e (Version env)"
  from assms(1) obtain c w1 where get: "cacheGetM ?key E w = (c, w1)"
    and rest: "(case (case c of Inl _ \<Rightarrow> None | Inr encoded \<Rightarrow>
        (case decodePermissions encoded of Inl _ \<Rightarrow> None | Inr keys \<Rightarrow> Some keys)) of
         Some keys \<Rightarrow> returnM (keys, True)
       | None \<Rightarrow> bindM (KeysForUserEnvironment u e) (\<lambda>keys. returnM (normalize_keys keys, False))) E w1 = (r, w')"
    by (cases r) (auto simp: loadPermissions_def cachedPermissions_def run_simps)
  note eff = cacheGetM_effect [OF get]
  have frame: "auth_frame w w1" "perm_coherent (database w1) (cache w1)"
    using eff(1,2,3) perm_coherent_shrink [OF assms(2)] by (auto simp: auth_frame_def)
  have db: "reads (bindM (KeysForUserEnvironment u e) (\<lambda>keys. returnM (normalize_keys keys, False)))"
    unfolding KeysForUserEnvironment_def by (intro reads_intro)
  show ?thesis
  proof (cases "\<exists>encoded keys. c = Inr encoded \<and> decodePermissions encoded = Inr keys")
    case True
    then obtain encoded keys where k: "c = Inr encoded" "decodePermissions encoded = Inr keys" by blast
    then have "keys = normalize_keys (granted_keys u e (database w))"
      using eff(4) [OF k(1)] assms(2,3) unfolding perm_coherent_def by blast
    with rest k frame show ?thesis by (auto simp: run_simps)
  next
    case False
    then have run: "bindM (KeysForUserEnvironment u e) (\<lambda>keys. returnM (normalize_keys keys, False)) E w1 = (r, w')"
      using rest by (auto split: sum.splits option.splits)
    from readsD [OF db run] have q: "quiet w1 w'" .
    have "normalize_keys (sort (remdups xs)) = normalize_keys xs" for xs
      by (rule normalize_cong) simp
    then have "\<forall>keys cached. r = Inr (keys, cached) \<longrightarrow> keys = normalize_keys (granted_keys u e (database w))"
      using run eff(1) by (auto simp: KeysForUserEnvironment_def run_simps)
    then show ?thesis using q frame auth_frame_trans [OF frame(1) quiet_auth_frame [OF q]]
      by (auto simp: quiet_def)
  qed
qed


lemma cachePermissions_effect:
  assumes "cachePermissions (permissionContentKey u e (Version env)) keys E w = (r, w')"
    "perm_coherent (database w) (cache w)" "plain_catalog (database w)" "live_environment (database w) e = Some env"
    "keys = normalize_keys (granted_keys u e (database w))"
  shows "r = Inr () \<and> auth_frame w w' \<and> perm_coherent (database w') (cache w')"
proof -
  let ?key = "permissionContentKey u e (Version env)"
  from assms(1) obtain c where put: "cacheSetM ?key (encodePermissions keys) cacheTTL E w = (c, w')" and r: "r = Inr ()"
    by (cases r) (auto simp: cachePermissions_def run_simps)
  note eff = cacheSetM_effect [OF put]
  have "list_all (list_all plain_char) keys"
    using assms(3) granted_keys_member
    by (force simp: assms(5) list_all_iff normalize_props plain_catalog_def)
  then have dec: "decodePermissions (encodePermissions keys) = Inr keys"
    using decode_encodePermissions normalize_unique [OF normalize_props(1,2), of "granted_keys u e (database w)"]
    by (metis assms(5) normalize_cong normalize_props(3) Diff_idemp)
  have "perm_coherent (database w') (cache w')"
    unfolding perm_coherent_def eff(1)
  proof (intro allI impI)
    fix u' e' env' content keys'
    assume env': "live_environment (database w) e' = Some env'"
      and h: "memory_holds (cache w') (permissionContentKey u' e' (Version env')) content"
      and d: "decodePermissions content = Inr keys'"
    from eff(3) [OF h] show "keys' = normalize_keys (granted_keys u' e' (database w))"
      using assms(2) env' d dec assms(5) unfolding perm_coherent_def by auto
  qed
  moreover have "auth_frame w w'" unfolding auth_frame_def using eff by blast
  ultimately show ?thesis using r by blast
qed

lemma reads_allPermissionKeys [reads_intro]: "reads allPermissionKeys"
  unfolding allPermissionKeys_def permission_List_def by (intro reads_intro)

definition resolved :: "db \<Rightarrow> int \<Rightarrow> int \<Rightarrow> string list \<Rightarrow> bool \<Rightarrow> bool" where
  "resolved d u e keys admin \<longleftrightarrow> (\<exists>env. admitted d u e admin env) \<and>
     (admin \<or> keys = normalize_keys (granted_keys u e d))"

definition safe_outcome :: "world \<Rightarrow> int \<Rightarrow> int \<Rightarrow> (string list \<times> bool) result \<Rightarrow> world \<Rightarrow> bool" where
  "safe_outcome w u e r w' \<longleftrightarrow> auth_frame w w' \<and> perm_coherent (database w') (cache w') \<and>
    (\<forall>keys admin. r = Inr (keys, admin) \<longrightarrow> resolved (database w) u e keys admin)"

lemma safe_outcome_quiet: "perm_coherent (database w) (cache w) \<Longrightarrow> quiet w w' \<Longrightarrow> safe_outcome w u e (Inl err) w'"
  by (auto simp: safe_outcome_def quiet_def intro!: quiet_auth_frame)

lemma safe_outcome_later:
  "auth_frame w w1 \<Longrightarrow> safe_outcome w1 u e r w' \<Longrightarrow> safe_outcome w u e r w'"
  by (auto simp: safe_outcome_def intro: auth_frame_trans) (simp add: auth_frame_def)

lemma admin_outcome:
  assumes "bindM allPermissionKeys (\<lambda>keys. returnM (keys, True)) E w = (r, w')"
    "perm_coherent (database w) (cache w)" "\<exists>env. admitted (database w) u e True env"
  shows "safe_outcome w u e r w'"
proof -
  have "quiet w w'" using assms(1) by (rule readsD [rotated]) (intro reads_intro)
  then show ?thesis using assms by (auto simp: safe_outcome_def quiet_def resolved_def run_simps intro!: quiet_auth_frame)
qed

text \<open>The second half of an attempt: the identity is read again before the loaded keys are used.\<close>

definition confirmPermissions :: "int \<Rightarrow> int \<Rightarrow> int \<Rightarrow> string list \<times> bool \<Rightarrow> (string list \<times> bool) M" where
  "confirmPermissions u e version = (\<lambda>(keys, cached).
     bindM (resolver_identity u e) (\<lambda>confirmed.
       if Identity_SystemAdmin confirmed then bindM allPermissionKeys (\<lambda>keys. returnM (keys, True))
       else if Identity_EnvironmentVersion confirmed \<noteq> version then failM ConcurrentChange
       else bindM (if \<not> cached then cachePermissions (permissionContentKey u e version) keys else returnM ()) (\<lambda>_.
            returnM (keys, False))))"

lemma resolveAttempt_eq:
  "resolveAttempt u e = bindM (resolver_identity u e) (\<lambda>identity.
     if Identity_SystemAdmin identity then bindM allPermissionKeys (\<lambda>keys. returnM (keys, True))
     else bindM (loadPermissions u e (permissionContentKey u e (Identity_EnvironmentVersion identity)))
            (confirmPermissions u e (Identity_EnvironmentVersion identity)))"
  unfolding resolveAttempt_def confirmPermissions_def Let_def ..

lemma confirmPermissions_effect:
  assumes "confirmPermissions u e (Version env) (keys, cached) E w = (r, w')"
    "perm_coherent (database w) (cache w)" "plain_catalog (database w)"
    "live_environment (database w) e = Some env" "keys = normalize_keys (granted_keys u e (database w))"
  shows "safe_outcome w u e r w'"
  using assms(1) unfolding confirmPermissions_def prod.case
proof (cases rule: bindM_elim)
  case (fails err)
  then show ?thesis using readsD [OF reads_resolver_identity fails(1)] assms(2) safe_outcome_quiet by auto
next
  case (continues confirmed w1)
  let ?key = "permissionContentKey u e (Version env)"
  note q = readsD [OF reads_resolver_identity continues(1)]
  have same: "database w1 = database w" "perm_coherent (database w1) (cache w1)"
    using q assms(2) by (simp_all add: quiet_def)
  have adm: "\<exists>env. admitted (database w1) u e (Identity_SystemAdmin confirmed) env"
    using resolver_identity_Inr [OF continues(1)] same(1) by auto
  have "safe_outcome w1 u e r w'"
  proof (cases "Identity_SystemAdmin confirmed \<or> Identity_EnvironmentVersion confirmed \<noteq> Version env")
    case True
    then show ?thesis using continues(2) admin_outcome [OF _ same(2)] adm safe_outcome_quiet [OF same(2)]
      by (cases "Identity_SystemAdmin confirmed") (auto simp: run_simps)
  next
    case False
    from continues(2) False have "bindM (if \<not> cached then cachePermissions ?key keys else returnM ())
        (\<lambda>_. returnM (keys, False)) E w1 = (r, w')" by simp
    then obtain c where step: "(if \<not> cached then cachePermissions ?key keys else returnM ()) E w1 = (c, w')"
      and c: "c = Inr () \<Longrightarrow> r = Inr (keys, False)" "\<And>err. c = Inl err \<Longrightarrow> r = Inl err"
      by (cases rule: bindM_elim) (auto simp: run_simps)
    have "c = Inr () \<and> auth_frame w1 w' \<and> perm_coherent (database w') (cache w')"
      using step cachePermissions_effect [OF _ same(2), of u e env keys E c w'] assms(3-5) same
      by (auto simp: run_simps split: if_splits)
    with c adm False assms(5) same show ?thesis by (auto simp: safe_outcome_def resolved_def)
  qed
  then show ?thesis by (rule safe_outcome_later [OF quiet_auth_frame [OF q]])
qed

lemma resolveAttempt_effect:
  assumes "resolveAttempt u e E w = (r, w')" "perm_coherent (database w) (cache w)" "plain_catalog (database w)"
  shows "safe_outcome w u e r w'"
  using assms(1) unfolding resolveAttempt_eq
proof (cases rule: bindM_elim)
  case (fails err)
  then show ?thesis using readsD [OF reads_resolver_identity fails(1)] assms(2) safe_outcome_quiet by auto
next
  case (continues identity w1)
  note q = readsD [OF reads_resolver_identity continues(1)]
  have same: "database w1 = database w" "perm_coherent (database w1) (cache w1)"
    using q assms(2) by (simp_all add: quiet_def)
  from resolver_identity_Inr [OF continues(1)] same(1) obtain env where
    env: "admitted (database w1) u e (Identity_SystemAdmin identity) env"
      "Identity_EnvironmentVersion identity = Version env" by auto
  have "safe_outcome w1 u e r w'"
  proof (cases "Identity_SystemAdmin identity")
    case True
    with env(1) have "\<exists>env. admitted (database w1) u e True env" by auto
    with continues(2) True admin_outcome [OF _ same(2), of E r w' u e] show ?thesis by simp
  next
    case False
    have live: "live_environment (database w1) e = Some env" using env(1) by (simp add: admitted_def)
    from continues(2) False env(2) have "bindM (loadPermissions u e (permissionContentKey u e (Version env)))
        (confirmPermissions u e (Version env)) E w1 = (r, w')" by simp
    then show ?thesis
    proof (cases rule: bindM_elim)
      case (fails err)
      with loadPermissions_effect [OF fails(1) same(2) live] show ?thesis by (simp add: safe_outcome_def)
    next
      case (continues res w2)
      obtain keys cached where res: "res = (keys, cached)" by fastforce
      have load: "auth_frame w1 w2" "perm_coherent (database w2) (cache w2)"
        "keys = normalize_keys (granted_keys u e (database w1))"
        using loadPermissions_effect [OF continues(1) same(2) live] res by auto
      then have "database w2 = database w1" by (simp add: auth_frame_def)
      then have "safe_outcome w2 u e r w'"
        using confirmPermissions_effect [of u e env keys cached E w2 r w'] continues(2) res load live assms(3) same(1)
        by simp
      then show ?thesis by (rule safe_outcome_later [OF load(1)])
    qed
  qed
  then show ?thesis by (rule safe_outcome_later [OF quiet_auth_frame [OF q]])
qed

lemma resolve_loop_effect:
  assumes "resolve_loop n u e E w = (r, w')" "perm_coherent (database w) (cache w)" "plain_catalog (database w)"
  shows "safe_outcome w u e r w'"
  using assms
proof (induction n arbitrary: w)
  case 0
  then show ?case using safe_outcome_quiet [of w w] by (auto simp: run_simps)
next
  case (Suc n)
  obtain r1 w1 where step: "resolveAttempt u e E w = (r1, w1)" by fastforce
  note safe = resolveAttempt_effect [OF step Suc.prems(2,3)]
  then have coh: "auth_frame w w1" "perm_coherent (database w1) (cache w1)" "database w1 = database w"
    unfolding safe_outcome_def by (blast, blast, simp add: auth_frame_def)
  from Suc.prems(1) step have rest: "(case r1 of Inl err \<Rightarrow> if err = ConcurrentChange then resolve_loop n u e else failM err
      | Inr res \<Rightarrow> returnM res) E w1 = (r, w')" by (auto simp: bindM_def attemptM_def)
  show ?case
  proof (cases "r1 = Inl ConcurrentChange")
    case True
    with rest Suc.IH [OF _ coh(2)] Suc.prems(3) coh(3) safe_outcome_later [OF coh(1)] show ?thesis by simp
  next
    case False
    with rest have "r = r1" "w' = w1" by (auto simp: run_simps split: sum.splits if_splits)
    with safe show ?thesis by simp
  qed
qed

lemmas Resolve_effect = resolve_loop_effect [of maxResolveRetry, folded Resolve_def]

section \<open>Decisions\<close>

definition authorised :: "db \<Rightarrow> int \<Rightarrow> int \<Rightarrow> string list \<Rightarrow> bool" where
  "authorised d u e required \<longleftrightarrow> (\<exists>admin env. admitted d u e admin env \<and>
     (admin \<or> set required \<subseteq> set (granted_keys u e d) - {''''}))"

definition reliable :: "engine \<Rightarrow> bool" where
  "reliable E \<longleftrightarrow> (\<forall>n. fault E n = None)"

lemma Require_effect:
  assumes "Require u e required E w = (r, w')" "perm_coherent (database w) (cache w)" "plain_catalog (database w)"
  shows "auth_frame w w' \<and> perm_coherent (database w') (cache w') \<and>
    (r = Inr () \<longrightarrow> authorised (database w) u e required)"
  using assms(1) unfolding Require_def
proof (cases rule: bindM_elim)
  case (fails err)
  with Resolve_effect [OF fails(1) assms(2,3)] show ?thesis by (simp add: safe_outcome_def)
next
  case (continues res w1)
  obtain keys admin where res: "res = (keys, admin)" by fastforce
  note safe = Resolve_effect [OF continues(1) assms(2,3), unfolded safe_outcome_def]
  from continues(2) res have "w' = w1" and ok: "r = Inr () \<Longrightarrow> admin \<or> set required \<subseteq> set keys"
    by (cases r; auto simp: run_simps list_all_iff split: if_splits)+
  then show ?thesis using safe res by (auto simp: resolved_def authorised_def normalize_props) blast+
qed

lemma queryM_reliable: "reliable E \<Longrightarrow> queryM q E w = (Inr (q E (database w)), w\<lparr>tick := Suc (tick w)\<rparr>)"
  by (simp add: queryM_def reliable_def)

lemma bindM_Inr_run: "m E w = (Inr a, w1) \<Longrightarrow> bindM m f E w = f a E w1"
  by (simp add: bindM_def)

lemma mapErrM_Inr_run: "m E w = (Inr a, w1) \<Longrightarrow> mapErrM g m E w = (Inr a, w1)"
  by (simp add: mapErrM_def)

lemma getM_reliable:
  "reliable E \<Longrightarrow> first_row (rows E (database w)) = Some r \<Longrightarrow>
   getM rows resource E w = (Inr r, w\<lparr>tick := Suc (tick w)\<rparr>)"
  by (simp add: getM_Inr reliable_def)

lemma resolver_identity_total:
  assumes "reliable E" "admitted (database w) u e admin env"
  shows "\<exists>i w1. resolver_identity u e E w = (Inr i, w1) \<and> Identity_SystemAdmin i = admin \<and>
    Identity_EnvironmentVersion i = Version env \<and> quiet w w1"
proof -
  from assms(2) obtain user where user: "caller_row (database w) u = Some user" "u_IsSystemAdmin user = admin"
    and env: "0 < e" "live_environment (database w) e = Some env" "0 \<le> Version env"
      "admin \<or> e_Enabled env \<and> is_member (database w) u e" by (auto simp: admitted_def)
  have lookup: "first_row (filter (\<lambda>x. ID x = u \<and> u_Enabled x \<and> DeletedAt x = None) (users (database w))) = Some user"
    "first_row (filter (\<lambda>x. ID x = e \<and> DeletedAt x = None) (environments (database w))) = Some env"
    "list_ex (\<lambda>m. m_UserID m = u \<and> m_EnvironmentID m = e) (members (database w)) = is_member (database w) u e"
    using user(1) env(2) by (simp_all add: caller_row_def live_environment_def is_member_def)
  have ne: "fault E n = None" for n using assms(1) by (simp add: reliable_def)
  have id: "ID env = e" using live_environment_ID [OF env(2)] by simp
  show ?thesis
    using user(2) env lookup ne id
    by (auto simp: resolver_identity_def permission_Identity_def enabledUser_def Let_def bindM_def mapErrM_def
        getM_def queryM_def requireRow_def returnM_def)
qed

lemma attemptM_run: "m E w = (r, w') \<Longrightarrow> attemptM m E w = (Inr r, w')"
  by (simp add: attemptM_def)

lemma loadPermissions_total:
  assumes "reliable E"
  shows "\<exists>keys cached w1. loadPermissions u e key E w = (Inr (keys, cached), w1)"
proof -
  obtain r w1 where get: "cacheGetM key E w = (r, w1)" by fastforce
  show ?thesis
    unfolding loadPermissions_def cachedPermissions_def KeysForUserEnvironment_def
    using get assms
    by (auto simp: bindM_def attemptM_def returnM_def mapErrM_def queryM_def reliable_def split: sum.splits option.splits)
qed

lemma cachePermissions_total: "\<exists>w1. cachePermissions key keys E w = (Inr (), w1)"
  by (auto simp: cachePermissions_def bindM_def attemptM_def returnM_def split: prod.splits)

lemma allPermissionKeys_total: "reliable E \<Longrightarrow> \<exists>keys w1. allPermissionKeys E w = (Inr keys, w1)"
  by (auto simp: allPermissionKeys_def permission_List_def bindM_def mapErrM_def queryM_def returnM_def reliable_def)

lemma confirmPermissions_total:
  assumes "reliable E" "admitted (database w) u e False env"
  shows "\<exists>w1. confirmPermissions u e (Version env) (keys, cached) E w = (Inr (keys, False), w1)"
proof -
  obtain i w1 where i: "resolver_identity u e E w = (Inr i, w1)" "\<not> Identity_SystemAdmin i"
    "Identity_EnvironmentVersion i = Version env" using resolver_identity_total [OF assms] by auto
  show ?thesis using cachePermissions_total [of "permissionContentKey u e (Version env)" keys E w1] i
    by (auto simp: confirmPermissions_def i(1) bindM_def returnM_def)
qed

lemma resolveAttempt_total:
  assumes "reliable E" "admitted (database w) u e admin env" "perm_coherent (database w) (cache w)"
    "plain_catalog (database w)"
  shows "\<exists>keys w1. resolveAttempt u e E w = (Inr (keys, admin), w1) \<and>
    (admin \<or> keys = normalize_keys (granted_keys u e (database w)))"
proof -
  obtain i w1 where i: "resolver_identity u e E w = (Inr i, w1)" "Identity_SystemAdmin i = admin"
    "Identity_EnvironmentVersion i = Version env" "quiet w w1" using resolver_identity_total [OF assms(1,2)] by blast
  have "\<exists>keys w1. resolveAttempt u e E w = (Inr (keys, admin), w1)"
  proof (cases admin)
    case True
    then show ?thesis using i allPermissionKeys_total [OF assms(1), of w1]
      by (auto simp: resolveAttempt_eq i(1) bindM_def returnM_def)
  next
    case False
    have db1: "database w1 = database w" and coh1: "perm_coherent (database w1) (cache w1)"
      using i(4) assms(3) by (simp_all add: quiet_def)
    obtain keys cached w2 where load: "loadPermissions u e (permissionContentKey u e (Version env)) E w1 = (Inr (keys, cached), w2)"
      using loadPermissions_total [OF assms(1)] by blast
    have "auth_frame w1 w2"
      using loadPermissions_effect [OF load coh1] assms(2) db1 by (simp add: admitted_def)
    then have "admitted (database w2) u e False env" using assms(2) False db1 by (simp add: auth_frame_def)
    from confirmPermissions_total [OF assms(1) this, of keys cached] i False load show ?thesis
      by (auto simp: resolveAttempt_eq bindM_def)
  qed
  then show ?thesis using resolveAttempt_effect [OF _ assms(3,4)] by (fastforce simp: safe_outcome_def resolved_def)
qed

lemma Require_total:
  assumes "reliable E" "authorised (database w) u e required" "perm_coherent (database w) (cache w)"
    "plain_catalog (database w)"
  shows "fst (Require u e required E w) = Inr ()"
proof -
  from assms(2) obtain admin env where adm: "admitted (database w) u e admin env"
    "admin \<or> set required \<subseteq> set (granted_keys u e (database w)) - {''''}" by (auto simp: authorised_def)
  from resolveAttempt_total [OF assms(1) adm(1) assms(3,4)] obtain keys w1 where
    run: "resolveAttempt u e E w = (Inr (keys, admin), w1)"
    "admin \<or> keys = normalize_keys (granted_keys u e (database w))" by blast
  have "Resolve u e E w = (Inr (keys, admin), w1)"
    by (simp add: Resolve_def maxResolveRetry_def numeral_3_eq_3 bindM_def attemptM_def run(1) returnM_def)
  then show ?thesis using adm(2) run(2)
    by (auto simp: Require_def bindM_def guardM_def liftR_def guardR_def returnM_def list_all_iff normalize_props)
qed

text \<open>
  C24. \<^verbatim>\<open>Require\<close> is sound and complete for the stored grants while the permission cache is coherent: it
  lets a caller through only if the caller is an enabled live account and is either a system
  administrator in an existing environment or a member of an enabled one whose live roles grant every
  required permission, whatever statements fail; and it does let such a caller through when no statement
  fails. It writes nothing but entries of the permission cache and keeps that cache coherent.
\<close>

theorem Require_authorises:
  assumes "perm_coherent (database w) (cache w)" "plain_catalog (database w)"
    "Require u e required E w = (r, w')"
  shows "(r = Inr () \<longrightarrow> authorised (database w) u e required) \<and>
    (reliable E \<and> authorised (database w) u e required \<longrightarrow> r = Inr ()) \<and>
    auth_frame w w' \<and> perm_coherent (database w') (cache w')"
  using Require_effect [OF assms(3,1,2)] Require_total [of E w u e required] assms by auto

theorem Require_authorises_witness:
  "fst (Require 7 1 [''config:write'', ''snapshot:publish''] example_engine example_world) = Inr () \<and>
   fst (Require 7 1 [''system:user:manage''] example_engine example_world) \<noteq> Inr ()"
proof -
  have coh: "perm_coherent (database example_world) (cache example_world)"
    by (simp add: perm_coherent_def example_world_def newMemory_def memory_holds_def)
  have plain: "plain_catalog (database example_world)" by code_simp
  have "fst (Require 7 1 [''config:write'', ''snapshot:publish''] example_engine example_world) = Inr ()"
    by code_simp
  moreover have "''system:user:manage'' \<notin> set (granted_keys 7 1 (database example_world))" by code_simp
  moreover have "map_option u_IsSystemAdmin (caller_row (database example_world) 7) = Some False" by code_simp
  ultimately show ?thesis
    using Require_authorises [OF coh plain, of 7 1 "[''system:user:manage'']" example_engine]
    by (auto simp: authorised_def admitted_def prod_eq_iff)
qed

text \<open>
  Permission sets are canonical: the result is sorted, without duplicates and without the empty key,
  holds exactly the other given keys, and survives the encoding used for the cache; the cache key of a
  permission set determines the user, the environment and the generation.
\<close>

lemma normalize_keys_canonical:
  "sorted (normalize_keys keys) \<and> distinct (normalize_keys keys) \<and>
   set (normalize_keys keys) = set keys - {''''} \<and>
   (list_all (list_all plain_char) keys \<longrightarrow>
      decodePermissions (encodePermissions (normalize_keys keys)) = Inr (normalize_keys keys)) \<and>
   (permissionContentKey u e v = permissionContentKey u' e' v' \<longleftrightarrow> u = u' \<and> e = e' \<and> v = v')"
proof -
  have "list_all (list_all plain_char) (normalize_keys keys)" if "list_all (list_all plain_char) keys"
    using that by (auto simp: list_all_iff normalize_props)
  moreover have "normalize_keys (normalize_keys keys) = normalize_keys keys"
    by (rule normalize_cong) (simp add: normalize_props)
  ultimately show ?thesis using decode_encodePermissions by (simp add: normalize_props)
qed

end
