(* ===== verification/Codec.thy ===== *)
theory Codec
  imports Schema_Spec Database
begin

text \<open>
  Encoding and decoding: snapshot content (\<^verbatim>\<open>server/internal/entity/snapshot.go\<close>), the JSON columns and the
  conversion of rows to API messages (\<^verbatim>\<open>server/internal/converter\<close>), and timestamps
  (\<^verbatim>\<open>server/internal/util/timeutil\<close>). The protobuf JSON codec is a third-party library and enters as the
  record \<open>codec\<close>; \<^verbatim>\<open>encoding/json\<close> on raw messages is modelled on the text.
\<close>

section \<open>Timestamps\<close>

definition pad :: "nat \<Rightarrow> int \<Rightarrow> string" where
  "pad n i = (let ds = decimal i in replicate (n - length ds) (CHR ''0'') @ ds)"

definition leap :: "int \<Rightarrow> bool" where
  "leap y \<longleftrightarrow> y mod 4 = 0 \<and> (y mod 100 \<noteq> 0 \<or> y mod 400 = 0)"

definition month_lengths :: "int \<Rightarrow> int list" where
  "month_lengths y = [31, if leap y then 29 else 28, 31, 30, 31, 30, 31, 31, 30, 31, 30, 31]"

fun split_month :: "int \<Rightarrow> int list \<Rightarrow> int \<Rightarrow> int \<times> int" where
  "split_month m [] d = (m, d + 1)"
| "split_month m (l # ls) d = (if d < l then (m, d + 1) else split_month (m + 1) ls (d - l))"

text \<open>The civil date of a number of days since 1 January of year 1.\<close>

definition civil :: "int \<Rightarrow> int \<times> int \<times> int" where
  "civil days =
     (let n400 = days div 146097; r = days mod 146097;
          n100 = min 3 (r div 36524); r = r - n100 * 36524;
          n4 = r div 1461; r = r mod 1461;
          n1 = min 3 (r div 365); r = r - n1 * 365;
          y = 400 * n400 + 100 * n100 + 4 * n4 + n1 + 1;
          (m, d) = split_month 1 (month_lengths y) r
      in (y, m, d))"

definition fraction :: "int \<Rightarrow> string" where
  "fraction ns = (if ns = 0 then '''' else ''.'' @ rev (dropWhile (\<lambda>c. c = CHR ''0'') (rev (pad 9 ns))))"

definition FormatRFC3339 :: "int \<Rightarrow> string" where
  "FormatRFC3339 t =
     (if t = 0 then ''''
      else let secs = t div 1000000000; ns = t mod 1000000000; sod = secs mod 86400;
               (y, m, d) = civil (secs div 86400)
           in pad 4 y @ ''-'' @ pad 2 m @ ''-'' @ pad 2 d @ ''T'' @ pad 2 (sod div 3600) @ '':'' @
              pad 2 (sod mod 3600 div 60) @ '':'' @ pad 2 (sod mod 60) @ fraction ns @ ''Z'')"

section \<open>Raw JSON messages\<close>

text \<open>The text of the next value, without surrounding white space, and the rest.\<close>

definition raw_value :: "int \<Rightarrow> string \<Rightarrow> (string \<times> string) option" where
  "raw_value d s = (case parse_value d s of
       None \<Rightarrow> None
     | Some (v, r) \<Rightarrow> let t = skip_ws s in Some (take (length t - length r) t, r))"

function raw_items :: "int \<Rightarrow> string \<Rightarrow> (string list \<times> string) option" where
  "raw_items d s = (case raw_value d s of
       None \<Rightarrow> None
     | Some (v, r) \<Rightarrow>
         (case skip_ws r of
            [] \<Rightarrow> None
          | c # r' \<Rightarrow>
              if c = CHR '']'' then Some ([v], r')
              else if c = CHR '','' \<and> length r' < length s
              then map_option (\<lambda>(vs, q). (v # vs, q)) (raw_items d r') else None))"
  by pat_completeness auto
termination by (relation "measure (\<lambda>(d, s). length s)") auto

function raw_members :: "int \<Rightarrow> string \<Rightarrow> ((string \<times> string) list \<times> string) option" where
  "raw_members d s = (case skip_ws s of
       [] \<Rightarrow> None
     | q # s1 \<Rightarrow>
         if q \<noteq> quote_char then None
         else case parse_string s1 of
           None \<Rightarrow> None
         | Some (k, s2) \<Rightarrow>
             (case skip_ws s2 of
                [] \<Rightarrow> None
              | c # s3 \<Rightarrow>
                  if c \<noteq> CHR '':'' then None
                  else case raw_value d s3 of
                    None \<Rightarrow> None
                  | Some (v, r) \<Rightarrow>
                      (case skip_ws r of
                         [] \<Rightarrow> None
                       | e # r' \<Rightarrow>
                           if e = CHR ''}'' then Some ([(k, v)], r')
                           else if e = CHR '','' \<and> length r' < length s
                           then map_option (\<lambda>(ms, z). ((k, v) # ms, z)) (raw_members d r') else None)))"
  by pat_completeness auto
termination by (relation "measure (\<lambda>(d, s). length s)") auto

declare raw_items.simps [simp del] raw_members.simps [simp del]

text \<open>\<^verbatim>\<open>json.Compact\<close> with HTML escapes, as \<^verbatim>\<open>json.Marshal\<close> applies it to a raw message.\<close>

fun compact :: "bool \<Rightarrow> bool \<Rightarrow> string \<Rightarrow> string" where
  "compact inside escaped [] = []"
| "compact inside escaped (c # s) =
     (if byte c = 60 \<or> byte c = 62 \<or> byte c = 38 then hex4 (byte c) @ compact inside False s
      else if byte c = 226 \<and> length s \<ge> 2 \<and> byte (hd s) = 128 \<and> (byte (s ! 1) = 168 \<or> byte (s ! 1) = 169)
      then hex4 (8232 + byte (s ! 1) - 168) @ compact inside False (drop 2 s)
      else if inside then
        c # compact (if escaped then True else c \<noteq> quote_char) (\<not> escaped \<and> c = backslash) s
      else if json_space c then compact False False s
      else c # compact (c = quote_char) False s)"

text \<open>The name matching of \<^verbatim>\<open>encoding/json\<close>: exact, then up to case folding.\<close>

definition fold_rune :: "int \<times> string \<Rightarrow> string" where
  "fold_rune p = (case p of (r, bytes) \<Rightarrow>
     if between 97 122 r then [char_of (r - 32)]
     else if r = 383 then ''S'' else if r = 8490 then ''K'' else bytes)"

definition fold_name :: "string \<Rightarrow> string" where
  "fold_name s = concat (map fold_rune (runes s))"

definition same_name :: "string \<Rightarrow> string \<Rightarrow> bool" where
  "same_name field_name key \<longleftrightarrow> key = field_name \<or> fold_name key = fold_name field_name"

section \<open>The protobuf codec\<close>

record codec =
  marshal_field_type :: "field_type \<Rightarrow> string result"
  unmarshal_field_type :: "string \<Rightarrow> field_type result"
  marshal_field :: "Field \<Rightarrow> string result"
  unmarshal_field :: "string \<Rightarrow> Field result"
  marshal_config :: "Config \<Rightarrow> string result"
  unmarshal_config :: "string \<Rightarrow> Config result"
  marshal_structure :: "Structure \<Rightarrow> string result"
  unmarshal_structure :: "string \<Rightarrow> Structure result"
  marshal_enum :: "ConfigEnum \<Rightarrow> string result"
  unmarshal_enum :: "string \<Rightarrow> ConfigEnum result"
  marshal_tree :: "tree_node \<Rightarrow> string result"
  unmarshal_tree :: "string \<Rightarrow> tree_node result"

section \<open>Snapshot content\<close>

record ConfigSnapshot =
  Snapshot_Config :: "Config option"
  Snapshot_Structures :: "Structure option list"
  Snapshot_Enums :: "ConfigEnum option list"
  Snapshot_Tree :: "tree_node option"

record configSnapshotJSON =
  wire_config :: string
  wire_structures :: "string list"
  wire_enums :: "string list"
  wire_tree :: string

definition marshalProto :: "('m \<Rightarrow> string result) \<Rightarrow> 'm option \<Rightarrow> string result" where
  "marshalProto marshal m =
     (case m of None \<Rightarrow> Inl (Invalid ''snapshot contains a nil message'') | Some x \<Rightarrow> marshal x)"

definition unmarshalProto :: "(string \<Rightarrow> 'm result) \<Rightarrow> string \<Rightarrow> 'm result" where
  "unmarshalProto unmarshal encoded =
     (if encoded = [] \<or> encoded = ''null'' then Inl (Invalid ''snapshot content is incomplete'') else unmarshal encoded)"

definition raw_json :: "string \<Rightarrow> string" where
  "raw_json m = (if m = [] then ''null'' else compact False False m)"

definition key_json :: "string \<Rightarrow> string" where
  "key_json k = [quote_char] @ k @ [quote_char] @ '':''"

definition wire_json :: "configSnapshotJSON \<Rightarrow> string" where
  "wire_json wire =
     ''{'' @ key_json ''config'' @ raw_json (wire_config wire) @
     '','' @ key_json ''structures'' @ ''['' @ join '','' (map raw_json (wire_structures wire)) @ '']'' @
     '','' @ key_json ''enums'' @ ''['' @ join '','' (map raw_json (wire_enums wire)) @ '']'' @
     '','' @ key_json ''tree'' @ raw_json (wire_tree wire) @ ''}''"

definition EncodeConfigSnapshot :: "codec \<Rightarrow> ConfigSnapshot option \<Rightarrow> string result" where
  "EncodeConfigSnapshot K content =
     (case content of
        None \<Rightarrow> Inl (Invalid ''snapshot content is incomplete'')
      | Some v \<Rightarrow>
          if Snapshot_Config v = None \<or> Snapshot_Tree v = None then Inl (Invalid ''snapshot content is incomplete'')
          else bindR (marshalProto (marshal_config K) (Snapshot_Config v)) (\<lambda>c.
               bindR (marshalProto (marshal_tree K) (Snapshot_Tree v)) (\<lambda>t.
               bindR (forR (marshalProto (marshal_structure K)) (Snapshot_Structures v)) (\<lambda>ss.
               bindR (forR (marshalProto (marshal_enum K)) (Snapshot_Enums v)) (\<lambda>es.
               Inr (wire_json \<lparr>wire_config = c, wire_structures = ss, wire_enums = es, wire_tree = t\<rparr>))))))"

text \<open>A member of type \<^verbatim>\<open>[]json.RawMessage\<close>.\<close>

definition raw_list :: "string \<Rightarrow> string list result" where
  "raw_list t =
     (if t = ''null'' then Inr []
      else case strip_prefix ''['' t of
        None \<Rightarrow> Inl (OtherError ''decode snapshot content'')
      | Some body \<Rightarrow>
          (case strip_prefix '']'' (skip_ws body) of
             Some _ \<Rightarrow> Inr []
           | None \<Rightarrow> (case raw_items 2 body of None \<Rightarrow> Inl (OtherError ''decode snapshot content'') | Some (vs, _) \<Rightarrow> Inr vs)))"

fun wire_fields :: "configSnapshotJSON \<Rightarrow> (string \<times> string) list \<Rightarrow> configSnapshotJSON result" where
  "wire_fields wire [] = Inr wire"
| "wire_fields wire ((k, t) # ms) =
     (if same_name ''config'' k then wire_fields (wire\<lparr>wire_config := t\<rparr>) ms
      else if same_name ''structures'' k then bindR (raw_list t) (\<lambda>ss. wire_fields (wire\<lparr>wire_structures := ss\<rparr>) ms)
      else if same_name ''enums'' k then bindR (raw_list t) (\<lambda>es. wire_fields (wire\<lparr>wire_enums := es\<rparr>) ms)
      else if same_name ''tree'' k then wire_fields (wire\<lparr>wire_tree := t\<rparr>) ms
      else Inl (OtherError ''decode snapshot content''))"

definition decode_wire :: "string \<Rightarrow> (configSnapshotJSON \<times> string) result" where
  "decode_wire content =
     (let empty = \<lparr>wire_config = '''', wire_structures = [], wire_enums = [], wire_tree = ''''\<rparr> in
      case parse_value 0 content of
        None \<Rightarrow> Inl (OtherError ''decode snapshot content'')
      | Some (JNull, rest) \<Rightarrow> Inr (empty, rest)
      | Some (JObject ms, rest) \<Rightarrow>
          (case strip_prefix ''{'' (skip_ws content) of
             None \<Rightarrow> Inl (OtherError ''decode snapshot content'')
           | Some body \<Rightarrow>
               if ms = [] then Inr (empty, rest)
               else (case raw_members 1 body of
                       None \<Rightarrow> Inl (OtherError ''decode snapshot content'')
                     | Some (raws, _) \<Rightarrow> bindR (wire_fields empty raws) (\<lambda>wire. Inr (wire, rest))))
      | Some (_, rest) \<Rightarrow> Inl (OtherError ''decode snapshot content''))"

text \<open>A second \<^verbatim>\<open>Decode\<close>, into a struct without fields, must report the end of the input.\<close>

definition require_end :: "string \<Rightarrow> unit result" where
  "require_end rest =
     (if skip_ws rest = [] then Inr ()
      else case parse_value 0 rest of
        Some (JNull, _) \<Rightarrow> Inl (Invalid ''snapshot content contains trailing JSON'')
      | Some (JObject [], _) \<Rightarrow> Inl (Invalid ''snapshot content contains trailing JSON'')
      | _ \<Rightarrow> Inl (OtherError ''decode snapshot content''))"

definition DecodeConfigSnapshot :: "codec \<Rightarrow> string \<Rightarrow> ConfigSnapshot result" where
  "DecodeConfigSnapshot K content =
     bindR (decode_wire content) (\<lambda>(wire, rest).
     bindR (require_end rest) (\<lambda>_.
     bindR (unmarshalProto (unmarshal_config K) (wire_config wire)) (\<lambda>c.
     bindR (unmarshalProto (unmarshal_tree K) (wire_tree wire)) (\<lambda>t.
     bindR (forR (unmarshalProto (unmarshal_structure K)) (wire_structures wire)) (\<lambda>ss.
     bindR (forR (unmarshalProto (unmarshal_enum K)) (wire_enums wire)) (\<lambda>es.
     Inr \<lparr>Snapshot_Config = Some c, Snapshot_Structures = map Some ss, Snapshot_Enums = map Some es,
          Snapshot_Tree = Some t\<rparr>))))))"

section \<open>JSON columns\<close>

definition EncodeFieldType :: "codec \<Rightarrow> field_type option \<Rightarrow> string result" where
  "EncodeFieldType K t = (case t of None \<Rightarrow> Inl (OtherError ''field type is nil'') | Some x \<Rightarrow> marshal_field_type K x)"

definition DecodeFieldType :: "codec \<Rightarrow> string \<Rightarrow> field_type result" where
  "DecodeFieldType K = unmarshal_field_type K"

definition EncodeFields :: "codec \<Rightarrow> Field option list \<Rightarrow> string result" where
  "EncodeFields K flds =
     bindR (forR (\<lambda>f. case f of None \<Rightarrow> Inl (OtherError ''encode fields: nil field'') | Some x \<Rightarrow> marshal_field K x) flds)
       (\<lambda>raws. Inr (''['' @ join '','' (map raw_json raws) @ '']''))"

text \<open>\<^verbatim>\<open>json.Unmarshal\<close> into a list of raw messages; the whole text must be one value.\<close>

definition unmarshal_raw_list :: "string \<Rightarrow> string list result" where
  "unmarshal_raw_list t =
     (case parse_value 0 t of
        None \<Rightarrow> Inl (OtherError ''decode fields'')
      | Some (_, rest) \<Rightarrow>
          if skip_ws rest \<noteq> [] then Inl (OtherError ''decode fields'')
          else case raw_value 0 t of None \<Rightarrow> Inl (OtherError ''decode fields'') | Some (v, _) \<Rightarrow> raw_list v)"

definition DecodeFields :: "codec \<Rightarrow> string \<Rightarrow> Field option list result" where
  "DecodeFields K t =
     bindR (unmarshal_raw_list t) (\<lambda>raws. bindR (forR (unmarshal_field K) raws) (\<lambda>fs. Inr (map Some fs)))"

text \<open>\<^verbatim>\<open>encoding/json\<close> on the generated option struct: three string members, omitted when empty.\<close>

definition option_member :: "string \<Rightarrow> string \<Rightarrow> (string \<times> json) list" where
  "option_member k v = (if v = '''' then [] else [(k, JString v)])"

fun ordered_object :: "(string \<times> json) list \<Rightarrow> string" where
  "ordered_object ms = ''{'' @ join '','' (map (\<lambda>(k, v). marshal_string k @ '':'' @ Marshal v) ms) @ ''}''"

definition option_json :: "SelectOption option \<Rightarrow> string" where
  "option_json opt = (case opt of
       None \<Rightarrow> ''null''
     | Some v \<Rightarrow> ordered_object (option_member ''label'' (Option_Label v) @ option_member ''value'' (Option_Value v) @
                   option_member ''description'' (Option_Description v)))"

definition EncodeOptions :: "SelectOption option list \<Rightarrow> string result" where
  "EncodeOptions opts =
     Inr (if opts = [] then ''null'' else ''['' @ join '','' (map option_json opts) @ '']'')"

fun decode_option_members :: "SelectOption \<Rightarrow> (string \<times> json) list \<Rightarrow> SelectOption result" where
  "decode_option_members opt [] = Inr opt"
| "decode_option_members opt ((k, v) # ms) =
     (if \<not> same_name ''label'' k \<and> \<not> same_name ''value'' k \<and> \<not> same_name ''description'' k
      then decode_option_members opt ms
      else case v of
        JNull \<Rightarrow> decode_option_members opt ms
      | JString s \<Rightarrow>
          decode_option_members
            (if same_name ''label'' k then opt\<lparr>Option_Label := s\<rparr>
             else if same_name ''value'' k then opt\<lparr>Option_Value := s\<rparr>
             else opt\<lparr>Option_Description := s\<rparr>) ms
      | _ \<Rightarrow> Inl (OtherError ''decode enum values''))"

definition decode_option :: "json \<Rightarrow> SelectOption option result" where
  "decode_option v = (case v of
       JNull \<Rightarrow> Inr None
     | JObject ms \<Rightarrow>
         bindR (decode_option_members \<lparr>Option_Label = '''', Option_Value = '''', Option_Description = ''''\<rparr> (rev ms))
           (\<lambda>opt. Inr (Some opt))
     | _ \<Rightarrow> Inl (OtherError ''decode enum values''))"

definition DecodeOptions :: "string \<Rightarrow> SelectOption option list result" where
  "DecodeOptions t =
     (case parse_value 0 t of
        None \<Rightarrow> Inl (OtherError ''decode enum values'')
      | Some (v, rest) \<Rightarrow>
          if skip_ws rest \<noteq> [] then Inl (OtherError ''decode enum values'')
          else case v of
            JNull \<Rightarrow> Inr []
          | JArray vs \<Rightarrow> forR decode_option vs
          | _ \<Rightarrow> Inl (OtherError ''decode enum values''))"

definition EncodeTags :: "int list \<Rightarrow> string result" where
  "EncodeTags tags = Inr (if tags = [] then ''null'' else ''['' @ join '','' (map FormatInt tags) @ '']'')"

section \<open>Rows to messages\<close>

definition validMeta :: "int \<Rightarrow> int \<Rightarrow> int result" where
  "validMeta recordID recordVersion =
     (if recordID \<le> 0 then Inl (OtherError ''invalid database record'')
      else case Uint32FromInt64 (word_of_int recordVersion) of
             Inl _ \<Rightarrow> Inl (OtherError ''invalid database record'')
           | Inr v \<Rightarrow> Inr (uint v))"

definition formatActor :: "int \<Rightarrow> string" where
  "formatActor i = (if i \<le> 0 then '''' else FormatInt i)"

definition row_meta :: "'a meta_scheme \<Rightarrow> int \<Rightarrow> proto_meta" where
  "row_meta r version = \<lparr>Meta_CreatedBy = formatActor (CreatedBy r), Meta_UpdatedBy = formatActor (UpdatedBy r),
     Meta_CreatedAt = FormatRFC3339 (CreatedAt r), Meta_UpdatedAt = FormatRFC3339 (UpdatedAt r),
     Meta_Version = version\<rparr>"

definition ConfigToProto :: "codec \<Rightarrow> config_row \<Rightarrow> Config result" where
  "ConfigToProto K item =
     bindR (validMeta (ID item) (Version item)) (\<lambda>version.
     bindR (DecodeFieldType K (c_TypeJSON item)) (\<lambda>fieldType.
     case Uint64FromInt64 (word_of_int (c_RuntimeVersion item)) of
       Inl _ \<Rightarrow> Inl (OtherError ''invalid config runtime version'')
     | Inr runtimeVersion \<Rightarrow>
         Inr \<lparr>Config_Id = ID item, Config_ProjectId = c_ProjectID item, Config_Key = c_Key item,
              Config_Description = c_Description item, Config_IsArray = c_IsArray item,
              Config_Type = Some fieldType, Config_Value = c_Value item,
              Config_RuntimeVersion = uint runtimeVersion, Config_Meta = row_meta item version\<rparr>))"

definition StructureToProto :: "codec \<Rightarrow> child_row \<Rightarrow> Structure result" where
  "StructureToProto K item =
     bindR (validMeta (ID item) (Version item)) (\<lambda>version.
     bindR (DecodeFields K (d_JSON item)) (\<lambda>flds.
     Inr \<lparr>Structure_Id = ID item, Structure_ConfigId = d_ConfigID item, Structure_Key = d_Key item,
          Structure_Name = d_Name item, Structure_Description = d_Description item,
          Structure_Fields = flds, Structure_Meta = row_meta item version\<rparr>))"

definition StructuresToProto :: "codec \<Rightarrow> child_row list \<Rightarrow> Structure option list result" where
  "StructuresToProto K items = bindR (forR (StructureToProto K) items) (\<lambda>ss. Inr (map Some ss))"

definition EnumToProto :: "child_row \<Rightarrow> ConfigEnum result" where
  "EnumToProto item =
     bindR (validMeta (ID item) (Version item)) (\<lambda>version.
     bindR (DecodeOptions (d_JSON item)) (\<lambda>values.
     Inr \<lparr>Enum_Id = ID item, Enum_ConfigId = d_ConfigID item, Enum_Key = d_Key item,
          Enum_Name = d_Name item, Enum_Description = d_Description item,
          Enum_Values = values, Enum_Meta = row_meta item version\<rparr>))"

definition EnumsToProto :: "child_row list \<Rightarrow> ConfigEnum option list result" where
  "EnumsToProto items = bindR (forR EnumToProto items) (\<lambda>es. Inr (map Some es))"

end
