(* ===== verification/Repo_Child.thy ===== *)
theory Repo_Child
  imports Repo_Config
begin

text \<open>
  The repositories of structures and enums (\<^verbatim>\<open>server/internal/repository/structure.go\<close>, \<^verbatim>\<open>config_enum.go\<close>).
  The two files are the same program over two tables; each operation is written once over a table
  \<open>child_table\<close> and instantiated for both, with the resource names the files use in their errors.
\<close>

section \<open>One program for two tables\<close>

record child_table =
  ct_name :: table_name
  ct_rows :: "db \<Rightarrow> child_row list"
  ct_update :: "(child_row list \<Rightarrow> child_row list) \<Rightarrow> db \<Rightarrow> db"
  ct_resource :: string

definition structures_table :: child_table where
  "structures_table = \<lparr>ct_name = StructuresTable, ct_rows = structure_rows, ct_update = structure_rows_update,
     ct_resource = ''structure''\<rparr>"

definition enums_table :: child_table where
  "enums_table = \<lparr>ct_name = EnumsTable, ct_rows = enum_rows, ct_update = enum_rows_update,
     ct_resource = ''config enum''\<rparr>"

record ChildFilter =
  CFilter_ProjectID :: int
  CFilter_ConfigID :: int
  CFilter_IgnoreDependencyID :: "int option"

record ChildUpdate =
  CUpdate_Key :: string
  CUpdate_Name :: string
  CUpdate_Description :: string
  CUpdate_JSON :: string
  CUpdate_UpdatedBy :: int
  CUpdate_Version :: int

definition child_clash :: "engine \<Rightarrow> child_row \<Rightarrow> child_row \<Rightarrow> bool" where
  "child_clash E r row \<longleftrightarrow> d_ConfigID r = d_ConfigID row \<and> same_text E (d_Key r) (d_Key row)"

definition insertChild :: "child_table \<Rightarrow> child_row \<Rightarrow> child_row M" where
  "insertChild T = insertM (ct_name T) (ct_rows T) (ct_update T) child_clash (\<lambda>i row. row\<lparr>ID := i\<rparr>)"

text \<open>
  An update of one row that may also change its key; the unique key is checked against the other rows.
\<close>

definition updateChild :: "child_table \<Rightarrow> (child_row \<Rightarrow> bool) \<Rightarrow> (child_row \<Rightarrow> child_row) \<Rightarrow> nat M" where
  "updateChild T cond f =
     execM (\<lambda>E d.
       if list_ex (\<lambda>r. cond r \<and> list_ex (\<lambda>o'. ID o' \<noteq> ID r \<and> child_clash E o' (f r)) (ct_rows T d)) (ct_rows T d)
       then (Inl DuplicateKeyError, d)
       else (Inr (matching cond (ct_rows T d)), ct_update T (update_rows cond f) d))"

definition child_restore :: "child_table \<Rightarrow> child_row \<Rightarrow> child_row \<Rightarrow> child_row M" where
  "child_restore T existing item =
     (if DeletedAt existing = None then failM (KeyConflict (ct_resource T))
      else bindM nowM (\<lambda>now.
           bindM (mapErrM (classifyKeyWriteError (ct_resource T))
             (updateM (ct_rows T) (ct_update T) (\<lambda>r. ID r = ID existing)
               (\<lambda>r. r\<lparr>d_Name := d_Name item, d_Description := d_Description item, d_JSON := d_JSON item,
                      CreatedBy := CreatedBy item, UpdatedBy := UpdatedBy item, CreatedAt := now, UpdatedAt := now,
                      Version := Version existing + 1, DeletedAt := None\<rparr>))) (\<lambda>affected.
           bindM (requireAffected (ct_resource T) affected) (\<lambda>_.
           returnM (item\<lparr>ID := ID existing, Version := Version existing + 1, CreatedAt := now, UpdatedAt := now\<rparr>)))))"

definition child_Create :: "child_table \<Rightarrow> int \<Rightarrow> int \<Rightarrow> child_row \<Rightarrow> child_row M" where
  "child_Create T environmentID configID item =
     (let item = item\<lparr>d_ConfigID := configID\<rparr> in
      bindM (lockScopedConfig environmentID configID) (\<lambda>_.
      bindM (mapErrM WrapDatabaseError (queryM (\<lambda>E d.
         first_row (filter (\<lambda>r. d_ConfigID r = configID \<and> same_text E (d_Key r) (d_Key item)) (ct_rows T d))))) (\<lambda>existing.
        case existing of
          Some e \<Rightarrow> child_restore T e item
        | None \<Rightarrow>
            bindM (PrepareInsert item) (\<lambda>item.
              mapErrM (classifyKeyWriteError (ct_resource T)) (insertChild T item)))))"

definition child_FindByID :: "child_table \<Rightarrow> int \<Rightarrow> int \<Rightarrow> child_row M" where
  "child_FindByID T environmentID itemID =
     getM (\<lambda>E. childScopeIncludingDeleted (ct_rows T) (\<lambda>s c p e.
       DeletedAt s = None \<and> ID e = environmentID \<and> ID s = itemID)) (ct_resource T)"

definition child_List :: "child_table \<Rightarrow> int \<Rightarrow> ChildFilter \<Rightarrow> PageRequest \<Rightarrow> child_row PageResult M" where
  "child_List T environmentID flt page =
     paginate (\<lambda>E d. sort_key ID (childScopeIncludingDeleted (ct_rows T) (\<lambda>s c p e.
       DeletedAt s = None \<and> ID e = environmentID \<and> ID p = CFilter_ProjectID flt \<and> ID c = CFilter_ConfigID flt \<and>
       neqIf (CFilter_IgnoreDependencyID flt) (ID s)) d)) page"

definition child_ListForConfig :: "child_table \<Rightarrow> int \<Rightarrow> int \<Rightarrow> child_row list M" where
  "child_ListForConfig T environmentID configID =
     bindM (mapErrM WrapDatabaseError (queryM (\<lambda>E d.
       sort_key ID (childScopeIncludingDeleted (ct_rows T) (\<lambda>s c p e. ID e = environmentID \<and> ID c = configID) d))))
       (\<lambda>rows. returnM (filter (\<lambda>r. DeletedAt r = None) rows))"

definition child_Update :: "child_table \<Rightarrow> int \<Rightarrow> int \<Rightarrow> ChildUpdate \<Rightarrow> unit M" where
  "child_Update T environmentID itemID update =
     bindM (child_FindByID T environmentID itemID) (\<lambda>_.
     bindM nowM (\<lambda>now.
     bindM (mapErrM (classifyKeyWriteError (ct_resource T))
       (updateChild T (\<lambda>r. ID r = itemID \<and> DeletedAt r = None \<and> Version r = CUpdate_Version update)
         (\<lambda>r. r\<lparr>d_Key := CUpdate_Key update, d_Name := CUpdate_Name update, d_Description := CUpdate_Description update,
                d_JSON := CUpdate_JSON update, UpdatedBy := CUpdate_UpdatedBy update, UpdatedAt := now,
                Version := CUpdate_Version update + 1\<rparr>))) (\<lambda>affected.
     requireAffected (ct_resource T) affected)))"

definition child_Delete :: "child_table \<Rightarrow> int \<Rightarrow> int \<Rightarrow> int \<Rightarrow> unit M" where
  "child_Delete T environmentID itemID updatedBy =
     bindM (child_FindByID T environmentID itemID) (\<lambda>_.
     bindM nowM (\<lambda>now.
     bindM (mapErrM WrapDatabaseError
       (updateM (ct_rows T) (ct_update T) (\<lambda>r. ID r = itemID \<and> DeletedAt r = None)
         (\<lambda>r. r\<lparr>DeletedAt := Some now, UpdatedBy := updatedBy, UpdatedAt := now, Version := Version r + 1\<rparr>))) (\<lambda>affected.
     requireAffected (ct_resource T) affected)))"

definition reconcileItem :: "child_table \<Rightarrow> child_row option \<Rightarrow> child_row \<Rightarrow> child_row M" where
  "reconcileItem T current item =
     (case current of
        None \<Rightarrow>
          bindM (PrepareInsert (item\<lparr>ID := 0, CreatedBy := UpdatedBy item\<rparr>)) (\<lambda>item.
            mapErrM (classifyKeyWriteError (ct_resource T)) (insertChild T item))
      | Some cur \<Rightarrow>
          bindM nowM (\<lambda>now.
          bindM (mapErrM WrapDatabaseError
            (updateM (ct_rows T) (ct_update T) (\<lambda>r. ID r = ID cur \<and> d_ConfigID r = d_ConfigID item)
              (\<lambda>r. r\<lparr>d_Name := d_Name item, d_Description := d_Description item, d_JSON := d_JSON item,
                     DeletedAt := None, UpdatedBy := UpdatedBy item, UpdatedAt := now, Version := Version cur + 1\<rparr>))) (\<lambda>affected.
          bindM (requireAffected (ct_resource T) affected) (\<lambda>_.
          returnM (item\<lparr>ID := ID cur, Version := Version cur + 1\<rparr>)))))"

definition removeObsoleteItem :: "child_table \<Rightarrow> child_row \<Rightarrow> int \<Rightarrow> unit M" where
  "removeObsoleteItem T current actorID =
     bindM nowM (\<lambda>now.
     bindM (mapErrM WrapDatabaseError
       (updateM (ct_rows T) (ct_update T)
         (\<lambda>r. ID r = ID current \<and> DeletedAt r = None \<and> d_ConfigID r = d_ConfigID current)
         (\<lambda>r. r\<lparr>DeletedAt := Some now, UpdatedBy := actorID, UpdatedAt := now, Version := Version current + 1\<rparr>))) (\<lambda>affected.
     requireAffected (ct_resource T) affected))"

definition removeObsolete :: "child_table \<Rightarrow> child_row list \<Rightarrow> string list \<Rightarrow> int \<Rightarrow> unit M" where
  "removeObsolete T existing desired actorID =
     bindM (forM (\<lambda>current. if d_Key current \<in> set desired \<or> DeletedAt current \<noteq> None then returnM ()
                            else removeObsoleteItem T current actorID) existing) (\<lambda>_. returnM ())"

definition child_Reconcile :: "child_table \<Rightarrow> int \<Rightarrow> int \<Rightarrow> child_row list \<Rightarrow> int \<Rightarrow> child_row list M" where
  "child_Reconcile T environmentID configID items actorID =
     bindM (lockScopedConfig environmentID configID) (\<lambda>_.
     bindM (mapErrM WrapDatabaseError (queryM (\<lambda>E d.
        sort_key ID (filter (\<lambda>r. d_ConfigID r = configID) (ct_rows T d))))) (\<lambda>existing.
       let byKey = map_of (rev (map (\<lambda>r. (d_Key r, r)) existing)) in
       bindM (forM (\<lambda>item. reconcileItem T (byKey (d_Key item)) (item\<lparr>d_ConfigID := configID, UpdatedBy := actorID\<rparr>)) items) (\<lambda>items'.
       bindM (removeObsolete T existing (map d_Key items) actorID) (\<lambda>_.
       returnM items'))))"

section \<open>Structures\<close>

definition structure_Create :: "int \<Rightarrow> int \<Rightarrow> child_row \<Rightarrow> child_row M" where
  "structure_Create = child_Create structures_table"

definition structure_restore :: "child_row \<Rightarrow> child_row \<Rightarrow> child_row M" where
  "structure_restore = child_restore structures_table"

definition structure_FindByID :: "int \<Rightarrow> int \<Rightarrow> child_row M" where
  "structure_FindByID = child_FindByID structures_table"

definition structure_List :: "int \<Rightarrow> ChildFilter \<Rightarrow> PageRequest \<Rightarrow> child_row PageResult M" where
  "structure_List = child_List structures_table"

definition structure_ListForConfig :: "int \<Rightarrow> int \<Rightarrow> child_row list M" where
  "structure_ListForConfig = child_ListForConfig structures_table"

definition structure_Update :: "int \<Rightarrow> int \<Rightarrow> ChildUpdate \<Rightarrow> unit M" where
  "structure_Update = child_Update structures_table"

definition structure_Delete :: "int \<Rightarrow> int \<Rightarrow> int \<Rightarrow> unit M" where
  "structure_Delete = child_Delete structures_table"

definition structure_Reconcile :: "int \<Rightarrow> int \<Rightarrow> child_row list \<Rightarrow> int \<Rightarrow> child_row list M" where
  "structure_Reconcile = child_Reconcile structures_table"

section \<open>Enums\<close>

definition enum_Create :: "int \<Rightarrow> int \<Rightarrow> child_row \<Rightarrow> child_row M" where
  "enum_Create = child_Create enums_table"

definition enum_restore :: "child_row \<Rightarrow> child_row \<Rightarrow> child_row M" where
  "enum_restore = child_restore enums_table"

definition enum_FindByID :: "int \<Rightarrow> int \<Rightarrow> child_row M" where
  "enum_FindByID = child_FindByID enums_table"

definition enum_List :: "int \<Rightarrow> ChildFilter \<Rightarrow> PageRequest \<Rightarrow> child_row PageResult M" where
  "enum_List environmentID flt = child_List enums_table environmentID (flt\<lparr>CFilter_IgnoreDependencyID := None\<rparr>)"

definition enum_ListForConfig :: "int \<Rightarrow> int \<Rightarrow> child_row list M" where
  "enum_ListForConfig = child_ListForConfig enums_table"

definition enum_Update :: "int \<Rightarrow> int \<Rightarrow> ChildUpdate \<Rightarrow> unit M" where
  "enum_Update = child_Update enums_table"

definition enum_Delete :: "int \<Rightarrow> int \<Rightarrow> int \<Rightarrow> unit M" where
  "enum_Delete = child_Delete enums_table"

definition enum_Reconcile :: "int \<Rightarrow> int \<Rightarrow> child_row list \<Rightarrow> int \<Rightarrow> child_row list M" where
  "enum_Reconcile = child_Reconcile enums_table"

end
