(* ===== verification/Repo_Auth.thy ===== *)
theory Repo_Auth
  imports Repo_Config
begin

text \<open>
  The repositories of project API keys, refresh tokens and import records
  (\<^verbatim>\<open>server/internal/repository/project_api_key.go\<close>, \<^verbatim>\<open>refresh_token.go\<close>, \<^verbatim>\<open>import_record.go\<close>). The columns
  \<^verbatim>\<open>public_id\<close>, \<^verbatim>\<open>token_hash\<close>, \<^verbatim>\<open>session_id\<close> and \<^verbatim>\<open>idempotency_key\<close> are compared byte by byte on both
  databases (the MySQL schema gives them a binary collation).
\<close>

section \<open>Project API keys\<close>

record APIKeyMutation =
  Mutation_EnvironmentID :: int
  Mutation_ProjectID :: int
  Mutation_KeyID :: int
  Mutation_CurrentPublicID :: string

definition insertAPIKey :: "api_key_row \<Rightarrow> api_key_row M" where
  "insertAPIKey = insertM APIKeysTable api_keys api_keys_update (\<lambda>E r row. k_PublicID r = k_PublicID row) (\<lambda>i row. row\<lparr>r_ID := i\<rparr>)"

definition apiKey_Create :: "int \<Rightarrow> int \<Rightarrow> api_key_row \<Rightarrow> api_key_row M" where
  "apiKey_Create environmentID projectID key =
     bindM (lockScopedProject environmentID projectID) (\<lambda>_.
     bindM (RecordPrepareInsert (key\<lparr>k_ProjectID := projectID\<rparr>)) (\<lambda>key.
       mapErrM (classifyKeyWriteError ''project API key'') (insertAPIKey key)))"

definition apiKey_List :: "int \<Rightarrow> int \<Rightarrow> api_key_row list M" where
  "apiKey_List environmentID projectID =
     mapErrM WrapDatabaseError (queryM (\<lambda>E d.
       rev (sort_key r_ID (apiKeyScope (\<lambda>k p e. ID e = environmentID \<and> ID p = projectID) d))))"

definition apiKey_FindByID :: "int \<Rightarrow> int \<Rightarrow> int \<Rightarrow> api_key_row M" where
  "apiKey_FindByID environmentID projectID keyID =
     getM (\<lambda>E. apiKeyScope (\<lambda>k p e. ID e = environmentID \<and> ID p = projectID \<and> r_ID k = keyID)) ''project API key''"

definition apiKey_LockByID :: "int \<Rightarrow> int \<Rightarrow> int \<Rightarrow> api_key_row M" where
  "apiKey_LockByID environmentID projectID keyID =
     getM (\<lambda>E. apiKeyScope (\<lambda>k p e. ID e = environmentID \<and> ID p = projectID \<and> r_ID k = keyID)) ''project API key''"

definition apiKeyWriteScope :: "int \<Rightarrow> int \<Rightarrow> string \<Rightarrow> db \<Rightarrow> api_key_row \<Rightarrow> bool" where
  "apiKeyWriteScope environmentID projectID publicID d k \<longleftrightarrow>
     k_ProjectID k = projectID \<and> k_PublicID k = publicID \<and> k_RevokedAt k = None \<and>
     list_ex (\<lambda>p. list_ex (\<lambda>e. e_ProjectID e = ID p \<and> ID p = projectID \<and> ID e = environmentID \<and>
       DeletedAt p = None \<and> DeletedAt e = None) (environments d)) (projects d)"

definition mutation_scope :: "APIKeyMutation \<Rightarrow> db \<Rightarrow> api_key_row \<Rightarrow> bool" where
  "mutation_scope m d k \<longleftrightarrow> r_ID k = Mutation_KeyID m \<and>
     apiKeyWriteScope (Mutation_EnvironmentID m) (Mutation_ProjectID m) (Mutation_CurrentPublicID m) d k"

definition apiKey_Rotate :: "APIKeyMutation \<Rightarrow> api_key_row \<Rightarrow> unit M" where
  "apiKey_Rotate m replacement =
     bindM (mapErrM (classifyKeyWriteError ''project API key'')
       (execM (\<lambda>E d.
         if list_ex (mutation_scope m d) (api_keys d) \<and>
            list_ex (\<lambda>k. r_ID k \<noteq> Mutation_KeyID m \<and> k_PublicID k = k_PublicID replacement) (api_keys d)
         then (Inl DuplicateKeyError, d)
         else (Inr (matching (mutation_scope m d) (api_keys d)),
               api_keys_update (update_rows (mutation_scope m d)
                 (\<lambda>k. k\<lparr>k_PublicID := k_PublicID replacement, k_SecretHash := k_SecretHash replacement,
                        k_SecretSuffix := k_SecretSuffix replacement, k_LastUsedAt := None,
                        r_UpdatedAt := r_UpdatedAt replacement\<rparr>)) d))))
       (requireAffected ''project API key rotation'')"

definition apiKey_Revoke :: "APIKeyMutation \<Rightarrow> int \<Rightarrow> unit M" where
  "apiKey_Revoke m revokedAt =
     bindM (mapErrM WrapDatabaseError
       (execM (\<lambda>E d. (Inr (matching (mutation_scope m d) (api_keys d)),
          api_keys_update (update_rows (mutation_scope m d)
            (\<lambda>k. k\<lparr>k_RevokedAt := Some revokedAt, r_UpdatedAt := revokedAt\<rparr>)) d))))
       (requireAffected ''project API key revocation'')"

definition LockRuntimeCredential :: "string \<Rightarrow> api_key_row M" where
  "LockRuntimeCredential publicID =
     getM (\<lambda>E d. filter (\<lambda>k. k_PublicID k = publicID) (api_keys d)) ''runtime API key''"

definition FindRuntimeProject :: "int \<Rightarrow> project_row M" where
  "FindRuntimeProject projectID =
     getM (\<lambda>E d. [p. p \<leftarrow> projects d, e \<leftarrow> environments d,
       e_ProjectID e = ID p \<and> e_Enabled e \<and> DeletedAt e = None \<and> ID p = projectID \<and> DeletedAt p = None]) ''runtime project''"

definition FindRuntimeConfig :: "int \<Rightarrow> string \<Rightarrow> config_row M" where
  "FindRuntimeConfig projectID configKey =
     getM (\<lambda>E d. filter (\<lambda>c. c_ProjectID c = projectID \<and> same_text E (c_Key c) configKey \<and> DeletedAt c = None)
       (configs d)) ''runtime config''"

definition FindReleasedSnapshot :: "int \<Rightarrow> int \<Rightarrow> snapshot_row M" where
  "FindReleasedSnapshot projectID configID =
     getM (\<lambda>E d. rev (sort_key ID (filter (\<lambda>s. s_ProjectID s = projectID \<and> s_ConfigID s = configID \<and>
       s_Status s = SnapshotStatusReleased \<and> DeletedAt s = None) (snapshots d)))) ''released runtime snapshot''"

definition MarkUsed :: "string \<Rightarrow> int \<Rightarrow> unit M" where
  "MarkUsed publicID usedAt =
     bindM (mapErrM WrapDatabaseError
       (updateM api_keys api_keys_update
         (\<lambda>k. k_PublicID k = publicID \<and> k_RevokedAt k = None \<and>
              (case k_LastUsedAt k of None \<Rightarrow> True | Some t \<Rightarrow> t < usedAt))
         (\<lambda>k. k\<lparr>k_LastUsedAt := Some usedAt, r_UpdatedAt := usedAt\<rparr>)))
       (\<lambda>_. returnM ())"

section \<open>Refresh tokens\<close>

definition insertRefreshToken :: "refresh_token_row \<Rightarrow> refresh_token_row M" where
  "insertRefreshToken =
     insertM RefreshTokensTable refresh_tokens refresh_tokens_update (\<lambda>E r row. t_TokenHash r = t_TokenHash row)
       (\<lambda>i row. row\<lparr>r_ID := i\<rparr>)"

definition validateNewRefreshToken :: "refresh_token_row option \<Rightarrow> unit result" where
  "validateNewRefreshToken token =
     (case token of
        None \<Rightarrow> Inl (OtherError ''invalid refresh token record'')
      | Some t \<Rightarrow>
          if t_UserID t \<le> 0 \<or> t_SessionID t = '''' \<or> length (t_TokenHash t) \<noteq> 32 \<or> t_ExpiresAt t = 0
          then Inl (OtherError ''invalid refresh token record'')
          else guardR (t_RevokedAt t \<noteq> None \<or> t_ReplacedByID t \<noteq> None)
                 (OtherError ''new refresh token is already revoked''))"

definition CreateSession :: "refresh_token_row \<Rightarrow> int \<Rightarrow> refresh_token_row M" where
  "CreateSession token loginAt =
     bindM (liftR (validateNewRefreshToken (Some token))) (\<lambda>_.
     bindM (mapErrM WrapDatabaseError
       (updateM users users_update (\<lambda>u. ID u = t_UserID token \<and> u_Enabled u \<and> DeletedAt u = None)
         (\<lambda>u. u\<lparr>u_LastLoginAt := Some loginAt, UpdatedAt := loginAt\<rparr>))) (\<lambda>affected.
     bindM (guardM (affected \<noteq> 1) UserNotFound) (\<lambda>_.
     bindM (RecordPrepareInsert token) (\<lambda>token.
     mapErrM WrapDatabaseError (insertRefreshToken token)))))"

definition lockTokenByHash :: "string \<Rightarrow> refresh_token_row option M" where
  "lockTokenByHash tokenHash =
     mapErrM WrapDatabaseError (queryM (\<lambda>E d. first_row (filter (\<lambda>t. t_TokenHash t = tokenHash) (refresh_tokens d))))"

definition revoke_session_rows :: "int \<Rightarrow> string \<Rightarrow> int \<Rightarrow> refresh_token_row list \<Rightarrow> refresh_token_row list" where
  "revoke_session_rows userID sessionID now =
     update_rows (\<lambda>t. t_UserID t = userID \<and> t_SessionID t = sessionID \<and> t_RevokedAt t = None)
       (\<lambda>t. t\<lparr>t_RevokedAt := Some now, r_UpdatedAt := now\<rparr>)"

definition revokeSession :: "int \<Rightarrow> string \<Rightarrow> int \<Rightarrow> unit M" where
  "revokeSession userID sessionID now =
     mapErrM WrapDatabaseError (execM (\<lambda>E d. (Inr (), refresh_tokens_update (revoke_session_rows userID sessionID now) d)))"

definition checkRotation :: "refresh_token_row option \<Rightarrow> int \<Rightarrow> unit M" where
  "checkRotation current now =
     (case current of
        None \<Rightarrow> failM RefreshTokenNotFound
      | Some t \<Rightarrow>
          if t_RevokedAt t = None \<and> \<not> now < t_ExpiresAt t then failM RefreshTokenExpired
          else if t_RevokedAt t = None then returnM ()
          else if t_ReplacedByID t = None then failM RefreshTokenNotFound
          else bindM (revokeSession (t_UserID t) (t_SessionID t) now) (\<lambda>_. failM RefreshTokenReplay))"

definition consumeToken :: "int \<Rightarrow> int \<Rightarrow> int \<Rightarrow> unit M" where
  "consumeToken currentID nextID now =
     bindM (mapErrM WrapDatabaseError
       (updateM refresh_tokens refresh_tokens_update (\<lambda>t. r_ID t = currentID \<and> t_RevokedAt t = None)
         (\<lambda>t. t\<lparr>t_LastUsedAt := Some now, t_RevokedAt := Some now, t_ReplacedByID := Some nextID, r_UpdatedAt := now\<rparr>)))
       (\<lambda>affected. guardM (affected \<noteq> 1) (OtherError ''refresh token changed while locked''))"

definition refresh_Rotate :: "string \<Rightarrow> refresh_token_row option \<Rightarrow> int \<Rightarrow> refresh_token_row M" where
  "refresh_Rotate tokenHash next now =
     (if length tokenHash \<noteq> 32 then failM RefreshTokenNotFound
      else case next of
        None \<Rightarrow> failM (OtherError ''invalid replacement refresh token'')
      | Some next \<Rightarrow>
          if length (t_TokenHash next) \<noteq> 32 \<or> \<not> t_ExpiresAt next > now
          then failM (OtherError ''invalid replacement refresh token'')
          else bindM (lockTokenByHash tokenHash) (\<lambda>current.
               bindM (checkRotation current now) (\<lambda>_.
               let cur = the current in
               bindM (RecordPrepareInsert (next\<lparr>t_UserID := t_UserID cur, t_SessionID := t_SessionID cur\<rparr>)) (\<lambda>next.
               bindM (mapErrM WrapDatabaseError (insertRefreshToken next)) (\<lambda>next.
               bindM (consumeToken (r_ID cur) (r_ID next) now) (\<lambda>_.
               returnM next))))))"

definition RevokeSessionByTokenHash :: "string \<Rightarrow> int \<Rightarrow> unit M" where
  "RevokeSessionByTokenHash tokenHash now =
     (if length tokenHash \<noteq> 32 then returnM ()
      else bindM (lockTokenByHash tokenHash) (\<lambda>current.
           case current of
             None \<Rightarrow> returnM ()
           | Some t \<Rightarrow> revokeSession (t_UserID t) (t_SessionID t) now))"

section \<open>Import records\<close>

definition ImportStatusPending :: string where "ImportStatusPending = ''pending''"
definition ImportStatusSucceeded :: string where "ImportStatusSucceeded = ''succeeded''"

definition WorkflowPrepareInsert :: "import_row \<Rightarrow> import_row M" where
  "WorkflowPrepareInsert m =
     bindM (insertTimes (i_CreatedAt m) (i_UpdatedAt m)) (\<lambda>(c, u).
       returnM (m\<lparr>i_CreatedAt := c, i_UpdatedAt := u, i_Version := 1\<rparr>))"

definition same_claim :: "import_row \<Rightarrow> import_row \<Rightarrow> bool" where
  "same_claim r record \<longleftrightarrow> i_UserID r = i_UserID record \<and> i_TargetEnvironmentID r = i_TargetEnvironmentID record \<and>
     i_IdempotencyKey r = i_IdempotencyKey record"

definition insertImport :: "import_row \<Rightarrow> import_row M" where
  "insertImport = insertM ImportRecordsTable import_records import_records_update (\<lambda>E. same_claim) (\<lambda>i row. row\<lparr>i_ID := i\<rparr>)"

text \<open>
  The insert on PostgreSQL is \<^verbatim>\<open>ON CONFLICT (...) DO NOTHING RETURNING *\<close>: no row is returned when the
  idempotency key is taken, any other failure is an error. Elsewhere a duplicate-key error means the same.
\<close>

definition insertPostgresClaim :: "import_row \<Rightarrow> import_row option M" where
  "insertPostgresClaim record =
     bindM (fresh_id ImportRecordsTable) (\<lambda>i.
       execM (\<lambda>E d. if list_ex (\<lambda>r. same_claim r record) (import_records d) then (Inr None, d)
                    else (Inr (Some (record\<lparr>i_ID := i\<rparr>)),
                          import_records_update (\<lambda>rows. rows @ [record\<lparr>i_ID := i\<rparr>]) d)))"

definition insertClaim :: "bool \<Rightarrow> import_row \<Rightarrow> import_row option M" where
  "insertClaim returning record =
     bindM (WorkflowPrepareInsert record) (\<lambda>record.
       if returning then insertPostgresClaim record
       else bindM (attemptM (insertImport record)) (\<lambda>r.
              case r of
                Inl e \<Rightarrow> if isDuplicateKeyError e then returnM None else failM e
              | Inr row \<Rightarrow> returnM (Some row)))"

definition lockExistingClaim :: "import_row \<Rightarrow> (import_row \<times> bool) M" where
  "lockExistingClaim record =
     bindM (getM (\<lambda>E d. filter (\<lambda>r. same_claim r record) (import_records d)) ''import record'')
       (\<lambda>existing. returnM (existing, False))"

definition Claim :: "bool \<Rightarrow> import_row \<Rightarrow> (import_row \<times> bool) M" where
  "Claim returning record =
     bindM (mapErrM WrapDatabaseError (insertClaim returning record)) (\<lambda>created.
       case created of
         Some claimed \<Rightarrow> returnM (claimed, True)
       | None \<Rightarrow> lockExistingClaim record)"

definition Complete :: "int \<Rightarrow> int \<Rightarrow> string \<Rightarrow> unit M" where
  "Complete recordID targetSnapshotID resultJSON =
     bindM nowM (\<lambda>now.
     bindM (mapErrM WrapDatabaseError
       (updateM import_records import_records_update
         (\<lambda>r. i_ID r = recordID \<and> i_Status r = ImportStatusPending)
         (\<lambda>r. r\<lparr>i_Version := i_Version r + 1, i_TargetSnapshotID := Some targetSnapshotID,
                i_Status := ImportStatusSucceeded, i_ResultJSON := Some resultJSON, i_ErrorMessage := '''',
                i_UpdatedAt := now\<rparr>)))
       (requireAffected ''import record''))"

end
