(* ===== verification/Credential.thy ===== *)
theory Credential
  imports Text
begin

text \<open>
  Project credentials (\<^verbatim>\<open>server/internal/auth/api_key/api_key.go\<close>) and the base64 encoding they use
  (\<^verbatim>\<open>base64.RawURLEncoding\<close>: the URL alphabet, no padding, not strict, line breaks skipped when decoding).
  Random bytes and HMAC-SHA256 are arguments; \<^verbatim>\<open>subtle.ConstantTimeCompare\<close> is equality.
\<close>

section \<open>Base64\<close>

definition b64_char :: "int \<Rightarrow> char" where
  "b64_char i = (if i < 26 then char_of (65 + i) else if i < 52 then char_of (71 + i)
     else if i < 62 then char_of (i - 4) else if i = 62 then CHR ''-'' else CHR ''_'')"

definition b64_val :: "char \<Rightarrow> int option" where
  "b64_val c = (if is_upper c then Some (byte c - 65) else if is_lower c then Some (byte c - 71)
     else if is_digit c then Some (byte c + 4) else if c = CHR ''-'' then Some 62
     else if c = CHR ''_'' then Some 63 else None)"

fun EncodeToString :: "string \<Rightarrow> string" where
  "EncodeToString (a # b # c # s) =
     [b64_char (byte a div 4), b64_char (byte a mod 4 * 16 + byte b div 16),
      b64_char (byte b mod 16 * 4 + byte c div 64), b64_char (byte c mod 64)] @ EncodeToString s"
| "EncodeToString [a, b] =
     [b64_char (byte a div 4), b64_char (byte a mod 4 * 16 + byte b div 16), b64_char (byte b mod 16 * 4)]"
| "EncodeToString [a] = [b64_char (byte a div 4), b64_char (byte a mod 4 * 16)]"
| "EncodeToString [] = []"

fun decode_quads :: "int list \<Rightarrow> string option" where
  "decode_quads (w # x # y # z # vs) =
     map_option (\<lambda>s. [char_of (w * 4 + x div 16), char_of (x mod 16 * 16 + y div 4), char_of (y mod 4 * 64 + z)] @ s)
       (decode_quads vs)"
| "decode_quads [w, x, y] = Some [char_of (w * 4 + x div 16), char_of (x mod 16 * 16 + y div 4)]"
| "decode_quads [w, x] = Some [char_of (w * 4 + x div 16)]"
| "decode_quads [w] = None"
| "decode_quads [] = Some []"

definition is_newline :: "char \<Rightarrow> bool" where
  "is_newline c \<longleftrightarrow> byte c = 10 \<or> byte c = 13"

definition DecodeString :: "string \<Rightarrow> string option" where
  "DecodeString s =
     (let vals = map b64_val (filter (\<lambda>c. \<not> is_newline c) s)
      in if None \<in> set vals then None else decode_quads (map the vals))"

section \<open>Credentials\<close>

definition publicPrefix :: string where "publicPrefix = ''kirby_pk_''"
definition publicEntropyBytes :: nat where "publicEntropyBytes = 16"
definition secretEntropyBytes :: nat where "secretEntropyBytes = 32"
definition secretSuffixLength :: nat where "secretSuffixLength = 4"

record Generated =
  Generated_PublicID :: string
  Generated_Full :: string
  Generated_Hash :: string
  Generated_SecretSuffix :: string

text \<open>The manager holds the pepper; \<open>hmac\<close> is HMAC-SHA256 with key and message.\<close>

definition newManager :: "string \<Rightarrow> string result" where
  "newManager pepper =
     (if length pepper < 32 then Inl (OtherError ''API key pepper must contain at least 32 bytes'') else Inr pepper)"

definition credential_hash :: "(string \<Rightarrow> string \<Rightarrow> string) \<Rightarrow> string \<Rightarrow> string \<Rightarrow> string" where
  "credential_hash hmac pepper full = hmac pepper full"

text \<open>\<^verbatim>\<open>io.ReadFull\<close> on the two buffers: \<open>random\<close> gives the bytes read, or an error.\<close>

definition Generate ::
  "(string \<Rightarrow> string \<Rightarrow> string) \<Rightarrow> string \<Rightarrow> (nat \<Rightarrow> string option) \<Rightarrow> (nat \<Rightarrow> string option) \<Rightarrow> Generated result" where
  "Generate hmac pepper random1 random2 =
     (case random1 publicEntropyBytes of
        None \<Rightarrow> Inl (OtherError ''generate API key public id'')
      | Some publicEntropy \<Rightarrow>
          (case random2 secretEntropyBytes of
             None \<Rightarrow> Inl (OtherError ''generate API key secret'')
           | Some secretEntropy \<Rightarrow>
               let publicID = publicPrefix @ EncodeToString publicEntropy;
                   secret = EncodeToString secretEntropy;
                   full = publicID @ ''.'' @ secret
               in Inr \<lparr>Generated_PublicID = publicID, Generated_Full = full,
                       Generated_Hash = credential_hash hmac pepper full,
                       Generated_SecretSuffix = drop (length secret - secretSuffixLength) secret\<rparr>))"

definition valid_entropy :: "nat \<Rightarrow> string \<Rightarrow> bool" where
  "valid_entropy n encoded \<longleftrightarrow> (case DecodeString encoded of
     None \<Rightarrow> False | Some bytes \<Rightarrow> length bytes = n \<and> EncodeToString bytes = encoded)"

definition parse_credential :: "string \<Rightarrow> (string \<times> string) result" where
  "parse_credential full =
     (if TrimSpace full \<noteq> full \<or> count_list full (CHR ''.'') \<noteq> 1 then Inl (OtherError ''invalid API key format'')
      else let publicID = takeWhile (\<lambda>c. c \<noteq> CHR ''.'') full;
               secret = tl (dropWhile (\<lambda>c. c \<noteq> CHR ''.'') full)
           in if take (length publicPrefix) publicID \<noteq> publicPrefix then Inl (OtherError ''invalid API key public id'')
              else if \<not> valid_entropy publicEntropyBytes (drop (length publicPrefix) publicID)
              then Inl (OtherError ''invalid API key public id'')
              else if \<not> valid_entropy secretEntropyBytes secret then Inl (OtherError ''invalid API key secret'')
              else Inr (publicID, secret))"

definition PublicID :: "string \<Rightarrow> string result" where
  "PublicID full = bindR (parse_credential full) (\<lambda>(publicID, _). Inr publicID)"

definition Verify :: "(string \<Rightarrow> string \<Rightarrow> string) \<Rightarrow> string \<Rightarrow> string \<Rightarrow> string \<Rightarrow> string \<Rightarrow> bool" where
  "Verify hmac pepper full expectedPublicID expectedHash =
     (case parse_credential full of
        Inl _ \<Rightarrow> False
      | Inr (publicID, _) \<Rightarrow> publicID = expectedPublicID \<and> credential_hash hmac pepper full = expectedHash)"

section \<open>Encoding round trip\<close>

lemma byte_range: "0 \<le> byte c \<and> byte c < 256"
  by (metis of_char_mod_256 pos_mod_bound pos_mod_sign zero_less_numeral)

lemma b64_val_char: "0 \<le> i \<Longrightarrow> i < 64 \<Longrightarrow> b64_val (b64_char i) = Some i"
  by (auto simp: b64_char_def b64_val_def is_upper_def is_lower_def is_digit_def between_def)

fun enc_digits :: "string \<Rightarrow> int list" where
  "enc_digits (a # b # c # s) =
     [byte a div 4, byte a mod 4 * 16 + byte b div 16, byte b mod 16 * 4 + byte c div 64, byte c mod 64] @ enc_digits s"
| "enc_digits [a, b] = [byte a div 4, byte a mod 4 * 16 + byte b div 16, byte b mod 16 * 4]"
| "enc_digits [a] = [byte a div 4, byte a mod 4 * 16]"
| "enc_digits [] = []"

lemma Encode_digits: "EncodeToString s = map b64_char (enc_digits s)"
  by (induction s rule: enc_digits.induct) simp_all

lemma small_div: "0 \<le> x \<and> x < 256 \<Longrightarrow> 0 \<le> x div 4 \<and> x div 4 < 64 \<and> 0 \<le> x div 16 \<and> x div 16 < 16 \<and> 0 \<le> x div 64 \<and> x div 64 < 4"
  for x :: int
  using zdiv_mono1 [of x 255 4] zdiv_mono1 [of x 255 16] zdiv_mono1 [of x 255 64] by (auto simp: pos_imp_zdiv_nonneg_iff)

lemma byte_div:
  "0 \<le> byte c div 4 \<and> byte c div 4 < 64" "0 \<le> byte c div 16 \<and> byte c div 16 < 16"
  "0 \<le> byte c div 64 \<and> byte c div 64 < 4"
  using small_div [OF byte_range [of c]] by blast+

lemma byte_mod:
  "0 \<le> byte c mod 4 \<and> byte c mod 4 < 4" "0 \<le> byte c mod 16 \<and> byte c mod 16 < 16" "0 \<le> byte c mod 64 \<and> byte c mod 64 < 64"
  by simp_all

lemma pack16: "0 \<le> u \<and> u < 4 \<Longrightarrow> 0 \<le> v \<and> v < 16 \<Longrightarrow> 0 \<le> u * 16 + v \<and> u * 16 + v < 64" for u v :: int
  by linarith

lemma pack4: "0 \<le> u \<and> u < 16 \<Longrightarrow> 0 \<le> v \<and> v < 4 \<Longrightarrow> 0 \<le> u * 4 + v \<and> u * 4 + v < 64" for u v :: int
  by linarith

lemmas sextets = pack16 [OF byte_mod(1) byte_div(2)] pack4 [OF byte_mod(2) byte_div(3)]
  pack16 [OF byte_mod(1), of 0, simplified] pack4 [OF byte_mod(2), of 0, simplified]

lemma enc_digits_range: "\<forall>i \<in> set (enc_digits s). 0 \<le> i \<and> i < 64"
  by (induction s rule: enc_digits.induct) (simp_all add: byte_div sextets)

lemma octets:
  "byte c div 16 div 16 = 0" "byte c div 64 div 4 = 0" "byte c div 16 mod 16 = byte c div 16" "byte c div 64 mod 4 = byte c div 64"
  using byte_div [of c] by simp_all

lemma decode_enc_digits: "decode_quads (enc_digits s) = Some s"
  by (induction s rule: enc_digits.induct) (simp_all add: octets)

definition b64_text :: "string \<Rightarrow> bool" where
  "b64_text s \<longleftrightarrow> list_all (\<lambda>c. is_alpha c \<or> is_digit c \<or> c = CHR ''-'' \<or> c = CHR ''_'') s"

lemma b64_char_text: "0 \<le> i \<Longrightarrow> i < 64 \<Longrightarrow>
    is_alpha (b64_char i) \<or> is_digit (b64_char i) \<or> b64_char i = CHR ''-'' \<or> b64_char i = CHR ''_''"
  using b64_val_char [of i] unfolding b64_val_def is_alpha_def
  by (cases "is_upper (b64_char i)"; cases "is_lower (b64_char i)"; cases "is_digit (b64_char i)") (simp_all split: if_splits)

lemma Encode_b64_text: "b64_text (EncodeToString s)"
  using b64_char_text enc_digits_range by (simp add: b64_text_def Encode_digits list_all_iff)

lemma b64_text_chars: "b64_text s \<Longrightarrow> c \<in> set s \<Longrightarrow> 45 \<le> byte c \<and> byte c < 128 \<and> byte c \<noteq> 46"
  by (auto simp: b64_text_def list_all_iff is_alpha_def is_upper_def is_lower_def is_digit_def between_def)

lemma Decode_Encode: "DecodeString (EncodeToString s) = Some s"
proof -
  have "filter (\<lambda>c. \<not> is_newline c) (EncodeToString s) = EncodeToString s"
    using b64_text_chars [OF Encode_b64_text] by (fastforce simp: filter_id_conv is_newline_def)
  moreover have "map b64_val (EncodeToString s) = map Some (enc_digits s)"
    using b64_val_char enc_digits_range by (auto simp: Encode_digits)
  ultimately show ?thesis by (auto simp: DecodeString_def decode_enc_digits comp_def)
qed

lemma valid_entropy_iff: "valid_entropy n encoded \<longleftrightarrow> (\<exists>b. length b = n \<and> encoded = EncodeToString b)"
  by (auto simp: valid_entropy_def Decode_Encode split: option.splits)

section \<open>Accepted credentials\<close>

lemma TrimSpace_plain:
  assumes "\<And>c. c \<in> set s \<Longrightarrow> 33 \<le> byte c \<and> byte c < 128"
  shows "TrimSpace s = s"
proof -
  have r: "runes s = map (\<lambda>c. (byte c, [c])) s"
    using assms by (intro runes_ascii_string) (auto simp: list_all_iff)
  have "dropWhile (\<lambda>p. IsSpace (fst p)) xs = xs" if "set xs \<subseteq> set (runes s)" for xs
    using that assms by (cases xs) (fastforce simp: r IsSpace_def between_def)+
  then show ?thesis unfolding TrimSpace_def by (simp add: concat_runes)
qed

lemma prefix_chars: "c \<in> set publicPrefix \<Longrightarrow> 45 \<le> byte c \<and> byte c < 128 \<and> byte c \<noteq> 46"
  by (auto simp: publicPrefix_def)

lemma parse_credential_iff:
  "parse_credential full = Inr (pub, sec) \<longleftrightarrow>
     (\<exists>p q. length p = publicEntropyBytes \<and> length q = secretEntropyBytes \<and>
        pub = publicPrefix @ EncodeToString p \<and> sec = EncodeToString q \<and> full = pub @ ''.'' @ sec)"
    (is "?parsed \<longleftrightarrow> ?generated")
proof
  assume ?parsed
  then have one: "count_list full (CHR ''.'') = 1"
    and pub: "pub = takeWhile (\<lambda>c. c \<noteq> CHR ''.'') full" and sec: "sec = tl (dropWhile (\<lambda>c. c \<noteq> CHR ''.'') full)"
    and pre: "take (length publicPrefix) pub = publicPrefix"
    and v: "valid_entropy publicEntropyBytes (drop (length publicPrefix) pub)" "valid_entropy secretEntropyBytes sec"
    by (auto simp: parse_credential_def Let_def split: if_splits)
  have "dropWhile (\<lambda>c. c \<noteq> CHR ''.'') full = CHR ''.'' # sec"
    using one unfolding sec by (induction full) auto
  then have "full = pub @ ''.'' @ sec" by (metis pub append_Cons append_Nil takeWhile_dropWhile_id)
  moreover have "pub = publicPrefix @ drop (length publicPrefix) pub" by (metis pre append_take_drop_id)
  ultimately show ?generated using v unfolding valid_entropy_iff by metis
next
  assume ?generated
  then obtain p q where p: "length p = publicEntropyBytes" and q: "length q = secretEntropyBytes"
    and pub: "pub = publicPrefix @ EncodeToString p" and sec: "sec = EncodeToString q" and full: "full = pub @ ''.'' @ sec"
    by blast
  have pc: "45 \<le> byte c \<and> byte c < 128 \<and> byte c \<noteq> 46" if "c \<in> set pub \<union> set sec" for c
    using that prefix_chars b64_text_chars [OF Encode_b64_text] by (auto simp: pub sec)
  then have nodot: "CHR ''.'' \<notin> set pub" "CHR ''.'' \<notin> set sec" by force+
  have "TrimSpace full = full" by (rule TrimSpace_plain) (use pc in \<open>fastforce simp: full\<close>)
  moreover have "count_list full (CHR ''.'') = 1" using nodot by (simp add: full)
  moreover have "takeWhile (\<lambda>c. c \<noteq> CHR ''.'') full = pub" "dropWhile (\<lambda>c. c \<noteq> CHR ''.'') full = ''.'' @ sec"
    using nodot by (auto simp: full takeWhile_tail dropWhile_append)
  moreover have "valid_entropy publicEntropyBytes (EncodeToString p)" "valid_entropy secretEntropyBytes sec"
    using p q sec by (auto simp: valid_entropy_iff)
  ultimately show ?parsed by (simp add: parse_credential_def Let_def pub)
qed

lemma Generate_accepted:
  assumes g: "Generate hmac pepper random1 random2 = Inr g"
    and len: "\<forall>n b. random1 n = Some b \<longrightarrow> length b = n" "\<forall>n b. random2 n = Some b \<longrightarrow> length b = n"
  shows "PublicID (Generated_Full g) = Inr (Generated_PublicID g)" "Generated_Hash g = hmac pepper (Generated_Full g)"
    "Verify hmac pepper (Generated_Full g) (Generated_PublicID g) (Generated_Hash g)"
    "length (Generated_SecretSuffix g) = 4"
proof -
  from g obtain p q where pq: "random1 publicEntropyBytes = Some p" "random2 secretEntropyBytes = Some q"
    and g': "Generated_PublicID g = publicPrefix @ EncodeToString p"
      "Generated_Full g = Generated_PublicID g @ ''.'' @ EncodeToString q"
      "Generated_Hash g = hmac pepper (Generated_Full g)"
      "Generated_SecretSuffix g = drop (length (EncodeToString q) - 4) (EncodeToString q)"
    by (auto simp: Generate_def credential_hash_def secretSuffixLength_def Let_def split: option.splits)
  have "parse_credential (Generated_Full g) = Inr (Generated_PublicID g, EncodeToString q)"
    unfolding parse_credential_iff using len pq g' by blast
  moreover have "length q = 32" using len(2) pq(2) by (auto simp: secretEntropyBytes_def)
  then have "4 \<le> length (EncodeToString q)" by (cases q rule: EncodeToString.cases) auto
  ultimately show "PublicID (Generated_Full g) = Inr (Generated_PublicID g)" "Generated_Hash g = hmac pepper (Generated_Full g)"
    "Verify hmac pepper (Generated_Full g) (Generated_PublicID g) (Generated_Hash g)"
    "length (Generated_SecretSuffix g) = 4"
    using g' by (simp_all add: PublicID_def Verify_def credential_hash_def)
qed

text \<open>
  C25. Credentials are parsed exactly: a text is accepted if and only if it is one that generation can
  produce, the prefix with 16 encoded bytes, a dot, and 32 encoded bytes; the identifier returned is its
  first part. In particular every generated credential is accepted under its own public identifier and
  stored hash, and no accepted credential differs from another one with the same bytes.
\<close>

theorem credential_exact:
  "(parse_credential full = Inr (pub, sec) \<longleftrightarrow>
     (\<exists>p q. length p = 16 \<and> length q = 32 \<and> pub = publicPrefix @ EncodeToString p \<and>
        sec = EncodeToString q \<and> full = pub @ ''.'' @ sec)) \<and>
   (Generate hmac pepper random1 random2 = Inr g \<longrightarrow>
      (\<forall>n b. random1 n = Some b \<longrightarrow> length b = n) \<longrightarrow> (\<forall>n b. random2 n = Some b \<longrightarrow> length b = n) \<longrightarrow>
      PublicID (Generated_Full g) = Inr (Generated_PublicID g) \<and>
      Verify hmac pepper (Generated_Full g) (Generated_PublicID g) (Generated_Hash g) \<and>
      length (Generated_SecretSuffix g) = 4)"
  using Generate_accepted by (fastforce simp: parse_credential_iff publicEntropyBytes_def secretEntropyBytes_def)


theorem credential_exact_witness:
  "\<exists>g. Generate (\<lambda>k m. m) ''p'' (\<lambda>n. Some (replicate n (CHR ''a''))) (\<lambda>n. Some (replicate n (CHR ''b''))) = Inr g \<and>
     Verify (\<lambda>k m. m) ''p'' (Generated_Full g) (Generated_PublicID g) (Generated_Hash g)"
proof -
  obtain g where g: "Generate (\<lambda>k m. m) ''p'' (\<lambda>n. Some (replicate n (CHR ''a''))) (\<lambda>n. Some (replicate n (CHR ''b''))) = Inr g"
    by (simp add: Generate_def Let_def)
  then show ?thesis using credential_exact [where g = g] by fastforce
qed

end
