(* ===== verification/Publish.thy ===== *)
theory Publish
  imports Permission_Props Codec Repo_Child Repo_Auth Credential
begin

text \<open>
  Publication of snapshots and reading of published content
  (\<^verbatim>\<open>server/internal/logic/publish.go\<close>, \<^verbatim>\<open>runtime.go\<close>). The transaction runner \<open>tx\<close>, the protobuf codec \<open>K\<close>, the
  iteration order \<open>iter\<close> of Go maps and the keyed hash \<open>hmac\<close> are arguments.
\<close>

section \<open>Publication\<close>

record publicationRequest =
  request_actor :: Actor
  request_environmentID :: int
  request_snapshotID :: int
  request_expectedVersion :: int
  request_status :: SnapshotStatus

record publicationChange =
  change_request :: publicationRequest
  change_config :: config_row
  change_target :: snapshot_row
  change_released :: "snapshot_row option"
  change_changedAt :: int

record cleanupKey =
  cleanup_projectID :: int
  cleanup_configKey :: string
  cleanup_runtimeVersion :: int

definition contentCacheKey :: "int \<Rightarrow> string \<Rightarrow> int \<Rightarrow> string" where
  "contentCacheKey projectID configKey runtimeVersion =
     ''runtime:config:'' @ FormatInt projectID @ '':'' @ configKey @ '':'' @ FormatInt runtimeVersion"

definition DeletePublishedConfigVersion :: "int \<Rightarrow> string \<Rightarrow> int \<Rightarrow> unit M" where
  "DeletePublishedConfigVersion projectID configKey runtimeVersion =
     cacheDeleteM (contentCacheKey projectID configKey runtimeVersion)"

definition authorizedSnapshot :: "publicationRequest \<Rightarrow> snapshot_row M" where
  "authorizedSnapshot request =
     bindM (Require (Actor_UserID (request_actor request)) (request_environmentID request) [''snapshot:publish'']) (\<lambda>_.
     snapshot_FindByID (request_environmentID request) (request_snapshotID request))"

fun publication_loop ::
  "int \<Rightarrow> snapshot_row option \<Rightarrow> snapshot_row option \<Rightarrow> snapshot_row list \<Rightarrow>
   (snapshot_row option \<times> snapshot_row option) result" where
  "publication_loop targetID target released [] = Inr (target, released)"
| "publication_loop targetID target released (item # items) =
     (if s_Status item \<noteq> SnapshotStatusUnreleased \<and> s_Status item \<noteq> SnapshotStatusReleased
      then Inl (Conflict ''snapshot has unsupported status'')
      else if s_Status item = SnapshotStatusReleased \<and> released \<noteq> None
      then Inl (Conflict ''config has multiple released snapshots'')
      else publication_loop targetID (if ID item = targetID then Some item else target)
             (if s_Status item = SnapshotStatusReleased then Some item else released) items)"

definition publicationState :: "snapshot_row list \<Rightarrow> int \<Rightarrow> (snapshot_row \<times> snapshot_row option) result" where
  "publicationState items targetID =
     bindR (publication_loop targetID None None items) (\<lambda>(target, released).
       case target of None \<Rightarrow> Inl (NotFound ''snapshot'') | Some t \<Rightarrow> Inr (t, released))"

definition lockPublicationSchema :: "int \<Rightarrow> int \<Rightarrow> unit M" where
  "lockPublicationSchema environmentID configID =
     bindM (structure_ListForConfig environmentID configID) (\<lambda>_.
     bindM (enum_ListForConfig environmentID configID) (\<lambda>_. returnM ()))"

definition lockResources :: "int \<Rightarrow> int \<Rightarrow> (config_row \<times> snapshot_row list) M" where
  "lockResources environmentID configID =
     bindM (config_LockByID environmentID configID) (\<lambda>config.
     bindM (lockPublicationSchema environmentID configID) (\<lambda>_.
     bindM (LockForConfig environmentID configID) (\<lambda>items. returnM (config, items))))"

definition repeatedPublication :: "SnapshotStatus \<Rightarrow> err" where
  "repeatedPublication status =
     (if status = SnapshotStatusReleased then Conflict ''snapshot is already released''
      else Conflict ''snapshot is already unreleased'')"

definition validateTarget :: "publicationChange \<Rightarrow> unit result" where
  "validateTarget change =
     (let target = change_target change; config = change_config change; request = change_request change in
      if s_Status target = request_status request then Inl (repeatedPublication (request_status request))
      else if Version target \<noteq> request_expectedVersion request then Inl (Conflict ''snapshot version is stale'')
      else if s_ConfigID target \<noteq> ID config \<or> s_ProjectID target \<noteq> c_ProjectID config \<or> s_ConfigKey target \<noteq> c_Key config
      then Inl (Conflict ''snapshot does not belong to config'')
      else Inr ())"

definition validateRuntimeVersion :: "int \<Rightarrow> unit result" where
  "validateRuntimeVersion version =
     (if version < 0 then Inl (Conflict ''config runtime version is invalid'')
      else if version = MaxInt64_value then Inl (Conflict ''config runtime version is exhausted'')
      else Inr ())"

definition validateSnapshot :: "codec \<Rightarrow> (string list \<Rightarrow> string list) \<Rightarrow> snapshot_row \<Rightarrow> config_row \<Rightarrow> unit result" where
  "validateSnapshot K iter snapshot config =
     (case DecodeConfigSnapshot K (s_Content snapshot) of
        Inl _ \<Rightarrow> Inl (Invalid ''snapshot content is invalid'')
      | Inr content \<Rightarrow>
          (case Snapshot_Config content of
             None \<Rightarrow> Inl (Invalid ''snapshot content is incomplete'')
           | Some c \<Rightarrow>
               if Config_Type c = None then Inl (Invalid ''snapshot content is incomplete'')
               else if Config_Id c \<noteq> ID config \<or> Config_ProjectId c \<noteq> c_ProjectID config \<or> Config_Key c \<noteq> c_Key config
               then Inl (Conflict ''snapshot content does not belong to config'')
               else
                 bindR (checkR (\<lambda>item. guardR (case item of None \<Rightarrow> True | Some s \<Rightarrow> Structure_ConfigId s \<noteq> ID config)
                          (Invalid ''snapshot structure belongs to another config'')) (Snapshot_Structures content)) (\<lambda>_.
                 bindR (checkR (\<lambda>item. guardR (case item of None \<Rightarrow> True | Some s \<Rightarrow> Enum_ConfigId s \<noteq> ID config)
                          (Invalid ''snapshot enum belongs to another config'')) (Snapshot_Enums content)) (\<lambda>_.
                 bindR (NewSchema iter (Snapshot_Structures content) (Snapshot_Enums content)) (\<lambda>schema.
                 ValidateConfig schema (Snapshot_Config content))))))"

definition change_validate :: "codec \<Rightarrow> (string list \<Rightarrow> string list) \<Rightarrow> publicationChange \<Rightarrow> unit result" where
  "change_validate K iter change =
     bindR (validateTarget change) (\<lambda>_.
     bindR (validateRuntimeVersion (c_RuntimeVersion (change_config change))) (\<lambda>_.
       if request_status (change_request change) = SnapshotStatusUnreleased then Inr ()
       else validateSnapshot K iter (change_target change) (change_config change)))"

definition preparePublication ::
  "codec \<Rightarrow> (string list \<Rightarrow> string list) \<Rightarrow> publicationRequest \<Rightarrow> int \<Rightarrow> publicationChange M" where
  "preparePublication K iter request configID =
     bindM (lockResources (request_environmentID request) configID) (\<lambda>(config, items).
     bindM (liftR (publicationState items (request_snapshotID request))) (\<lambda>(target, released).
     let change = \<lparr>change_request = request, change_config = config, change_target = target,
                   change_released = released, change_changedAt = 0\<rparr> in
     bindM (liftR (change_validate K iter change)) (\<lambda>_.
     bindM nowM (\<lambda>now. returnM (change\<lparr>change_changedAt := now\<rparr>)))))"

definition updateFor :: "publicationChange \<Rightarrow> snapshot_row \<Rightarrow> SnapshotPublicationUpdate" where
  "updateFor change snapshot =
     \<lparr>Pub_EnvironmentID = request_environmentID (change_request change), Pub_ConfigID = ID (change_config change),
      Pub_SnapshotID = ID snapshot, Pub_ExpectedVersion = Version snapshot,
      Pub_UpdatedBy = Actor_UserID (request_actor (change_request change)), Pub_ChangedAt = change_changedAt change\<rparr>"

definition auditAction :: "publicationChange \<Rightarrow> string" where
  "auditAction change =
     (if request_status (change_request change) = SnapshotStatusReleased then ''snapshot.publish'' else ''snapshot.unpublish'')"

definition AuditResultSucceeded :: string where "AuditResultSucceeded = ''succeeded''"

text \<open>The audit entry all configuration operations build: who, which action, on which resource.\<close>

definition audit_entry :: "Actor \<Rightarrow> string \<Rightarrow> string \<Rightarrow> int \<Rightarrow> audit_row" where
  "audit_entry actor action resource resourceID =
     \<lparr>r_ID = 0, r_CreatedAt = 0, r_UpdatedAt = 0, a_ActorUserID = Some (Actor_UserID actor), a_EnvironmentID = None,
      a_Action = action, a_ResourceType = resource, a_ResourceID = FormatInt resourceID,
      a_Result = AuditResultSucceeded, a_RequestID = Actor_RequestID actor, a_DetailsJSON = None\<rparr>"

definition publishAudit :: "Actor \<Rightarrow> string \<Rightarrow> int \<Rightarrow> audit_row" where
  "publishAudit actor action snapshotID = audit_entry actor action ''snapshot'' snapshotID"

definition retireReleasedSnapshot :: "publicationChange \<Rightarrow> unit M" where
  "retireReleasedSnapshot change =
     (case change_released change of
        None \<Rightarrow> returnM ()
      | Some released \<Rightarrow>
          if Version released = MaxInt64_value then failM (Conflict ''released snapshot version is exhausted'')
          else SetUnreleased (updateFor change released))"

definition applyPublicationStatus :: "publicationChange \<Rightarrow> unit M" where
  "applyPublicationStatus change =
     (if request_status (change_request change) = SnapshotStatusUnreleased
      then SetUnreleased (updateFor change (change_target change))
      else bindM (retireReleasedSnapshot change) (\<lambda>_. SetReleased (updateFor change (change_target change))))"

definition persistPublication :: "publicationChange \<Rightarrow> unit M" where
  "persistPublication change =
     bindM (applyPublicationStatus change) (\<lambda>_.
     bindM (IncrementRuntimeVersion (request_environmentID (change_request change)) (ID (change_config change))) (\<lambda>_.
     RecordForEnvironment (request_environmentID (change_request change))
       (publishAudit (request_actor (change_request change)) (auditAction change) (ID (change_target change)))))"

definition change_result :: "publicationChange \<Rightarrow> snapshot_row" where
  "change_result change =
     (let target = change_target change; request = change_request change; user = Actor_UserID (request_actor request);
          released = request_status request = SnapshotStatusReleased
      in target\<lparr>s_Status := request_status request,
                s_PublishedAt := (if released then Some (change_changedAt change) else None),
                s_PublishedBy := (if released then Some user else None),
                UpdatedBy := user, UpdatedAt := change_changedAt change, Version := Version target + 1\<rparr>)"

definition change_cleanupKey :: "publicationChange \<Rightarrow> cleanupKey" where
  "change_cleanupKey change =
     \<lparr>cleanup_projectID = c_ProjectID (change_config change), cleanup_configKey = c_Key (change_config change),
      cleanup_runtimeVersion = c_RuntimeVersion (change_config change)\<rparr>"

text \<open>A failed deletion is only logged.\<close>

definition publish_cleanup :: "cleanupKey \<Rightarrow> unit M" where
  "publish_cleanup key =
     bindM (attemptM (DeletePublishedConfigVersion (cleanup_projectID key) (cleanup_configKey key)
       (cleanup_runtimeVersion key))) (\<lambda>_. returnM ())"

definition changePublication ::
  "(publicationChange M \<Rightarrow> publicationChange M) \<Rightarrow> codec \<Rightarrow> (string list \<Rightarrow> string list) \<Rightarrow>
   publicationRequest \<Rightarrow> snapshot_row M" where
  "changePublication tx K iter request =
     bindM (authorizedSnapshot request) (\<lambda>found.
     bindM (tx (bindM (preparePublication K iter request (s_ConfigID found)) (\<lambda>change.
                bindM (persistPublication change) (\<lambda>_. returnM change)))) (\<lambda>change.
     bindM (publish_cleanup (change_cleanupKey change)) (\<lambda>_.
     returnM (change_result change))))"

definition Publish ::
  "(publicationChange M \<Rightarrow> publicationChange M) \<Rightarrow> codec \<Rightarrow> (string list \<Rightarrow> string list) \<Rightarrow>
   Actor \<Rightarrow> int \<Rightarrow> int \<Rightarrow> int \<Rightarrow> snapshot_row M" where
  "Publish tx K iter actor environmentID snapshotID expectedVersion =
     changePublication tx K iter \<lparr>request_actor = actor, request_environmentID = environmentID,
       request_snapshotID = snapshotID, request_expectedVersion = expectedVersion, request_status = SnapshotStatusReleased\<rparr>"

definition Unpublish ::
  "(publicationChange M \<Rightarrow> publicationChange M) \<Rightarrow> codec \<Rightarrow> (string list \<Rightarrow> string list) \<Rightarrow>
   Actor \<Rightarrow> int \<Rightarrow> int \<Rightarrow> int \<Rightarrow> snapshot_row M" where
  "Unpublish tx K iter actor environmentID snapshotID expectedVersion =
     changePublication tx K iter \<lparr>request_actor = actor, request_environmentID = environmentID,
       request_snapshotID = snapshotID, request_expectedVersion = expectedVersion, request_status = SnapshotStatusUnreleased\<rparr>"

section \<open>Runtime reads\<close>

definition contentTTL :: int where "contentTTL = 24 * 3600 * 1000000000"

record RuntimeResult =
  Runtime_Content :: string
  Runtime_Version :: int

record runtimeRead =
  read_publicID :: string
  read_fullCredential :: string
  read_projectKey :: string
  read_configKey :: string

definition authenticate :: "(string \<Rightarrow> string \<Rightarrow> string) \<Rightarrow> string \<Rightarrow> runtimeRead \<Rightarrow> project_row M" where
  "authenticate hmac pepper request =
     bindM (mapErrM (\<lambda>e. if isNotFound e then Unauthenticated else e) (LockRuntimeCredential (read_publicID request))) (\<lambda>key.
       if \<not> Verify hmac pepper (read_fullCredential request) (k_PublicID key) (k_SecretHash key) \<or> k_RevokedAt key \<noteq> None
       then failM Unauthenticated
       else bindM (mapErrM (\<lambda>e. if isNotFound e then Unauthenticated else e) (FindRuntimeProject (k_ProjectID key))) (\<lambda>project.
            bindM (guardM (p_Key project \<noteq> read_projectKey request) ProjectMismatch) (\<lambda>_.
            returnM project)))"

definition releasedContent :: "codec \<Rightarrow> config_row \<Rightarrow> string M" where
  "releasedContent K config =
     bindM (FindReleasedSnapshot (c_ProjectID config) (ID config)) (\<lambda>snapshot.
       case DecodeConfigSnapshot K (s_Content snapshot) of
         Inl e \<Rightarrow> failM (Wrapped ''decode released runtime snapshot'' e)
       | Inr decoded \<Rightarrow>
           (case Snapshot_Config decoded of
              None \<Rightarrow> failM (OtherError ''released runtime snapshot scope does not match config'')
            | Some c \<Rightarrow>
                if Config_Id c \<noteq> ID config \<or> Config_ProjectId c \<noteq> c_ProjectID config \<or> Config_Key c \<noteq> c_Key config
                then failM (OtherError ''released runtime snapshot scope does not match config'')
                else returnM (Config_Value c)))"

definition readConfig :: "codec \<Rightarrow> int \<Rightarrow> string \<Rightarrow> RuntimeResult M" where
  "readConfig K projectID configKey =
     bindM (FindRuntimeConfig projectID configKey) (\<lambda>config.
       case Uint64FromInt64 (word_of_int (c_RuntimeVersion config)) of
         Inl e \<Rightarrow> failM (Wrapped ''runtime config version is invalid'' e)
       | Inr version \<Rightarrow>
           let key = contentCacheKey projectID (c_Key config) (c_RuntimeVersion config) in
           bindM (attemptM (cacheGetM key)) (\<lambda>r.
             case r of
               Inr content \<Rightarrow> returnM \<lparr>Runtime_Content = content, Runtime_Version = uint version\<rparr>
             | Inl e \<Rightarrow>
                 if e \<noteq> CacheNotFound then failM (Wrapped ''read runtime content cache'' e)
                 else bindM (releasedContent K config) (\<lambda>content.
                      bindM (mapErrM (Wrapped ''write runtime content cache'') (cacheSetM key content contentTTL)) (\<lambda>_.
                      returnM \<lparr>Runtime_Content = content, Runtime_Version = uint version\<rparr>))))"

definition Read ::
  "(RuntimeResult M \<Rightarrow> RuntimeResult M) \<Rightarrow> codec \<Rightarrow> (string \<Rightarrow> string \<Rightarrow> string) \<Rightarrow> string \<Rightarrow>
   string \<Rightarrow> string \<Rightarrow> string \<Rightarrow> RuntimeResult M" where
  "Read tx K hmac pepper fullCredential requestedProject configKey =
     (case PublicID fullCredential of
        Inl _ \<Rightarrow> failM Unauthenticated
      | Inr publicID \<Rightarrow>
          let request = \<lparr>read_publicID = publicID, read_fullCredential = fullCredential,
                         read_projectKey = requestedProject, read_configKey = configKey\<rparr> in
          bindM (tx (bindM (authenticate hmac pepper request) (\<lambda>project.
                     readConfig K (ID project) (read_configKey request)))) (\<lambda>result.
          bindM nowM (\<lambda>now.
          bindM (MarkUsed publicID now) (\<lambda>_.
          returnM result))))"

end
