(* ===== verification/Publish_Props.thy ===== *)
theory Publish_Props
  imports Publish
begin

text \<open>
  Correctness of publication: what the locked rows establish, the exact effect of a publication and of a
  withdrawal on the whole database, and their failure behaviour.
\<close>

section \<open>The locked snapshots\<close>

lemma publication_loop_Inr:
  "publication_loop targetID target released items = Inr (t, r) \<Longrightarrow>
     (t = target \<or> (\<exists>x \<in> set items. t = Some x \<and> ID x = targetID)) \<and>
     (case released of None \<Rightarrow> [] | Some x \<Rightarrow> [x]) @ filter (\<lambda>x. s_Status x = SnapshotStatusReleased) items =
       (case r of None \<Rightarrow> [] | Some x \<Rightarrow> [x]) \<and>
     (\<forall>x \<in> set items. s_Status x = SnapshotStatusUnreleased \<or> s_Status x = SnapshotStatusReleased)"
proof (induction items arbitrary: target released)
  case Nil
  then show ?case by simp
next
  case (Cons item items)
  from Cons.prems have ok: "s_Status item = SnapshotStatusUnreleased \<or> s_Status item = SnapshotStatusReleased"
    "s_Status item = SnapshotStatusReleased \<Longrightarrow> released = None"
    and rest: "publication_loop targetID (if ID item = targetID then Some item else target)
        (if s_Status item = SnapshotStatusReleased then Some item else released) items = Inr (t, r)"
    by (auto split: if_splits)
  from Cons.IH [OF rest] ok show ?case by (auto split: if_splits)
qed

lemma publicationState_Inr:
  assumes "publicationState items targetID = Inr (t, r)"
  shows "t \<in> set items \<and> ID t = targetID \<and>
    filter (\<lambda>x. s_Status x = SnapshotStatusReleased) items = (case r of None \<Rightarrow> [] | Some x \<Rightarrow> [x]) \<and>
    (\<forall>x \<in> set items. s_Status x = SnapshotStatusUnreleased \<or> s_Status x = SnapshotStatusReleased)"
  using assms publication_loop_Inr [of targetID None None items "Some t" r]
  by (auto simp: publicationState_def result_simps split: option.splits)

lemma reads_lockResources [reads_intro]: "reads (lockResources e c)"
  unfolding lockResources_def lockPublicationSchema_def structure_ListForConfig_def enum_ListForConfig_def
    child_ListForConfig_def config_LockByID_def LockForConfig_def
  by (intro reads_intro)

lemma reads_preparePublication [reads_intro]: "reads (preparePublication K iter request c)"
  unfolding preparePublication_def Let_def by (intro reads_intro)

text \<open>What publication knows about the rows it has locked.\<close>

definition publication_ready :: "codec \<Rightarrow> (string list \<Rightarrow> string list) \<Rightarrow> db \<Rightarrow> publicationRequest \<Rightarrow> publicationChange \<Rightarrow> bool" where
  "publication_ready K iter d request change \<longleftrightarrow>
     (let config = change_config change; target = change_target change; rel = (\<lambda>s. s_Status s = SnapshotStatusReleased);
          scope = (\<lambda>s. DeletedAt s = None \<and> s_ConfigID s = ID config \<and> s_ProjectID s = c_ProjectID config) in
      change_request change = request \<and> config \<in> set (configs d) \<and> DeletedAt config = None \<and>
      (\<exists>p e. env_project d e p \<and> ID p = c_ProjectID config \<and> ID e = request_environmentID request) \<and>
      target \<in> set (snapshots d) \<and> scope target \<and> ID target = request_snapshotID request \<and>
      Version target = request_expectedVersion request \<and> s_Status target \<noteq> request_status request \<and>
      (s_Status target = SnapshotStatusUnreleased \<or> s_Status target = SnapshotStatusReleased) \<and>
      s_ConfigKey target = c_Key config \<and>
      0 \<le> c_RuntimeVersion config \<and> c_RuntimeVersion config \<noteq> MaxInt64_value \<and>
      {s \<in> set (snapshots d). scope s \<and> rel s} = set_option (change_released change) \<and>
      (request_status request \<noteq> SnapshotStatusUnreleased \<longrightarrow> validateSnapshot K iter target config = Inr ()))"

lemma preparePublication_Inr:
  assumes "preparePublication K iter request configID E w = (Inr change, w')"
    "distinct (map ID (configs (database w)))"
  shows "publication_ready K iter (database w) request change \<and> ID (change_config change) = configID \<and> quiet w w'"
proof -
  let ?d = "database w" and ?e = "request_environmentID request"
  from assms(1) obtain config items target released w1 where
    lock: "lockResources ?e configID E w = (Inr (config, items), w1)"
    and state: "publicationState items (request_snapshotID request) = Inr (target, released)"
    and valid: "change_validate K iter \<lparr>change_request = request, change_config = config, change_target = target,
                   change_released = released, change_changedAt = 0\<rparr> = Inr ()"
    and change: "change_request change = request" "change_config change = config" "change_target change = target"
      "change_released change = released"
    by (auto simp: preparePublication_def run_simps Let_def split: prod.splits)
  from lock have config: "config \<in> set (configScope (\<lambda>c p e. ID e = ?e \<and> ID c = configID) ?d)"
    and items: "set items = set (snapshotScope (\<lambda>s c p e. ID e = ?e \<and> ID c = configID) ?d)"
    by (auto simp: lockResources_def lockPublicationSchema_def config_LockByID_def LockForConfig_def run_simps
        structure_ListForConfig_def enum_ListForConfig_def child_ListForConfig_def getM_Inr dest!: first_row_Some)
  have cfg: "config \<in> set (configs ?d)" "DeletedAt config = None" "ID config = configID"
    "\<exists>p e. env_project ?d e p \<and> ID p = c_ProjectID config \<and> ID e = ?e"
    using config by (auto simp: configScope_iff)
  have same: "c = config" if "c \<in> set (configs ?d)" "ID c = configID" for c
    using assms(2) cfg(1,3) that by (auto simp: distinct_map inj_on_def)
  have scope: "s \<in> set items \<longleftrightarrow> s \<in> set (snapshots ?d) \<and> DeletedAt s = None \<and> s_ConfigID s = ID config \<and>
      s_ProjectID s = c_ProjectID config" for s
  proof
    assume "s \<in> set items"
    then show "s \<in> set (snapshots ?d) \<and> DeletedAt s = None \<and> s_ConfigID s = ID config \<and> s_ProjectID s = c_ProjectID config"
      unfolding items snapshotScope_iff using same cfg(3) by fastforce
  next
    assume s: "s \<in> set (snapshots ?d) \<and> DeletedAt s = None \<and> s_ConfigID s = ID config \<and> s_ProjectID s = c_ProjectID config"
    from cfg(4) obtain p e where "env_project ?d e p" "ID p = c_ProjectID config" "ID e = ?e" by blast
    with s cfg show "s \<in> set items" unfolding items snapshotScope_iff
      by (intro conjI exI [of _ config] exI [of _ p] exI [of _ e]) auto
  qed
  note st = publicationState_Inr [OF state]
  have rel: "{s \<in> set items. s_Status s = SnapshotStatusReleased} = set_option released"
    using st by (cases released) (auto simp: filter_empty_conv dest!: arg_cong [of _ _ set])
  from valid have vt: "s_Status target \<noteq> request_status request" "Version target = request_expectedVersion request"
      "s_ConfigKey target = c_Key config" "0 \<le> c_RuntimeVersion config" "c_RuntimeVersion config \<noteq> MaxInt64_value"
      "request_status request \<noteq> SnapshotStatusUnreleased \<Longrightarrow> validateSnapshot K iter target config = Inr ()"
    by (auto simp: change_validate_def validateTarget_def validateRuntimeVersion_def result_simps Let_def split: if_splits)
  have "quiet w w'" using assms(1) by (rule readsD [OF reads_preparePublication])
  moreover have "{s \<in> set (snapshots ?d). (DeletedAt s = None \<and> s_ConfigID s = ID config \<and> s_ProjectID s = c_ProjectID config) \<and>
      s_Status s = SnapshotStatusReleased} = set_option released"
    unfolding rel [symmetric] using scope by blast
  moreover have "target \<in> set items" "ID target = request_snapshotID request"
    "s_Status target = SnapshotStatusUnreleased \<or> s_Status target = SnapshotStatusReleased" using st by auto
  ultimately show ?thesis unfolding publication_ready_def Let_def change
    using cfg vt scope [of target] by auto
qed

definition retire_row :: "int \<Rightarrow> int \<Rightarrow> snapshot_row \<Rightarrow> snapshot_row" where
  "retire_row user now r = r\<lparr>s_Status := SnapshotStatusUnreleased, s_PublishedAt := None, s_PublishedBy := None,
     UpdatedBy := user, UpdatedAt := now, Version := Version r + 1\<rparr>"

definition release_row :: "int \<Rightarrow> int \<Rightarrow> snapshot_row \<Rightarrow> snapshot_row" where
  "release_row user now r = r\<lparr>s_Status := SnapshotStatusReleased, s_PublishedAt := Some now, s_PublishedBy := Some user,
     UpdatedBy := user, UpdatedAt := now, Version := Version r + 1\<rparr>"

lemma row_fields [simp]:
  "ID (retire_row u n r) = ID r" "s_Status (retire_row u n r) = SnapshotStatusUnreleased"
  "s_ConfigID (retire_row u n r) = s_ConfigID r" "s_ProjectID (retire_row u n r) = s_ProjectID r"
  "DeletedAt (retire_row u n r) = DeletedAt r" "s_Content (retire_row u n r) = s_Content r"
  "ID (release_row u n r) = ID r" "s_Status (release_row u n r) = SnapshotStatusReleased"
  "s_ConfigID (release_row u n r) = s_ConfigID r" "s_ProjectID (release_row u n r) = s_ProjectID r"
  "DeletedAt (release_row u n r) = DeletedAt r" "s_Content (release_row u n r) = s_Content r"
  by (simp_all add: retire_row_def release_row_def)

text \<open>The effect of a publication on the snapshots, stated on the whole table.\<close>

definition released_in :: "config_row \<Rightarrow> snapshot_row \<Rightarrow> bool" where
  "released_in config s \<longleftrightarrow> DeletedAt s = None \<and> s_ConfigID s = ID config \<and> s_ProjectID s = c_ProjectID config \<and>
     s_Status s = SnapshotStatusReleased"

definition publish_rows :: "int \<Rightarrow> int \<Rightarrow> config_row \<Rightarrow> int \<Rightarrow> snapshot_row list \<Rightarrow> snapshot_row list" where
  "publish_rows user now config target =
     map (\<lambda>r. if ID r = target then release_row user now r else if released_in config r then retire_row user now r else r)"

definition unpublish_rows :: "int \<Rightarrow> int \<Rightarrow> int \<Rightarrow> snapshot_row list \<Rightarrow> snapshot_row list" where
  "unpublish_rows user now target = update_rows (\<lambda>r. ID r = target) (retire_row user now)"

definition next_generation :: "int \<Rightarrow> int \<Rightarrow> config_row list \<Rightarrow> config_row list" where
  "next_generation configID now =
     update_rows (\<lambda>c. ID c = configID) (\<lambda>c. c\<lparr>c_RuntimeVersion := c_RuntimeVersion c + 1, UpdatedAt := now\<rparr>)"

definition publication_rows :: "publicationChange \<Rightarrow> snapshot_row list \<Rightarrow> snapshot_row list" where
  "publication_rows change =
     (let user = Actor_UserID (request_actor (change_request change)); now = change_changedAt change; target = ID (change_target change)
      in if request_status (change_request change) = SnapshotStatusUnreleased then unpublish_rows user now target
         else publish_rows user now (change_config change) target)"

lemma SetUnreleased_Inr:
  assumes "SetUnreleased (updateFor change s) E w = (Inr u, w')" "distinct (map ID (snapshots (database w)))"
    "s \<in> set (snapshots (database w))"
  shows "w' = w\<lparr>database := snapshots_update (update_rows (\<lambda>r. ID r = ID s)
      (retire_row (Actor_UserID (request_actor (change_request change))) (change_changedAt change))) (database w),
      tick := Suc (tick w)\<rparr>"
proof -
  let ?cond = "\<lambda>r. DeletedAt r = None \<and> ID r = ID s \<and> s_ConfigID r = ID (change_config change) \<and>
      s_Status r = SnapshotStatusReleased \<and> Version r = Version s"
  from assms(1) obtain r where r: "r \<in> set (snapshots (database w))" "?cond r"
    by (auto simp: SetUnreleased_def updateFor_def updateSnapshots_def run_simps)
  then have "r = s" using row_unique [OF assms(2) r(1) assms(3)] by simp
  then have "?cond s" using r by simp
  let ?user = "Actor_UserID (request_actor (change_request change))" and ?now = "change_changedAt change"
  have "snapshots_update (update_rows ?cond (\<lambda>r. r\<lparr>s_Status := SnapshotStatusUnreleased, s_PublishedAt := None, s_PublishedBy := None,
      UpdatedBy := ?user, UpdatedAt := ?now, Version := Version s + 1\<rparr>)) (database w) =
      snapshots_update (update_rows (\<lambda>r. ID r = ID s) (retire_row ?user ?now)) (database w)"
    by (rule table_update_cong(1), rule update_rows_unique [where g = ID and t = s])
      (use assms(2,3) \<open>?cond s\<close> in \<open>auto simp: retire_row_def\<close>)
  then show ?thesis using assms(1)
    by (auto simp: SetUnreleased_def updateFor_def updateSnapshots_def run_simps)
qed

lemma SetReleased_Inr:
  assumes "SetReleased (updateFor change s) E w = (Inr u, w')" "distinct (map ID (snapshots (database w)))"
    "s \<in> set (snapshots (database w))"
  shows "w' = w\<lparr>database := snapshots_update (update_rows (\<lambda>r. ID r = ID s)
      (release_row (Actor_UserID (request_actor (change_request change))) (change_changedAt change))) (database w),
      tick := Suc (tick w)\<rparr>"
proof -
  let ?cond = "\<lambda>r. DeletedAt r = None \<and> ID r = ID s \<and> s_ConfigID r = ID (change_config change) \<and>
      s_Status r = SnapshotStatusUnreleased \<and> Version r = Version s"
  from assms(1) obtain r where r: "r \<in> set (snapshots (database w))" "?cond r"
    by (auto simp: SetReleased_def updateFor_def updateSnapshots_def run_simps)
  then have "r = s" using row_unique [OF assms(2) r(1) assms(3)] by simp
  then have "?cond s" using r by simp
  let ?user = "Actor_UserID (request_actor (change_request change))" and ?now = "change_changedAt change"
  have "snapshots_update (update_rows ?cond (\<lambda>r. r\<lparr>s_Status := SnapshotStatusReleased, s_PublishedAt := Some ?now, s_PublishedBy := Some ?user,
      UpdatedBy := ?user, UpdatedAt := ?now, Version := Version s + 1\<rparr>)) (database w) =
      snapshots_update (update_rows (\<lambda>r. ID r = ID s) (release_row ?user ?now)) (database w)"
    by (rule table_update_cong(1), rule update_rows_unique [where g = ID and t = s])
      (use assms(2,3) \<open>?cond s\<close> in \<open>auto simp: release_row_def\<close>)
  then show ?thesis using assms(1)
    by (auto simp: SetReleased_def updateFor_def updateSnapshots_def run_simps)
qed

definition audit_matches :: "audit_row \<Rightarrow> audit_row \<Rightarrow> int \<Rightarrow> bool" where
  "audit_matches row log environmentID \<longleftrightarrow> a_EnvironmentID row = Some environmentID \<and> a_ActorUserID row = a_ActorUserID log \<and>
     a_Action row = a_Action log \<and> a_ResourceType row = a_ResourceType log \<and> a_ResourceID row = a_ResourceID log \<and>
     a_Result row = a_Result log \<and> a_RequestID row = a_RequestID log"

lemma applyPublicationStatus_Inr:
  assumes "applyPublicationStatus change E w = (Inr u, w')" "publication_ready K iter (database w) request change"
    "distinct (map ID (snapshots (database w)))"
    "request_status request = SnapshotStatusUnreleased \<or> request_status request = SnapshotStatusReleased"
  shows "\<exists>n. w' = w\<lparr>database := snapshots_update (publication_rows change) (database w), tick := n\<rparr>"
proof -
  let ?user = "Actor_UserID (request_actor (change_request change))" and ?now = "change_changedAt change"
  let ?t = "change_target change" and ?rows = "snapshots (database w)"
  have t: "?t \<in> set ?rows" and rq: "change_request change = request"
    and rel: "\<And>s. s \<in> set ?rows \<Longrightarrow> released_in (change_config change) s \<longleftrightarrow> s \<in> set_option (change_released change)"
    and rin: "set_option (change_released change) \<subseteq> set ?rows"
    and st: "s_Status ?t \<noteq> request_status request"
    using assms(2) by (auto simp: publication_ready_def Let_def released_in_def)
  show ?thesis
  proof (cases "request_status request = SnapshotStatusUnreleased")
    case True
    then have "SetUnreleased (updateFor change ?t) E w = (Inr u, w')"
      using assms(1) rq by (simp add: applyPublicationStatus_def)
    from SetUnreleased_Inr [OF this assms(3) t] show ?thesis using True rq
      by (auto simp: publication_rows_def unpublish_rows_def Let_def)
  next
    case False
    then have relq: "request_status request = SnapshotStatusReleased" using assms(4) by simp
    from False assms(1) rq obtain w1 where ret: "retireReleasedSnapshot change E w = (Inr (), w1)"
      and set: "SetReleased (updateFor change ?t) E w1 = (Inr u, w')"
      by (auto simp: applyPublicationStatus_def run_simps)
    define mid where "mid = update_rows (\<lambda>r. released_in (change_config change) r) (retire_row ?user ?now) ?rows"
    have w1: "\<exists>n. w1 = w\<lparr>database := snapshots_update (\<lambda>_. mid) (database w), tick := n\<rparr>"
    proof (cases "change_released change")
      case None
      then have "mid = ?rows" using rel by (auto simp: mid_def update_rows_def intro: map_idI)
      with None ret show ?thesis by (auto simp: retireReleasedSnapshot_def run_simps intro: exI [of _ "tick w"])
    next
      case (Some r)
      then have r: "r \<in> set ?rows" using rin by simp
      have "update_rows (\<lambda>x. ID x = ID r) (retire_row ?user ?now) ?rows = mid"
        unfolding mid_def update_rows_def using rel Some row_unique [OF assms(3) _ r] by (intro map_cong refl) auto
      then have "snapshots_update (update_rows (\<lambda>x. ID x = ID r) (retire_row ?user ?now)) (database w) =
          snapshots_update (\<lambda>_. mid) (database w)" by (intro table_update_cong(1)) simp
      moreover have su: "SetUnreleased (updateFor change r) E w = (Inr (), w1)"
        using ret Some by (auto simp: retireReleasedSnapshot_def run_simps split: if_splits)
      ultimately show ?thesis using SetUnreleased_Inr [OF su assms(3) r] by auto
    qed
    then obtain n where w1: "w1 = w\<lparr>database := snapshots_update (\<lambda>_. mid) (database w), tick := n\<rparr>" by blast
    have tm: "?t \<in> set mid" using t st relq by (auto simp: mid_def set_update_rows released_in_def image_iff intro!: bexI [of _ ?t])
    have "distinct (map ID mid)" using assms(3) by (simp add: mid_def distinct_update_rows)
    from SetReleased_Inr [OF set] this tm w1 have
      "w' = w1\<lparr>database := snapshots_update (update_rows (\<lambda>r. ID r = ID ?t) (release_row ?user ?now)) (database w1), tick := Suc (tick w1)\<rparr>"
      by simp
    moreover have "update_rows (\<lambda>r. ID r = ID ?t) (release_row ?user ?now) mid = publication_rows change ?rows"
      unfolding mid_def update_rows_def publication_rows_def publish_rows_def Let_def map_map
      using relq rq row_unique [OF assms(3) _ t] st by (auto simp: released_in_def intro!: map_cong)
    ultimately show ?thesis using w1
      by (auto intro!: exI [of _ "Suc n"] arg_cong [where f = "\<lambda>d. w\<lparr>database := d, tick := Suc n\<rparr>"] table_update_cong(1) simp: comp_def)
  qed
qed

lemma IncrementRuntimeVersion_Inr:
  assumes "IncrementRuntimeVersion environmentID (ID config) E w = (Inr u, w')"
    "distinct (map ID (configs (database w)))" "config \<in> set (configs (database w))"
  shows "\<exists>now n. w' = w\<lparr>database := configs_update (next_generation (ID config) now) (database w), tick := n\<rparr>"
proof -
  let ?cond = "\<lambda>r. DeletedAt r = None \<and> ID r = ID config \<and> c_RuntimeVersion r < MaxInt64_value"
  from assms(1) obtain now r where w': "w' = w\<lparr>database := configs_update (update_rows ?cond
      (\<lambda>r. r\<lparr>c_RuntimeVersion := c_RuntimeVersion r + 1, UpdatedAt := now\<rparr>)) (database w), tick := Suc (Suc (Suc (tick w)))\<rparr>"
    and r: "r \<in> set (configs (database w))" "?cond r"
    by (auto simp: IncrementRuntimeVersion_def updateConfigs_def lockScopedConfig_def getM_Inr run_simps)
  have "?cond config" using r row_unique [OF assms(2) _ assms(3)] by force
  then have "configs_update (update_rows ?cond (\<lambda>r. r\<lparr>c_RuntimeVersion := c_RuntimeVersion r + 1, UpdatedAt := now\<rparr>)) (database w) =
      configs_update (next_generation (ID config) now) (database w)"
    unfolding next_generation_def
    by (intro table_update_cong(2) update_rows_unique [where g = ID and t = config] assms(2,3)) auto
  then show ?thesis using w' by auto
qed

lemma persistPublication_Inr:
  assumes "persistPublication change E w = (Inr u, w')" "publication_ready K iter (database w) request change"
    "distinct (map ID (snapshots (database w)))" "distinct (map ID (configs (database w)))"
    "request_status request = SnapshotStatusUnreleased \<or> request_status request = SnapshotStatusReleased"
  shows "\<exists>row now. database w' = audit_logs_update (\<lambda>rows. rows @ [row])
      (configs_update (next_generation (ID (change_config change)) now) (snapshots_update (publication_rows change) (database w))) \<and>
    audit_matches row (publishAudit (request_actor request) (auditAction change) (request_snapshotID request))
      (request_environmentID request) \<and>
    cache w' = cache w \<and> last_id w' = (last_id w)(AuditLogsTable := last_id w AuditLogsTable + 1)"
proof -
  have rq: "change_request change = request" and t: "ID (change_target change) = request_snapshotID request"
    and c: "change_config change \<in> set (configs (database w))" using assms(2) by (auto simp: publication_ready_def Let_def)
  from assms(1) rq t obtain w1 w2 where st: "applyPublicationStatus change E w = (Inr (), w1)"
    and inc: "IncrementRuntimeVersion (request_environmentID request) (ID (change_config change)) E w1 = (Inr (), w2)"
    and aud: "RecordForEnvironment (request_environmentID request)
       (publishAudit (request_actor request) (auditAction change) (request_snapshotID request)) E w2 = (Inr (), w')"
    by (auto simp: persistPublication_def run_simps)
  from applyPublicationStatus_Inr [OF st assms(2,3,5)] obtain n where
    w1: "w1 = w\<lparr>database := snapshots_update (publication_rows change) (database w), tick := n\<rparr>" by blast
  with IncrementRuntimeVersion_Inr [OF inc] assms(4) c obtain now n' where
    w2: "w2 = w1\<lparr>database := configs_update (next_generation (ID (change_config change)) now) (database w1), tick := n'\<rparr>" by auto
  from RecordForEnvironment_Inr [OF aud] w1 w2 show ?thesis
    by (fastforce simp: audit_matches_def)
qed

definition cache_frame :: "world \<Rightarrow> world \<Rightarrow> bool" where
  "cache_frame w w' \<longleftrightarrow> (\<forall>k v. memory_holds (cache w') k v \<longrightarrow>
     memory_holds (cache w) k v \<or> (\<exists>u e n. k = permissionContentKey u e n))"

lemma cache_frame_refl [simp]: "cache_frame w w" and cache_frame_same: "cache w' = cache w \<Longrightarrow> cache_frame w w'"
  by (simp_all add: cache_frame_def)

lemma cache_frame_trans: "cache_frame a b \<Longrightarrow> cache_frame b c \<Longrightarrow> cache_frame a c"
  unfolding cache_frame_def by blast

lemma auth_frame_cache: "auth_frame w w' \<Longrightarrow> cache_frame w w'"
  by (simp add: auth_frame_def cache_frame_def)

lemma cacheDeleteM_effect:
  assumes "cacheDeleteM key E w = (r, w')"
  shows "database w' = database w" "last_id w' = last_id w" "cache_frame w w'"
  using assms by (auto simp: cacheDeleteM_def cache_frame_def split: prod.splits dest: mem.del_keeps)

lemma publish_cleanup_effect:
  assumes "publish_cleanup key E w = (r, w')"
  shows "r = Inr () \<and> database w' = database w \<and> last_id w' = last_id w \<and> cache_frame w w'"
proof -
  from assms obtain c where "cacheDeleteM (contentCacheKey (cleanup_projectID key) (cleanup_configKey key) (cleanup_runtimeVersion key)) E w = (c, w')"
    and "r = Inr ()"
    by (cases r) (auto simp: publish_cleanup_def DeletePublishedConfigVersion_def run_simps)
  then show ?thesis using cacheDeleteM_effect by blast
qed

lemma database_persistPublication [database_intro]: "database_only (persistPublication change)"
  unfolding persistPublication_def applyPublicationStatus_def retireReleasedSnapshot_def SetUnreleased_def SetReleased_def
    updateSnapshots_def IncrementRuntimeVersion_def lockScopedConfig_def updateConfigs_def RecordForEnvironment_def
    RecordPrepareInsert_def insertTimes_def insertAudit_def
  by (intro database_intro)

text \<open>Everything a successful publication or withdrawal establishes.\<close>

definition publication_done ::
  "codec \<Rightarrow> (string list \<Rightarrow> string list) \<Rightarrow> db \<Rightarrow> publicationRequest \<Rightarrow> publicationChange \<Rightarrow> db \<Rightarrow> bool" where
  "publication_done K iter d request change d' \<longleftrightarrow>
     publication_ready K iter d request change \<and>
     (\<exists>row now. d' = audit_logs_update (\<lambda>rows. rows @ [row])
        (configs_update (next_generation (ID (change_config change)) now) (snapshots_update (publication_rows change) d)) \<and>
      audit_matches row (publishAudit (request_actor request) (auditAction change) (request_snapshotID request))
        (request_environmentID request))"

lemma changePublication_effect:
  assumes tx: "transaction_runner tx" and run: "changePublication tx K iter request E w = (r, w')"
    and coh: "perm_coherent (database w) (cache w)" "plain_catalog (database w)"
    and ids: "distinct (map ID (snapshots (database w)))" "distinct (map ID (configs (database w)))"
    and st: "request_status request = SnapshotStatusUnreleased \<or> request_status request = SnapshotStatusReleased"
  shows "cache_frame w w' \<and>
    (case r of
       Inl e \<Rightarrow> database w' = database w
     | Inr s \<Rightarrow> authorised (database w) (Actor_UserID (request_actor request)) (request_environmentID request) [''snapshot:publish''] \<and>
         (\<exists>change. publication_done K iter (database w) request change (database w') \<and> s = change_result change))"
proof -
  let ?body = "\<lambda>found. bindM (preparePublication K iter request (s_ConfigID found)) (\<lambda>change.
                bindM (persistPublication change) (\<lambda>_. returnM change))"
  have auth: "cache_frame w w1 \<and> database w1 = database w \<and> (a = Inr x \<longrightarrow>
      authorised (database w) (Actor_UserID (request_actor request)) (request_environmentID request) [''snapshot:publish''])"
    if "authorizedSnapshot request E w = (a, w1)" for a w1 x
    using that unfolding authorizedSnapshot_def
  proof (cases rule: bindM_elim)
    case (fails e)
    with Require_effect [OF fails(1) coh] show ?thesis by (simp add: auth_frame_cache auth_frame_def)
  next
    case (continues u w0)
    have "quiet w0 w1" using continues(2) unfolding snapshot_FindByID_def by (rule readsD [OF reads_getM])
    with Require_effect [OF continues(1) coh] show ?thesis
      by (auto simp: quiet_def auth_frame_def cache_frame_def)
  qed
  have body: "cache w2 = cache w1 \<and> (x = Inr change \<longrightarrow> publication_done K iter (database w1) request change (database w2))"
    if "?body found E w1 = (x, w2)" "database w1 = database w" for found x w1 w2 change
  proof -
    have "database_only (?body found)" by (intro database_intro reads_database_only [OF reads_preparePublication])
    then have cache: "cache w2 = cache w1" using that(1) by (simp add: database_only_def database_step_def)
    moreover have "publication_done K iter (database w1) request change (database w2)" if x: "x = Inr change"
    proof -
      from \<open>?body found E w1 = (x, w2)\<close> x obtain w0 where prep: "preparePublication K iter request (s_ConfigID found) E w1 = (Inr change, w0)"
        and pers: "persistPublication change E w0 = (Inr (), w2)" by (auto simp: run_simps)
      from preparePublication_Inr [OF prep] ids(2) \<open>database w1 = database w\<close>
      have ready: "publication_ready K iter (database w1) request change" "database w0 = database w1" by (auto simp: quiet_def)
      with persistPublication_Inr [OF pers] ids st \<open>database w1 = database w\<close> show ?thesis
        unfolding publication_done_def by metis
    qed
    ultimately show ?thesis by simp
  qed
  show ?thesis
    using run unfolding changePublication_def
  proof (cases rule: bindM_elim)
    case (fails e)
    with auth [OF fails(1)] show ?thesis by simp
  next
    case (continues found w1)
    note a = auth [OF continues(1), of found]
    from continues(2) show ?thesis
    proof (cases rule: bindM_elim)
      case (fails e)
      from tx_rollback [OF tx fails(1)] obtain x w2 where b: "?body found E w1 = (x, w2)" and w': "w' = w2\<lparr>database := database w1\<rparr>"
        by blast
      with body [OF b] a fails(2) show ?thesis by (auto simp: cache_frame_def)
    next
      case (continues change w2)
      have b: "?body found E w1 = (Inr change, w2)" by (rule tx_commit [OF tx continues(1)])
      obtain c w3 where cl: "publish_cleanup (change_cleanupKey change) E w2 = (c, w3)" by fastforce
      note ce = publish_cleanup_effect [OF cl]
      with continues(2) cl have "w' = w3" "r = Inr (change_result change)" by (simp_all add: bindM_def returnM_def)
      with body [OF b, of change] a ce show ?thesis by (auto simp: cache_frame_def)
    qed
  qed
qed

section \<open>An installation with a release\<close>

text \<open>
  A concrete codec that knows two configuration messages, and the example installation with a config of
  key \<^verbatim>\<open>port\<close>, its released snapshot 20 and an unreleased snapshot 21.
\<close>

definition port_message :: "string \<Rightarrow> Config" where
  "port_message v = \<lparr>Config_Id = 10, Config_ProjectId = 1, Config_Key = ''port'', Config_Description = '''',
     Config_IsArray = False, Config_Type = Some (Some (BaseType Field_INT)), Config_Value = v, Config_RuntimeVersion = 0,
     Config_Meta = zero_meta\<rparr>"

definition port_tree :: tree_node where
  "port_tree = TreeNode \<lparr>Field_Key = ''port'', Field_Name = ''port'', Field_Description = '''', Field_IsArray = False,
     Field_Type = Some (Some (BaseType Field_INT))\<rparr> []"

definition example_codec :: codec where
  "example_codec = \<lparr>
     marshal_field_type = (\<lambda>t. Inr ''3''), unmarshal_field_type = (\<lambda>s. Inr (Some (BaseType Field_INT))),
     marshal_field = (\<lambda>f. Inr ''4''), unmarshal_field = (\<lambda>s. Inl (OtherError ''field'')),
     marshal_config = (\<lambda>c. Inr (Config_Value c)),
     unmarshal_config = (\<lambda>s. if s = ''8080'' \<or> s = ''9090'' then Inr (port_message s) else Inl (OtherError ''config'')),
     marshal_structure = (\<lambda>s. Inl (OtherError ''structure'')), unmarshal_structure = (\<lambda>s. Inl (OtherError ''structure'')),
     marshal_enum = (\<lambda>e. Inl (OtherError ''enum'')), unmarshal_enum = (\<lambda>s. Inl (OtherError ''enum'')),
     marshal_tree = (\<lambda>t. Inr ''2''), unmarshal_tree = (\<lambda>s. Inr port_tree)\<rparr>"

definition port_content :: "string \<Rightarrow> string" where
  "port_content v = wire_json \<lparr>wire_config = v, wire_structures = [], wire_enums = [], wire_tree = ''2''\<rparr>"

definition port_config :: config_row where
  "port_config = \<lparr>ID = 10, CreatedBy = 7, UpdatedBy = 7, CreatedAt = 1, UpdatedAt = 1, Version = 1, DeletedAt = None,
     c_ProjectID = 1, c_Key = ''port'', c_Description = '''', c_IsArray = False, c_TypeJSON = ''3'', c_Value = ''9090'',
     c_RuntimeVersion = 5\<rparr>"

definition port_snapshot :: "int \<Rightarrow> string \<Rightarrow> SnapshotStatus \<Rightarrow> snapshot_row" where
  "port_snapshot i v st = \<lparr>ID = i, CreatedBy = 7, UpdatedBy = 7, CreatedAt = 1, UpdatedAt = 1, Version = 1, DeletedAt = None,
     s_ProjectID = 1, s_ConfigID = 10, s_ConfigKey = ''port'', s_Description = '''', s_Content = port_content v, s_Status = st,
     s_TagsJSON = ''[]'', s_IsUsing = False, s_PublishedAt = None, s_PublishedBy = None\<rparr>"

definition publish_world :: world where
  "publish_world = example_world\<lparr>database := example_db\<lparr>configs := [port_config],
     snapshots := [port_snapshot 20 ''8080'' SnapshotStatusReleased, port_snapshot 21 ''9090'' SnapshotStatusUnreleased]\<rparr>\<rparr>"

lemma publish_world_ok:
  "perm_coherent (database publish_world) (cache publish_world)" "plain_catalog (database publish_world)"
  "distinct (map ID (snapshots (database publish_world)))" "distinct (map ID (configs (database publish_world)))"
proof -
  show "perm_coherent (database publish_world) (cache publish_world)"
    by (simp add: perm_coherent_def publish_world_def example_world_def newMemory_def memory_holds_def)
  show "plain_catalog (database publish_world)" by code_simp
qed (simp_all add: publish_world_def port_config_def port_snapshot_def)

lemma publish_world_switches:
  "case Publish run_tx example_codec (\<lambda>ks. ks) example_actor 1 21 1 example_engine publish_world of
     (r, w') \<Rightarrow> map_sum (\<lambda>_. ()) ID r = Inr 21 \<and> map c_RuntimeVersion (configs (database w')) = [6]"
  by code_simp

section \<open>Publishing\<close>

lemma publish_rows_released:
  assumes "distinct (map ID rows)" "t \<in> set rows" "DeletedAt t = None" "s_ConfigID t = ID config" "s_ProjectID t = c_ProjectID config"
  shows "{x \<in> set (publish_rows user now config (ID t) rows). released_in config x} = {release_row user now t}"
proof -
  have "x = release_row user now t" if "r \<in> set rows" "released_in config x"
    "x = (if ID r = ID t then release_row user now r else if released_in config r then retire_row user now r else r)" for x r
    using that row_unique [OF assms(1) that(1) assms(2)] by (auto simp: released_in_def split: if_splits)
  then have "{x \<in> set (publish_rows user now config (ID t) rows). released_in config x} \<subseteq> {release_row user now t}"
    unfolding publish_rows_def set_map by blast
  moreover have "release_row user now t \<in> set (publish_rows user now config (ID t) rows)"
    unfolding publish_rows_def set_map by (rule image_eqI [OF _ assms(2)]) simp
  moreover have "released_in config (release_row user now t)" using assms(3-5) by (simp add: released_in_def)
  ultimately show ?thesis by blast
qed

lemma unpublish_rows_released:
  assumes "distinct (map ID rows)" "{x \<in> set rows. released_in config x} \<subseteq> {t}" "t \<in> set rows"
  shows "{x \<in> set (unpublish_rows user now (ID t) rows). released_in config x} = {}"
  using assms by (auto simp: unpublish_rows_def set_update_rows released_in_def)

lemma published_facts:
  assumes "publication_done K iter d request change d'" "request_status request = SnapshotStatusReleased"
    "distinct (map ID (snapshots d))"
  shows "publication_rows change = publish_rows (Actor_UserID (request_actor request)) (change_changedAt change) (change_config change) (request_snapshotID request)"
    "change_result change = release_row (Actor_UserID (request_actor request)) (change_changedAt change) (change_target change)"
    "{x \<in> set (snapshots d'). released_in (change_config change) x} = {change_result change}"
    "s_Status (change_target change) = SnapshotStatusUnreleased"
    "validateSnapshot K iter (change_target change) (change_config change) = Inr ()"
    "auditAction change = ''snapshot.publish''"
proof -
  from assms(1) obtain entry now' where ready: "publication_ready K iter d request change"
    and d': "d' = audit_logs_update (\<lambda>rows. rows @ [entry])
      (configs_update (next_generation (ID (change_config change)) now') (snapshots_update (publication_rows change) d))"
    unfolding publication_done_def by blast
  show rows: "publication_rows change = publish_rows (Actor_UserID (request_actor request)) (change_changedAt change) (change_config change) (request_snapshotID request)"
    and res: "change_result change = release_row (Actor_UserID (request_actor request)) (change_changedAt change) (change_target change)"
    and "s_Status (change_target change) = SnapshotStatusUnreleased"
    and "validateSnapshot K iter (change_target change) (change_config change) = Inr ()"
    and "auditAction change = ''snapshot.publish''"
    using ready assms(2)
    by (auto simp: publication_ready_def publication_rows_def change_result_def release_row_def auditAction_def Let_def)
  have t: "change_target change \<in> set (snapshots d)" "ID (change_target change) = request_snapshotID request"
      "DeletedAt (change_target change) = None" "s_ConfigID (change_target change) = ID (change_config change)"
      "s_ProjectID (change_target change) = c_ProjectID (change_config change)"
    using ready by (auto simp: publication_ready_def Let_def)
  show "{x \<in> set (snapshots d'). released_in (change_config change) x} = {change_result change}"
    using publish_rows_released [OF assms(3) t(1,3,4,5)] t(2) by (simp add: d' rows res)
qed

lemma withdrawn_facts:
  assumes "publication_done K iter d request change d'" "request_status request = SnapshotStatusUnreleased"
    "distinct (map ID (snapshots d))"
  shows "publication_rows change = unpublish_rows (Actor_UserID (request_actor request)) (change_changedAt change) (request_snapshotID request)"
    "change_result change = retire_row (Actor_UserID (request_actor request)) (change_changedAt change) (change_target change)"
    "{x \<in> set (snapshots d'). released_in (change_config change) x} = {}"
    "released_in (change_config change) (change_target change)"
    "auditAction change = ''snapshot.unpublish''"
proof -
  from assms(1) obtain entry now' where ready: "publication_ready K iter d request change"
    and d': "d' = audit_logs_update (\<lambda>rows. rows @ [entry])
      (configs_update (next_generation (ID (change_config change)) now') (snapshots_update (publication_rows change) d))"
    unfolding publication_done_def by blast
  show rows: "publication_rows change = unpublish_rows (Actor_UserID (request_actor request)) (change_changedAt change) (request_snapshotID request)"
    and "change_result change = retire_row (Actor_UserID (request_actor request)) (change_changedAt change) (change_target change)"
    and rel: "released_in (change_config change) (change_target change)"
    and "auditAction change = ''snapshot.unpublish''"
    using ready assms(2)
    by (auto simp: publication_ready_def publication_rows_def change_result_def retire_row_def auditAction_def released_in_def Let_def)
  have t: "change_target change \<in> set (snapshots d)" "ID (change_target change) = request_snapshotID request"
    and only: "{x \<in> set (snapshots d). released_in (change_config change) x} = set_option (change_released change)"
    using ready by (auto simp: publication_ready_def released_in_def Let_def)
  have "change_target change \<in> set_option (change_released change)" unfolding only [symmetric] using t(1) rel by simp
  then have "{x \<in> set (snapshots d). released_in (change_config change) x} \<subseteq> {change_target change}"
    unfolding only by auto
  from unpublish_rows_released [OF assms(3) this t(1)] t(2)
  show "{x \<in> set (snapshots d'). released_in (change_config change) x} = {}" by (simp add: d' rows)
qed

text \<open>
  C27. Publishing a snapshot switches the release of its config atomically. On an error the database is
  unchanged. On success the caller was authorised, the snapshot was an unreleased live one at exactly the
  version the caller expected, and its content belongs to the config and satisfies its schema; afterwards it
  is the only released snapshot of the config, the one released before (if any) is withdrawn, every other
  snapshot is untouched, the config moves to its next runtime generation and one audit entry is added.
\<close>

theorem Publish_switches_release:
  assumes "transaction_runner tx" "perm_coherent (database w) (cache w)" "plain_catalog (database w)"
    "distinct (map ID (snapshots (database w)))" "distinct (map ID (configs (database w)))"
    "Publish tx K iter actor environmentID snapshotID expectedVersion E w = (r, w')"
  shows "case r of
      Inl e \<Rightarrow> database w' = database w
    | Inr s \<Rightarrow> authorised (database w) (Actor_UserID actor) environmentID [''snapshot:publish''] \<and>
        (\<exists>config target now now' entry. target \<in> set (snapshots (database w)) \<and> DeletedAt target = None \<and> ID target = snapshotID \<and>
          Version target = expectedVersion \<and> s_Status target = SnapshotStatusUnreleased \<and>
          config \<in> set (configs (database w)) \<and> s_ConfigID target = ID config \<and> s_ProjectID target = c_ProjectID config \<and>
          validateSnapshot K iter target config = Inr () \<and>
          s = release_row (Actor_UserID actor) now target \<and>
          {x \<in> set (snapshots (database w')). released_in config x} = {s} \<and>
          audit_matches entry (publishAudit actor ''snapshot.publish'' snapshotID) environmentID \<and>
          database w' = audit_logs_update (\<lambda>rows. rows @ [entry]) (configs_update (next_generation (ID config) now')
            (snapshots_update (publish_rows (Actor_UserID actor) now config snapshotID) (database w))))"
proof -
  let ?q = "\<lparr>request_actor = actor, request_environmentID = environmentID, request_snapshotID = snapshotID,
       request_expectedVersion = expectedVersion, request_status = SnapshotStatusReleased\<rparr>"
  from assms(6) have run: "changePublication tx K iter ?q E w = (r, w')" by (simp add: Publish_def)
  note eff = changePublication_effect [OF assms(1) run assms(2-5)]
  show ?thesis
  proof (cases r)
    case (Inl e)
    with eff show ?thesis by simp
  next
    case (Inr s)
    with eff obtain change where auth: "authorised (database w) (Actor_UserID actor) environmentID [''snapshot:publish'']"
      and don: "publication_done K iter (database w) ?q change (database w')" and s: "s = change_result change" by auto
    from don obtain entry now' where ready: "publication_ready K iter (database w) ?q change"
      and d': "database w' = audit_logs_update (\<lambda>rows. rows @ [entry])
        (configs_update (next_generation (ID (change_config change)) now') (snapshots_update (publication_rows change) (database w)))"
      and entry: "audit_matches entry (publishAudit actor (auditAction change) snapshotID) environmentID"
      unfolding publication_done_def by auto
    have t: "change_target change \<in> set (snapshots (database w))" "ID (change_target change) = snapshotID"
        "DeletedAt (change_target change) = None" "s_ConfigID (change_target change) = ID (change_config change)"
        "s_ProjectID (change_target change) = c_ProjectID (change_config change)"
        "Version (change_target change) = expectedVersion" "change_config change \<in> set (configs (database w))"
      using ready by (auto simp: publication_ready_def Let_def)
    note facts = published_facts [OF don _ assms(4), simplified]
    show ?thesis unfolding Inr sum.case
      using auth t entry [unfolded facts(6)] d' [unfolded facts(1)] facts(3) [folded s] s [unfolded facts(2)] facts(4,5)
      by (intro exI [of _ "change_config change"] exI [of _ "change_target change"] exI [of _ "change_changedAt change"]
          exI [of _ now'] exI [of _ entry] conjI)
  qed
qed

theorem Publish_switches_release_witness:
  "\<exists>s. fst (Publish run_tx example_codec (\<lambda>ks. ks) example_actor 1 21 1 example_engine publish_world) = Inr s \<and>
     ID s = 21 \<and> (\<exists>config. {x \<in> set (snapshots (database (snd
       (Publish run_tx example_codec (\<lambda>ks. ks) example_actor 1 21 1 example_engine publish_world)))). released_in config x} = {s})"
proof -
  obtain r w' where run: "Publish run_tx example_codec (\<lambda>ks. ks) example_actor 1 21 1 example_engine publish_world = (r, w')"
    by fastforce
  with publish_world_switches obtain s where s: "r = Inr s" "ID s = 21" by (cases r) auto
  from Publish_switches_release [OF run_tx_runner publish_world_ok run] s show ?thesis unfolding run by auto
qed

text \<open>
  C28. Withdrawing a release is atomic and complete: on an error the database is unchanged; on success the
  caller was authorised, the snapshot was the released one of its config at exactly the expected version,
  the config has no released snapshot afterwards and moves to its next runtime generation, no other snapshot
  changes and one audit entry is added.
\<close>

theorem Unpublish_withdraws:
  assumes "transaction_runner tx" "perm_coherent (database w) (cache w)" "plain_catalog (database w)"
    "distinct (map ID (snapshots (database w)))" "distinct (map ID (configs (database w)))"
    "Unpublish tx K iter actor environmentID snapshotID expectedVersion E w = (r, w')"
  shows "case r of
      Inl e \<Rightarrow> database w' = database w
    | Inr s \<Rightarrow> authorised (database w) (Actor_UserID actor) environmentID [''snapshot:publish''] \<and>
        (\<exists>config target now now' entry. target \<in> set (snapshots (database w)) \<and> ID target = snapshotID \<and>
          released_in config target \<and> Version target = expectedVersion \<and> config \<in> set (configs (database w)) \<and>
          s = retire_row (Actor_UserID actor) now target \<and>
          {x \<in> set (snapshots (database w')). released_in config x} = {} \<and>
          audit_matches entry (publishAudit actor ''snapshot.unpublish'' snapshotID) environmentID \<and>
          database w' = audit_logs_update (\<lambda>rows. rows @ [entry]) (configs_update (next_generation (ID config) now')
            (snapshots_update (unpublish_rows (Actor_UserID actor) now snapshotID) (database w))))"
proof -
  let ?q = "\<lparr>request_actor = actor, request_environmentID = environmentID, request_snapshotID = snapshotID,
       request_expectedVersion = expectedVersion, request_status = SnapshotStatusUnreleased\<rparr>"
  from assms(6) have run: "changePublication tx K iter ?q E w = (r, w')" by (simp add: Unpublish_def)
  note eff = changePublication_effect [OF assms(1) run assms(2-5)]
  show ?thesis
  proof (cases r)
    case (Inl e)
    with eff show ?thesis by simp
  next
    case (Inr s)
    with eff obtain change where auth: "authorised (database w) (Actor_UserID actor) environmentID [''snapshot:publish'']"
      and don: "publication_done K iter (database w) ?q change (database w')" and s: "s = change_result change" by auto
    from don obtain entry now' where ready: "publication_ready K iter (database w) ?q change"
      and d': "database w' = audit_logs_update (\<lambda>rows. rows @ [entry])
        (configs_update (next_generation (ID (change_config change)) now') (snapshots_update (publication_rows change) (database w)))"
      and entry: "audit_matches entry (publishAudit actor (auditAction change) snapshotID) environmentID"
      unfolding publication_done_def by auto
    have t: "change_target change \<in> set (snapshots (database w))" "ID (change_target change) = snapshotID"
        "Version (change_target change) = expectedVersion" "change_config change \<in> set (configs (database w))"
      using ready by (auto simp: publication_ready_def Let_def)
    note facts = withdrawn_facts [OF don _ assms(4), simplified]
    show ?thesis unfolding Inr sum.case
      using auth t facts(4) entry [unfolded facts(5)] d' [unfolded facts(1)] s [unfolded facts(2)] facts(3)
      by (intro exI [of _ "change_config change"] exI [of _ "change_target change"] exI [of _ "change_changedAt change"]
          exI [of _ now'] exI [of _ entry] conjI) simp_all
  qed
qed

theorem Unpublish_withdraws_witness:
  "\<exists>config. config \<in> set (configs (database publish_world)) \<and> {x \<in> set (snapshots (database (snd
     (Unpublish run_tx example_codec (\<lambda>ks. ks) example_actor 1 20 1 example_engine publish_world)))). released_in config x} = {}"
proof -
  obtain r w' where run: "Unpublish run_tx example_codec (\<lambda>ks. ks) example_actor 1 20 1 example_engine publish_world = (r, w')"
    by fastforce
  have "case Unpublish run_tx example_codec (\<lambda>ks. ks) example_actor 1 20 1 example_engine publish_world of
     (r, w') \<Rightarrow> map_sum (\<lambda>_. ()) ID r = Inr 20" by code_simp
  with run obtain s where s: "r = Inr s" by (cases r) auto
  from Unpublish_withdraws [OF run_tx_runner publish_world_ok run] s show ?thesis unfolding run by auto
qed

end
