(* ===== verification/Runtime_Props.thy ===== *)
theory Runtime_Props
  imports Publish_Props
begin

text \<open>
  Correctness of runtime reads: the content cache is coherent with the releases, a read is authenticated
  and answers with the released value of the requested config, and publications keep the cache coherent.
\<close>

section \<open>Cache keys\<close>

lemma contentCacheKey_inject [simp]:
  "contentCacheKey p k n = contentCacheKey p' k' n' \<longleftrightarrow> p = p' \<and> k = k' \<and> n = n'"
  using append_sep_inject [OF colon_notin_FormatInt colon_notin_FormatInt]
    append_sep_inject_last [OF colon_notin_FormatInt colon_notin_FormatInt]
  by (simp add: contentCacheKey_def)

lemma content_not_permission [simp]: "contentCacheKey p k n \<noteq> permissionContentKey u e v"
  by (simp add: contentCacheKey_def permissionContentKey_def)

section \<open>Released values\<close>

definition release_of :: "db \<Rightarrow> int \<Rightarrow> int \<Rightarrow> snapshot_row option" where
  "release_of d projectID configID =
     first_row (rev (sort_key ID (filter (\<lambda>s. s_ProjectID s = projectID \<and> s_ConfigID s = configID \<and>
       s_Status s = SnapshotStatusReleased \<and> DeletedAt s = None) (snapshots d))))"

definition content_value :: "codec \<Rightarrow> string \<Rightarrow> int \<Rightarrow> int \<Rightarrow> string \<Rightarrow> string option" where
  "content_value K content configID projectID key =
     (case DecodeConfigSnapshot K content of
        Inl _ \<Rightarrow> None
      | Inr decoded \<Rightarrow> (case Snapshot_Config decoded of
          None \<Rightarrow> None
        | Some c \<Rightarrow> if Config_Id c = configID \<and> Config_ProjectId c = projectID \<and> Config_Key c = key
                   then Some (Config_Value c) else None))"

text \<open>The value clients are to see for a config: the one its released snapshot carries.\<close>

definition released_value :: "codec \<Rightarrow> db \<Rightarrow> config_row \<Rightarrow> string option" where
  "released_value K d c = (case release_of d (c_ProjectID c) (ID c) of
     None \<Rightarrow> None | Some s \<Rightarrow> content_value K (s_Content s) (ID c) (c_ProjectID c) (c_Key c))"

lemma releasedContent_Inr:
  assumes "releasedContent K c E w = (Inr v, w')"
  shows "released_value K (database w) c = Some v"
proof -
  from assms obtain s w1 where s: "release_of (database w) (c_ProjectID c) (ID c) = Some s"
    and rest: "(case DecodeConfigSnapshot K (s_Content s) of
         Inl e \<Rightarrow> failM (Wrapped ''decode released runtime snapshot'' e)
       | Inr decoded \<Rightarrow>
           (case Snapshot_Config decoded of
              None \<Rightarrow> failM (OtherError ''released runtime snapshot scope does not match config'')
            | Some m \<Rightarrow>
                if Config_Id m \<noteq> ID c \<or> Config_ProjectId m \<noteq> c_ProjectID c \<or> Config_Key m \<noteq> c_Key c
                then failM (OtherError ''released runtime snapshot scope does not match config'')
                else returnM (Config_Value m))) E w1 = (Inr v, w')"
    by (auto simp: releasedContent_def FindReleasedSnapshot_def getM_Inr bindM_Inr release_of_def)
  from rest have "content_value K (s_Content s) (ID c) (c_ProjectID c) (c_Key c) = Some v"
    by (auto simp: content_value_def run_simps split: sum.splits option.splits if_splits)
  with s show ?thesis by (simp add: released_value_def)
qed

lemma reads_releasedContent [reads_intro]: "reads (releasedContent K c)"
  unfolding releasedContent_def FindReleasedSnapshot_def
  by (intro reads_intro) (auto split: sum.splits option.splits intro: reads_intro)

section \<open>Coherence of the content cache\<close>

text \<open>
  For every live config the cache holds no entry of a later generation than the current one, and an entry
  of the current generation is the released value.
\<close>

definition content_coherent :: "codec \<Rightarrow> db \<Rightarrow> memoryStore \<Rightarrow> bool" where
  "content_coherent K d s \<longleftrightarrow> (\<forall>c \<in> set (configs d). \<forall>n v. DeletedAt c = None \<longrightarrow>
     memory_holds s (contentCacheKey (c_ProjectID c) (c_Key c) n) v \<longrightarrow>
     n \<le> c_RuntimeVersion c \<and> (n = c_RuntimeVersion c \<longrightarrow> released_value K d c = Some v))"

definition unique_config_keys :: "db \<Rightarrow> bool" where
  "unique_config_keys d \<longleftrightarrow> distinct (map (\<lambda>c. (c_ProjectID c, c_Key c)) (configs d))"

definition int64_versions :: "db \<Rightarrow> bool" where
  "int64_versions d \<longleftrightarrow> (\<forall>c \<in> set (configs d). - (2 ^ 63) \<le> c_RuntimeVersion c \<and> c_RuntimeVersion c < 2 ^ 63)"

lemma content_coherentD:
  assumes "content_coherent K d s" "c \<in> set (configs d)" "DeletedAt c = None"
    "memory_holds s (contentCacheKey (c_ProjectID c) (c_Key c) n) v"
  shows "n \<le> c_RuntimeVersion c" "n = c_RuntimeVersion c \<Longrightarrow> released_value K d c = Some v"
  using assms unfolding content_coherent_def by blast+

lemma content_coherent_grow:
  assumes "content_coherent K d s"
    "\<And>k v. memory_holds s' k v \<Longrightarrow> memory_holds s k v \<or> (\<exists>u e n. k = permissionContentKey u e n) \<or>
       (\<exists>c \<in> set (configs d). k = contentCacheKey (c_ProjectID c) (c_Key c) (c_RuntimeVersion c) \<and> released_value K d c = Some v)"
    "unique_config_keys d"
  shows "content_coherent K d s'"
  unfolding content_coherent_def
proof (intro ballI allI impI)
  fix c n v
  assume c: "c \<in> set (configs d)" "DeletedAt c = None" and h: "memory_holds s' (contentCacheKey (c_ProjectID c) (c_Key c) n) v"
  from assms(2) [OF h] show "n \<le> c_RuntimeVersion c \<and> (n = c_RuntimeVersion c \<longrightarrow> released_value K d c = Some v)"
  proof (elim disjE bexE exE)
    assume "memory_holds s (contentCacheKey (c_ProjectID c) (c_Key c) n) v"
    then show ?thesis using content_coherentD [OF assms(1) c] by blast
  next
    fix c'
    assume c': "c' \<in> set (configs d)" and "contentCacheKey (c_ProjectID c) (c_Key c) n =
        contentCacheKey (c_ProjectID c') (c_Key c') (c_RuntimeVersion c') \<and> released_value K d c' = Some v"
    moreover from this have "c = c'"
      using row_unique [OF assms(3) [unfolded unique_config_keys_def] c(1) c'] by simp
    ultimately show ?thesis by simp
  qed simp
qed

lemma content_coherent_frame: "content_coherent K (database w) (cache w) \<Longrightarrow> cache_frame w w' \<Longrightarrow>
    content_coherent K (database w) (cache w')"
  unfolding content_coherent_def cache_frame_def by (metis content_not_permission)

section \<open>Reading\<close>

definition fills_content :: "codec \<Rightarrow> world \<Rightarrow> world \<Rightarrow> bool" where
  "fills_content K w w' \<longleftrightarrow> (\<forall>k v. memory_holds (cache w') k v \<longrightarrow> memory_holds (cache w) k v \<or>
     (\<exists>c \<in> set (configs (database w)). k = contentCacheKey (c_ProjectID c) (c_Key c) (c_RuntimeVersion c) \<and>
        released_value K (database w) c = Some v))"

lemma fills_content_same: "cache w' = cache w \<Longrightarrow> fills_content K w w'"
  by (simp add: fills_content_def)

lemma fills_coherent:
  assumes "content_coherent K (database w) (cache w)" "unique_config_keys (database w)" "fills_content K w w'"
  shows "content_coherent K (database w) (cache w')"
  by (rule content_coherent_grow [OF assms(1) _ assms(2)]) (use assms(3) in \<open>auto simp: fills_content_def\<close>)

lemma fills_perm_coherent: "perm_coherent d (cache w) \<Longrightarrow> fills_content K w w' \<Longrightarrow> perm_coherent d (cache w')"
  unfolding perm_coherent_def fills_content_def by (metis content_not_permission)

lemma uint64_of_version:
  assumes "Uint64FromInt64 (word_of_int n) = Inr v" "- (2 ^ 63) \<le> n" "n < 2 ^ 63"
  shows "uint v = n"
proof -
  have "sint (word_of_int n :: 64 word) = n"
    using assms(2,3) by (simp add: sint_sbintrunc' signed_take_bit_int_eq_self)
  with assms(1) show ?thesis by (simp add: Uint64FromInt64_exact)
qed

definition served :: "codec \<Rightarrow> engine \<Rightarrow> db \<Rightarrow> int \<Rightarrow> string \<Rightarrow> RuntimeResult \<Rightarrow> bool" where
  "served K E d projectID key res \<longleftrightarrow> (\<exists>c \<in> set (configs d). DeletedAt c = None \<and> c_ProjectID c = projectID \<and>
     same_text E (c_Key c) key \<and> released_value K d c = Some (Runtime_Content res) \<and>
     Runtime_Version res = c_RuntimeVersion c)"

text \<open>The part of a read after a cache miss.\<close>

definition fill_and_serve :: "codec \<Rightarrow> config_row \<Rightarrow> int \<Rightarrow> RuntimeResult M" where
  "fill_and_serve K c version =
     bindM (releasedContent K c) (\<lambda>content.
     bindM (mapErrM (Wrapped ''write runtime content cache'')
       (cacheSetM (contentCacheKey (c_ProjectID c) (c_Key c) (c_RuntimeVersion c)) content contentTTL)) (\<lambda>_.
     returnM \<lparr>Runtime_Content = content, Runtime_Version = version\<rparr>))"

lemma fill_and_serve_effect:
  assumes "fill_and_serve K c version E w = (r, w')" "c \<in> set (configs (database w))"
  shows "database w' = database w \<and> last_id w' = last_id w \<and> fills_content K w w' \<and>
    (\<forall>res. r = Inr res \<longrightarrow> released_value K (database w) c = Some (Runtime_Content res) \<and> Runtime_Version res = version)"
  using assms(1) unfolding fill_and_serve_def
proof (cases rule: bindM_elim)
  case (fails e)
  with readsD [OF reads_releasedContent fails(1)] show ?thesis by (simp add: quiet_def fills_content_same)
next
  case (continues content w1)
  note q = readsD [OF reads_releasedContent continues(1)] and val = releasedContent_Inr [OF continues(1)]
  from continues(2) obtain x where
    put: "cacheSetM (contentCacheKey (c_ProjectID c) (c_Key c) (c_RuntimeVersion c)) content contentTTL E w1 = (x, w')"
    and res: "\<And>res. r = Inr res \<Longrightarrow> res = \<lparr>Runtime_Content = content, Runtime_Version = version\<rparr>"
    by (cases rule: bindM_elim) (auto simp: run_simps elim!: mapErrM_elim)
  note pe = cacheSetM_effect [OF put]
  have "fills_content K w w'"
    unfolding fills_content_def using pe(3) q val assms(2) by (fastforce simp: quiet_def)
  then show ?thesis using pe(1,2) q val by (auto simp: quiet_def dest: res)
qed

lemma readConfig_effect:
  assumes run: "readConfig K projectID key E w = (r, w')" and coh: "content_coherent K (database w) (cache w)"
    and rng: "int64_versions (database w)"
  shows "database w' = database w \<and> last_id w' = last_id w \<and> fills_content K w w' \<and>
    (\<forall>res. r = Inr res \<longrightarrow> served K E (database w) projectID key res)"
  using run unfolding readConfig_def
proof (cases rule: bindM_elim)
  case (fails e)
  have "quiet w w'" using fails(1) unfolding FindRuntimeConfig_def by (rule readsD [OF reads_getM])
  with fails show ?thesis by (simp add: quiet_def fills_content_same)
next
  case (continues c w1)
  have q: "quiet w w1" using continues(1) unfolding FindRuntimeConfig_def by (rule readsD [OF reads_getM])
  have c: "c \<in> set (configs (database w))" "c_ProjectID c = projectID" "same_text E (c_Key c) key" "DeletedAt c = None"
    using continues(1) by (auto simp: FindRuntimeConfig_def dest!: getM_member)
  have serve: "served K E (database w) projectID key res"
    if "released_value K (database w) c = Some (Runtime_Content res)" "Runtime_Version res = c_RuntimeVersion c" for res
    using that c unfolding served_def by (intro bexI [OF _ c(1)]) auto
  show ?thesis
  proof (cases "Uint64FromInt64 (word_of_int (c_RuntimeVersion c)) :: 64 word result")
    case (Inl e)
    with continues(2) q show ?thesis by (auto simp: run_simps quiet_def fills_content_same)
  next
    case (Inr version)
    have ver: "uint version = c_RuntimeVersion c"
      using uint64_of_version [OF Inr] rng c(1) by (simp add: int64_versions_def)
    obtain g w2 where get: "cacheGetM (contentCacheKey projectID (c_Key c) (c_RuntimeVersion c)) E w1 = (g, w2)" by fastforce
    note eff = cacheGetM_effect [OF get]
    have base: "database w2 = database w" "last_id w2 = last_id w" "fills_content K w w2"
      using eff(1,2,3) q by (auto simp: quiet_def fills_content_def)
    from continues(2) Inr get c(2) have rest: "(case g of
         Inr content \<Rightarrow> returnM \<lparr>Runtime_Content = content, Runtime_Version = uint version\<rparr>
       | Inl e \<Rightarrow> if e \<noteq> CacheNotFound then failM (Wrapped ''read runtime content cache'' e)
           else fill_and_serve K c (uint version)) E w2 = (r, w')"
      unfolding fill_and_serve_def c(2) by (simp add: bindM_def attemptM_def Let_def)
    show ?thesis
    proof (cases "g = Inl CacheNotFound")
      case True
      with rest fill_and_serve_effect [of K c "uint version" E w2 r w'] c(1) base ver serve show ?thesis
        by (fastforce simp: fills_content_def)
    next
      case False
      have hit: "released_value K (database w) c = Some content" if "g = Inr content" for content
        using content_coherentD(2) [OF coh c(1,4) _ refl, of content] eff(4) [OF that] q c(2) by (simp add: quiet_def)
      from False rest have w': "w' = w2" and res: "\<And>res. r = Inr res \<Longrightarrow>
          \<exists>content. g = Inr content \<and> res = \<lparr>Runtime_Content = content, Runtime_Version = uint version\<rparr>"
        by (auto simp: run_simps split: sum.splits if_splits)
      then show ?thesis using base hit ver serve by fastforce
    qed
  qed
qed

text \<open>Who a credential speaks for: an unrevoked key of a live project with an enabled environment.\<close>

definition authenticates :: "(string \<Rightarrow> string \<Rightarrow> string) \<Rightarrow> string \<Rightarrow> db \<Rightarrow> string \<Rightarrow> project_row \<Rightarrow> bool" where
  "authenticates hmac pepper d full p \<longleftrightarrow> p \<in> set (projects d) \<and> DeletedAt p = None \<and>
     (\<exists>e \<in> set (environments d). e_ProjectID e = ID p \<and> e_Enabled e \<and> DeletedAt e = None) \<and>
     (\<exists>k \<in> set (api_keys d). PublicID full = Inr (k_PublicID k) \<and> k_SecretHash k = hmac pepper full \<and>
        k_RevokedAt k = None \<and> k_ProjectID k = ID p)"

lemma FindRuntimeProject_Inr:
  assumes "FindRuntimeProject projectID E w = (Inr p, w')"
  shows "p \<in> set (projects (database w)) \<and> DeletedAt p = None \<and> ID p = projectID \<and>
    (\<exists>e \<in> set (environments (database w)). e_ProjectID e = ID p \<and> e_Enabled e \<and> DeletedAt e = None)"
proof -
  from assms have "p \<in> set [p. p \<leftarrow> projects (database w), e \<leftarrow> environments (database w),
       e_ProjectID e = ID p \<and> e_Enabled e \<and> DeletedAt e = None \<and> ID p = projectID \<and> DeletedAt p = None]"
    unfolding FindRuntimeProject_def by (rule getM_member)
  then show ?thesis unfolding join2 by blast
qed

lemma authenticate_Inr:
  assumes "authenticate hmac pepper request E w = (Inr p, w')"
    "PublicID (read_fullCredential request) = Inr (read_publicID request)"
  shows "authenticates hmac pepper (database w) (read_fullCredential request) p \<and> p_Key p = read_projectKey request"
proof -
  from assms(1) obtain k where k: "k \<in> set (api_keys (database w))" "k_PublicID k = read_publicID request"
      "Verify hmac pepper (read_fullCredential request) (k_PublicID k) (k_SecretHash k)" "k_RevokedAt k = None"
    and p: "FindRuntimeProject (k_ProjectID k) E (w\<lparr>tick := Suc (tick w)\<rparr>) = (Inr p, w')" and key: "p_Key p = read_projectKey request"
    by (auto simp: authenticate_def LockRuntimeCredential_def getM_Inr run_simps split: if_splits dest!: first_row_Some)
  from k(3) have "k_SecretHash k = hmac pepper (read_fullCredential request)"
    by (auto simp: Verify_def credential_hash_def split: sum.splits)
  then show ?thesis using k FindRuntimeProject_Inr [OF p] assms(2) key unfolding authenticates_def by (auto intro!: bexI [of _ k])
qed

lemma reads_authenticate [reads_intro]: "reads (authenticate hmac pepper request)"
  unfolding authenticate_def LockRuntimeCredential_def FindRuntimeProject_def by (intro reads_intro)

text \<open>What a read may do to a key: note its use at a later time than before, when it is the unrevoked key of the credential.\<close>

definition usage_noted :: "string \<Rightarrow> api_key_row \<Rightarrow> api_key_row \<Rightarrow> bool" where
  "usage_noted full k k' \<longleftrightarrow> k' = k \<or> (PublicID full = Inr (k_PublicID k) \<and> k_RevokedAt k = None \<and>
     (\<exists>now. (\<forall>t. k_LastUsedAt k = Some t \<longrightarrow> t < now) \<and> k' = k\<lparr>k_LastUsedAt := Some now, r_UpdatedAt := now\<rparr>))"

definition used_since :: "string \<Rightarrow> int \<Rightarrow> api_key_row list \<Rightarrow> bool" where
  "used_since full now keys \<longleftrightarrow> (\<forall>k \<in> set keys. PublicID full = Inr (k_PublicID k) \<longrightarrow> k_RevokedAt k = None \<longrightarrow>
     (\<exists>t. k_LastUsedAt k = Some t \<and> now \<le> t))"

definition read_effect :: "string \<Rightarrow> engine \<Rightarrow> bool \<Rightarrow> db \<Rightarrow> db \<Rightarrow> bool" where
  "read_effect full E answered d d' \<longleftrightarrow> (\<exists>keys. d' = api_keys_update (\<lambda>_. keys) d \<and> list_all2 (usage_noted full) (api_keys d) keys \<and>
     (answered \<longrightarrow> (\<exists>n. used_since full (clock E n) keys)))"

lemma read_effect_refl: "read_effect full E False d d"
  unfolding read_effect_def by (rule exI [of _ "api_keys d"]) (simp add: list.rel_refl usage_noted_def)

lemma MarkUsed_effect:
  assumes "MarkUsed publicID (clock E n) E w = (r, w')" "PublicID full = Inr publicID"
  shows "read_effect full E (r = Inr ()) (database w) (database w')" "cache w' = cache w" "last_id w' = last_id w"
proof -
  let ?cond = "\<lambda>k. k_PublicID k = publicID \<and> k_RevokedAt k = None \<and> (case k_LastUsedAt k of None \<Rightarrow> True | Some t \<Rightarrow> t < clock E n)"
  let ?set = "\<lambda>k. k\<lparr>k_LastUsedAt := Some (clock E n), r_UpdatedAt := clock E n\<rparr>"
  show "cache w' = cache w" "last_id w' = last_id w"
    using assms(1) by (cases r; auto simp: MarkUsed_def run_simps)+
  show "read_effect full E (r = Inr ()) (database w) (database w')"
  proof (cases r)
    case (Inl e)
    with assms(1) have "database w' = database w" by (auto simp: MarkUsed_def run_simps)
    with Inl show ?thesis by (simp add: read_effect_refl)
  next
    case (Inr u)
    with assms(1) have d: "database w' = api_keys_update (\<lambda>_. update_rows ?cond ?set (api_keys (database w))) (database w)"
      by (auto simp: MarkUsed_def run_simps)
    moreover have "list_all2 (usage_noted full) ks (update_rows ?cond ?set ks)" for ks
      unfolding update_rows_def list.rel_map
      by (intro list.rel_refl_strong) (auto simp: usage_noted_def assms(2) split: option.splits)
    moreover have "used_since full (clock E n) (update_rows ?cond ?set ks)" for ks
      unfolding used_since_def
    proof (intro ballI impI)
      fix k' assume k': "k' \<in> set (update_rows ?cond ?set ks)" "PublicID full = Inr (k_PublicID k')" "k_RevokedAt k' = None"
      from k'(1) obtain k where k: "k' = (if ?cond k then ?set k else k)" unfolding update_rows_def set_map by (elim imageE)
      have id: "k_PublicID k' = publicID" using k'(2) assms(2) by simp
      show "\<exists>t. k_LastUsedAt k' = Some t \<and> clock E n \<le> t"
      proof (cases "?cond k")
        case False
        then have "k' = k" unfolding k by (rule if_not_P)
        with False id k'(3) show ?thesis by (cases "k_LastUsedAt k") (simp_all add: not_less)
      next
        case True
        then have "k' = ?set k" unfolding k by (rule if_P)
        then show ?thesis by simp
      qed
    qed
    ultimately show ?thesis unfolding read_effect_def by blast
  qed
qed

lemma content_coherent_api_keys [simp]: "content_coherent K (api_keys_update f d) s = content_coherent K d s"
  by (simp add: content_coherent_def released_value_def release_of_def)

lemma Read_effect:
  assumes "transaction_runner tx" "content_coherent K (database w) (cache w)" "unique_config_keys (database w)"
    "int64_versions (database w)" "Read tx K hmac pepper full project key E w = (r, w')"
  shows "(\<forall>res. r = Inr res \<longrightarrow> (\<exists>p. authenticates hmac pepper (database w) full p \<and> p_Key p = project \<and>
       served K E (database w) (ID p) key res)) \<and>
    read_effect full E (\<not> isl r) (database w) (database w') \<and> content_coherent K (database w') (cache w')"
proof -
  have id: "read_effect full E False (database w) (database w)" by (rule read_effect_refl)
  show ?thesis
  proof (cases "PublicID full")
    case (Inl e)
    with assms(2,5) id show ?thesis by (auto simp: Read_def run_simps)
  next
    case (Inr publicID)
    let ?q = "\<lparr>read_publicID = publicID, read_fullCredential = full, read_projectKey = project, read_configKey = key\<rparr>"
    let ?body = "bindM (authenticate hmac pepper ?q) (\<lambda>p. readConfig K (ID p) key)"
    have body: "database w1 = database w \<and> content_coherent K (database w) (cache w1) \<and> (\<forall>res. b = Inr res \<longrightarrow>
        (\<exists>p. authenticates hmac pepper (database w) full p \<and> p_Key p = project \<and> served K E (database w) (ID p) key res))"
      if "?body E w = (b, w1)" for b w1
      using that
    proof (cases rule: bindM_elim)
      case (fails e)
      with readsD [OF reads_authenticate fails(1)] assms(2) show ?thesis by (simp add: quiet_def)
    next
      case (continues p w0)
      note q = readsD [OF reads_authenticate continues(1)]
      then have same: "database w0 = database w" "cache w0 = cache w" by (simp_all add: quiet_def)
      from readConfig_effect [OF continues(2)] assms(2,4) same
      have "database w1 = database w" "fills_content K w0 w1" "\<forall>res. b = Inr res \<longrightarrow> served K E (database w) (ID p) key res"
        by auto
      moreover from fills_coherent [OF _ _ this(2)] assms(2,3) same have "content_coherent K (database w) (cache w1)" by simp
      ultimately show ?thesis using authenticate_Inr [OF continues(1)] Inr by auto
    qed
    from assms(5) Inr have run: "bindM (tx ?body) (\<lambda>result. bindM nowM (\<lambda>now. bindM (MarkUsed publicID now) (\<lambda>_. returnM result))) E w = (r, w')"
      by (simp add: Read_def Let_def)
    then show ?thesis
    proof (cases rule: bindM_elim)
      case (fails e)
      from tx_rollback [OF assms(1) fails(1)] body have "database w' = database w" "content_coherent K (database w) (cache w')" by fastforce+
      with fails(2) id show ?thesis by simp
    next
      case (continues result w1)
      from continues(2) obtain m where mark: "MarkUsed publicID (clock E (tick w1)) E (w1\<lparr>tick := Suc (tick w1)\<rparr>) = (m, w')"
        and res: "\<And>x. r = Inr x \<Longrightarrow> x = result" and ok: "(\<not> isl r) = (m = Inr ())"
        by (auto simp: bindM_def nowM_def returnM_def split: prod.splits sum.splits)
      note M = MarkUsed_effect [OF mark Inr]
      from body [OF tx_commit [OF assms(1) continues(1)]]
      have b: "database w1 = database w" "content_coherent K (database w) (cache w1)" "r = Inr x \<Longrightarrow>
          \<exists>p. authenticates hmac pepper (database w) full p \<and> p_Key p = project \<and> served K E (database w) (ID p) key x" for x
        by (auto dest: res)
      from M(1) obtain keys where d: "database w' = api_keys_update (\<lambda>_. keys) (database w)"
        by (auto simp: read_effect_def b(1))
      have "read_effect full E (\<not> isl r) (database w) (database w')" using M(1) by (simp add: ok b(1))
      moreover have "content_coherent K (database w') (cache w')" using b(2) M(2) by (simp add: d)
      ultimately show ?thesis using b(3) by blast
    qed
  qed
qed

text \<open>
  C29. A runtime read is authenticated and never stale. While the content cache is coherent with the
  releases, a read that answers has presented a credential whose key is stored unrevoked under that
  identifier and hash, for a live project with an enabled environment and with the requested key; it
  answers with the value of the released snapshot of the live config asked for and with the config's current
  runtime generation, whether the answer came from the cache or not. Whatever the outcome, a read changes
  nothing in the database but the usage time (and with it the update time) of the presented key: that key,
  if unrevoked, may have its use noted at a later time than before, and does when the read answers; every other field and
  every other key stays as it is. The cache is left coherent.
\<close>

theorem Read_serves_release:
  assumes "transaction_runner tx" "content_coherent K (database w) (cache w)" "unique_config_keys (database w)"
    "int64_versions (database w)" "Read tx K hmac pepper full project key E w = (r, w')"
  shows "(\<forall>res. r = Inr res \<longrightarrow> (\<exists>p. authenticates hmac pepper (database w) full p \<and> p_Key p = project \<and>
      (\<exists>c \<in> set (configs (database w)). DeletedAt c = None \<and> c_ProjectID c = ID p \<and> same_text E (c_Key c) key \<and>
         released_value K (database w) c = Some (Runtime_Content res) \<and> Runtime_Version res = c_RuntimeVersion c))) \<and>
    (\<exists>keys. database w' = api_keys_update (\<lambda>_. keys) (database w) \<and> list_all2 (usage_noted full) (api_keys (database w)) keys \<and>
       (\<forall>res. r = Inr res \<longrightarrow> (\<exists>n. used_since full (clock E n) keys))) \<and> content_coherent K (database w') (cache w')"
  using Read_effect [OF assms] unfolding served_def read_effect_def by (cases r) auto

section \<open>Publication and the cache\<close>

lemma filter_map_stable:
  "(\<And>x. x \<in> set xs \<Longrightarrow> f x = x \<or> \<not> P x \<and> \<not> P (f x)) \<Longrightarrow> filter P (map f xs) = filter P xs"
proof (induction xs)
  case (Cons x xs)
  from Cons.prems [of x] Cons.IH Cons.prems show ?case by force
qed simp

lemma publication_rows_other:
  assumes "publication_ready K iter d request change" "distinct (map ID (snapshots d))" "configID \<noteq> ID (change_config change)"
  shows "release_of (snapshots_update (publication_rows change) d) projectID configID = release_of d projectID configID"
proof -
  let ?user = "Actor_UserID (request_actor (change_request change))" and ?now = "change_changedAt change"
  define g where "g = (\<lambda>r. if ID r = ID (change_target change)
      then (if request_status (change_request change) = SnapshotStatusUnreleased then retire_row ?user ?now r else release_row ?user ?now r)
      else if request_status (change_request change) \<noteq> SnapshotStatusUnreleased \<and> released_in (change_config change) r
      then retire_row ?user ?now r else r)"
  have rows: "publication_rows change = map g"
    by (auto simp: publication_rows_def Let_def unpublish_rows_def publish_rows_def update_rows_def g_def fun_eq_iff)
  have t: "change_target change \<in> set (snapshots d)" "s_ConfigID (change_target change) = ID (change_config change)"
    using assms(1) by (auto simp: publication_ready_def Let_def)
  have "g r = r \<or> s_ConfigID r = ID (change_config change) \<and> s_ConfigID (g r) = ID (change_config change)"
    if "r \<in> set (snapshots d)" for r
    using t row_unique [OF assms(2) that t(1)] by (auto simp: g_def released_in_def)
  then show ?thesis unfolding release_of_def rows using assms(3)
    by (auto simp: intro!: arg_cong [where f = "\<lambda>xs. first_row (rev (sort_key ID xs))"] filter_map_stable)
qed

lemma publication_done_coherent:
  assumes "publication_done K iter d request change d'" "content_coherent K d s"
    "distinct (map ID (snapshots d))" "distinct (map ID (configs d))"
  shows "content_coherent K d' s"
  unfolding content_coherent_def
proof (intro ballI allI impI)
  fix c' n v
  assume c': "c' \<in> set (configs d')" "DeletedAt c' = None"
    and h: "memory_holds s (contentCacheKey (c_ProjectID c') (c_Key c') n) v"
  let ?id = "ID (change_config change)"
  from assms(1) obtain row now where ready: "publication_ready K iter d request change"
    and d': "d' = audit_logs_update (\<lambda>rows. rows @ [row]) (configs_update (next_generation ?id now) (snapshots_update (publication_rows change) d))"
    unfolding publication_done_def by blast
  from c'(1) obtain c where c: "c \<in> set (configs d)"
    and c'_eq: "c' = (if ID c = ?id then c\<lparr>c_RuntimeVersion := c_RuntimeVersion c + 1, UpdatedAt := now\<rparr> else c)"
    by (auto simp: d' next_generation_def set_update_rows)
  have n: "n \<le> c_RuntimeVersion c" and cur: "n = c_RuntimeVersion c \<Longrightarrow> released_value K d c = Some v"
    using content_coherentD [OF assms(2) c, of n v] c'(2) h by (auto simp: c'_eq split: if_splits)
  show "n \<le> c_RuntimeVersion c' \<and> (n = c_RuntimeVersion c' \<longrightarrow> released_value K d' c' = Some v)"
  proof (cases "ID c = ?id")
    case True
    with n show ?thesis by (simp add: c'_eq)
  next
    case False
    then have "release_of d' (c_ProjectID c) (ID c) = release_of d (c_ProjectID c) (ID c)"
      using publication_rows_other [OF ready assms(3)] by (simp add: d' release_of_def)
    with n cur False show ?thesis by (simp add: c'_eq released_value_def)
  qed
qed

lemma publication_coherent:
  assumes "transaction_runner tx" "perm_coherent (database w) (cache w)" "plain_catalog (database w)"
    "distinct (map ID (snapshots (database w)))" "distinct (map ID (configs (database w)))"
    "content_coherent K (database w) (cache w)" "changePublication tx K iter request E w = (r, w')"
    "request_status request = SnapshotStatusUnreleased \<or> request_status request = SnapshotStatusReleased"
  shows "content_coherent K (database w') (cache w')"
proof -
  note eff = changePublication_effect [OF assms(1,7,2-5,8)]
  then have frame: "content_coherent K (database w) (cache w')" using content_coherent_frame [OF assms(6)] by blast
  show ?thesis
  proof (cases r)
    case (Inl e)
    with eff frame show ?thesis by simp
  next
    case (Inr s)
    with eff obtain change where "publication_done K iter (database w) request change (database w')" by auto
    then show ?thesis by (rule publication_done_coherent [OF _ frame assms(4,5)])
  qed
qed

text \<open>
  C30. Publishing and withdrawing keep the content cache coherent with the releases, on success and on
  every error path, even when the deletion of the obsolete entry fails: no entry of the new generation can
  exist yet, and the entries of other configs still are their released values.
\<close>

theorem publication_keeps_cache:
  assumes "transaction_runner tx" "perm_coherent (database w) (cache w)" "plain_catalog (database w)"
    "distinct (map ID (snapshots (database w)))" "distinct (map ID (configs (database w)))"
    "content_coherent K (database w) (cache w)"
    "Publish tx K iter actor environmentID snapshotID expectedVersion E w = (r, w') \<or>
     Unpublish tx K iter actor environmentID snapshotID expectedVersion E w = (r, w')"
  shows "content_coherent K (database w') (cache w')"
  using assms(7) publication_coherent [OF assms(1-6)]
  unfolding Publish_def Unpublish_def by (metis publicationRequest.select_convs(5))

lemma release_of_unique:
  assumes "{x \<in> set (snapshots d). released_in c x} = {s}"
  shows "release_of d (c_ProjectID c) (ID c) = Some s"
proof -
  let ?P = "\<lambda>s. s_ProjectID s = c_ProjectID c \<and> s_ConfigID s = ID c \<and> s_Status s = SnapshotStatusReleased \<and> DeletedAt s = None"
  have "set (rev (sort_key ID (filter ?P (snapshots d)))) = {s}"
    using assms by (auto simp: released_in_def)
  then show ?thesis unfolding release_of_def
    by (cases "rev (sort_key ID (filter ?P (snapshots d)))") (auto simp: first_row_def)
qed

section \<open>A client of the example installation\<close>

definition example_hmac :: "string \<Rightarrow> string \<Rightarrow> string" where "example_hmac pepper full = rev full"

definition example_credential :: string where
  "example_credential = publicPrefix @ EncodeToString (replicate 16 (CHR ''a'')) @ ''.'' @ EncodeToString (replicate 32 (CHR ''b''))"

definition example_key :: api_key_row where
  "example_key = \<lparr>r_ID = 3, r_CreatedAt = 1, r_UpdatedAt = 1, k_ProjectID = 1,
     k_PublicID = publicPrefix @ EncodeToString (replicate 16 (CHR ''a'')), k_Name = ''ci'',
     k_SecretHash = example_hmac ''p'' example_credential, k_SecretSuffix = '''', k_CreatedBy = 7, k_LastUsedAt = None, k_RevokedAt = None\<rparr>"

definition runtime_world :: world where
  "runtime_world = publish_world\<lparr>database := (database publish_world)\<lparr>api_keys := [example_key]\<rparr>\<rparr>"

definition example_read :: "world \<Rightarrow> RuntimeResult result \<times> world" where
  "example_read = Read run_tx example_codec example_hmac ''p'' example_credential ''shop'' ''port'' example_engine"

definition example_publish :: "world \<Rightarrow> snapshot_row result \<times> world" where
  "example_publish = Publish run_tx example_codec (\<lambda>ks. ks) example_actor 1 21 1 example_engine"

lemma runtime_world_ok:
  "perm_coherent (database runtime_world) (cache runtime_world)" "plain_catalog (database runtime_world)"
  "distinct (map ID (snapshots (database runtime_world)))" "distinct (map ID (configs (database runtime_world)))"
  "content_coherent K (database runtime_world) (cache runtime_world)" "unique_config_keys (database runtime_world)"
  "int64_versions (database runtime_world)"
proof -
  have empty: "\<not> memory_holds (cache runtime_world) k v" for k v
    by (simp add: runtime_world_def publish_world_def example_world_def newMemory_def memory_holds_def)
  show "perm_coherent (database runtime_world) (cache runtime_world)"
    "content_coherent K (database runtime_world) (cache runtime_world)"
    using empty by (simp_all add: perm_coherent_def content_coherent_def)
  show "plain_catalog (database runtime_world)" by code_simp
  show "int64_versions (database runtime_world)" "unique_config_keys (database runtime_world)"
    by (simp_all add: int64_versions_def unique_config_keys_def runtime_world_def publish_world_def port_config_def)
qed (simp_all add: runtime_world_def publish_world_def port_config_def port_snapshot_def)

theorem Read_serves_release_witness:
  "\<exists>res c keys. fst (example_read runtime_world) = Inr res \<and> c \<in> set (configs (database runtime_world)) \<and>
     released_value example_codec (database runtime_world) c = Some (Runtime_Content res) \<and> Runtime_Version res = c_RuntimeVersion c \<and>
     api_keys (database (snd (example_read runtime_world))) = keys \<and> list_all2 (usage_noted example_credential) [example_key] keys"
proof -
  obtain r w' where run: "example_read runtime_world = (r, w')" by fastforce
  have "fst (example_read runtime_world) = Inr \<lparr>Runtime_Content = ''8080'', Runtime_Version = 5\<rparr>" by code_simp
  with run obtain res where res: "r = Inr res" by simp
  have keys: "api_keys (database runtime_world) = [example_key]" by (simp add: runtime_world_def)
  from Read_serves_release [OF run_tx_runner runtime_world_ok(5-7) run [unfolded example_read_def]] res run keys
  show ?thesis by auto
qed

theorem publication_keeps_cache_witness:
  "content_coherent example_codec (database (snd (example_publish runtime_world))) (cache (snd (example_publish runtime_world)))"
  using publication_keeps_cache [OF run_tx_runner runtime_world_ok(1-5), of example_codec "\<lambda>ks. ks" example_actor 1 21 1 example_engine
      "fst (example_publish runtime_world)" "snd (example_publish runtime_world)"]
  by (simp add: example_publish_def)

end
