(* ===== verification/Operation.thy ===== *)
theory Operation
  imports Runtime_Props
begin

text \<open>
  The shape the operations of \<^verbatim>\<open>server/internal/logic\<close> share: the caller's permissions are checked, the
  resources are looked up, one transaction does the writes, and the result is computed from what was read
  and written. The locale \<open>guarded_operation\<close> states what the parts promise and what follows for the
  whole.
\<close>

section \<open>Monad laws\<close>

lemma bindM_assoc: "bindM (bindM m f) g = bindM m (\<lambda>a. bindM (f a) g)"
  by (rule ext)+ (auto simp: bindM_def split: prod.splits sum.splits)

lemma bindM_returnM: "bindM m returnM = m" "bindM (returnM a) f = f a"
  by (rule ext, rule ext, simp add: bindM_def returnM_def split: prod.splits sum.splits)+

lemma bindM_unit: "bindM m (\<lambda>u. returnM ()) = m"
  using bindM_returnM(1) [of m] by simp

lemmas monad_laws = bindM_assoc bindM_returnM bindM_unit

section \<open>Rows and attempts\<close>

lemma matching_one:
  assumes "matching cond (rows @ [row]) = 1" "t \<in> set rows" "cond t"
  shows "\<not> cond row" "\<And>x. x \<in> set rows \<Longrightarrow> cond x \<Longrightarrow> x = t"
proof -
  have "length (filter cond rows) = 1 \<and> \<not> cond row"
    using assms by (auto simp: matching_def filter_empty_conv split: if_splits)
  then obtain y where y: "filter cond rows = [y]" and "\<not> cond row" by (auto simp: length_Suc_conv)
  then show "\<not> cond row" by simp
  have "x \<in> set (filter cond rows)" if "x \<in> set rows" "cond x" for x using that by simp
  then show "x = t" if "x \<in> set rows" "cond x" for x using that assms(2,3) unfolding y by (metis empty_iff empty_set set_ConsD)
qed

lemma update_rows_one:
  assumes "t \<in> set rows" "cond t" "\<And>x. x \<in> set rows \<Longrightarrow> cond x \<Longrightarrow> x = t"
  shows "set (update_rows cond f rows) = insert (f t) (set rows - {t})"
proof -
  have "(\<lambda>r. if cond r then f r else r) ` set rows = (\<lambda>r. if r = t then f t else r) ` set rows"
  proof (rule image_cong [OF refl])
    fix x
    assume x: "x \<in> set rows"
    show "(if cond x then f x else x) = (if x = t then f t else x)"
      using assms(2) assms(3) [OF x] by (cases "cond x") auto
  qed
  also have "\<dots> = insert (f t) (set rows - {t})" using assms(1) by auto
  finally show ?thesis by (simp only: set_update_rows)
qed

lemma update_rows_append: "update_rows cond f (rows @ [row]) = update_rows cond f rows @ [if cond row then f row else row]"
  by (simp add: update_rows_def)

lemma update_rows_ball: "(\<forall>x \<in> set (update_rows cond f rows). P x) \<longleftrightarrow> (\<forall>y \<in> set rows. if cond y then P (f y) else P y)"
  by (induction rows) (auto simp: update_rows_def)

lemma attempt_case:
  "bindM (attemptM m) (\<lambda>r. case r of Inl e \<Rightarrow> f e | Inr a \<Rightarrow> g a) E w = (b, w') \<longleftrightarrow>
     (\<exists>e w1. m E w = (Inl e, w1) \<and> f e E w1 = (b, w')) \<or> (\<exists>a w1. m E w = (Inr a, w1) \<and> g a E w1 = (b, w'))"
  by (auto simp: bindM_def attemptM_def split: prod.splits sum.splits)

section \<open>Audited changes\<close>

definition audited :: "db \<Rightarrow> audit_row \<Rightarrow> int \<Rightarrow> db \<Rightarrow> bool" where
  "audited d log environmentID d' \<longleftrightarrow>
     (\<exists>row. audit_matches row log environmentID \<and> d' = audit_logs_update (\<lambda>rows. rows @ [row]) d)"

lemma RecordForEnvironment_audited:
  "RecordForEnvironment e log E w = (Inr u, w') \<Longrightarrow> audited (database w) log e (database w')"
  using RecordForEnvironment_Inr by (fastforce simp: audited_def audit_matches_def)

lemma audited_tables:
  assumes "audited d log e d'"
  shows "environments d' = environments d" "users d' = users d" "roles d' = roles d" "projects d' = projects d"
    "configs d' = configs d" "structure_rows d' = structure_rows d" "enum_rows d' = enum_rows d" "snapshots d' = snapshots d"
    "permissions d' = permissions d" "members d' = members d" "grants d' = grants d" "api_keys d' = api_keys d"
    "refresh_tokens d' = refresh_tokens d" "import_records d' = import_records d"
  using assms by (auto simp: audited_def)

lemma database_RecordForEnvironment [database_intro]: "database_only (RecordForEnvironment e log)"
  unfolding RecordForEnvironment_def RecordPrepareInsert_def insertTimes_def insertAudit_def by (intro database_intro)

section \<open>Guarded operations\<close>

definition guarded ::
  "('b M \<Rightarrow> 'b M) \<Rightarrow> Actor \<Rightarrow> int \<Rightarrow> string list \<Rightarrow> 'a M \<Rightarrow> ('a \<Rightarrow> 'b M) \<Rightarrow> ('a \<Rightarrow> 'b \<Rightarrow> 'c) \<Rightarrow> 'c M" where
  "guarded tx actor environmentID keys prepare perform finish =
     bindM (Require (Actor_UserID actor) environmentID keys) (\<lambda>_.
     bindM prepare (\<lambda>a. bindM (tx (perform a)) (\<lambda>b. returnM (finish a b))))"

locale guarded_operation = transactional tx for tx :: "'b M \<Rightarrow> 'b M" +
  fixes prepare :: "'a M" and perform :: "'a \<Rightarrow> 'b M"
  assumes prepare_reads: "reads prepare" and perform_database: "database_only (perform a)"
begin

lemma Require_then:
  assumes "bindM (Require u e keys) f E w = (r, w')" "perm_coherent (database w) (cache w)" "plain_catalog (database w)"
  obtains (refused) err where "r = Inl err" "auth_frame w w'"
  | (allowed) w1 where "authorised (database w) u e keys" "auth_frame w w1" "f () E w1 = (r, w')"
  using assms(1)
proof (cases rule: bindM_elim)
  case (fails err)
  with Require_effect [OF fails(1) assms(2,3)] show ?thesis by (intro refused) auto
next
  case (continues u w1)
  with Require_effect [OF continues(1) assms(2,3)] show ?thesis by (intro allowed) auto
qed

lemma effect:
  assumes "guarded tx actor e keys prepare perform finish E w = (r, w')"
    "perm_coherent (database w) (cache w)" "plain_catalog (database w)"
  shows "cache_frame w w' \<and>
    (case r of
       Inl err \<Rightarrow> database w' = database w
     | Inr c \<Rightarrow> authorised (database w) (Actor_UserID actor) e keys \<and>
        (\<exists>a b w0 w1. database w0 = database w \<and> prepare E w0 = (Inr a, w1) \<and> database w1 = database w \<and>
           perform a E w1 = (Inr b, w') \<and> c = finish a b))"
  using assms unfolding guarded_def
proof (cases rule: Require_then)
  case (refused err)
  then show ?thesis by (simp add: auth_frame_cache auth_frame_def)
next
  case (allowed w0)
  have frame0: "cache_frame w w0" "database w0 = database w"
    using allowed(2) by (simp_all add: auth_frame_cache auth_frame_def)
  from allowed(3) show ?thesis
  proof (cases rule: bindM_elim)
    case (fails err)
    with readsD [OF prepare_reads fails(1)] frame0 show ?thesis by (auto simp: quiet_def cache_frame_def)
  next
    case (continues a w1)
    with readsD [OF prepare_reads continues(1)] frame0 have frame1: "cache_frame w w1" "database w1 = database w"
      by (auto simp: quiet_def cache_frame_def)
    from continues(2) show ?thesis
    proof (cases rule: bindM_elim)
      case (fails err)
      from rollback [OF fails(1)] obtain b w2 where "perform a E w1 = (b, w2)" "w' = w2\<lparr>database := database w1\<rparr>" by auto
      with database_onlyD [OF perform_database, of a E w1] frame1 fails(2) show ?thesis
        by (auto simp: database_step_def cache_frame_def)
    next
      case (continues b w2)
      from commit [OF this(1)] have wr: "perform a E w1 = (Inr b, w2)" .
      with database_onlyD [OF perform_database wr] continues(2) have "cache_frame w w2" "w' = w2" "r = Inr (finish a b)"
        using frame1 by (auto simp: database_step_def cache_frame_def run_simps)
      with wr \<open>prepare E w0 = (Inr a, w1)\<close> allowed(1) frame0 frame1 show ?thesis by auto
    qed
  qed
qed

end

lemmas guarded_effect =
  guarded_operation.effect [OF guarded_operation.intro [OF transactional.intro guarded_operation_axioms.intro]]

end
