(* ===== verification/Snapshot.thy ===== *)
theory Snapshot
  imports Operation
begin

text \<open>
  Snapshots of configs (\<^verbatim>\<open>server/internal/logic/snapshot.go\<close>) and the locked resources they are built from
  (\<^verbatim>\<open>config_resources.go\<close>). Tags are the numbers of the protobuf enum.
\<close>

section \<open>Locked resources\<close>

definition configResources_lock :: "codec \<Rightarrow> int \<Rightarrow> int \<Rightarrow> (config_row \<times> Structure option list \<times> ConfigEnum option list) M" where
  "configResources_lock K environmentID configID =
     bindM (config_LockByID environmentID configID) (\<lambda>config.
     bindM (structure_ListForConfig environmentID configID) (\<lambda>structureRows.
     bindM (enum_ListForConfig environmentID configID) (\<lambda>enumRows.
     bindM (liftR (StructuresToProto K structureRows)) (\<lambda>ss.
     bindM (liftR (EnumsToProto enumRows)) (\<lambda>es.
     returnM (config, ss, es))))))"

text \<open>\<^verbatim>\<open>field.GetType().GetEnumKey()\<close>: the empty string when the field, its type or this alternative is missing.\<close>

definition field_EnumKey :: "Field option \<Rightarrow> string" where
  "field_EnumKey f = (case f of Some x \<Rightarrow> (case Field_Type x of Some (Some (EnumKey k)) \<Rightarrow> k | _ \<Rightarrow> '''') | None \<Rightarrow> '''')"

definition field_StructureKey :: "Field option \<Rightarrow> string" where
  "field_StructureKey f = (case f of Some x \<Rightarrow> (case Field_Type x of Some (Some (StructureKey k)) \<Rightarrow> k | _ \<Rightarrow> '''') | None \<Rightarrow> '''')"

definition fieldsReferenceEnum :: "Field option list \<Rightarrow> string \<Rightarrow> bool" where
  "fieldsReferenceEnum flds key = list_ex (\<lambda>f. field_EnumKey f = key) flds"

definition fieldsReferenceStructure :: "Field option list \<Rightarrow> string \<Rightarrow> bool" where
  "fieldsReferenceStructure flds key = list_ex (\<lambda>f. field_StructureKey f = key) flds"

section \<open>Building and checking content\<close>

record SnapshotCreateInput =
  SCreate_ProjectID :: int
  SCreate_ConfigID :: int
  SCreate_Description :: string
  SCreate_Tags :: "int list"

record SnapshotListInput =
  SList_ProjectID :: int
  SList_ConfigID :: int
  SList_Page :: PageRequest

definition Tag_RELEASE :: int where "Tag_RELEASE = 1"
definition Tag_REUSE :: int where "Tag_REUSE = 6"

fun tags_loop :: "int list \<Rightarrow> int list \<Rightarrow> unit result" where
  "tags_loop seen [] = Inr ()"
| "tags_loop seen (tag # tags) =
     (if tag < Tag_RELEASE \<or> tag > Tag_REUSE then Inl (Invalid ''invalid snapshot tag'')
      else if tag \<in> set seen then Inl (Invalid ''duplicate snapshot tag'')
      else tags_loop (tag # seen) tags)"

definition validateTags :: "int list \<Rightarrow> unit result" where
  "validateTags = tags_loop []"

definition snapshotAudit :: "Actor \<Rightarrow> string \<Rightarrow> int \<Rightarrow> audit_row" where
  "snapshotAudit actor action resourceID = audit_entry actor action ''snapshot'' resourceID"

definition buildPreview ::
  "codec \<Rightarrow> (string list \<Rightarrow> string list) \<Rightarrow> config_row \<Rightarrow> Structure option list \<Rightarrow> ConfigEnum option list \<Rightarrow> ConfigSnapshot result" where
  "buildPreview K iter config ss es =
     bindR (NewSchema iter ss es) (\<lambda>schema.
     bindR (ConfigToProto K config) (\<lambda>converted.
     bindR (ValidateConfig schema (Some converted)) (\<lambda>_.
     bindR (BuildTree schema (Some converted)) (\<lambda>tree.
     Inr \<lparr>Snapshot_Config = Some converted, Snapshot_Structures = ss, Snapshot_Enums = es, Snapshot_Tree = Some tree\<rparr>))))"

definition lockedPreview :: "codec \<Rightarrow> (string list \<Rightarrow> string list) \<Rightarrow> int \<Rightarrow> int \<Rightarrow> ConfigSnapshot M" where
  "lockedPreview K iter environmentID configID =
     bindM (configResources_lock K environmentID configID) (\<lambda>(config, ss, es).
     liftR (buildPreview K iter config ss es))"

definition validateSnapshotContent :: "(string list \<Rightarrow> string list) \<Rightarrow> ConfigSnapshot \<Rightarrow> config_row \<Rightarrow> unit result" where
  "validateSnapshotContent iter content current =
     (case Snapshot_Config content of
        None \<Rightarrow> Inl (Invalid ''snapshot content is incomplete'')
      | Some c \<Rightarrow>
          if Config_Type c = None then Inl (Invalid ''snapshot content is incomplete'')
          else if Config_Id c \<noteq> ID current \<or> Config_ProjectId c \<noteq> c_ProjectID current \<or> Config_Key c \<noteq> c_Key current
          then Inl (Conflict ''snapshot does not belong to config'')
          else
            bindR (checkR (\<lambda>item. guardR (case item of None \<Rightarrow> True | Some s \<Rightarrow> Structure_ConfigId s \<noteq> ID current)
                     (Invalid ''snapshot structure belongs to another config'')) (Snapshot_Structures content)) (\<lambda>_.
            bindR (checkR (\<lambda>item. guardR (case item of None \<Rightarrow> True | Some s \<Rightarrow> Enum_ConfigId s \<noteq> ID current)
                     (Invalid ''snapshot enum belongs to another config'')) (Snapshot_Enums content)) (\<lambda>_.
            bindR (NewSchema iter (Snapshot_Structures content) (Snapshot_Enums content)) (\<lambda>schema.
            ValidateConfig schema (Some c)))))"

text \<open>A nil item would be dereferenced; the callers have excluded it.\<close>

definition new_child :: "int \<Rightarrow> int \<Rightarrow> string \<Rightarrow> string \<Rightarrow> string \<Rightarrow> string \<Rightarrow> child_row" where
  "new_child configID actorID key name description json =
     \<lparr>ID = 0, CreatedBy = actorID, UpdatedBy = actorID, CreatedAt = 0, UpdatedAt = 0, Version = 0, DeletedAt = None,
      d_ConfigID = configID, d_Key = key, d_Name = name, d_Description = description, d_JSON = json\<rparr>"

definition snapshotStructures :: "codec \<Rightarrow> Structure option list \<Rightarrow> int \<Rightarrow> int \<Rightarrow> child_row list result" where
  "snapshotStructures K items configID actorID =
     forR (\<lambda>item. case item of
         None \<Rightarrow> Inl (Panic ''nil structure'')
       | Some s \<Rightarrow> bindR (EncodeFields K (Structure_Fields s)) (\<lambda>fieldsJSON.
           Inr (new_child configID actorID (Structure_Key s) (Structure_Name s) (Structure_Description s) fieldsJSON))) items"

definition snapshotEnums :: "ConfigEnum option list \<Rightarrow> int \<Rightarrow> int \<Rightarrow> child_row list result" where
  "snapshotEnums items configID actorID =
     forR (\<lambda>item. case item of
         None \<Rightarrow> Inl (Panic ''nil enum'')
       | Some e \<Rightarrow> bindR (EncodeOptions (Enum_Values e)) (\<lambda>valuesJSON.
           Inr (new_child configID actorID (Enum_Key e) (Enum_Name e) (Enum_Description e) valuesJSON))) items"

section \<open>Operations\<close>

definition new_snapshot :: "int \<Rightarrow> int \<Rightarrow> int \<Rightarrow> string \<Rightarrow> string \<Rightarrow> string \<Rightarrow> string \<Rightarrow> snapshot_row" where
  "new_snapshot actorID projectID configID configKey description content tagsJSON =
     \<lparr>ID = 0, CreatedBy = actorID, UpdatedBy = actorID, CreatedAt = 0, UpdatedAt = 0, Version = 0, DeletedAt = None,
      s_ProjectID = projectID, s_ConfigID = configID, s_ConfigKey = configKey, s_Description = description,
      s_Content = content, s_Status = StatusCode 0, s_TagsJSON = tagsJSON, s_IsUsing = False,
      s_PublishedAt = None, s_PublishedBy = None\<rparr>"

definition Snapshot_Create ::
  "(int M \<Rightarrow> int M) \<Rightarrow> codec \<Rightarrow> (string list \<Rightarrow> string list) \<Rightarrow> Actor \<Rightarrow> int \<Rightarrow> SnapshotCreateInput \<Rightarrow> snapshot_row M" where
  "Snapshot_Create tx K iter actor environmentID input =
     bindM (Require (Actor_UserID actor) environmentID [''snapshot:write'', ''config:read'', ''structure:read'', ''enum:read'']) (\<lambda>_.
     bindM (liftR (validateTags (SCreate_Tags input))) (\<lambda>_.
     bindM (mapErrM (\<lambda>e. Invalid ''invalid snapshot tags'') (liftR (EncodeTags (SCreate_Tags input)))) (\<lambda>tagsJSON.
     bindM (tx (
       bindM (lockedPreview K iter environmentID (SCreate_ConfigID input)) (\<lambda>preview.
       let c = the (Snapshot_Config preview) in
       bindM (guardM (Config_ProjectId c \<noteq> SCreate_ProjectID input) (NotFound ''config'')) (\<lambda>_.
       bindM (liftR (EncodeConfigSnapshot K (Some preview))) (\<lambda>content.
       bindM (snapshot_Create environmentID (SCreate_ProjectID input) (SCreate_ConfigID input)
         (new_snapshot (Actor_UserID actor) (SCreate_ProjectID input) (SCreate_ConfigID input) (Config_Key c)
            (SCreate_Description input) content tagsJSON)) (\<lambda>item.
       bindM (SetCurrent environmentID (SCreate_ConfigID input) (ID item) (Actor_UserID actor)) (\<lambda>_.
       bindM (RecordForEnvironment environmentID (snapshotAudit actor ''snapshot.create'' (ID item))) (\<lambda>_.
       returnM (ID item))))))))) (\<lambda>itemID.
     snapshot_FindByID environmentID itemID))))"

definition Snapshot_Preview ::
  "(string M \<Rightarrow> string M) \<Rightarrow> codec \<Rightarrow> (string list \<Rightarrow> string list) \<Rightarrow> Actor \<Rightarrow> int \<Rightarrow> int \<Rightarrow> string M" where
  "Snapshot_Preview tx K iter actor environmentID configID =
     bindM (Require (Actor_UserID actor) environmentID [''snapshot:read'', ''config:read'', ''structure:read'', ''enum:read'']) (\<lambda>_.
     tx (bindM (lockedPreview K iter environmentID configID) (\<lambda>preview.
         liftR (EncodeConfigSnapshot K (Some preview)))))"

definition Snapshot_Delete :: "(unit M \<Rightarrow> unit M) \<Rightarrow> Actor \<Rightarrow> int \<Rightarrow> int \<Rightarrow> unit M" where
  "Snapshot_Delete tx actor environmentID snapshotID =
     bindM (Require (Actor_UserID actor) environmentID [''snapshot:write'']) (\<lambda>_.
     bindM (snapshot_FindByID environmentID snapshotID) (\<lambda>found.
     tx (bindM (config_LockByID environmentID (s_ConfigID found)) (\<lambda>_.
         bindM (snapshot_LockByID environmentID snapshotID) (\<lambda>locked.
         bindM (guardM (s_ConfigID locked \<noteq> s_ConfigID found) (NotFound ''snapshot'')) (\<lambda>_.
         bindM (guardM (s_IsUsing locked) (Conflict ''current snapshot cannot be deleted'')) (\<lambda>_.
         bindM (guardM (s_Status locked = SnapshotStatusReleased) (Conflict ''released snapshot cannot be deleted'')) (\<lambda>_.
         bindM (snapshot_Delete environmentID snapshotID (Actor_UserID actor)) (\<lambda>_.
         RecordForEnvironment environmentID (snapshotAudit actor ''snapshot.delete'' snapshotID)))))))))) "

definition Snapshot_Get :: "Actor \<Rightarrow> int \<Rightarrow> int \<Rightarrow> snapshot_row M" where
  "Snapshot_Get actor environmentID snapshotID =
     bindM (Require (Actor_UserID actor) environmentID [''snapshot:read'']) (\<lambda>_. snapshot_FindByID environmentID snapshotID)"

text \<open>The layout \<^verbatim>\<open>20060102T150405.000000000Z\<close>.\<close>

definition FormatCompact :: "int \<Rightarrow> string" where
  "FormatCompact t =
     (let secs = t div 1000000000; ns = t mod 1000000000; sod = secs mod 86400; (y, m, d) = civil (secs div 86400)
      in pad 4 y @ pad 2 m @ pad 2 d @ ''T'' @ pad 2 (sod div 3600) @ pad 2 (sod mod 3600 div 60) @ pad 2 (sod mod 60) @
         ''.'' @ pad 9 ns @ ''Z'')"

definition saveDraft :: "Actor \<Rightarrow> int \<Rightarrow> config_row \<Rightarrow> string \<Rightarrow> unit M" where
  "saveDraft actor environmentID current content =
     bindM nowM (\<lambda>now.
     bindM (snapshot_Create environmentID (c_ProjectID current) (ID current)
       (new_snapshot (Actor_UserID actor) (c_ProjectID current) (ID current) (c_Key current)
          (''AutoSave-'' @ FormatCompact now) content ''[]'')) (\<lambda>saved.
     RecordForEnvironment environmentID (snapshotAudit actor ''snapshot.autosave'' (ID saved))))"

definition autoSave :: "codec \<Rightarrow> Actor \<Rightarrow> int \<Rightarrow> config_row \<Rightarrow> ConfigSnapshot \<Rightarrow> unit M" where
  "autoSave K actor environmentID current preview =
     bindM (liftR (EncodeConfigSnapshot K (Some preview))) (\<lambda>content.
     bindM (attemptM (FindCurrentForConfig environmentID (ID current))) (\<lambda>found.
       case found of
         Inl e \<Rightarrow> if \<not> isNotFound e then failM e else saveDraft actor environmentID current content
       | Inr u \<Rightarrow> if s_Content u = content then returnM () else saveDraft actor environmentID current content))"

definition restoreConfig :: "codec \<Rightarrow> Actor \<Rightarrow> int \<Rightarrow> config_row \<Rightarrow> ConfigSnapshot \<Rightarrow> unit M" where
  "restoreConfig K actor environmentID current content =
     (let c = the (Snapshot_Config content); actorID = Actor_UserID actor in
      bindM (liftR (EncodeFieldType K (Config_Type c))) (\<lambda>typeJSON.
      bindM (liftR (snapshotStructures K (Snapshot_Structures content) (ID current) actorID)) (\<lambda>ss.
      bindM (liftR (snapshotEnums (Snapshot_Enums content) (ID current) actorID)) (\<lambda>es.
      bindM (config_Update environmentID (ID current) \<lparr>Update_Description = Config_Description c, Update_IsArray = Config_IsArray c,
        Update_TypeJSON = typeJSON, Update_UpdatedBy = actorID, Update_Version = Version current\<rparr>) (\<lambda>_.
      bindM (config_UpdateValue environmentID (ID current) \<lparr>ValueUpdate_Value = Config_Value c, ValueUpdate_UpdatedBy = actorID,
        ValueUpdate_Version = Version current + 1\<rparr>) (\<lambda>_.
      bindM (structure_Reconcile environmentID (ID current) ss actorID) (\<lambda>_.
      bindM (enum_Reconcile environmentID (ID current) es actorID) (\<lambda>_. returnM ()))))))))"

definition loadSnapshot :: "codec \<Rightarrow> (string list \<Rightarrow> string list) \<Rightarrow> Actor \<Rightarrow> int \<Rightarrow> int \<Rightarrow> int \<Rightarrow> unit M" where
  "loadSnapshot K iter actor environmentID configID snapshotID =
     bindM (configResources_lock K environmentID configID) (\<lambda>(current, ss, es).
     bindM (liftR (buildPreview K iter current ss es)) (\<lambda>preview.
     bindM (autoSave K actor environmentID current preview) (\<lambda>_.
     bindM (snapshot_LockByID environmentID snapshotID) (\<lambda>target.
     bindM (guardM (s_ConfigID target \<noteq> configID \<or> s_ProjectID target \<noteq> c_ProjectID current) (NotFound ''snapshot'')) (\<lambda>_.
     bindM (liftR (DecodeConfigSnapshot K (s_Content target))) (\<lambda>content.
     bindM (liftR (validateSnapshotContent iter content current)) (\<lambda>_.
     bindM (restoreConfig K actor environmentID current content) (\<lambda>_.
     bindM (SetCurrent environmentID configID snapshotID (Actor_UserID actor)) (\<lambda>_.
     RecordForEnvironment environmentID (snapshotAudit actor ''snapshot.load'' snapshotID))))))))))"

definition Load ::
  "(unit M \<Rightarrow> unit M) \<Rightarrow> codec \<Rightarrow> (string list \<Rightarrow> string list) \<Rightarrow> Actor \<Rightarrow> int \<Rightarrow> int \<Rightarrow> int \<Rightarrow> snapshot_row M" where
  "Load tx K iter actor environmentID configID snapshotID =
     bindM (Require (Actor_UserID actor) environmentID
       [''snapshot:write'', ''config:write'', ''structure:write'', ''enum:write'',
        ''snapshot:read'', ''config:read'', ''structure:read'', ''enum:read'']) (\<lambda>_.
     bindM (snapshot_FindByID environmentID snapshotID) (\<lambda>found.
     bindM (guardM (s_ConfigID found \<noteq> configID) (NotFound ''snapshot'')) (\<lambda>_.
     bindM (tx (loadSnapshot K iter actor environmentID configID snapshotID)) (\<lambda>_.
     snapshot_FindByID environmentID snapshotID))))"

definition Current :: "Actor \<Rightarrow> int \<Rightarrow> int \<Rightarrow> snapshot_row M" where
  "Current actor environmentID configID =
     bindM (Require (Actor_UserID actor) environmentID [''snapshot:read'']) (\<lambda>_. FindCurrentForConfig environmentID configID)"

definition Released :: "Actor \<Rightarrow> int \<Rightarrow> int \<Rightarrow> snapshot_row M" where
  "Released actor environmentID configID =
     bindM (Require (Actor_UserID actor) environmentID [''snapshot:read'']) (\<lambda>_. FindReleasedForConfig environmentID configID)"

definition Snapshot_List :: "Actor \<Rightarrow> int \<Rightarrow> SnapshotListInput \<Rightarrow> snapshot_row PageResult M" where
  "Snapshot_List actor environmentID input =
     bindM (Require (Actor_UserID actor) environmentID [''snapshot:read'']) (\<lambda>_.
     bindM (config_FindByID environmentID (SList_ConfigID input)) (\<lambda>config.
     bindM (guardM (c_ProjectID config \<noteq> SList_ProjectID input) (NotFound ''config'')) (\<lambda>_.
     snapshot_List environmentID \<lparr>SFilter_ProjectID = SList_ProjectID input, SFilter_ConfigID = SList_ConfigID input,
       SFilter_Status = None, SFilter_IsUsing = None\<rparr> (SList_Page input))))"

end
