(* ===== verification/Drafts.thy ===== *)
theory Drafts
  imports Snapshot
begin

text \<open>
  Drafts of configs (\<^verbatim>\<open>server/internal/logic/config.go\<close>). The loops over pages carry fuel, one more than the
  number of rows the loop can meet; \<open>Listing\<close> shows that it never runs out.
\<close>

section \<open>Reading all pages\<close>

text \<open>
  \<^verbatim>\<open>for offset := 0; ; offset += repository.MaxPageSize\<close>: fetch a page, convert its items, stop when all are
  there or the page is empty.
\<close>

fun page_loop ::
  "nat \<Rightarrow> (PageRequest \<Rightarrow> 'r PageResult M) \<Rightarrow> ('r list \<Rightarrow> 'b list result) \<Rightarrow> int \<Rightarrow> 'b list \<Rightarrow> 'b list M" where
  "page_loop 0 fetch convert offset items = failM (Panic ''out of fuel'')"
| "page_loop (Suc fuel) fetch convert offset items =
     bindM (fetch \<lparr>Page_Offset = offset, Page_Limit = MaxPageSize\<rparr>) (\<lambda>page.
     bindM (liftR (convert (Result_Items page))) (\<lambda>converted.
     let items = items @ converted in
     if int (length items) \<ge> Result_Total page \<or> Result_Items page = [] then returnM items
     else page_loop fuel fetch convert (offset + MaxPageSize) items))"

definition all_pages :: "(db \<Rightarrow> 'row list) \<Rightarrow> (PageRequest \<Rightarrow> 'r PageResult M) \<Rightarrow> ('r list \<Rightarrow> 'b list result) \<Rightarrow> 'b list M" where
  "all_pages table fetch convert =
     (\<lambda>E w. page_loop (Suc (length (table (database w)))) fetch convert 0 [] E w)"

section \<open>Operations\<close>

record ConfigCreateInput =
  CCreate_ProjectID :: int
  CCreate_Key :: string
  CCreate_Description :: string

record ConfigUpdateInput =
  CInput_ConfigID :: int
  CInput_Description :: string
  CInput_FieldType :: "field_type option"
  CInput_IsArray :: bool
  CInput_Version :: int

record ConfigValueInput =
  VInput_ConfigID :: int
  VInput_Value :: string
  VInput_Version :: int

definition configAudit :: "Actor \<Rightarrow> string \<Rightarrow> int \<Rightarrow> audit_row" where
  "configAudit actor action resourceID = audit_entry actor action ''config'' resourceID"

definition new_config :: "Actor \<Rightarrow> ConfigCreateInput \<Rightarrow> string \<Rightarrow> config_row" where
  "new_config actor input typeJSON =
     \<lparr>ID = 0, CreatedBy = Actor_UserID actor, UpdatedBy = Actor_UserID actor, CreatedAt = 0, UpdatedAt = 0, Version = 0,
      DeletedAt = None, c_ProjectID = CCreate_ProjectID input, c_Key = CCreate_Key input,
      c_Description = CCreate_Description input, c_IsArray = False, c_TypeJSON = typeJSON,
      c_Value = [quote_char, quote_char], c_RuntimeVersion = 0\<rparr>"

definition Config_Create :: "(config_row M \<Rightarrow> config_row M) \<Rightarrow> codec \<Rightarrow> Actor \<Rightarrow> int \<Rightarrow> ConfigCreateInput \<Rightarrow> config_row M" where
  "Config_Create tx K actor environmentID input =
     bindM (Require (Actor_UserID actor) environmentID [''config:write'']) (\<lambda>_.
     bindM (liftR (EncodeFieldType K (Some (Some (BaseType Field_STRING))))) (\<lambda>typeJSON.
     tx (bindM (config_Create environmentID (CCreate_ProjectID input) (new_config actor input typeJSON)) (\<lambda>item.
         bindM (RecordForEnvironment environmentID (configAudit actor ''config.create'' (ID item))) (\<lambda>_.
         returnM item)))))"

definition Config_Update ::
  "(unit M \<Rightarrow> unit M) \<Rightarrow> codec \<Rightarrow> (string list \<Rightarrow> string list) \<Rightarrow> Actor \<Rightarrow> int \<Rightarrow> ConfigUpdateInput \<Rightarrow> config_row M" where
  "Config_Update tx K iter actor environmentID input =
     bindM (Require (Actor_UserID actor) environmentID [''config:write'', ''config:read'']) (\<lambda>_.
     bindM (mapErrM (\<lambda>e. Invalid ''invalid config type'') (liftR (EncodeFieldType K (CInput_FieldType input)))) (\<lambda>typeJSON.
     bindM (tx (
       bindM (configResources_lock K environmentID (CInput_ConfigID input)) (\<lambda>(current, ss, es).
       bindM (liftR (NewSchema iter ss es)) (\<lambda>schema.
       bindM (liftR (DefaultValue schema (CInput_FieldType input) (CInput_IsArray input))) (\<lambda>_.
       bindM (config_Update environmentID (CInput_ConfigID input) \<lparr>Update_Description = CInput_Description input,
         Update_IsArray = CInput_IsArray input, Update_TypeJSON = typeJSON, Update_UpdatedBy = Actor_UserID actor,
         Update_Version = CInput_Version input\<rparr>) (\<lambda>_.
       RecordForEnvironment environmentID (configAudit actor ''config.update'' (CInput_ConfigID input)))))))) (\<lambda>_.
     config_FindByID environmentID (CInput_ConfigID input))))"

definition Config_UpdateValue ::
  "(unit M \<Rightarrow> unit M) \<Rightarrow> codec \<Rightarrow> (string list \<Rightarrow> string list) \<Rightarrow> Actor \<Rightarrow> int \<Rightarrow> ConfigValueInput \<Rightarrow> config_row M" where
  "Config_UpdateValue tx K iter actor environmentID input =
     bindM (Require (Actor_UserID actor) environmentID [''config:write'', ''config:read'']) (\<lambda>_.
     bindM (tx (
       bindM (configResources_lock K environmentID (VInput_ConfigID input)) (\<lambda>(current, ss, es).
       bindM (liftR (NewSchema iter ss es)) (\<lambda>schema.
       bindM (liftR (ConfigToProto K current)) (\<lambda>candidate.
       bindM (liftR (ValidateConfig schema (Some (candidate\<lparr>Config_Value := VInput_Value input\<rparr>)))) (\<lambda>_.
       bindM (config_UpdateValue environmentID (VInput_ConfigID input) \<lparr>ValueUpdate_Value = VInput_Value input,
         ValueUpdate_UpdatedBy = Actor_UserID actor, ValueUpdate_Version = VInput_Version input\<rparr>) (\<lambda>_.
       RecordForEnvironment environmentID (configAudit actor ''config.value.update'' (VInput_ConfigID input))))))))) (\<lambda>_.
     config_FindByID environmentID (VInput_ConfigID input)))"

text \<open>The order in which the project identifiers of the result are visited is that of a Go map, \<open>order\<close>.\<close>

definition Config_List :: "(int list \<Rightarrow> int list) \<Rightarrow> Actor \<Rightarrow> int \<Rightarrow> ConfigFilter \<Rightarrow> (config_row list \<times> int set) M" where
  "Config_List order actor environmentID flt =
     bindM (Require (Actor_UserID actor) environmentID [''config:read'']) (\<lambda>_.
     bindM (all_pages configs (config_List environmentID flt) Inr) (\<lambda>items.
     bindM (forM (ListReleasedConfigIDs environmentID) (order (remdups (map c_ProjectID items)))) (\<lambda>ids.
     returnM (items, set (concat ids)))))"

definition Config_Delete :: "(unit M \<Rightarrow> unit M) \<Rightarrow> Actor \<Rightarrow> int \<Rightarrow> int \<Rightarrow> unit M" where
  "Config_Delete tx actor environmentID configID =
     bindM (Require (Actor_UserID actor) environmentID [''config:write'']) (\<lambda>_.
     tx (bindM (config_LockByID environmentID configID) (\<lambda>_.
         bindM (attemptM (FindAnyForConfig environmentID configID)) (\<lambda>found.
         bindM (case found of
                  Inr _ \<Rightarrow> failM (Conflict ''config with snapshots cannot be deleted'')
                | Inl e \<Rightarrow> if \<not> isNotFound e then failM e else returnM ()) (\<lambda>_.
         bindM (config_Delete environmentID configID (Actor_UserID actor)) (\<lambda>_.
         RecordForEnvironment environmentID (configAudit actor ''config.delete'' configID)))))))"

definition config_resources :: "codec \<Rightarrow> int \<Rightarrow> int \<Rightarrow> int \<Rightarrow> (Structure option list \<times> ConfigEnum option list) M" where
  "config_resources K environmentID projectID configID =
     (let flt = \<lparr>CFilter_ProjectID = projectID, CFilter_ConfigID = configID, CFilter_IgnoreDependencyID = None\<rparr> in
      bindM (all_pages structure_rows (structure_List environmentID flt) (StructuresToProto K)) (\<lambda>ss.
      bindM (all_pages enum_rows (enum_List environmentID flt) EnumsToProto) (\<lambda>es.
      returnM (ss, es))))"

definition Config_Detail :: "codec \<Rightarrow> (string list \<Rightarrow> string list) \<Rightarrow> Actor \<Rightarrow> int \<Rightarrow> int \<Rightarrow> (config_row \<times> tree_node) M" where
  "Config_Detail K iter actor environmentID configID =
     bindM (Require (Actor_UserID actor) environmentID [''config:read'', ''structure:read'', ''enum:read'']) (\<lambda>_.
     bindM (config_FindByID environmentID configID) (\<lambda>current.
     bindM (config_resources K environmentID (c_ProjectID current) configID) (\<lambda>(ss, es).
     bindM (liftR (NewSchema iter ss es)) (\<lambda>schema.
     bindM (liftR (ConfigToProto K current)) (\<lambda>converted.
     bindM (liftR (BuildTree schema (Some converted))) (\<lambda>tree.
     returnM (current, tree)))))))"

end
