(* ===== verification/Children.thy ===== *)
theory Children
  imports Drafts
begin

text \<open>
  Editing of the structures and enums of a config (\<^verbatim>\<open>server/internal/logic/structure.go\<close>, \<^verbatim>\<open>enum.go\<close>). The
  messages the converters return are never nil; a nil message would be dereferenced, which is \<open>Panic\<close>.
\<close>

section \<open>Lookups and references\<close>

fun findStructure :: "Structure option list \<Rightarrow> int \<Rightarrow> Structure result" where
  "findStructure [] i = Inl (NotFound ''structure'')"
| "findStructure (None # items) i = Inl (Panic ''nil structure'')"
| "findStructure (Some item # items) i = (if Structure_Id item = i then Inr item else findStructure items i)"

fun findEnum :: "ConfigEnum option list \<Rightarrow> int \<Rightarrow> ConfigEnum result" where
  "findEnum [] i = Inl (NotFound ''config enum'')"
| "findEnum (None # items) i = Inl (Panic ''nil enum'')"
| "findEnum (Some item # items) i = (if Enum_Id item = i then Inr item else findEnum items i)"

definition type_StructureKey :: "field_type \<Rightarrow> string" where
  "type_StructureKey t = (case t of Some (StructureKey k) \<Rightarrow> k | _ \<Rightarrow> '''')"

definition type_EnumKey :: "field_type \<Rightarrow> string" where
  "type_EnumKey t = (case t of Some (EnumKey k) \<Rightarrow> k | _ \<Rightarrow> '''')"

fun structures_reference :: "(Field option list \<Rightarrow> bool) \<Rightarrow> int option \<Rightarrow> Structure option list \<Rightarrow> bool result" where
  "structures_reference refers ignored [] = Inr False"
| "structures_reference refers ignored (None # items) = Inl (Panic ''nil structure'')"
| "structures_reference refers ignored (Some item # items) =
     (if ignored = Some (Structure_Id item) then structures_reference refers ignored items
      else if refers (Structure_Fields item) then Inr True
      else structures_reference refers ignored items)"

definition referencedStructure :: "codec \<Rightarrow> config_row \<Rightarrow> Structure option list \<Rightarrow> string \<Rightarrow> int \<Rightarrow> bool result" where
  "referencedStructure K config ss key ignoredID =
     bindR (DecodeFieldType K (c_TypeJSON config)) (\<lambda>typeValue.
       if type_StructureKey typeValue = key then Inr True
       else structures_reference (\<lambda>flds. fieldsReferenceStructure flds key) (Some ignoredID) ss)"

definition referencedEnum :: "codec \<Rightarrow> config_row \<Rightarrow> Structure option list \<Rightarrow> string \<Rightarrow> bool result" where
  "referencedEnum K config ss key =
     bindR (DecodeFieldType K (c_TypeJSON config)) (\<lambda>fieldType.
       if type_EnumKey fieldType = key then Inr True
       else structures_reference (\<lambda>flds. fieldsReferenceEnum flds key) None ss)"

section \<open>Structures\<close>

record StructureCreateInput =
  TCreate_ConfigID :: int
  TCreate_Key :: string
  TCreate_Name :: string
  TCreate_Description :: string

record StructureUpdateInput =
  TUpdate_StructureID :: int
  TUpdate_Key :: string
  TUpdate_Name :: string
  TUpdate_Description :: string
  TUpdate_Fields :: "Field option list"
  TUpdate_Version :: int

record StructureListInput =
  TList_ProjectID :: int
  TList_ConfigID :: int
  TList_IgnoreID :: "int option"

record structureUpdateOperation =
  tOperation_configID :: int
  tOperation_input :: StructureUpdateInput
  tOperation_contentJSON :: string

definition structureAudit :: "Actor \<Rightarrow> string \<Rightarrow> int \<Rightarrow> audit_row" where
  "structureAudit actor action resourceID = audit_entry actor action ''structure'' resourceID"

definition Structure_Create ::
  "(int M \<Rightarrow> int M) \<Rightarrow> codec \<Rightarrow> (string list \<Rightarrow> string list) \<Rightarrow> Actor \<Rightarrow> int \<Rightarrow> StructureCreateInput \<Rightarrow> child_row M" where
  "Structure_Create tx K iter actor environmentID input =
     bindM (Require (Actor_UserID actor) environmentID [''structure:write'']) (\<lambda>_.
     bindM (tx (
       bindM (configResources_lock K environmentID (TCreate_ConfigID input)) (\<lambda>(config, ss, es).
       let added = \<lparr>Structure_Id = 0, Structure_ConfigId = 0, Structure_Key = TCreate_Key input, Structure_Name = TCreate_Name input,
             Structure_Description = TCreate_Description input, Structure_Fields = [], Structure_Meta = zero_meta\<rparr> in
       bindM (liftR (NewSchema iter (ss @ [Some added]) es)) (\<lambda>_.
       bindM (structure_Create environmentID (TCreate_ConfigID input)
         (new_child (TCreate_ConfigID input) (Actor_UserID actor) (TCreate_Key input) (TCreate_Name input)
            (TCreate_Description input) ''[]'')) (\<lambda>item.
       bindM (RecordForEnvironment environmentID (structureAudit actor ''structure.create'' (ID item))) (\<lambda>_.
       returnM (ID item))))))) (\<lambda>itemID.
     structure_FindByID environmentID itemID))"

definition prepareStructureUpdate :: "codec \<Rightarrow> Actor \<Rightarrow> int \<Rightarrow> StructureUpdateInput \<Rightarrow> structureUpdateOperation M" where
  "prepareStructureUpdate K actor environmentID input =
     bindM (Require (Actor_UserID actor) environmentID [''structure:write'']) (\<lambda>_.
     bindM (structure_FindByID environmentID (TUpdate_StructureID input)) (\<lambda>current.
     bindM (mapErrM (\<lambda>e. Invalid ''invalid structure fields'') (liftR (EncodeFields K (TUpdate_Fields input)))) (\<lambda>contentJSON.
     returnM \<lparr>tOperation_configID = d_ConfigID current, tOperation_input = input, tOperation_contentJSON = contentJSON\<rparr>)))"

definition structureForUpdate :: "codec \<Rightarrow> config_row \<Rightarrow> Structure option list \<Rightarrow> StructureUpdateInput \<Rightarrow> Structure result" where
  "structureForUpdate K config ss input =
     bindR (findStructure ss (TUpdate_StructureID input)) (\<lambda>locked.
     bindR (referencedStructure K config ss (Structure_Key locked) (Structure_Id locked)) (\<lambda>referenced.
       if Structure_Key locked \<noteq> TUpdate_Key input \<and> referenced
       then Inl (Conflict ''referenced structure key cannot be changed'') else Inr locked))"

definition structureUpdateCandidate :: "Structure \<Rightarrow> StructureUpdateInput \<Rightarrow> Structure result" where
  "structureUpdateCandidate locked input =
     (case Uint32FromInt64 (word_of_int (TUpdate_Version input)) of
        Inl _ \<Rightarrow> Inl (Invalid ''invalid structure version'')
      | Inr version \<Rightarrow>
          Inr \<lparr>Structure_Id = Structure_Id locked, Structure_ConfigId = Structure_ConfigId locked,
               Structure_Key = TUpdate_Key input, Structure_Name = TUpdate_Name input,
               Structure_Description = TUpdate_Description input, Structure_Fields = TUpdate_Fields input,
               Structure_Meta = zero_meta\<lparr>Meta_Version := uint version\<rparr>\<rparr>)"

definition replace_structure :: "Structure \<Rightarrow> Structure option list \<Rightarrow> Structure option list" where
  "replace_structure candidate = map (map_option (\<lambda>item. if Structure_Id item = Structure_Id candidate then candidate else item))"

definition validateStructureReplacement ::
  "(string list \<Rightarrow> string list) \<Rightarrow> Structure option list \<Rightarrow> ConfigEnum option list \<Rightarrow> Structure \<Rightarrow> StructureUpdateInput \<Rightarrow> unit result" where
  "validateStructureReplacement iter ss es locked input =
     bindR (structureUpdateCandidate locked input) (\<lambda>candidate.
     bindR (NewSchema iter (replace_structure candidate ss) es) (\<lambda>_. Inr ()))"

definition validateStructureUpdate :: "codec \<Rightarrow> (string list \<Rightarrow> string list) \<Rightarrow> int \<Rightarrow> structureUpdateOperation \<Rightarrow> unit M" where
  "validateStructureUpdate K iter environmentID operation =
     bindM (configResources_lock K environmentID (tOperation_configID operation)) (\<lambda>(config, ss, es).
     bindM (liftR (structureForUpdate K config ss (tOperation_input operation))) (\<lambda>locked.
     liftR (validateStructureReplacement iter ss es locked (tOperation_input operation))))"

definition saveStructureUpdate :: "Actor \<Rightarrow> int \<Rightarrow> structureUpdateOperation \<Rightarrow> unit M" where
  "saveStructureUpdate actor environmentID operation =
     (let input = tOperation_input operation in
      bindM (structure_Update environmentID (TUpdate_StructureID input) \<lparr>CUpdate_Key = TUpdate_Key input,
        CUpdate_Name = TUpdate_Name input, CUpdate_Description = TUpdate_Description input,
        CUpdate_JSON = tOperation_contentJSON operation, CUpdate_UpdatedBy = Actor_UserID actor,
        CUpdate_Version = TUpdate_Version input\<rparr>) (\<lambda>_.
      RecordForEnvironment environmentID (structureAudit actor ''structure.update'' (TUpdate_StructureID input))))"

definition Structure_Update ::
  "(unit M \<Rightarrow> unit M) \<Rightarrow> codec \<Rightarrow> (string list \<Rightarrow> string list) \<Rightarrow> Actor \<Rightarrow> int \<Rightarrow> StructureUpdateInput \<Rightarrow> child_row M" where
  "Structure_Update tx K iter actor environmentID input =
     bindM (prepareStructureUpdate K actor environmentID input) (\<lambda>operation.
     bindM (tx (bindM (validateStructureUpdate K iter environmentID operation) (\<lambda>_.
                saveStructureUpdate actor environmentID operation))) (\<lambda>_.
     structure_FindByID environmentID (TUpdate_StructureID input)))"

definition allStructures :: "codec \<Rightarrow> int \<Rightarrow> int \<Rightarrow> int \<Rightarrow> Structure option list M" where
  "allStructures K environmentID projectID configID =
     all_pages structure_rows (structure_List environmentID \<lparr>CFilter_ProjectID = projectID, CFilter_ConfigID = configID,
       CFilter_IgnoreDependencyID = None\<rparr>) (StructuresToProto K)"

definition Structure_List :: "codec \<Rightarrow> Actor \<Rightarrow> int \<Rightarrow> StructureListInput \<Rightarrow> Structure list M" where
  "Structure_List K actor environmentID input =
     bindM (Require (Actor_UserID actor) environmentID [''structure:read'']) (\<lambda>_.
     bindM (config_FindByID environmentID (TList_ConfigID input)) (\<lambda>config.
     bindM (guardM (c_ProjectID config \<noteq> TList_ProjectID input) (NotFound ''config'')) (\<lambda>_.
     bindM (allStructures K environmentID (TList_ProjectID input) (TList_ConfigID input)) (\<lambda>items.
       case TList_IgnoreID input of
         None \<Rightarrow> returnM (map the items)
       | Some ignoreID \<Rightarrow> liftR (FilterStructureChoices (map the items) ignoreID)))))"

definition Structure_Delete ::
  "(unit M \<Rightarrow> unit M) \<Rightarrow> codec \<Rightarrow> (string list \<Rightarrow> string list) \<Rightarrow> Actor \<Rightarrow> int \<Rightarrow> int \<Rightarrow> unit M" where
  "Structure_Delete tx K iter actor environmentID structureID =
     bindM (Require (Actor_UserID actor) environmentID [''structure:write'']) (\<lambda>_.
     bindM (structure_FindByID environmentID structureID) (\<lambda>current.
     tx (bindM (configResources_lock K environmentID (d_ConfigID current)) (\<lambda>(config, ss, es).
         bindM (liftR (findStructure ss structureID)) (\<lambda>lockedCurrent.
         bindM (liftR (referencedStructure K config ss (Structure_Key lockedCurrent) (Structure_Id lockedCurrent))) (\<lambda>referenced.
         bindM (guardM referenced (Conflict ''referenced structure cannot be deleted'')) (\<lambda>_.
         let candidate = filter (\<lambda>item. map_option Structure_Id item \<noteq> Some (Structure_Id lockedCurrent)) ss in
         bindM (liftR (NewSchema iter candidate es)) (\<lambda>_.
         bindM (structure_Delete environmentID structureID (Actor_UserID actor)) (\<lambda>_.
         RecordForEnvironment environmentID (structureAudit actor ''structure.delete'' structureID)))))))))) "

section \<open>Enums\<close>

record EnumCreateInput =
  ECreate_ConfigID :: int
  ECreate_Key :: string
  ECreate_Name :: string
  ECreate_Description :: string
  ECreate_Values :: "SelectOption option list"

record EnumUpdateInput =
  EUpdate_EnumID :: int
  EUpdate_Key :: string
  EUpdate_Name :: string
  EUpdate_Description :: string
  EUpdate_Values :: "SelectOption option list"
  EUpdate_Version :: int

record enumUpdateOperation =
  eOperation_configID :: int
  eOperation_input :: EnumUpdateInput
  eOperation_contentJSON :: string

definition enumAudit :: "Actor \<Rightarrow> string \<Rightarrow> int \<Rightarrow> audit_row" where
  "enumAudit actor action resourceID = audit_entry actor action ''config_enum'' resourceID"

definition Enum_Create ::
  "(int M \<Rightarrow> int M) \<Rightarrow> codec \<Rightarrow> (string list \<Rightarrow> string list) \<Rightarrow> Actor \<Rightarrow> int \<Rightarrow> EnumCreateInput \<Rightarrow> child_row M" where
  "Enum_Create tx K iter actor environmentID input =
     bindM (Require (Actor_UserID actor) environmentID [''enum:write'']) (\<lambda>_.
     bindM (mapErrM (\<lambda>e. Invalid ''invalid enum values'') (liftR (EncodeOptions (ECreate_Values input)))) (\<lambda>valuesJSON.
     bindM (tx (
       bindM (configResources_lock K environmentID (ECreate_ConfigID input)) (\<lambda>(config, ss, es).
       let added = \<lparr>Enum_Id = 0, Enum_ConfigId = 0, Enum_Key = ECreate_Key input, Enum_Name = ECreate_Name input,
             Enum_Description = ECreate_Description input, Enum_Values = ECreate_Values input, Enum_Meta = zero_meta\<rparr> in
       bindM (liftR (NewSchema iter ss (es @ [Some added]))) (\<lambda>_.
       bindM (enum_Create environmentID (ECreate_ConfigID input)
         (new_child (ECreate_ConfigID input) (Actor_UserID actor) (ECreate_Key input) (ECreate_Name input)
            (ECreate_Description input) valuesJSON)) (\<lambda>item.
       bindM (RecordForEnvironment environmentID (enumAudit actor ''enum.create'' (ID item))) (\<lambda>_.
       returnM (ID item))))))) (\<lambda>itemID.
     enum_FindByID environmentID itemID)))"

definition prepareEnumUpdate :: "Actor \<Rightarrow> int \<Rightarrow> EnumUpdateInput \<Rightarrow> enumUpdateOperation M" where
  "prepareEnumUpdate actor environmentID input =
     bindM (Require (Actor_UserID actor) environmentID [''enum:write'']) (\<lambda>_.
     bindM (enum_FindByID environmentID (EUpdate_EnumID input)) (\<lambda>current.
     bindM (mapErrM (\<lambda>e. Invalid ''invalid enum values'') (liftR (EncodeOptions (EUpdate_Values input)))) (\<lambda>contentJSON.
     returnM \<lparr>eOperation_configID = d_ConfigID current, eOperation_input = input, eOperation_contentJSON = contentJSON\<rparr>)))"

definition enumForUpdate ::
  "codec \<Rightarrow> config_row \<Rightarrow> Structure option list \<Rightarrow> ConfigEnum option list \<Rightarrow> EnumUpdateInput \<Rightarrow> ConfigEnum result" where
  "enumForUpdate K config ss es input =
     bindR (findEnum es (EUpdate_EnumID input)) (\<lambda>locked.
     bindR (referencedEnum K config ss (Enum_Key locked)) (\<lambda>referenced.
       if Enum_Key locked \<noteq> EUpdate_Key input \<and> referenced
       then Inl (Conflict ''referenced enum key cannot be changed'') else Inr locked))"

definition enumUpdateCandidate :: "ConfigEnum \<Rightarrow> EnumUpdateInput \<Rightarrow> ConfigEnum result" where
  "enumUpdateCandidate locked input =
     (case Uint32FromInt64 (word_of_int (EUpdate_Version input)) of
        Inl _ \<Rightarrow> Inl (Invalid ''invalid enum version'')
      | Inr version \<Rightarrow>
          Inr \<lparr>Enum_Id = Enum_Id locked, Enum_ConfigId = Enum_ConfigId locked, Enum_Key = EUpdate_Key input,
               Enum_Name = EUpdate_Name input, Enum_Description = EUpdate_Description input,
               Enum_Values = EUpdate_Values input, Enum_Meta = zero_meta\<lparr>Meta_Version := uint version\<rparr>\<rparr>)"

definition replace_enum :: "ConfigEnum \<Rightarrow> ConfigEnum option list \<Rightarrow> ConfigEnum option list" where
  "replace_enum candidate = map (map_option (\<lambda>item. if Enum_Id item = Enum_Id candidate then candidate else item))"

definition validateEnumReplacement ::
  "(string list \<Rightarrow> string list) \<Rightarrow> Structure option list \<Rightarrow> ConfigEnum option list \<Rightarrow> ConfigEnum \<Rightarrow> EnumUpdateInput \<Rightarrow> unit result" where
  "validateEnumReplacement iter ss es locked input =
     bindR (enumUpdateCandidate locked input) (\<lambda>candidate.
     bindR (NewSchema iter ss (replace_enum candidate es)) (\<lambda>_. Inr ()))"

definition validateEnumUpdate :: "codec \<Rightarrow> (string list \<Rightarrow> string list) \<Rightarrow> int \<Rightarrow> enumUpdateOperation \<Rightarrow> unit M" where
  "validateEnumUpdate K iter environmentID operation =
     bindM (configResources_lock K environmentID (eOperation_configID operation)) (\<lambda>(config, ss, es).
     bindM (liftR (enumForUpdate K config ss es (eOperation_input operation))) (\<lambda>locked.
     liftR (validateEnumReplacement iter ss es locked (eOperation_input operation))))"

definition saveEnumUpdate :: "Actor \<Rightarrow> int \<Rightarrow> enumUpdateOperation \<Rightarrow> unit M" where
  "saveEnumUpdate actor environmentID operation =
     (let input = eOperation_input operation in
      bindM (enum_Update environmentID (EUpdate_EnumID input) \<lparr>CUpdate_Key = EUpdate_Key input,
        CUpdate_Name = EUpdate_Name input, CUpdate_Description = EUpdate_Description input,
        CUpdate_JSON = eOperation_contentJSON operation, CUpdate_UpdatedBy = Actor_UserID actor,
        CUpdate_Version = EUpdate_Version input\<rparr>) (\<lambda>_.
      RecordForEnvironment environmentID (enumAudit actor ''enum.update'' (EUpdate_EnumID input))))"

definition Enum_Update ::
  "(unit M \<Rightarrow> unit M) \<Rightarrow> codec \<Rightarrow> (string list \<Rightarrow> string list) \<Rightarrow> Actor \<Rightarrow> int \<Rightarrow> EnumUpdateInput \<Rightarrow> child_row M" where
  "Enum_Update tx K iter actor environmentID input =
     bindM (prepareEnumUpdate actor environmentID input) (\<lambda>operation.
     bindM (tx (bindM (validateEnumUpdate K iter environmentID operation) (\<lambda>_.
                saveEnumUpdate actor environmentID operation))) (\<lambda>_.
     enum_FindByID environmentID (EUpdate_EnumID input)))"

definition Enum_List :: "Actor \<Rightarrow> int \<Rightarrow> int \<Rightarrow> int \<Rightarrow> child_row list M" where
  "Enum_List actor environmentID projectID configID =
     bindM (Require (Actor_UserID actor) environmentID [''enum:read'']) (\<lambda>_.
     bindM (config_FindByID environmentID configID) (\<lambda>config.
     bindM (guardM (c_ProjectID config \<noteq> projectID) (NotFound ''config'')) (\<lambda>_.
     all_pages enum_rows (enum_List environmentID \<lparr>CFilter_ProjectID = projectID, CFilter_ConfigID = configID,
       CFilter_IgnoreDependencyID = None\<rparr>) Inr)))"

definition Enum_Delete ::
  "(unit M \<Rightarrow> unit M) \<Rightarrow> codec \<Rightarrow> (string list \<Rightarrow> string list) \<Rightarrow> Actor \<Rightarrow> int \<Rightarrow> int \<Rightarrow> unit M" where
  "Enum_Delete tx K iter actor environmentID enumID =
     bindM (Require (Actor_UserID actor) environmentID [''enum:write'']) (\<lambda>_.
     bindM (enum_FindByID environmentID enumID) (\<lambda>current.
     tx (bindM (configResources_lock K environmentID (d_ConfigID current)) (\<lambda>(config, ss, es).
         bindM (liftR (findEnum es enumID)) (\<lambda>locked.
         bindM (liftR (referencedEnum K config ss (Enum_Key locked))) (\<lambda>referenced.
         bindM (guardM referenced (Conflict ''referenced enum cannot be deleted'')) (\<lambda>_.
         let candidate = filter (\<lambda>item. map_option Enum_Id item \<noteq> Some enumID) es in
         bindM (liftR (NewSchema iter ss candidate)) (\<lambda>_.
         bindM (enum_Delete environmentID enumID (Actor_UserID actor)) (\<lambda>_.
         RecordForEnvironment environmentID (enumAudit actor ''enum.delete'' enumID)))))))))) "

end
