(* ===== verification/Import.thy ===== *)
theory Import
  imports Children
begin

text \<open>
  Export and import of snapshots between environments (\<^verbatim>\<open>server/internal/logic/export.go\<close>, \<^verbatim>\<open>import.go\<close>).
  SHA-256 is the argument \<open>sha256\<close>, the random identifier of a claim the argument \<open>uuid\<close>, and \<open>returning\<close>
  says whether the database is PostgreSQL.
\<close>

section \<open>Export\<close>

definition RequireSourceRead :: "int \<Rightarrow> int \<Rightarrow> unit M" where
  "RequireSourceRead userID environmentID =
     Require userID environmentID [''snapshot:export'', ''snapshot:read'', ''config:read'', ''structure:read'', ''enum:read'']"

definition ValidateSnapshot :: "codec \<Rightarrow> (string list \<Rightarrow> string list) \<Rightarrow> snapshot_row \<Rightarrow> ConfigSnapshot result" where
  "ValidateSnapshot K iter snapshot =
     bindR (DecodeConfigSnapshot K (s_Content snapshot)) (\<lambda>content.
     let c = the (Snapshot_Config content) in
     bindR (guardR (Config_Id c \<noteq> s_ConfigID snapshot \<or> Config_ProjectId c \<noteq> s_ProjectID snapshot \<or>
              Config_Key c \<noteq> s_ConfigKey snapshot) (Conflict ''snapshot content scope does not match snapshot'')) (\<lambda>_.
     bindR (guardR (RuneCountInString (Config_Description c) > 255) (Invalid ''snapshot config description is invalid'')) (\<lambda>_.
     bindR (checkR (\<lambda>item. guardR (case item of None \<Rightarrow> True | Some s \<Rightarrow> Structure_ConfigId s \<noteq> s_ConfigID snapshot)
              (Invalid ''snapshot structure belongs to another config'')) (Snapshot_Structures content)) (\<lambda>_.
     bindR (checkR (\<lambda>item. guardR (case item of None \<Rightarrow> True | Some e \<Rightarrow> Enum_ConfigId e \<noteq> s_ConfigID snapshot)
              (Invalid ''snapshot enum belongs to another config'')) (Snapshot_Enums content)) (\<lambda>_.
     bindR (NewSchema iter (Snapshot_Structures content) (Snapshot_Enums content)) (\<lambda>schema.
     bindR (ValidateConfig schema (Snapshot_Config content)) (\<lambda>_.
     bindR (BuildTree schema (Snapshot_Config content)) (\<lambda>tree.
     Inr (content\<lparr>Snapshot_Tree := Some tree\<rparr>)))))))))"

definition Export :: "codec \<Rightarrow> (string list \<Rightarrow> string list) \<Rightarrow> Actor \<Rightarrow> int \<Rightarrow> int \<Rightarrow> snapshot_row M" where
  "Export K iter actor sourceEnvironmentID snapshotID =
     bindM (RequireSourceRead (Actor_UserID actor) sourceEnvironmentID) (\<lambda>_.
     bindM (snapshot_FindByID sourceEnvironmentID snapshotID) (\<lambda>snapshot.
     bindM (liftR (ValidateSnapshot K iter snapshot)) (\<lambda>content.
     bindM (liftR (EncodeConfigSnapshot K (Some content))) (\<lambda>canonical.
     returnM (snapshot\<lparr>s_Content := canonical\<rparr>)))))"

section \<open>Requests\<close>

definition StrategyFail :: int where "StrategyFail = 1"
definition StrategyReplace :: int where "StrategyReplace = 2"

record ImportRequest =
  Import_SourceEnvironmentID :: int
  Import_SourceSnapshotID :: int
  Import_TargetEnvironmentID :: int
  Import_TargetProjectID :: int
  Import_TargetConfigID :: "int option"
  Import_Description :: string
  Import_Tags :: "int list"
  Import_IdempotencyKey :: string
  Import_ConflictStrategy :: int

record ImportResult =
  ImportResult_Snapshot :: snapshot_row
  ImportResult_Replayed :: bool

record cacheTarget =
  target_projectID :: int
  target_configKey :: string
  target_runtimeVersion :: int

record importOutcome =
  outcome_snapshotID :: int
  outcome_replayed :: bool
  outcome_cleanup :: "cacheTarget option"

record importTarget =
  import_config :: config_row
  import_snapshot :: snapshot_row

fun import_tags_ok :: "int list \<Rightarrow> bool" where
  "import_tags_ok [] \<longleftrightarrow> True"
| "import_tags_ok [t] \<longleftrightarrow> Tag_RELEASE \<le> t \<and> t \<le> Tag_REUSE"
| "import_tags_ok (t # u # ts) \<longleftrightarrow> Tag_RELEASE \<le> t \<and> t \<le> Tag_REUSE \<and> t \<noteq> u \<and> import_tags_ok (u # ts)"

definition canonical_request :: "ImportRequest \<Rightarrow> int list \<Rightarrow> string" where
  "canonical_request request tags =
     ''{'' @ key_json ''source_environment_id'' @ FormatInt (Import_SourceEnvironmentID request) @
     '','' @ key_json ''source_snapshot_id'' @ FormatInt (Import_SourceSnapshotID request) @
     '','' @ key_json ''target_environment_id'' @ FormatInt (Import_TargetEnvironmentID request) @
     '','' @ key_json ''target_project_id'' @ FormatInt (Import_TargetProjectID request) @
     '','' @ key_json ''target_config_id'' @
        (case Import_TargetConfigID request of None \<Rightarrow> ''null'' | Some i \<Rightarrow> FormatInt i) @
     '','' @ key_json ''description'' @ marshal_string (Import_Description request) @
     '','' @ key_json ''tags'' @ (if tags = [] then ''null'' else ''['' @ join '','' (map FormatInt tags) @ '']'') @
     '','' @ key_json ''conflict_strategy'' @ FormatInt (Import_ConflictStrategy request) @ ''}''"

definition validateAndHash :: "(string \<Rightarrow> string) \<Rightarrow> ImportRequest \<Rightarrow> (string \<times> int list) result" where
  "validateAndHash sha256 request =
     (let strategy = Import_ConflictStrategy request; target = Import_TargetConfigID request; tags = sort (Import_Tags request) in
      if strategy = StrategyFail \<and> target \<noteq> None \<or> strategy = StrategyReplace \<and> target = None \<or>
         strategy \<noteq> StrategyFail \<and> strategy \<noteq> StrategyReplace
      then Inl (Invalid ''snapshot import conflict strategy does not match target config'')
      else if \<not> import_tags_ok tags then Inl (Invalid ''snapshot import tags are invalid'')
      else Inr (sha256 (canonical_request request tags), tags))"

section \<open>Claims\<close>

definition new_claim :: "Actor \<Rightarrow> ImportRequest \<Rightarrow> string \<Rightarrow> string \<Rightarrow> import_row" where
  "new_claim actor request requestHash uuid =
     \<lparr>i_ID = 0, i_CreatedBy = Actor_UserID actor, i_UpdatedBy = Actor_UserID actor, i_CreatedAt = 0, i_UpdatedAt = 0, i_Version = 0,
      i_UserID = Actor_UserID actor, i_SourceEnvironmentID = Import_SourceEnvironmentID request,
      i_TargetEnvironmentID = Import_TargetEnvironmentID request, i_SourceSnapshotID = Import_SourceSnapshotID request,
      i_TargetProjectID = Import_TargetProjectID request, i_TargetSnapshotID = None,
      i_IdempotencyKey = Import_IdempotencyKey request, i_RequestHash = requestHash, i_Status = ImportStatusPending,
      i_ResultJSON = None, i_ErrorMessage = uuid\<rparr>"

definition claimImport :: "bool \<Rightarrow> string \<Rightarrow> Actor \<Rightarrow> ImportRequest \<Rightarrow> string \<Rightarrow> (import_row \<times> bool) M" where
  "claimImport returning uuid actor request requestHash =
     bindM (Claim returning (new_claim actor request requestHash uuid)) (\<lambda>(claimed, created).
       if i_RequestHash claimed \<noteq> requestHash then failM (Conflict ''idempotency key was used for a different request'')
       else if i_Status claimed = ImportStatusSucceeded \<and> i_TargetSnapshotID claimed \<noteq> None then returnM (claimed, True)
       else if \<not> created \<or> i_Status claimed \<noteq> ImportStatusPending
       then failM (Conflict ''matching snapshot import is still pending'')
       else returnM (claimed, False))"

section \<open>Writing the target\<close>

definition project_LockByID :: "int \<Rightarrow> int \<Rightarrow> project_row M" where
  "project_LockByID environmentID projectID =
     getM (\<lambda>E. projectScope (\<lambda>p e. ID e = environmentID \<and> ID p = projectID)) ''project''"

definition imported_config :: "int \<Rightarrow> int \<Rightarrow> Config \<Rightarrow> string \<Rightarrow> config_row" where
  "imported_config actorID projectID c typeJSON =
     \<lparr>ID = 0, CreatedBy = actorID, UpdatedBy = actorID, CreatedAt = 0, UpdatedAt = 0, Version = 0, DeletedAt = None,
      c_ProjectID = projectID, c_Key = Config_Key c, c_Description = Config_Description c, c_IsArray = Config_IsArray c,
      c_TypeJSON = typeJSON, c_Value = Config_Value c, c_RuntimeVersion = 0\<rparr>"

definition writeConfig :: "codec \<Rightarrow> int \<Rightarrow> ImportRequest \<Rightarrow> ConfigSnapshot \<Rightarrow> config_row M" where
  "writeConfig K actorID request source =
     (let c = the (Snapshot_Config source); environmentID = Import_TargetEnvironmentID request;
          projectID = Import_TargetProjectID request in
      bindM (liftR (EncodeFieldType K (Config_Type c))) (\<lambda>typeJSON.
      if Import_ConflictStrategy request = StrategyFail
      then config_Create environmentID projectID (imported_config actorID projectID c typeJSON)
      else
        bindM (config_LockByID environmentID (the (Import_TargetConfigID request))) (\<lambda>target.
        bindM (guardM (c_ProjectID target \<noteq> projectID) (NotFound ''target config'')) (\<lambda>_.
        bindM (config_Update environmentID (ID target) \<lparr>Update_Description = Config_Description c,
          Update_IsArray = Config_IsArray c, Update_TypeJSON = typeJSON, Update_UpdatedBy = actorID,
          Update_Version = Version target\<rparr>) (\<lambda>_.
        bindM (config_UpdateValue environmentID (ID target) \<lparr>ValueUpdate_Value = Config_Value c,
          ValueUpdate_UpdatedBy = actorID, ValueUpdate_Version = Version target + 1\<rparr>) (\<lambda>_.
        returnM (target\<lparr>c_Description := Config_Description c, c_IsArray := Config_IsArray c, c_TypeJSON := typeJSON,
          c_Value := Config_Value c, Version := Version target + 2, UpdatedBy := actorID\<rparr>)))))))"

definition resourceModels :: "codec \<Rightarrow> ConfigSnapshot \<Rightarrow> int \<Rightarrow> int \<Rightarrow> (child_row list \<times> child_row list) result" where
  "resourceModels K content configID actorID =
     bindR (forR (\<lambda>item. case item of
         None \<Rightarrow> Inl (Panic ''nil structure'')
       | Some s \<Rightarrow> bindR (EncodeFields K (Structure_Fields s)) (\<lambda>json.
           Inr (new_child configID actorID (Structure_Key s) (Structure_Name s) (Structure_Description s) json)))
       (Snapshot_Structures content)) (\<lambda>ss.
     bindR (forR (\<lambda>item. case item of
         None \<Rightarrow> Inl (Panic ''nil enum'')
       | Some e \<Rightarrow> bindR (EncodeOptions (Enum_Values e)) (\<lambda>json.
           Inr (new_child configID actorID (Enum_Key e) (Enum_Name e) (Enum_Description e) json)))
       (Snapshot_Enums content)) (\<lambda>es.
     Inr (ss, es)))"

text \<open>The row a persisted item has, by key; the map keeps the last row of a key.\<close>

definition persisted :: "child_row list \<Rightarrow> string \<Rightarrow> string \<Rightarrow> int result" where
  "persisted rows key message =
     (case map_of (rev (map (\<lambda>r. (d_Key r, r)) rows)) key of
        None \<Rightarrow> Inl (OtherError message)
      | Some r \<Rightarrow> if ID r \<le> 0 then Inl (OtherError message) else Inr (ID r))"

definition canonicalTargetContent ::
  "(string list \<Rightarrow> string list) \<Rightarrow> ConfigSnapshot \<Rightarrow> config_row \<Rightarrow> child_row list \<Rightarrow> child_row list \<Rightarrow> ConfigSnapshot result" where
  "canonicalTargetContent iter source config structureRows enumRows =
     (case Uint64FromInt64 (word_of_int (c_RuntimeVersion config)) of
        Inl _ \<Rightarrow> Inl (OtherError ''target config runtime version is invalid'')
      | Inr runtimeVersion \<Rightarrow>
          let c = (the (Snapshot_Config source))\<lparr>Config_Id := ID config, Config_ProjectId := c_ProjectID config,
                     Config_Key := c_Key config, Config_RuntimeVersion := uint runtimeVersion, Config_Meta := zero_meta\<rparr> in
          bindR (forR (\<lambda>item. case item of
              None \<Rightarrow> Inl (Panic ''nil structure'')
            | Some s \<Rightarrow> bindR (persisted structureRows (Structure_Key s) ''target structure was not persisted'') (\<lambda>i.
                Inr (Some (s\<lparr>Structure_Id := i, Structure_ConfigId := ID config, Structure_Meta := zero_meta\<rparr>))))
            (Snapshot_Structures source)) (\<lambda>ss.
          bindR (forR (\<lambda>item. case item of
              None \<Rightarrow> Inl (Panic ''nil enum'')
            | Some e \<Rightarrow> bindR (persisted enumRows (Enum_Key e) ''target enum was not persisted'') (\<lambda>i.
                Inr (Some (e\<lparr>Enum_Id := i, Enum_ConfigId := ID config, Enum_Meta := zero_meta\<rparr>))))
            (Snapshot_Enums source)) (\<lambda>es.
          bindR (NewSchema iter ss es) (\<lambda>schema.
          bindR (ValidateConfig schema (Some c)) (\<lambda>_.
          bindR (BuildTree schema (Some c)) (\<lambda>tree.
          Inr \<lparr>Snapshot_Config = Some c, Snapshot_Structures = ss, Snapshot_Enums = es, Snapshot_Tree = Some tree\<rparr>))))))"

definition importResources ::
  "codec \<Rightarrow> (string list \<Rightarrow> string list) \<Rightarrow> int \<Rightarrow> int \<Rightarrow> config_row \<Rightarrow> ConfigSnapshot \<Rightarrow> string M" where
  "importResources K iter actorID environmentID config source =
     bindM (liftR (resourceModels K source (ID config) actorID)) (\<lambda>(ss, es).
     bindM (structure_Reconcile environmentID (ID config) ss actorID) (\<lambda>ss.
     bindM (enum_Reconcile environmentID (ID config) es actorID) (\<lambda>es.
     bindM (liftR (canonicalTargetContent iter source config ss es)) (\<lambda>content.
     liftR (EncodeConfigSnapshot K (Some content))))))"

definition prepareImport :: "codec \<Rightarrow> (string list \<Rightarrow> string list) \<Rightarrow> Actor \<Rightarrow> ImportRequest \<Rightarrow> importTarget M" where
  "prepareImport K iter actor request =
     bindM (snapshot_LockByID (Import_SourceEnvironmentID request) (Import_SourceSnapshotID request)) (\<lambda>sourceSnapshot.
     bindM (liftR (ValidateSnapshot K iter sourceSnapshot)) (\<lambda>source.
     bindM (project_LockByID (Import_TargetEnvironmentID request) (Import_TargetProjectID request)) (\<lambda>_.
     bindM (writeConfig K (Actor_UserID actor) request source) (\<lambda>config.
     bindM (importResources K iter (Actor_UserID actor) (Import_TargetEnvironmentID request) config source) (\<lambda>content.
     bindM (liftR (EncodeTags (Import_Tags request))) (\<lambda>tagsJSON.
     returnM \<lparr>import_config = config,
       import_snapshot = new_snapshot (Actor_UserID actor) (c_ProjectID config) (ID config) (c_Key config)
         (Import_Description request) content tagsJSON\<rparr>))))))"

definition importAudit :: "Actor \<Rightarrow> ImportRequest \<Rightarrow> int \<Rightarrow> audit_row" where
  "importAudit actor request snapshotID =
     (audit_entry actor ''snapshot.import'' ''snapshot'' snapshotID)\<lparr>a_DetailsJSON := Some (
        ''{'' @ key_json ''source_environment_id'' @ FormatInt (Import_SourceEnvironmentID request) @
        '','' @ key_json ''source_snapshot_id'' @ FormatInt (Import_SourceSnapshotID request) @
        '','' @ key_json ''target_project_id'' @ FormatInt (Import_TargetProjectID request) @ ''}'')\<rparr>"

definition completeImport :: "Actor \<Rightarrow> ImportRequest \<Rightarrow> int \<Rightarrow> snapshot_row \<Rightarrow> snapshot_row M" where
  "completeImport actor request recordID snapshot =
     bindM (snapshot_Create (Import_TargetEnvironmentID request) (s_ProjectID snapshot) (s_ConfigID snapshot) snapshot) (\<lambda>snapshot.
     bindM (SetCurrent (Import_TargetEnvironmentID request) (s_ConfigID snapshot) (ID snapshot) (Actor_UserID actor)) (\<lambda>_.
     bindM (Complete recordID (ID snapshot)
       (''{'' @ key_json ''target_snapshot_id'' @ FormatInt (ID snapshot) @ ''}'')) (\<lambda>_.
     bindM (RecordForEnvironment (Import_TargetEnvironmentID request) (importAudit actor request (ID snapshot))) (\<lambda>_.
     returnM snapshot))))"

definition importSnapshot ::
  "bool \<Rightarrow> string \<Rightarrow> codec \<Rightarrow> (string list \<Rightarrow> string list) \<Rightarrow> Actor \<Rightarrow> ImportRequest \<Rightarrow> string \<Rightarrow> importOutcome M" where
  "importSnapshot returning uuid K iter actor request requestHash =
     bindM (claimImport returning uuid actor request requestHash) (\<lambda>(record', replayed).
       if replayed then returnM \<lparr>outcome_snapshotID = the (i_TargetSnapshotID record'), outcome_replayed = True, outcome_cleanup = None\<rparr>
       else
         bindM (prepareImport K iter actor request) (\<lambda>target.
         bindM (completeImport actor request (i_ID record') (import_snapshot target)) (\<lambda>snapshot.
         let config = import_config target in
         returnM \<lparr>outcome_snapshotID = ID snapshot, outcome_replayed = False,
           outcome_cleanup = Some \<lparr>target_projectID = c_ProjectID config, target_configKey = c_Key config,
             target_runtimeVersion = c_RuntimeVersion config\<rparr>\<rparr>)))"

text \<open>A failed clean-up is only logged.\<close>

definition cleanupImport :: "cacheTarget option \<Rightarrow> unit M" where
  "cleanupImport target =
     (case target of
        None \<Rightarrow> returnM ()
      | Some t \<Rightarrow> bindM (attemptM (DeletePublishedConfigVersion (target_projectID t) (target_configKey t) (target_runtimeVersion t)))
                    (\<lambda>_. returnM ()))"

definition Import ::
  "(importOutcome M \<Rightarrow> importOutcome M) \<Rightarrow> (string \<Rightarrow> string) \<Rightarrow> bool \<Rightarrow> string \<Rightarrow> codec \<Rightarrow> (string list \<Rightarrow> string list) \<Rightarrow>
   Actor \<Rightarrow> ImportRequest \<Rightarrow> ImportResult M" where
  "Import tx sha256 returning uuid K iter actor request =
     bindM (liftR (validateAndHash sha256 request)) (\<lambda>(requestHash, normalizedTags).
     let request = request\<lparr>Import_Tags := normalizedTags\<rparr> in
     bindM (RequireSourceRead (Actor_UserID actor) (Import_SourceEnvironmentID request)) (\<lambda>_.
     bindM (Require (Actor_UserID actor) (Import_TargetEnvironmentID request)
       [''snapshot:import'', ''snapshot:write'', ''config:write'', ''structure:write'', ''enum:write'']) (\<lambda>_.
     bindM (tx (importSnapshot returning uuid K iter actor request requestHash)) (\<lambda>outcome.
     bindM (cleanupImport (outcome_cleanup outcome)) (\<lambda>_.
     bindM (snapshot_FindByID (Import_TargetEnvironmentID request) (outcome_snapshotID outcome)) (\<lambda>snapshot.
     returnM \<lparr>ImportResult_Snapshot = snapshot, ImportResult_Replayed = outcome_replayed outcome\<rparr>))))))"

end
