(* ===== verification/API_Key.thy ===== *)
theory API_Key
  imports Operation
begin

text \<open>
  Management of project API keys (\<^verbatim>\<open>server/internal/logic/api_key.go\<close>). The random source of the credential
  generator is given by the two reads \<open>random1\<close> and \<open>random2\<close>.
\<close>

section \<open>Operations\<close>

record APIKeySecretResult =
  SecretResult_Key :: api_key_row
  SecretResult_Secret :: string

definition samePublicID :: "string \<Rightarrow> string \<Rightarrow> bool" where
  "samePublicID left right \<longleftrightarrow> left = right"

definition publicKey :: "api_key_row \<Rightarrow> api_key_row" where
  "publicKey item = item\<lparr>k_SecretHash := ''''\<rparr>"

definition apiKeyAudit :: "Actor \<Rightarrow> string \<Rightarrow> int \<Rightarrow> audit_row" where
  "apiKeyAudit actor action keyID = audit_entry actor action ''project_api_key'' keyID"

definition APIKey_List :: "Actor \<Rightarrow> int \<Rightarrow> int \<Rightarrow> api_key_row list M" where
  "APIKey_List actor environmentID projectID =
     bindM (Require (Actor_UserID actor) environmentID [''project:api_key:read'']) (\<lambda>_.
     bindM (apiKey_List environmentID projectID) (\<lambda>items.
     returnM (map (\<lambda>item. item\<lparr>k_SecretHash := ''''\<rparr>) items)))"

definition APIKey_Create ::
  "(api_key_row M \<Rightarrow> api_key_row M) \<Rightarrow> (string \<Rightarrow> string \<Rightarrow> string) \<Rightarrow> string \<Rightarrow> (nat \<Rightarrow> string option) \<Rightarrow>
   (nat \<Rightarrow> string option) \<Rightarrow> Actor \<Rightarrow> int \<Rightarrow> int \<Rightarrow> string \<Rightarrow> APIKeySecretResult M" where
  "APIKey_Create tx hmac pepper random1 random2 actor environmentID projectID name =
     bindM (Require (Actor_UserID actor) environmentID [''project:api_key:manage'']) (\<lambda>_.
     bindM (liftR (Generate hmac pepper random1 random2)) (\<lambda>generated.
     bindM nowM (\<lambda>now.
     let item = \<lparr>r_ID = 0, r_CreatedAt = now, r_UpdatedAt = now, k_ProjectID = projectID,
                 k_PublicID = Generated_PublicID generated, k_Name = name, k_SecretHash = Generated_Hash generated,
                 k_SecretSuffix = Generated_SecretSuffix generated, k_CreatedBy = Actor_UserID actor,
                 k_LastUsedAt = None, k_RevokedAt = None\<rparr> in
     bindM (tx (bindM (apiKey_Create environmentID projectID item) (\<lambda>item.
                bindM (RecordForEnvironment environmentID (apiKeyAudit actor ''project_api_key.create'' (r_ID item))) (\<lambda>_.
                returnM item)))) (\<lambda>item.
     returnM \<lparr>SecretResult_Key = publicKey item, SecretResult_Secret = Generated_Full generated\<rparr>))))"

definition APIKey_Rotate ::
  "(api_key_row M \<Rightarrow> api_key_row M) \<Rightarrow> (string \<Rightarrow> string \<Rightarrow> string) \<Rightarrow> string \<Rightarrow> (nat \<Rightarrow> string option) \<Rightarrow>
   (nat \<Rightarrow> string option) \<Rightarrow> Actor \<Rightarrow> int \<Rightarrow> int \<Rightarrow> int \<Rightarrow> APIKeySecretResult M" where
  "APIKey_Rotate tx hmac pepper random1 random2 actor environmentID projectID keyID =
     bindM (Require (Actor_UserID actor) environmentID [''project:api_key:manage'']) (\<lambda>_.
     bindM (apiKey_FindByID environmentID projectID keyID) (\<lambda>found.
     bindM (guardM (k_RevokedAt found \<noteq> None) (Conflict ''revoked API key cannot be rotated'')) (\<lambda>_.
     bindM (liftR (Generate hmac pepper random1 random2)) (\<lambda>generated.
     bindM nowM (\<lambda>now.
     bindM (tx (
       bindM (apiKey_LockByID environmentID projectID keyID) (\<lambda>locked.
       bindM (guardM (k_RevokedAt locked \<noteq> None) (Conflict ''revoked API key cannot be rotated'')) (\<lambda>_.
       bindM (guardM (\<not> samePublicID (k_PublicID locked) (k_PublicID found)) (Conflict ''API key changed concurrently'')) (\<lambda>_.
       let replacement = locked\<lparr>k_PublicID := Generated_PublicID generated, k_SecretHash := Generated_Hash generated,
             k_SecretSuffix := Generated_SecretSuffix generated, k_LastUsedAt := None, r_UpdatedAt := now\<rparr> in
       bindM (apiKey_Rotate \<lparr>Mutation_EnvironmentID = environmentID, Mutation_ProjectID = projectID,
           Mutation_KeyID = keyID, Mutation_CurrentPublicID = k_PublicID locked\<rparr> replacement) (\<lambda>_.
       bindM (RecordForEnvironment environmentID (apiKeyAudit actor ''project_api_key.rotate'' keyID)) (\<lambda>_.
       returnM replacement))))))) (\<lambda>result.
     returnM \<lparr>SecretResult_Key = publicKey result, SecretResult_Secret = Generated_Full generated\<rparr>))))))"

definition APIKey_Revoke :: "(unit M \<Rightarrow> unit M) \<Rightarrow> Actor \<Rightarrow> int \<Rightarrow> int \<Rightarrow> int \<Rightarrow> unit M" where
  "APIKey_Revoke tx actor environmentID projectID keyID =
     bindM (Require (Actor_UserID actor) environmentID [''project:api_key:manage'']) (\<lambda>_.
     bindM (apiKey_FindByID environmentID projectID keyID) (\<lambda>found.
     bindM (guardM (k_RevokedAt found \<noteq> None) (Conflict ''API key is already revoked'')) (\<lambda>_.
     bindM nowM (\<lambda>revokedAt.
     tx (bindM (apiKey_LockByID environmentID projectID keyID) (\<lambda>locked.
         bindM (guardM (k_RevokedAt locked \<noteq> None) (Conflict ''API key is already revoked'')) (\<lambda>_.
         bindM (guardM (\<not> samePublicID (k_PublicID locked) (k_PublicID found)) (Conflict ''API key changed concurrently'')) (\<lambda>_.
         bindM (apiKey_Revoke \<lparr>Mutation_EnvironmentID = environmentID, Mutation_ProjectID = projectID,
             Mutation_KeyID = keyID, Mutation_CurrentPublicID = k_PublicID locked\<rparr> revokedAt) (\<lambda>_.
         RecordForEnvironment environmentID (apiKeyAudit actor ''project_api_key.revoke'' keyID)))))))))) "

section \<open>Their shape\<close>

definition new_key :: "Actor \<Rightarrow> int \<Rightarrow> string \<Rightarrow> Generated \<Rightarrow> int \<Rightarrow> api_key_row" where
  "new_key actor projectID name generated now =
     \<lparr>r_ID = 0, r_CreatedAt = now, r_UpdatedAt = now, k_ProjectID = projectID,
      k_PublicID = Generated_PublicID generated, k_Name = name, k_SecretHash = Generated_Hash generated,
      k_SecretSuffix = Generated_SecretSuffix generated, k_CreatedBy = Actor_UserID actor,
      k_LastUsedAt = None, k_RevokedAt = None\<rparr>"

definition rotated_key :: "Generated \<Rightarrow> int \<Rightarrow> api_key_row \<Rightarrow> api_key_row" where
  "rotated_key generated now k =
     k\<lparr>k_PublicID := Generated_PublicID generated, k_SecretHash := Generated_Hash generated,
       k_SecretSuffix := Generated_SecretSuffix generated, k_LastUsedAt := None, r_UpdatedAt := now\<rparr>"

definition create_write :: "Actor \<Rightarrow> int \<Rightarrow> int \<Rightarrow> string \<Rightarrow> Generated \<times> int \<Rightarrow> api_key_row M" where
  "create_write actor environmentID projectID name = (\<lambda>(generated, now).
     bindM (apiKey_Create environmentID projectID (new_key actor projectID name generated now)) (\<lambda>item.
     bindM (RecordForEnvironment environmentID (apiKeyAudit actor ''project_api_key.create'' (r_ID item))) (\<lambda>_. returnM item)))"

definition lockKey :: "int \<Rightarrow> int \<Rightarrow> int \<Rightarrow> string \<Rightarrow> api_key_row \<Rightarrow> api_key_row M" where
  "lockKey environmentID projectID keyID message found =
     bindM (apiKey_LockByID environmentID projectID keyID) (\<lambda>locked.
     bindM (guardM (k_RevokedAt locked \<noteq> None) (Conflict message)) (\<lambda>_.
     bindM (guardM (\<not> samePublicID (k_PublicID locked) (k_PublicID found)) (Conflict ''API key changed concurrently'')) (\<lambda>_.
     returnM locked)))"

abbreviation key_mutation :: "int \<Rightarrow> int \<Rightarrow> api_key_row \<Rightarrow> int \<Rightarrow> APIKeyMutation" where
  "key_mutation environmentID projectID locked keyID \<equiv>
     \<lparr>Mutation_EnvironmentID = environmentID, Mutation_ProjectID = projectID, Mutation_KeyID = keyID,
      Mutation_CurrentPublicID = k_PublicID locked\<rparr>"

definition rotate_write :: "Actor \<Rightarrow> int \<Rightarrow> int \<Rightarrow> int \<Rightarrow> api_key_row \<times> Generated \<times> int \<Rightarrow> api_key_row M" where
  "rotate_write actor environmentID projectID keyID = (\<lambda>(found, generated, now).
     bindM (lockKey environmentID projectID keyID ''revoked API key cannot be rotated'' found) (\<lambda>locked.
     bindM (apiKey_Rotate (key_mutation environmentID projectID locked keyID) (rotated_key generated now locked)) (\<lambda>_.
     bindM (RecordForEnvironment environmentID (apiKeyAudit actor ''project_api_key.rotate'' keyID)) (\<lambda>_.
     returnM (rotated_key generated now locked)))))"

definition revoke_write :: "Actor \<Rightarrow> int \<Rightarrow> int \<Rightarrow> int \<Rightarrow> api_key_row \<times> int \<Rightarrow> unit M" where
  "revoke_write actor environmentID projectID keyID = (\<lambda>(found, now).
     bindM (lockKey environmentID projectID keyID ''API key is already revoked'' found) (\<lambda>locked.
     bindM (apiKey_Revoke (key_mutation environmentID projectID locked keyID) now) (\<lambda>_.
     RecordForEnvironment environmentID (apiKeyAudit actor ''project_api_key.revoke'' keyID))))"

definition secret_result :: "Generated \<Rightarrow> api_key_row \<Rightarrow> APIKeySecretResult" where
  "secret_result generated item = \<lparr>SecretResult_Key = publicKey item, SecretResult_Secret = Generated_Full generated\<rparr>"

lemma APIKey_Create_guarded:
  "APIKey_Create tx hmac pepper random1 random2 actor e p name = guarded tx actor e [''project:api_key:manage'']
     (bindM (liftR (Generate hmac pepper random1 random2)) (\<lambda>g. bindM nowM (\<lambda>now. returnM (g, now))))
     (create_write actor e p name) (\<lambda>(g, now). secret_result g)"
  by (simp add: APIKey_Create_def guarded_def create_write_def new_key_def secret_result_def monad_laws Let_def)

lemma APIKey_Rotate_guarded:
  "APIKey_Rotate tx hmac pepper random1 random2 actor e p keyID = guarded tx actor e [''project:api_key:manage'']
     (bindM (apiKey_FindByID e p keyID) (\<lambda>found.
      bindM (guardM (k_RevokedAt found \<noteq> None) (Conflict ''revoked API key cannot be rotated'')) (\<lambda>_.
      bindM (liftR (Generate hmac pepper random1 random2)) (\<lambda>g. bindM nowM (\<lambda>now. returnM (found, g, now))))))
     (rotate_write actor e p keyID) (\<lambda>(found, g, now). secret_result g)"
  by (simp add: APIKey_Rotate_def guarded_def rotate_write_def lockKey_def rotated_key_def secret_result_def monad_laws Let_def)

lemma APIKey_Revoke_guarded:
  "APIKey_Revoke tx actor e p keyID = guarded tx actor e [''project:api_key:manage'']
     (bindM (apiKey_FindByID e p keyID) (\<lambda>found.
      bindM (guardM (k_RevokedAt found \<noteq> None) (Conflict ''API key is already revoked'')) (\<lambda>_.
      bindM nowM (\<lambda>now. returnM (found, now)))))
     (revoke_write actor e p keyID) (\<lambda>_ u. u)"
  by (simp add: APIKey_Revoke_def guarded_def revoke_write_def lockKey_def monad_laws)

lemma database_key_writes [database_intro]:
  "database_only (create_write actor e p name a)" "database_only (rotate_write actor e p keyID b)"
  "database_only (revoke_write actor e p keyID c)"
  unfolding create_write_def rotate_write_def revoke_write_def lockKey_def apiKey_Create_def apiKey_Rotate_def apiKey_Revoke_def
    apiKey_LockByID_def lockScopedProject_def RecordPrepareInsert_def insertTimes_def insertAPIKey_def
  by (intro database_intro)+

interpretation create_op: guarded_operation run_tx
  "bindM (liftR (Generate hmac pepper random1 random2)) (\<lambda>g. bindM nowM (\<lambda>now. returnM (g, now)))"
  "create_write actor e p name" for hmac pepper random1 random2 actor e p name
  by unfold_locales (intro reads_intro database_intro)+

section \<open>Effects\<close>

definition runtime_project :: "db \<Rightarrow> project_row \<Rightarrow> bool" where
  "runtime_project d p \<longleftrightarrow> p \<in> set (projects d) \<and> DeletedAt p = None \<and>
     (\<exists>e \<in> set (environments d). e_ProjectID e = ID p \<and> e_Enabled e \<and> DeletedAt e = None)"

lemma lockKey_Inr:
  assumes "lockKey e p keyID message found E w = (Inr k, w')"
  shows "k \<in> set (api_keys (database w)) \<and> r_ID k = keyID \<and> k_ProjectID k = p \<and> k_RevokedAt k = None \<and> database w' = database w"
proof -
  from assms have "k \<in> set (apiKeyScope (\<lambda>k p' e'. ID e' = e \<and> ID p' = p \<and> r_ID k = keyID) (database w))"
      "k_RevokedAt k = None" "database w' = database w"
    by (auto simp: lockKey_def apiKey_LockByID_def getM_Inr run_simps dest!: first_row_Some)
  then show ?thesis by (auto simp: apiKeyScope_iff)
qed

lemma mutation_unique:
  assumes "distinct (map r_ID (api_keys d))" "k \<in> set (api_keys d)" "r_ID k = keyID"
    "\<exists>x \<in> set (api_keys d). mutation_scope (key_mutation e p k keyID) d x"
  shows "update_rows (mutation_scope (key_mutation e p k keyID) d) f (api_keys d) =
    update_rows (\<lambda>x. r_ID x = keyID) f (api_keys d)"
proof -
  from assms(4) obtain x where x: "x \<in> set (api_keys d)" "mutation_scope (key_mutation e p k keyID) d x" by blast
  then have "x = k" using row_unique [OF assms(1) x(1) assms(2)] assms(3) by (simp add: mutation_scope_def)
  with x assms show ?thesis
    using update_rows_unique [where g = r_ID and t = k and f = f and f' = f and rows = "api_keys d"
        and cond = "mutation_scope (key_mutation e p k keyID) d"]
    by (simp add: mutation_scope_def)
qed

lemma rotate_write_Inr:
  assumes "rotate_write actor e p keyID (found, g, now) E w = (Inr row, w')" "distinct (map r_ID (api_keys (database w)))"
  shows "\<exists>k \<in> set (api_keys (database w)). r_ID k = keyID \<and> k_ProjectID k = p \<and> k_RevokedAt k = None \<and> row = rotated_key g now k \<and>
    (\<forall>x \<in> set (api_keys (database w)). r_ID x \<noteq> keyID \<longrightarrow> k_PublicID x \<noteq> Generated_PublicID g) \<and>
    audited (api_keys_update (update_rows (\<lambda>x. r_ID x = keyID) (rotated_key g now)) (database w))
      (apiKeyAudit actor ''project_api_key.rotate'' keyID) e (database w')"
proof -
  from assms(1) obtain k w1 w2 where lock: "lockKey e p keyID ''revoked API key cannot be rotated'' found E w = (Inr k, w1)"
    and rot: "apiKey_Rotate (key_mutation e p k keyID) (rotated_key g now k) E w1 = (Inr (), w2)"
    and aud: "RecordForEnvironment e (apiKeyAudit actor ''project_api_key.rotate'' keyID) E w2 = (Inr (), w')"
    and row: "row = rotated_key g now k"
    by (auto simp: rotate_write_def run_simps)
  note k = lockKey_Inr [OF lock]
  let ?d = "database w"
  from rot k have ex: "\<exists>x \<in> set (api_keys ?d). mutation_scope (key_mutation e p k keyID) ?d x"
    and new: "\<forall>x \<in> set (api_keys ?d). r_ID x \<noteq> keyID \<longrightarrow> k_PublicID x \<noteq> Generated_PublicID g"
    and w2: "database w2 = api_keys_update (update_rows (mutation_scope (key_mutation e p k keyID) ?d) (rotated_key g now)) ?d"
    by (auto simp: apiKey_Rotate_def run_simps rotated_key_def [abs_def] list_ex_iff split: if_splits)
  have "database w2 = api_keys_update (update_rows (\<lambda>x. r_ID x = keyID) (rotated_key g now)) ?d"
    unfolding w2 by (rule table_update_cong(3)) (rule mutation_unique [OF assms(2) _ _ ex], use k in auto)
  with RecordForEnvironment_audited [OF aud] k new row show ?thesis by auto
qed

lemma revoke_write_Inr:
  assumes "revoke_write actor e p keyID (found, now) E w = (Inr u, w')" "distinct (map r_ID (api_keys (database w)))"
  shows "\<exists>k \<in> set (api_keys (database w)). r_ID k = keyID \<and> k_ProjectID k = p \<and> k_RevokedAt k = None \<and>
    audited (api_keys_update (update_rows (\<lambda>x. r_ID x = keyID) (\<lambda>k. k\<lparr>k_RevokedAt := Some now, r_UpdatedAt := now\<rparr>)) (database w))
      (apiKeyAudit actor ''project_api_key.revoke'' keyID) e (database w')"
proof -
  from assms(1) obtain k w1 w2 where lock: "lockKey e p keyID ''API key is already revoked'' found E w = (Inr k, w1)"
    and rev: "apiKey_Revoke (key_mutation e p k keyID) now E w1 = (Inr (), w2)"
    and aud: "RecordForEnvironment e (apiKeyAudit actor ''project_api_key.revoke'' keyID) E w2 = (Inr (), w')"
    by (auto simp: revoke_write_def run_simps)
  note k = lockKey_Inr [OF lock]
  let ?d = "database w" and ?f = "\<lambda>k. k\<lparr>k_RevokedAt := Some now, r_UpdatedAt := now\<rparr> :: api_key_row"
  from rev k have ex: "\<exists>x \<in> set (api_keys ?d). mutation_scope (key_mutation e p k keyID) ?d x"
    and w2: "database w2 = api_keys_update (update_rows (mutation_scope (key_mutation e p k keyID) ?d) ?f) ?d"
    by (auto simp: apiKey_Revoke_def run_simps)
  have "database w2 = api_keys_update (update_rows (\<lambda>x. r_ID x = keyID) ?f) ?d"
    unfolding w2 by (rule table_update_cong(3)) (rule mutation_unique [OF assms(2) _ _ ex], use k in auto)
  with RecordForEnvironment_audited [OF aud] k show ?thesis by auto
qed

lemma create_write_Inr:
  assumes "create_write actor e p name (g, now) E w = (Inr row, w')"
  shows "k_ProjectID row = p \<and> k_PublicID row = Generated_PublicID g \<and> k_SecretHash row = Generated_Hash g \<and>
    k_RevokedAt row = None \<and> k_Name row = name \<and>
    (\<forall>x \<in> set (api_keys (database w)). k_PublicID x \<noteq> Generated_PublicID g) \<and>
    audited (api_keys_update (\<lambda>rows. rows @ [row]) (database w)) (apiKeyAudit actor ''project_api_key.create'' (r_ID row)) e (database w')"
proof -
  from assms obtain w1 where cr: "apiKey_Create e p (new_key actor p name g now) E w = (Inr row, w1)"
    and aud: "RecordForEnvironment e (apiKeyAudit actor ''project_api_key.create'' (r_ID row)) E w1 = (Inr (), w')"
    by (auto simp: create_write_def run_simps)
  from cr have "k_ProjectID row = p \<and> k_PublicID row = Generated_PublicID g \<and> k_SecretHash row = Generated_Hash g \<and>
    k_RevokedAt row = None \<and> k_Name row = name \<and> (\<forall>x \<in> set (api_keys (database w)). k_PublicID x \<noteq> Generated_PublicID g) \<and>
    database w1 = api_keys_update (\<lambda>rows. rows @ [row]) (database w)"
    by (auto simp: apiKey_Create_def lockScopedProject_def RecordPrepareInsert_def insertTimes_def insertAPIKey_def new_key_def
        getM_Inr run_simps list_ex_iff)
  with RecordForEnvironment_audited [OF aud] show ?thesis by auto
qed

section \<open>Which credentials are accepted afterwards\<close>

definition key_accepts :: "(string \<Rightarrow> string \<Rightarrow> string) \<Rightarrow> string \<Rightarrow> string \<Rightarrow> int \<Rightarrow> api_key_row \<Rightarrow> bool" where
  "key_accepts hmac pepper full projectID k \<longleftrightarrow> PublicID full = Inr (k_PublicID k) \<and> k_SecretHash k = hmac pepper full \<and>
     k_RevokedAt k = None \<and> k_ProjectID k = projectID"

lemma authenticates_iff:
  "authenticates hmac pepper d full p \<longleftrightarrow> runtime_project d p \<and> (\<exists>k \<in> set (api_keys d). key_accepts hmac pepper full (ID p) k)"
  by (auto simp: authenticates_def runtime_project_def key_accepts_def)

lemma runtime_project_keys [simp]: "runtime_project (api_keys_update f d) = runtime_project d"
  by (simp add: runtime_project_def fun_eq_iff)

lemma audited_keys:
  "audited (api_keys_update f d) log e d' \<Longrightarrow> api_keys d' = f (api_keys d) \<and> runtime_project d' = runtime_project d"
  by (auto simp: runtime_project_def audited_def fun_eq_iff)

lemma rows_update_unique:
  assumes "distinct (map g rows)" "k \<in> set rows"
  shows "(\<exists>x \<in> set (update_rows (\<lambda>x. g x = g k) f rows). P x) \<longleftrightarrow> P (f k) \<or> (\<exists>x \<in> set rows. g x \<noteq> g k \<and> P x)"
proof -
  have eq: "x = k" if "x \<in> set rows" "g x = g k" for x using row_unique [OF assms(1) that(1) assms(2) that(2)] .
  have "(\<exists>x \<in> set rows. P (if g x = g k then f x else x)) \<longleftrightarrow> P (f k) \<or> (\<exists>x \<in> set rows. g x \<noteq> g k \<and> P x)"
    using assms(2) eq by (auto split: if_splits)
  then show ?thesis by (simp only: set_update_rows bex_simps(7))
qed

lemma authenticates_added:
  assumes "api_keys d' = api_keys d @ [row]" "runtime_project d' = runtime_project d"
  shows "authenticates hmac pepper d' full p \<longleftrightarrow>
    authenticates hmac pepper d full p \<or> runtime_project d p \<and> key_accepts hmac pepper full (ID p) row"
  using assms by (auto simp: authenticates_iff)

text \<open>
  C32. A created key works at once and disturbs nothing else: on an error the database is unchanged; on success
  the caller was authorised, the one-time secret speaks for exactly the requested project whenever that is
  live and enabled, and spoke for none before; the returned record carries no digest, and every other
  credential keeps its meaning.
\<close>

theorem APIKey_Create_works:
  assumes "transaction_runner tx" "perm_coherent (database w) (cache w)" "plain_catalog (database w)"
    "\<forall>n b. random1 n = Some b \<longrightarrow> length b = n" "\<forall>n b. random2 n = Some b \<longrightarrow> length b = n"
    "APIKey_Create tx hmac pepper random1 random2 actor environmentID projectID name E w = (r, w')"
  shows "case r of
      Inl e \<Rightarrow> database w' = database w
    | Inr res \<Rightarrow> authorised (database w) (Actor_UserID actor) environmentID [''project:api_key:manage''] \<and>
        (\<forall>p. authenticates hmac pepper (database w') (SecretResult_Secret res) p \<longleftrightarrow> runtime_project (database w) p \<and> ID p = projectID) \<and>
        (\<forall>p. \<not> authenticates hmac pepper (database w) (SecretResult_Secret res) p) \<and>
        k_SecretHash (SecretResult_Key res) = '''' \<and> k_Name (SecretResult_Key res) = name \<and>
        (\<forall>full p. PublicID full \<noteq> Inr (k_PublicID (SecretResult_Key res)) \<longrightarrow>
           authenticates hmac pepper (database w') full p = authenticates hmac pepper (database w) full p)"
proof (cases r)
  case (Inl e)
  with guarded_effect [OF assms(1) _ _ assms(6) [unfolded APIKey_Create_guarded] assms(2,3)]
  show ?thesis by (simp add: reads_intro database_intro)
next
  case (Inr res)
  with guarded_effect [OF assms(1) _ _ assms(6) [unfolded APIKey_Create_guarded] assms(2,3)]
  obtain a row w0 w1 where auth: "authorised (database w) (Actor_UserID actor) environmentID [''project:api_key:manage'']"
    and prep: "bindM (liftR (Generate hmac pepper random1 random2)) (\<lambda>g. bindM nowM (\<lambda>now. returnM (g, now))) E w0 = (Inr a, w1)"
    and d1: "database w1 = database w" and wr: "create_write actor environmentID projectID name a E w1 = (Inr row, w')"
    and res: "res = (case a of (g, now) \<Rightarrow> secret_result g) row"
    by (auto simp: reads_intro database_intro)
  from prep obtain g now where a: "a = (g, now)" and gen: "Generate hmac pepper random1 random2 = Inr g" by (auto simp: run_simps)
  note acc = Generate_accepted(1,2) [OF gen assms(4,5)]
  have row: "k_ProjectID row = projectID" "k_PublicID row = Generated_PublicID g" "k_SecretHash row = Generated_Hash g"
      "k_RevokedAt row = None" "k_Name row = name" "\<forall>x \<in> set (api_keys (database w)). k_PublicID x \<noteq> Generated_PublicID g"
    and "api_keys (database w') = api_keys (database w) @ [row]" "runtime_project (database w') = runtime_project (database w)"
    using create_write_Inr [OF wr [unfolded a], unfolded d1] by (auto dest!: audited_keys)
  note added = authenticates_added [OF this(7,8)]
  have "\<not> authenticates hmac pepper (database w) full p" if "PublicID full = Inr (Generated_PublicID g)" for full p
    using row(6) that by (auto simp: authenticates_iff key_accepts_def)
  then show ?thesis using auth row(1-5) acc unfolding Inr res a
    by (auto simp: added key_accepts_def secret_result_def publicKey_def)
qed

lemma authenticates_changed:
  assumes "api_keys d' = update_rows (\<lambda>x. r_ID x = r_ID k) f (api_keys d)" "runtime_project d' = runtime_project d"
    "distinct (map r_ID (api_keys d))" "k \<in> set (api_keys d)"
  shows "authenticates hmac pepper d' full p \<longleftrightarrow> runtime_project d p \<and> (key_accepts hmac pepper full (ID p) (f k) \<or>
    (\<exists>x \<in> set (api_keys d). r_ID x \<noteq> r_ID k \<and> key_accepts hmac pepper full (ID p) x))"
  by (simp only: authenticates_iff assms(1,2) rows_update_unique [OF assms(3,4)])

lemma authenticates_other:
  assumes "k \<in> set (api_keys d)" "distinct (map r_ID (api_keys d))" "PublicID full \<noteq> Inr (k_PublicID k)"
  shows "authenticates hmac pepper d full p \<longleftrightarrow>
    runtime_project d p \<and> (\<exists>x \<in> set (api_keys d). r_ID x \<noteq> r_ID k \<and> key_accepts hmac pepper full (ID p) x)"
  using row_unique [OF assms(2) _ assms(1)] assms(3) by (auto simp: authenticates_iff key_accepts_def)

text \<open>
  C33. Rotating a key replaces its credential: on an error the database is unchanged; on success the caller was
  authorised, the key was an unrevoked one of the project, the new one-time secret speaks for exactly that
  project, no credential with the replaced identifier is accepted any more, and every other credential keeps
  its meaning.
\<close>

theorem APIKey_Rotate_replaces:
  assumes "transaction_runner tx" "perm_coherent (database w) (cache w)" "plain_catalog (database w)"
    "\<forall>n b. random1 n = Some b \<longrightarrow> length b = n" "\<forall>n b. random2 n = Some b \<longrightarrow> length b = n"
    "distinct (map r_ID (api_keys (database w)))" "distinct (map k_PublicID (api_keys (database w)))"
    "APIKey_Rotate tx hmac pepper random1 random2 actor environmentID projectID keyID E w = (r, w')"
  shows "case r of
      Inl e \<Rightarrow> database w' = database w
    | Inr res \<Rightarrow> authorised (database w) (Actor_UserID actor) environmentID [''project:api_key:manage''] \<and>
        (\<exists>k \<in> set (api_keys (database w)). r_ID k = keyID \<and> k_ProjectID k = projectID \<and> k_RevokedAt k = None \<and>
          (\<forall>p. authenticates hmac pepper (database w') (SecretResult_Secret res) p \<longleftrightarrow> runtime_project (database w) p \<and> ID p = projectID) \<and>
          (\<forall>full p. PublicID full = Inr (k_PublicID k) \<longrightarrow> k_PublicID k \<noteq> k_PublicID (SecretResult_Key res) \<longrightarrow>
             \<not> authenticates hmac pepper (database w') full p) \<and>
          (\<forall>full p. PublicID full \<noteq> Inr (k_PublicID k) \<longrightarrow> PublicID full \<noteq> Inr (k_PublicID (SecretResult_Key res)) \<longrightarrow>
             authenticates hmac pepper (database w') full p = authenticates hmac pepper (database w) full p) \<and>
          k_SecretHash (SecretResult_Key res) = '''')"
proof (cases r)
  case (Inl e)
  with guarded_effect [OF assms(1) _ _ assms(8) [unfolded APIKey_Rotate_guarded] assms(2,3)]
  show ?thesis by (simp add: reads_intro database_intro apiKey_FindByID_def)
next
  case (Inr res)
  with guarded_effect [OF assms(1) _ _ assms(8) [unfolded APIKey_Rotate_guarded] assms(2,3)]
  obtain a row w0 w1 where auth: "authorised (database w) (Actor_UserID actor) environmentID [''project:api_key:manage'']"
    and prep: "bindM (apiKey_FindByID environmentID projectID keyID) (\<lambda>found.
      bindM (guardM (k_RevokedAt found \<noteq> None) (Conflict ''revoked API key cannot be rotated'')) (\<lambda>_.
      bindM (liftR (Generate hmac pepper random1 random2)) (\<lambda>g. bindM nowM (\<lambda>now. returnM (found, g, now))))) E w0 = (Inr a, w1)"
    and d1: "database w1 = database w" and wr: "rotate_write actor environmentID projectID keyID a E w1 = (Inr row, w')"
    and res: "res = (case a of (found, g, now) \<Rightarrow> secret_result g) row"
    by (auto simp: reads_intro database_intro apiKey_FindByID_def)
  from prep obtain found g now where a: "a = (found, g, now)" and gen: "Generate hmac pepper random1 random2 = Inr g"
    by (auto simp: run_simps)
  note acc = Generate_accepted(1,2) [OF gen assms(4,5)]
  from rotate_write_Inr [OF wr [unfolded a]] assms(6) d1 obtain k where
    k: "k \<in> set (api_keys (database w))" "r_ID k = keyID" "k_ProjectID k = projectID" "k_RevokedAt k = None" "row = rotated_key g now k"
    and new: "\<forall>x \<in> set (api_keys (database w)). r_ID x \<noteq> keyID \<longrightarrow> k_PublicID x \<noteq> Generated_PublicID g"
    and "api_keys (database w') = update_rows (\<lambda>x. r_ID x = r_ID k) (rotated_key g now) (api_keys (database w))"
      "runtime_project (database w') = runtime_project (database w)"
    by (auto dest!: audited_keys)
  note changed = authenticates_changed [OF this(7,8) assms(6) k(1)]
  have other: "k_PublicID x \<noteq> k_PublicID k" if "x \<in> set (api_keys (database w))" "r_ID x \<noteq> keyID" for x
    using row_unique [OF assms(7) that(1) k(1)] that(2) k(2) by auto
  have pub: "k_PublicID (SecretResult_Key res) = Generated_PublicID g" "SecretResult_Secret res = Generated_Full g"
      "k_SecretHash (SecretResult_Key res) = ''''" "k_PublicID (rotated_key g now k) = Generated_PublicID g"
    using k(5) by (simp_all add: res a secret_result_def publicKey_def rotated_key_def)
  have fresh: "authenticates hmac pepper (database w') (Generated_Full g) p \<longleftrightarrow> runtime_project (database w) p \<and> ID p = projectID" for p
    using new acc k unfolding changed by (auto simp: key_accepts_def rotated_key_def)
  have gone: "\<not> authenticates hmac pepper (database w') full p" if "PublicID full = Inr (k_PublicID k)" "k_PublicID k \<noteq> Generated_PublicID g" for full p
    using that other k(2) unfolding changed by (fastforce simp: key_accepts_def rotated_key_def)
  have same: "authenticates hmac pepper (database w') full p = authenticates hmac pepper (database w) full p"
    if "PublicID full \<noteq> Inr (k_PublicID k)" "PublicID full \<noteq> Inr (Generated_PublicID g)" for full p
    using that(2) unfolding changed authenticates_other [OF k(1) assms(6) that(1)] by (auto simp: key_accepts_def rotated_key_def)
  show ?thesis using auth k fresh gone same pub unfolding Inr by auto
qed

text \<open>
  C34. Revoking a key ends its credential: on an error the database is unchanged; on success the caller was
  authorised, the key was an unrevoked one of the project, no credential with its identifier is accepted any
  more, and every other credential keeps its meaning.
\<close>

theorem APIKey_Revoke_ends:
  assumes "transaction_runner tx" "perm_coherent (database w) (cache w)" "plain_catalog (database w)"
    "distinct (map r_ID (api_keys (database w)))" "distinct (map k_PublicID (api_keys (database w)))"
    "APIKey_Revoke tx actor environmentID projectID keyID E w = (r, w')"
  shows "case r of
      Inl e \<Rightarrow> database w' = database w
    | Inr _ \<Rightarrow> authorised (database w) (Actor_UserID actor) environmentID [''project:api_key:manage''] \<and>
        (\<exists>k \<in> set (api_keys (database w)). r_ID k = keyID \<and> k_ProjectID k = projectID \<and> k_RevokedAt k = None \<and>
          (\<forall>full p. PublicID full = Inr (k_PublicID k) \<longrightarrow> \<not> authenticates hmac pepper (database w') full p) \<and>
          (\<forall>full p. PublicID full \<noteq> Inr (k_PublicID k) \<longrightarrow>
             authenticates hmac pepper (database w') full p = authenticates hmac pepper (database w) full p))"
proof (cases r)
  case (Inl e)
  with guarded_effect [OF assms(1) _ _ assms(6) [unfolded APIKey_Revoke_guarded] assms(2,3)]
  show ?thesis by (simp add: reads_intro database_intro apiKey_FindByID_def)
next
  case (Inr u)
  with guarded_effect [OF assms(1) _ _ assms(6) [unfolded APIKey_Revoke_guarded] assms(2,3)]
  obtain found now w1 where auth: "authorised (database w) (Actor_UserID actor) environmentID [''project:api_key:manage'']"
    and d1: "database w1 = database w" and wr: "revoke_write actor environmentID projectID keyID (found, now) E w1 = (Inr (), w')"
    by (auto simp: reads_intro database_intro apiKey_FindByID_def)
  from revoke_write_Inr [OF wr] assms(4) d1 obtain k where
    k: "k \<in> set (api_keys (database w))" "r_ID k = keyID" "k_ProjectID k = projectID" "k_RevokedAt k = None"
    and "api_keys (database w') = update_rows (\<lambda>x. r_ID x = r_ID k) (\<lambda>k. k\<lparr>k_RevokedAt := Some now, r_UpdatedAt := now\<rparr>) (api_keys (database w))"
      "runtime_project (database w') = runtime_project (database w)"
    by (auto dest!: audited_keys)
  note changed = authenticates_changed [OF this(5,6) assms(4) k(1)]
  have "\<not> authenticates hmac pepper (database w') full p" if "PublicID full = Inr (k_PublicID k)" for full p
    using that row_unique [OF assms(5) _ k(1)] unfolding changed by (auto simp: key_accepts_def)
  moreover have "authenticates hmac pepper (database w') full p = authenticates hmac pepper (database w) full p"
    if "PublicID full \<noteq> Inr (k_PublicID k)" for full p
    unfolding changed authenticates_other [OF k(1) assms(4) that] by (auto simp: key_accepts_def)
  ultimately show ?thesis using auth k unfolding Inr by auto
qed

section \<open>Keys of the example installation\<close>

definition example_random :: "char \<Rightarrow> nat \<Rightarrow> string option" where
  "example_random c n = Some (replicate n c)"

definition example_create :: "world \<Rightarrow> APIKeySecretResult result \<times> world" where
  "example_create = APIKey_Create run_tx example_hmac ''p'' (example_random (CHR ''c'')) (example_random (CHR ''d''))
     example_actor 1 1 ''ci'' example_engine"

definition example_rotate :: "world \<Rightarrow> APIKeySecretResult result \<times> world" where
  "example_rotate = APIKey_Rotate run_tx example_hmac ''p'' (example_random (CHR ''c'')) (example_random (CHR ''d''))
     example_actor 1 1 3 example_engine"

definition example_revoke :: "world \<Rightarrow> unit result \<times> world" where
  "example_revoke = APIKey_Revoke run_tx example_actor 1 1 3 example_engine"

definition shop_project :: project_row where "shop_project = hd (projects example_db)"

lemma random_length: "\<forall>n b. example_random c n = Some b \<longrightarrow> length b = n"
  by (simp add: example_random_def)

lemma runtime_world_keys:
  "distinct (map r_ID (api_keys (database runtime_world)))" "distinct (map k_PublicID (api_keys (database runtime_world)))"
  "api_keys (database runtime_world) = [example_key]" "runtime_project (database runtime_world) shop_project" "ID shop_project = 1"
  "PublicID example_credential = Inr (k_PublicID example_key)"
  by (simp_all add: runtime_world_def publish_world_def example_world_def example_db_def shop_project_def runtime_project_def)
    code_simp

lemma example_keys_run:
  "\<not> isl (fst (example_create runtime_world))" "\<not> isl (fst (example_rotate runtime_world))" "\<not> isl (fst (example_revoke runtime_world))"
  "map_sum id (\<lambda>res. k_PublicID (SecretResult_Key res) \<noteq> k_PublicID example_key) (fst (example_rotate runtime_world)) = Inr True"
  by code_simp+

theorem APIKey_Create_works_witness:
  "\<exists>res w'. example_create runtime_world = (Inr res, w') \<and> authenticates example_hmac ''p'' (database w') (SecretResult_Secret res) shop_project"
proof -
  obtain res w' where run: "example_create runtime_world = (Inr res, w')"
    using example_keys_run(1) by (cases "fst (example_create runtime_world)") (auto simp: prod_eq_iff)
  from APIKey_Create_works [OF run_tx_runner runtime_world_ok(1,2) random_length random_length run [unfolded example_create_def]]
  show ?thesis using run runtime_world_keys(4,5) by auto
qed

theorem APIKey_Rotate_replaces_witness:
  "\<exists>res w'. example_rotate runtime_world = (Inr res, w') \<and> authenticates example_hmac ''p'' (database w') (SecretResult_Secret res) shop_project \<and>
     \<not> authenticates example_hmac ''p'' (database w') example_credential shop_project"
proof -
  obtain res w' where run: "example_rotate runtime_world = (Inr res, w')"
    using example_keys_run(2) by (cases "fst (example_rotate runtime_world)") (auto simp: prod_eq_iff)
  moreover have "k_PublicID (SecretResult_Key res) \<noteq> k_PublicID example_key" using example_keys_run(4) run by simp
  ultimately show ?thesis
    using APIKey_Rotate_replaces [OF run_tx_runner runtime_world_ok(1,2) random_length random_length runtime_world_keys(1,2)
        run [unfolded example_rotate_def]] runtime_world_keys(3-6) by auto
qed

theorem APIKey_Revoke_ends_witness:
  "\<exists>w'. example_revoke runtime_world = (Inr (), w') \<and> \<not> authenticates example_hmac ''p'' (database w') example_credential shop_project"
proof -
  obtain w' where run: "example_revoke runtime_world = (Inr (), w')"
    using example_keys_run(3) by (cases "fst (example_revoke runtime_world)") (auto simp: prod_eq_iff)
  from APIKey_Revoke_ends [OF run_tx_runner runtime_world_ok(1,2) runtime_world_keys(1,2) run [unfolded example_revoke_def],
      of example_hmac "''p''"]
  show ?thesis using run runtime_world_keys(3,6) by auto
qed

end
