(* ===== verification/Password.thy ===== *)
theory Password
  imports Credential SafeInt
begin

text \<open>
  Password hashes (\<^verbatim>\<open>server/internal/auth/password/password.go\<close>): the work policy, the PHC text format and
  verification. The key derivation \<^verbatim>\<open>argon2.IDKey\<close> (password, salt, iterations, memory, parallelism, key
  length) and the random source are arguments. \<^verbatim>\<open>base64.RawStdEncoding\<close> differs from the URL encoding of
  \<open>Credential\<close> in two letters of the alphabet only.
\<close>

section \<open>Standard base64\<close>

definition std_char :: "char \<Rightarrow> char" where
  "std_char c = (if c = CHR ''-'' then CHR ''+'' else if c = CHR ''_'' then CHR ''/'' else c)"

definition url_char :: "char \<Rightarrow> char" where
  "url_char c = (if c = CHR ''+'' then CHR ''-'' else if c = CHR ''/'' then CHR ''_'' else c)"

definition StdEncode :: "string \<Rightarrow> string" where
  "StdEncode s = map std_char (EncodeToString s)"

definition StdDecode :: "string \<Rightarrow> string option" where
  "StdDecode s = (if list_ex (\<lambda>c. c = CHR ''-'' \<or> c = CHR ''_'') s then None else DecodeString (map url_char s))"

text \<open>\<^verbatim>\<open>RawStdEncoding.EncodedLen\<close>.\<close>

definition EncodedLen :: "nat \<Rightarrow> nat" where
  "EncodedLen n = n div 3 * 4 + (n mod 3 * 8 + 5) div 6"

section \<open>Policy\<close>

record Params =
  MemoryKiB :: "32 word"
  Iterations :: "32 word"
  Parallelism :: "8 word"
  SaltLength :: "32 word"
  KeyLength :: "32 word"

definition maxMemoryKiB :: int where "maxMemoryKiB = 256 * 1024"
definition maxIterations :: int where "maxIterations = 10"
definition maxParallelism :: int where "maxParallelism = 16"
definition maxDecodedPart :: nat where "maxDecodedPart = 128"

definition ErrInvalidHash :: err where "ErrInvalidHash = OtherError ''invalid password hash''"

definition defaultParams :: Params where
  "defaultParams = \<lparr>MemoryKiB = 64 * 1024, Iterations = 3, Parallelism = 2, SaltLength = 16, KeyLength = 32\<rparr>"

definition validateParams :: "Params \<Rightarrow> unit result" where
  "validateParams params =
     (if uint (MemoryKiB params) < 8 * 1024 \<or> uint (MemoryKiB params) > maxMemoryKiB
      then Inl (OtherError ''Argon2id memory must be between 8192 and 262144 KiB'')
      else if uint (Iterations params) < 1 \<or> uint (Iterations params) > maxIterations
      then Inl (OtherError ''Argon2id iterations must be between 1 and 10'')
      else if uint (Parallelism params) < 1 \<or> uint (Parallelism params) > maxParallelism
      then Inl (OtherError ''Argon2id parallelism must be between 1 and 16'')
      else if uint (SaltLength params) < 16 \<or> uint (SaltLength params) > int maxDecodedPart
      then Inl (OtherError ''Argon2id salt length must be between 16 and 128 bytes'')
      else if uint (KeyLength params) < 16 \<or> uint (KeyLength params) > int maxDecodedPart
      then Inl (OtherError ''Argon2id key length must be between 16 and 128 bytes'')
      else Inr ())"

definition newHasher :: "Params \<Rightarrow> Params result" where
  "newHasher params = bindR (validateParams params) (\<lambda>_. Inr params)"

section \<open>Hashing and verification\<close>

type_synonym argon = "string \<Rightarrow> string \<Rightarrow> 32 word \<Rightarrow> 32 word \<Rightarrow> 8 word \<Rightarrow> 32 word \<Rightarrow> string"

text \<open>\<^verbatim>\<open>argon2.Version\<close> is 19.\<close>

definition format_costs :: "32 word \<Rightarrow> 32 word \<Rightarrow> 8 word \<Rightarrow> string" where
  "format_costs m t p = ''m='' @ decimal (uint m) @ '',t='' @ decimal (uint t) @ '',p='' @ decimal (uint p)"

definition Hash :: "argon \<Rightarrow> (nat \<Rightarrow> string option) \<Rightarrow> Params \<Rightarrow> string \<Rightarrow> string result" where
  "Hash IDKey random params plain =
     (case random (unat (SaltLength params)) of
        None \<Rightarrow> Inl (OtherError ''generate password salt'')
      | Some salt \<Rightarrow>
          let key = IDKey plain salt (Iterations params) (MemoryKiB params) (Parallelism params) (KeyLength params)
          in Inr (''$argon2id$v=19$'' @ format_costs (MemoryKiB params) (Iterations params) (Parallelism params) @ ''$'' @
                  StdEncode salt @ ''$'' @ StdEncode key))"

fun split_on :: "char \<Rightarrow> string \<Rightarrow> string list" where
  "split_on sep [] = [[]]"
| "split_on sep (c # s) =
     (if c = sep then [] # split_on sep s else (c # hd (split_on sep s)) # tl (split_on sep s))"

text \<open>
  \<^verbatim>\<open>fmt.Sscanf\<close> with \<^verbatim>\<open>"m=%d,t=%d,p=%d"\<close>. Blanks and signs it would skip are refused by the comparison with
  the formatted values that follows; numbers that do not fit the field are errors.
\<close>

definition scan_field :: "string \<Rightarrow> nat \<Rightarrow> string \<Rightarrow> (int \<times> string) option" where
  "scan_field label width s =
     (if take (length label) s \<noteq> label then None
      else let (ds, rest) = take_digits (drop (length label) s) in
           if ds = [] \<or> decimal_value 0 ds \<ge> 2 ^ width then None else Some (decimal_value 0 ds, rest))"

definition scan_costs :: "string \<Rightarrow> (32 word \<times> 32 word \<times> 8 word) option" where
  "scan_costs s =
     (case scan_field ''m='' 32 s of None \<Rightarrow> None
      | Some (m, s1) \<Rightarrow> (case scan_field '',t='' 32 s1 of None \<Rightarrow> None
      | Some (t, s2) \<Rightarrow> (case scan_field '',p='' 8 s2 of None \<Rightarrow> None
      | Some (p, s3) \<Rightarrow> Some (word_of_int m, word_of_int t, word_of_int p))))"

definition decodePart :: "string \<Rightarrow> string result" where
  "decodePart v =
     (if v = '''' \<or> length v > EncodedLen maxDecodedPart then Inl ErrInvalidHash
      else case StdDecode v of
        None \<Rightarrow> Inl ErrInvalidHash
      | Some decoded \<Rightarrow> if length decoded = 0 \<or> length decoded > maxDecodedPart then Inl ErrInvalidHash else Inr decoded)"

definition orInvalidHash :: "'a result \<Rightarrow> 'a result" where
  "orInvalidHash r = (case r of Inl _ \<Rightarrow> Inl ErrInvalidHash | Inr a \<Rightarrow> Inr a)"

definition parse_hash :: "string \<Rightarrow> (Params \<times> string \<times> string) result" where
  "parse_hash encoded =
     (let parts = split_on (CHR ''$'') encoded in
      if length parts \<noteq> 6 \<or> parts ! 0 \<noteq> '''' \<or> parts ! 1 \<noteq> ''argon2id'' then Inl ErrInvalidHash
      else if parts ! 2 \<noteq> ''v=19'' then Inl ErrInvalidHash
      else case scan_costs (parts ! 3) of
        None \<Rightarrow> Inl ErrInvalidHash
      | Some (m, t, p) \<Rightarrow>
          if parts ! 3 \<noteq> format_costs m t p then Inl ErrInvalidHash
          else bindR (orInvalidHash (decodePart (parts ! 4))) (\<lambda>salt.
               bindR (orInvalidHash (decodePart (parts ! 5))) (\<lambda>expected.
               bindR (orInvalidHash (Uint32FromInt (word_of_int (int (length salt)) :: 64 word))) (\<lambda>saltLength.
               bindR (orInvalidHash (Uint32FromInt (word_of_int (int (length expected)) :: 64 word))) (\<lambda>keyLength.
               let params = \<lparr>MemoryKiB = m, Iterations = t, Parallelism = p, SaltLength = saltLength, KeyLength = keyLength\<rparr> in
               bindR (orInvalidHash (validateParams params)) (\<lambda>_. Inr (params, salt, expected)))))))"

definition Verify_password :: "argon \<Rightarrow> Params \<Rightarrow> string \<Rightarrow> string \<Rightarrow> (bool \<times> bool) result" where
  "Verify_password IDKey policy encoded plain =
     bindR (parse_hash encoded) (\<lambda>(params, salt, expected).
     bindR (orInvalidHash (Uint32FromInt (word_of_int (int (length expected)) :: 64 word))) (\<lambda>keyLength.
     let actual = IDKey plain salt (Iterations params) (MemoryKiB params) (Parallelism params) keyLength
     in Inr (actual = expected, params \<noteq> policy)))"

section \<open>The text format is read back\<close>

lemma Encode_no_std: "c \<in> set (EncodeToString s) \<Longrightarrow> c \<noteq> CHR ''+'' \<and> c \<noteq> CHR ''/''"
  using b64_text_chars [OF Encode_b64_text, of c s] Encode_b64_text [of s]
  by (auto simp: b64_text_def list_all_iff is_alpha_def is_upper_def is_lower_def is_digit_def between_def)

lemma StdDecode_Encode: "StdDecode (StdEncode s) = Some s"
proof -
  have "map url_char (StdEncode s) = EncodeToString s"
    using Encode_no_std by (auto simp: StdEncode_def url_char_def std_char_def intro!: map_idI)
  moreover have "\<not> list_ex (\<lambda>c. c = CHR ''-'' \<or> c = CHR ''_'') (StdEncode s)"
    by (auto simp: StdEncode_def std_char_def list_ex_iff)
  ultimately show ?thesis by (simp add: StdDecode_def Decode_Encode)
qed

lemma length_Encode: "length (EncodeToString s) = EncodedLen (length s)"
proof (induction s rule: EncodeToString.induct)
  case (1 a b c s)
  moreover have "EncodedLen (length (a # b # c # s)) = 4 + EncodedLen (length s)"
    using div_add_self1 [of 3 "length s"] by (simp add: EncodedLen_def mod_Suc_eq_mod_add3 numeral_3_eq_3 [symmetric])
  ultimately show ?case by simp
qed (simp_all add: EncodedLen_def)

lemma EncodedLen_part: "n \<le> maxDecodedPart \<Longrightarrow> EncodedLen n \<le> EncodedLen maxDecodedPart"
proof -
  assume n: "n \<le> maxDecodedPart"
  define q r where "q = n div 3" and "r = n mod 3"
  have "n = 3 * q + r" "r < 3" by (simp_all add: q_def r_def)
  moreover from this n have "q \<le> 42" by (simp add: maxDecodedPart_def)
  moreover have "r \<le> 2" using \<open>r < 3\<close> by simp
  then have "(r * 8 + 5) div 6 \<le> 3" using div_le_mono [of "r * 8 + 5" 21 6] by simp
  ultimately show ?thesis by (simp add: EncodedLen_def maxDecodedPart_def q_def [symmetric] r_def [symmetric])
qed

lemma decodePart_Encode:
  assumes "0 < length s" "length s \<le> maxDecodedPart"
  shows "decodePart (StdEncode s) = Inr s"
proof -
  have len: "length (StdEncode s) = EncodedLen (length s)" by (simp add: StdEncode_def length_Encode)
  moreover have "StdEncode s \<noteq> ''''" using assms(1) by (cases s rule: EncodeToString.cases) (auto simp: StdEncode_def)
  ultimately show ?thesis using EncodedLen_part [OF assms(2)] assms by (auto simp: decodePart_def StdDecode_Encode)
qed

lemma split_on_prefix: "c \<notin> set s \<Longrightarrow> split_on c (s @ c # t) = s # split_on c t"
  by (induction s) auto

lemma split_on_last: "c \<notin> set s \<Longrightarrow> split_on c s = [s]"
  by (induction s) auto

lemma scan_field_decimal:
  assumes "0 \<le> n" "n < 2 ^ width" "rest = [] \<or> \<not> is_digit (hd rest)"
  shows "scan_field label width (label @ decimal n @ rest) = Some (n, rest)"
proof -
  have "takeWhile is_digit (decimal n @ rest) = decimal n" "dropWhile is_digit (decimal n @ rest) = rest"
    using list_all_is_digit_decimal [OF assms(1)] assms(3)
    by (cases rest; auto simp: takeWhile_append dropWhile_append list_all_iff)+
  then show ?thesis using assms(1,2) by (simp add: scan_field_def take_digits_def decimal_value_decimal)
qed

lemma scan_costs_format: "scan_costs (format_costs m t p) = Some (m, t, p)"
proof -
  have "scan_field ''m='' 32 (''m='' @ decimal (uint m) @ ('',t='' @ decimal (uint t) @ '',p='' @ decimal (uint p))) =
      Some (uint m, '',t='' @ decimal (uint t) @ '',p='' @ decimal (uint p))"
    by (rule scan_field_decimal) (simp_all add: is_digit_def uint_lt2p [where 'a = 32, simplified])
  moreover have "scan_field '',t='' 32 ('',t='' @ decimal (uint t) @ ('',p='' @ decimal (uint p))) = Some (uint t, '',p='' @ decimal (uint p))"
    by (rule scan_field_decimal) (simp_all add: is_digit_def uint_lt2p [where 'a = 32, simplified])
  moreover have "scan_field '',p='' 8 ('',p='' @ decimal (uint p) @ []) = Some (uint p, [])"
    by (rule scan_field_decimal) (simp_all add: uint_lt2p [where 'a = 8, simplified])
  ultimately show ?thesis by (simp add: scan_costs_def format_costs_def)
qed

lemma dollar_free:
  "CHR ''$'' \<notin> set (StdEncode s)" "0 \<le> n \<Longrightarrow> CHR ''$'' \<notin> set (decimal n)" "CHR ''$'' \<notin> set (format_costs m t p)"
proof -
  show enc: "CHR ''$'' \<notin> set (StdEncode s)" for s
    using b64_text_chars [OF Encode_b64_text, of "CHR ''$''" s] by (auto simp: StdEncode_def std_char_def)
  show dec: "CHR ''$'' \<notin> set (decimal n)" if "0 \<le> n" for n
    using decimal_digits [OF that, of "CHR ''$''"] by (auto simp: is_digit_def)
  show "CHR ''$'' \<notin> set (format_costs m t p)" using dec by (simp add: format_costs_def)
qed

lemma Uint32FromInt_length: "n \<le> 128 \<Longrightarrow> Uint32FromInt (word_of_int (int n) :: 64 word) = Inr (word_of_int (int n))"
proof -
  assume n: "n \<le> 128"
  then have "sint (word_of_int (int n) :: 64 word) = int n"
    by (simp only: sint_sbintrunc') (simp add: signed_take_bit_int_eq_self)
  moreover have "uint (word_of_int (int n) :: 64 word) = int n"
    using n by (simp only: uint_word_of_int) simp
  ultimately show ?thesis by (simp only: Uint32FromInt_def MaxUint32_def) (use n in simp)
qed

lemma validateParams_lengths:
  assumes "validateParams params = Inr ()"
  shows "16 \<le> unat (SaltLength params)" "unat (SaltLength params) \<le> 128" "16 \<le> unat (KeyLength params)" "unat (KeyLength params) \<le> 128"
proof -
  from assms have "16 \<le> uint (SaltLength params)" "uint (SaltLength params) \<le> 128" "16 \<le> uint (KeyLength params)" "uint (KeyLength params) \<le> 128"
    by (simp_all add: validateParams_def maxDecodedPart_def split: if_splits)
  then show "16 \<le> unat (SaltLength params)" "unat (SaltLength params) \<le> 128" "16 \<le> unat (KeyLength params)" "unat (KeyLength params) \<le> 128"
    unfolding uint_nat by linarith+
qed

lemma parse_hash_format:
  assumes "validateParams params = Inr ()" "length salt = unat (SaltLength params)" "length key = unat (KeyLength params)"
  shows "parse_hash (''$argon2id$v=19$'' @ format_costs (MemoryKiB params) (Iterations params) (Parallelism params) @ ''$'' @
      StdEncode salt @ ''$'' @ StdEncode key) = Inr (params, salt, key)"
proof -
  have len: "16 \<le> length salt" "length salt \<le> 128" "16 \<le> length key" "length key \<le> 128"
    using validateParams_lengths [OF assms(1)] assms(2,3) by simp_all
  have lens: "word_of_int (int (length salt)) = SaltLength params" "word_of_int (int (length key)) = KeyLength params"
    using assms(2,3) by simp_all
  have parts: "split_on (CHR ''$'') (''$argon2id$v=19$'' @ format_costs (MemoryKiB params) (Iterations params) (Parallelism params) @ ''$'' @
      StdEncode salt @ ''$'' @ StdEncode key) =
      ['''', ''argon2id'', ''v=19'', format_costs (MemoryKiB params) (Iterations params) (Parallelism params), StdEncode salt, StdEncode key]"
    using split_on_prefix [OF dollar_free(3)] split_on_prefix [OF dollar_free(1)] split_on_last [OF dollar_free(1)] by simp
  have dec: "decodePart (StdEncode salt) = Inr salt" "decodePart (StdEncode key) = Inr key"
    using decodePart_Encode [of salt] decodePart_Encode [of key] len by (fastforce simp: maxDecodedPart_def)+
  have same: "\<lparr>MemoryKiB = MemoryKiB params, Iterations = Iterations params, Parallelism = Parallelism params,
      SaltLength = SaltLength params, KeyLength = KeyLength params\<rparr> = params" by simp
  show ?thesis
    unfolding parse_hash_def Let_def parts
    by (simp add: scan_costs_format dec Uint32FromInt_length [OF len(2)] Uint32FromInt_length [OF len(4)] orInvalidHash_def lens same assms(1)
        del: of_int_of_nat_eq)
qed

lemma Verify_Hash:
  assumes "validateParams params = Inr ()" "\<forall>n b. random n = Some b \<longrightarrow> length b = n"
    "\<forall>pw salt t m p n. length (IDKey pw salt t m p n) = unat n" "Hash IDKey random params plain = Inr encoded"
  shows "\<exists>salt. random (unat (SaltLength params)) = Some salt \<and>
    Verify_password IDKey policy encoded attempt = Inr
      (IDKey attempt salt (Iterations params) (MemoryKiB params) (Parallelism params) (KeyLength params) =
       IDKey plain salt (Iterations params) (MemoryKiB params) (Parallelism params) (KeyLength params), params \<noteq> policy) \<and>
    Verify_password IDKey policy encoded plain = Inr (True, params \<noteq> policy)"
proof -
  from assms(4) obtain salt where salt: "random (unat (SaltLength params)) = Some salt" by (auto simp: Hash_def split: option.splits)
  define key where "key = IDKey plain salt (Iterations params) (MemoryKiB params) (Parallelism params) (KeyLength params)"
  have len: "length salt = unat (SaltLength params)" "length key = unat (KeyLength params)" using assms(2,3) salt by (auto simp: key_def)
  have "parse_hash encoded = Inr (params, salt, key)"
    using assms(4) salt parse_hash_format [OF assms(1) len] by (simp add: Hash_def Let_def key_def)
  moreover have "length key \<le> 128" using validateParams_lengths [OF assms(1)] len(2) by simp
  ultimately have "Verify_password IDKey policy encoded pw = Inr
      (IDKey pw salt (Iterations params) (MemoryKiB params) (Parallelism params) (KeyLength params) = key, params \<noteq> policy)" for pw
    using Uint32FromInt_length [of "length key"] len(2) by (simp add: Verify_password_def orInvalidHash_def del: of_int_of_nat_eq)
  with salt show ?thesis by (simp add: key_def)
qed

text \<open>
  C35. Password hashes are verified exactly: a hash made under a valid policy is always readable, any password
  then matches if and only if it derives the same key, so the hashed password itself always matches, and an
  upgrade is requested exactly when the current policy is a different one.
\<close>

theorem password_exact:
  assumes "validateParams params = Inr ()" "\<forall>n b. random n = Some b \<longrightarrow> length b = n"
    "\<forall>pw salt t m p n. length (IDKey pw salt t m p n) = unat n" "Hash IDKey random params plain = Inr encoded"
  shows "\<exists>salt. random (unat (SaltLength params)) = Some salt \<and>
    Verify_password IDKey policy encoded attempt = Inr
      (IDKey attempt salt (Iterations params) (MemoryKiB params) (Parallelism params) (KeyLength params) =
       IDKey plain salt (Iterations params) (MemoryKiB params) (Parallelism params) (KeyLength params), params \<noteq> policy) \<and>
    Verify_password IDKey policy encoded plain = Inr (True, params \<noteq> policy)"
  using assms by (rule Verify_Hash)

definition toy_derivation :: argon where
  "toy_derivation plain salt t m p n = take (unat n) (plain @ salt @ replicate (unat n) (CHR ''0''))"

theorem password_exact_witness:
  "\<exists>encoded. Hash toy_derivation (\<lambda>n. Some (replicate n (CHR ''s''))) defaultParams ''open'' = Inr encoded \<and>
     Verify_password toy_derivation defaultParams encoded ''open'' = Inr (True, False)"
proof -
  obtain encoded where h: "Hash toy_derivation (\<lambda>n. Some (replicate n (CHR ''s''))) defaultParams ''open'' = Inr encoded"
    by (simp add: Hash_def Let_def)
  have "validateParams defaultParams = Inr ()" by code_simp
  moreover have "length (toy_derivation pw salt t m p n) = unat n" for pw salt t m p n by (simp add: toy_derivation_def)
  ultimately have "Verify_password toy_derivation defaultParams encoded ''open'' = Inr (True, defaultParams \<noteq> defaultParams)"
    using password_exact [of defaultParams "\<lambda>n. Some (replicate n (CHR ''s''))" toy_derivation "''open''" encoded defaultParams "''open''"] h
    by auto
  with h show ?thesis by simp
qed

end
