(* ===== verification/Auth.thy ===== *)
theory Auth
  imports API_Key Password
begin

text \<open>
  Browser sessions: login, rotation of refresh tokens, logout (\<^verbatim>\<open>server/internal/logic/auth.go\<close>), the opaque
  tokens of \<^verbatim>\<open>auth/session/session.go\<close>, the issuing of access tokens (\<^verbatim>\<open>auth/jwt/jwt.go\<close>) and the methods of
  \<^verbatim>\<open>repository/user.go\<close> they use. SHA-256, the random sources, the signer of the JWT library, the UUID source,
  the Argon2 derivation and the Unicode table of \<^verbatim>\<open>unicode.ToLower\<close> are fields of \<open>auth_config\<close>.
\<close>

section \<open>Tokens\<close>

record Claims =
  Claims_SessionID :: string
  Claims_Issuer :: string
  Claims_Subject :: string
  Claims_Audience :: "string list"
  Claims_ExpiresAt :: int
  Claims_NotBefore :: int
  Claims_IssuedAt :: int
  Claims_ID :: string

record auth_config =
  auth_sha256 :: "string \<Rightarrow> string"
  auth_lower :: "int \<Rightarrow> string"
  auth_argon :: argon
  auth_policy :: Params
  auth_salt :: "nat \<Rightarrow> string option"
  auth_random :: "nat \<Rightarrow> string option"
  auth_sessionUUID :: string
  auth_tokenUUID :: string
  auth_sign :: "Claims \<Rightarrow> string option"
  auth_issuer :: string
  auth_audience :: string
  auth_accessTTL :: int
  auth_refreshTTL :: int
  auth_dummyHash :: string

definition tokenLength :: nat where "tokenLength = 32"

definition session_Hash :: "auth_config \<Rightarrow> string \<Rightarrow> string" where
  "session_Hash A plain = auth_sha256 A plain"

definition session_Generate :: "auth_config \<Rightarrow> (string \<times> string) result" where
  "session_Generate A =
     (case auth_random A tokenLength of
        None \<Rightarrow> Inl (OtherError ''generate refresh token'')
      | Some bytes \<Rightarrow> let plain = EncodeToString bytes in Inr (plain, session_Hash A plain))"

definition Issue :: "auth_config \<Rightarrow> int \<Rightarrow> string \<Rightarrow> (string \<times> int) M" where
  "Issue A userID sessionID =
     (if userID \<le> 0 \<or> TrimSpace sessionID = '''' then failM (OtherError ''JWT user and session are required'')
      else bindM nowM (\<lambda>now.
        let expiresAt = now + auth_accessTTL A;
            claims = \<lparr>Claims_SessionID = sessionID, Claims_Issuer = auth_issuer A, Claims_Subject = FormatInt userID,
                      Claims_Audience = [auth_audience A], Claims_ExpiresAt = expiresAt, Claims_NotBefore = now,
                      Claims_IssuedAt = now, Claims_ID = auth_tokenUUID A\<rparr>
        in case auth_sign A claims of
             None \<Rightarrow> failM (OtherError ''sign access token'')
           | Some encoded \<Rightarrow> returnM (encoded, expiresAt)))"

definition Claims_UserID :: "Claims option \<Rightarrow> int result" where
  "Claims_UserID c =
     (case c of
        None \<Rightarrow> Inl (OtherError ''invalid token'')
      | Some claims \<Rightarrow>
          (case ParseInt64 (Claims_Subject claims) of
             None \<Rightarrow> Inl (OtherError ''invalid token'')
           | Some v \<Rightarrow> if v \<le> 0 then Inl (OtherError ''invalid token'') else Inr v))"

section \<open>Users\<close>

definition requireUser :: "user_row option \<Rightarrow> user_row M" where
  "requireUser found = (case found of None \<Rightarrow> failM UserNotFound | Some u \<Rightarrow> returnM u)"

definition FindByUsername :: "string \<Rightarrow> user_row M" where
  "FindByUsername username =
     bindM (mapErrM WrapDatabaseError (queryM (\<lambda>E d.
       first_row (filter (\<lambda>u. same_text E (u_Username u) username \<and> DeletedAt u = None) (users d))))) requireUser"

definition GetByID :: "int \<Rightarrow> user_row M" where
  "GetByID userID =
     bindM (mapErrM WrapDatabaseError (queryM (\<lambda>E d.
       first_row (filter (\<lambda>u. ID u = userID \<and> DeletedAt u = None) (users d))))) requireUser"

definition UpdatePasswordHash :: "int \<Rightarrow> string \<Rightarrow> string \<Rightarrow> unit M" where
  "UpdatePasswordHash userID previousHash nextHash =
     bindM nowM (\<lambda>now.
     bindM (mapErrM WrapDatabaseError (execM (\<lambda>E d.
       let cond = (\<lambda>u. ID u = userID \<and> DeletedAt u = None \<and> same_text E (u_PasswordHash u) previousHash \<and> u_Enabled u)
       in (Inr (matching cond (users d)),
           users_update (update_rows cond (\<lambda>u. u\<lparr>Version := Version u + 1, u_PasswordHash := nextHash, UpdatedAt := now\<rparr>)) d))))
       (\<lambda>affected. guardM (affected \<noteq> 1) (OtherError ''user version conflict'')))"

definition ListEnvironments :: "user_row \<Rightarrow> environment_row list M" where
  "ListEnvironments user =
     mapErrM WrapDatabaseError (queryM (\<lambda>E d.
       sort_key ID (filter (\<lambda>e. e_Enabled e \<and> DeletedAt e = None \<and>
         (u_IsSystemAdmin user \<or> list_ex (\<lambda>m. m_EnvironmentID m = ID e \<and> m_UserID m = ID user) (members d))) (environments d))))"

section \<open>Authentication\<close>

definition loginAttemptLimit :: int where "loginAttemptLimit = 5"
definition loginAttemptWindow :: int where "loginAttemptWindow = 15 * 60 * 1000000000"
definition refreshTokenTTL :: int where "refreshTokenTTL = 7 * 24 * 3600 * 1000000000"

record AuthResult =
  Auth_AccessToken :: string
  Auth_AccessTTL :: int
  Auth_User :: "user_row option"
  Auth_RefreshToken :: string
  Auth_RefreshExpiresAt :: int
  Auth_ClearRefresh :: bool

record AuthProfile =
  Profile_User :: user_row
  Profile_Environments :: "environment_row list"

text \<open>\<^verbatim>\<open>errors.Is\<close> for a sentinel.\<close>

fun errorsIs :: "err \<Rightarrow> err \<Rightarrow> bool" where
  "errorsIs target (Wrapped m e) \<longleftrightarrow> Wrapped m e = target \<or> errorsIs target e"
| "errorsIs target (DatabaseError e) \<longleftrightarrow> DatabaseError e = target \<or> errorsIs target e"
| "errorsIs target e \<longleftrightarrow> e = target"

definition authUnavailable :: "string \<Rightarrow> err \<Rightarrow> err" where
  "authUnavailable operation e = AuthUnavailable operation"

definition NewAuthLogic :: "auth_config \<Rightarrow> auth_config result" where
  "NewAuthLogic A =
     (if auth_refreshTTL A \<noteq> refreshTokenTTL then Inl (OtherError ''refresh TTL must be 168h0m0s'')
      else if auth_refreshTTL A \<le> auth_accessTTL A then Inl (OtherError ''refresh TTL must be greater than access TTL'')
      else case Hash (auth_argon A) (auth_salt A) (auth_policy A) ''kirby-dummy-password-that-is-never-valid'' of
        Inl e \<Rightarrow> Inl (Wrapped ''create constant-work password hash'' e)
      | Inr dummyHash \<Rightarrow> Inr (A\<lparr>auth_dummyHash := dummyHash\<rparr>))"

definition lower_ascii :: "char \<Rightarrow> char" where
  "lower_ascii c = (if is_upper c then char_of (byte c + 32) else c)"

text \<open>\<^verbatim>\<open>strings.ToLower\<close>: an invalid byte becomes U+FFFD once the text has a byte beyond ASCII.\<close>

definition ToLower :: "(int \<Rightarrow> string) \<Rightarrow> string \<Rightarrow> string" where
  "ToLower lower s =
     (if list_all (\<lambda>c. byte c < 128) s then map lower_ascii s
      else concat (map (\<lambda>(r, bytes).
             if r < 128 then map lower_ascii bytes
             else if r = RuneError then map char_of [239, 191, 189 :: int]
             else lower r) (runes s)))"

definition hex_digit :: "int \<Rightarrow> char" where
  "hex_digit d = (if d < 10 then char_of (48 + d) else char_of (87 + d))"

definition hex :: "string \<Rightarrow> string" where
  "hex s = concat (map (\<lambda>c. [hex_digit (byte c div 16), hex_digit (byte c mod 16)]) s)"

definition loginRateKey :: "auth_config \<Rightarrow> string \<Rightarrow> string \<Rightarrow> string" where
  "loginRateKey A username ip =
     ''auth:login:'' @ hex (auth_sha256 A (ToLower (auth_lower A) (TrimSpace username) @ char_of (0 :: int) # ip))"

definition cacheIncrementM :: "string \<Rightarrow> int \<Rightarrow> int M" where
  "cacheIncrementM key ttl = (\<lambda>E w. case memory_Increment (ctx_error E (tick w)) (clock E (tick w)) key ttl (cache w) of
     (r, s) \<Rightarrow> (r, w\<lparr>cache := s, tick := Suc (tick w)\<rparr>))"

definition checkLoginLimit :: "string \<Rightarrow> unit M" where
  "checkLoginLimit key =
     bindM (mapErrM (authUnavailable ''increment login rate limit'') (cacheIncrementM key loginAttemptWindow)) (\<lambda>attempts.
     guardM (attempts > loginAttemptLimit) AuthRateLimited)"

definition rehashPassword :: "auth_config \<Rightarrow> user_row \<Rightarrow> string \<Rightarrow> user_row M" where
  "rehashPassword A user plainPassword =
     bindM (mapErrM (authUnavailable ''rehash login password'')
       (liftR (Hash (auth_argon A) (auth_salt A) (auth_policy A) plainPassword))) (\<lambda>nextHash.
     bindM (mapErrM (authUnavailable ''save upgraded password hash'')
       (UpdatePasswordHash (ID user) (u_PasswordHash user) nextHash)) (\<lambda>_.
     returnM (user\<lparr>u_PasswordHash := nextHash, Version := Version user + 1\<rparr>)))"

definition verifyLogin :: "auth_config \<Rightarrow> string \<Rightarrow> string \<Rightarrow> user_row M" where
  "verifyLogin A username plainPassword =
     bindM (attemptM (FindByUsername username)) (\<lambda>found.
     bindM (case found of
              Inl findErr \<Rightarrow> if errorsIs UserNotFound findErr then returnM (auth_dummyHash A)
                             else failM (authUnavailable ''find login user'' findErr)
            | Inr user \<Rightarrow> returnM (u_PasswordHash user)) (\<lambda>encodedHash.
     bindM (mapErrM (authUnavailable ''verify login password'')
       (liftR (Verify_password (auth_argon A) (auth_policy A) encodedHash plainPassword))) (\<lambda>(matched, needsRehash).
     case found of
       Inl _ \<Rightarrow> failM AuthFailed
     | Inr user \<Rightarrow>
         if \<not> matched \<or> \<not> u_Enabled user then failM AuthFailed
         else if needsRehash then rehashPassword A user plainPassword
         else returnM user)))"

definition auth_createSession :: "(refresh_token_row M \<Rightarrow> refresh_token_row M) \<Rightarrow> auth_config \<Rightarrow> user_row \<Rightarrow> AuthResult M" where
  "auth_createSession tx A user =
     bindM nowM (\<lambda>now.
     bindM (mapErrM (authUnavailable ''generate login session'') (liftR (session_Generate A))) (\<lambda>(plainRefresh, refreshHash).
     let refreshToken = \<lparr>r_ID = 0, r_CreatedAt = 0, r_UpdatedAt = 0, t_UserID = ID user, t_SessionID = auth_sessionUUID A,
           t_TokenHash = refreshHash, t_ExpiresAt = now + auth_refreshTTL A, t_LastUsedAt = None, t_RevokedAt = None,
           t_ReplacedByID = None\<rparr> in
     bindM (mapErrM (authUnavailable ''issue login access token'') (Issue A (ID user) (t_SessionID refreshToken))) (\<lambda>(accessToken, _).
     bindM (mapErrM (\<lambda>e. if errorsIs UserNotFound e then AuthFailed else authUnavailable ''persist login session'' e)
       (tx (CreateSession refreshToken now))) (\<lambda>_.
     returnM \<lparr>Auth_AccessToken = accessToken, Auth_AccessTTL = auth_accessTTL A, Auth_User = Some user,
              Auth_RefreshToken = plainRefresh, Auth_RefreshExpiresAt = t_ExpiresAt refreshToken, Auth_ClearRefresh = False\<rparr>))))"

definition auth_revokeSession :: "(unit M \<Rightarrow> unit M) \<Rightarrow> string \<Rightarrow> int \<Rightarrow> unit M" where
  "auth_revokeSession tx tokenHash now = tx (RevokeSessionByTokenHash tokenHash now)"

definition Login ::
  "(refresh_token_row M \<Rightarrow> refresh_token_row M) \<Rightarrow> (unit M \<Rightarrow> unit M) \<Rightarrow> auth_config \<Rightarrow> string \<Rightarrow> string \<Rightarrow> string \<Rightarrow> AuthResult M" where
  "Login tx txu A username plainPassword clientIP =
     (let username = TrimSpace username in
      if username = '''' \<or> plainPassword = '''' then failM AuthFailed
      else
        let limitKey = loginRateKey A username clientIP in
        bindM (checkLoginLimit limitKey) (\<lambda>_.
        bindM (verifyLogin A username plainPassword) (\<lambda>user.
        bindM (auth_createSession tx A user) (\<lambda>result.
        bindM (attemptM (cacheDeleteM limitKey)) (\<lambda>deleted.
          case deleted of
            Inr _ \<Rightarrow> returnM result
          | Inl e \<Rightarrow> bindM nowM (\<lambda>now.
              bindM (attemptM (auth_revokeSession txu (session_Hash A (Auth_RefreshToken result)) now)) (\<lambda>_.
              failM (authUnavailable ''clear login rate limit'' e)))))))) "

text \<open>\<^verbatim>\<open>Refresh\<close> may return a result, which asks the browser to drop its cookie, together with an error.\<close>

definition cleared :: AuthResult where
  "cleared = \<lparr>Auth_AccessToken = '''', Auth_AccessTTL = 0, Auth_User = None, Auth_RefreshToken = '''',
     Auth_RefreshExpiresAt = 0, Auth_ClearRefresh = True\<rparr>"

definition rotateRefresh ::
  "(refresh_token_row M \<Rightarrow> refresh_token_row M) \<Rightarrow> (unit M \<Rightarrow> unit M) \<Rightarrow> string \<Rightarrow> refresh_token_row \<Rightarrow> int \<Rightarrow> refresh_token_row M" where
  "rotateRefresh tx txu tokenHash next now =
     bindM (attemptM (tx (refresh_Rotate tokenHash (Some next) now))) (\<lambda>r.
       case r of
         Inr rotated \<Rightarrow> returnM rotated
       | Inl e \<Rightarrow>
           if \<not> errorsIs RefreshTokenReplay e then failM e
           else bindM (attemptM (auth_revokeSession txu tokenHash now)) (\<lambda>revoked.
             case revoked of
               Inl revokeErr \<Rightarrow> failM (authUnavailable ''revoke replayed session'' e)
             | Inr _ \<Rightarrow> failM e))"

fun isAuthUnavailable :: "err \<Rightarrow> bool" where
  "isAuthUnavailable (AuthUnavailable _) = True"
| "isAuthUnavailable (Wrapped _ e) = isAuthUnavailable e"
| "isAuthUnavailable (DatabaseError e) = isAuthUnavailable e"
| "isAuthUnavailable _ = False"

definition refreshFailure :: "err \<Rightarrow> AuthResult option \<times> err" where
  "refreshFailure e =
     (if isAuthUnavailable e then (Some cleared, e)
      else if errorsIs RefreshTokenNotFound e \<or> errorsIs RefreshTokenExpired e \<or> errorsIs RefreshTokenReplay e
      then (Some cleared, AuthFailed)
      else (None, authUnavailable ''rotate refresh session'' e))"

definition activeUser :: "int \<Rightarrow> user_row M" where
  "activeUser userID =
     bindM (mapErrM (\<lambda>e. if errorsIs UserNotFound e then AuthFailed else authUnavailable ''load authenticated user'' e)
       (GetByID userID)) (\<lambda>user.
     bindM (guardM (\<not> u_Enabled user) AuthFailed) (\<lambda>_. returnM user))"

definition refreshedAccess :: "auth_config \<Rightarrow> refresh_token_row \<Rightarrow> string \<Rightarrow> AuthResult M" where
  "refreshedAccess A token plainRefresh =
     bindM (activeUser (t_UserID token)) (\<lambda>user.
     bindM (mapErrM (authUnavailable ''issue refreshed access token'') (Issue A (ID user) (t_SessionID token))) (\<lambda>(accessToken, _).
     returnM \<lparr>Auth_AccessToken = accessToken, Auth_AccessTTL = auth_accessTTL A, Auth_User = Some user,
              Auth_RefreshToken = plainRefresh, Auth_RefreshExpiresAt = t_ExpiresAt token, Auth_ClearRefresh = False\<rparr>))"

definition Refresh ::
  "(refresh_token_row M \<Rightarrow> refresh_token_row M) \<Rightarrow> (unit M \<Rightarrow> unit M) \<Rightarrow> auth_config \<Rightarrow> string \<Rightarrow> (AuthResult option \<times> err option) M" where
  "Refresh tx txu A refreshToken =
     bindM nowM (\<lambda>now.
       case session_Generate A of
         Inl e \<Rightarrow> returnM (None, Some (authUnavailable ''generate replacement session token'' e))
       | Inr (plainNext, nextHash) \<Rightarrow>
           let next = \<lparr>r_ID = 0, r_CreatedAt = 0, r_UpdatedAt = 0, t_UserID = 0, t_SessionID = '''', t_TokenHash = nextHash,
                 t_ExpiresAt = now + auth_refreshTTL A, t_LastUsedAt = None, t_RevokedAt = None, t_ReplacedByID = None\<rparr> in
           bindM (attemptM (rotateRefresh tx txu (session_Hash A refreshToken) next now)) (\<lambda>r.
             case r of
               Inl e \<Rightarrow> returnM (map_prod id Some (refreshFailure e))
             | Inr rotated \<Rightarrow>
                 bindM (attemptM (refreshedAccess A rotated plainNext)) (\<lambda>access.
                   case access of
                     Inr result \<Rightarrow> returnM (Some result, None)
                   | Inl e \<Rightarrow>
                       bindM (attemptM (auth_revokeSession txu (t_TokenHash rotated) now)) (\<lambda>revoked.
                         case revoked of
                           Inl revokeErr \<Rightarrow> returnM (Some cleared, Some (authUnavailable ''revoke failed refresh session'' e))
                         | Inr _ \<Rightarrow> returnM (Some cleared, Some e)))))"

definition Logout :: "(unit M \<Rightarrow> unit M) \<Rightarrow> auth_config \<Rightarrow> string \<Rightarrow> unit M" where
  "Logout txu A refreshToken =
     bindM nowM (\<lambda>now.
     mapErrM (authUnavailable ''revoke logout session'') (auth_revokeSession txu (session_Hash A refreshToken) now))"

definition Me :: "int \<Rightarrow> AuthProfile M" where
  "Me userID =
     bindM (activeUser userID) (\<lambda>user.
     bindM (mapErrM (authUnavailable ''list authenticated user environments'') (ListEnvironments user)) (\<lambda>envs.
     returnM \<lparr>Profile_User = user, Profile_Environments = envs\<rparr>))"

end
