(* ===== verification/Auth_Props.thy ===== *)
theory Auth_Props
  imports Auth
begin

text \<open>
  Properties of browser sessions: refresh tokens are used once, a replayed token ends its session, logout ends
  the session, logins are authenticated and their number is limited.
\<close>

section \<open>Effects on the token table\<close>

definition consumed :: "int \<Rightarrow> int \<Rightarrow> refresh_token_row \<Rightarrow> refresh_token_row" where
  "consumed now nextID t =
     t\<lparr>t_LastUsedAt := Some now, t_RevokedAt := Some now, t_ReplacedByID := Some nextID, r_UpdatedAt := now\<rparr>"

lemma checkRotation_Inr:
  "checkRotation current now E w = (Inr u, w') \<Longrightarrow>
     w' = w \<and> (\<exists>t. current = Some t \<and> t_RevokedAt t = None \<and> now < t_ExpiresAt t)"
  by (auto simp: checkRotation_def run_simps split: option.splits if_splits)

lemma refresh_Rotate_Inr:
  assumes "refresh_Rotate tokenHash (Some next) now E w = (Inr row, w')" "t_RevokedAt next = None"
  shows "\<exists>t \<in> set (refresh_tokens (database w)). t_TokenHash t = tokenHash \<and> t_RevokedAt t = None \<and> now < t_ExpiresAt t \<and>
    t_UserID row = t_UserID t \<and> t_SessionID row = t_SessionID t \<and> t_TokenHash row = t_TokenHash next \<and>
    t_ExpiresAt row = t_ExpiresAt next \<and> t_RevokedAt row = None \<and>
    (\<forall>x \<in> set (refresh_tokens (database w)). t_TokenHash x \<noteq> t_TokenHash next) \<and>
    (\<exists>f. database w' = refresh_tokens_update f (database w)) \<and>
    set (refresh_tokens (database w')) = insert row (insert (consumed now (r_ID row) t) (set (refresh_tokens (database w)) - {t}))"
proof -
  let ?d = "database w"
  from assms(1) obtain current w1 w1' where cur: "lockTokenByHash tokenHash E w = (Inr current, w1)"
    and chk: "checkRotation current now E w1 = (Inr (), w1')"
    by (auto simp: refresh_Rotate_def Let_def run_simps split: if_splits)
  from checkRotation_Inr [OF chk] obtain t where "current = Some t" "w1' = w1" "t_RevokedAt t = None" "now < t_ExpiresAt t" by auto
  note c = this
  have t: "first_row (filter (\<lambda>t. t_TokenHash t = tokenHash) (refresh_tokens ?d)) = Some t" and w1: "database w1 = ?d"
    using cur c(1) by (auto simp: lockTokenByHash_def run_simps)
  from assms(1) obtain w2 where
    ins: "bindM (RecordPrepareInsert (next\<lparr>t_UserID := t_UserID t, t_SessionID := t_SessionID t\<rparr>))
       (\<lambda>next. mapErrM WrapDatabaseError (insertRefreshToken next)) E w1 = (Inr row, w2)"
    and con: "consumeToken (r_ID t) (r_ID row) now E w2 = (Inr (), w')"
    using cur chk by (auto simp: refresh_Rotate_def Let_def bindM_Inr returnM_def failM_def c split: if_splits)
  have tin: "t \<in> set (refresh_tokens ?d)" "t_TokenHash t = tokenHash" using first_row_Some [OF t] by auto
  note live = c(3,4)
  have row: "t_UserID row = t_UserID t" "t_SessionID row = t_SessionID t" "t_TokenHash row = t_TokenHash next"
      "t_ExpiresAt row = t_ExpiresAt next" "t_RevokedAt row = None"
      "\<forall>x \<in> set (refresh_tokens ?d). t_TokenHash x \<noteq> t_TokenHash next"
    and w2: "database w2 = refresh_tokens_update (\<lambda>rows. rows @ [row]) ?d"
    using ins assms(2) w1 by (auto simp: RecordPrepareInsert_def insertTimes_def insertRefreshToken_def run_simps list_ex_iff)
  let ?cond = "\<lambda>x. r_ID x = r_ID t \<and> t_RevokedAt x = None"
  let ?rows = "refresh_tokens ?d @ [row]"
  from con have one: "matching ?cond ?rows = 1"
    and w': "database w' = refresh_tokens_update (update_rows ?cond (consumed now (r_ID row))) (database w2)"
    by (auto simp: consumeToken_def run_simps w2 consumed_def [abs_def])
  note only = matching_one [OF one tin(1)]
  have "set (update_rows ?cond (consumed now (r_ID row)) ?rows) = insert row (insert (consumed now (r_ID row) t) (set (refresh_tokens ?d) - {t}))"
  proof -
    have "set (update_rows ?cond (consumed now (r_ID row)) (refresh_tokens ?d)) = insert (consumed now (r_ID row) t) (set (refresh_tokens ?d) - {t})"
      by (rule update_rows_one) (use only(2) live(1) tin(1) in auto)
    moreover have "\<not> ?cond row" using only(1) live(1) by simp
    ultimately show ?thesis by (simp only: update_rows_append set_append list.set if_False Un_insert_right Un_empty_right)
  qed
  moreover have "\<exists>f. database w' = refresh_tokens_update f ?d" unfolding w' w2 by (auto simp: fun_eq_iff)
  ultimately show ?thesis using tin live row w' w2 by auto
qed

section \<open>Refresh\<close>

definition refresh_row :: "string \<Rightarrow> int \<Rightarrow> refresh_token_row" where
  "refresh_row tokenHash expiresAt = \<lparr>r_ID = 0, r_CreatedAt = 0, r_UpdatedAt = 0, t_UserID = 0, t_SessionID = '''',
     t_TokenHash = tokenHash, t_ExpiresAt = expiresAt, t_LastUsedAt = None, t_RevokedAt = None, t_ReplacedByID = None\<rparr>"

lemma refresh_row_fields [simp]:
  "t_RevokedAt (refresh_row h x) = None" "t_TokenHash (refresh_row h x) = h" "t_ExpiresAt (refresh_row h x) = x"
  by (simp_all add: refresh_row_def)

lemma reads_Issue [reads_intro]: "reads (Issue A userID sessionID)"
  unfolding Issue_def Let_def by (intro reads_intro)

lemma reads_activeUser [reads_intro]: "reads (activeUser userID)"
  unfolding activeUser_def GetByID_def requireUser_def by (intro reads_intro)

lemma reads_refreshedAccess [reads_intro]: "reads (refreshedAccess A token plain)"
  unfolding refreshedAccess_def by (intro reads_intro)

lemma activeUser_Inr:
  "activeUser userID E w = (Inr u, w') \<Longrightarrow> u \<in> set (users (database w)) \<and> ID u = userID \<and> DeletedAt u = None \<and> u_Enabled u"
  by (auto simp: activeUser_def GetByID_def requireUser_def run_simps split: option.splits dest!: first_row_Some)

lemma rotateRefresh_Inr:
  assumes "transaction_runner tx" "rotateRefresh tx txu tokenHash next now E w = (Inr row, w')"
  shows "refresh_Rotate tokenHash (Some next) now E w = (Inr row, w')"
proof -
  from assms(2) have "tx (refresh_Rotate tokenHash (Some next) now) E w = (Inr row, w')"
    unfolding rotateRefresh_def attempt_case by (auto simp: attempt_case run_basic split: if_splits)
  then show ?thesis by (rule tx_commit [OF assms(1)])
qed

text \<open>
  C36. A refresh token is exchanged at most once: when \<^verbatim>\<open>Refresh\<close> answers with new credentials, the presented
  token was stored, unrevoked and unexpired and its account is live and enabled; the token is then revoked and
  points to its successor, the returned token is stored in the same session with a full lifetime, and no other
  token changes.
\<close>

theorem Refresh_rotates:
  assumes "transaction_runner tx" "transaction_runner txu"
    "Refresh tx txu A token E w = (Inr (Some res, None), w')"
  shows "\<exists>t \<in> set (refresh_tokens (database w)). \<exists>row. t_TokenHash t = session_Hash A token \<and> t_RevokedAt t = None \<and>
    clock E (tick w) < t_ExpiresAt t \<and>
    (\<exists>u \<in> set (users (database w)). ID u = t_UserID t \<and> DeletedAt u = None \<and> u_Enabled u \<and> Auth_User res = Some u) \<and>
    t_TokenHash row = session_Hash A (Auth_RefreshToken res) \<and> t_UserID row = t_UserID t \<and> t_SessionID row = t_SessionID t \<and>
    t_RevokedAt row = None \<and> t_ExpiresAt row = clock E (tick w) + auth_refreshTTL A \<and>
    set (refresh_tokens (database w')) =
      insert row (insert (consumed (clock E (tick w)) (r_ID row) t) (set (refresh_tokens (database w)) - {t}))"
proof -
  let ?now = "clock E (tick w)" and ?w0 = "w\<lparr>tick := Suc (tick w)\<rparr>"
  from assms(3) obtain plain nextHash row w1 where gen: "session_Generate A = Inr (plain, nextHash)"
    and rot: "rotateRefresh tx txu (session_Hash A token) (refresh_row nextHash (?now + auth_refreshTTL A)) ?now E ?w0 = (Inr row, w1)"
    and acc: "refreshedAccess A row plain E w1 = (Inr res, w')"
    unfolding Refresh_def bindM_Inr run_basic
    by (auto simp: attempt_case run_basic refresh_row_def refreshFailure_def Let_def split: sum.splits if_splits)
  have d0: "database ?w0 = database w" by simp
  from refresh_Rotate_Inr [OF rotateRefresh_Inr [OF assms(1) rot] refresh_row_fields(1), unfolded refresh_row_fields d0]
  obtain t f where
    t: "t \<in> set (refresh_tokens (database w))" "t_TokenHash t = session_Hash A token" "t_RevokedAt t = None" "?now < t_ExpiresAt t"
    and row: "t_UserID row = t_UserID t" "t_SessionID row = t_SessionID t" "t_TokenHash row = nextHash"
      "t_ExpiresAt row = ?now + auth_refreshTTL A" "t_RevokedAt row = None"
    and d1: "database w1 = refresh_tokens_update f (database w)"
    and rows: "set (refresh_tokens (database w1)) = insert row (insert (consumed ?now (r_ID row) t) (set (refresh_tokens (database w)) - {t}))"
    by blast
  from acc obtain u w2 where "activeUser (t_UserID row) E w1 = (Inr u, w2)" and res: "Auth_User res = Some u" "Auth_RefreshToken res = plain"
    by (auto simp: refreshedAccess_def run_simps)
  from activeUser_Inr [OF this(1)] have u: "u \<in> set (users (database w))" "ID u = t_UserID t" "DeletedAt u = None" "u_Enabled u"
    by (simp_all add: d1 row)
  have hash: "nextHash = session_Hash A plain" using gen by (auto simp: session_Generate_def Let_def split: option.splits)
  have "database w' = database w1" using readsD [OF reads_refreshedAccess acc] by (simp add: quiet_def)
  with rows have "set (refresh_tokens (database w')) =
      insert row (insert (consumed ?now (r_ID row) t) (set (refresh_tokens (database w)) - {t}))" by simp
  with t row u res hash show ?thesis by (intro bexI [of _ t] exI [of _ row] conjI bexI [of _ u]) simp_all
qed

lemma database_consumed_paths [database_intro]:
  "database_only (refresh_Rotate tokenHash next now)" "database_only (RevokeSessionByTokenHash tokenHash now)"
  unfolding refresh_Rotate_def lockTokenByHash_def checkRotation_def revokeSession_def RecordPrepareInsert_def insertTimes_def
    insertRefreshToken_def consumeToken_def RevokeSessionByTokenHash_def Let_def
  by (intro database_intro)+

section \<open>Revoked sessions\<close>

definition session_ended :: "db \<Rightarrow> int \<Rightarrow> string \<Rightarrow> bool" where
  "session_ended d userID sessionID \<longleftrightarrow>
     (\<forall>x \<in> set (refresh_tokens d). t_UserID x = userID \<longrightarrow> t_SessionID x = sessionID \<longrightarrow> t_RevokedAt x \<noteq> None)"

lemma revoke_session_ended: "session_ended (refresh_tokens_update (revoke_session_rows userID sessionID now) d) userID sessionID"
proof -
  have rows: "refresh_tokens (refresh_tokens_update f d) = f (refresh_tokens d)" for f by simp
  show ?thesis unfolding session_ended_def rows revoke_session_rows_def update_rows_ball by simp
qed

lemma revoke_session_others:
  "filter (\<lambda>x. \<not> (t_UserID x = userID \<and> t_SessionID x = sessionID)) (revoke_session_rows userID sessionID now rows) =
   filter (\<lambda>x. \<not> (t_UserID x = userID \<and> t_SessionID x = sessionID)) rows"
  by (induction rows) (auto simp: revoke_session_rows_def update_rows_def)

lemma first_token:
  assumes "t \<in> set rows" "distinct (map t_TokenHash rows)" "t_TokenHash t = h"
  shows "first_row (filter (\<lambda>x. t_TokenHash x = h) rows) = Some t"
proof -
  have "x = t" if "x \<in> set (filter (\<lambda>x. t_TokenHash x = h) rows)" for x
    using row_unique [OF assms(2) _ assms(1), of x] that assms(3) by simp
  moreover have "filter (\<lambda>x. t_TokenHash x = h) rows \<noteq> []" using assms by (auto simp: filter_empty_conv)
  ultimately show ?thesis by (metis first_row_None first_row_Some option.exhaust)
qed

lemma auth_revokeSession_effect:
  assumes "transaction_runner txu" "auth_revokeSession txu tokenHash now E w = (r, w')" "length tokenHash = 32"
    "t \<in> set (refresh_tokens (database w))" "distinct (map t_TokenHash (refresh_tokens (database w)))" "t_TokenHash t = tokenHash"
  shows "case r of
      Inl e \<Rightarrow> database w' = database w
    | Inr _ \<Rightarrow> database w' = refresh_tokens_update (revoke_session_rows (t_UserID t) (t_SessionID t) now) (database w)"
proof (cases r)
  case (Inl e)
  with tx_rollback [OF assms(1)] assms(2) show ?thesis by (fastforce simp: auth_revokeSession_def)
next
  case (Inr u)
  with tx_commit [OF assms(1)] assms(2) have "RevokeSessionByTokenHash tokenHash now E w = (Inr u, w')" by (simp add: auth_revokeSession_def)
  then show ?thesis using assms(3) Inr
    by (auto simp: RevokeSessionByTokenHash_def lockTokenByHash_def revokeSession_def run_simps first_token [OF assms(4-6)] split: option.splits)
qed

definition driver_faults :: "engine \<Rightarrow> bool" where
  "driver_faults E \<longleftrightarrow> (\<forall>n e. fault E n = Some e \<longrightarrow>
     e = ContextCanceled \<or> e = DeadlineExceeded \<or> e = DuplicateKeyError \<or> (\<exists>m. e = DriverError m))"

definition technical :: "err \<Rightarrow> bool" where
  "technical e \<longleftrightarrow> \<not> errorsIs RefreshTokenNotFound e \<and> \<not> errorsIs RefreshTokenExpired e \<and> \<not> errorsIs RefreshTokenReplay e \<and>
     \<not> isAuthUnavailable e"

lemma driver_technical: "driver_faults E \<Longrightarrow> fault E n = Some e \<Longrightarrow> technical (WrapDatabaseError e)"
  unfolding driver_faults_def by (fastforce simp: technical_def WrapDatabaseError_def)

lemma refresh_Rotate_replayed:
  assumes "refresh_Rotate tokenHash (Some next) now E w = (r, w')" "driver_faults E" "length tokenHash = 32"
    "t \<in> set (refresh_tokens (database w))" "distinct (map t_TokenHash (refresh_tokens (database w)))"
    "t_TokenHash t = tokenHash" "t_RevokedAt t \<noteq> None" "t_ReplacedByID t \<noteq> None"
  shows "\<exists>e. r = Inl e \<and> (e = RefreshTokenReplay \<or> technical e)"
proof (cases "length (t_TokenHash next) \<noteq> 32 \<or> \<not> t_ExpiresAt next > now")
  case True
  with assms(1,3) show ?thesis by (auto simp: refresh_Rotate_def failM_def technical_def)
next
  case False
  show ?thesis
  proof (cases "fault E (tick w)")
    case (Some e)
    with assms(1,3) False have "r = Inl (WrapDatabaseError e)"
      by (auto simp: refresh_Rotate_def lockTokenByHash_def bindM_def mapErrM_def queryM_def)
    with driver_technical [OF assms(2) Some] show ?thesis by blast
  next
    case None
    have chk: "checkRotation (Some t) now E w1 = (x, w2) \<Longrightarrow> \<exists>e. x = Inl e \<and> (e = RefreshTokenReplay \<or> technical e)" for x w1 w2
      using assms(7,8) driver_technical [OF assms(2)]
      by (cases x) (auto simp: checkRotation_def revokeSession_def run_simps)
    obtain x w2 where run: "checkRotation (Some t) now E (w\<lparr>tick := Suc (tick w)\<rparr>) = (x, w2)" by fastforce
    with chk obtain e where "x = Inl e" "e = RefreshTokenReplay \<or> technical e" by blast
    moreover have "lockTokenByHash tokenHash E w = (Inr (Some t), w\<lparr>tick := Suc (tick w)\<rparr>)"
      using None by (simp add: lockTokenByHash_def mapErrM_def queryM_def first_token [OF assms(4-6)])
    ultimately have "r = Inl e" using assms(1,3) False run by (auto simp: refresh_Rotate_def bindM_def)
    with \<open>e = RefreshTokenReplay \<or> technical e\<close> show ?thesis by blast
  qed
qed

lemma rotateRefresh_replayed:
  assumes "transaction_runner tx" "transaction_runner txu" "rotateRefresh tx txu tokenHash next now E w = (r, w')" "driver_faults E"
    "length tokenHash = 32" "t \<in> set (refresh_tokens (database w))" "distinct (map t_TokenHash (refresh_tokens (database w)))"
    "t_TokenHash t = tokenHash" "t_RevokedAt t \<noteq> None" "t_ReplacedByID t \<noteq> None"
  shows "\<exists>e. r = Inl e \<and>
    ((technical e \<or> isAuthUnavailable e) \<and> database w' = database w \<or>
     database w' = refresh_tokens_update (revoke_session_rows (t_UserID t) (t_SessionID t) now) (database w))"
proof -
  obtain x w1 where m: "refresh_Rotate tokenHash (Some next) now E w = (x, w1)" by fastforce
  from refresh_Rotate_replayed [OF m assms(4-10)] obtain e where e: "x = Inl e" "e = RefreshTokenReplay \<or> technical e" by blast
  let ?w1 = "w1\<lparr>database := database w\<rparr>"
  have tx: "tx (refresh_Rotate tokenHash (Some next) now) E w = (Inl e, ?w1)"
    using assms(1) m e(1) unfolding transaction_runner_def by (auto split: prod.splits sum.splits dest!: spec)
  from e(2) show ?thesis
  proof
    assume tech: "technical e"
    then have "\<not> errorsIs RefreshTokenReplay e" by (simp add: technical_def)
    with assms(3) tx have "r = Inl e" "w' = ?w1" unfolding rotateRefresh_def attempt_case by (auto simp: failM_def)
    with tech show ?thesis by simp
  next
    assume replay: "e = RefreshTokenReplay"
    obtain y w2 where rev: "auth_revokeSession txu tokenHash now E ?w1 = (y, w2)" by fastforce
    have "case y of Inl e \<Rightarrow> database w2 = database w
      | Inr _ \<Rightarrow> database w2 = refresh_tokens_update (revoke_session_rows (t_UserID t) (t_SessionID t) now) (database w)"
      using auth_revokeSession_effect [OF assms(2) rev assms(5), of t] assms(6-8) by (cases y) simp_all
    moreover have "w' = w2 \<and> r = (case y of Inl _ \<Rightarrow> Inl (AuthUnavailable ''revoke replayed session'') | Inr _ \<Rightarrow> Inl e)"
      using assms(3) tx rev replay unfolding rotateRefresh_def attempt_case
      by (auto simp: attempt_case failM_def authUnavailable_def split: sum.splits)
    ultimately show ?thesis by (cases y) auto
  qed
qed

text \<open>
  C37. Replaying a refresh token that was already exchanged never yields credentials, and when it is answered
  with the authentication failure the whole session is revoked: this revocation is committed although the
  rotation itself is rolled back. Tokens of other sessions are untouched.
\<close>

theorem Refresh_replay_ends_session:
  assumes "transaction_runner tx" "transaction_runner txu" "\<forall>s. length (auth_sha256 A s) = 32" "driver_faults E"
    "t \<in> set (refresh_tokens (database w))" "distinct (map t_TokenHash (refresh_tokens (database w)))"
    "t_TokenHash t = session_Hash A token" "t_RevokedAt t \<noteq> None" "t_ReplacedByID t \<noteq> None"
    "Refresh tx txu A token E w = (r, w')"
  shows "\<exists>x e. r = Inr (x, Some e) \<and> (e = AuthFailed \<longrightarrow> session_ended (database w') (t_UserID t) (t_SessionID t)) \<and>
    filter (\<lambda>y. \<not> (t_UserID y = t_UserID t \<and> t_SessionID y = t_SessionID t)) (refresh_tokens (database w')) =
    filter (\<lambda>y. \<not> (t_UserID y = t_UserID t \<and> t_SessionID y = t_SessionID t)) (refresh_tokens (database w))"
proof (cases "session_Generate A")
  case (Inl e)
  with assms(10) show ?thesis by (auto simp: Refresh_def bindM_def nowM_def returnM_def authUnavailable_def)
next
  case (Inr p)
  let ?w0 = "w\<lparr>tick := Suc (tick w)\<rparr>" and ?now = "clock E (tick w)"
  obtain plain nextHash where gen: "session_Generate A = Inr (plain, nextHash)" using Inr by (cases p) simp
  obtain y w1 where rot: "rotateRefresh tx txu (session_Hash A token) (refresh_row nextHash (?now + auth_refreshTTL A)) ?now E ?w0 = (y, w1)"
    by fastforce
  have "length (session_Hash A token) = 32" using assms(3) by (simp add: session_Hash_def)
  from rotateRefresh_replayed [OF assms(1,2) rot assms(4) this] assms(5-9) obtain e where e: "y = Inl e"
    and d: "(technical e \<or> isAuthUnavailable e) \<and> database w1 = database w \<or>
      database w1 = refresh_tokens_update (revoke_session_rows (t_UserID t) (t_SessionID t) ?now) (database w)" by auto
  have run: "r = Inr (map_prod id Some (refreshFailure e))" "w' = w1"
    using assms(10) gen rot e by (auto simp: Refresh_def bindM_def nowM_def attemptM_def returnM_def Let_def refresh_row_def)
  obtain x e' where f: "refreshFailure e = (x, e')" by fastforce
  have "e' = AuthFailed \<Longrightarrow> \<not> (technical e \<or> isAuthUnavailable e)"
    using f by (auto simp: refreshFailure_def technical_def authUnavailable_def split: if_splits)
  then show ?thesis using d run f revoke_session_ended revoke_session_others by auto
qed

section \<open>Logout\<close>

text \<open>
  C38. Logout ends the session of the presented token, and only that: on success every token of its session is
  revoked, or the token was unknown and nothing changed; tokens of other sessions are untouched, and a failure
  changes nothing.
\<close>

theorem Logout_ends_session:
  assumes "transaction_runner txu" "\<forall>s. length (auth_sha256 A s) = 32"
    "distinct (map t_TokenHash (refresh_tokens (database w)))" "Logout txu A token E w = (r, w')"
  shows "case r of
      Inl e \<Rightarrow> isAuthUnavailable e \<and> database w' = database w
    | Inr _ \<Rightarrow>
        (\<exists>t \<in> set (refresh_tokens (database w)). t_TokenHash t = session_Hash A token \<and>
           session_ended (database w') (t_UserID t) (t_SessionID t) \<and>
           filter (\<lambda>y. \<not> (t_UserID y = t_UserID t \<and> t_SessionID y = t_SessionID t)) (refresh_tokens (database w')) =
           filter (\<lambda>y. \<not> (t_UserID y = t_UserID t \<and> t_SessionID y = t_SessionID t)) (refresh_tokens (database w))) \<or>
        (\<forall>t \<in> set (refresh_tokens (database w)). t_TokenHash t \<noteq> session_Hash A token) \<and> database w' = database w"
proof -
  let ?w0 = "w\<lparr>tick := Suc (tick w)\<rparr>" and ?now = "clock E (tick w)" and ?h = "session_Hash A token"
  have h32: "length ?h = 32" using assms(2) by (simp add: session_Hash_def)
  obtain y w1 where rev: "auth_revokeSession txu ?h ?now E ?w0 = (y, w1)" by fastforce
  have run: "w' = w1 \<and> r = (case y of Inl _ \<Rightarrow> Inl (AuthUnavailable ''revoke logout session'') | Inr u \<Rightarrow> Inr u)"
    using assms(4) rev by (auto simp: Logout_def bindM_def nowM_def mapErrM_def authUnavailable_def split: sum.splits)
  show ?thesis
  proof (cases "\<exists>t \<in> set (refresh_tokens (database w)). t_TokenHash t = ?h")
    case True
    then obtain t where t: "t \<in> set (refresh_tokens (database w))" "t_TokenHash t = ?h" by blast
    have "case y of Inl e \<Rightarrow> database w1 = database w
      | Inr _ \<Rightarrow> database w1 = refresh_tokens_update (revoke_session_rows (t_UserID t) (t_SessionID t) ?now) (database w)"
      using auth_revokeSession_effect [OF assms(1) rev h32, of t] t assms(3) by (cases y) simp_all
    then show ?thesis
    proof (cases y)
      case (Inr u)
      with \<open>case y of Inl e \<Rightarrow> _ | Inr _ \<Rightarrow> _\<close> run t show ?thesis
        using revoke_session_ended revoke_session_others by (auto intro!: bexI [of _ t])
    qed (use run in simp)
  next
    case False
    then have none: "first_row (filter (\<lambda>t. t_TokenHash t = ?h) (refresh_tokens (database w))) = None" by (auto simp: filter_empty_conv)
    have "database w1 = database w"
    proof (cases y)
      case (Inl e)
      with tx_rollback [OF assms(1)] rev show ?thesis by (fastforce simp: auth_revokeSession_def)
    next
      case (Inr u)
      with tx_commit [OF assms(1)] rev have "RevokeSessionByTokenHash ?h ?now E ?w0 = (Inr u, w1)" by (simp add: auth_revokeSession_def)
      then show ?thesis using h32 none by (auto simp: RevokeSessionByTokenHash_def lockTokenByHash_def run_simps)
    qed
    with False run show ?thesis by (cases y) auto
  qed
qed

section \<open>Login\<close>

text \<open>
  C39. The number of password guesses is limited: once a client has used up its attempts for an account name, every
  further login before the window expires is refused with the same answer whatever the password, without
  reading the database, and without extending the window.
\<close>

theorem Login_limited:
  assumes "counter_at (loginRateKey A (TrimSpace username) ip) n expiry (cache w)" "loginAttemptLimit \<le> n" "n < MaxInt64_value"
    "clock E (tick w) < expiry" "ctx_error E (tick w) = None" "TrimSpace username \<noteq> ''''" "password \<noteq> ''''"
    "Login tx txu A username password ip E w = (r, w')"
  shows "r = Inl AuthRateLimited \<and> database w' = database w \<and> last_id w' = last_id w \<and>
    counter_at (loginRateKey A (TrimSpace username) ip) (n + 1) expiry (cache w')"
proof -
  let ?key = "loginRateKey A (TrimSpace username) ip"
  obtain a s where inc: "memory_Increment None (clock E (tick w)) ?key loginAttemptWindow (cache w) = (a, s)" by fastforce
  from Increment_counts [OF assms(1,4), of loginAttemptWindow] assms(2,3) inc
  have "a = Inr (n + 1)" "counter_at ?key (n + 1) expiry s" by (auto simp: loginAttemptWindow_def loginAttemptLimit_def)
  then show ?thesis using assms(2,5-8) inc
    by (auto simp: Login_def Let_def checkLoginLimit_def cacheIncrementM_def bindM_def mapErrM_def guardM_def liftR_def guardR_def)
qed

lemma verifyLogin_Inr:
  assumes "verifyLogin A username password E w = (Inr u', w')"
  shows "\<exists>u \<in> set (users (database w)). same_text E (u_Username u) username \<and> DeletedAt u = None \<and> u_Enabled u \<and> ID u' = ID u \<and>
    (\<exists>rehash. Verify_password (auth_argon A) (auth_policy A) (u_PasswordHash u) password = Inr (True, rehash)) \<and>
    (\<exists>f. database w' = users_update f (database w)) \<and> cache w' = cache w"
proof -
  have id: "\<exists>f. database w = users_update f (database w)" by (rule exI [of _ "\<lambda>x. x"]) simp
  from assms obtain found w1 where find: "FindByUsername username E w = (found, w1)" by fastforce
  then have w1: "database w1 = database w" "cache w1 = cache w"
    by (cases found; auto simp: FindByUsername_def requireUser_def run_simps split: option.splits)+
  show ?thesis
  proof (cases found)
    case (Inl e)
    with assms find show ?thesis
      by (auto simp: verifyLogin_def bindM_def attemptM_def failM_def mapErrM_def liftR_def split: if_splits prod.splits sum.splits)
  next
    case (Inr u)
    then have u: "u \<in> set (users (database w))" "same_text E (u_Username u) username" "DeletedAt u = None"
      using find by (auto simp: FindByUsername_def requireUser_def run_simps split: option.splits dest!: first_row_Some)
    from assms find Inr obtain rehash where v: "Verify_password (auth_argon A) (auth_policy A) (u_PasswordHash u) password = Inr (True, rehash)"
      and en: "u_Enabled u" and rest: "(if rehash then rehashPassword A u password else returnM u) E w1 = (Inr u', w')"
      by (auto simp: verifyLogin_def bindM_def attemptM_def failM_def mapErrM_def liftR_def returnM_def split: if_splits prod.splits sum.splits)
    from rest have "ID u' = ID u" "\<exists>f. database w' = users_update f (database w)" "cache w' = cache w"
      using w1 id by (auto simp: rehashPassword_def UpdatePasswordHash_def Let_def run_simps split: if_splits)
    with u v en show ?thesis by blast
  qed
qed

lemma CreateSession_Inr:
  assumes "CreateSession token loginAt E w = (Inr row, w')"
  shows "t_UserID row = t_UserID token" "t_SessionID row = t_SessionID token" "t_TokenHash row = t_TokenHash token"
    "t_ExpiresAt row = t_ExpiresAt token" "t_RevokedAt row = None"
    "refresh_tokens (database w') = refresh_tokens (database w) @ [row]" "cache w' = cache w"
    "\<forall>x \<in> set (refresh_tokens (database w)). t_TokenHash x \<noteq> t_TokenHash row"
  using assms
  by (auto simp: CreateSession_def validateNewRefreshToken_def RecordPrepareInsert_def insertTimes_def insertRefreshToken_def
      run_simps list_ex_iff split: if_splits)

lemma auth_createSession_Inr:
  assumes "transaction_runner tx" "auth_createSession tx A user E w = (Inr res, w')"
  shows "\<exists>row. refresh_tokens (database w') = refresh_tokens (database w) @ [row] \<and> t_UserID row = ID user \<and>
    t_SessionID row = auth_sessionUUID A \<and> t_TokenHash row = session_Hash A (Auth_RefreshToken res) \<and> t_RevokedAt row = None \<and>
    t_ExpiresAt row = Auth_RefreshExpiresAt res \<and> (\<forall>x \<in> set (refresh_tokens (database w)). t_TokenHash x \<noteq> t_TokenHash row)"
proof -
  let ?now = "clock E (tick w)"
  let ?token = "\<lambda>h. \<lparr>r_ID = 0, r_CreatedAt = 0, r_UpdatedAt = 0, t_UserID = ID user, t_SessionID = auth_sessionUUID A,
           t_TokenHash = h, t_ExpiresAt = ?now + auth_refreshTTL A, t_LastUsedAt = None, t_RevokedAt = None, t_ReplacedByID = None\<rparr>"
  from assms(2) obtain plain h acc w1 row where gen: "session_Generate A = Inr (plain, h)"
    and iss: "Issue A (ID user) (auth_sessionUUID A) E (w\<lparr>tick := Suc (tick w)\<rparr>) = (Inr acc, w1)"
    and txr: "tx (CreateSession (?token h) ?now) E w1 = (Inr row, w')"
    and res: "Auth_RefreshToken res = plain" "Auth_RefreshExpiresAt res = ?now + auth_refreshTTL A"
    by (auto simp: auth_createSession_def Let_def run_simps)
  have d1: "database w1 = database w" using readsD [OF reads_Issue iss] by (simp add: quiet_def)
  have "h = session_Hash A plain" using gen by (auto simp: session_Generate_def Let_def split: option.splits)
  with CreateSession_Inr [OF tx_commit [OF assms(1) txr]] res show ?thesis by (intro exI [of _ row]) (simp add: d1)
qed

text \<open>
  C40. A login is authenticated: credentials are issued only for a live, enabled account with the given name whose
  stored hash verifies the password; a fresh unrevoked session of that account is stored with the digest of
  the returned token, no other token changes, and the attempt counter is cleared.
\<close>

theorem Login_sound:
  assumes "transaction_runner tx" "Login tx txu A username password ip E w = (Inr res, w')"
  shows "\<exists>u \<in> set (users (database w)). same_text E (u_Username u) (TrimSpace username) \<and> DeletedAt u = None \<and> u_Enabled u \<and>
    (\<exists>rehash. Verify_password (auth_argon A) (auth_policy A) (u_PasswordHash u) password = Inr (True, rehash)) \<and>
    (\<exists>row. refresh_tokens (database w') = refresh_tokens (database w) @ [row] \<and> t_UserID row = ID u \<and>
       t_SessionID row = auth_sessionUUID A \<and> t_TokenHash row = session_Hash A (Auth_RefreshToken res) \<and> t_RevokedAt row = None \<and>
       t_ExpiresAt row = Auth_RefreshExpiresAt res \<and>
       (\<forall>x \<in> set (refresh_tokens (database w)). t_TokenHash x \<noteq> t_TokenHash row)) \<and>
    store_entries (cache w') (loginRateKey A (TrimSpace username) ip) = None"
proof -
  let ?key = "loginRateKey A (TrimSpace username) ip"
  from assms(2) obtain w1 u' w2 w3 where lim: "checkLoginLimit ?key E w = (Inr (), w1)"
    and ver: "verifyLogin A (TrimSpace username) password E w1 = (Inr u', w2)"
    and cre: "auth_createSession tx A u' E w2 = (Inr res, w3)" and del: "cacheDeleteM ?key E w3 = (Inr (), w')"
    unfolding Login_def Let_def
    by (auto simp: bindM_Inr attemptM_Inr failM_def returnM_def split: if_splits sum.splits) (metis old.unit.exhaust sum.exhaust)
  have d1: "database w1 = database w" using lim by (auto simp: checkLoginLimit_def cacheIncrementM_def run_simps split: prod.splits)
  from verifyLogin_Inr [OF ver] obtain u f rehash where u: "u \<in> set (users (database w))" "same_text E (u_Username u) (TrimSpace username)"
      "DeletedAt u = None" "u_Enabled u" "ID u' = ID u"
      "Verify_password (auth_argon A) (auth_policy A) (u_PasswordHash u) password = Inr (True, rehash)"
    and d2: "database w2 = users_update f (database w)" unfolding d1 by blast
  from auth_createSession_Inr [OF assms(1) cre] obtain row where
    row: "refresh_tokens (database w3) = refresh_tokens (database w2) @ [row]" "t_UserID row = ID u'" "t_SessionID row = auth_sessionUUID A"
      "t_TokenHash row = session_Hash A (Auth_RefreshToken res)" "t_RevokedAt row = None" "t_ExpiresAt row = Auth_RefreshExpiresAt res"
      "\<forall>x \<in> set (refresh_tokens (database w2)). t_TokenHash x \<noteq> t_TokenHash row" by blast
  have "database w' = database w3" "store_entries (cache w') ?key = None"
    using del by (auto simp: cacheDeleteM_def memory_Delete_def drop_entry_def split: option.splits)
  then show ?thesis using u row unfolding d2 by (intro bexI [of _ u] conjI exI [of _ row]) auto
qed

section \<open>Sessions of the example installation\<close>

definition example_sha :: "string \<Rightarrow> string" where
  "example_sha s = take 32 (s @ replicate 32 (CHR ''0''))"

definition example_auth :: auth_config where
  "example_auth = \<lparr>auth_sha256 = example_sha, auth_lower = (\<lambda>r. []), auth_argon = toy_derivation, auth_policy = defaultParams,
     auth_salt = example_random (CHR ''s''), auth_random = example_random (CHR ''x''), auth_sessionUUID = ''uuid-1'',
     auth_tokenUUID = ''uuid-2'', auth_sign = (\<lambda>c. Some (Claims_Subject c)), auth_issuer = ''kirby'', auth_audience = ''admin'',
     auth_accessTTL = 900, auth_refreshTTL = 604800, auth_dummyHash = ''''\<rparr>"

definition session_token :: "int \<Rightarrow> string \<Rightarrow> int option \<Rightarrow> int option \<Rightarrow> refresh_token_row" where
  "session_token i plain revoked successor = \<lparr>r_ID = i, r_CreatedAt = 1, r_UpdatedAt = 1, t_UserID = 7, t_SessionID = ''s1'',
     t_TokenHash = example_sha plain, t_ExpiresAt = 5000, t_LastUsedAt = None, t_RevokedAt = revoked, t_ReplacedByID = successor\<rparr>"

definition session_tokens :: "refresh_token_row list" where
  "session_tokens = [session_token 8 ''old'' (Some 900) (Some 9), session_token 9 ''new'' None None]"

definition ann_hash :: string where
  "ann_hash = projr (Hash toy_derivation (example_random (CHR ''s'')) defaultParams ''open'')"

definition session_world :: world where
  "session_world = example_world\<lparr>database := (database example_world)
     \<lparr>refresh_tokens := session_tokens, users := map (\<lambda>u. u\<lparr>u_PasswordHash := ann_hash\<rparr>) (users (database example_world))\<rparr>\<rparr>"

abbreviation "example_refresh token \<equiv> Refresh run_tx run_tx example_auth token example_engine"

lemma example_auth_facts:
  "\<forall>s. length (auth_sha256 example_auth s) = 32" "driver_faults example_engine"
  "distinct (map t_TokenHash (refresh_tokens (database session_world)))" "refresh_tokens (database session_world) = session_tokens"
proof -
  show "\<forall>s. length (auth_sha256 example_auth s) = 32" by (auto simp: example_auth_def example_sha_def min_def)
  show "driver_faults example_engine" by (simp add: driver_faults_def example_engine_def)
  show "refresh_tokens (database session_world) = session_tokens" by (simp add: session_world_def)
  have "distinct (map t_TokenHash session_tokens)" by code_simp
  then show "distinct (map t_TokenHash (refresh_tokens (database session_world)))" by (simp add: session_world_def)
qed

lemma example_refresh_run:
  "map_sum id (map_prod (map_option Auth_RefreshToken) id) (fst (example_refresh ''new'' session_world)) =
     Inr (Some (EncodeToString (replicate 32 (CHR ''x''))), None)"
  by code_simp

lemma example_replay_run: "map_sum id snd (fst (example_refresh ''old'' session_world)) = Inr (Some AuthFailed)"
  by code_simp

lemma example_logout_run: "\<not> isl (fst (Logout run_tx example_auth ''new'' example_engine session_world))"
  by code_simp

lemma ann_verified: "Verify_password toy_derivation defaultParams ann_hash ''open'' = Inr (True, False)"
proof -
  have h: "Hash toy_derivation (example_random (CHR ''s'')) defaultParams ''open'' = Inr ann_hash"
    by (simp add: ann_hash_def Hash_def Let_def example_random_def)
  have "validateParams defaultParams = Inr ()" by code_simp
  moreover have "length (toy_derivation pw salt t m p n) = unat n" for pw salt t m p n by (simp add: toy_derivation_def)
  ultimately show ?thesis
    using Verify_Hash [OF _ random_length _ h, where policy = defaultParams and attempt = "''open''"] by auto
qed

lemma example_login_run: "\<not> isl (fst (Login run_tx run_tx example_auth '' ann '' ''open'' ''ip'' example_engine session_world))"
proof -
  have trim: "TrimSpace '' ann '' = ''ann''" "TrimSpace ''uuid-1'' = ''uuid-1''" by code_simp+
  have tok: "t_TokenHash t \<noteq> example_sha (EncodeToString (replicate 32 (CHR ''x'')))" if "t \<in> set session_tokens" for t
    using that by (auto simp: session_tokens_def session_token_def; code_simp)
  have sha: "length (example_sha t) = 32" for t by (simp add: example_sha_def min_def)
  show ?thesis
    by (simp add: Login_def Let_def trim checkLoginLimit_def cacheIncrementM_def memory_Increment_def bindM_def mapErrM_def example_engine_def
      guardM_def liftR_def guardR_def verifyLogin_def attemptM_def FindByUsername_def queryM_def session_world_def example_world_def example_db_def
      first_row_def requireUser_def returnM_def newMemory_def loginAttemptWindow_def loginAttemptLimit_def example_auth_def ann_verified
      auth_createSession_def nowM_def session_Generate_def example_random_def session_Hash_def Issue_def cacheDeleteM_def memory_Delete_def
      run_tx_def CreateSession_def validateNewRefreshToken_def updateM_def execM_def matching_def RecordPrepareInsert_def insertTimes_def
      insertRefreshToken_def insertM_def fresh_id_def tokenLength_def example_actor_def update_rows_def list_ex_iff tok sha)
qed

theorem Refresh_rotates_witness:
  "\<exists>res w'. example_refresh ''new'' session_world = (Inr (Some res, None), w') \<and>
     (\<exists>t \<in> set session_tokens. t_TokenHash t = example_sha ''new'' \<and> t_RevokedAt t = None \<and> t \<notin> set (refresh_tokens (database w')))"
proof -
  obtain x e w' where "example_refresh ''new'' session_world = (Inr (x, e), w')"
    using example_refresh_run by (cases "example_refresh ''new'' session_world"; cases "fst (example_refresh ''new'' session_world)") auto
  moreover from this example_refresh_run obtain res where "x = Some res" "e = None" by auto
  ultimately have run: "example_refresh ''new'' session_world = (Inr (Some res, None), w')" by simp
  from Refresh_rotates [OF run_tx_runner run_tx_runner run] example_auth_facts(4) obtain t row where t: "t \<in> set session_tokens"
      "t_TokenHash t = example_sha ''new''" "t_RevokedAt t = None" "t_TokenHash row = session_Hash example_auth (Auth_RefreshToken res)"
    and rows: "set (refresh_tokens (database w')) = insert row (insert (consumed (clock example_engine (tick session_world)) (r_ID row) t)
        (set session_tokens - {t}))" by (auto simp: session_Hash_def example_auth_def)
  have "Auth_RefreshToken res = EncodeToString (replicate 32 (CHR ''x''))" using example_refresh_run run by simp
  moreover have "session_Hash example_auth (EncodeToString (replicate 32 (CHR ''x''))) \<noteq> example_sha ''new''" by code_simp
  ultimately have "t \<noteq> row" using t by auto
  moreover have "t_RevokedAt (consumed (clock example_engine (tick session_world)) (r_ID row) t) \<noteq> None" by (simp add: consumed_def)
  then have "t \<noteq> consumed (clock example_engine (tick session_world)) (r_ID row) t" using t(3) by metis
  ultimately show ?thesis using run t rows by auto
qed

theorem Refresh_replay_ends_session_witness:
  "\<exists>w'. snd (example_refresh ''old'' session_world) = w' \<and> session_ended (database w') 7 ''s1''"
proof -
  obtain r w' where run: "example_refresh ''old'' session_world = (r, w')" by fastforce
  let ?t = "session_token 8 ''old'' (Some 900) (Some 9)"
  have t: "?t \<in> set (refresh_tokens (database session_world))" "t_TokenHash ?t = session_Hash example_auth ''old''"
    by (simp_all add: example_auth_facts(4) session_tokens_def session_token_def session_Hash_def example_auth_def)
  have ids: "t_UserID ?t = 7" "t_SessionID ?t = ''s1''" "t_RevokedAt ?t \<noteq> None" "t_ReplacedByID ?t \<noteq> None" by (simp_all add: session_token_def)
  from Refresh_replay_ends_session [OF run_tx_runner run_tx_runner example_auth_facts(1,2) t(1) example_auth_facts(3) t(2) ids(3,4) run]
    example_replay_run run show ?thesis by (auto simp: ids)
qed

theorem Logout_ends_session_witness:
  "\<exists>w'. Logout run_tx example_auth ''new'' example_engine session_world = (Inr (), w') \<and> session_ended (database w') 7 ''s1''"
proof -
  obtain w' where run: "Logout run_tx example_auth ''new'' example_engine session_world = (Inr (), w')"
    using example_logout_run by (cases "fst (Logout run_tx example_auth ''new'' example_engine session_world)") (auto simp: prod_eq_iff)
  have all: "t_UserID t = 7 \<and> t_SessionID t = ''s1''" if "t \<in> set session_tokens" for t
    using that by (auto simp: session_tokens_def session_token_def)
  have "\<exists>t \<in> set session_tokens. t_TokenHash t = session_Hash example_auth ''new''"
    by (simp add: session_tokens_def session_token_def session_Hash_def example_auth_def)
  with Logout_ends_session [OF run_tx_runner example_auth_facts(1,3) run] run all show ?thesis
    unfolding example_auth_facts(4) by auto
qed

definition guessed_world :: world where
  "guessed_world = session_world\<lparr>cache := \<lparr>store_entries = [loginRateKey example_auth ''ann'' ''ip'' \<mapsto>
     \<lparr>entry_value = FormatInt 5, entry_expiresAt = 2000\<rparr>]\<rparr>\<rparr>"

theorem Login_limited_witness:
  "fst (Login run_tx run_tx example_auth '' ann '' ''open'' ''ip'' example_engine guessed_world) = Inl AuthRateLimited"
proof -
  have trim: "TrimSpace '' ann '' = ''ann''" by code_simp
  then have "counter_at (loginRateKey example_auth (TrimSpace '' ann '') ''ip'') 5 2000 (cache guessed_world)"
    by (simp add: counter_at_def guessed_world_def)
  from Login_limited [OF this _ _ _ _ _ _ prod.collapse [symmetric], of example_engine "''open''" run_tx run_tx]
  show ?thesis by (simp add: trim loginAttemptLimit_def MaxInt64_value_def example_engine_def guessed_world_def session_world_def example_world_def)
qed

theorem Login_sound_witness:
  "\<exists>res w'. Login run_tx run_tx example_auth '' ann '' ''open'' ''ip'' example_engine session_world = (Inr res, w') \<and>
     (\<exists>row. refresh_tokens (database w') = session_tokens @ [row] \<and> t_RevokedAt row = None)"
proof -
  obtain res w' where run: "Login run_tx run_tx example_auth '' ann '' ''open'' ''ip'' example_engine session_world = (Inr res, w')"
    using example_login_run
    by (cases "fst (Login run_tx run_tx example_auth '' ann '' ''open'' ''ip'' example_engine session_world)") (auto simp: prod_eq_iff)
  from Login_sound [OF run_tx_runner run] show ?thesis using run unfolding example_auth_facts(4) by blast
qed

end
