(* ===== verification/Transition.thy ===== *)
theory Transition
  imports Import Auth_Props
begin

text \<open>
  Which changes of the world an operation can cause, independently of the arguments it is given:
  \<open>obeys P m\<close> says that every run of \<open>m\<close>, successful or not, is a change allowed by \<open>P\<close>. A transitive
  relation is obeyed by every operation built from obeying statements, and by transactions when it is
  closed under rollback: the locales \<open>effect\<close>, \<open>atomic_effect\<close> and \<open>transition\<close> prove this once. The first
  interpretation gives the operations that leave the database alone.
\<close>

definition obeys :: "(engine \<Rightarrow> world \<Rightarrow> world \<Rightarrow> bool) \<Rightarrow> 'a M \<Rightarrow> bool" where
  "obeys P m \<longleftrightarrow> (\<forall>E w r w'. m E w = (r, w') \<longrightarrow> P E w w')"

lemma obeysD: "obeys P m \<Longrightarrow> m E w = (r, w') \<Longrightarrow> P E w w'"
  by (simp add: obeys_def)

lemma obeysI: "(\<And>E w r w'. m E w = (r, w') \<Longrightarrow> P E w w') \<Longrightarrow> obeys P m"
  by (simp add: obeys_def)

lemma obeys_mono: "obeys P m \<Longrightarrow> (\<And>E w w'. P E w w' \<Longrightarrow> Q E w w') \<Longrightarrow> obeys Q m"
  unfolding obeys_def by blast

locale effect =
  fixes P :: "engine \<Rightarrow> world \<Rightarrow> world \<Rightarrow> bool"
  assumes unchanged: "quiet w w' \<Longrightarrow> P E w w'"
    and trans: "P E w w' \<Longrightarrow> P E w' w'' \<Longrightarrow> P E w w''"
begin

lemma reading: "reads m \<Longrightarrow> obeys P m"
  by (auto simp: obeys_def reads_def intro: unchanged)

lemma basic:
  "obeys P (returnM a)" "obeys P (failM e)" "obeys P (liftR r)" "obeys P (guardM b e)" "obeys P nowM"
  "obeys P (queryM q)" "obeys P (requireRow resource row)" "obeys P (requireAffected resource n)"
  "obeys P (getM rows resource)" "obeys P (lockScopedProject i j)" "obeys P (lockScopedConfig i j)"
  "obeys P (paginate sel page)"
  by (rule reading, rule reads_intro)+

lemma bind: "obeys P m \<Longrightarrow> (\<And>a. obeys P (f a)) \<Longrightarrow> obeys P (bindM m f)"
proof (rule obeysI)
  fix E w r w'
  assume m: "obeys P m" and f: "\<And>a. obeys P (f a)" and run: "bindM m f E w = (r, w')"
  from run show "P E w w'"
    by (cases rule: bindM_elim) (use trans obeysD [OF m] obeysD [OF f] in blast)+
qed

lemma attempt: "obeys P m \<Longrightarrow> obeys P (attemptM m)"
  by (auto simp: obeys_def attemptM_def split: prod.splits)

lemma map_error: "obeys P m \<Longrightarrow> obeys P (mapErrM f m)"
  unfolding obeys_def mapErrM_def by (auto split: prod.splits sum.splits)

lemma branch: "obeys P m \<Longrightarrow> obeys P n \<Longrightarrow> obeys P (if b then m else n)"
  by simp

lemma option_case: "obeys P m \<Longrightarrow> (\<And>x. obeys P (f x)) \<Longrightarrow> obeys P (case a of None \<Rightarrow> m | Some x \<Rightarrow> f x)"
  by (cases a) simp_all

lemma sum_case: "(\<And>e. obeys P (f e)) \<Longrightarrow> (\<And>x. obeys P (g x)) \<Longrightarrow> obeys P (case r of Inl e \<Rightarrow> f e | Inr x \<Rightarrow> g x)"
  by (cases r) simp_all

lemma pair_case: "(\<And>x y. obeys P (h x y)) \<Longrightarrow> obeys P (case p of (x, y) \<Rightarrow> h x y)"
  by (cases p) simp

lemma each: "(\<And>x. obeys P (f x)) \<Longrightarrow> obeys P (forM f xs)"
  by (induction xs) (simp_all add: basic bind)

lemmas compose = basic bind attempt map_error branch option_case sum_case pair_case each

lemma pages: "(\<And>page. obeys P (fetch page)) \<Longrightarrow> obeys P (page_loop fuel fetch convert offset items)"
  by (induction fuel arbitrary: offset items) (simp_all add: basic bind Let_def)

lemma all: "(\<And>page. obeys P (fetch page)) \<Longrightarrow> obeys P (all_pages table fetch convert)"
  unfolding all_pages_def by (rule obeysI) (rule obeysD [OF pages])

end

text \<open>A relation that a rollback of the database keeps is obeyed by transactions.\<close>

locale atomic_effect = effect P for P +
  assumes rollback: "P E w w' \<Longrightarrow> P E w (w'\<lparr>database := database w\<rparr>)"
begin

lemma transaction: "transaction_runner tx \<Longrightarrow> obeys P m \<Longrightarrow> obeys P (tx m)"
proof (rule obeysI)
  fix E w r w'
  assume tx: "transaction_runner tx" and m: "obeys P m" and run: "tx m E w = (r, w')"
  show "P E w w'"
  proof (cases r)
    case (Inl e)
    with tx_rollback [OF tx] run obeysD [OF m] rollback show ?thesis by blast
  next
    case (Inr a)
    with tx_commit [OF tx] run obeysD [OF m] show ?thesis by blast
  qed
qed

end

text \<open>A relation on databases and sequences alone is also obeyed by the cache operations and by authorization.\<close>

locale transition = atomic_effect P for P +
  assumes same: "database w' = database w \<Longrightarrow> last_id w' = last_id w \<Longrightarrow> P E w w'"
begin

lemma caching:
  "obeys P (cacheGetM key)" "obeys P (cacheSetM key v ttl)" "obeys P (cacheDeleteM key)"
  "obeys P (cacheIncrementM key ttl)"
  by (auto simp: obeys_def cacheGetM_def cacheSetM_def cacheDeleteM_def cacheIncrementM_def
      intro: same split: prod.splits)

lemmas combine = compose caching

lemma resolve: "obeys P (resolve_loop n u e)"
proof (induction n)
  case 0
  show ?case by (simp add: basic)
next
  case (Suc n)
  have "obeys P (resolveAttempt u e)"
    unfolding resolveAttempt_def loadPermissions_def cachedPermissions_def cachePermissions_def allPermissionKeys_def
      resolver_identity_def permission_Identity_def enabledUser_def KeysForUserEnvironment_def permission_List_def Let_def
    by (intro combine)
  with Suc show ?case unfolding resolve_loop.simps by (intro combine)
qed

lemma resolved: "obeys P (Resolve u e)"
  unfolding Resolve_def by (rule resolve)

lemma require: "obeys P (Require u e keys)"
  unfolding Require_def by (intro combine resolved)

end

section \<open>Operations that leave the database alone\<close>

definition frozen :: "engine \<Rightarrow> world \<Rightarrow> world \<Rightarrow> bool" where
  "frozen E w w' \<longleftrightarrow> database w' = database w \<and> last_id w' = last_id w"

interpretation frz: transition frozen
  by unfold_locales (auto simp: frozen_def quiet_def)

lemma lookups_read [reads_intro]:
  "reads (config_FindByID e c)" "reads (config_LockByID e c)" "reads (config_List e flt page)"
  "reads (snapshot_FindByID e s)" "reads (snapshot_LockByID e s)" "reads (snapshot_List e sflt page)"
  "reads (FindCurrentForConfig e c)" "reads (FindReleasedForConfig e c)" "reads (FindAnyForConfig e c)"
  "reads (ListReleasedConfigIDs e p)" "reads (findScopedConfig e c)"
  "reads (structure_FindByID e i)" "reads (structure_List e cflt page)" "reads (structure_ListForConfig e c)"
  "reads (enum_FindByID e i)" "reads (enum_List e cflt page)" "reads (enum_ListForConfig e c)"
  "reads (project_LockByID e p)" "reads (configResources_lock K e c)" "reads (lockedPreview K iter e c)"
  unfolding config_FindByID_def config_LockByID_def config_List_def snapshot_FindByID_def snapshot_LockByID_def
    snapshot_List_def FindCurrentForConfig_def FindReleasedForConfig_def FindAnyForConfig_def findForConfig_def
    ListReleasedConfigIDs_def findScopedConfig_def structure_FindByID_def structure_List_def structure_ListForConfig_def
    enum_FindByID_def enum_List_def enum_ListForConfig_def child_FindByID_def child_List_def child_ListForConfig_def
    project_LockByID_def configResources_lock_def lockedPreview_def
  by (intro reads_intro)+

end
