(* ===== verification/Invariant.thy ===== *)
theory Invariant
  imports Transition
begin

text \<open>
  The invariant of the stored data, what is released, and the statements that keep both. \<open>table_ok\<close> is the
  contract of one table: identifiers are positive, distinct and no larger than the last one handed out, and
  no two rows share the table's unique key. \<open>invariant\<close> collects the tables and says that a config has at most
  one released and at most one current snapshot.
\<close>

section \<open>Tables\<close>

definition table_ok :: "('r \<Rightarrow> int) \<Rightarrow> ('r \<Rightarrow> 'k) \<Rightarrow> ('k \<Rightarrow> 'k \<Rightarrow> bool) \<Rightarrow> ('r \<Rightarrow> bool) \<Rightarrow> int \<Rightarrow> 'r list \<Rightarrow> bool" where
  "table_ok ident key same ok n rows \<longleftrightarrow> distinct (map ident rows) \<and> 0 \<le> n \<and>
     (\<forall>r \<in> set rows. 0 < ident r \<and> ident r \<le> n \<and> ok r) \<and>
     (\<forall>r \<in> set rows. \<forall>t \<in> set rows. ident r \<noteq> ident t \<longrightarrow> \<not> same (key r) (key t))"

lemma table_ok_later: "table_ok ident key same ok n rows \<Longrightarrow> n \<le> n' \<Longrightarrow> table_ok ident key same ok n' rows"
  unfolding table_ok_def by (elim conjE, intro conjI ballI) (auto intro: order_trans)

lemma table_ok_insert:
  assumes "table_ok ident key same ok n rows" "ident row = n + 1" "ok row" "\<And>a b. same a b \<Longrightarrow> same b a"
    "\<not> list_ex (\<lambda>r. same (key r) (key row)) rows"
  shows "table_ok ident key same ok (n + 1) (rows @ [row])"
proof -
  have new: "ident r < ident row \<and> \<not> same (key r) (key row) \<and> \<not> same (key row) (key r)" if "r \<in> set rows" for r
  proof -
    from that assms(1,2) have "ident r < ident row" by (auto simp: table_ok_def)
    moreover from that assms(5) have "\<not> same (key r) (key row)" by (auto simp: list_ex_iff)
    ultimately show ?thesis using assms(4) by blast
  qed
  have "distinct (map ident (rows @ [row]))" using assms(1) new by (force simp: table_ok_def)
  moreover have "\<forall>r \<in> set (rows @ [row]). 0 < ident r \<and> ident r \<le> n + 1 \<and> ok r"
    using assms(1-3) by (auto simp: table_ok_def)
  ultimately show ?thesis using assms(1) new by (auto simp: table_ok_def)
qed

lemma update_rows_key:
  "\<forall>r \<in> set rows. cond r \<longrightarrow> g (f r) = g r \<Longrightarrow> map g (update_rows cond f rows) = map g rows"
  by (induction rows) (simp_all add: update_rows_def)

lemma in_update_rows: "r \<in> set (update_rows cond f rows) \<Longrightarrow> \<exists>t \<in> set rows. r = (if cond t then f t else t)"
  by (auto simp: set_update_rows)

lemma table_ok_update:
  assumes "table_ok ident key same ok n rows" "\<And>r. ident (f r) = ident r" "\<And>r. key (f r) = key r" "\<And>r. ok r \<Longrightarrow> cond r \<Longrightarrow> ok (f r)"
  shows "table_ok ident key same ok n (update_rows cond f rows)"
proof -
  have "distinct (map ident (update_rows cond f rows))"
    using assms(1,2) by (simp add: table_ok_def map_update_rows)
  moreover have "\<forall>r \<in> set (update_rows cond f rows). 0 < ident r \<and> ident r \<le> n \<and> ok r"
    using assms(1,2,4) by (simp add: update_rows_ball table_ok_def)
  moreover have "\<forall>r \<in> set (update_rows cond f rows). \<forall>t \<in> set (update_rows cond f rows).
      ident r \<noteq> ident t \<longrightarrow> \<not> same (key r) (key t)"
    using assms(1-3) unfolding update_rows_ball by (simp add: table_ok_def)
  ultimately show ?thesis using assms(1) by (simp add: table_ok_def)
qed

text \<open>An update of the unique key, which the database checks against the other rows.\<close>

lemma table_ok_rename:
  assumes tab: "table_ok ident key same ok n rows" and idf: "\<And>r. ident (f r) = ident r" and okf: "\<And>r. ok r \<Longrightarrow> cond r \<Longrightarrow> ok (f r)"
    and sym: "\<And>a b. same a b \<Longrightarrow> same b a" and one: "\<And>r t. cond r \<Longrightarrow> cond t \<Longrightarrow> ident r = ident t"
    and free: "\<And>r t. r \<in> set rows \<Longrightarrow> t \<in> set rows \<Longrightarrow> cond r \<Longrightarrow> ident t \<noteq> ident r \<Longrightarrow> \<not> same (key t) (key (f r))"
  shows "table_ok ident key same ok n (update_rows cond f rows)"
proof -
  have "distinct (map ident (update_rows cond f rows))"
    using tab idf by (simp add: table_ok_def map_update_rows)
  moreover have "\<forall>r \<in> set (update_rows cond f rows). 0 < ident r \<and> ident r \<le> n \<and> ok r"
    using tab idf okf by (simp add: update_rows_ball table_ok_def)
  moreover have "\<not> same (key r) (key t)"
    if r: "r \<in> set (update_rows cond f rows)" and t: "t \<in> set (update_rows cond f rows)" and ne: "ident r \<noteq> ident t" for r t
  proof -
    from in_update_rows [OF r] obtain r0 where r0: "r0 \<in> set rows" "r = (if cond r0 then f r0 else r0)" by blast
    from in_update_rows [OF t] obtain t0 where t0: "t0 \<in> set rows" "t = (if cond t0 then f t0 else t0)" by blast
    from r0 t0 ne idf have ids: "ident r0 \<noteq> ident t0" by (auto split: if_splits)
    with one have "\<not> (cond r0 \<and> cond t0)" by blast
    then consider "\<not> cond r0" "\<not> cond t0" | "cond r0" "\<not> cond t0" | "\<not> cond r0" "cond t0" by blast
    then show ?thesis
    proof cases
      case 1
      with r0 t0 ids tab show ?thesis by (simp add: table_ok_def)
    next
      case 2
      with r0(2) t0(2) free [OF r0(1) t0(1) 2(1) ids [symmetric]] sym show ?thesis by auto
    next
      case 3
      with r0(2) t0(2) free [OF t0(1) r0(1) 3(2) ids] show ?thesis by simp
    qed
  qed
  ultimately show ?thesis using tab by (simp add: table_ok_def)
qed

section \<open>Snapshots of a config\<close>

definition live_released :: "snapshot_row \<Rightarrow> bool" where
  "live_released s \<longleftrightarrow> DeletedAt s = None \<and> s_Status s = SnapshotStatusReleased"

definition live_current :: "snapshot_row \<Rightarrow> bool" where
  "live_current s \<longleftrightarrow> DeletedAt s = None \<and> s_IsUsing s"

definition owner :: "snapshot_row \<Rightarrow> int \<times> int" where
  "owner s = (s_ProjectID s, s_ConfigID s)"

definition one_per_config :: "(snapshot_row \<Rightarrow> bool) \<Rightarrow> snapshot_row list \<Rightarrow> bool" where
  "one_per_config sel rows \<longleftrightarrow>
     (\<forall>s \<in> set rows. \<forall>t \<in> set rows. sel s \<longrightarrow> sel t \<longrightarrow> owner s = owner t \<longrightarrow> ID s = ID t)"

text \<open>What is released, by project and config: the snapshot and its content.\<close>

definition release_entry :: "snapshot_row \<Rightarrow> ((int \<times> int) \<times> (int \<times> string)) option" where
  "release_entry s = (if live_released s then Some (owner s, (ID s, s_Content s)) else None)"

definition release_map :: "db \<Rightarrow> int \<times> int \<Rightarrow> (int \<times> string) option" where
  "release_map d = map_of (List.map_filter release_entry (snapshots d))"

lemma one_per_config_update:
  assumes "one_per_config sel rows" "\<And>r. ID (f r) = ID r" "\<And>r. owner (f r) = owner r" "\<And>r. cond r \<Longrightarrow> sel (f r) \<Longrightarrow> sel r"
  shows "one_per_config sel (update_rows cond f rows)"
  unfolding one_per_config_def
proof (intro ballI impI)
  fix s t
  assume s: "s \<in> set (update_rows cond f rows)" "sel s" and t: "t \<in> set (update_rows cond f rows)" "sel t" and own: "owner s = owner t"
  have origin: "\<exists>x0 \<in> set rows. sel x0 \<and> ID x = ID x0 \<and> owner x = owner x0" if "x \<in> set (update_rows cond f rows)" "sel x" for x
    using in_update_rows [OF that(1)] that(2) assms(2-4) by (auto split: if_splits)
  from origin [OF s] obtain s0 where s0: "s0 \<in> set rows" "sel s0" "ID s = ID s0" "owner s = owner s0" by blast
  from origin [OF t] obtain t0 where t0: "t0 \<in> set rows" "sel t0" "ID t = ID t0" "owner t = owner t0" by blast
  from own s0(4) t0(4) have "owner s0 = owner t0" by (rule box_equals)
  from assms(1) [unfolded one_per_config_def, rule_format, OF s0(1) t0(1) s0(2) t0(2) this] s0(3) t0(3)
  show "ID s = ID t" by (simp only:)
qed

lemma one_per_config_insert: "one_per_config sel rows \<Longrightarrow> \<not> sel row \<Longrightarrow> one_per_config sel (rows @ [row])"
proof -
  assume one: "one_per_config sel rows" and "\<not> sel row"
  then have old: "x \<in> set rows" if "x \<in> set (rows @ [row])" "sel x" for x using that by auto
  show ?thesis
    unfolding one_per_config_def by (intro ballI impI one [unfolded one_per_config_def, rule_format] old) assumption+
qed

lemma released_list_update:
  "(\<And>r. cond r \<Longrightarrow> release_entry (f r) = release_entry r) \<Longrightarrow>
   List.map_filter release_entry (update_rows cond f rows) = List.map_filter release_entry rows"
  by (induction rows) (simp_all add: update_rows_def map_filter_simps split: option.split)

lemma released_list_insert:
  "release_entry row = None \<Longrightarrow> List.map_filter release_entry (rows @ [row]) = List.map_filter release_entry rows"
  by (simp add: map_filter_def)

section \<open>The invariant\<close>

definition config_ok :: "config_row \<Rightarrow> bool" where
  "config_ok c \<longleftrightarrow> 0 \<le> c_RuntimeVersion c \<and> c_RuntimeVersion c \<le> MaxInt64_value"

definition snapshot_ok :: "snapshot_row \<Rightarrow> bool" where
  "snapshot_ok s \<longleftrightarrow> s_Status s = SnapshotStatusUnreleased \<or> s_Status s = SnapshotStatusReleased"

abbreviation same_key :: "engine \<Rightarrow> int \<times> string \<Rightarrow> int \<times> string \<Rightarrow> bool" where
  "same_key E \<equiv> (\<lambda>(p, a) (q, b). p = q \<and> same_text E a b)"

abbreviation config_key :: "config_row \<Rightarrow> int \<times> string" where
  "config_key c \<equiv> (c_ProjectID c, c_Key c)"

abbreviation child_key :: "child_row \<Rightarrow> int \<times> string" where
  "child_key r \<equiv> (d_ConfigID r, d_Key r)"

abbreviation claim_key :: "import_row \<Rightarrow> int \<times> int \<times> string" where
  "claim_key r \<equiv> (i_UserID r, i_TargetEnvironmentID r, i_IdempotencyKey r)"

definition tables_ok :: "engine \<Rightarrow> (table_name \<Rightarrow> int) \<Rightarrow> db \<Rightarrow> bool" where
  "tables_ok E ids d \<longleftrightarrow>
     table_ok ID config_key (same_key E) config_ok (ids ConfigsTable) (configs d) \<and>
     table_ok ID child_key (same_key E) (\<lambda>_. True) (ids StructuresTable) (structure_rows d) \<and>
     table_ok ID child_key (same_key E) (\<lambda>_. True) (ids EnumsTable) (enum_rows d) \<and>
     table_ok ID (\<lambda>_. ()) (\<lambda>_ _. False) snapshot_ok (ids SnapshotsTable) (snapshots d) \<and>
     table_ok r_ID k_PublicID (=) (\<lambda>_. True) (ids APIKeysTable) (api_keys d) \<and>
     table_ok r_ID t_TokenHash (=) (\<lambda>_. True) (ids RefreshTokensTable) (refresh_tokens d) \<and>
     table_ok i_ID claim_key (=) (\<lambda>_. True) (ids ImportRecordsTable) (import_records d)"

definition invariant :: "engine \<Rightarrow> world \<Rightarrow> bool" where
  "invariant E w \<longleftrightarrow> tables_ok E (last_id w) (database w) \<and>
     one_per_config live_released (snapshots (database w)) \<and> one_per_config live_current (snapshots (database w))"

text \<open>Equality of text in a collation is symmetric.\<close>

definition collation :: "engine \<Rightarrow> bool" where
  "collation E \<longleftrightarrow> (\<forall>a b. same_text E a b \<longrightarrow> same_text E b a)"

text \<open>A change that keeps the invariant and everything that is released.\<close>

definition draft :: "engine \<Rightarrow> world \<Rightarrow> world \<Rightarrow> bool" where
  "draft E w w' \<longleftrightarrow> (collation E \<longrightarrow> invariant E w \<longrightarrow>
     invariant E w' \<and> (\<forall>t. last_id w t \<le> last_id w' t) \<and> release_map (database w') = release_map (database w))"

lemma tables_ok_later: "tables_ok E ids d \<Longrightarrow> (\<And>t. ids t \<le> ids' t) \<Longrightarrow> tables_ok E ids' d"
  unfolding tables_ok_def by (elim conjE, intro conjI; erule table_ok_later; simp)

interpretation dft: transition draft
proof
  fix E w w' w''
  show "database w' = database w \<Longrightarrow> last_id w' = last_id w \<Longrightarrow> draft E w w'" and "quiet w w' \<Longrightarrow> draft E w w'"
    by (simp_all add: draft_def invariant_def quiet_def)
  show "draft E w w' \<Longrightarrow> draft E w' w'' \<Longrightarrow> draft E w w''"
    unfolding draft_def by (intro impI conjI allI) (auto intro: order_trans)
  show "draft E w w' \<Longrightarrow> draft E w (w'\<lparr>database := database w\<rparr>)"
    unfolding draft_def invariant_def using tables_ok_later [of E "last_id w" "database w" "last_id w'"] by simp
qed

lemma draftI:
  assumes "\<And>t. last_id w t \<le> last_id w' t"
    and "collation E \<Longrightarrow> tables_ok E (last_id w) (database w) \<Longrightarrow> tables_ok E (last_id w') (database w')"
    and "one_per_config live_released (snapshots (database w)) \<Longrightarrow> one_per_config live_released (snapshots (database w'))"
    and "one_per_config live_current (snapshots (database w)) \<Longrightarrow> one_per_config live_current (snapshots (database w'))"
    and "List.map_filter release_entry (snapshots (database w')) = List.map_filter release_entry (snapshots (database w))"
  shows "draft E w w'"
  using assms by (auto simp: draft_def invariant_def release_map_def)

end
