(* ===== verification/Statements.thy ===== *)
theory Statements
  imports Invariant
begin

text \<open>
  Every statement of the repositories outside publication keeps the invariant and what is released, and so
  does every repository operation built from them.
\<close>

named_theorems draft_intro "operations that keep the invariant and the released content"

section \<open>Updates\<close>

lemma draft_execM:
  "(\<And>E w r d'. q E (database w) = (r, d') \<Longrightarrow> draft E w (w\<lparr>database := d', tick := Suc (tick w)\<rparr>)) \<Longrightarrow> obeys draft (execM q)"
  by (rule obeysI) (auto simp: execM_def intro: dft.same split: option.splits prod.splits)

lemma draft_tables:
  "(\<And>ids. collation E \<Longrightarrow> tables_ok E ids (database w) \<Longrightarrow> tables_ok E ids d') \<Longrightarrow>
   snapshots d' = snapshots (database w) \<Longrightarrow> draft E w (w\<lparr>database := d', tick := Suc (tick w)\<rparr>)"
  by (rule draftI) simp_all

lemma draft_updateConfigs:
  assumes "\<And>r. ID (f r) = ID r" "\<And>r. config_key (f r) = config_key r" "\<And>r. config_ok r \<Longrightarrow> cond r \<Longrightarrow> config_ok (f r)"
  shows "obeys draft (updateConfigs cond f)"
  unfolding updateConfigs_def updateM_def
  by (rule draft_execM, clarsimp, rule draft_tables) (simp_all add: tables_ok_def table_ok_update [where ident = ID and key = config_key and ok = config_ok and f = f and cond = cond, OF _ assms])

lemma draft_updateChildren:
  assumes "T = structures_table \<or> T = enums_table" "\<And>r. ID (f r) = ID r" "\<And>r. child_key (f r) = child_key r"
  shows "obeys draft (updateM (ct_rows T) (ct_update T) cond f)"
  unfolding updateM_def
  by (rule draft_execM, clarsimp, rule draft_tables)
    (use assms(1) in \<open>auto simp: tables_ok_def structures_table_def enums_table_def 
      table_ok_update [where ident = ID and key = child_key and ok = "\<lambda>_. True" and f = f, OF _ assms(2,3) TrueI]\<close>)

lemmas draft_updateTable =
  draft_updateChildren [of structures_table, simplified structures_table_def child_table.simps, simplified]
  draft_updateChildren [of enums_table, simplified enums_table_def child_table.simps, simplified]

lemma collation_same_key: "collation E \<Longrightarrow> same_key E a b \<Longrightarrow> same_key E b a"
  by (auto simp: collation_def split: prod.splits)

lemma draft_updateChild:
  assumes T: "T = structures_table \<or> T = enums_table" and f: "\<And>r. ID (f r) = ID r" and one: "\<And>r t. cond r \<Longrightarrow> cond t \<Longrightarrow> ID r = ID t"
  shows "obeys draft (updateChild T cond f)"
  unfolding updateChild_def
proof (rule draft_execM, rule draft_tables)
  fix E w r d' ids
  let ?clash = "list_ex (\<lambda>r. cond r \<and> list_ex (\<lambda>o'. ID o' \<noteq> ID r \<and> child_clash E o' (f r)) (ct_rows T (database w))) (ct_rows T (database w))"
  assume run: "(if ?clash then (Inl DuplicateKeyError, database w)
      else (Inr (matching cond (ct_rows T (database w))), ct_update T (update_rows cond f) (database w))) = (r, d')"
  then show "snapshots d' = snapshots (database w)"
    using T by (auto simp: structures_table_def enums_table_def split: if_splits)
  assume col: "collation E" and tab: "tables_ok E ids (database w)"
  show "tables_ok E ids d'"
  proof (cases ?clash)
    case True
    with run tab show ?thesis by simp
  next
    case False
    have free: "\<not> same_key E (child_key t) (child_key (f r))"
      if "r \<in> set (ct_rows T (database w))" "t \<in> set (ct_rows T (database w))" "cond r" "ID t \<noteq> ID r" for r t
      using False that unfolding child_clash_def list_ex_iff by auto
    have "table_ok ID child_key (same_key E) (\<lambda>_. True) n (update_rows cond f (ct_rows T (database w)))"
      if "table_ok ID child_key (same_key E) (\<lambda>_. True) n (ct_rows T (database w))" for n
      by (rule table_ok_rename [OF that f TrueI collation_same_key [OF col] one free])
    with False run T tab show ?thesis
      by (auto simp: tables_ok_def structures_table_def enums_table_def)
  qed
qed

lemma draft_updateSnapshots:
  assumes "\<And>r. ID (f r) = ID r" "\<And>r. owner (f r) = owner r" "\<And>r. s_Status (f r) = s_Status r"
    "\<And>r. cond r \<Longrightarrow> release_entry (f r) = release_entry r" "\<And>r. cond r \<Longrightarrow> live_current (f r) \<Longrightarrow> live_current r"
  shows "obeys draft (updateSnapshots cond f)"
  unfolding updateSnapshots_def updateM_def
proof (rule draft_execM, clarsimp, rule draftI)
  fix E w
  let ?w = "w\<lparr>database := snapshots_update (update_rows cond f) (database w), tick := Suc (tick w)\<rparr>"
  have ok: "snapshot_ok (f s) = snapshot_ok s" for s using assms(3) by (simp add: snapshot_ok_def)
  have rel: "live_released (f s) \<Longrightarrow> live_released s" if "cond s" for s
    using assms(4) [OF that] by (auto simp: release_entry_def split: if_splits)
  show "last_id w t \<le> last_id ?w t" for t by simp
  show "tables_ok E (last_id w) (database w) \<Longrightarrow> tables_ok E (last_id ?w) (database ?w)"
    by (auto simp: tables_ok_def ok assms(1) intro: table_ok_update)
  show "one_per_config live_released (snapshots (database w)) \<Longrightarrow> one_per_config live_released (snapshots (database ?w))"
    by (simp add: one_per_config_update assms(1,2) rel)
  show "one_per_config live_current (snapshots (database w)) \<Longrightarrow> one_per_config live_current (snapshots (database ?w))"
    by (simp add: one_per_config_update assms(1,2,5))
  show "List.map_filter release_entry (snapshots (database ?w)) = List.map_filter release_entry (snapshots (database w))"
    by (simp add: released_list_update assms(4))
qed

section \<open>Insertions\<close>

lemma draft_insertM:
  assumes "\<And>E w. \<not> list_ex (\<lambda>x. clash E x row) (sel (database w)) \<Longrightarrow>
    draft E w (w\<lparr>database := upd (\<lambda>rows. rows @ [setID (last_id w t + 1) row]) (database w),
      last_id := (last_id w)(t := last_id w t + 1), tick := Suc (tick w)\<rparr>)"
  shows "obeys draft (insertM t sel upd clash setID row)"
proof (rule obeysI)
  fix E w r w'
  assume run: "insertM t sel upd clash setID row E w = (r, w')"
  show "draft E w w'"
  proof (cases r)
    case (Inl e)
    with insertM_Inl [of t sel upd clash setID row E w e w'] run
    have w': "w' = w\<lparr>last_id := (last_id w)(t := last_id w t + 1), tick := Suc (tick w)\<rparr>" by simp
    show ?thesis unfolding w' by (rule draftI) (auto intro: tables_ok_later)
  next
    case (Inr x)
    with run assms [of E w] show ?thesis by (auto simp: insertM_Inr)
  qed
qed

lemma tables_ok_insert:
  assumes "tables_ok E ids d" "collation E"
  shows "config_ok c \<Longrightarrow> \<not> list_ex (\<lambda>r. c_ProjectID r = c_ProjectID c \<and> same_text E (c_Key r) (c_Key c)) (configs d) \<Longrightarrow>
      tables_ok E (ids(ConfigsTable := ids ConfigsTable + 1)) (configs_update (\<lambda>rows. rows @ [c\<lparr>ID := ids ConfigsTable + 1\<rparr>]) d)"
    and "\<not> list_ex (\<lambda>r. child_clash E r s) (structure_rows d) \<Longrightarrow>
      tables_ok E (ids(StructuresTable := ids StructuresTable + 1)) (structure_rows_update (\<lambda>rows. rows @ [s\<lparr>ID := ids StructuresTable + 1\<rparr>]) d)"
    and "\<not> list_ex (\<lambda>r. child_clash E r s) (enum_rows d) \<Longrightarrow>
      tables_ok E (ids(EnumsTable := ids EnumsTable + 1)) (enum_rows_update (\<lambda>rows. rows @ [s\<lparr>ID := ids EnumsTable + 1\<rparr>]) d)"
    and "snapshot_ok x \<Longrightarrow>
      tables_ok E (ids(SnapshotsTable := ids SnapshotsTable + 1)) (snapshots_update (\<lambda>rows. rows @ [x\<lparr>ID := ids SnapshotsTable + 1\<rparr>]) d)"
    and "\<not> list_ex (\<lambda>r. k_PublicID r = k_PublicID k) (api_keys d) \<Longrightarrow>
      tables_ok E (ids(APIKeysTable := ids APIKeysTable + 1)) (api_keys_update (\<lambda>rows. rows @ [k\<lparr>r_ID := ids APIKeysTable + 1\<rparr>]) d)"
    and "\<not> list_ex (\<lambda>r. t_TokenHash r = t_TokenHash t) (refresh_tokens d) \<Longrightarrow>
      tables_ok E (ids(RefreshTokensTable := ids RefreshTokensTable + 1))
        (refresh_tokens_update (\<lambda>rows. rows @ [t\<lparr>r_ID := ids RefreshTokensTable + 1\<rparr>]) d)"
    and "\<not> list_ex (\<lambda>r. same_claim r i) (import_records d) \<Longrightarrow>
      tables_ok E (ids(ImportRecordsTable := ids ImportRecordsTable + 1))
        (import_records_update (\<lambda>rows. rows @ [i\<lparr>i_ID := ids ImportRecordsTable + 1\<rparr>]) d)"
    and "tables_ok E (ids(AuditLogsTable := ids AuditLogsTable + 1)) (audit_logs_update F d)"
proof goal_cases
  case 1
  with assms(1) table_ok_insert [where row = "c\<lparr>ID := ids ConfigsTable + 1\<rparr>" and ident = ID and key = config_key and same = "same_key E"
      and ok = "config_ok", OF _ _ _ collation_same_key [OF assms(2)]] show ?case by (simp add: tables_ok_def config_ok_def)
next
  case 2
  with assms(1) table_ok_insert [where row = "s\<lparr>ID := ids StructuresTable + 1\<rparr>" and ident = ID and key = child_key and same = "same_key E"
      and ok = "\<lambda>_. True", OF _ _ _ collation_same_key [OF assms(2)]] show ?case by (simp add: tables_ok_def child_clash_def)
next
  case 3
  with assms(1) table_ok_insert [where row = "s\<lparr>ID := ids EnumsTable + 1\<rparr>" and ident = ID and key = child_key and same = "same_key E"
      and ok = "\<lambda>_. True", OF _ _ _ collation_same_key [OF assms(2)]] show ?case by (simp add: tables_ok_def child_clash_def)
next
  case 4
  with assms(1) table_ok_insert [where row = "x\<lparr>ID := ids SnapshotsTable + 1\<rparr>" and ident = ID and key = "\<lambda>_. ()" and same = "\<lambda>_ _. False"
      and ok = "snapshot_ok", OF _ _ _ FalseE] show ?case by (simp add: tables_ok_def snapshot_ok_def list_ex_iff)
next
  case 5
  with assms(1) table_ok_insert [where row = "k\<lparr>r_ID := ids APIKeysTable + 1\<rparr>" and ident = r_ID and key = k_PublicID and same = "(=)"
      and ok = "\<lambda>_. True", OF _ _ _ HOL.sym] show ?case by (simp add: tables_ok_def)
next
  case 6
  with assms(1) table_ok_insert [where row = "t\<lparr>r_ID := ids RefreshTokensTable + 1\<rparr>" and ident = r_ID and key = t_TokenHash and same = "(=)"
      and ok = "\<lambda>_. True", OF _ _ _ HOL.sym] show ?case by (simp add: tables_ok_def)
next
  case 7
  with assms(1) table_ok_insert [where row = "i\<lparr>i_ID := ids ImportRecordsTable + 1\<rparr>" and ident = i_ID and key = claim_key and same = "(=)"
      and ok = "\<lambda>_. True", OF _ _ _ HOL.sym] show ?case by (simp add: tables_ok_def same_claim_def)
next
  case 8
  with assms(1) show ?case by (simp add: tables_ok_def)
qed

lemma draft_grow:
  "(\<And>E ids d. collation E \<Longrightarrow> tables_ok E ids d \<Longrightarrow> \<not> list_ex (\<lambda>x. clash E x row) (sel d) \<Longrightarrow>
      tables_ok E (ids(t := ids t + 1)) (upd (\<lambda>rows. rows @ [setID (ids t + 1) row]) d)) \<Longrightarrow>
   (\<And>F d. snapshots (upd F d) = snapshots d) \<Longrightarrow> obeys draft (insertM t sel upd clash setID row)"
  by (rule draft_insertM, rule draftI) auto

lemma draft_insertions [draft_intro]:
  "obeys draft (insertAudit log)" "obeys draft (insertAPIKey k)" "obeys draft (insertRefreshToken tok)" "obeys draft (insertImport i)"
  "config_ok c \<Longrightarrow> obeys draft (insertConfig c)"
  "T = structures_table \<or> T = enums_table \<Longrightarrow> obeys draft (insertChild T item)"
  unfolding insertAudit_def insertAPIKey_def insertRefreshToken_def insertImport_def insertConfig_def insertChild_def
       apply (rule draft_grow; simp add: tables_ok_insert)
      apply (rule draft_grow; simp add: tables_ok_insert)
     apply (rule draft_grow; simp add: tables_ok_insert)
    apply (rule draft_grow; simp add: tables_ok_insert)
   apply (rule draft_grow; simp add: tables_ok_insert)
  apply (erule disjE; rule draft_grow; simp add: tables_ok_insert structures_table_def enums_table_def)
  done

lemma draft_insertSnapshot:
  assumes "s_Status row = SnapshotStatusUnreleased" "\<not> s_IsUsing row"
  shows "obeys draft (insertSnapshot row)"
  unfolding insertSnapshot_def
proof (rule draft_insertM, rule draftI)
  fix E w
  let ?w = "w\<lparr>database := snapshots_update (\<lambda>rows. rows @ [row\<lparr>ID := last_id w SnapshotsTable + 1\<rparr>]) (database w),
      last_id := (last_id w)(SnapshotsTable := last_id w SnapshotsTable + 1), tick := Suc (tick w)\<rparr>"
  have ok: "snapshot_ok row" using assms by (simp add: snapshot_ok_def)
  show "last_id w t \<le> last_id ?w t" for t by simp
  show "collation E \<Longrightarrow> tables_ok E (last_id w) (database w) \<Longrightarrow> tables_ok E (last_id ?w) (database ?w)"
    by (simp add: tables_ok_insert ok)
  show "one_per_config live_released (snapshots (database w)) \<Longrightarrow> one_per_config live_released (snapshots (database ?w))"
    using assms by (simp add: one_per_config_insert live_released_def)
  show "one_per_config live_current (snapshots (database w)) \<Longrightarrow> one_per_config live_current (snapshots (database ?w))"
    using assms by (simp add: one_per_config_insert live_current_def)
  show "List.map_filter release_entry (snapshots (database ?w)) = List.map_filter release_entry (snapshots (database w))"
    using assms by (simp add: released_list_insert release_entry_def live_released_def)
qed

section \<open>Other tables\<close>

lemma draft_updateRecords:
  "(\<And>k. r_ID (f k) = r_ID k) \<Longrightarrow> (\<And>k. k_PublicID (f k) = k_PublicID k) \<Longrightarrow>
   draft E w (w\<lparr>database := api_keys_update (update_rows cond f) (database w), tick := Suc (tick w)\<rparr>)"
  "(\<And>t. r_ID (g t) = r_ID t) \<Longrightarrow> (\<And>t. t_TokenHash (g t) = t_TokenHash t) \<Longrightarrow>
   draft E w (w\<lparr>database := refresh_tokens_update (update_rows cond' g) (database w), tick := Suc (tick w)\<rparr>)"
  "(\<And>i. i_ID (h i) = i_ID i) \<Longrightarrow> (\<And>i. claim_key (h i) = claim_key i) \<Longrightarrow>
   draft E w (w\<lparr>database := import_records_update (update_rows cond'' h) (database w), tick := Suc (tick w)\<rparr>)"
  "draft E w (w\<lparr>database := users_update F (database w), tick := Suc (tick w)\<rparr>)"
  by (rule draft_tables; simp add: tables_ok_def table_ok_update)+

lemma draft_updateRows [draft_intro]:
  "(\<And>k. r_ID (f k) = r_ID k) \<Longrightarrow> (\<And>k. k_PublicID (f k) = k_PublicID k) \<Longrightarrow> obeys draft (updateM api_keys api_keys_update cond f)"
  "(\<And>t. r_ID (g t) = r_ID t) \<Longrightarrow> (\<And>t. t_TokenHash (g t) = t_TokenHash t) \<Longrightarrow> obeys draft (updateM refresh_tokens refresh_tokens_update cond' g)"
  "(\<And>i. i_ID (h i) = i_ID i) \<Longrightarrow> (\<And>i. claim_key (h i) = claim_key i) \<Longrightarrow>
     obeys draft (updateM import_records import_records_update cond'' h)"
  "obeys draft (updateM users users_update cond3 u)"
  unfolding updateM_def by (rule draft_execM, clarsimp simp: draft_updateRecords)+

text \<open>A new public identifier must be free.\<close>

lemma draft_apiKey_Rotate [draft_intro]: "obeys draft (apiKey_Rotate m replacement)"
proof -
  let ?f = "\<lambda>k. k\<lparr>k_PublicID := k_PublicID replacement, k_SecretHash := k_SecretHash replacement,
      k_SecretSuffix := k_SecretSuffix replacement, k_LastUsedAt := None, r_UpdatedAt := r_UpdatedAt replacement\<rparr>"
  let ?taken = "\<lambda>d. list_ex (mutation_scope m d) (api_keys d) \<and>
      list_ex (\<lambda>k. r_ID k \<noteq> Mutation_KeyID m \<and> k_PublicID k = k_PublicID replacement) (api_keys d)"
  have rename: "tables_ok E ids (api_keys_update (update_rows (mutation_scope m d) ?f) d)" if "tables_ok E ids d" "\<not> ?taken d" for E ids d
  proof -
    have "table_ok r_ID k_PublicID (=) (\<lambda>_. True) n (update_rows (mutation_scope m d) ?f (api_keys d))"
      if "table_ok r_ID k_PublicID (=) (\<lambda>_. True) n (api_keys d)" for n
      by (rule table_ok_rename [OF that])
        (use \<open>\<not> ?taken d\<close> in \<open>auto simp: mutation_scope_def list_ex_iff\<close>)
    with that(1) show ?thesis by (simp add: tables_ok_def)
  qed
  show ?thesis
    unfolding apiKey_Rotate_def
    by (intro dft.combine draft_execM) (auto intro!: draft_tables rename intro: dft.same split: if_splits)
qed

lemma draft_records [draft_intro]:
  "obeys draft (apiKey_Revoke m now)" "obeys draft (MarkUsed publicID now)" "obeys draft (revokeSession user session now)"
  "obeys draft (UpdatePasswordHash userID old new)" "obeys draft (Complete i s json)" "obeys draft (consumeToken i j now)"
  unfolding apiKey_Revoke_def MarkUsed_def revokeSession_def UpdatePasswordHash_def Complete_def Let_def revoke_session_rows_def
    consumeToken_def
  by (intro dft.combine draft_updateRows draft_execM; clarsimp simp: draft_updateRecords)+

lemma draft_insertPostgresClaim [draft_intro]: "obeys draft (insertPostgresClaim i)"
proof (rule obeysI)
  fix E w r w'
  assume run: "insertPostgresClaim i E w = (r, w')"
  let ?ids = "(last_id w)(ImportRecordsTable := last_id w ImportRecordsTable + 1)"
  from run have "database w' = database w \<and> last_id w' = ?ids \<or>
      \<not> list_ex (\<lambda>r. same_claim r i) (import_records (database w)) \<and> last_id w' = ?ids \<and>
      database w' = import_records_update (\<lambda>rows. rows @ [i\<lparr>i_ID := last_id w ImportRecordsTable + 1\<rparr>]) (database w)"
    by (auto simp: insertPostgresClaim_def bindM_def fresh_id_def execM_def split: option.splits if_splits)
  then show "draft E w w'"
  proof
    assume "database w' = database w \<and> last_id w' = ?ids"
    then show ?thesis by (intro draftI) (auto intro: tables_ok_later)
  next
    assume "\<not> list_ex (\<lambda>r. same_claim r i) (import_records (database w)) \<and> last_id w' = ?ids \<and>
      database w' = import_records_update (\<lambda>rows. rows @ [i\<lparr>i_ID := last_id w ImportRecordsTable + 1\<rparr>]) (database w)"
    then show ?thesis by (intro draftI) (simp_all add: tables_ok_insert)
  qed
qed

section \<open>Repository operations\<close>

lemma draft_prepare [draft_intro]:
  "obeys draft (PrepareInsert m)" "obeys draft (RecordPrepareInsert rm)" "obeys draft (WorkflowPrepareInsert im)"
  unfolding PrepareInsert_def RecordPrepareInsert_def WorkflowPrepareInsert_def insertTimes_def by (intro dft.combine)+

lemma draft_RecordForEnvironment [draft_intro]: "obeys draft (RecordForEnvironment e log)"
  unfolding RecordForEnvironment_def by (intro dft.combine draft_intro)

lemmas draft_lookups [draft_intro] = lookups_read [THEN dft.reading]

lemma draft_config_Update [draft_intro]: "obeys draft (config_Update e c u)"
  unfolding config_Update_def
  by (intro dft.combine draft_intro draft_updateConfigs) (simp_all add: config_ok_def)

lemma draft_config_UpdateValue [draft_intro]: "obeys draft (config_UpdateValue e c v)"
  unfolding config_UpdateValue_def
  by (intro dft.combine draft_intro draft_updateConfigs) (simp_all add: config_ok_def)

lemma draft_config_Delete [draft_intro]: "obeys draft (config_Delete e c u)"
  unfolding config_Delete_def
  by (intro dft.combine draft_intro draft_updateConfigs) (simp_all add: config_ok_def)

lemma PrepareInsert_Inr: "PrepareInsert m E w = (Inr m', w') \<Longrightarrow> \<exists>c u. m' = m\<lparr>CreatedAt := c, UpdatedAt := u, Version := 1\<rparr> \<and> quiet w w'"
  by (auto simp: PrepareInsert_def insertTimes_def run_simps)

text \<open>An insert of a prepared row: a fact of the row that the insert hook does not change.\<close>

lemma draft_prepared:
  assumes "\<And>c u. obeys draft (f (m\<lparr>CreatedAt := c, UpdatedAt := u, Version := 1\<rparr>))"
  shows "obeys draft (bindM (PrepareInsert m) f)"
proof (rule obeysI)
  fix E w r w'
  assume "bindM (PrepareInsert m) f E w = (r, w')"
  then show "draft E w w'"
  proof (cases rule: bindM_elim)
    case (fails e)
    then show ?thesis by (auto intro: obeysD [OF draft_prepare(1)])
  next
    case (continues m' w1)
    from PrepareInsert_Inr [OF continues(1)] obtain c u where "m' = m\<lparr>CreatedAt := c, UpdatedAt := u, Version := 1\<rparr>" by blast
    with continues obeysD [OF assms] obeysD [OF draft_prepare(1)] show ?thesis by (blast intro: dft.trans)
  qed
qed

lemma draft_config_Create [draft_intro]:
  assumes "config_ok c"
  shows "obeys draft (config_Create e p c)"
proof -
  have children: "obeys draft (resetConfigChildren i u)" for i u
    unfolding resetConfigChildren_def Let_def by (intro dft.combine draft_updateTable) simp_all
  have restore: "obeys draft (config_restore old c)" for old
    unfolding config_restore_def
    by (intro dft.combine children draft_updateConfigs) (use assms in \<open>simp_all add: config_ok_def\<close>)
  show ?thesis
    unfolding config_Create_def lockConfigByKey_def
    by (intro dft.combine draft_prepared restore draft_intro) (use assms in \<open>simp add: config_ok_def\<close>)
qed

lemma draft_snapshot_Create [draft_intro]: "obeys draft (snapshot_Create e p c s)"
  unfolding snapshot_Create_def by (rule draft_prepared, rule draft_insertSnapshot) simp_all

lemma draft_snapshot_Delete [draft_intro]: "obeys draft (snapshot_Delete e s u)"
  unfolding snapshot_Delete_def
  by (intro dft.combine draft_intro draft_updateSnapshots)
    (simp_all add: owner_def release_entry_def live_released_def live_current_def)

text \<open>Structures and enums, over the table they differ in.\<close>

lemma draft_children:
  assumes "T = structures_table \<or> T = enums_table"
  shows "obeys draft (child_Create T e c item)" "obeys draft (child_Update T e i u)" "obeys draft (child_Delete T e i by_user)"
    "obeys draft (child_Reconcile T e c items by_user)"
proof -
  note stmt = draft_updateChildren [OF assms] draft_insertions(6) [OF assms] draft_updateChild [OF assms]
  have restore: "obeys draft (child_restore T old item)" for old item
    unfolding child_restore_def by (intro dft.combine stmt) simp_all
  show "obeys draft (child_Create T e c item)"
    unfolding child_Create_def Let_def by (intro dft.combine restore draft_intro stmt)
  show "obeys draft (child_Update T e i u)"
    unfolding child_Update_def child_FindByID_def by (intro dft.combine stmt) simp_all
  show "obeys draft (child_Delete T e i by_user)"
    unfolding child_Delete_def child_FindByID_def by (intro dft.combine stmt) simp_all
  have item: "obeys draft (reconcileItem T cur x)" for cur x
    unfolding reconcileItem_def by (intro dft.combine stmt draft_intro) simp_all
  have obsolete: "obeys draft (removeObsoleteItem T cur by_user)" for cur
    unfolding removeObsoleteItem_def by (intro dft.combine stmt) simp_all
  show "obeys draft (child_Reconcile T e c items by_user)"
    unfolding child_Reconcile_def removeObsolete_def Let_def by (intro dft.combine item obsolete)
qed

lemmas draft_structures [draft_intro] =
  draft_children [of structures_table, simplified, folded structure_Create_def structure_Update_def structure_Delete_def structure_Reconcile_def]
lemmas draft_enums [draft_intro] =
  draft_children [of enums_table, simplified, folded enum_Create_def enum_Update_def enum_Delete_def enum_Reconcile_def]

text \<open>
  \<^verbatim>\<open>SetCurrent\<close> first clears the flag on the other snapshots of the config: only then is the second update allowed.
\<close>

lemma one_current_set:
  assumes "\<And>r. r \<in> set rows \<Longrightarrow> live_current r \<Longrightarrow> owner r = (p, c) \<Longrightarrow> ID r = i"
    "one_per_config live_current rows" "\<And>r. ID (f r) = ID r" "\<And>r. owner (f r) = owner r"
    "\<And>r. cond r \<Longrightarrow> ID r = i \<and> owner r = (p, c)"
  shows "one_per_config live_current (update_rows cond f rows)"
  unfolding one_per_config_def
proof (intro ballI impI)
  fix s t
  assume s: "s \<in> set (update_rows cond f rows)" "live_current s" and t: "t \<in> set (update_rows cond f rows)" "live_current t"
    and own: "owner s = owner t"
  have origin: "\<exists>x0 \<in> set rows. ID x = ID x0 \<and> owner x = owner x0 \<and> (live_current x0 \<or> ID x0 = i \<and> owner x0 = (p, c))"
    if "x \<in> set (update_rows cond f rows)" "live_current x" for x
    using in_update_rows [OF that(1)] that(2) assms(3-5) by (auto split: if_splits)
  from origin [OF s] obtain s0 where s0: "s0 \<in> set rows" "ID s = ID s0" "owner s = owner s0"
    "live_current s0 \<or> ID s0 = i \<and> owner s0 = (p, c)" by blast
  from origin [OF t] obtain t0 where t0: "t0 \<in> set rows" "ID t = ID t0" "owner t = owner t0"
    "live_current t0 \<or> ID t0 = i \<and> owner t0 = (p, c)" by blast
  from own s0(3) t0(3) have own0: "owner s0 = owner t0" by (rule box_equals)
  have "ID s0 = ID t0"
  proof (cases "owner s0 = (p, c)")
    case True
    with own0 s0(1,4) t0(1,4) assms(1) have "ID s0 = i" "ID t0 = i" by metis+
    then show ?thesis by (simp only:)
  next
    case False
    with s0(4) t0(4) own0 have "live_current s0" "live_current t0" by auto
    with assms(2) [unfolded one_per_config_def, rule_format, OF s0(1) t0(1)] own0 show ?thesis by blast
  qed
  with s0(2) t0(2) show "ID s = ID t" by (simp only:)
qed

lemma draft_SetCurrent [draft_intro]: "obeys draft (SetCurrent e c i u)"
proof -
  define cl where "cl p now = updateSnapshots (\<lambda>r. DeletedAt r = None \<and> s_ConfigID r = c \<and> s_ProjectID r = p \<and> ID r \<noteq> i \<and> s_IsUsing r)
      (\<lambda>r. r\<lparr>Version := Version r + 1, s_IsUsing := False, UpdatedBy := u, UpdatedAt := now\<rparr>)" for p now
  define st where "st p now = updateSnapshots (\<lambda>r. DeletedAt r = None \<and> ID r = i \<and> s_ConfigID r = c \<and> s_ProjectID r = p)
      (\<lambda>r. r\<lparr>Version := Version r + 1, s_IsUsing := True, UpdatedBy := u, UpdatedAt := now\<rparr>)" for p now
  have cl: "obeys draft (cl p now)" for p now
    unfolding cl_def by (rule draft_updateSnapshots) (simp_all add: owner_def release_entry_def live_released_def live_current_def)
  have cleared: "ID r = i"
    if "cl p now E w = (Inr n, w')" "r \<in> set (snapshots (database w'))" "live_current r" "owner r = (p, c)" for p now E w n w' r
  proof -
    let ?cond = "\<lambda>r. DeletedAt r = None \<and> s_ConfigID r = c \<and> s_ProjectID r = p \<and> ID r \<noteq> i \<and> s_IsUsing r"
    from that(1) have "snapshots (database w') = update_rows ?cond
        (\<lambda>r. r\<lparr>Version := Version r + 1, s_IsUsing := False, UpdatedBy := u, UpdatedAt := now\<rparr>) (snapshots (database w))"
      by (simp add: cl_def updateSnapshots_def run_simps)
    from in_update_rows [OF that(2) [unfolded this]] obtain r0 where
      "r = (if ?cond r0 then r0\<lparr>Version := Version r0 + 1, s_IsUsing := False, UpdatedBy := u, UpdatedAt := now\<rparr> else r0)"
      by (elim bexE)
    with that(3) have "\<not> ?cond r" by (auto simp: live_current_def split: if_splits)
    with that(3,4) show ?thesis by (simp add: live_current_def owner_def)
  qed
  have st: "draft E w w'"
    if free: "\<And>r. r \<in> set (snapshots (database w)) \<Longrightarrow> live_current r \<Longrightarrow> owner r = (p, c) \<Longrightarrow> ID r = i"
      and run: "st p now E w = (x, w')" for p now E w x w'
  proof (cases x)
    case (Inl err)
    with run show ?thesis by (auto simp: st_def updateSnapshots_def run_simps intro: dft.same)
  next
    case (Inr n)
    let ?cond = "\<lambda>r. DeletedAt r = None \<and> ID r = i \<and> s_ConfigID r = c \<and> s_ProjectID r = p"
    let ?f = "\<lambda>r. r\<lparr>Version := Version r + 1, s_IsUsing := True, UpdatedBy := u, UpdatedAt := now\<rparr>"
    from run Inr have w': "w' = w\<lparr>database := snapshots_update (update_rows ?cond ?f) (database w), tick := Suc (tick w)\<rparr>"
      by (simp add: st_def updateSnapshots_def run_simps)
    have ok: "snapshot_ok (?f r) = snapshot_ok r" for r by (simp add: snapshot_ok_def)
    have entry: "release_entry (?f r) = release_entry r" for r by (simp add: release_entry_def live_released_def owner_def)
    show ?thesis
    proof (rule draftI)
      show "last_id w t \<le> last_id w' t" for t by (simp add: w')
      show "tables_ok E (last_id w) (database w) \<Longrightarrow> tables_ok E (last_id w') (database w')"
        using ok by (simp add: w' tables_ok_def table_ok_update)
      show "one_per_config live_released (snapshots (database w)) \<Longrightarrow> one_per_config live_released (snapshots (database w'))"
        unfolding w' by (simp, erule one_per_config_update) (simp_all add: live_released_def owner_def)
      show "one_per_config live_current (snapshots (database w)) \<Longrightarrow> one_per_config live_current (snapshots (database w'))"
        unfolding w' by (simp, rule one_current_set [of _ p c i]) (simp_all add: free owner_def)
      show "List.map_filter release_entry (snapshots (database w')) = List.map_filter release_entry (snapshots (database w))"
        unfolding w' using entry by (simp add: released_list_update)
    qed
  qed
  have both: "obeys draft (bindM (mapErrM WrapDatabaseError (cl p now)) (\<lambda>_.
      bindM (mapErrM WrapDatabaseError (st p now)) (\<lambda>affected. requireAffected ''current snapshot'' affected)))" for p now
  proof (rule obeysI)
    fix E w r w'
    assume "bindM (mapErrM WrapDatabaseError (cl p now)) (\<lambda>_.
      bindM (mapErrM WrapDatabaseError (st p now)) (\<lambda>affected. requireAffected ''current snapshot'' affected)) E w = (r, w')"
    then show "draft E w w'"
    proof (cases rule: bindM_elim)
      case (fails err)
      then show ?thesis using obeysD [OF dft.map_error [OF cl]] by blast
    next
      case (continues n w1)
      from continues(1) have c1: "cl p now E w = (Inr n, w1)" by (simp add: run_simps)
      obtain x w2 where s2: "st p now E w1 = (x, w2)" by fastforce
      with continues(2) have "database w' = database w2 \<and> last_id w' = last_id w2"
        by (cases x; cases r) (auto simp: run_simps)
      then have "draft E w2 w'" by (intro dft.same) simp_all
      with st [OF cleared [OF c1] s2] obeysD [OF cl c1] show ?thesis by (blast intro: dft.trans)
    qed
  qed
  show ?thesis
    unfolding SetCurrent_def by (intro dft.combine draft_lookups both [unfolded cl_def st_def])
qed

lemma draft_sessions [draft_intro]:
  "obeys draft (CreateSession tok now)" "obeys draft (refresh_Rotate h next now)" "obeys draft (RevokeSessionByTokenHash h now)"
  "obeys draft (Claim returning i)" "obeys draft (apiKey_Create e p k)"
proof -
  have check: "obeys draft (checkRotation cur now)" for cur
    unfolding checkRotation_def by (intro dft.combine draft_intro)
  show "obeys draft (CreateSession tok now)"
    unfolding CreateSession_def by (intro dft.combine draft_intro)
  show "obeys draft (refresh_Rotate h next now)"
    unfolding refresh_Rotate_def Let_def lockTokenByHash_def by (intro dft.combine check draft_intro)
  show "obeys draft (RevokeSessionByTokenHash h now)"
    unfolding RevokeSessionByTokenHash_def lockTokenByHash_def by (intro dft.combine draft_intro)
  show "obeys draft (Claim returning i)"
    unfolding Claim_def insertClaim_def lockExistingClaim_def by (intro dft.combine draft_intro)
  show "obeys draft (apiKey_Create e p k)"
    unfolding apiKey_Create_def by (intro dft.combine draft_intro)
qed

end
