(* ===== verification/Repo_Identity.thy ===== *)
theory Repo_Identity
  imports Auth Import
begin

text \<open>
  The repositories of the administration (\<^verbatim>\<open>server/internal/repository\<close>: \<^verbatim>\<open>environment.go\<close>, \<^verbatim>\<open>role.go\<close>,
  \<^verbatim>\<open>user_environment_role.go\<close>, \<^verbatim>\<open>user.go\<close>, \<^verbatim>\<open>project.go\<close>, \<^verbatim>\<open>setup.go\<close>). A permission set is cached per
  generation of its environment, the column \<^verbatim>\<open>environments.version\<close>; the operations here that change a
  permission set advance it. The patterns of \<^verbatim>\<open>LIKE\<close> are matched by the database, \<open>like_text\<close>.
\<close>

section \<open>Statements\<close>

fun clash_free :: "('r \<Rightarrow> 'r \<Rightarrow> bool) \<Rightarrow> 'r list \<Rightarrow> bool" where
  "clash_free clash [] = True"
| "clash_free clash (row # rows) \<longleftrightarrow> \<not> list_ex (clash row) rows \<and> clash_free clash rows"

text \<open>One \<^verbatim>\<open>INSERT\<close> of several rows: all of them, or none when one breaks the unique key.\<close>

definition insertAllM ::
  "table_name \<Rightarrow> (db \<Rightarrow> 'r list) \<Rightarrow> (('r list \<Rightarrow> 'r list) \<Rightarrow> db \<Rightarrow> db) \<Rightarrow>
   (engine \<Rightarrow> 'r \<Rightarrow> 'r \<Rightarrow> bool) \<Rightarrow> (int \<Rightarrow> 'r \<Rightarrow> 'r) \<Rightarrow> 'r list \<Rightarrow> unit M" where
  "insertAllM t sel upd clash setID rows =
     bindM (forM (\<lambda>row. bindM (fresh_id t) (\<lambda>i. returnM (setID i row))) rows) (\<lambda>new.
       execM (\<lambda>E d. if list_all (\<lambda>row. \<not> list_ex (\<lambda>r. clash E r row) (sel d)) new \<and> clash_free (clash E) new
                    then (Inr (), upd (\<lambda>old. old @ new) d)
                    else (Inl DuplicateKeyError, d)))"

definition deleteM :: "(('r list \<Rightarrow> 'r list) \<Rightarrow> db \<Rightarrow> db) \<Rightarrow> ('r \<Rightarrow> bool) \<Rightarrow> unit M" where
  "deleteM upd cond = execM (\<lambda>E d. (Inr (), upd (filter (\<lambda>r. \<not> cond r)) d))"

section \<open>Environments\<close>

record EnvironmentUpdate =
  EnvUpdate_Name :: string
  EnvUpdate_Description :: string
  EnvUpdate_Enabled :: bool
  EnvUpdate_UpdatedBy :: int
  EnvUpdate_Version :: int

definition environment_recordAudit :: "int \<Rightarrow> audit_row \<Rightarrow> unit M" where
  "environment_recordAudit environmentID audit =
     RecordForEnvironment environmentID (audit\<lparr>a_ResourceID := FormatInt environmentID\<rparr>)"

definition insertEnvironment :: "environment_row \<Rightarrow> environment_row M" where
  "insertEnvironment = insertM EnvironmentsTable environments environments_update
     (\<lambda>E r row. e_ProjectID r = e_ProjectID row \<and> same_text E (e_Key r) (e_Key row)) (\<lambda>i row. row\<lparr>ID := i\<rparr>)"

definition environment_Create :: "environment_row \<Rightarrow> audit_row \<Rightarrow> environment_row M" where
  "environment_Create environment audit =
     bindM (PrepareInsert environment) (\<lambda>environment.
     bindM (mapErrM WrapDatabaseError (insertEnvironment (environment\<lparr>e_Enabled := True\<rparr>))) (\<lambda>environment.
     bindM (environment_recordAudit (ID environment) audit) (\<lambda>_. returnM environment)))"

definition environment_Update :: "int \<Rightarrow> EnvironmentUpdate \<Rightarrow> audit_row \<Rightarrow> unit M" where
  "environment_Update environmentID update audit =
     bindM nowM (\<lambda>now.
     bindM (mapErrM WrapDatabaseError (updateM environments environments_update
       (\<lambda>e. ID e = environmentID \<and> Version e = EnvUpdate_Version update \<and> DeletedAt e = None)
       (\<lambda>e. e\<lparr>e_Name := EnvUpdate_Name update, e_Description := EnvUpdate_Description update,
              e_Enabled := EnvUpdate_Enabled update, UpdatedBy := EnvUpdate_UpdatedBy update, UpdatedAt := now,
              Version := EnvUpdate_Version update + 1\<rparr>))) (\<lambda>affected.
     bindM (requireAffected ''environment'' affected) (\<lambda>_.
     environment_recordAudit environmentID audit)))"

definition environment_List :: "environment_row list M" where
  "environment_List =
     mapErrM WrapDatabaseError (queryM (\<lambda>E d. sort_key ID (filter (\<lambda>e. DeletedAt e = None) (environments d))))"

definition environment_FindByID :: "int \<Rightarrow> environment_row M" where
  "environment_FindByID environmentID =
     getM (\<lambda>E d. filter (\<lambda>e. ID e = environmentID \<and> DeletedAt e = None) (environments d)) ''environment''"

text \<open>Advancing the generation of permission sets.\<close>

definition bumpEnvironmentPermissionGeneration :: "int \<Rightarrow> int \<Rightarrow> unit M" where
  "bumpEnvironmentPermissionGeneration actorID environmentID =
     bindM nowM (\<lambda>now.
     bindM (mapErrM WrapDatabaseError (updateM environments environments_update
       (\<lambda>e. ID e = environmentID \<and> DeletedAt e = None)
       (\<lambda>e. e\<lparr>Version := Version e + 1, UpdatedBy := actorID, UpdatedAt := now\<rparr>))) (\<lambda>affected.
     requireAffected ''environment permission generation'' affected))"

definition bumpEnvironmentPermissionGenerations :: "int list \<Rightarrow> int \<Rightarrow> unit M" where
  "bumpEnvironmentPermissionGenerations environmentIDs actorID =
     bindM (forM (bumpEnvironmentPermissionGeneration actorID) (remdups_adj (sort environmentIDs))) (\<lambda>_. returnM ())"

section \<open>Roles\<close>

record RoleUpdate =
  RoleUpdate_Name :: string
  RoleUpdate_Description :: string
  RoleUpdate_UpdatedBy :: int
  RoleUpdate_Version :: int

record RoleWithPermissions =
  RWP_Role :: role_row
  RWP_Permissions :: "permission_row list"

record PermissionAssignment =
  Assignment_UserID :: int
  Assignment_EnvironmentID :: int

definition ErrRoleInUse :: err where "ErrRoleInUse = OtherError ''role is assigned to environment members''"
definition ErrBuiltinRole :: err where "ErrBuiltinRole = OtherError ''built-in role cannot be deleted''"
definition ErrSystemRolePermission :: err where
  "ErrSystemRolePermission = OtherError ''system permission cannot be assigned to an environment role''"
definition ErrPermissionSetMismatch :: err where
  "ErrPermissionSetMismatch = OtherError ''permission set contains unknown permission''"

definition role_recordAudit :: "int \<Rightarrow> audit_row \<Rightarrow> unit M" where
  "role_recordAudit roleID audit = RecordSystem (audit\<lparr>a_ResourceID := FormatInt roleID\<rparr>)"

definition insertRole :: "role_row \<Rightarrow> role_row M" where
  "insertRole = insertM RolesTable roles roles_update (\<lambda>E r row. same_text E (ro_Key r) (ro_Key row)) (\<lambda>i row. row\<lparr>ID := i\<rparr>)"

definition role_Create :: "role_row \<Rightarrow> audit_row \<Rightarrow> role_row M" where
  "role_Create role audit =
     bindM (PrepareInsert role) (\<lambda>role.
     bindM (mapErrM (classifyKeyWriteError ''role'') (insertRole (role\<lparr>ro_Builtin := False\<rparr>))) (\<lambda>role.
     bindM (role_recordAudit (ID role) audit) (\<lambda>_. returnM role)))"

definition role_Update :: "int \<Rightarrow> RoleUpdate \<Rightarrow> audit_row \<Rightarrow> unit M" where
  "role_Update roleID update audit =
     bindM nowM (\<lambda>now.
     bindM (mapErrM WrapDatabaseError (updateM roles roles_update
       (\<lambda>r. ID r = roleID \<and> Version r = RoleUpdate_Version update \<and> DeletedAt r = None)
       (\<lambda>r. r\<lparr>ro_Name := RoleUpdate_Name update, ro_Description := RoleUpdate_Description update,
              UpdatedBy := RoleUpdate_UpdatedBy update, UpdatedAt := now, Version := RoleUpdate_Version update + 1\<rparr>))) (\<lambda>affected.
     bindM (requireAffected ''role'' affected) (\<lambda>_.
     role_recordAudit roleID audit)))"

definition lockRole :: "int \<Rightarrow> role_row M" where
  "lockRole roleID = getM (\<lambda>E d. filter (\<lambda>r. ID r = roleID \<and> DeletedAt r = None) (roles d)) ''role''"

definition lockAssignments :: "int \<Rightarrow> PermissionAssignment list M" where
  "lockAssignments roleID =
     bindM (mapErrM WrapDatabaseError (queryM (\<lambda>E d. sort_key r_ID (filter (\<lambda>m. m_RoleID m = roleID) (members d))))) (\<lambda>links.
       returnM (map (\<lambda>m. \<lparr>Assignment_UserID = m_UserID m, Assignment_EnvironmentID = m_EnvironmentID m\<rparr>) links))"

definition role_Delete :: "int \<Rightarrow> int \<Rightarrow> audit_row \<Rightarrow> unit M" where
  "role_Delete roleID actorID audit =
     bindM (lockRole roleID) (\<lambda>role.
     bindM (guardM (ro_Builtin role) ErrBuiltinRole) (\<lambda>_.
     bindM (lockAssignments roleID) (\<lambda>assignments.
     bindM (guardM (assignments \<noteq> []) ErrRoleInUse) (\<lambda>_.
     bindM nowM (\<lambda>now.
     bindM (mapErrM WrapDatabaseError (updateM roles roles_update (\<lambda>r. ID r = roleID \<and> DeletedAt r = None)
       (\<lambda>r. r\<lparr>Version := Version r + 1, DeletedAt := Some now, UpdatedBy := actorID, UpdatedAt := now\<rparr>))) (\<lambda>affected.
     bindM (requireAffected ''role'' affected) (\<lambda>_.
     role_recordAudit roleID audit)))))))"

definition permissionsForRole :: "int \<Rightarrow> permission_row list M" where
  "permissionsForRole roleID =
     mapErrM WrapDatabaseError (queryM (\<lambda>E d. sort_key r_ID
       [p. p \<leftarrow> permissions d, rp \<leftarrow> grants d, g_PermissionID rp = r_ID p \<and> g_RoleID rp = roleID]))"

definition rolesWithPermissions :: "role_row list \<Rightarrow> RoleWithPermissions list M" where
  "rolesWithPermissions rows =
     forM (\<lambda>role. bindM (permissionsForRole (ID role)) (\<lambda>items.
       returnM \<lparr>RWP_Role = role, RWP_Permissions = items\<rparr>)) rows"

definition role_List :: "RoleWithPermissions list M" where
  "role_List =
     bindM (mapErrM WrapDatabaseError (queryM (\<lambda>E d. sort_key ID (filter (\<lambda>r. DeletedAt r = None) (roles d))))) rolesWithPermissions"

definition role_FindByID :: "int \<Rightarrow> RoleWithPermissions M" where
  "role_FindByID roleID =
     bindM (getM (\<lambda>E d. filter (\<lambda>r. ID r = roleID \<and> DeletedAt r = None) (roles d)) ''role'') (\<lambda>role.
     bindM (permissionsForRole roleID) (\<lambda>items.
     returnM \<lparr>RWP_Role = role, RWP_Permissions = items\<rparr>))"

definition systemKey :: "string \<Rightarrow> bool" where
  "systemKey key \<longleftrightarrow> take 7 key = ''system:''"

definition lockPermissions :: "int list \<Rightarrow> unit M" where
  "lockPermissions permissionIDs =
     (if permissionIDs = [] then returnM ()
      else bindM (mapErrM WrapDatabaseError (queryM (\<lambda>E d.
             sort_key r_ID (filter (\<lambda>p. r_ID p \<in> set permissionIDs) (permissions d))))) (\<lambda>items.
           bindM (guardM (length items \<noteq> length permissionIDs) ErrPermissionSetMismatch) (\<lambda>_.
           guardM (list_ex (\<lambda>p. systemKey (pm_Key p)) items) ErrSystemRolePermission)))"

definition replacePermissions :: "int \<Rightarrow> int list \<Rightarrow> int \<Rightarrow> unit M" where
  "replacePermissions roleID permissionIDs actorID =
     bindM (mapErrM WrapDatabaseError (deleteM grants_update (\<lambda>g. g_RoleID g = roleID))) (\<lambda>_.
       if permissionIDs = [] then returnM ()
       else bindM (forM (\<lambda>permissionID. RecordPrepareInsert
                \<lparr>r_ID = 0, r_CreatedAt = 0, r_UpdatedAt = 0, g_RoleID = roleID, g_PermissionID = permissionID,
                 g_CreatedBy = actorID\<rparr>) permissionIDs) (\<lambda>links.
            mapErrM WrapDatabaseError (insertAllM GrantsTable grants grants_update
              (\<lambda>E r row. g_RoleID r = g_RoleID row \<and> g_PermissionID r = g_PermissionID row) (\<lambda>i row. row\<lparr>r_ID := i\<rparr>) links)))"

definition advancePermissionGenerations :: "int \<Rightarrow> int \<Rightarrow> PermissionAssignment list \<Rightarrow> unit M" where
  "advancePermissionGenerations roleID actorID assignments =
     bindM nowM (\<lambda>now.
     bindM (mapErrM WrapDatabaseError (updateM roles roles_update (\<lambda>r. ID r = roleID \<and> DeletedAt r = None)
       (\<lambda>r. r\<lparr>Version := Version r + 1, UpdatedBy := actorID, UpdatedAt := now\<rparr>))) (\<lambda>affected.
     bindM (requireAffected ''role'' affected) (\<lambda>_.
     bumpEnvironmentPermissionGenerations (map Assignment_EnvironmentID assignments) actorID)))"

definition role_UpdatePermissions :: "int \<Rightarrow> int list \<Rightarrow> int \<Rightarrow> audit_row \<Rightarrow> PermissionAssignment list M" where
  "role_UpdatePermissions roleID permissionIDs actorID audit =
     bindM (lockRole roleID) (\<lambda>_.
     bindM (lockPermissions permissionIDs) (\<lambda>_.
     bindM (lockAssignments roleID) (\<lambda>assignments.
     bindM (replacePermissions roleID permissionIDs actorID) (\<lambda>_.
     bindM (advancePermissionGenerations roleID actorID assignments) (\<lambda>_.
     bindM (role_recordAudit roleID audit) (\<lambda>_.
     returnM assignments))))))"

section \<open>Members\<close>

record EnvironmentMemberRecord =
  Member_User :: user_row
  Member_Roles :: "RoleWithPermissions list"

record MemberRoleUpdate =
  MRU_EnvironmentID :: int
  MRU_UserID :: int
  MRU_RoleIDs :: "int list"
  MRU_ActorID :: int

definition rolesForMember :: "int \<Rightarrow> int \<Rightarrow> RoleWithPermissions list M" where
  "rolesForMember environmentID userID =
     bindM (mapErrM WrapDatabaseError (queryM (\<lambda>E d. sort_key ID
       [r. r \<leftarrow> roles d, uer \<leftarrow> members d, m_RoleID uer = ID r \<and> m_EnvironmentID uer = environmentID \<and>
          m_UserID uer = userID \<and> DeletedAt r = None]))) rolesWithPermissions"

definition ListMembers :: "int \<Rightarrow> EnvironmentMemberRecord list M" where
  "ListMembers environmentID =
     bindM (mapErrM WrapDatabaseError (queryM (\<lambda>E d. sort_key ID (filter (\<lambda>u.
       list_ex (\<lambda>uer. m_UserID uer = ID u \<and> m_EnvironmentID uer = environmentID \<and>
         list_ex (\<lambda>e. ID e = m_EnvironmentID uer \<and> DeletedAt e = None) (environments d)) (members d) \<and>
       DeletedAt u = None) (users d))))) (\<lambda>found.
     forM (\<lambda>user. bindM (rolesForMember environmentID (ID user)) (\<lambda>items.
       returnM \<lparr>Member_User = user, Member_Roles = items\<rparr>)) found)"

definition lockMember :: "int \<Rightarrow> int \<Rightarrow> unit M" where
  "lockMember environmentID userID =
     bindM (getM (\<lambda>E d. filter (\<lambda>e. ID e = environmentID \<and> DeletedAt e = None) (environments d)) ''environment'') (\<lambda>_.
     bindM (getM (\<lambda>E d. filter (\<lambda>u. ID u = userID \<and> DeletedAt u = None) (users d)) ''environment member'') (\<lambda>_.
     returnM ()))"

definition ensureRolesContainNoSystemPermissions :: "int list \<Rightarrow> unit M" where
  "ensureRolesContainNoSystemPermissions roleIDs =
     bindM (mapErrM WrapDatabaseError (queryM (\<lambda>E d.
       list_ex (\<lambda>p. list_ex (\<lambda>rp. g_PermissionID rp = r_ID p \<and> g_RoleID rp \<in> set roleIDs) (grants d) \<and>
         like_text E (pm_Key p) ''system:%'') (permissions d)))) (\<lambda>exists.
     guardM exists ErrSystemRolePermission)"

definition lockRoles :: "int list \<Rightarrow> unit M" where
  "lockRoles roleIDs =
     (if roleIDs = [] then returnM ()
      else bindM (mapErrM WrapDatabaseError (queryM (\<lambda>E d.
             sort_key ID (filter (\<lambda>r. ID r \<in> set roleIDs \<and> DeletedAt r = None) (roles d))))) (\<lambda>items.
           bindM (guardM (length items \<noteq> length roleIDs) (NotFound ''environment role'')) (\<lambda>_.
           ensureRolesContainNoSystemPermissions roleIDs)))"

definition replaceLinks :: "int \<Rightarrow> int \<Rightarrow> int list \<Rightarrow> int \<Rightarrow> unit M" where
  "replaceLinks environmentID userID roleIDs actorID =
     bindM (mapErrM WrapDatabaseError (deleteM members_update (\<lambda>m. m_UserID m = userID \<and> m_EnvironmentID m = environmentID))) (\<lambda>_.
       if roleIDs = [] then returnM ()
       else bindM (forM (\<lambda>roleID. RecordPrepareInsert
                \<lparr>r_ID = 0, r_CreatedAt = 0, r_UpdatedAt = 0, m_UserID = userID, m_EnvironmentID = environmentID,
                 m_RoleID = roleID, m_CreatedBy = actorID\<rparr>) roleIDs) (\<lambda>links.
            mapErrM WrapDatabaseError (insertAllM MembersTable members members_update
              (\<lambda>E r row. m_UserID r = m_UserID row \<and> m_EnvironmentID r = m_EnvironmentID row \<and> m_RoleID r = m_RoleID row)
              (\<lambda>i row. row\<lparr>r_ID := i\<rparr>) links)))"

definition ReplaceRoles :: "MemberRoleUpdate \<Rightarrow> audit_row \<Rightarrow> unit M" where
  "ReplaceRoles update audit =
     bindM (lockMember (MRU_EnvironmentID update) (MRU_UserID update)) (\<lambda>_.
     bindM (lockRoles (MRU_RoleIDs update)) (\<lambda>_.
     bindM (replaceLinks (MRU_EnvironmentID update) (MRU_UserID update) (MRU_RoleIDs update) (MRU_ActorID update)) (\<lambda>_.
     bindM (bumpEnvironmentPermissionGenerations [MRU_EnvironmentID update] (MRU_ActorID update)) (\<lambda>_.
     RecordForEnvironment (MRU_EnvironmentID update) (audit\<lparr>a_ResourceID := FormatInt (MRU_UserID update)\<rparr>)))))"

end
