(* ===== verification/Repo_User.thy ===== *)
theory Repo_User
  imports Repo_Identity
begin

text \<open>
  The repositories of accounts, projects and the installation state (\<^verbatim>\<open>server/internal/repository\<close>:
  \<^verbatim>\<open>user.go\<close>, \<^verbatim>\<open>project.go\<close>, \<^verbatim>\<open>setup.go\<close>). What signing in uses of \<^verbatim>\<open>user.go\<close> is in \<open>Auth\<close>.
\<close>

section \<open>Accounts\<close>

record ManagedUserUpdate =
  MUU_UserID :: int
  MUU_DisplayName :: string
  MUU_SystemAdmin :: bool
  MUU_Version :: int
  MUU_ActorID :: int

record ManagedUserStatusUpdate =
  MUS_UserID :: int
  MUS_Enabled :: bool
  MUS_Version :: int
  MUS_ActorID :: int

definition managedUserListLimit :: nat where "managedUserListLimit = 1000"

definition ErrLastSystemAdmin :: err where
  "ErrLastSystemAdmin = OtherError ''cannot remove the last enabled system administrator''"
definition ErrUserVersionConflict :: err where "ErrUserVersionConflict = OtherError ''user version conflict''"
definition ErrUserListLimit :: err where "ErrUserListLimit = OtherError ''user list exceeds fixed limit''"

definition user_recordAudit :: "int \<Rightarrow> audit_row \<Rightarrow> unit M" where
  "user_recordAudit userID audit = RecordSystem (audit\<lparr>a_ResourceID := FormatInt userID\<rparr>)"

definition insertUser :: "user_row \<Rightarrow> user_row M" where
  "insertUser = insertM UsersTable users users_update (\<lambda>E r row. same_text E (u_Username r) (u_Username row)) (\<lambda>i row. row\<lparr>ID := i\<rparr>)"

definition ListManagedUsers :: "user_row list M" where
  "ListManagedUsers =
     bindM (mapErrM WrapDatabaseError (queryM (\<lambda>E d.
       take (managedUserListLimit + 1) (sort_key ID (filter (\<lambda>u. DeletedAt u = None) (users d)))))) (\<lambda>found.
     if length found > managedUserListLimit then failM ErrUserListLimit else returnM found)"

definition CreateManagedUser :: "user_row \<Rightarrow> audit_row \<Rightarrow> user_row M" where
  "CreateManagedUser user audit =
     bindM (PrepareInsert user) (\<lambda>user.
     bindM (mapErrM (classifyKeyWriteError ''user'') (insertUser (user\<lparr>u_Enabled := True\<rparr>))) (\<lambda>user.
     bindM (user_recordAudit (ID user) audit) (\<lambda>_. returnM user)))"

definition lockManagedUser :: "int \<Rightarrow> user_row M" where
  "lockManagedUser userID =
     bindM (mapErrM WrapDatabaseError (queryM (\<lambda>E d.
       first_row (filter (\<lambda>u. ID u = userID \<and> DeletedAt u = None) (users d))))) requireUser"

definition active_admin :: "user_row \<Rightarrow> bool" where
  "active_admin u \<longleftrightarrow> u_Enabled u \<and> u_IsSystemAdmin u \<and> DeletedAt u = None"

definition ensureSystemAdminSurvives :: "user_row list \<Rightarrow> int \<Rightarrow> unit result" where
  "ensureSystemAdminSurvives admins removingID =
     guardR (length (filter (\<lambda>admin. ID admin \<noteq> removingID \<and> active_admin admin) admins) = 0) ErrLastSystemAdmin"

definition ensureLastSystemAdmin :: "int \<Rightarrow> unit M" where
  "ensureLastSystemAdmin removingID =
     bindM (mapErrM WrapDatabaseError (queryM (\<lambda>E d. take 2 (sort_key ID (filter active_admin (users d)))))) (\<lambda>admins.
     liftR (ensureSystemAdminSurvives admins removingID))"

definition updateManagedUser :: "int \<Rightarrow> (user_row \<Rightarrow> user_row) \<Rightarrow> int \<Rightarrow> unit M" where
  "updateManagedUser userID values expectedVersion =
     bindM (mapErrM WrapDatabaseError (updateM users users_update
       (\<lambda>u. ID u = userID \<and> DeletedAt u = None \<and> Version u = expectedVersion) values)) (\<lambda>affected.
     guardM (affected \<noteq> 1) ErrUserVersionConflict)"

definition revokeUserSessions :: "int \<Rightarrow> int \<Rightarrow> unit M" where
  "revokeUserSessions userID now =
     bindM (mapErrM WrapDatabaseError (updateM refresh_tokens refresh_tokens_update
       (\<lambda>t. t_UserID t = userID \<and> t_RevokedAt t = None)
       (\<lambda>t. t\<lparr>t_RevokedAt := Some now, r_UpdatedAt := now\<rparr>))) (\<lambda>_. returnM ())"

definition UpdateManagedUser :: "ManagedUserUpdate \<Rightarrow> audit_row \<Rightarrow> user_row M" where
  "UpdateManagedUser update audit =
     bindM (lockManagedUser (MUU_UserID update)) (\<lambda>user.
     bindM (guardM (Version user \<noteq> MUU_Version update) ErrUserVersionConflict) (\<lambda>_.
     bindM (if u_Enabled user \<and> u_IsSystemAdmin user \<and> \<not> MUU_SystemAdmin update
            then ensureLastSystemAdmin (ID user) else returnM ()) (\<lambda>_.
     bindM nowM (\<lambda>now.
     bindM (updateManagedUser (MUU_UserID update)
       (\<lambda>u. u\<lparr>u_DisplayName := MUU_DisplayName update, u_IsSystemAdmin := MUU_SystemAdmin update,
              UpdatedBy := MUU_ActorID update, UpdatedAt := now, Version := MUU_Version update + 1\<rparr>) (MUU_Version update)) (\<lambda>_.
     let user = user\<lparr>u_DisplayName := MUU_DisplayName update, u_IsSystemAdmin := MUU_SystemAdmin update,
                     UpdatedBy := MUU_ActorID update, UpdatedAt := now, Version := Version user + 1\<rparr> in
     bindM (user_recordAudit (MUU_UserID update) audit) (\<lambda>_. returnM user))))))"

definition UpdateManagedPassword :: "int \<Rightarrow> string \<Rightarrow> int \<Rightarrow> audit_row \<Rightarrow> unit M" where
  "UpdateManagedPassword userID passwordHash actorID audit =
     bindM (lockManagedUser userID) (\<lambda>user.
     bindM nowM (\<lambda>now.
     bindM (mapErrM WrapDatabaseError (updateM users users_update (\<lambda>u. ID u = userID \<and> DeletedAt u = None)
       (\<lambda>u. u\<lparr>Version := Version u + 1, u_PasswordHash := passwordHash, u_MustChangePassword := False,
              UpdatedBy := actorID, UpdatedAt := now\<rparr>))) (\<lambda>affected.
     bindM (guardM (affected \<noteq> 1) ErrUserVersionConflict) (\<lambda>_.
     bindM (revokeUserSessions (ID user) now) (\<lambda>_.
     user_recordAudit userID audit)))))"

definition UpdateManagedStatus :: "ManagedUserStatusUpdate \<Rightarrow> audit_row \<Rightarrow> user_row M" where
  "UpdateManagedStatus update audit =
     bindM (lockManagedUser (MUS_UserID update)) (\<lambda>user.
     bindM (guardM (Version user \<noteq> MUS_Version update) ErrUserVersionConflict) (\<lambda>_.
     bindM (if u_Enabled user \<and> u_IsSystemAdmin user \<and> \<not> MUS_Enabled update
            then ensureLastSystemAdmin (ID user) else returnM ()) (\<lambda>_.
     bindM nowM (\<lambda>now.
     bindM (updateManagedUser (MUS_UserID update)
       (\<lambda>u. u\<lparr>u_Enabled := MUS_Enabled update, UpdatedBy := MUS_ActorID update, UpdatedAt := now,
              Version := MUS_Version update + 1\<rparr>) (MUS_Version update)) (\<lambda>_.
     bindM (if \<not> MUS_Enabled update then bindM nowM (revokeUserSessions (ID user)) else returnM ()) (\<lambda>_.
     let user = user\<lparr>u_Enabled := MUS_Enabled update, UpdatedBy := MUS_ActorID update, UpdatedAt := now,
                     Version := Version user + 1\<rparr> in
     bindM (user_recordAudit (MUS_UserID update) audit) (\<lambda>_. returnM user)))))))"

definition createSystemAdmin :: "string \<Rightarrow> string \<Rightarrow> string \<Rightarrow> user_row M" where
  "createSystemAdmin username displayName passwordHash =
     bindM (PrepareInsert \<lparr>ID = 0, CreatedBy = 0, UpdatedBy = 0, CreatedAt = 0, UpdatedAt = 0, Version = 0, DeletedAt = None,
       u_Username = username, u_DisplayName = displayName, u_PasswordHash = passwordHash, u_Enabled = True,
       u_IsSystemAdmin = True, u_MustChangePassword = False, u_LastLoginAt = None\<rparr>) (\<lambda>user.
     mapErrM (classifyKeyWriteError ''user'') (insertUser user))"

definition promoteSystemAdmin :: "user_row \<Rightarrow> string \<Rightarrow> string \<Rightarrow> unit M" where
  "promoteSystemAdmin user displayName passwordHash =
     bindM nowM (\<lambda>now.
     bindM (mapErrM WrapDatabaseError (updateM users users_update (\<lambda>u. ID u = ID user)
       (\<lambda>u. u\<lparr>u_DisplayName := displayName, u_PasswordHash := passwordHash, u_Enabled := True, u_IsSystemAdmin := True,
              u_MustChangePassword := False, DeletedAt := None, UpdatedAt := now, Version := Version user + 1\<rparr>))) (\<lambda>affected.
     bindM (requireAffected ''user'' affected) (\<lambda>_.
     revokeUserSessions (ID user) now)))"

definition CreateOrPromoteSystemAdmin :: "string \<Rightarrow> string \<Rightarrow> string \<Rightarrow> (user_row \<times> bool) M" where
  "CreateOrPromoteSystemAdmin username displayName passwordHash =
     bindM (mapErrM WrapDatabaseError (queryM (\<lambda>E d.
       first_row (filter (\<lambda>u. same_text E (u_Username u) username) (users d))))) (\<lambda>found.
     case found of
       None \<Rightarrow> bindM (createSystemAdmin username displayName passwordHash) (\<lambda>created. returnM (created, True))
     | Some user \<Rightarrow>
         bindM (promoteSystemAdmin user displayName passwordHash) (\<lambda>_.
         bindM (GetByID (ID user)) (\<lambda>promoted. returnM (promoted, False))))"

section \<open>Projects\<close>

record ProjectUpdate =
  ProjUpdate_Name :: string
  ProjUpdate_Description :: string
  ProjUpdate_UpdatedBy :: int
  ProjUpdate_Version :: int

definition insertProject :: "project_row \<Rightarrow> project_row M" where
  "insertProject = insertM ProjectsTable projects projects_update (\<lambda>E r row. same_text E (p_Key r) (p_Key row)) (\<lambda>i row. row\<lparr>ID := i\<rparr>)"

definition project_Create :: "project_row \<Rightarrow> project_row M" where
  "project_Create project = bindM (PrepareInsert project) (\<lambda>project. mapErrM WrapDatabaseError (insertProject project))"

definition project_FindByID :: "int \<Rightarrow> int \<Rightarrow> project_row M" where
  "project_FindByID environmentID projectID =
     getM (\<lambda>E d. if environmentID > 0 then projectScope (\<lambda>p e. ID e = environmentID \<and> ID p = projectID) d
                 else filter (\<lambda>p. ID p = projectID \<and> DeletedAt p = None) (projects d)) ''project''"

text \<open>\<^verbatim>\<open>Desc("p.id")\<close> is descending order.\<close>

definition project_List :: "int \<Rightarrow> string \<Rightarrow> PageRequest \<Rightarrow> project_row PageResult M" where
  "project_List environmentID keyword page =
     (let pattern = ''%'' @ keyword @ ''%'' in
      paginate (\<lambda>E d. sort_key (\<lambda>p. - ID p) (filter (\<lambda>p. like_text E (p_Name p) pattern \<or> like_text E (p_Description p) pattern)
        (if environmentID > 0 then projectScope (\<lambda>p e. ID e = environmentID) d
         else filter (\<lambda>p. DeletedAt p = None) (projects d)))) page)"

definition project_Update :: "int \<Rightarrow> ProjectUpdate \<Rightarrow> unit M" where
  "project_Update projectID update =
     bindM nowM (\<lambda>now.
     bindM (mapErrM WrapDatabaseError (updateM projects projects_update
       (\<lambda>p. DeletedAt p = None \<and> ID p = projectID \<and> Version p = ProjUpdate_Version update)
       (\<lambda>p. p\<lparr>p_Name := ProjUpdate_Name update, p_Description := ProjUpdate_Description update,
              UpdatedBy := ProjUpdate_UpdatedBy update, UpdatedAt := now, Version := ProjUpdate_Version update + 1\<rparr>))) (\<lambda>affected.
     requireAffected ''project'' affected))"

section \<open>Installation state\<close>

definition ErrAlreadyInitialized :: err where
  "ErrAlreadyInitialized = OtherError ''installation administrator already initialized''"

definition loadState :: "secrets_row M" where
  "loadState =
     bindM (mapErrM (Wrapped ''read installation initialization state'')
       (queryM (\<lambda>E d. first_row (filter (\<lambda>x. x_ID x = 1) (application_secrets d))))) (\<lambda>found.
     case found of
       None \<Rightarrow> failM (OtherError ''installation initialization state is missing'')
     | Some state \<Rightarrow> returnM state)"

definition markInitialized :: "unit M" where
  "markInitialized =
     bindM (mapErrM (Wrapped ''complete administrator initialization'')
       (updateM application_secrets application_secrets_update (\<lambda>x. x_ID x = 1) (\<lambda>x. x\<lparr>x_AdminInitialized := True\<rparr>))) (\<lambda>affected.
     guardM (affected \<noteq> 1) (Wrapped ''complete administrator initialization'' (NoRowsAffected '''')))"

definition IsInitialized :: "bool M" where
  "IsInitialized = bindM loadState (\<lambda>state. returnM (x_AdminInitialized state))"

definition setup_CreateInitialAdmin :: "user_row \<Rightarrow> unit M" where
  "setup_CreateInitialAdmin user =
     bindM loadState (\<lambda>state.
     bindM (guardM (x_AdminInitialized state) ErrAlreadyInitialized) (\<lambda>_.
     bindM (PrepareInsert user) (\<lambda>user.
     bindM (mapErrM (Wrapped ''create initial administrator'') (insertUser user)) (\<lambda>_.
     markInitialized))))"

definition MarkInitialized :: "unit M" where
  "MarkInitialized =
     bindM loadState (\<lambda>state. if x_AdminInitialized state then returnM () else markInitialized)"

end
