(* ===== verification/Admin.thy ===== *)
theory Admin
  imports Repo_User
begin

text \<open>
  Administration (\<^verbatim>\<open>server/internal/logic\<close>: \<^verbatim>\<open>environment.go\<close>, \<^verbatim>\<open>role.go\<close>, \<^verbatim>\<open>user.go\<close>, \<^verbatim>\<open>project.go\<close>,
  \<^verbatim>\<open>setup.go\<close>, and \<^verbatim>\<open>saveAdministrator\<close> of \<^verbatim>\<open>cmd/kirby/create_admin.go\<close>). Failures of the cache cleanup after a
  commit are logged by the code and dropped here.
\<close>

definition SystemUserManage :: string where "SystemUserManage = ''system:user:manage''"
definition SystemRoleManage :: string where "SystemRoleManage = ''system:role:manage''"
definition SystemEnvironmentManage :: string where "SystemEnvironmentManage = ''system:environment:manage''"
definition SystemProjectManage :: string where "SystemProjectManage = ''system:project:manage''"
definition EnvironmentMemberManage :: string where "EnvironmentMemberManage = ''environment:member:manage''"
definition ProjectRead :: string where "ProjectRead = ''project:read''"

definition open_audit :: "Actor \<Rightarrow> string \<Rightarrow> string \<Rightarrow> string \<Rightarrow> audit_row" where
  "open_audit actor action resourceType resourceID =
     \<lparr>r_ID = 0, r_CreatedAt = 0, r_UpdatedAt = 0, a_ActorUserID = Some (Actor_UserID actor), a_EnvironmentID = None,
      a_Action = action, a_ResourceType = resourceType, a_ResourceID = resourceID, a_Result = AuditResultSucceeded,
      a_RequestID = Actor_RequestID actor, a_DetailsJSON = None\<rparr>"

section \<open>Environments and members\<close>

definition environmentAudit :: "Actor \<Rightarrow> string \<Rightarrow> string \<Rightarrow> audit_row" where
  "environmentAudit actor action resourceType = open_audit actor action resourceType ''''"

definition Environment_List :: "Actor \<Rightarrow> environment_row list M" where
  "Environment_List actor =
     bindM (attemptM (RequireSystem (Actor_UserID actor) SystemEnvironmentManage)) (\<lambda>r.
       case r of
         Inr _ \<Rightarrow> environment_List
       | Inl e \<Rightarrow> if \<not> errorsIs Forbidden e then failM e
                  else bindM (GetByID (Actor_UserID actor)) ListEnvironments)"

definition Environment_Create ::
  "(environment_row M \<Rightarrow> environment_row M) \<Rightarrow> Actor \<Rightarrow> environment_row \<Rightarrow> environment_row M" where
  "Environment_Create tx actor environment =
     bindM (RequireSystem (Actor_UserID actor) SystemEnvironmentManage) (\<lambda>_.
     let environment = environment\<lparr>CreatedBy := Actor_UserID actor, UpdatedBy := Actor_UserID actor, e_Enabled := True\<rparr> in
     bindM (tx (environment_Create environment (environmentAudit actor ''environment.create'' ''environment''))) (\<lambda>environment.
     environment_FindByID (ID environment)))"

definition Environment_Update ::
  "(unit M \<Rightarrow> unit M) \<Rightarrow> Actor \<Rightarrow> int \<Rightarrow> EnvironmentUpdate \<Rightarrow> environment_row M" where
  "Environment_Update tx actor environmentID update =
     bindM (RequireSystem (Actor_UserID actor) SystemEnvironmentManage) (\<lambda>_.
     let update = update\<lparr>EnvUpdate_UpdatedBy := Actor_UserID actor\<rparr> in
     bindM (tx (environment_Update environmentID update (environmentAudit actor ''environment.update'' ''environment''))) (\<lambda>_.
     environment_FindByID environmentID))"

definition VerifyProject :: "int \<Rightarrow> int \<Rightarrow> unit M" where
  "VerifyProject environmentID projectID =
     bindM (environment_FindByID environmentID) (\<lambda>item. guardM (e_ProjectID item \<noteq> projectID) (NotFound ''environment''))"

definition Environment_Permissions :: "Actor \<Rightarrow> int \<Rightarrow> string list M" where
  "Environment_Permissions actor environmentID =
     bindM (Resolve (Actor_UserID actor) environmentID) (\<lambda>(keys, _). returnM keys)"

definition Environment_ListMembers :: "Actor \<Rightarrow> int \<Rightarrow> EnvironmentMemberRecord list M" where
  "Environment_ListMembers actor environmentID =
     bindM (Require (Actor_UserID actor) environmentID [EnvironmentMemberManage]) (\<lambda>_. ListMembers environmentID)"

definition UpdateMemberRoles :: "(unit M \<Rightarrow> unit M) \<Rightarrow> Actor \<Rightarrow> int \<Rightarrow> int \<Rightarrow> int list \<Rightarrow> unit M" where
  "UpdateMemberRoles tx actor environmentID userID roleIDs =
     bindM (Require (Actor_UserID actor) environmentID [EnvironmentMemberManage]) (\<lambda>_.
     bindM (tx (ReplaceRoles
       \<lparr>MRU_EnvironmentID = environmentID, MRU_UserID = userID, MRU_RoleIDs = roleIDs, MRU_ActorID = Actor_UserID actor\<rparr>
       (environmentAudit actor ''environment.member.roles.update'' ''user''))) (\<lambda>_.
     bindM (attemptM (Invalidate userID environmentID)) (\<lambda>_. returnM ())))"

section \<open>Roles\<close>

definition roleAudit :: "Actor \<Rightarrow> string \<Rightarrow> string \<Rightarrow> audit_row" where
  "roleAudit actor action resourceType = open_audit actor action resourceType ''''"

definition Role_List :: "Actor \<Rightarrow> RoleWithPermissions list M" where
  "Role_List actor = role_List"

definition Role_Create :: "(role_row M \<Rightarrow> role_row M) \<Rightarrow> Actor \<Rightarrow> role_row \<Rightarrow> RoleWithPermissions M" where
  "Role_Create tx actor role =
     bindM (RequireSystem (Actor_UserID actor) SystemRoleManage) (\<lambda>_.
     bindM (tx (role_Create (role\<lparr>CreatedBy := Actor_UserID actor, UpdatedBy := Actor_UserID actor\<rparr>)
       (roleAudit actor ''role.create'' ''role''))) (\<lambda>role.
     role_FindByID (ID role)))"

definition Role_Update :: "(unit M \<Rightarrow> unit M) \<Rightarrow> Actor \<Rightarrow> int \<Rightarrow> RoleUpdate \<Rightarrow> RoleWithPermissions M" where
  "Role_Update tx actor roleID update =
     bindM (RequireSystem (Actor_UserID actor) SystemRoleManage) (\<lambda>_.
     bindM (tx (role_Update roleID (update\<lparr>RoleUpdate_UpdatedBy := Actor_UserID actor\<rparr>)
       (roleAudit actor ''role.update'' ''role''))) (\<lambda>_.
     role_FindByID roleID))"

definition Role_Delete :: "(unit M \<Rightarrow> unit M) \<Rightarrow> Actor \<Rightarrow> int \<Rightarrow> unit M" where
  "Role_Delete tx actor roleID =
     bindM (RequireSystem (Actor_UserID actor) SystemRoleManage) (\<lambda>_.
     tx (role_Delete roleID (Actor_UserID actor) (roleAudit actor ''role.delete'' ''role'')))"

definition Role_ListPermissions :: "Actor \<Rightarrow> permission_row list M" where
  "Role_ListPermissions actor =
     bindM (RequireSystem (Actor_UserID actor) SystemRoleManage) (\<lambda>_. permission_List)"

definition Role_UpdatePermissions ::
  "(PermissionAssignment list M \<Rightarrow> PermissionAssignment list M) \<Rightarrow> Actor \<Rightarrow> int \<Rightarrow> int list \<Rightarrow> unit M" where
  "Role_UpdatePermissions tx actor roleID permissionIDs =
     bindM (RequireSystem (Actor_UserID actor) SystemRoleManage) (\<lambda>_.
     bindM (tx (role_UpdatePermissions roleID permissionIDs (Actor_UserID actor)
       (roleAudit actor ''role.permissions.update'' ''role''))) (\<lambda>assignments.
     bindM (forM (\<lambda>assignment. attemptM (Invalidate (Assignment_UserID assignment) (Assignment_EnvironmentID assignment)))
       assignments) (\<lambda>_. returnM ())))"

section \<open>Accounts\<close>

record UserCreate =
  UCreate_Username :: string
  UCreate_DisplayName :: string
  UCreate_PlainPassword :: string
  UCreate_SystemAdmin :: bool

record UserUpdate =
  UUpdate_UserID :: int
  UUpdate_DisplayName :: string
  UUpdate_SystemAdmin :: bool
  UUpdate_Version :: int

definition userAudit :: "Actor \<Rightarrow> string \<Rightarrow> audit_row" where
  "userAudit actor action = open_audit actor action ''user'' ''''"

text \<open>The password hasher is the one of \<open>Password\<close>, with the salt source and policy of the configuration.\<close>

definition hashPassword :: "auth_config \<Rightarrow> string \<Rightarrow> string \<Rightarrow> string M" where
  "hashPassword A message plainPassword =
     mapErrM (Wrapped message) (liftR (Hash (auth_argon A) (auth_salt A) (auth_policy A) plainPassword))"

definition User_List :: "Actor \<Rightarrow> user_row list M" where
  "User_List actor = bindM (RequireSystem (Actor_UserID actor) SystemUserManage) (\<lambda>_. ListManagedUsers)"

definition User_Create :: "(user_row M \<Rightarrow> user_row M) \<Rightarrow> auth_config \<Rightarrow> Actor \<Rightarrow> UserCreate \<Rightarrow> user_row M" where
  "User_Create tx A actor input =
     bindM (RequireSystem (Actor_UserID actor) SystemUserManage) (\<lambda>_.
     bindM (hashPassword A ''hash managed user password'' (UCreate_PlainPassword input)) (\<lambda>hash.
     let user = \<lparr>ID = 0, CreatedBy = Actor_UserID actor, UpdatedBy = Actor_UserID actor, CreatedAt = 0, UpdatedAt = 0,
           Version = 0, DeletedAt = None, u_Username = UCreate_Username input, u_DisplayName = UCreate_DisplayName input,
           u_PasswordHash = hash, u_Enabled = True, u_IsSystemAdmin = UCreate_SystemAdmin input,
           u_MustChangePassword = False, u_LastLoginAt = None\<rparr> in
     bindM (tx (CreateManagedUser user (userAudit actor ''user.create''))) (\<lambda>user.
     GetByID (ID user))))"

definition User_Update :: "(user_row M \<Rightarrow> user_row M) \<Rightarrow> Actor \<Rightarrow> UserUpdate \<Rightarrow> user_row M" where
  "User_Update tx actor input =
     bindM (RequireSystem (Actor_UserID actor) SystemUserManage) (\<lambda>_.
     tx (UpdateManagedUser
       \<lparr>MUU_UserID = UUpdate_UserID input, MUU_DisplayName = UUpdate_DisplayName input,
        MUU_SystemAdmin = UUpdate_SystemAdmin input, MUU_Version = UUpdate_Version input,
        MUU_ActorID = Actor_UserID actor\<rparr> (userAudit actor ''user.update'')))"

definition UpdatePassword :: "(unit M \<Rightarrow> unit M) \<Rightarrow> auth_config \<Rightarrow> Actor \<Rightarrow> int \<Rightarrow> string \<Rightarrow> unit M" where
  "UpdatePassword tx A actor userID plainPassword =
     bindM (if Actor_UserID actor \<noteq> userID then RequireSystem (Actor_UserID actor) SystemUserManage else returnM ()) (\<lambda>_.
     bindM (hashPassword A ''hash managed user password'' plainPassword) (\<lambda>hash.
     tx (UpdateManagedPassword userID hash (Actor_UserID actor) (userAudit actor ''user.password.update''))))"

definition UpdateStatus :: "(user_row M \<Rightarrow> user_row M) \<Rightarrow> Actor \<Rightarrow> int \<Rightarrow> bool \<Rightarrow> int \<Rightarrow> user_row M" where
  "UpdateStatus tx actor userID enabled version =
     bindM (RequireSystem (Actor_UserID actor) SystemUserManage) (\<lambda>_.
     tx (UpdateManagedStatus
       \<lparr>MUS_UserID = userID, MUS_Enabled = enabled, MUS_Version = version, MUS_ActorID = Actor_UserID actor\<rparr>
       (userAudit actor ''user.status.update'')))"

section \<open>Projects\<close>

definition projectAudit :: "Actor \<Rightarrow> string \<Rightarrow> string \<Rightarrow> int \<Rightarrow> audit_row" where
  "projectAudit actor action resourceType resourceID = open_audit actor action resourceType (FormatInt resourceID)"

definition Project_Create :: "(project_row M \<Rightarrow> project_row M) \<Rightarrow> Actor \<Rightarrow> int \<Rightarrow> project_row \<Rightarrow> project_row M" where
  "Project_Create tx actor environmentID item =
     bindM (RequireSystem (Actor_UserID actor) SystemProjectManage) (\<lambda>_.
     bindM (tx (
       bindM (project_Create (item\<lparr>CreatedBy := Actor_UserID actor, UpdatedBy := Actor_UserID actor\<rparr>)) (\<lambda>item.
       bindM (RecordSystem (projectAudit actor ''project.create'' ''project'' (ID item))) (\<lambda>_. returnM item)))) (\<lambda>item.
     project_FindByID 0 (ID item)))"

definition Project_Update :: "(unit M \<Rightarrow> unit M) \<Rightarrow> Actor \<Rightarrow> int \<Rightarrow> int \<Rightarrow> ProjectUpdate \<Rightarrow> project_row M" where
  "Project_Update tx actor environmentID projectID update =
     bindM (RequireSystem (Actor_UserID actor) SystemProjectManage) (\<lambda>_.
     bindM (tx (
       bindM (project_Update projectID (update\<lparr>ProjUpdate_UpdatedBy := Actor_UserID actor\<rparr>)) (\<lambda>_.
       RecordSystem (projectAudit actor ''project.update'' ''project'' projectID)))) (\<lambda>_.
     project_FindByID 0 projectID))"

definition requireProjectAccess :: "Actor \<Rightarrow> int \<Rightarrow> unit M" where
  "requireProjectAccess actor environmentID =
     (if environmentID > 0 then Require (Actor_UserID actor) environmentID [ProjectRead]
      else RequireSystem (Actor_UserID actor) SystemProjectManage)"

definition Project_List :: "Actor \<Rightarrow> int \<Rightarrow> string \<Rightarrow> project_row list M" where
  "Project_List actor environmentID keyword =
     bindM (requireProjectAccess actor environmentID) (\<lambda>_.
     all_pages projects (project_List environmentID keyword) Inr)"

definition Project_Detail :: "Actor \<Rightarrow> int \<Rightarrow> int \<Rightarrow> project_row M" where
  "Project_Detail actor environmentID projectID =
     bindM (requireProjectAccess actor environmentID) (\<lambda>_. project_FindByID environmentID projectID)"

section \<open>Installation\<close>

definition GetSetupStatus :: "bool M" where "GetSetupStatus = IsInitialized"

definition CreateInitialAdmin :: "(unit M \<Rightarrow> unit M) \<Rightarrow> auth_config \<Rightarrow> string \<Rightarrow> string \<Rightarrow> string \<Rightarrow> unit M" where
  "CreateInitialAdmin tx A username displayName plainPassword =
     bindM (hashPassword A ''hash initial administrator password'' plainPassword) (\<lambda>hash.
     tx (setup_CreateInitialAdmin
       \<lparr>ID = 0, CreatedBy = 0, UpdatedBy = 0, CreatedAt = 0, UpdatedAt = 0, Version = 0, DeletedAt = None,
        u_Username = username, u_DisplayName = displayName, u_PasswordHash = hash, u_Enabled = True,
        u_IsSystemAdmin = True, u_MustChangePassword = False, u_LastLoginAt = None\<rparr>))"

definition saveAdministrator ::
  "((user_row \<times> bool) M \<Rightarrow> (user_row \<times> bool) M) \<Rightarrow> string \<Rightarrow> string \<Rightarrow> string \<Rightarrow> (user_row \<times> bool) M" where
  "saveAdministrator tx username displayName passwordHash =
     tx (bindM MarkInitialized (\<lambda>_. CreateOrPromoteSystemAdmin username displayName passwordHash))"

end
