(* ===== verification/Calls.thy ===== *)
theory Calls
  imports Statements Admin
begin

text \<open>
  What every operation of the server obeys. The locale \<open>server_relation\<close> lists what a relation between worlds has
  to allow: the writes of the repositories, the cache operations on keys that hold no permission set,
  and authorization. Every operation of the configuration API, of the runtime API and of sign-in
  then obeys it. The invariant of the stored data is the first interpretation.
\<close>

definition permission_entry :: "string \<Rightarrow> bool" where
  "permission_entry key \<longleftrightarrow> (\<exists>u e n. key = permissionContentKey u e n)"

lemma content_not_entry [simp]: "\<not> permission_entry (contentCacheKey p k v)"
  by (auto simp: permission_entry_def contentCacheKey_def permissionContentKey_def)

lemma login_not_entry [simp]: "\<not> permission_entry (loginRateKey A name ip)"
  by (auto simp: permission_entry_def loginRateKey_def permissionContentKey_def)

locale server_relation = atomic_effect P for P +
  assumes resolve: "obeys P (Resolve u e)"
    and cached: "obeys P (cacheGetM key)" "obeys P (cacheDeleteM key)"
      "\<not> permission_entry key \<Longrightarrow> obeys P (cacheSetM key content ttl)"
      "\<not> permission_entry key \<Longrightarrow> obeys P (cacheIncrementM key ttl)"
    and config_writes: "config_ok c \<Longrightarrow> obeys P (config_Create e p c)" "obeys P (config_Update e i cu)"
      "obeys P (config_UpdateValue e i vu)" "obeys P (config_Delete e i user)"
    and snapshot_writes: "obeys P (snapshot_Create e p i s)" "obeys P (snapshot_Delete e i user)" "obeys P (SetCurrent e i j user)"
    and structure_writes: "obeys P (structure_Create e i item)" "obeys P (structure_Update e i du)"
      "obeys P (structure_Delete e i user)" "obeys P (structure_Reconcile e i items user)"
    and enum_writes: "obeys P (enum_Create e i item)" "obeys P (enum_Update e i du)"
      "obeys P (enum_Delete e i user)" "obeys P (enum_Reconcile e i items user)"
    and audit_write: "obeys P (RecordForEnvironment e log)"
    and key_writes: "obeys P (apiKey_Create e p k)" "obeys P (apiKey_Rotate m k)" "obeys P (apiKey_Revoke m now)"
      "obeys P (MarkUsed publicID now)"
    and claim_writes: "obeys P (Claim returning rec)" "obeys P (Complete i j json)"
    and session_writes: "obeys P (CreateSession tok now)" "obeys P (refresh_Rotate h next now)"
      "obeys P (RevokeSessionByTokenHash h now)" "obeys P (UpdatePasswordHash user old new)"
begin

lemma require: "obeys P (Require u e required)"
  unfolding Require_def by (intro compose resolve)

lemmas lookups = lookups_read [THEN reading]

lemmas rules = compose require cached config_writes snapshot_writes structure_writes enum_writes audit_write key_writes
  claim_writes session_writes lookups content_not_entry login_not_entry

lemma drafts:
  assumes "transaction_runner txc" "transaction_runner txu"
  shows "obeys P (Config_Create txc K actor e cinput)" "obeys P (Config_Update txu K iter actor e uinput)"
    "obeys P (Config_UpdateValue txu K iter actor e vinput)" "obeys P (Config_Delete txu actor e c)"
    "obeys P (Config_List order actor e flt)" "obeys P (Config_Detail K iter actor e c)"
proof -
    show "obeys P (Config_Create txc K actor e cinput)"
    unfolding Config_Create_def by (intro rules transaction [OF assms(1)]) (simp add: config_ok_def new_config_def MaxInt64_value_def)
  show "obeys P (Config_Update txu K iter actor e uinput)"
    unfolding Config_Update_def by (intro rules transaction [OF assms(2)])
  show "obeys P (Config_UpdateValue txu K iter actor e vinput)"
    unfolding Config_UpdateValue_def by (intro rules transaction [OF assms(2)])
  show "obeys P (Config_Delete txu actor e c)"
    unfolding Config_Delete_def by (intro rules transaction [OF assms(2)])
  show "obeys P (Config_List order actor e flt)"
    unfolding Config_List_def by (intro rules all)
  show "obeys P (Config_Detail K iter actor e c)"
    unfolding Config_Detail_def config_resources_def Let_def by (intro rules all)
qed

lemma children:
  assumes "transaction_runner txi" "transaction_runner txu"
  shows "obeys P (Structure_Create txi K iter actor e sinput)" "obeys P (Structure_Update txu K iter actor e suinput)"
    "obeys P (Structure_Delete txu K iter actor e i)" "obeys P (Structure_List K actor e slinput)"
    "obeys P (Enum_Create txi K iter actor e einput)" "obeys P (Enum_Update txu K iter actor e euinput)"
    "obeys P (Enum_Delete txu K iter actor e i)" "obeys P (Enum_List actor e p c)"
proof -
  note steps = rules transaction [OF assms(1)] transaction [OF assms(2)] all
  show "obeys P (Structure_Create txi K iter actor e sinput)"
    unfolding Structure_Create_def Let_def by (intro steps)
  show "obeys P (Structure_Update txu K iter actor e suinput)"
    unfolding Structure_Update_def prepareStructureUpdate_def validateStructureUpdate_def saveStructureUpdate_def Let_def by (intro steps)
  show "obeys P (Structure_Delete txu K iter actor e i)"
    unfolding Structure_Delete_def Let_def by (intro steps)
  show "obeys P (Structure_List K actor e slinput)"
    unfolding Structure_List_def allStructures_def by (intro steps)
  show "obeys P (Enum_Create txi K iter actor e einput)"
    unfolding Enum_Create_def Let_def by (intro steps)
  show "obeys P (Enum_Update txu K iter actor e euinput)"
    unfolding Enum_Update_def prepareEnumUpdate_def validateEnumUpdate_def saveEnumUpdate_def Let_def by (intro steps)
  show "obeys P (Enum_Delete txu K iter actor e i)"
    unfolding Enum_Delete_def Let_def by (intro steps)
  show "obeys P (Enum_List actor e p c)"
    unfolding Enum_List_def by (intro steps)
qed

lemma snapshots:
  assumes "transaction_runner txi" "transaction_runner txu" "transaction_runner txs"
  shows "obeys P (Snapshot_Create txi K iter actor e input)" "obeys P (Snapshot_Preview txs K iter actor e c)"
    "obeys P (Snapshot_Delete txu actor e s)" "obeys P (Snapshot_Get actor e s)" "obeys P (Load txu K iter actor e c s)"
    "obeys P (Current actor e c)" "obeys P (Released actor e c)" "obeys P (Snapshot_List actor e linput)"
proof -
  note steps = rules transaction [OF assms(1)] transaction [OF assms(2)] transaction [OF assms(3)]
  have save: "obeys P (saveDraft actor e cur content)" for cur content
    unfolding saveDraft_def by (intro steps)
  have auto_save: "obeys P (autoSave K actor e cur preview)" for cur preview
    unfolding autoSave_def by (intro steps save)
  have restore: "obeys P (restoreConfig K actor e cur content)" for cur content
    unfolding restoreConfig_def Let_def by (intro steps)
  show "obeys P (Snapshot_Create txi K iter actor e input)"
    unfolding Snapshot_Create_def Let_def by (intro steps)
  show "obeys P (Snapshot_Preview txs K iter actor e c)"
    unfolding Snapshot_Preview_def by (intro steps)
  show "obeys P (Snapshot_Delete txu actor e s)"
    unfolding Snapshot_Delete_def by (intro steps)
  show "obeys P (Snapshot_Get actor e s)"
    unfolding Snapshot_Get_def by (intro steps)
  show "obeys P (Load txu K iter actor e c s)"
    unfolding Load_def loadSnapshot_def by (intro steps auto_save restore)
  show "obeys P (Current actor e c)"
    unfolding Current_def by (intro steps)
  show "obeys P (Released actor e c)"
    unfolding Released_def by (intro steps)
  show "obeys P (Snapshot_List actor e linput)"
    unfolding Snapshot_List_def by (intro steps)
qed

lemma transfer:
  assumes "transaction_runner txo"
  shows "obeys P (Import txo sha256 returning uuid K iter actor request)" "obeys P (Export K iter actor e s)"
proof -
  note steps = rules transaction [OF assms]
  have config: "obeys P (writeConfig K u req source)" for u req source
    unfolding writeConfig_def Let_def by (intro steps) (simp add: config_ok_def imported_config_def MaxInt64_value_def)
  have prepare: "obeys P (prepareImport K iter actor req)" for req
    unfolding prepareImport_def importResources_def by (intro steps config)
  have claim: "obeys P (claimImport returning uuid actor req h)" for req h
    unfolding claimImport_def by (intro steps)
  have finish: "obeys P (completeImport actor req i s)" for req i s
    unfolding completeImport_def by (intro steps)
  show "obeys P (Import txo sha256 returning uuid K iter actor request)"
    unfolding Import_def importSnapshot_def cleanupImport_def DeletePublishedConfigVersion_def RequireSourceRead_def Let_def
    by (intro steps claim prepare finish)
  show "obeys P (Export K iter actor e s)"
    unfolding Export_def RequireSourceRead_def by (intro steps)
qed

lemma keys:
  assumes "transaction_runner txk" "transaction_runner txu" "transaction_runner txr"
  shows "obeys P (APIKey_Create txk hmac pepper random1 random2 actor e p name)"
    "obeys P (APIKey_Rotate txk hmac pepper random1 random2 actor e p i)" "obeys P (APIKey_Revoke txu actor e p i)"
    "obeys P (APIKey_List actor e p)" "obeys P (Read txr K hmac pepper credential project key)"
proof -
  note steps = rules transaction [OF assms(1)] transaction [OF assms(2)] transaction [OF assms(3)]
  show "obeys P (APIKey_Create txk hmac pepper random1 random2 actor e p name)"
    unfolding APIKey_Create_def Let_def by (intro steps)
  show "obeys P (APIKey_Rotate txk hmac pepper random1 random2 actor e p i)"
    unfolding APIKey_Rotate_def apiKey_FindByID_def apiKey_LockByID_def Let_def by (intro steps)
  show "obeys P (APIKey_Revoke txu actor e p i)"
    unfolding APIKey_Revoke_def apiKey_FindByID_def apiKey_LockByID_def Let_def by (intro steps)
  show "obeys P (APIKey_List actor e p)"
    unfolding APIKey_List_def apiKey_List_def by (intro steps)
  show "obeys P (Read txr K hmac pepper credential project key)"
    unfolding Read_def authenticate_def readConfig_def releasedContent_def LockRuntimeCredential_def FindRuntimeProject_def
      FindRuntimeConfig_def FindReleasedSnapshot_def Let_def
    by (intro steps)
qed

lemma auth:
  assumes "transaction_runner txt" "transaction_runner txu"
  shows "obeys P (Login txt txu A username password ip)" "obeys P (Refresh txt txu A token)"
    "obeys P (Logout txu A token)" "obeys P (Me user)"
proof -
  note steps = rules transaction [OF assms(1)] transaction [OF assms(2)]
  note finds = FindByUsername_def GetByID_def requireUser_def
  have issue: "obeys P (Issue A i s)" for i s
    unfolding Issue_def Let_def by (intro steps)
  have revoke: "obeys P (auth_revokeSession txu h now)" for h now
    unfolding auth_revokeSession_def by (intro steps)
  have user: "obeys P (activeUser i)" for i
    unfolding activeUser_def finds by (intro steps)
  have verify: "obeys P (verifyLogin A name password)" for name
    unfolding verifyLogin_def rehashPassword_def finds by (intro steps)
  have session: "obeys P (auth_createSession txt A u)" for u
    unfolding auth_createSession_def Let_def by (intro steps issue)
  have access: "obeys P (refreshedAccess A tok plain)" for tok plain
    unfolding refreshedAccess_def by (intro steps user issue)
  have rotate: "obeys P (rotateRefresh txt txu h nxt now)" for h nxt now
    unfolding rotateRefresh_def by (intro steps revoke)
  show "obeys P (Login txt txu A username password ip)"
    unfolding Login_def checkLoginLimit_def Let_def by (intro steps verify session revoke) 
  show "obeys P (Refresh txt txu A token)"
    unfolding Refresh_def Let_def by (intro steps revoke rotate access)
  show "obeys P (Logout txu A token)"
    unfolding Logout_def by (intro steps revoke)
  show "obeys P (Me user)"
    unfolding Me_def ListEnvironments_def by (intro steps user)
qed

end

text \<open>
  Administration changes the database only inside transactions, so its interface states what the relation allows
  of whole transactions: a relation may fail in the middle of one.
\<close>

locale admin_relation = effect P for P +
  assumes resolve: "obeys P (Resolve u e)"
    and cache_delete: "obeys P (cacheDeleteM key)"
    and environment_writes: "transaction_runner txe \<Longrightarrow> obeys P (txe (environment_Create env log))"
      "transaction_runner txu \<Longrightarrow> obeys P (txu (environment_Update e eu log))"
    and role_writes: "transaction_runner txr \<Longrightarrow> obeys P (txr (role_Create role log))"
      "transaction_runner txu \<Longrightarrow> obeys P (txu (role_Update i ru log))"
      "transaction_runner txu \<Longrightarrow> obeys P (txu (role_Delete i user log))"
      "transaction_runner txa \<Longrightarrow> obeys P (txa (role_UpdatePermissions i ids user log))"
    and member_writes: "transaction_runner txu \<Longrightarrow> obeys P (txu (ReplaceRoles mru log))"
    and user_writes: "transaction_runner txs \<Longrightarrow> obeys P (txs (CreateManagedUser acc log))"
      "transaction_runner txs \<Longrightarrow> obeys P (txs (UpdateManagedUser uu log))"
      "transaction_runner txu \<Longrightarrow> obeys P (txu (UpdateManagedPassword i hash user log))"
      "transaction_runner txs \<Longrightarrow> obeys P (txs (UpdateManagedStatus su log))"
    and project_writes: "transaction_runner txp \<Longrightarrow> obeys P (txp (bindM (project_Create pr) (\<lambda>item.
        bindM (RecordSystem (entry item)) (\<lambda>_. returnM item))))"
      "transaction_runner txu \<Longrightarrow> obeys P (txu (bindM (project_Update i pu) (\<lambda>_. RecordSystem log)))"
    and setup_writes: "transaction_runner txu \<Longrightarrow> active_admin acc \<Longrightarrow> obeys P (txu (setup_CreateInitialAdmin acc))"
      "transaction_runner txc \<Longrightarrow> obeys P (txc (bindM MarkInitialized (\<lambda>_. CreateOrPromoteSystemAdmin name display hash)))"
begin

lemma require: "obeys P (Require u e required)"
  unfolding Require_def by (intro compose resolve)

lemma require_system: "obeys P (RequireSystem u key)"
  unfolding RequireSystem_def permission_SystemAdmin_def enabledUser_def by (intro compose)

lemma invalidate: "obeys P (Invalidate u e)"
  unfolding Invalidate_def Let_def by (intro compose cache_delete reading [OF reads_permission_Identity])

lemma hash: "obeys P (hashPassword A message plain)"
  unfolding hashPassword_def by (intro compose)

lemma account: "obeys P (GetByID i)" "obeys P (ListEnvironments user)"
  unfolding GetByID_def requireUser_def ListEnvironments_def by (intro compose)+

lemma role_lookups: "obeys P (role_FindByID i)" "obeys P role_List" "obeys P (rolesWithPermissions rows)"
  unfolding role_FindByID_def role_List_def rolesWithPermissions_def permissionsForRole_def by (intro compose)+

lemma admin_lookups: "obeys P (environment_FindByID e)" "obeys P environment_List" "obeys P (ListMembers e)"
  "obeys P (project_FindByID e p)" "obeys P (project_List e keyword page)" "obeys P permission_List"
  "obeys P ListManagedUsers" "obeys P IsInitialized"
  unfolding environment_FindByID_def environment_List_def ListMembers_def rolesForMember_def project_FindByID_def
    project_List_def permission_List_def ListManagedUsers_def IsInitialized_def loadState_def Let_def
  by (intro compose role_lookups)+

lemmas admin_rules = compose require require_system invalidate hash account role_lookups admin_lookups

lemmas tx_rules = environment_writes role_writes member_writes user_writes project_writes setup_writes

lemma environments:
  assumes "transaction_runner txe" "transaction_runner txu"
  shows "obeys P (Environment_List actor)" "obeys P (Environment_Create txe actor env)" "obeys P (Environment_Update txu actor e eu)"
    "obeys P (VerifyProject e p)" "obeys P (Environment_Permissions actor e)" "obeys P (Environment_ListMembers actor e)"
    "obeys P (UpdateMemberRoles txu actor e user ids)"
proof -
  note steps = admin_rules all tx_rules assms
  show "obeys P (Environment_List actor)" unfolding Environment_List_def by (intro steps)
  show "obeys P (Environment_Create txe actor env)" unfolding Environment_Create_def Let_def by (intro steps)
  show "obeys P (Environment_Update txu actor e eu)" unfolding Environment_Update_def Let_def by (intro steps)
  show "obeys P (VerifyProject e p)" unfolding VerifyProject_def by (intro steps)
  show "obeys P (Environment_Permissions actor e)" unfolding Environment_Permissions_def by (intro steps resolve)
  show "obeys P (Environment_ListMembers actor e)" unfolding Environment_ListMembers_def by (intro steps)
  show "obeys P (UpdateMemberRoles txu actor e user ids)" unfolding UpdateMemberRoles_def by (intro steps)
qed

lemma roles_logic:
  assumes "transaction_runner txr" "transaction_runner txu" "transaction_runner txa"
  shows "obeys P (Role_List actor)" "obeys P (Role_Create txr actor role)" "obeys P (Role_Update txu actor i ru)"
    "obeys P (Role_Delete txu actor i)" "obeys P (Role_ListPermissions actor)" "obeys P (Role_UpdatePermissions txa actor i ids)"
proof -
  note steps = admin_rules all tx_rules assms
  show "obeys P (Role_List actor)" unfolding Role_List_def by (intro steps)
  show "obeys P (Role_Create txr actor role)" unfolding Role_Create_def by (intro steps)
  show "obeys P (Role_Update txu actor i ru)" unfolding Role_Update_def by (intro steps)
  show "obeys P (Role_Delete txu actor i)" unfolding Role_Delete_def by (intro steps)
  show "obeys P (Role_ListPermissions actor)" unfolding Role_ListPermissions_def by (intro steps)
  show "obeys P (Role_UpdatePermissions txa actor i ids)" unfolding Role_UpdatePermissions_def by (intro steps)
qed

lemma accounts:
  assumes "transaction_runner txs" "transaction_runner txu" "transaction_runner txc"
  shows "obeys P (User_List actor)" "obeys P (User_Create txs A actor uc)" "obeys P (User_Update txs actor uup)"
    "obeys P (UpdatePassword txu A actor user password)" "obeys P (UpdateStatus txs actor user enabled version)"
    "obeys P (CreateInitialAdmin txu A name display password)" "obeys P (saveAdministrator txc name display hash)"
    "obeys P GetSetupStatus"
proof -
  note steps = admin_rules all tx_rules assms
  show "obeys P (User_List actor)" unfolding User_List_def by (intro steps)
  show "obeys P (User_Create txs A actor uc)" unfolding User_Create_def Let_def by (intro steps)
  show "obeys P (User_Update txs actor uup)" unfolding User_Update_def by (intro steps)
  show "obeys P (UpdatePassword txu A actor user password)" unfolding UpdatePassword_def by (intro steps)
  show "obeys P (UpdateStatus txs actor user enabled version)" unfolding UpdateStatus_def by (intro steps)
  show "obeys P (CreateInitialAdmin txu A name display password)"
    unfolding CreateInitialAdmin_def by (intro steps) (simp add: active_admin_def)
  show "obeys P (saveAdministrator txc name display hash)" unfolding saveAdministrator_def by (intro steps)
  show "obeys P GetSetupStatus" unfolding GetSetupStatus_def by (intro steps)
qed

lemma projects_logic:
  assumes "transaction_runner txp" "transaction_runner txu"
  shows "obeys P (Project_Create txp actor e pr)" "obeys P (Project_Update txu actor e p pu)"
    "obeys P (Project_List actor e keyword)" "obeys P (Project_Detail actor e p)"
proof -
  note steps = admin_rules all tx_rules assms
  show "obeys P (Project_Create txp actor e pr)" unfolding Project_Create_def by (intro steps)
  show "obeys P (Project_Update txu actor e p pu)" unfolding Project_Update_def by (intro steps)
  show "obeys P (Project_List actor e keyword)" unfolding Project_List_def requireProjectAccess_def by (intro steps)
  show "obeys P (Project_Detail actor e p)" unfolding Project_Detail_def requireProjectAccess_def by (intro steps)
qed

end

section \<open>The invariant of the stored data\<close>

interpretation drf: server_relation draft
  by unfold_locales (intro dft.resolved dft.caching draft_intro; assumption?)+

text \<open>The administrative tables are not part of the invariant.\<close>

definition outside :: "(('r list \<Rightarrow> 'r list) \<Rightarrow> db \<Rightarrow> db) \<Rightarrow> bool" where
  "outside upd \<longleftrightarrow> (\<forall>F d. configs (upd F d) = configs d \<and> structure_rows (upd F d) = structure_rows d \<and>
     enum_rows (upd F d) = enum_rows d \<and> snapshots (upd F d) = snapshots d \<and> api_keys (upd F d) = api_keys d \<and>
     refresh_tokens (upd F d) = refresh_tokens d \<and> import_records (upd F d) = import_records d)"

lemma outside_tables:
  "outside environments_update" "outside users_update" "outside roles_update" "outside projects_update"
  "outside members_update" "outside grants_update" "outside application_secrets_update" "outside audit_logs_update"
  by (simp_all add: outside_def)

lemma outside_draft:
  assumes "outside upd" "\<And>t. last_id w t \<le> last_id w' t" "database w' = upd F (database w) \<or> database w' = database w"
  shows "draft E w w'"
proof (rule draftI [OF assms(2)])
  have same: "snapshots (database w') = snapshots (database w)" using assms(1,3) by (auto simp: outside_def)
  have "tables_ok E ids (database w') = tables_ok E ids (database w)" for ids
    using assms(1,3) by (auto simp: outside_def tables_ok_def)
  then show "tables_ok E (last_id w) (database w) \<Longrightarrow> tables_ok E (last_id w') (database w')"
    using tables_ok_later assms(2) by blast
qed (use assms(1,3) in \<open>auto simp: outside_def\<close>)

lemma outside_statements:
  assumes "outside upd"
  shows "obeys draft (updateM sel upd cond f)" "obeys draft (deleteM upd cond)" "obeys draft (insertM t sel upd clash setID row)"
    "obeys draft (insertAllM t sel upd clash setID rows)"
proof -
  have exec: "obeys draft (execM q)" if "\<And>E d. \<exists>F. snd (q E d) = upd F d \<or> snd (q E d) = d" for q :: "engine \<Rightarrow> db \<Rightarrow> 'z result \<times> db"
  proof (rule draft_execM)
    fix E and w :: world and r :: "'z result" and d'
    assume "q E (database w) = (r, d')"
    with that [of E "database w"] obtain F where "d' = upd F (database w) \<or> d' = database w" by auto
    then show "draft E w (w\<lparr>database := d', tick := Suc (tick w)\<rparr>)" by (intro outside_draft [OF assms, where F = F]) auto
  qed
  have fresh: "obeys draft (fresh_id t)" for t
    by (auto simp: obeys_def fresh_id_def intro!: draftI intro: tables_ok_later)
  show "obeys draft (updateM sel upd cond f)" unfolding updateM_def by (rule exec) auto
  show "obeys draft (deleteM upd cond)" unfolding deleteM_def by (rule exec) auto
  show "obeys draft (insertM t sel upd clash setID row)"
    unfolding insertM_def by (intro dft.combine fresh exec) auto
  show "obeys draft (insertAllM t sel upd clash setID rows)"
    unfolding insertAllM_def by (intro dft.combine fresh exec) auto
qed

lemma draft_system_audit: "obeys draft (RecordSystem log)"
  unfolding RecordSystem_def by (intro dft.combine draft_intro)

lemma draft_bodies:
  shows "obeys draft (environment_Create env log)" "obeys draft (environment_Update e eu log)" "obeys draft (role_Create role log)"
    "obeys draft (role_Update i ru log)" "obeys draft (role_Delete i user log)" "obeys draft (role_UpdatePermissions i ids user log)"
    "obeys draft (ReplaceRoles mru log)" "obeys draft (CreateManagedUser acc log)" "obeys draft (UpdateManagedUser uu log)"
    "obeys draft (UpdateManagedPassword i hash user log)" "obeys draft (UpdateManagedStatus su log)" "obeys draft (CreateOrPromoteSystemAdmin name display hash)"
    "obeys draft (project_Create pr)" "obeys draft (project_Update i pu)" "obeys draft (setup_CreateInitialAdmin acc)"
    "obeys draft MarkInitialized"
proof -
  note steps = dft.combine draft_intro draft_system_audit outside_statements outside_tables
  have bump: "obeys draft (bumpEnvironmentPermissionGenerations es user)" for es user
    unfolding bumpEnvironmentPermissionGenerations_def bumpEnvironmentPermissionGeneration_def by (intro steps)
  have revoke: "obeys draft (revokeUserSessions i now)" for i now
    unfolding revokeUserSessions_def by (intro steps) simp_all
  have locks: "obeys draft (lockRole i)" "obeys draft (lockAssignments i)" "obeys draft (lockPermissions ids)"
    "obeys draft (lockMember e u)" "obeys draft (lockRoles ids)" "obeys draft (lockManagedUser u)" "obeys draft (ensureLastSystemAdmin u)"
    "obeys draft (GetByID i)" "obeys draft loadState" for i ids e u
    unfolding lockRole_def lockAssignments_def lockPermissions_def lockMember_def lockRoles_def ensureRolesContainNoSystemPermissions_def
      lockManagedUser_def requireUser_def ensureLastSystemAdmin_def GetByID_def loadState_def by (intro steps)+
  have audits: "obeys draft (environment_recordAudit e log)" "obeys draft (role_recordAudit e log)" "obeys draft (user_recordAudit e log)"
    for e log unfolding environment_recordAudit_def role_recordAudit_def user_recordAudit_def by (intro steps)+
  note all_steps = steps bump revoke locks audits
  show "obeys draft (environment_Create env log)" "obeys draft (environment_Update e eu log)"
    unfolding environment_Create_def insertEnvironment_def environment_Update_def by (intro all_steps)+
  show "obeys draft (role_Create role log)" "obeys draft (role_Update i ru log)" "obeys draft (role_Delete i user log)"
    unfolding role_Create_def insertRole_def role_Update_def role_Delete_def by (intro all_steps)+
  show "obeys draft (role_UpdatePermissions i ids user log)"
    unfolding role_UpdatePermissions_def replacePermissions_def advancePermissionGenerations_def by (intro all_steps)
  show "obeys draft (ReplaceRoles mru log)" unfolding ReplaceRoles_def replaceLinks_def by (intro all_steps)
  show "obeys draft (CreateManagedUser acc log)" "obeys draft (UpdateManagedUser uu log)"
    unfolding CreateManagedUser_def insertUser_def UpdateManagedUser_def updateManagedUser_def Let_def by (intro all_steps)+
  show "obeys draft (UpdateManagedPassword i hash user log)" "obeys draft (UpdateManagedStatus su log)"
    unfolding UpdateManagedPassword_def UpdateManagedStatus_def updateManagedUser_def Let_def by (intro all_steps)+
  show "obeys draft (CreateOrPromoteSystemAdmin name display hash)"
    unfolding CreateOrPromoteSystemAdmin_def createSystemAdmin_def promoteSystemAdmin_def insertUser_def by (intro all_steps)
  show "obeys draft (project_Create pr)" "obeys draft (project_Update i pu)"
    unfolding project_Create_def insertProject_def project_Update_def by (intro all_steps)+
  show "obeys draft (setup_CreateInitialAdmin acc)" "obeys draft MarkInitialized"
    unfolding setup_CreateInitialAdmin_def MarkInitialized_def markInitialized_def insertUser_def by (intro all_steps)+
qed

interpretation drf_admin: admin_relation draft
  by unfold_locales (rule dft.resolved dft.caching | erule dft.transaction, (intro dft.compose draft_bodies draft_system_audit))+

end
