(* ===== verification/Server.thy ===== *)
theory Server
  imports Calls
begin

text \<open>
  The server as a state machine: one step is one call of an operation, with any arguments and any failures of
  the outside world. The invariant holds in every reachable state, and the machine refines an abstract store of
  releases that only publication and withdrawal change.
\<close>

section \<open>Publication and the release map\<close>

definition releases :: "snapshot_row list \<Rightarrow> int \<times> int \<Rightarrow> (int \<times> string) option" where
  "releases rows = map_of (List.map_filter release_entry rows)"

lemma release_map_releases: "release_map d = releases (snapshots d)"
  by (simp add: release_map_def releases_def)

lemma released_entries: "(k, v) \<in> set (List.map_filter release_entry rows) \<longleftrightarrow>
    (\<exists>s \<in> set rows. live_released s \<and> k = owner s \<and> v = (ID s, s_Content s))"
  by (force simp: map_filter_def release_entry_def split: if_splits)

lemma releases_iff:
  assumes "one_per_config live_released rows" "distinct (map ID rows)"
  shows "releases rows k = Some v \<longleftrightarrow> (\<exists>s \<in> set rows. live_released s \<and> k = owner s \<and> v = (ID s, s_Content s))"
proof
  assume "releases rows k = Some v"
  then show "\<exists>s \<in> set rows. live_released s \<and> k = owner s \<and> v = (ID s, s_Content s)"
    unfolding releases_def by (rule map_of_SomeD [THEN released_entries [THEN iffD1]])
next
  assume "\<exists>s \<in> set rows. live_released s \<and> k = owner s \<and> v = (ID s, s_Content s)"
  then obtain s where s: "s \<in> set rows" "live_released s" "k = owner s" "v = (ID s, s_Content s)" by blast
  then have "(k, v) \<in> set (List.map_filter release_entry rows)" using released_entries by blast
  then obtain v' where v': "releases rows k = Some v'"
    unfolding releases_def by (metis map_of_eq_None_iff option.exhaust image_eqI fst_conv)
  then obtain t where t: "t \<in> set rows" "live_released t" "k = owner t" "v' = (ID t, s_Content t)"
    unfolding releases_def using map_of_SomeD released_entries by metis
  have "ID t = ID s"
    using assms(1) [unfolded one_per_config_def, rule_format, OF t(1) s(1) t(2) s(2)] t(3) s(3) by metis
  with row_unique [OF assms(2) t(1) s(1)] have "t = s" by blast
  with v' t(4) s(4) show "releases rows k = Some v" by simp
qed

lemma one_per_config_map:
  assumes "\<And>s t. s \<in> set rows \<Longrightarrow> t \<in> set rows \<Longrightarrow> sel (g s) \<Longrightarrow> sel (g t) \<Longrightarrow> owner s = owner t \<Longrightarrow> ID s = ID t"
    "\<And>r. ID (g r) = ID r" "\<And>r. owner (g r) = owner r"
  shows "one_per_config sel (map g rows)"
  unfolding one_per_config_def set_map ball_simps assms(2,3) by (intro ballI impI) (rule assms(1))

lemma releases_switch:
  assumes one: "one_per_config live_released rows" and ids: "distinct (map ID rows)" and t: "t \<in> set rows" "owner t = k"
    and g: "\<And>r. ID (g r) = ID r" "\<And>r. owner (g r) = owner r" "\<And>r. s_Content (g r) = s_Content r"
    and rel: "\<And>r. r \<in> set rows \<Longrightarrow> live_released (g r) \<longleftrightarrow> ID r = ID t \<or> (live_released r \<and> owner r \<noteq> k)"
  shows "one_per_config live_released (map g rows) \<and> releases (map g rows) = (releases rows)(k \<mapsto> (ID t, s_Content t))"
proof
  have same: "r = t" if "r \<in> set rows" "ID r = ID t" for r using row_unique [OF ids that(1) t(1)] that(2) by blast
  show one': "one_per_config live_released (map g rows)"
  proof (rule one_per_config_map [OF _ g(1,2)])
    fix r s
    assume r: "r \<in> set rows" "live_released (g r)" and s: "s \<in> set rows" "live_released (g s)" and own: "owner r = owner s"
    show "ID r = ID s"
    proof (cases "owner r = k")
      case True
      with own r s rel t(2) show ?thesis by metis
    next
      case False
      with own r s rel same t(2) have "live_released r" "live_released s" by metis+
      with one [unfolded one_per_config_def, rule_format, OF r(1) s(1)] own show ?thesis by blast
    qed
  qed
  have "releases (map g rows) q = Some v \<longleftrightarrow> ((releases rows)(k \<mapsto> (ID t, s_Content t))) q = Some v" for q v
  proof -
    have "distinct (map ID (map g rows))" using ids g(1) by (simp add: comp_def)
    from releases_iff [OF one' this, of q v]
    have "releases (map g rows) q = Some v \<longleftrightarrow> (\<exists>s \<in> set rows. live_released (g s) \<and> q = owner s \<and> v = (ID s, s_Content s))"
      by (simp add: g)
    also have "\<dots> \<longleftrightarrow> (if q = k then v = (ID t, s_Content t) else \<exists>s \<in> set rows. live_released s \<and> q = owner s \<and> v = (ID s, s_Content s))"
      using rel same t by (cases "q = k") metis+
    also have "\<dots> \<longleftrightarrow> ((releases rows)(k \<mapsto> (ID t, s_Content t))) q = Some v"
      using releases_iff [OF one ids, of q v] by auto
    finally show ?thesis .
  qed
  then show "releases (map g rows) = (releases rows)(k \<mapsto> (ID t, s_Content t))"
    by (intro ext) (metis option.exhaust)
qed

lemma releases_drop:
  assumes one: "one_per_config live_released rows" and ids: "distinct (map ID rows)"
    and g: "\<And>r. ID (g r) = ID r" "\<And>r. owner (g r) = owner r" "\<And>r. s_Content (g r) = s_Content r"
    and rel: "\<And>r. r \<in> set rows \<Longrightarrow> live_released (g r) \<longleftrightarrow> live_released r \<and> owner r \<noteq> k"
  shows "one_per_config live_released (map g rows) \<and> releases (map g rows) = (releases rows)(k := None)"
proof
  show one': "one_per_config live_released (map g rows)"
    by (rule one_per_config_map [OF _ g(1,2)]) (use one rel in \<open>unfold one_per_config_def, blast\<close>)
  have "releases (map g rows) q = Some v \<longleftrightarrow> ((releases rows)(k := None)) q = Some v" for q v
  proof -
    have "distinct (map ID (map g rows))" using ids g(1) by (simp add: comp_def)
    from releases_iff [OF one' this, of q v]
    have "releases (map g rows) q = Some v \<longleftrightarrow> (\<exists>s \<in> set rows. live_released (g s) \<and> q = owner s \<and> v = (ID s, s_Content s))"
      by (simp add: g)
    also have "\<dots> \<longleftrightarrow> q \<noteq> k \<and> (\<exists>s \<in> set rows. live_released s \<and> q = owner s \<and> v = (ID s, s_Content s))"
      using rel by blast
    also have "\<dots> \<longleftrightarrow> ((releases rows)(k := None)) q = Some v"
      using releases_iff [OF one ids, of q v] by auto
    finally show ?thesis .
  qed
  then show "releases (map g rows) = (releases rows)(k := None)"
    by (intro ext) (metis option.exhaust)
qed

definition publication_row :: "publicationChange \<Rightarrow> snapshot_row \<Rightarrow> snapshot_row" where
  "publication_row change r =
     (let user = Actor_UserID (request_actor (change_request change)); now = change_changedAt change in
      if ID r = ID (change_target change)
      then if request_status (change_request change) = SnapshotStatusUnreleased then retire_row user now r else release_row user now r
      else if request_status (change_request change) \<noteq> SnapshotStatusUnreleased \<and> released_in (change_config change) r
      then retire_row user now r else r)"

lemma publication_rows_map: "publication_rows change rows = map (publication_row change) rows"
  by (auto simp: publication_rows_def publication_row_def Let_def unpublish_rows_def publish_rows_def update_rows_def)

lemma publication_row_keeps:
  "ID (publication_row change r) = ID r" "owner (publication_row change r) = owner r"
  "s_Content (publication_row change r) = s_Content r" "live_current (publication_row change r) = live_current r"
  "snapshot_ok r \<Longrightarrow> snapshot_ok (publication_row change r)"
  by (auto simp: publication_row_def Let_def owner_def live_current_def snapshot_ok_def retire_row_def release_row_def)

lemma publication_release:
  assumes "publication_ready K iter d request change" "one_per_config live_released (snapshots d)" "distinct (map ID (snapshots d))"
    "request_status request = SnapshotStatusUnreleased \<or> request_status request = SnapshotStatusReleased"
  shows "one_per_config live_released (publication_rows change (snapshots d)) \<and>
    releases (publication_rows change (snapshots d)) = (releases (snapshots d))(owner (change_target change) :=
      (if request_status request = SnapshotStatusReleased then Some (ID (change_target change), s_Content (change_target change)) else None))"
proof -
  let ?t = "change_target change" and ?c = "change_config change"
  have rq: "change_request change = request" and t: "?t \<in> set (snapshots d)" "DeletedAt ?t = None" "owner ?t = (c_ProjectID ?c, ID ?c)"
    and st: "s_Status ?t \<noteq> request_status request" "s_Status ?t = SnapshotStatusUnreleased \<or> s_Status ?t = SnapshotStatusReleased"
    using assms(1) by (auto simp: publication_ready_def Let_def owner_def)
  have same: "r = ?t" if "r \<in> set (snapshots d)" "ID r = ID ?t" for r using row_unique [OF assms(3) that(1) t(1)] that(2) by blast
  have scope: "released_in ?c r \<longleftrightarrow> live_released r \<and> owner r = owner ?t" for r
    using t(3) by (auto simp: released_in_def live_released_def owner_def)
  show ?thesis
  proof (cases "request_status request = SnapshotStatusReleased")
    case True
    have "live_released (publication_row change r) \<longleftrightarrow> ID r = ID ?t \<or> live_released r \<and> owner r \<noteq> owner ?t"
      if "r \<in> set (snapshots d)" for r
      using True rq t(2) same [OF that]
      by (cases "ID r = ID ?t") (auto simp: publication_row_def Let_def scope live_released_def)
    with releases_switch [OF assms(2,3) t(1) refl publication_row_keeps(1-3)] True show ?thesis
      by (simp add: publication_rows_map)
  next
    case False
    with assms(4) st have un: "request_status request = SnapshotStatusUnreleased" and rel: "live_released ?t"
      using t(2) by (auto simp: live_released_def)
    have "live_released (publication_row change r) \<longleftrightarrow> live_released r \<and> owner r \<noteq> owner ?t"
      if r: "r \<in> set (snapshots d)" for r
    proof (cases "ID r = ID ?t")
      case True
      with same [OF r] un rq show ?thesis by (simp add: publication_row_def Let_def live_released_def)
    next
      case False
      then have "live_released r \<Longrightarrow> owner r \<noteq> owner ?t"
        using assms(2) [unfolded one_per_config_def, rule_format, OF r t(1) _ rel] by blast
      with False un rq show ?thesis by (auto simp: publication_row_def Let_def)
    qed
    with releases_drop [OF assms(2,3) publication_row_keeps(1-3)] False show ?thesis
      by (simp add: publication_rows_map)
  qed
qed

lemma publication_tables:
  assumes "publication_ready K iter d request change" "tables_ok E ids d"
  shows "tables_ok E ids (audit_logs_update F (configs_update (next_generation (ID (change_config change)) now)
    (snapshots_update (publication_rows change) d)))"
proof -
  let ?c = "change_config change"
  have c: "?c \<in> set (configs d)" "c_RuntimeVersion ?c \<noteq> MaxInt64_value" and dist: "distinct (map ID (configs d))"
    using assms by (auto simp: publication_ready_def Let_def tables_ok_def table_ok_def)
  have next_row: "if ID r = ID ?c then config_ok (r\<lparr>c_RuntimeVersion := c_RuntimeVersion r + 1, UpdatedAt := now\<rparr>) else config_ok r"
    if "r \<in> set (configs d)" "config_ok r" for r
    using that(2) c(2) row_unique [OF dist that(1) c(1)] by (auto simp: config_ok_def)
  have "table_ok ID config_key (same_key E) config_ok n (next_generation (ID ?c) now (configs d))"
    if "table_ok ID config_key (same_key E) config_ok n (configs d)" for n
  proof -
    have "\<forall>r \<in> set (next_generation (ID ?c) now (configs d)). config_ok r"
      unfolding next_generation_def update_rows_ball
      using that next_row unfolding table_ok_def by blast
    moreover have "table_ok ID config_key (same_key E) (\<lambda>_. True) n (next_generation (ID ?c) now (configs d))"
      unfolding next_generation_def by (rule table_ok_update) (use that in \<open>auto simp: table_ok_def\<close>)
    ultimately show ?thesis by (simp add: table_ok_def)
  qed
  moreover have "table_ok ID (\<lambda>_. ()) (\<lambda>_ _. False) snapshot_ok n (publication_rows change (snapshots d))"
    if "table_ok ID (\<lambda>_. ()) (\<lambda>_ _. False) snapshot_ok n (snapshots d)" for n
    using that publication_row_keeps(5) by (auto simp: table_ok_def publication_rows_map publication_row_keeps comp_def)
  ultimately show ?thesis using assms(2) by (simp add: tables_ok_def)
qed

lemma publication_invariant:
  assumes "publication_ready K iter (database w) request change" "invariant E w" "\<And>t. last_id w t \<le> last_id w' t"
    "database w' = audit_logs_update F (configs_update (next_generation (ID (change_config change)) now)
       (snapshots_update (publication_rows change) (database w)))"
    "request_status request = SnapshotStatusUnreleased \<or> request_status request = SnapshotStatusReleased"
  shows "invariant E w'"
proof -
  have dist: "distinct (map ID (snapshots (database w)))" and tab: "tables_ok E (last_id w) (database w)"
    using assms(2) by (auto simp: invariant_def tables_ok_def table_ok_def)
  have "tables_ok E (last_id w') (database w')"
    unfolding assms(4) by (rule tables_ok_later [OF publication_tables [OF assms(1) tab] assms(3)])
  moreover have "one_per_config live_released (snapshots (database w'))"
    using publication_release [OF assms(1) _ dist assms(5)] assms(2,4) by (simp add: invariant_def)
  moreover have "one_per_config live_current (snapshots (database w'))"
  proof -
    from assms(2) have "one_per_config live_current (snapshots (database w))" by (simp add: invariant_def)
    then have "one_per_config live_current (map (publication_row change) (snapshots (database w)))"
      unfolding one_per_config_def set_map ball_simps publication_row_keeps .
    then show ?thesis unfolding assms(4) by (simp add: publication_rows_map)
  qed
  ultimately show ?thesis by (simp add: invariant_def)
qed

text \<open>A call of \<^verbatim>\<open>Publish\<close> or \<^verbatim>\<open>Unpublish\<close>: on success the release of one config changes, on failure nothing does.\<close>

lemma changePublication_step:
  assumes tx: "transaction_runner tx" and run: "changePublication tx K iter request E w = (r, w')" and inv: "invariant E w"
    and st: "request_status request = SnapshotStatusUnreleased \<or> request_status request = SnapshotStatusReleased"
  shows "invariant E w' \<and> release_map (database w') = (case r of
      Inl e \<Rightarrow> release_map (database w)
    | Inr s \<Rightarrow> (release_map (database w))(owner s :=
        (if request_status request = SnapshotStatusReleased then Some (ID s, s_Content s) else None)))"
proof -
  let ?body = "\<lambda>found. bindM (preparePublication K iter request (s_ConfigID found)) (\<lambda>change.
                bindM (persistPublication change) (\<lambda>_. returnM change))"
  have still: "invariant E w2 \<and> release_map (database w2) = release_map (database w1)"
    if "invariant E w1" "database w2 = database w1" "\<And>t. last_id w1 t \<le> last_id w2 t" for w1 w2
    using that by (auto simp: invariant_def intro: tables_ok_later)
  have auth: "obeys frozen (authorizedSnapshot request)"
    unfolding authorizedSnapshot_def by (intro frz.combine frz.require frz.reading [OF lookups_read(4)])
  have only: "database_only (?body found)" for found
    by (intro database_intro reads_database_only [OF reads_preparePublication])
  have success: "invariant E w2 \<and> release_map (database w2) = (release_map (database w1))(owner (change_target change) :=
      (if request_status request = SnapshotStatusReleased then Some (ID (change_target change), s_Content (change_target change)) else None))"
    if body: "?body found E w1 = (Inr change, w2)" and inv1: "invariant E w1" for found change w1 w2
  proof -
    have dist: "distinct (map ID (configs (database w1)))" "distinct (map ID (snapshots (database w1)))"
      using inv1 by (auto simp: invariant_def tables_ok_def table_ok_def)
    from body obtain w0 where prep: "preparePublication K iter request (s_ConfigID found) E w1 = (Inr change, w0)"
      and pers: "persistPublication change E w0 = (Inr (), w2)" by (auto simp: run_simps)
    from preparePublication_Inr [OF prep dist(1)]
    have ready: "publication_ready K iter (database w1) request change" and q: "database w0 = database w1" "last_id w0 = last_id w1"
      by (auto simp: quiet_def)
    from persistPublication_Inr [OF pers, unfolded q(1), OF ready dist(2,1) st] obtain row now where
      d2: "database w2 = audit_logs_update (\<lambda>rows. rows @ [row]) (configs_update (next_generation (ID (change_config change)) now)
        (snapshots_update (publication_rows change) (database w1)))"
      and ids: "last_id w2 = (last_id w1)(AuditLogsTable := last_id w1 AuditLogsTable + 1)" using q(2) by auto
    have "invariant E w2" by (rule publication_invariant [OF ready inv1 _ d2 st]) (simp add: ids)
    moreover have "one_per_config live_released (snapshots (database w1))" using inv1 by (simp add: invariant_def)
    ultimately show ?thesis
      using publication_release [OF ready _ dist(2) st] by (simp add: d2 release_map_releases)
  qed
  show ?thesis
    using run unfolding changePublication_def
  proof (cases rule: bindM_elim)
    case (fails e)
    with obeysD [OF auth fails(1)] still [OF inv] show ?thesis by (simp add: frozen_def)
  next
    case (continues found w1)
    have inv1: "invariant E w1" and d1: "database w1 = database w"
      using obeysD [OF auth continues(1)] still [OF inv] by (simp_all add: frozen_def)
    from continues(2) show ?thesis
    proof (cases rule: bindM_elim)
      case (fails e)
      from tx_rollback [OF tx fails(1)] obtain x w2 where b: "?body found E w1 = (x, w2)" and w': "w' = w2\<lparr>database := database w1\<rparr>"
        by blast
      have "invariant E w' \<and> release_map (database w') = release_map (database w1)"
        by (rule still [OF inv1]) (use database_onlyD [OF only b] in \<open>auto simp: w' database_step_def\<close>)
      with fails(2) d1 show ?thesis by simp
    next
      case (continues change w2)
      note ok = success [OF tx_commit [OF tx continues(1)] inv1]
      obtain c w3 where cl: "publish_cleanup (change_cleanupKey change) E w2 = (c, w3)" by fastforce
      note ce = publish_cleanup_effect [OF cl]
      with continues(2) cl have "w' = w3" and r: "r = Inr (change_result change)" by (simp_all add: bindM_def returnM_def)
      with still [of w2 w3] ok ce have "invariant E w'" "release_map (database w') = release_map (database w2)" by auto
      moreover have "owner (change_result change) = owner (change_target change)" "ID (change_result change) = ID (change_target change)"
        "s_Content (change_result change) = s_Content (change_target change)"
        by (simp_all add: change_result_def Let_def owner_def)
      ultimately show ?thesis using ok r d1 by (simp only: sum.case simp_thms)
    qed
  qed
qed

section \<open>The state machine\<close>

text \<open>One call of an operation that does not publish; every argument, result and failure is allowed.\<close>

inductive editing_call :: "engine \<Rightarrow> world \<Rightarrow> world \<Rightarrow> bool" for E where
  config_create: "transaction_runner txc \<Longrightarrow> Config_Create txc K actor e cinput E w = (rc, w') \<Longrightarrow> editing_call E w w'"
| config_update: "transaction_runner txu \<Longrightarrow> Config_Update txu K iter actor e uinput E w = (rc, w') \<Longrightarrow> editing_call E w w'"
| config_value: "transaction_runner txu \<Longrightarrow> Config_UpdateValue txu K iter actor e vinput E w = (rc, w') \<Longrightarrow> editing_call E w w'"
| config_delete: "transaction_runner txu \<Longrightarrow> Config_Delete txu actor e c E w = (ru, w') \<Longrightarrow> editing_call E w w'"
| config_list: "Config_List order actor e flt E w = (rl, w') \<Longrightarrow> editing_call E w w'"
| config_detail: "Config_Detail K iter actor e c E w = (rd, w') \<Longrightarrow> editing_call E w w'"
| structure_create: "transaction_runner txi \<Longrightarrow> Structure_Create txi K iter actor e sinput E w = (rh, w') \<Longrightarrow> editing_call E w w'"
| structure_update: "transaction_runner txu \<Longrightarrow> Structure_Update txu K iter actor e suinput E w = (rh, w') \<Longrightarrow> editing_call E w w'"
| structure_delete: "transaction_runner txu \<Longrightarrow> Structure_Delete txu K iter actor e i E w = (ru, w') \<Longrightarrow> editing_call E w w'"
| structure_list: "Structure_List K actor e slinput E w = (rsl, w') \<Longrightarrow> editing_call E w w'"
| enum_create: "transaction_runner txi \<Longrightarrow> Enum_Create txi K iter actor e einput E w = (rh, w') \<Longrightarrow> editing_call E w w'"
| enum_update: "transaction_runner txu \<Longrightarrow> Enum_Update txu K iter actor e euinput E w = (rh, w') \<Longrightarrow> editing_call E w w'"
| enum_delete: "transaction_runner txu \<Longrightarrow> Enum_Delete txu K iter actor e i E w = (ru, w') \<Longrightarrow> editing_call E w w'"
| enum_list: "Enum_List actor e p c E w = (rel, w') \<Longrightarrow> editing_call E w w'"
| snapshot_create: "transaction_runner txi \<Longrightarrow> Snapshot_Create txi K iter actor e ninput E w = (rs, w') \<Longrightarrow> editing_call E w w'"
| snapshot_preview: "transaction_runner txs \<Longrightarrow> Snapshot_Preview txs K iter actor e c E w = (rt, w') \<Longrightarrow> editing_call E w w'"
| snapshot_delete: "transaction_runner txu \<Longrightarrow> Snapshot_Delete txu actor e s E w = (ru, w') \<Longrightarrow> editing_call E w w'"
| snapshot_get: "Snapshot_Get actor e s E w = (rs, w') \<Longrightarrow> editing_call E w w'"
| snapshot_load: "transaction_runner txu \<Longrightarrow> Load txu K iter actor e c s E w = (rs, w') \<Longrightarrow> editing_call E w w'"
| snapshot_current: "Current actor e c E w = (rs, w') \<Longrightarrow> editing_call E w w'"
| snapshot_released: "Released actor e c E w = (rs, w') \<Longrightarrow> editing_call E w w'"
| snapshot_list: "Snapshot_List actor e linput E w = (rpl, w') \<Longrightarrow> editing_call E w w'"
| import_call: "transaction_runner txo \<Longrightarrow> Import txo sha256 returning uuid K iter actor request E w = (ri, w') \<Longrightarrow> editing_call E w w'"
| export_call: "Export K iter actor e s E w = (rs, w') \<Longrightarrow> editing_call E w w'"
| key_create: "transaction_runner txk \<Longrightarrow> APIKey_Create txk hmac pepper random1 random2 actor e p name E w = (rk, w') \<Longrightarrow> editing_call E w w'"
| key_rotate: "transaction_runner txk \<Longrightarrow> APIKey_Rotate txk hmac pepper random1 random2 actor e p i E w = (rk, w') \<Longrightarrow> editing_call E w w'"
| key_revoke: "transaction_runner txu \<Longrightarrow> APIKey_Revoke txu actor e p i E w = (ru, w') \<Longrightarrow> editing_call E w w'"
| key_list: "APIKey_List actor e p E w = (rkl, w') \<Longrightarrow> editing_call E w w'"
| read: "transaction_runner txr \<Longrightarrow> Read txr K hmac pepper credential project key E w = (rr, w') \<Longrightarrow> editing_call E w w'"
| login: "transaction_runner txt \<Longrightarrow> transaction_runner txu \<Longrightarrow> Login txt txu A username password ip E w = (ra, w') \<Longrightarrow> editing_call E w w'"
| refresh: "transaction_runner txt \<Longrightarrow> transaction_runner txu \<Longrightarrow> Refresh txt txu A token E w = (rf, w') \<Longrightarrow> editing_call E w w'"
| logout: "transaction_runner txu \<Longrightarrow> Logout txu A token E w = (ru, w') \<Longrightarrow> editing_call E w w'"
| me: "Me user E w = (rm, w') \<Longrightarrow> editing_call E w w'"

text \<open>One call of an administrative operation, the first-run setup and the administrator command included.\<close>

inductive admin_call :: "engine \<Rightarrow> world \<Rightarrow> world \<Rightarrow> bool" for E where
  environment_list: "Environment_List actor E w = (rl, w') \<Longrightarrow> admin_call E w w'"
| environment_create: "transaction_runner txe \<Longrightarrow> Environment_Create txe actor env E w = (re, w') \<Longrightarrow> admin_call E w w'"
| environment_update: "transaction_runner txu \<Longrightarrow> Environment_Update txu actor e eu E w = (re, w') \<Longrightarrow> admin_call E w w'"
| verify_project: "VerifyProject e p E w = (ru, w') \<Longrightarrow> admin_call E w w'"
| own_permissions: "Environment_Permissions actor e E w = (rk, w') \<Longrightarrow> admin_call E w w'"
| member_list: "Environment_ListMembers actor e E w = (rm, w') \<Longrightarrow> admin_call E w w'"
| member_roles: "transaction_runner txu \<Longrightarrow> UpdateMemberRoles txu actor e user ids E w = (ru, w') \<Longrightarrow> admin_call E w w'"
| role_list: "Role_List actor E w = (rr, w') \<Longrightarrow> admin_call E w w'"
| role_create: "transaction_runner txr \<Longrightarrow> Role_Create txr actor role E w = (rw, w') \<Longrightarrow> admin_call E w w'"
| role_update: "transaction_runner txu \<Longrightarrow> Role_Update txu actor i rup E w = (rw, w') \<Longrightarrow> admin_call E w w'"
| role_delete: "transaction_runner txu \<Longrightarrow> Role_Delete txu actor i E w = (ru, w') \<Longrightarrow> admin_call E w w'"
| permission_list: "Role_ListPermissions actor E w = (rp, w') \<Longrightarrow> admin_call E w w'"
| role_permissions: "transaction_runner txa \<Longrightarrow> Role_UpdatePermissions txa actor i ids E w = (ru, w') \<Longrightarrow> admin_call E w w'"
| user_list: "User_List actor E w = (rul, w') \<Longrightarrow> admin_call E w w'"
| user_create: "transaction_runner txs \<Longrightarrow> User_Create txs A actor uc E w = (rus, w') \<Longrightarrow> admin_call E w w'"
| user_update: "transaction_runner txs \<Longrightarrow> User_Update txs actor uup E w = (rus, w') \<Longrightarrow> admin_call E w w'"
| user_password: "transaction_runner txu \<Longrightarrow> UpdatePassword txu A actor user password E w = (ru, w') \<Longrightarrow> admin_call E w w'"
| user_status: "transaction_runner txs \<Longrightarrow> UpdateStatus txs actor user enabled version E w = (rus, w') \<Longrightarrow> admin_call E w w'"
| project_create: "transaction_runner txp \<Longrightarrow> Project_Create txp actor e pr E w = (rpr, w') \<Longrightarrow> admin_call E w w'"
| project_update: "transaction_runner txu \<Longrightarrow> Project_Update txu actor e p pu E w = (rpr, w') \<Longrightarrow> admin_call E w w'"
| project_list: "Project_List actor e keyword E w = (rpl, w') \<Longrightarrow> admin_call E w w'"
| project_detail: "Project_Detail actor e p E w = (rpr, w') \<Longrightarrow> admin_call E w w'"
| setup_status: "GetSetupStatus E w = (rb, w') \<Longrightarrow> admin_call E w w'"
| setup_admin: "transaction_runner txu \<Longrightarrow> CreateInitialAdmin txu A name display password E w = (ru, w') \<Longrightarrow> admin_call E w w'"
| cli_admin: "transaction_runner txc \<Longrightarrow> saveAdministrator txc name display hash E w = (rc, w') \<Longrightarrow> admin_call E w w'"

text \<open>What a step does to the releases.\<close>

datatype release_action = Releases "int \<times> int" int string | Withdraws "int \<times> int" | Nothing

inductive server_step :: "engine \<Rightarrow> release_action \<Rightarrow> world \<Rightarrow> world \<Rightarrow> bool" for E where
  edit: "editing_call E w w' \<Longrightarrow> server_step E Nothing w w'"
| administer: "admin_call E w w' \<Longrightarrow> server_step E Nothing w w'"
| publish: "transaction_runner tx \<Longrightarrow> Publish tx K iter actor e s v E w = (Inr row, w') \<Longrightarrow>
    server_step E (Releases (owner row) (ID row) (s_Content row)) w w'"
| publish_refused: "transaction_runner tx \<Longrightarrow> Publish tx K iter actor e s v E w = (Inl err, w') \<Longrightarrow> server_step E Nothing w w'"
| unpublish: "transaction_runner tx \<Longrightarrow> Unpublish tx K iter actor e s v E w = (Inr row, w') \<Longrightarrow> server_step E (Withdraws (owner row)) w w'"
| unpublish_refused: "transaction_runner tx \<Longrightarrow> Unpublish tx K iter actor e s v E w = (Inl err, w') \<Longrightarrow> server_step E Nothing w w'"

inductive server_run :: "engine \<Rightarrow> release_action list \<Rightarrow> world \<Rightarrow> world \<Rightarrow> bool" for E where
  start: "server_run E [] w w"
| continue: "server_run E acts w w' \<Longrightarrow> server_step E act w' w'' \<Longrightarrow> server_run E (acts @ [act]) w w''"

text \<open>The abstract machine: a map from configs to the released snapshot and its content.\<close>

fun abstract_step :: "release_action \<Rightarrow> (int \<times> int \<Rightarrow> (int \<times> string) option) \<Rightarrow> int \<times> int \<Rightarrow> (int \<times> string) option" where
  "abstract_step (Releases k s content) m = m(k \<mapsto> (s, content))"
| "abstract_step (Withdraws k) m = m(k := None)"
| "abstract_step Nothing m = m"

context server_relation
begin

lemma editing: "editing_call E w w' \<Longrightarrow> P E w w'"
  by (induction rule: editing_call.induct)
    (auto intro: drafts [THEN obeysD] children [THEN obeysD] snapshots [THEN obeysD] transfer [THEN obeysD]
      keys [THEN obeysD] auth [THEN obeysD] run_tx_runner)

end

context admin_relation
begin

lemma administering: "admin_call E w w' \<Longrightarrow> P E w w'"
  by (induction rule: admin_call.induct)
    (auto intro: environments [THEN obeysD] roles_logic [THEN obeysD] accounts [THEN obeysD]
      projects_logic [THEN obeysD] run_tx_runner)

end

lemma server_step_refines:
  assumes "collation E" "invariant E w" "server_step E act w w'"
  shows "invariant E w' \<and> release_map (database w') = abstract_step act (release_map (database w))"
  using assms(3)
proof cases
  case edit
  with drf.editing assms(1,2) show ?thesis by (simp add: draft_def)
next
  case administer
  with drf_admin.administering assms(1,2) show ?thesis by (simp add: draft_def)
next
  case (publish tx K iter actor e s v row)
  from changePublication_step [OF publish(2) publish(3) [unfolded Publish_def] assms(2)] publish(1) show ?thesis by simp
next
  case (publish_refused tx K iter actor e s v err)
  from changePublication_step [OF publish_refused(2) publish_refused(3) [unfolded Publish_def] assms(2)] publish_refused(1) show ?thesis by simp
next
  case (unpublish tx K iter actor e s v row)
  from changePublication_step [OF unpublish(2) unpublish(3) [unfolded Unpublish_def] assms(2)] unpublish(1) show ?thesis by simp
next
  case (unpublish_refused tx K iter actor e s v err)
  from changePublication_step [OF unpublish_refused(2) unpublish_refused(3) [unfolded Unpublish_def] assms(2)] unpublish_refused(1)
  show ?thesis by simp
qed

lemma server_run_step:
  "server_run E acts w w' \<Longrightarrow> collation E \<Longrightarrow> invariant E w \<Longrightarrow>
   invariant E w' \<and> release_map (database w') = fold abstract_step acts (release_map (database w))"
proof (induction rule: server_run.induct)
  case (start w)
  then show ?case by simp
next
  case (continue acts w w' act w'')
  with server_step_refines [OF continue.prems(1) _ continue.hyps(2)] show ?case by simp
qed

section \<open>Every reachable state\<close>

text \<open>
  C2. Whatever operations are called, in whatever order, with whatever failures of the database and the cache, the
  stored data stays consistent: a config has at most one released and at most one current snapshot, no two
  configs of a project share a key in the database's collation, generation counters stay inside \<^verbatim>\<open>int64\<close>,
  and identifiers stay distinct and below the ones still to be handed out.
\<close>

theorem server_consistent:
  assumes "collation E" "invariant E w" "server_run E acts w w'"
  shows "invariant E w' \<and>
    (\<forall>s \<in> set (snapshots (database w')). \<forall>t \<in> set (snapshots (database w')). owner s = owner t \<longrightarrow>
       (live_released s \<and> live_released t) \<or> (live_current s \<and> live_current t) \<longrightarrow> s = t) \<and>
    (\<forall>c \<in> set (configs (database w')). \<forall>c' \<in> set (configs (database w')).
       c_ProjectID c = c_ProjectID c' \<longrightarrow> same_text E (c_Key c) (c_Key c') \<longrightarrow> c = c') \<and>
    (\<forall>c \<in> set (configs (database w')). 0 \<le> c_RuntimeVersion c \<and> c_RuntimeVersion c \<le> MaxInt64_value)"
proof -
  from server_run_step [OF assms(3,1,2)] have inv: "invariant E w'" ..
  then have snaps: "distinct (map ID (snapshots (database w')))" and cfgs: "distinct (map ID (configs (database w')))"
    and keys: "\<forall>c \<in> set (configs (database w')). \<forall>c' \<in> set (configs (database w')). ID c \<noteq> ID c' \<longrightarrow>
        \<not> same_key E (config_key c) (config_key c')"
    and ok: "\<forall>c \<in> set (configs (database w')). config_ok c"
    by (auto simp: invariant_def tables_ok_def table_ok_def)
  have "s = t" if "s \<in> set (snapshots (database w'))" "t \<in> set (snapshots (database w'))" "owner s = owner t"
    "(live_released s \<and> live_released t) \<or> (live_current s \<and> live_current t)" for s t
  proof (rule row_unique [OF snaps that(1,2)])
    show "ID s = ID t"
      using inv that unfolding invariant_def one_per_config_def by blast
  qed
  moreover have "c = c'" if "c \<in> set (configs (database w'))" "c' \<in> set (configs (database w'))"
    "c_ProjectID c = c_ProjectID c'" "same_text E (c_Key c) (c_Key c')" for c c'
    by (rule row_unique [OF cfgs that(1,2)]) (use keys that in auto)
  ultimately show ?thesis using inv ok by (auto simp: config_ok_def)
qed

text \<open>
  C1. The server refines the abstract store of releases: after any sequence of calls, what is released is what
  the successful publications and withdrawals among them say, in their order. Editing drafts, snapshots,
  structures and enums, importing, managing keys, administration, signing in and reading change nothing of it.
\<close>

theorem server_refines_store:
  assumes "collation E" "invariant E w" "server_run E acts w w'"
  shows "release_map (database w') = fold abstract_step acts (release_map (database w))"
  using server_run_step [OF assms(3,1,2)] ..

text \<open>
  C4. The snapshot the runtime API finds for a config is the one the abstract store names: the lookup returns
  exactly its identifier and content, and reports a missing snapshot only when nothing is released.
\<close>

theorem runtime_lookup_abstract:
  assumes "collation E" "invariant E w" "server_run E acts w w'" "FindReleasedSnapshot p c E w' = (r, w'')"
  shows "case r of
      Inr s \<Rightarrow> fold abstract_step acts (release_map (database w)) (p, c) = Some (ID s, s_Content s)
    | Inl (NotFound _) \<Rightarrow> fold abstract_step acts (release_map (database w)) (p, c) = None
    | Inl _ \<Rightarrow> database w'' = database w'"
proof -
  let ?rows = "filter (\<lambda>s. s_ProjectID s = p \<and> s_ConfigID s = c \<and> s_Status s = SnapshotStatusReleased \<and> DeletedAt s = None) (snapshots (database w'))"
  from server_run_step [OF assms(3,1,2)] have inv: "invariant E w'"
    and rel: "release_map (database w') = fold abstract_step acts (release_map (database w))" by simp_all
  have iff: "release_map (database w') (p, c) = Some v \<longleftrightarrow> (\<exists>s \<in> set ?rows. v = (ID s, s_Content s))" for v
    using inv unfolding release_map_releases
    by (subst releases_iff) (auto simp: invariant_def tables_ok_def table_ok_def live_released_def owner_def)
  show ?thesis
  proof (cases r)
    case (Inr s)
    with assms(4) have "s \<in> set ?rows"
      unfolding FindReleasedSnapshot_def by (auto dest!: getM_member)
    with iff rel Inr show ?thesis by auto
  next
    case (Inl e)
    have nil: "sort_key ID xs = [] \<longleftrightarrow> xs = []" for xs :: "snapshot_row list" by (metis length_0_conv length_sort)
    from Inl assms(4) have "database w'' = database w'" and "e = NotFound m \<Longrightarrow> ?rows = []" for m
      unfolding FindReleasedSnapshot_def by (auto simp: getM_Inl WrapDatabaseError_def nil split: if_splits)
    moreover have "fold abstract_step acts (release_map (database w)) (p, c) = None" if "?rows = []"
      unfolding rel [symmetric] using iff [unfolded that] by (cases "release_map (database w') (p, c)") auto
    ultimately show ?thesis using Inl by (cases e) auto
  qed
qed

section \<open>A run\<close>

lemma publish_world_invariant: "invariant example_engine publish_world" "collation example_engine"
  by code_simp (simp add: collation_def example_engine_def)

definition published_world :: world where
  "published_world = snd (Publish run_tx example_codec (\<lambda>ks. ks) example_actor 1 21 1 example_engine publish_world)"

lemma publish_world_run: "server_run example_engine [Releases (1, 10) 21 (port_content ''9090'')] publish_world published_world"
proof -
  let ?run = "Publish run_tx example_codec (\<lambda>ks. ks) example_actor 1 21 1 example_engine publish_world"
  have "map_sum (\<lambda>_. ()) (\<lambda>s. (owner s, ID s, s_Content s)) (fst ?run) = Inr ((1, 10), 21, port_content ''9090'')" by code_simp
  then obtain row where "?run = (Inr row, published_world)" "owner row = (1, 10)" "ID row = 21" "s_Content row = port_content ''9090''"
    by (cases "fst ?run") (auto simp: published_world_def prod_eq_iff)
  with server_step.publish [OF run_tx_runner this(1)] server_run.continue [OF server_run.start] show ?thesis by fastforce
qed

theorem server_consistent_witness:
  "invariant example_engine published_world \<and>
   \<not> (\<exists>s t. s \<in> set (snapshots (database published_world)) \<and> t \<in> set (snapshots (database published_world)) \<and> s \<noteq> t \<and>
       owner s = owner t \<and> live_released s \<and> live_released t)"
  using server_consistent [OF publish_world_invariant(2,1) publish_world_run] by blast

theorem server_refines_store_witness:
  "release_map (database publish_world) (1, 10) = Some (20, port_content ''8080'') \<and>
   release_map (database published_world) (1, 10) = Some (21, port_content ''9090'')"
proof -
  have "release_map (database publish_world) (1, 10) = Some (20, port_content ''8080'')" by code_simp
  with server_refines_store [OF publish_world_invariant(2,1) publish_world_run] show ?thesis by simp
qed

theorem runtime_lookup_abstract_witness:
  "case fst (FindReleasedSnapshot 1 10 example_engine published_world) of Inr s \<Rightarrow> ID s = 21 | Inl _ \<Rightarrow> False"
proof -
  let ?run = "FindReleasedSnapshot 1 10 example_engine published_world"
  have "\<not> isl (fst ?run)" by code_simp
  then show ?thesis
    using runtime_lookup_abstract [OF publish_world_invariant(2,1) publish_world_run surjective_pairing [of ?run]]
    by (auto split: sum.splits err.splits)
qed

end
