(* ===== verification/Import_Props.thy ===== *)
theory Import_Props
  imports Server
begin

text \<open>
  Import and its idempotency keys: a key that has been used for a successful import never causes a second one.
\<close>

section \<open>Operations that leave the import records alone\<close>

definition claims_fixed :: "engine \<Rightarrow> world \<Rightarrow> world \<Rightarrow> bool" where
  "claims_fixed E w w' \<longleftrightarrow> import_records (database w') = import_records (database w)"

interpretation clm: transition claims_fixed
  by unfold_locales (auto simp: claims_fixed_def quiet_def)

lemma claims_statements:
  "(\<And>F d. import_records (upd F d) = import_records d) \<Longrightarrow> obeys claims_fixed (updateM sel upd cond f)"
  "(\<And>F d. import_records (upd F d) = import_records d) \<Longrightarrow> obeys claims_fixed (insertM t sel upd clash setID row)"
  by (auto simp: obeys_def claims_fixed_def updateM_def insertM_def bindM_def execM_def fresh_id_def
      split: option.splits if_splits)

lemma claims_tables:
  "import_records (ct_update structures_table F d) = import_records d" "import_records (ct_update enums_table F d) = import_records d"
  by (simp_all add: structures_table_def enums_table_def)

lemmas claims_lookups = lookups_read [THEN clm.reading]

lemma claims_prepare: "obeys claims_fixed (PrepareInsert m)" "obeys claims_fixed (RecordPrepareInsert rm)"
  unfolding PrepareInsert_def RecordPrepareInsert_def insertTimes_def by (intro clm.combine)+

lemma claims_configs:
  "obeys claims_fixed (config_Create e p c)" "obeys claims_fixed (config_Update e i u)" "obeys claims_fixed (config_UpdateValue e i v)"
  unfolding config_Create_def config_restore_def resetConfigChildren_def lockConfigByKey_def insertConfig_def config_Update_def
    config_UpdateValue_def updateConfigs_def Let_def
  by (intro clm.combine claims_prepare claims_statements claims_lookups; simp)+

lemma claims_snapshots:
  "obeys claims_fixed (snapshot_Create e p c s)" "obeys claims_fixed (SetCurrent e c i u)" "obeys claims_fixed (RecordForEnvironment e log)"
  unfolding snapshot_Create_def insertSnapshot_def SetCurrent_def updateSnapshots_def RecordForEnvironment_def insertAudit_def
  by (intro clm.combine claims_prepare claims_statements claims_lookups; simp)+

lemma claims_Reconcile:
  assumes "\<And>F d. import_records (ct_update T F d) = import_records d"
  shows "obeys claims_fixed (child_Reconcile T e c items u)"
  unfolding child_Reconcile_def reconcileItem_def removeObsolete_def removeObsoleteItem_def insertChild_def Let_def
  by (intro clm.combine claims_prepare claims_statements assms)

lemma claims_prepareImport: "obeys claims_fixed (prepareImport K iter actor request)"
  unfolding prepareImport_def importResources_def writeConfig_def structure_Reconcile_def enum_Reconcile_def Let_def
  by (intro clm.combine claims_lookups claims_configs claims_Reconcile claims_tables)

section \<open>Claims\<close>

text \<open>The record a successful import leaves behind.\<close>

definition settled :: "db \<Rightarrow> import_row \<Rightarrow> string \<Rightarrow> int \<Rightarrow> bool" where
  "settled d record h snapshotID \<longleftrightarrow> (\<exists>r \<in> set (import_records d). same_claim r record \<and> i_RequestHash r = h \<and>
     i_Status r = ImportStatusSucceeded \<and> i_TargetSnapshotID r = Some snapshotID)"

lemma same_claim_prepared: "same_claim r (m\<lparr>i_CreatedAt := c, i_UpdatedAt := u, i_Version := v\<rparr>) \<longleftrightarrow> same_claim r m"
  by (simp add: same_claim_def)

definition claim_inserted :: "world \<Rightarrow> import_row \<Rightarrow> import_row option \<Rightarrow> world \<Rightarrow> bool" where
  "claim_inserted w m got w' \<longleftrightarrow> (case got of
      None \<Rightarrow> database w' = database w
    | Some x \<Rightarrow> x = m\<lparr>i_ID := last_id w ImportRecordsTable + 1\<rparr> \<and> import_records (database w') = import_records (database w) @ [x])"

lemma insertClaim_Inr:
  assumes "insertClaim returning record E w = (Inr got, w')"
  shows "\<exists>c u. claim_inserted w (record\<lparr>i_CreatedAt := c, i_UpdatedAt := u, i_Version := 1\<rparr>) got w'"
proof -
  from assms obtain m w1 where prep: "WorkflowPrepareInsert record E w = (Inr m, w1)"
    and ins: "(if returning then insertPostgresClaim m else bindM (attemptM (insertImport m)) (\<lambda>r.
        case r of Inl e \<Rightarrow> if isDuplicateKeyError e then returnM None else failM e | Inr row \<Rightarrow> returnM (Some row))) E w1 = (Inr got, w')"
    by (auto simp: insertClaim_def run_simps)
  from prep have m: "\<exists>c u. m = record\<lparr>i_CreatedAt := c, i_UpdatedAt := u, i_Version := 1\<rparr>" and q: "quiet w w1"
    by (auto simp: WorkflowPrepareInsert_def insertTimes_def run_simps)
  have "claim_inserted w1 m got w'"
  proof (cases returning)
    case True
    with ins show ?thesis
      by (auto simp: claim_inserted_def insertPostgresClaim_def bindM_def fresh_id_def execM_def split: option.splits if_splits)
  next
    case False
    with ins show ?thesis
      by (auto simp: attempt_case insertImport_def insertM_Inr run_basic claim_inserted_def dest!: insertM_Inl split: if_splits)
  qed
  then have "claim_inserted w m got w'" using q by (cases got) (simp_all add: claim_inserted_def quiet_def)
  with m show ?thesis by blast
qed

lemma Claim_Inr:
  assumes "Claim returning record E w = (Inr (claimed, created), w')"
  shows "if created
    then \<exists>c u. claimed = record\<lparr>i_CreatedAt := c, i_UpdatedAt := u, i_Version := 1, i_ID := last_id w ImportRecordsTable + 1\<rparr> \<and>
      import_records (database w') = import_records (database w) @ [claimed]
    else claimed \<in> set (import_records (database w)) \<and> same_claim claimed record \<and> database w' = database w"
proof -
  from assms obtain got w1 where ins: "insertClaim returning record E w = (Inr got, w1)"
    and rest: "(case got of Some claimed \<Rightarrow> returnM (claimed, True) | None \<Rightarrow> lockExistingClaim record) E w1 = (Inr (claimed, created), w')"
    by (auto simp: Claim_def run_simps)
  show ?thesis
  proof (cases got)
    case None
    with insertClaim_Inr [OF ins] rest show ?thesis
      by (auto simp: claim_inserted_def lockExistingClaim_def run_simps getM_Inr dest!: first_row_Some)
  next
    case (Some x)
    with insertClaim_Inr [OF ins] rest show ?thesis by (auto simp: claim_inserted_def run_simps)
  qed
qed

text \<open>While a claim is stored, no second one is inserted.\<close>

lemma Claim_taken:
  assumes "Claim returning record E w = (Inr (claimed, created), w')" "r \<in> set (import_records (database w))" "same_claim r record"
  shows "\<not> created"
proof
  assume created
  from assms(1) obtain got w1 where ins: "insertClaim returning record E w = (Inr got, w1)"
    and rest: "(case got of Some claimed \<Rightarrow> returnM (claimed, True) | None \<Rightarrow> lockExistingClaim record) E w1 = (Inr (claimed, created), w')"
    by (auto simp: Claim_def run_simps)
  with \<open>created\<close> have "got \<noteq> None" by (cases got) (auto simp: lockExistingClaim_def run_simps)
  from ins obtain m w2 where prep: "WorkflowPrepareInsert record E w = (Inr m, w2)"
    and run: "(if returning then insertPostgresClaim m else bindM (attemptM (insertImport m)) (\<lambda>r.
        case r of Inl e \<Rightarrow> if isDuplicateKeyError e then returnM None else failM e | Inr row \<Rightarrow> returnM (Some row))) E w2 = (Inr got, w1)"
    by (auto simp: insertClaim_def run_simps)
  from prep have "same_claim x m = same_claim x record" "database w2 = database w" for x
    by (auto simp: WorkflowPrepareInsert_def insertTimes_def run_simps same_claim_prepared)
  with assms(2,3) have "list_ex (\<lambda>x. same_claim x m) (import_records (database w2))" by (auto simp: list_ex_iff)
  with run \<open>got \<noteq> None\<close> show False
    by (cases returning)
      (auto simp: insertPostgresClaim_def bindM_def fresh_id_def execM_def attemptM_def insertImport_def insertM_def run_basic
        split: option.splits if_splits sum.splits prod.splits)
qed

section \<open>One import per key\<close>

lemma claimImport_Inr:
  assumes "claimImport returning uuid actor request h E w = (Inr (claimed, replayed), w')"
  shows "if replayed
    then claimed \<in> set (import_records (database w)) \<and> same_claim claimed (new_claim actor request h uuid) \<and> i_RequestHash claimed = h \<and>
      i_Status claimed = ImportStatusSucceeded \<and> i_TargetSnapshotID claimed \<noteq> None \<and> database w' = database w
    else import_records (database w') = import_records (database w) @ [claimed] \<and> same_claim claimed (new_claim actor request h uuid) \<and>
      i_RequestHash claimed = h \<and> i_Status claimed = ImportStatusPending \<and> i_ID claimed = last_id w ImportRecordsTable + 1"
proof -
  from assms obtain created where claim: "Claim returning (new_claim actor request h uuid) E w = (Inr (claimed, created), w')"
    and ok: "i_RequestHash claimed = h"
      "if replayed then i_Status claimed = ImportStatusSucceeded \<and> i_TargetSnapshotID claimed \<noteq> None
       else created \<and> i_Status claimed = ImportStatusPending"
    by (auto simp: claimImport_def run_simps split: if_splits)
  have new: "import_records (database w') = import_records (database w) @ [claimed] \<and> i_Status claimed = ImportStatusPending \<and>
      same_claim claimed (new_claim actor request h uuid) \<and> i_ID claimed = last_id w ImportRecordsTable + 1" if created
    using Claim_Inr [OF claim] that by (auto simp: same_claim_def new_claim_def)
  have old: "claimed \<in> set (import_records (database w)) \<and> same_claim claimed (new_claim actor request h uuid) \<and> database w' = database w"
    if "\<not> created" using Claim_Inr [OF claim] that by simp
  show ?thesis
    using new old ok by (cases created) (auto simp: ImportStatusPending_def ImportStatusSucceeded_def split: if_splits)
qed

lemma importSnapshot_settles:
  assumes "importSnapshot returning uuid K iter actor request h E w = (Inr outcome, w')"
  shows "settled (database w') (new_claim actor request h uuid) h (outcome_snapshotID outcome)"
proof -
  from assms obtain claimed replayed w1 where claim: "claimImport returning uuid actor request h E w = (Inr (claimed, replayed), w1)"
    and rest: "(if replayed then returnM \<lparr>outcome_snapshotID = the (i_TargetSnapshotID claimed), outcome_replayed = True, outcome_cleanup = None\<rparr>
       else bindM (prepareImport K iter actor request) (\<lambda>target.
         bindM (completeImport actor request (i_ID claimed) (import_snapshot target)) (\<lambda>snapshot.
         let config = import_config target in
         returnM \<lparr>outcome_snapshotID = ID snapshot, outcome_replayed = False,
           outcome_cleanup = Some \<lparr>target_projectID = c_ProjectID config, target_configKey = c_Key config,
             target_runtimeVersion = c_RuntimeVersion config\<rparr>\<rparr>))) E w1 = (Inr outcome, w')"
    by (auto simp: importSnapshot_def run_simps)
  note facts = claimImport_Inr [OF claim]
  show ?thesis
  proof (cases replayed)
    case True
    with facts rest show ?thesis by (auto simp: settled_def run_simps)
  next
    case False
    with rest obtain target w2 snapshot where prep: "prepareImport K iter actor request E w1 = (Inr target, w2)"
      and comp: "completeImport actor request (i_ID claimed) (import_snapshot target) E w2 = (Inr snapshot, w')"
      and out: "outcome_snapshotID outcome = ID snapshot"
      by (auto simp: run_simps Let_def)
    let ?json = "''{'' @ key_json ''target_snapshot_id'' @ FormatInt (ID snapshot) @ ''}''"
    from comp obtain w3 w4 w5 where
      create: "snapshot_Create (Import_TargetEnvironmentID request) (s_ProjectID (import_snapshot target)) (s_ConfigID (import_snapshot target))
        (import_snapshot target) E w2 = (Inr snapshot, w3)"
      and cur: "SetCurrent (Import_TargetEnvironmentID request) (s_ConfigID snapshot) (ID snapshot) (Actor_UserID actor) E w3 = (Inr (), w4)"
      and complete: "Complete (i_ID claimed) (ID snapshot) ?json E w4 = (Inr (), w5)"
      and audit: "RecordForEnvironment (Import_TargetEnvironmentID request) (importAudit actor request (ID snapshot)) E w5 = (Inr (), w')"
      by (auto simp: completeImport_def run_simps)
    have kept: "import_records (database w4) = import_records (database w) @ [claimed]" "import_records (database w') = import_records (database w5)"
      using obeysD [OF claims_prepareImport prep] obeysD [OF claims_snapshots(1) create] obeysD [OF claims_snapshots(2) cur]
        obeysD [OF claims_snapshots(3) audit] facts False by (auto simp: claims_fixed_def)
    have "claimed\<lparr>i_Version := i_Version claimed + 1, i_TargetSnapshotID := Some (ID snapshot), i_Status := ImportStatusSucceeded,
        i_ResultJSON := Some ?json, i_ErrorMessage := [], i_UpdatedAt := clock E (tick w4)\<rparr> \<in> set (import_records (database w5))"
      using complete kept(1) facts False by (auto simp: Complete_def run_simps update_rows_append)
    with kept(2) facts False out show ?thesis
      unfolding settled_def by (intro bexI [rotated], simp) (simp add: same_claim_def)
  qed
qed

lemma importSnapshot_settled:
  assumes "importSnapshot returning uuid K iter actor request h E w = (Inr outcome, w')" "invariant E w"
    "settled (database w) (new_claim actor request0 h' uuid') h' s" "Import_TargetEnvironmentID request0 = Import_TargetEnvironmentID request"
    "Import_IdempotencyKey request0 = Import_IdempotencyKey request"
  shows "h = h' \<and> outcome = \<lparr>outcome_snapshotID = s, outcome_replayed = True, outcome_cleanup = None\<rparr> \<and> database w' = database w"
proof -
  from assms(3) obtain r where r: "r \<in> set (import_records (database w))" "same_claim r (new_claim actor request0 h' uuid')"
    "i_RequestHash r = h'" "i_Status r = ImportStatusSucceeded" "i_TargetSnapshotID r = Some s" by (auto simp: settled_def)
  from assms(1) obtain claimed replayed w1 where claim: "claimImport returning uuid actor request h E w = (Inr (claimed, replayed), w1)"
    by (auto simp: importSnapshot_def run_simps)
  then obtain created where c: "Claim returning (new_claim actor request h uuid) E w = (Inr (claimed, created), w1)"
    by (auto simp: claimImport_def run_simps split: if_splits)
  have "same_claim r (new_claim actor request h uuid)" using r(2) assms(4,5) by (simp add: same_claim_def new_claim_def)
  with Claim_taken [OF c r(1)] have nc: "\<not> created" by blast
  with c claim have rep: replayed
    by (auto simp: claimImport_def bindM_def failM_def returnM_def split: if_splits)
  note facts = claimImport_Inr [OF claim, unfolded if_P [OF rep]]
  have "table_ok i_ID claim_key (=) (\<lambda>_. True) (last_id w ImportRecordsTable) (import_records (database w))"
    using assms(2) by (simp add: invariant_def tables_ok_def)
  moreover have "claim_key r = claim_key claimed" using r(2) facts assms(4,5) by (simp add: same_claim_def new_claim_def)
  ultimately have "i_ID r = i_ID claimed" using facts r(1) by (auto simp: table_ok_def)
  then have "r = claimed"
    using row_unique [of i_ID "import_records (database w)" r claimed] assms(2) facts r(1)
    by (auto simp: invariant_def tables_ok_def table_ok_def)
  with assms(1) claim rep facts r show ?thesis
    by (auto simp: importSnapshot_def bindM_def returnM_def)
qed

lemma liftR_Inr: "liftR (Inr a) = returnM a"
  by (rule ext)+ (simp add: liftR_def returnM_def)

lemma Import_run:
  assumes "transaction_runner tx" "Import tx sha256 returning uuid K iter actor request E w = (r, w')"
  shows "(case r of
      Inl _ \<Rightarrow> True
    | Inr res \<Rightarrow> \<exists>h tags w1 outcome w2. validateAndHash sha256 request = Inr (h, tags) \<and> frozen E w w1 \<and>
        importSnapshot returning uuid K iter actor (request\<lparr>Import_Tags := tags\<rparr>) h E w1 = (Inr outcome, w2) \<and> frozen E w2 w' \<and>
        ID (ImportResult_Snapshot res) = outcome_snapshotID outcome \<and> ImportResult_Replayed res = outcome_replayed outcome) \<and>
    (database w' = database w \<or> (\<exists>h tags w1 outcome w2. validateAndHash sha256 request = Inr (h, tags) \<and> frozen E w w1 \<and>
        importSnapshot returning uuid K iter actor (request\<lparr>Import_Tags := tags\<rparr>) h E w1 = (Inr outcome, w2) \<and> frozen E w2 w'))"
proof (cases "validateAndHash sha256 request")
  case (Inl e)
  with assms(2) show ?thesis by (auto simp: Import_def bindM_def liftR_def)
next
  case (Inr ht)
  obtain h tags where ht: "ht = (h, tags)" by fastforce
  let ?req = "request\<lparr>Import_Tags := tags\<rparr>"
  let ?auth = "bindM (RequireSourceRead (Actor_UserID actor) (Import_SourceEnvironmentID ?req)) (\<lambda>_.
     Require (Actor_UserID actor) (Import_TargetEnvironmentID ?req) [''snapshot:import'', ''snapshot:write'', ''config:write'', ''structure:write'', ''enum:write''])"
  let ?done = "\<lambda>outcome. bindM (cleanupImport (outcome_cleanup outcome)) (\<lambda>_.
     bindM (snapshot_FindByID (Import_TargetEnvironmentID ?req) (outcome_snapshotID outcome)) (\<lambda>snapshot.
     returnM \<lparr>ImportResult_Snapshot = snapshot, ImportResult_Replayed = outcome_replayed outcome\<rparr>))"
  have auth: "obeys frozen ?auth"
    unfolding RequireSourceRead_def by (intro frz.combine frz.require)
  have finish: "obeys frozen (?done outcome)" for outcome
    unfolding cleanupImport_def DeletePublishedConfigVersion_def by (intro frz.combine frz.reading [OF lookups_read(4)])
  have result: "ID (ImportResult_Snapshot res) = outcome_snapshotID outcome \<and> ImportResult_Replayed res = outcome_replayed outcome"
    if "?done outcome E v = (Inr res, v')" for outcome res v v'
    using that by (auto simp: run_simps snapshot_FindByID_def snapshotScope_iff dest!: getM_member)
  have "bindM ?auth (\<lambda>_. bindM (tx (importSnapshot returning uuid K iter actor ?req h)) ?done) E w = (r, w')"
    using assms(2) Inr ht by (simp add: Import_def liftR_Inr monad_laws Let_def)
  then show ?thesis
  proof (cases rule: bindM_elim)
    case (fails e)
    with obeysD [OF auth fails(1)] show ?thesis by (simp add: frozen_def)
  next
    case (continues u w1)
    have w1: "frozen E w w1" by (rule obeysD [OF auth continues(1)])
    from continues(2) show ?thesis
    proof (cases rule: bindM_elim)
      case (fails e)
      from tx_rollback [OF assms(1) fails(1)] w1 fails(2) show ?thesis by (auto simp: frozen_def)
    next
      case (continues outcome w2)
      have run: "importSnapshot returning uuid K iter actor ?req h E w1 = (Inr outcome, w2)" by (rule tx_commit [OF assms(1) continues(1)])
      have w2: "frozen E w2 w'" by (rule obeysD [OF finish continues(2)])
      show ?thesis
        using Inr ht w1 run w2 result [of outcome] continues(2) by (cases r) (simp, blast)+
    qed
  qed
qed

text \<open>
  C7. An idempotency key imports once. After a successful import, any later call by the same user with the same
  key into the same environment, while the import record is still stored, writes nothing at all; if it succeeds it
  answers with the same snapshot, marked as replayed, and then the two requests have the same hash. A request
  that differs (its hash does) is therefore refused.
\<close>

theorem Import_once:
  assumes "transaction_runner tx" "Import tx sha256 returning uuid K iter actor request E w = (Inr res, w1)"
    and "invariant E v" "set (import_records (database w1)) \<subseteq> set (import_records (database v))"
    and "Import_TargetEnvironmentID request' = Import_TargetEnvironmentID request"
      "Import_IdempotencyKey request' = Import_IdempotencyKey request"
    and "Import tx sha256 returning uuid' K iter actor request' E v = (r, v')"
  shows "database v' = database v \<and> (\<forall>res'. r = Inr res' \<longrightarrow> ImportResult_Replayed res' \<and>
      ID (ImportResult_Snapshot res') = ID (ImportResult_Snapshot res) \<and>
      (\<exists>h tags tags'. validateAndHash sha256 request = Inr (h, tags) \<and> validateAndHash sha256 request' = Inr (h, tags')))"
proof -
  from Import_run [OF assms(1,2)] obtain h tags w0 outcome w2 where first: "validateAndHash sha256 request = Inr (h, tags)"
    "importSnapshot returning uuid K iter actor (request\<lparr>Import_Tags := tags\<rparr>) h E w0 = (Inr outcome, w2)" "frozen E w2 w1"
    "ID (ImportResult_Snapshot res) = outcome_snapshotID outcome" by auto
  have "settled (database w1) (new_claim actor (request\<lparr>Import_Tags := tags\<rparr>) h uuid) h (outcome_snapshotID outcome)"
    using importSnapshot_settles [OF first(2)] first(3) by (simp add: frozen_def)
  then have settled: "settled (database v) (new_claim actor (request\<lparr>Import_Tags := tags\<rparr>) h uuid) h (outcome_snapshotID outcome)"
    using assms(4) unfolding settled_def by blast
  have again: "h' = h \<and> out = \<lparr>outcome_snapshotID = outcome_snapshotID outcome, outcome_replayed = True, outcome_cleanup = None\<rparr> \<and>
      database v2 = database v"
    if "frozen E v v1" "importSnapshot returning uuid' K iter actor (request'\<lparr>Import_Tags := tags'\<rparr>) h' E v1 = (Inr out, v2)" for h' tags' v1 out v2
    using importSnapshot_settled [OF that(2), of "request\<lparr>Import_Tags := tags\<rparr>" h uuid] settled assms(3,5,6) that(1)
    by (auto simp: frozen_def invariant_def)
  note second = Import_run [OF assms(1,7)]
  have "database v' = database v"
    using conjunct2 [OF second]
  proof
    assume "\<exists>h tags w1 outcome w2. validateAndHash sha256 request' = Inr (h, tags) \<and> frozen E v w1 \<and>
        importSnapshot returning uuid' K iter actor (request'\<lparr>Import_Tags := tags\<rparr>) h E w1 = (Inr outcome, w2) \<and> frozen E w2 v'"
    with again show ?thesis unfolding frozen_def by metis
  qed
  moreover have "ImportResult_Replayed res' \<and> ID (ImportResult_Snapshot res') = ID (ImportResult_Snapshot res) \<and>
      (\<exists>h tags tags'. validateAndHash sha256 request = Inr (h, tags) \<and> validateAndHash sha256 request' = Inr (h, tags'))" if "r = Inr res'" for res'
  proof -
    from second that obtain h' tags' v1 out v2 where o: "validateAndHash sha256 request' = Inr (h', tags')" "frozen E v v1"
      "importSnapshot returning uuid' K iter actor (request'\<lparr>Import_Tags := tags'\<rparr>) h' E v1 = (Inr out, v2)"
      "ID (ImportResult_Snapshot res') = outcome_snapshotID out" "ImportResult_Replayed res' = outcome_replayed out" by auto
    with again [OF o(2,3)] first(1,4) show ?thesis by auto
  qed
  ultimately show ?thesis by blast
qed

section \<open>A retried import\<close>

text \<open>Snapshot 21 has been imported as snapshot 20 under the key \<^verbatim>\<open>k1\<close>; the request arrives again, twice.\<close>

definition port_request :: ImportRequest where
  "port_request = \<lparr>Import_SourceEnvironmentID = 1, Import_SourceSnapshotID = 21, Import_TargetEnvironmentID = 1,
     Import_TargetProjectID = 1, Import_TargetConfigID = Some 10, Import_Description = ''copy'', Import_Tags = [3, 1],
     Import_IdempotencyKey = ''k1'', Import_ConflictStrategy = StrategyReplace\<rparr>"

definition retry_world :: world where
  "retry_world = publish_world\<lparr>database := (database publish_world)\<lparr>import_records :=
     [(new_claim example_actor port_request ''h'' ''u0'')\<lparr>i_ID := 5, i_Status := ImportStatusSucceeded, i_TargetSnapshotID := Some 20\<rparr>]\<rparr>\<rparr>"

definition retry :: "world \<Rightarrow> ImportResult result \<times> world" where
  "retry = Import run_tx (\<lambda>s. ''h'') True ''u1'' example_codec (\<lambda>ks. ks) example_actor port_request example_engine"

lemma retry_runs:
  "map_sum (\<lambda>_. ()) (\<lambda>r. ID (ImportResult_Snapshot r)) (fst (retry retry_world)) = Inr 20" "invariant example_engine retry_world"
  by code_simp+

theorem Import_once_witness:
  "database (snd (retry (snd (retry retry_world)))) = database (snd (retry retry_world)) \<and>
   (case fst (retry (snd (retry retry_world))) of Inr res \<Rightarrow> ImportResult_Replayed res \<and> ID (ImportResult_Snapshot res) = 20 | Inl _ \<Rightarrow> True)"
proof -
  from retry_runs(1) obtain res where res: "retry retry_world = (Inr res, snd (retry retry_world))" "ID (ImportResult_Snapshot res) = 20"
    by (cases "fst (retry retry_world)") (auto simp: prod_eq_iff)
  have inv: "invariant example_engine (snd (retry retry_world))"
    using obeysD [OF drf.transfer(1) [OF run_tx_runner] res(1) [unfolded retry_def]] retry_runs(2) publish_world_invariant(2)
    by (simp add: draft_def retry_def)
  from Import_once [OF run_tx_runner res(1) [unfolded retry_def] inv [unfolded retry_def] subset_refl refl refl surjective_pairing] res(2)
  show ?thesis unfolding retry_def by (auto split: sum.split)
qed

end
