(* ===== verification/Access.thy ===== *)
theory Access
  imports Server
begin

text \<open>
  The permission cache over the life of the server. An entry is keyed by user, environment and generation,
  the version of the environment's row. \<open>tenant\<close> is the relation of the operations outside administration: they leave
  accounts, environments, roles and grants alone, and add permission sets only for the current
  generation. \<open>access_ok\<close> is the invariant: what is cached for the current generation is what the
  database grants, and nothing is cached for a generation that is still to come.
\<close>

section \<open>Entries an authorization adds\<close>

definition added_entries :: "db \<Rightarrow> memoryStore \<Rightarrow> memoryStore \<Rightarrow> bool" where
  "added_entries d s s' \<longleftrightarrow> (\<forall>k v. memory_holds s' k v \<longrightarrow> permission_entry k \<longrightarrow>
     memory_holds s k v \<or> (\<exists>u e env. live_environment d e = Some env \<and> k = permissionContentKey u e (Version env)))"

definition only_at :: "string \<Rightarrow> engine \<Rightarrow> world \<Rightarrow> world \<Rightarrow> bool" where
  "only_at key E w w' \<longleftrightarrow> database w' = database w \<and> last_id w' = last_id w \<and>
     (\<forall>k v. memory_holds (cache w') k v \<longrightarrow> memory_holds (cache w) k v \<or> k = key)"

definition fills :: "engine \<Rightarrow> world \<Rightarrow> world \<Rightarrow> bool" where
  "fills E w w' \<longleftrightarrow> database w' = database w \<and> last_id w' = last_id w \<and> added_entries (database w) (cache w) (cache w')"

interpretation at: effect "only_at key" for key
proof
  fix E w w' w''
  show "quiet w w' \<Longrightarrow> only_at key E w w'" by (simp add: quiet_def only_at_def)
  show "only_at key E w w' \<Longrightarrow> only_at key E w' w'' \<Longrightarrow> only_at key E w w''"
    unfolding only_at_def by metis
qed

interpretation fil: effect fills
proof
  fix E w w' w''
  show "quiet w w' \<Longrightarrow> fills E w w'" by (simp add: quiet_def fills_def added_entries_def)
  show "fills E w w' \<Longrightarrow> fills E w' w'' \<Longrightarrow> fills E w w''"
    unfolding fills_def added_entries_def by metis
qed

lemma at_cache: "obeys (only_at key) (cacheGetM k)" "obeys (only_at key) (cacheSetM key content ttl)"
  by (auto simp: obeys_def only_at_def cacheGetM_def cacheSetM_def split: prod.splits dest: mem.get_keeps mem.put_adds)

lemma resolveAttempt_fills: "obeys fills (resolveAttempt u e)"
proof (rule obeysI)
  fix E w r w'
  assume "resolveAttempt u e E w = (r, w')"
  then show "fills E w w'"
    unfolding resolveAttempt_eq
  proof (cases rule: bindM_elim)
    case (fails err)
    with obeysD [OF fil.reading [OF reads_resolver_identity]] show ?thesis by blast
  next
    case (continues i w1)
    from resolver_identity_Inr [OF continues(1)] obtain env where
      env: "live_environment (database w) e = Some env" "Identity_EnvironmentVersion i = Version env" by (auto simp: admitted_def)
    have first: "fills E w w1" by (rule obeysD [OF fil.reading [OF reads_resolver_identity] continues(1)])
    define key where "key = permissionContentKey u e (Identity_EnvironmentVersion i)"
    have "obeys (only_at key) (if Identity_SystemAdmin i then bindM allPermissionKeys (\<lambda>keys. returnM (keys, True))
        else bindM (loadPermissions u e key) (confirmPermissions u e (Identity_EnvironmentVersion i)))"
      unfolding confirmPermissions_def Let_def key_def [symmetric] loadPermissions_def cachedPermissions_def cachePermissions_def
        KeysForUserEnvironment_def
      by (intro at.compose at_cache at.reading [OF reads_resolver_identity] at.reading [OF reads_allPermissionKeys])
    from obeysD [OF this, of E w1 r w'] continues(2) have "only_at key E w1 w'" by (simp only: key_def)
    then have "fills E w1 w'"
      using first env unfolding only_at_def fills_def added_entries_def key_def by auto blast
    with first show ?thesis by (rule fil.trans)
  qed
qed

lemma Resolve_fills: "obeys fills (Resolve u e)"
proof -
  have "obeys fills (resolve_loop n u e)" for n
    by (induction n) (simp_all add: fil.basic, intro fil.compose resolveAttempt_fills)
  then show ?thesis by (simp add: Resolve_def)
qed

section \<open>Operations outside administration\<close>

definition account :: "user_row \<Rightarrow> user_row" where
  "account u = u\<lparr>UpdatedAt := 0, Version := 0, u_PasswordHash := '''', u_LastLoginAt := None\<rparr>"

definition identity :: "db \<Rightarrow> _" where
  "identity d = (environments d, roles d, members d, grants d, permissions d, map account (users d), application_secrets d)"

lemma identity_reads:
  assumes "identity d = identity d'"
  shows "live_environment d = live_environment d'" "granted_keys u e d = granted_keys u e d'" "plain_catalog d = plain_catalog d'"
    "perm_coherent d s = perm_coherent d' s" "added_entries d s s' = added_entries d' s s'"
proof -
  show env: "live_environment d = live_environment d'" using assms by (auto simp: identity_def live_environment_def)
  show keys: "granted_keys u e d = granted_keys u e d'" for u e using assms by (simp add: identity_def granted_keys_def)
  show "plain_catalog d = plain_catalog d'" using assms by (simp add: identity_def plain_catalog_def)
  show "perm_coherent d s = perm_coherent d' s" unfolding perm_coherent_def env keys ..
  show "added_entries d s s' = added_entries d' s s'" unfolding added_entries_def env ..
qed

definition admin_ids :: "world \<Rightarrow> int \<times> int \<times> int" where
  "admin_ids w = (last_id w EnvironmentsTable, last_id w RolesTable, last_id w UsersTable)"

lemma admin_ids_simps [simp]:
  "admin_ids (w\<lparr>database := d\<rparr>) = admin_ids w" "admin_ids (w\<lparr>cache := s\<rparr>) = admin_ids w" "admin_ids (w\<lparr>tick := n\<rparr>) = admin_ids w"
  by (simp_all add: admin_ids_def)

definition tenant :: "engine \<Rightarrow> world \<Rightarrow> world \<Rightarrow> bool" where
  "tenant E w w' \<longleftrightarrow> identity (database w') = identity (database w) \<and>
     admin_ids w' = admin_ids w \<and>
     added_entries (database w) (cache w) (cache w') \<and>
     (plain_catalog (database w) \<longrightarrow> perm_coherent (database w) (cache w) \<longrightarrow> perm_coherent (database w) (cache w'))"

lemma added_refl [simp]: "added_entries d s s"
  by (simp add: added_entries_def)

interpretation tnt: atomic_effect tenant
proof
  fix E w w' w''
  show "quiet w w' \<Longrightarrow> tenant E w w'" by (simp add: tenant_def quiet_def admin_ids_def)
  show "tenant E w w' \<Longrightarrow> tenant E w (w'\<lparr>database := database w\<rparr>)" by (simp add: tenant_def)
  assume a: "tenant E w w'" "tenant E w' w''"
  then have same: "identity (database w') = identity (database w)" by (simp add: tenant_def)
  have step: "added_entries (database w) (cache w) (cache w')" "added_entries (database w) (cache w') (cache w'')"
    using a by (simp_all add: tenant_def identity_reads(5) [OF same])
  have "added_entries (database w) (cache w) (cache w'')"
    unfolding added_entries_def
  proof (intro allI impI)
    fix k v
    assume "memory_holds (cache w'') k v" "permission_entry k"
    then show "memory_holds (cache w) k v \<or>
        (\<exists>u e env. live_environment (database w) e = Some env \<and> k = permissionContentKey u e (Version env))"
      using step unfolding added_entries_def by blast
  qed
  with a same show "tenant E w w''"
    unfolding tenant_def identity_reads(3,4) [OF same] by simp
qed

lemma tenant_database:
  "cache w' = cache w \<Longrightarrow> identity (database w') = identity (database w) \<Longrightarrow>
   admin_ids w' = admin_ids w \<Longrightarrow> tenant E w w'"
  by (simp add: tenant_def)

lemma tenant_entry:
  assumes "database w' = database w" "last_id w' = last_id w"
    "\<And>k v. memory_holds (cache w') k v \<Longrightarrow> memory_holds (cache w) k v \<or> \<not> permission_entry k"
  shows "tenant E w w'"
proof -
  have "permission_entry (permissionContentKey u e n)" for u e n by (auto simp: permission_entry_def)
  with assms show ?thesis unfolding tenant_def added_entries_def perm_coherent_def by (auto simp: admin_ids_def, blast)
qed

lemma Increment_adds:
  "memory_Increment ctx now key ttl s = (r, s') \<Longrightarrow> memory_holds s' k v \<Longrightarrow> memory_holds s k v \<or> k = key"
  by (auto simp: memory_Increment_def memory_holds_def Let_def split: option.splits if_splits prod.splits)

lemma tenant_cache:
  "obeys tenant (cacheGetM key)" "obeys tenant (cacheDeleteM key)"
  "\<not> permission_entry key \<Longrightarrow> obeys tenant (cacheSetM key content ttl)"
  "\<not> permission_entry key \<Longrightarrow> obeys tenant (cacheIncrementM key ttl)"
  by (rule obeysI, rule tenant_entry;
      auto simp: cacheGetM_def cacheDeleteM_def cacheSetM_def cacheIncrementM_def split: prod.splits
        dest: mem.get_keeps mem.del_keeps mem.put_adds Increment_adds)+

lemma tenant_resolve: "obeys tenant (Resolve u e)"
proof (rule obeysI)
  fix E w r w'
  assume run: "Resolve u e E w = (r, w')"
  from obeysD [OF Resolve_fills run] have "database w' = database w" "last_id w' = last_id w"
    "added_entries (database w) (cache w) (cache w')" by (simp_all add: fills_def)
  with Resolve_effect [OF run] show "tenant E w w'" by (auto simp: tenant_def safe_outcome_def admin_ids_def)
qed

definition untouched :: "(('r list \<Rightarrow> 'r list) \<Rightarrow> db \<Rightarrow> db) \<Rightarrow> bool" where
  "untouched upd \<longleftrightarrow> (\<forall>F d. identity (upd F d) = identity d)"

lemma untouched_tables:
  "untouched configs_update" "untouched structure_rows_update" "untouched enum_rows_update" "untouched snapshots_update"
  "untouched api_keys_update" "untouched refresh_tokens_update" "untouched audit_logs_update" "untouched import_records_update"
  "untouched (ct_update structures_table)" "untouched (ct_update enums_table)"
  by (simp_all add: untouched_def identity_def structures_table_def enums_table_def)

lemma tenant_execM:
  assumes "\<And>E d. identity (snd (q E d)) = identity d"
  shows "obeys tenant (execM q)"
proof (rule obeysI, rule tenant_database)
  fix E w r w'
  assume "execM q E w = (r, w')"
  with assms [of E "database w"] show "cache w' = cache w" "identity (database w') = identity (database w)"
    "admin_ids w' = admin_ids w"
    by (auto simp: execM_def split: option.splits prod.splits)
qed

lemma tenant_fresh: "t \<noteq> EnvironmentsTable \<Longrightarrow> t \<noteq> RolesTable \<Longrightarrow> t \<noteq> UsersTable \<Longrightarrow> obeys tenant (fresh_id t)"
  by (rule obeysI, rule tenant_database) (auto simp: fresh_id_def admin_ids_def)

lemma tenant_statements:
  assumes "untouched upd"
  shows "obeys tenant (updateM sel upd cond f)"
    "t \<noteq> EnvironmentsTable \<Longrightarrow> t \<noteq> RolesTable \<Longrightarrow> t \<noteq> UsersTable \<Longrightarrow> obeys tenant (insertM t sel upd clash setID row)"
proof -
  from assms have same: "identity (upd F d) = identity d" for F d by (simp add: untouched_def)
  show "obeys tenant (updateM sel upd cond f)" unfolding updateM_def by (rule tenant_execM) (simp add: same)
  show "obeys tenant (insertM t sel upd clash setID row)" if "t \<noteq> EnvironmentsTable" "t \<noteq> RolesTable" "t \<noteq> UsersTable"
    unfolding insertM_def by (intro tnt.compose tenant_fresh that tenant_execM) (simp add: same)
qed

lemma tenant_users: "(\<And>u. account (f u) = account u) \<Longrightarrow> obeys tenant (updateM users users_update cond f)"
  unfolding updateM_def by (rule tenant_execM) (simp add: identity_def update_rows_def comp_def if_distrib cong: if_cong)

lemma tenant_prepare:
  "obeys tenant (PrepareInsert m)" "obeys tenant (RecordPrepareInsert rm)" "obeys tenant (WorkflowPrepareInsert im)"
  unfolding PrepareInsert_def RecordPrepareInsert_def WorkflowPrepareInsert_def insertTimes_def by (intro tnt.compose)+

interpretation tnt_calls: server_relation tenant
proof unfold_locales
  note steps = tnt.compose tenant_prepare tenant_statements tenant_execM untouched_tables lookups_read [THEN tnt.reading] table_name.distinct
  have audit: "obeys tenant (RecordForEnvironment e log)" for e log
    unfolding RecordForEnvironment_def insertAudit_def by (intro steps)
  have table: "untouched (ct_update T) \<and> ct_name T \<noteq> EnvironmentsTable \<and> ct_name T \<noteq> RolesTable \<and> ct_name T \<noteq> UsersTable" if "T = structures_table \<or> T = enums_table" for T
    using that untouched_tables by (auto simp: structures_table_def enums_table_def)
  have children: "obeys tenant (child_Create T e c item)" "obeys tenant (child_Update T e i u)" "obeys tenant (child_Delete T e i by_user)"
    "obeys tenant (child_Reconcile T e c items by_user)" if T: "T = structures_table \<or> T = enums_table" for T e c item i u by_user items
  proof -
    note T' = table [OF T, THEN conjunct1] table [OF T, THEN conjunct2, THEN conjunct1]
      table [OF T, THEN conjunct2, THEN conjunct2, THEN conjunct1] table [OF T, THEN conjunct2, THEN conjunct2, THEN conjunct2]
    have upd: "obeys tenant (updateChild T cond f)" for cond f
      unfolding updateChild_def by (rule tenant_execM) (use T' in \<open>simp add: untouched_def\<close>)
    show "obeys tenant (child_Create T e c item)"
      unfolding child_Create_def child_restore_def insertChild_def Let_def by (intro steps T')
    show "obeys tenant (child_Update T e i u)" unfolding child_Update_def child_FindByID_def by (intro steps T' upd)
    show "obeys tenant (child_Delete T e i by_user)" unfolding child_Delete_def child_FindByID_def by (intro steps T' upd)
    show "obeys tenant (child_Reconcile T e c items by_user)"
      unfolding child_Reconcile_def reconcileItem_def removeObsolete_def removeObsoleteItem_def insertChild_def Let_def by (intro steps T' upd)
  qed
  fix u e key content ttl c p i cu vu user s j item du items log k m now publicID returning rec json tok h "next" old new
  show "obeys tenant (Resolve u e)" by (rule tenant_resolve)
  show "obeys tenant (cacheGetM key)" "obeys tenant (cacheDeleteM key)"
    "\<not> permission_entry key \<Longrightarrow> obeys tenant (cacheSetM key content ttl)"
    "\<not> permission_entry key \<Longrightarrow> obeys tenant (cacheIncrementM key ttl)" by (rule tenant_cache; assumption?)+
  show "obeys tenant (config_Create e p c)"
    unfolding config_Create_def config_restore_def resetConfigChildren_def lockConfigByKey_def insertConfig_def updateConfigs_def Let_def
    by (intro steps)
  show "obeys tenant (config_Update e i cu)" "obeys tenant (config_UpdateValue e i vu)" "obeys tenant (config_Delete e i user)"
    unfolding config_Update_def config_UpdateValue_def config_Delete_def updateConfigs_def by (intro steps)+
  show "obeys tenant (snapshot_Create e p i s)" "obeys tenant (snapshot_Delete e i user)" "obeys tenant (SetCurrent e i j user)"
    unfolding snapshot_Create_def insertSnapshot_def snapshot_Delete_def SetCurrent_def updateSnapshots_def by (intro steps)+
  show "obeys tenant (structure_Create e i item)" "obeys tenant (structure_Update e i du)" "obeys tenant (structure_Delete e i user)"
    "obeys tenant (structure_Reconcile e i items user)" "obeys tenant (enum_Create e i item)" "obeys tenant (enum_Update e i du)"
    "obeys tenant (enum_Delete e i user)" "obeys tenant (enum_Reconcile e i items user)"
    unfolding structure_Create_def structure_Update_def structure_Delete_def structure_Reconcile_def
      enum_Create_def enum_Update_def enum_Delete_def enum_Reconcile_def by (rule children; simp)+
  show "obeys tenant (RecordForEnvironment e log)" by (rule audit)
  show "obeys tenant (apiKey_Create e p k)" "obeys tenant (apiKey_Revoke m now)" "obeys tenant (MarkUsed publicID now)"
    unfolding apiKey_Create_def insertAPIKey_def apiKey_Revoke_def MarkUsed_def Let_def by (intro steps; simp add: identity_def)+
  show "obeys tenant (apiKey_Rotate m k)" unfolding apiKey_Rotate_def by (intro steps) (simp add: identity_def)
  show "obeys tenant (Claim returning rec)" "obeys tenant (Complete i j json)"
    unfolding Claim_def insertClaim_def insertPostgresClaim_def insertImport_def lockExistingClaim_def Complete_def
    by (intro steps tenant_fresh; simp add: identity_def)+
  have "obeys tenant (checkRotation cur now)" for cur
    unfolding checkRotation_def revokeSession_def by (intro steps) (simp add: identity_def)
  then show "obeys tenant (refresh_Rotate h next now)"
    unfolding refresh_Rotate_def lockTokenByHash_def insertRefreshToken_def consumeToken_def Let_def by (intro steps)
  show "obeys tenant (CreateSession tok now)"
    unfolding CreateSession_def insertRefreshToken_def by (intro steps tenant_users) (simp add: account_def)
  show "obeys tenant (RevokeSessionByTokenHash h now)"
    unfolding RevokeSessionByTokenHash_def lockTokenByHash_def revokeSession_def by (intro steps) (simp add: identity_def)
  show "obeys tenant (UpdatePasswordHash user old new)"
    unfolding UpdatePasswordHash_def Let_def
    by (intro steps) (simp add: identity_def update_rows_def comp_def account_def if_distrib cong: if_cong)
qed

lemma publication_tenant: "transaction_runner tx \<Longrightarrow> obeys tenant (changePublication tx K iter request)"
proof -
  assume tx: "transaction_runner tx"
  note steps = tnt.compose tenant_prepare tenant_statements untouched_tables lookups_read [THEN tnt.reading] tnt_calls.require
    tnt_calls.cached tnt_calls.audit_write
  have auth: "obeys tenant (authorizedSnapshot request)"
    unfolding authorizedSnapshot_def by (intro steps)
  have persist: "obeys tenant (persistPublication change)" for change
    unfolding persistPublication_def applyPublicationStatus_def retireReleasedSnapshot_def SetReleased_def SetUnreleased_def IncrementRuntimeVersion_def
      updateSnapshots_def updateConfigs_def Let_def
    by (intro steps)
  have cleanup: "obeys tenant (publish_cleanup key)" for key
    unfolding publish_cleanup_def DeletePublishedConfigVersion_def by (intro steps)
  show ?thesis
    unfolding changePublication_def
    by (intro tnt.compose auth persist cleanup tnt.transaction [OF tx] tnt.reading [OF reads_preparePublication])
qed

section \<open>The invariant of the permission cache\<close>

definition access_ok :: "world \<Rightarrow> bool" where
  "access_ok w \<longleftrightarrow> plain_catalog (database w) \<and> perm_coherent (database w) (cache w) \<and>
     distinct (map ID (environments (database w))) \<and>
     (\<forall>env \<in> set (environments (database w)). ID env \<le> last_id w EnvironmentsTable) \<and>
     distinct (map ID (roles (database w))) \<and> (\<forall>r \<in> set (roles (database w)). ID r \<le> last_id w RolesTable) \<and>
     (\<forall>m \<in> set (members (database w)). m_RoleID m \<le> last_id w RolesTable) \<and>
     (\<forall>u e n v. memory_holds (cache w) (permissionContentKey u e n) v \<longrightarrow>
        (\<exists>env \<in> set (environments (database w)). ID env = e \<and> n \<le> Version env))"

text \<open>
  A property of the world that time alone does not end: when transactions that commit keep it, every transaction does.
\<close>

definition stays :: "(world \<Rightarrow> bool) \<Rightarrow> engine \<Rightarrow> world \<Rightarrow> world \<Rightarrow> bool" where
  "stays Q E w w' \<longleftrightarrow> (Q w \<longrightarrow> Q w')"

definition commits :: "(world \<Rightarrow> bool) \<Rightarrow> 'a M \<Rightarrow> bool" where
  "commits Q m \<longleftrightarrow> database_only m \<and> (\<forall>E w a w'. m E w = (Inr a, w') \<longrightarrow> Q w \<longrightarrow> Q w')"

locale lasting =
  fixes Q :: "world \<Rightarrow> bool"
  assumes idle: "Q w \<Longrightarrow> database w' = database w \<Longrightarrow> cache w' = cache w \<Longrightarrow> (\<And>t. last_id w t \<le> last_id w' t) \<Longrightarrow> Q w'"
begin

lemma committed:
  assumes "transaction_runner tx" "commits Q m"
  shows "obeys (stays Q) (tx m)"
proof (rule obeysI, unfold stays_def, rule impI)
  fix E w r w'
  assume run: "tx m E w = (r, w')" and ok: "Q w"
  show "Q w'"
  proof (cases r)
    case (Inl e)
    with tx_rollback [OF assms(1)] run obtain x w1 where "m E w = (x, w1)" "w' = w1\<lparr>database := database w\<rparr>" by blast
    with assms(2) database_onlyD [of m E w x w1] show ?thesis
      by (intro idle [OF ok]) (auto simp: commits_def database_step_def)
  next
    case (Inr a)
    with tx_commit [OF assms(1)] run have "m E w = (Inr a, w')" by blast
    with assms(2) ok show ?thesis unfolding commits_def by blast
  qed
qed

end

sublocale lasting \<subseteq> effect "stays Q"
  by unfold_locales (auto simp: stays_def quiet_def intro: idle)

abbreviation access :: "engine \<Rightarrow> world \<Rightarrow> world \<Rightarrow> bool" where
  "access \<equiv> stays access_ok"

interpretation acc: lasting access_ok
proof
  fix w w' :: world
  assume ok: "access_ok w" and same: "database w' = database w" "cache w' = cache w" and ids: "\<And>t. last_id w t \<le> last_id w' t"
  have "a \<le> last_id w' t" if "a \<le> last_id w t" for a t using that ids [of t] by linarith
  with ok same show "access_ok w'" by (simp add: access_ok_def)
qed

lemma tenant_access: "tenant E w w' \<Longrightarrow> access E w w'"
  unfolding stays_def
proof
  assume t: "tenant E w w'" and ok: "access_ok w"
  then have same: "identity (database w') = identity (database w)" "admin_ids w' = admin_ids w"
    and added: "added_entries (database w) (cache w) (cache w')"
    by (simp_all add: tenant_def)
  have coh: "perm_coherent (database w') (cache w')"
    using t ok unfolding tenant_def access_ok_def identity_reads(4) [OF same(1)] by blast
  have tables: "environments (database w') = environments (database w)" "roles (database w') = roles (database w)"
    "members (database w') = members (database w)" using same(1) by (simp_all add: identity_def)
  have "\<exists>env \<in> set (environments (database w)). ID env = e \<and> n \<le> Version env"
    if h: "memory_holds (cache w') (permissionContentKey u e n) v" for u e n v
  proof -
    have "permission_entry (permissionContentKey u e n)" by (auto simp: permission_entry_def)
    with added [unfolded added_entries_def, rule_format, OF h]
    consider "memory_holds (cache w) (permissionContentKey u e n) v"
      | env where "live_environment (database w) e = Some env" "n = Version env" by auto
    then show ?thesis
    proof cases
      case 1
      with ok show ?thesis unfolding access_ok_def by blast
    next
      case 2
      with live_environment_ID show ?thesis by fastforce
    qed
  qed
  with ok coh same identity_reads(3) [OF same(1)] show "access_ok w'"
    by (simp add: access_ok_def tables admin_ids_def)
qed

section \<open>Administration\<close>

text \<open>
  What a transaction of the administration has to do to the permission sets: an environment whose generation
  stays keeps what it grants.
\<close>

lemma access_advance:
  assumes ok: "access_ok w" and store: "cache w' = cache w" and catalog: "permissions (database w') = permissions (database w)"
    and ids: "distinct (map ID (environments (database w')))"
      "\<And>env. env \<in> set (environments (database w')) \<Longrightarrow> ID env \<le> last_id w' EnvironmentsTable"
    and roles: "distinct (map ID (roles (database w')))" "\<And>r. r \<in> set (roles (database w')) \<Longrightarrow> ID r \<le> last_id w' RolesTable"
      "\<And>m. m \<in> set (members (database w')) \<Longrightarrow> m_RoleID m \<le> last_id w' RolesTable"
    and later: "\<And>env. env \<in> set (environments (database w)) \<Longrightarrow>
      \<exists>env' \<in> set (environments (database w')). ID env' = ID env \<and> Version env \<le> Version env'"
    and current: "\<And>env'. env' \<in> set (environments (database w')) \<Longrightarrow> DeletedAt env' = None \<Longrightarrow>
      ID env' \<le> last_id w EnvironmentsTable \<Longrightarrow>
      \<exists>env \<in> set (environments (database w)). ID env = ID env' \<and> (Version env < Version env' \<or>
        Version env = Version env' \<and> DeletedAt env = None \<and>
        (\<forall>u. set (granted_keys u (ID env) (database w')) = set (granted_keys u (ID env) (database w))))"
  shows "access_ok w'"
proof -
  let ?d = "database w" and ?d' = "database w'"
  have bound: "\<exists>env \<in> set (environments ?d). ID env = e \<and> n \<le> Version env"
    if "memory_holds (cache w) (permissionContentKey u e n) v" for u e n v
    using ok that unfolding access_ok_def by blast
  have uniq: "x = y" if "x \<in> set (environments ?d)" "y \<in> set (environments ?d)" "ID x = ID y" for x y
    using row_unique [of ID "environments ?d" x y] ok that by (simp add: access_ok_def)
  have "perm_coherent ?d' (cache w)"
    unfolding perm_coherent_def
  proof (intro allI impI)
    fix u e env' content keys
    assume live: "live_environment ?d' e = Some env'" and hold: "memory_holds (cache w) (permissionContentKey u e (Version env')) content"
      and dec: "decodePermissions content = Inr keys"
    from live_environment_ID [OF live] have env': "env' \<in> set (environments ?d')" "ID env' = e" "DeletedAt env' = None" by auto
    from bound [OF hold] obtain env0 where env0: "env0 \<in> set (environments ?d)" "ID env0 = e" "Version env' \<le> Version env0" by blast
    with ok env'(2) have "ID env' \<le> last_id w EnvironmentsTable" by (auto simp: access_ok_def)
    from current [OF env'(1,3) this] obtain env where env: "env \<in> set (environments ?d)" "ID env = ID env'"
      "Version env < Version env' \<or> Version env = Version env' \<and> DeletedAt env = None \<and>
        (\<forall>u. set (granted_keys u (ID env) ?d') = set (granted_keys u (ID env) ?d))" by blast
    from uniq [OF env(1) env0(1)] env(2) env'(2) env0(2) have "env = env0" by simp
    with env(3) env0(3) env(2) env'(2) have same: "Version env = Version env'" "DeletedAt env = None"
      "set (granted_keys u e ?d') = set (granted_keys u e ?d)" by auto
    have "first_row (filter (\<lambda>x. ID x = e \<and> DeletedAt x = None) (environments ?d)) = Some env"
    proof (cases "first_row (filter (\<lambda>x. ID x = e \<and> DeletedAt x = None) (environments ?d))")
      case None
      with env same(2) env'(2) show ?thesis by (auto simp: filter_empty_conv)
    next
      case (Some x)
      with first_row_Some [OF Some] uniq [of x env] env env'(2) show ?thesis by auto
    qed
    then have "live_environment ?d e = Some env" by (simp add: live_environment_def)
    with ok hold dec same(1) have "keys = normalize_keys (granted_keys u e ?d)"
      unfolding access_ok_def perm_coherent_def by metis
    also have "\<dots> = normalize_keys (granted_keys u e ?d')" by (rule normalize_cong) (simp add: same(3))
    finally show "keys = normalize_keys (granted_keys u e ?d')" .
  qed
  moreover have "\<exists>env \<in> set (environments ?d'). ID env = e \<and> n \<le> Version env"
    if h: "memory_holds (cache w) (permissionContentKey u e n) v" for u e n v
  proof -
    from bound [OF h] obtain env where "env \<in> set (environments ?d)" "ID env = e" "n \<le> Version env" by blast
    with later [of env] show ?thesis by force
  qed
  ultimately show ?thesis using ok store catalog ids roles by (simp add: access_ok_def plain_catalog_def)
qed

end
