(* ===== verification/Access_Admin.thy ===== *)
theory Access_Admin
  imports Access
begin

text \<open>
  Administration keeps the permission cache right: every transaction that changes what an environment grants
  advances its generation.
\<close>

section \<open>Changes of generations\<close>

definition bumped :: "int set \<Rightarrow> environment_row list \<Rightarrow> environment_row list \<Rightarrow> bool" where
  "bumped B = list_all2 (\<lambda>x y. ID y = ID x \<and> DeletedAt y = DeletedAt x \<and> Version x \<le> Version y \<and>
     (ID x \<in> B \<longrightarrow> DeletedAt x = None \<longrightarrow> Version x < Version y))"

lemma bumped_refl: "bumped {} rows rows"
  by (simp add: bumped_def list.rel_refl)

lemma bumped_trans: "bumped B xs ys \<Longrightarrow> bumped C ys zs \<Longrightarrow> bumped (B \<union> C) xs zs"
  unfolding bumped_def by (erule list_all2_trans [rotated, rotated]) auto

lemma bumped_update:
  assumes "\<And>x. x \<in> set rows \<Longrightarrow> cond x \<Longrightarrow> ID (f x) = ID x \<and> DeletedAt (f x) = DeletedAt x \<and> Version x < Version (f x)"
    "\<And>x. x \<in> set rows \<Longrightarrow> ID x \<in> B \<Longrightarrow> DeletedAt x = None \<Longrightarrow> cond x"
  shows "bumped B rows (update_rows cond f rows)"
  unfolding bumped_def update_rows_def list_all2_map2
  by (rule list.rel_refl_strong) (use assms in fastforce)

lemma bumped_ids: "bumped B xs ys \<Longrightarrow> map ID ys = map ID xs"
  unfolding bumped_def by (induction rule: list_all2_induct) simp_all

lemma bumped_pairs:
  assumes "bumped B xs ys"
  shows "x \<in> set xs \<Longrightarrow> \<exists>y \<in> set ys. ID y = ID x \<and> Version x \<le> Version y"
    "y \<in> set ys \<Longrightarrow> \<exists>x \<in> set xs. ID x = ID y \<and> DeletedAt x = DeletedAt y \<and> Version x \<le> Version y \<and>
      (ID y \<in> B \<longrightarrow> DeletedAt y = None \<longrightarrow> Version x < Version y)"
  using assms unfolding bumped_def by (induction rule: list_all2_induct) auto

lemma granted_iff:
  "k \<in> set (granted_keys u e d) \<longleftrightarrow> (\<exists>p \<in> set (permissions d). \<exists>m \<in> set (members d).
     k = pm_Key p \<and> m_UserID m = u \<and> m_EnvironmentID m = e \<and>
     (\<exists>g \<in> set (grants d). g_PermissionID g = r_ID p \<and> g_RoleID g = m_RoleID m) \<and>
     (\<exists>r \<in> set (roles d). ID r = m_RoleID m \<and> DeletedAt r = None))" (is "_ \<longleftrightarrow> ?R")
proof -
  have mem: "k \<in> set (granted_keys u e d) \<longleftrightarrow> (\<exists>p \<in> set (permissions d). \<exists>g \<in> set (grants d). \<exists>m \<in> set (members d). \<exists>r \<in> set (roles d).
      k = pm_Key p \<and> g_PermissionID g = r_ID p \<and> m_RoleID m = g_RoleID g \<and> ID r = g_RoleID g \<and> DeletedAt r = None \<and>
      m_UserID m = u \<and> m_EnvironmentID m = e)"
    by (auto simp: granted_keys_def)
  show ?thesis
    unfolding mem
  proof
    assume ?R
    then obtain p m g r where "p \<in> set (permissions d)" "m \<in> set (members d)" "g \<in> set (grants d)" "r \<in> set (roles d)"
      "k = pm_Key p" "m_UserID m = u" "m_EnvironmentID m = e" "g_PermissionID g = r_ID p" "g_RoleID g = m_RoleID m"
      "ID r = m_RoleID m" "DeletedAt r = None" by blast
    then show "\<exists>p \<in> set (permissions d). \<exists>g \<in> set (grants d). \<exists>m \<in> set (members d). \<exists>r \<in> set (roles d).
        k = pm_Key p \<and> g_PermissionID g = r_ID p \<and> m_RoleID m = g_RoleID g \<and> ID r = g_RoleID g \<and> DeletedAt r = None \<and>
        m_UserID m = u \<and> m_EnvironmentID m = e"
      by (intro bexI [of _ p] bexI [of _ g] bexI [of _ m] bexI [of _ r]) simp_all
  qed fastforce
qed

lemma access_bumped:
  assumes ok: "access_ok w" and store: "cache w' = cache w" "permissions (database w') = permissions (database w)"
    and envs: "bumped B (environments (database w)) (environments (database w'))"
      "last_id w EnvironmentsTable \<le> last_id w' EnvironmentsTable"
    and roles: "distinct (map ID (roles (database w')))" "\<And>r. r \<in> set (roles (database w')) \<Longrightarrow> ID r \<le> last_id w' RolesTable"
      "\<And>m. m \<in> set (members (database w')) \<Longrightarrow> m_RoleID m \<le> last_id w' RolesTable"
    and keys: "\<And>u e. e \<notin> B \<Longrightarrow> set (granted_keys u e (database w')) = set (granted_keys u e (database w))"
  shows "access_ok w'"
proof (rule access_advance [OF ok store _ _ roles])
  show "distinct (map ID (environments (database w')))" using ok envs(1) by (simp add: bumped_ids access_ok_def)
  show "ID env \<le> last_id w' EnvironmentsTable" if "env \<in> set (environments (database w'))" for env
    using bumped_pairs(2) [OF envs(1) that] ok envs(2) by (force simp: access_ok_def)
  show "\<exists>env' \<in> set (environments (database w')). ID env' = ID env \<and> Version env \<le> Version env'"
    if "env \<in> set (environments (database w))" for env using bumped_pairs(1) [OF envs(1) that] .
  fix env'
  assume "env' \<in> set (environments (database w'))" "DeletedAt env' = None"
  with bumped_pairs(2) [OF envs(1) this(1)] obtain env where env: "env \<in> set (environments (database w))" "ID env = ID env'"
    "DeletedAt env = None" "Version env \<le> Version env'" "ID env' \<in> B \<Longrightarrow> Version env < Version env'" by auto
  show "\<exists>env \<in> set (environments (database w)). ID env = ID env' \<and> (Version env < Version env' \<or>
      Version env = Version env' \<and> DeletedAt env = None \<and>
      (\<forall>u. set (granted_keys u (ID env) (database w')) = set (granted_keys u (ID env) (database w))))"
  proof (cases "ID env' \<in> B")
    case True
    with env show ?thesis by blast
  next
    case False
    with keys [of "ID env"] env show ?thesis by (intro bexI [of _ env]) auto
  qed
qed

section \<open>Statements apart from the permission tables\<close>

definition view :: "world \<Rightarrow> _" where
  "view w = (environments (database w), roles (database w), members (database w), grants (database w),
     permissions (database w), cache w, last_id w EnvironmentsTable, last_id w RolesTable)"

definition apart :: "engine \<Rightarrow> world \<Rightarrow> world \<Rightarrow> bool" where
  "apart E w w' \<longleftrightarrow> view w' = view w"

interpretation apt: atomic_effect apart
  by unfold_locales (auto simp: apart_def view_def quiet_def admin_ids_def)

lemma apart_access: "apart E w w' \<Longrightarrow> access E w w'"
  by (auto simp: apart_def view_def admin_ids_def stays_def access_ok_def perm_coherent_def plain_catalog_def live_environment_def granted_keys_def)

lemma apart_tx: "transaction_runner tx \<Longrightarrow> obeys apart m \<Longrightarrow> obeys access (tx m)"
  by (rule obeys_mono [OF apt.transaction apart_access])

definition aside :: "(('r list \<Rightarrow> 'r list) \<Rightarrow> db \<Rightarrow> db) \<Rightarrow> bool" where
  "aside upd \<longleftrightarrow> (\<forall>F d. environments (upd F d) = environments d \<and> roles (upd F d) = roles d \<and> members (upd F d) = members d \<and>
     grants (upd F d) = grants d \<and> permissions (upd F d) = permissions d)"

lemma aside_tables: "aside users_update" "aside projects_update" "aside application_secrets_update" "aside audit_logs_update"
  "aside refresh_tokens_update"
  by (simp_all add: aside_def)

lemma apart_statements:
  assumes "aside upd"
  shows "obeys apart (updateM sel upd cond f)"
    "t \<noteq> EnvironmentsTable \<Longrightarrow> t \<noteq> RolesTable \<Longrightarrow> obeys apart (insertM t sel upd clash setID row)"
  using assms by (auto simp: obeys_def apart_def view_def aside_def admin_ids_def updateM_def insertM_def bindM_def execM_def fresh_id_def
      split: option.splits if_splits)

lemma apart_prepare: "obeys apart (PrepareInsert m)" "obeys apart (RecordPrepareInsert rm)"
  unfolding PrepareInsert_def RecordPrepareInsert_def insertTimes_def by (intro apt.compose)+

lemma apart_audits:
  "obeys apart (RecordForEnvironment e log)" "obeys apart (RecordSystem log)" "obeys apart (environment_recordAudit e log)"
  "obeys apart (role_recordAudit e log)" "obeys apart (user_recordAudit e log)"
  unfolding RecordForEnvironment_def RecordSystem_def insertAudit_def environment_recordAudit_def role_recordAudit_def user_recordAudit_def
  by (intro apt.compose apart_prepare apart_statements aside_tables table_name.distinct)+

lemma apart_locks: "obeys apart (lockRole i)" "obeys apart (lockAssignments i)" "obeys apart (lockPermissions ids)"
    "obeys apart (lockMember e u)" "obeys apart (lockRoles ids)" "obeys apart (lockManagedUser u)" "obeys apart (ensureLastSystemAdmin u)"
    "obeys apart (GetByID i)" "obeys apart loadState" "obeys apart (revokeUserSessions i now)"
  unfolding lockRole_def lockAssignments_def lockPermissions_def lockMember_def lockRoles_def ensureRolesContainNoSystemPermissions_def
    lockManagedUser_def requireUser_def ensureLastSystemAdmin_def GetByID_def loadState_def revokeUserSessions_def
  by (intro apt.compose apart_statements aside_tables)+

lemma apart_bodies:
  shows "obeys apart (CreateManagedUser acc log)" "obeys apart (UpdateManagedUser uu log)"
    "obeys apart (UpdateManagedPassword i hash user log)" "obeys apart (UpdateManagedStatus su log)"
    "obeys apart (CreateOrPromoteSystemAdmin name display hash)" "obeys apart (project_Create pr)" "obeys apart (project_Update i pu)"
    "obeys apart (setup_CreateInitialAdmin acc)" "obeys apart MarkInitialized"
  unfolding CreateManagedUser_def insertUser_def UpdateManagedUser_def updateManagedUser_def UpdateManagedPassword_def
    UpdateManagedStatus_def CreateOrPromoteSystemAdmin_def createSystemAdmin_def promoteSystemAdmin_def project_Create_def insertProject_def
    project_Update_def setup_CreateInitialAdmin_def MarkInitialized_def markInitialized_def Let_def
  by (intro apt.compose apart_prepare apart_statements apart_audits apart_locks aside_tables table_name.distinct)+

section \<open>Transactions that change permission sets\<close>

lemma viewD:
  assumes "apart E w w'"
  shows "environments (database w') = environments (database w)" "roles (database w') = roles (database w)"
    "members (database w') = members (database w)" "grants (database w') = grants (database w)"
    "permissions (database w') = permissions (database w)" "cache w' = cache w"
    "last_id w' EnvironmentsTable = last_id w EnvironmentsTable" "last_id w' RolesTable = last_id w RolesTable"
  using assms by (simp_all add: apart_def view_def admin_ids_def)

lemma database_deleteM [database_intro]: "database_only (deleteM upd cond)"
  unfolding deleteM_def by (intro database_intro)

lemma database_insertAllM [database_intro]: "database_only (insertAllM t sel upd clash setID rows)"
  unfolding insertAllM_def by (intro database_intro)

lemma database_prepare [database_intro]: "database_only (PrepareInsert m)" "database_only (RecordPrepareInsert rm)"
  unfolding PrepareInsert_def RecordPrepareInsert_def insertTimes_def by (intro database_intro)+

lemma database_admin [database_intro]:
  "database_only (RecordSystem log)" "database_only (environment_recordAudit e log)" "database_only (role_recordAudit e log)"
  "database_only (lockRole i)" "database_only (lockAssignments i)" "database_only (lockPermissions ids)"
  "database_only (lockMember e u)" "database_only (lockRoles ids)"
  "database_only (bumpEnvironmentPermissionGenerations es user)"
  unfolding RecordSystem_def insertAudit_def environment_recordAudit_def role_recordAudit_def lockRole_def lockAssignments_def
    lockPermissions_def lockMember_def lockRoles_def ensureRolesContainNoSystemPermissions_def
    bumpEnvironmentPermissionGenerations_def bumpEnvironmentPermissionGeneration_def
  by (intro database_intro)+

lemma access_appended:
  assumes ok: "access_ok w" and envs: "environments (database w') = environments (database w) @ [new]"
    "ID new = last_id w EnvironmentsTable + 1" "last_id w' EnvironmentsTable = last_id w EnvironmentsTable + 1"
    and keys: "\<And>u e. granted_keys u e (database w') = granted_keys u e (database w)"
    and same: "roles (database w') = roles (database w)" "members (database w') = members (database w)"
      "permissions (database w') = permissions (database w)" "cache w' = cache w" "last_id w' RolesTable = last_id w RolesTable"
  shows "access_ok w'"
proof (rule access_advance [OF ok same(4,3)])
  have old: "ID env \<le> last_id w EnvironmentsTable" if "env \<in> set (environments (database w))" for env
    using ok that by (simp add: access_ok_def)
  show "distinct (map ID (environments (database w')))" using ok old envs(2) by (force simp: envs(1) access_ok_def)
  show "ID env \<le> last_id w' EnvironmentsTable" if "env \<in> set (environments (database w'))" for env
    using that old envs(2,3) by (auto simp: envs(1)) (meson order.trans zle_add1_eq_le less_le_not_le)
  show "distinct (map ID (roles (database w')))" using ok by (simp add: same access_ok_def)
  show "ID r \<le> last_id w' RolesTable" if "r \<in> set (roles (database w'))" for r using ok that by (simp add: same access_ok_def)
  show "m_RoleID m \<le> last_id w' RolesTable" if "m \<in> set (members (database w'))" for m using ok that by (simp add: same access_ok_def)
  show "\<exists>env' \<in> set (environments (database w')). ID env' = ID env \<and> Version env \<le> Version env'"
    if "env \<in> set (environments (database w))" for env using that by (auto simp: envs(1))
  fix env'
  assume "env' \<in> set (environments (database w'))" "DeletedAt env' = None" "ID env' \<le> last_id w EnvironmentsTable"
  then show "\<exists>env \<in> set (environments (database w)). ID env = ID env' \<and> (Version env < Version env' \<or>
      Version env = Version env' \<and> DeletedAt env = None \<and>
      (\<forall>u. set (granted_keys u (ID env) (database w')) = set (granted_keys u (ID env) (database w))))"
    using envs(2) by (intro bexI [of _ env']) (auto simp: envs(1) keys)
qed

lemma advances_environments: "commits access_ok (environment_Create env log)" "commits access_ok (environment_Update e eu log)"
proof -
  have "access_ok w'" if run: "environment_Create env log E w = (Inr a, w')" and ok: "access_ok w" for E w a w'
  proof -
    from run obtain row w1 w2 new where prep: "PrepareInsert env E w = (Inr row, w1)"
      and audit: "environment_recordAudit (ID new) log E w2 = (Inr (), w')"
      and new: "ID new = last_id w1 EnvironmentsTable + 1"
      and w2: "w2 = w1\<lparr>database := environments_update (\<lambda>rows. rows @ [new]) (database w1),
        last_id := (last_id w1)(EnvironmentsTable := last_id w1 EnvironmentsTable + 1), tick := Suc (tick w1)\<rparr>"
      by (auto simp: environment_Create_def insertEnvironment_def run_simps)
    note v1 = viewD [OF obeysD [OF apart_prepare(1) prep]] and v2 = viewD [OF obeysD [OF apart_audits(3) audit]]
    have "environments (database w') = environments (database w) @ [new]" "ID new = last_id w EnvironmentsTable + 1"
      "last_id w' EnvironmentsTable = last_id w EnvironmentsTable + 1"
      using v1 v2 new by (simp_all add: w2)
    moreover have "granted_keys u i (database w') = granted_keys u i (database w)" for u i
      using v1 v2 by (simp add: granted_keys_def w2)
    moreover have "roles (database w') = roles (database w)" "members (database w') = members (database w)"
      "permissions (database w') = permissions (database w)" "cache w' = cache w" "last_id w' RolesTable = last_id w RolesTable"
      using v1 v2 by (simp_all add: w2)
    ultimately show ?thesis by (rule access_appended [OF ok])
  qed
  then show "commits access_ok (environment_Create env log)"
    unfolding commits_def environment_Create_def insertEnvironment_def by (auto intro!: database_intro)
  have "access_ok w'" if run: "environment_Update e eu log E w = (Inr a, w')" and ok: "access_ok w" for E w a w'
  proof -
    let ?cond = "\<lambda>x. ID x = e \<and> Version x = EnvUpdate_Version eu \<and> DeletedAt x = None"
    let ?f = "\<lambda>now x. x\<lparr>e_Name := EnvUpdate_Name eu, e_Description := EnvUpdate_Description eu, e_Enabled := EnvUpdate_Enabled eu,
        UpdatedBy := EnvUpdate_UpdatedBy eu, UpdatedAt := now, Version := EnvUpdate_Version eu + 1\<rparr>"
    from run obtain now w2 where audit: "environment_recordAudit e log E w2 = (Inr a, w')"
      and w2: "database w2 = environments_update (update_rows ?cond (?f now)) (database w)" "cache w2 = cache w" "last_id w2 = last_id w"
      by (fastforce simp: environment_Update_def run_simps)
    note aud = obeysD [OF apart_audits(3) audit]
    have "bumped {} (environments (database w)) (environments (database w'))"
      unfolding viewD(1) [OF aud] w2(1) using bumped_update [of "environments (database w)" ?cond "?f now" "{}"] by simp
    then show ?thesis
      using viewD [OF aud] ok w2 by (intro access_bumped [OF ok]) (auto simp: access_ok_def granted_keys_def)
  qed
  then show "commits access_ok (environment_Update e eu log)"
    unfolding commits_def environment_Update_def by (auto intro!: database_intro)
qed

text \<open>Roles are only read through whether they are live and which members hold them.\<close>

lemma access_roles:
  assumes ok: "access_ok w" and same: "environments (database w') = environments (database w)" "members (database w') = members (database w)"
      "grants (database w') = grants (database w)" "permissions (database w') = permissions (database w)" "cache w' = cache w"
      "last_id w' EnvironmentsTable = last_id w EnvironmentsTable" "last_id w RolesTable \<le> last_id w' RolesTable"
    and roles: "distinct (map ID (roles (database w')))" "\<And>r. r \<in> set (roles (database w')) \<Longrightarrow> ID r \<le> last_id w' RolesTable"
    and held: "\<And>m. m \<in> set (members (database w)) \<Longrightarrow>
      (\<exists>r \<in> set (roles (database w')). ID r = m_RoleID m \<and> DeletedAt r = None) \<longleftrightarrow>
      (\<exists>r \<in> set (roles (database w)). ID r = m_RoleID m \<and> DeletedAt r = None)"
  shows "access_ok w'"
proof (rule access_bumped [OF ok same(5,4) _ _ roles, of "{}"])
  show "bumped {} (environments (database w)) (environments (database w'))" by (simp add: same bumped_refl)
  show "m_RoleID m \<le> last_id w' RolesTable" if "m \<in> set (members (database w'))" for m
    using ok that same(2,7) by (force simp: access_ok_def)
  show "set (granted_keys u e (database w')) = set (granted_keys u e (database w))" for u e
  proof -
    have "k \<in> set (granted_keys u e (database w')) \<longleftrightarrow> k \<in> set (granted_keys u e (database w))" for k
      unfolding granted_iff same(2,3,4) using held by (intro bex_cong refl) simp
    then show ?thesis by blast
  qed
qed (simp_all add: same)

lemma advances_roles: "commits access_ok (role_Create role log)" "commits access_ok (role_Update i ru log)" "commits access_ok (role_Delete i user log)"
proof -
  have "access_ok w'" if run: "role_Create role log E w = (Inr a, w')" and ok: "access_ok w" for E w a w'
  proof -
    from run obtain row w1 w2 new where prep: "PrepareInsert role E w = (Inr row, w1)"
      and audit: "role_recordAudit (ID new) log E w2 = (Inr (), w')"
      and new: "ID new = last_id w1 RolesTable + 1"
      and w2: "w2 = w1\<lparr>database := roles_update (\<lambda>rows. rows @ [new]) (database w1),
        last_id := (last_id w1)(RolesTable := last_id w1 RolesTable + 1), tick := Suc (tick w1)\<rparr>"
      by (auto simp: role_Create_def insertRole_def run_simps)
    note v1 = viewD [OF obeysD [OF apart_prepare(1) prep]] and v2 = viewD [OF obeysD [OF apart_audits(4) audit]]
    have rows: "roles (database w') = roles (database w) @ [new]" and id: "ID new = last_id w RolesTable + 1"
      and last: "last_id w' RolesTable = last_id w RolesTable + 1" using v1 v2 new by (simp_all add: w2)
    have old: "ID r \<le> last_id w RolesTable" if "r \<in> set (roles (database w))" for r using ok that by (simp add: access_ok_def)
    have held: "m_RoleID m \<le> last_id w RolesTable" if "m \<in> set (members (database w))" for m using ok that by (simp add: access_ok_def)
    show ?thesis
    proof (rule access_roles [OF ok])
      show "distinct (map ID (roles (database w')))" using ok old id by (force simp: rows access_ok_def)
      show "ID r \<le> last_id w' RolesTable" if "r \<in> set (roles (database w'))" for r
        using that old [of r] id last by (auto simp: rows)
      show "(\<exists>r \<in> set (roles (database w')). ID r = m_RoleID m \<and> DeletedAt r = None) \<longleftrightarrow>
          (\<exists>r \<in> set (roles (database w)). ID r = m_RoleID m \<and> DeletedAt r = None)" if "m \<in> set (members (database w))" for m
        using held [OF that] id by (auto simp: rows)
    qed (use v1 v2 in \<open>simp_all add: w2\<close>)
  qed
  then show "commits access_ok (role_Create role log)"
    unfolding commits_def role_Create_def insertRole_def by (auto intro!: database_intro)
  have update: "access_ok w'" if ok: "access_ok w" and same: "apart E w2 w'" and w2: "database w2 = roles_update (update_rows cond f) (database w)"
      "cache w2 = cache w" "last_id w2 = last_id w" and f: "\<And>r. ID (f r) = ID r"
      "\<And>r m. m \<in> set (members (database w)) \<Longrightarrow> cond r \<Longrightarrow> ID r = m_RoleID m \<Longrightarrow> DeletedAt (f r) = DeletedAt r" for E w w2 w' cond f
  proof (rule access_roles [OF ok])
    have rows: "roles (database w') = update_rows cond f (roles (database w))" using viewD(2) [OF same] w2(1) by simp
    show "distinct (map ID (roles (database w')))" using ok f(1) by (simp add: rows map_update_rows access_ok_def)
    show "ID r \<le> last_id w' RolesTable" if "r \<in> set (roles (database w'))" for r
      using that ok f(1) viewD(8) [OF same] w2(3) by (auto simp: rows set_update_rows access_ok_def)
    show "(\<exists>r \<in> set (roles (database w')). ID r = m_RoleID m \<and> DeletedAt r = None) \<longleftrightarrow>
        (\<exists>r \<in> set (roles (database w)). ID r = m_RoleID m \<and> DeletedAt r = None)" if "m \<in> set (members (database w))" for m
      unfolding rows set_update_rows bex_simps by (rule bex_cong [OF refl]) (use f that in auto)
  qed (use viewD [OF same] w2 in simp_all)
  have "access_ok w'" if run: "role_Update i ru log E w = (Inr a, w')" and ok: "access_ok w" for E w a w'
  proof -
    from run obtain now w2 where audit: "role_recordAudit i log E w2 = (Inr a, w')"
      and w2: "database w2 = roles_update (update_rows (\<lambda>r. ID r = i \<and> Version r = RoleUpdate_Version ru \<and> DeletedAt r = None)
        (\<lambda>r. r\<lparr>ro_Name := RoleUpdate_Name ru, ro_Description := RoleUpdate_Description ru, UpdatedBy := RoleUpdate_UpdatedBy ru,
          UpdatedAt := now, Version := RoleUpdate_Version ru + 1\<rparr>)) (database w)" "cache w2 = cache w" "last_id w2 = last_id w"
      by (fastforce simp: role_Update_def run_simps)
    show ?thesis by (rule update [OF ok obeysD [OF apart_audits(4) audit] w2]) simp_all
  qed
  then show "commits access_ok (role_Update i ru log)"
    unfolding commits_def role_Update_def by (auto intro!: database_intro)
  have "access_ok w'" if run: "role_Delete i user log E w = (Inr a, w')" and ok: "access_ok w" for E w a w'
  proof -
    from run obtain now w2 where audit: "role_recordAudit i log E w2 = (Inr a, w')"
      and none: "sort_key r_ID (filter (\<lambda>m. m_RoleID m = i) (members (database w))) = []"
      and w2: "database w2 = roles_update (update_rows (\<lambda>r. ID r = i \<and> DeletedAt r = None)
        (\<lambda>r. r\<lparr>Version := Version r + 1, DeletedAt := Some now, UpdatedBy := user, UpdatedAt := now\<rparr>)) (database w)"
        "cache w2 = cache w" "last_id w2 = last_id w"
      by (fastforce simp: role_Delete_def lockRole_def lockAssignments_def getM_Inr run_simps)
    from none have "\<forall>m \<in> set (members (database w)). m_RoleID m \<noteq> i" by (metis (mono_tags) empty_set filter_empty_conv set_sort set_empty)
    then show ?thesis by (intro update [OF ok obeysD [OF apart_audits(4) audit] w2]) auto
  qed
  then show "commits access_ok (role_Delete i user log)"
    unfolding commits_def role_Delete_def by (auto intro!: database_intro)
qed

section \<open>Replacing roles and grants\<close>

lemma bump_each:
  "forM (bumpEnvironmentPermissionGeneration actor) es E w = (Inr us, w') \<Longrightarrow>
   \<exists>rows. database w' = environments_update (\<lambda>_. rows) (database w) \<and> bumped (set es) (environments (database w)) rows \<and>
     cache w' = cache w \<and> last_id w' = last_id w"
proof (induction es arbitrary: w us)
  case Nil
  then show ?case by (intro exI [of _ "environments (database w)"]) (simp add: run_simps bumped_refl)
next
  case (Cons e es)
  let ?cond = "\<lambda>x. ID x = e \<and> DeletedAt x = None"
  let ?f = "\<lambda>now x. x\<lparr>Version := Version x + 1, UpdatedBy := actor, UpdatedAt := now\<rparr>"
  from Cons.prems obtain x w1 us' where one: "bumpEnvironmentPermissionGeneration actor e E w = (Inr x, w1)"
    and rest: "forM (bumpEnvironmentPermissionGeneration actor) es E w1 = (Inr us', w')" by (auto simp: run_simps)
  from one obtain now where w1: "database w1 = environments_update (update_rows ?cond (?f now)) (database w)"
    "cache w1 = cache w" "last_id w1 = last_id w"
    by (fastforce simp: bumpEnvironmentPermissionGeneration_def run_simps)
  have "bumped {e} (environments (database w)) (environments (database w1))"
    unfolding w1(1) using bumped_update [of "environments (database w)" ?cond "?f now" "{e}"] by simp
  with Cons.IH [OF rest] w1 show ?case using bumped_trans [of "{e}" _ _ "set es"] by fastforce
qed

lemma bump_all:
  assumes "bumpEnvironmentPermissionGenerations es actor E w = (Inr u, w')"
  shows "\<exists>rows. database w' = environments_update (\<lambda>_. rows) (database w) \<and> bumped (set es) (environments (database w)) rows \<and>
     cache w' = cache w \<and> last_id w' = last_id w"
  using assms bump_each [of actor "remdups_adj (sort es)"]
  by (auto simp: bumpEnvironmentPermissionGenerations_def run_simps)

lemma forM_result: "forM f xs E w = (Inr ys, w') \<Longrightarrow> list_all2 (\<lambda>x y. \<exists>w1 w2. f x E w1 = (Inr y, w2)) xs ys"
proof (induction xs arbitrary: w ys)
  case Nil
  then show ?case by (simp add: run_simps)
next
  case (Cons a xs)
  from Cons.prems(1) obtain b w1 bs where "f a E w = (Inr b, w1)" "forM f xs E w1 = (Inr bs, w')" "ys = b # bs"
    by (auto simp: run_simps)
  with Cons.IH show ?case by auto
qed

lemma prepared_links:
  assumes "forM (\<lambda>x. RecordPrepareInsert (g x)) xs E w = (Inr links, w')"
  shows "list_all2 (\<lambda>x y. \<exists>c u. y = (g x)\<lparr>r_CreatedAt := c, r_UpdatedAt := u\<rparr>) xs links"
  by (rule list_all2_mono [OF forM_result [OF assms]]) (auto simp: RecordPrepareInsert_def insertTimes_def run_simps)

lemma quiet_prepared: "reads (forM (\<lambda>x. RecordPrepareInsert (g x)) xs)"
  unfolding RecordPrepareInsert_def insertTimes_def by (intro reads_intro)

lemma insertAllM_Inr:
  assumes "insertAllM t sel upd clash setID rows E w = (Inr u, w')"
  shows "\<exists>new. database w' = upd (\<lambda>old. old @ new) (database w) \<and> list_all2 (\<lambda>x y. \<exists>i. y = setID i x) rows new \<and>
    cache w' = cache w \<and> (\<forall>t'. t' \<noteq> t \<longrightarrow> last_id w' t' = last_id w t')"
proof -
  let ?fresh = "\<lambda>row. bindM (fresh_id t) (\<lambda>i. returnM (setID i row))"
  have ids: "database w1 = database w0 \<and> cache w1 = cache w0 \<and> (\<forall>t'. t' \<noteq> t \<longrightarrow> last_id w1 t' = last_id w0 t')"
    if "forM ?fresh xs E w0 = (Inr ys, w1)" for xs ys w0 w1
    using that by (induction xs arbitrary: w0 ys) (fastforce simp: run_simps)+
  from assms obtain new w1 where new: "forM ?fresh rows E w = (Inr new, w1)"
    and ins: "database w' = upd (\<lambda>old. old @ new) (database w1)" "cache w' = cache w1" "last_id w' = last_id w1"
    by (auto simp: insertAllM_def run_simps split: if_splits)
  have "list_all2 (\<lambda>x y. \<exists>i. y = setID i x) rows new"
    by (rule list_all2_mono [OF forM_result [OF new]]) (auto simp: run_simps)
  with ids [OF new] ins show ?thesis by auto
qed

lemma replaceLinks_Inr:
  assumes "replaceLinks e u ids actor E w = (Inr x, w')"
  shows "\<exists>new. database w' = members_update (\<lambda>rows. filter (\<lambda>m. \<not> (m_UserID m = u \<and> m_EnvironmentID m = e)) rows @ new) (database w) \<and>
    (\<forall>m \<in> set new. m_UserID m = u \<and> m_EnvironmentID m = e) \<and> map m_RoleID new = ids \<and>
    cache w' = cache w \<and> (\<forall>t. t \<noteq> MembersTable \<longrightarrow> last_id w' t = last_id w t)"
proof (cases "ids = []")
  case True
  with assms show ?thesis by (intro exI [of _ "[]"]) (auto simp: replaceLinks_def deleteM_def run_simps)
next
  case False
  define g where "g = (\<lambda>roleID. \<lparr>r_ID = 0, r_CreatedAt = 0, r_UpdatedAt = 0, m_UserID = u, m_EnvironmentID = e,
    m_RoleID = roleID, m_CreatedBy = actor\<rparr>)"
  from False assms obtain w1 links w2 where
    w1: "w1 = w\<lparr>database := members_update (filter (\<lambda>m. \<not> (m_UserID m = u \<and> m_EnvironmentID m = e))) (database w), tick := Suc (tick w)\<rparr>"
    and links: "forM (\<lambda>i. RecordPrepareInsert (g i)) ids E w1 = (Inr links, w2)"
    and ins: "insertAllM MembersTable members members_update (\<lambda>E r row. m_UserID r = m_UserID row \<and>
        m_EnvironmentID r = m_EnvironmentID row \<and> m_RoleID r = m_RoleID row) (\<lambda>i row. row\<lparr>r_ID := i\<rparr>) links E w2 = (Inr x, w')"
    by (auto simp: replaceLinks_def deleteM_def run_simps g_def)
  from insertAllM_Inr [OF ins] obtain new where new: "database w' = members_update (\<lambda>old. old @ new) (database w2)"
    "list_all2 (\<lambda>x y. \<exists>i. y = x\<lparr>r_ID := i\<rparr>) links new" "cache w' = cache w2" "\<forall>t. t \<noteq> MembersTable \<longrightarrow> last_id w' t = last_id w2 t" by blast
  have q: "quiet w1 w2" by (rule readsD [OF quiet_prepared links])
  have "list_all2 (\<lambda>x m. m_UserID m = u \<and> m_EnvironmentID m = e \<and> m_RoleID m = x) ids new"
    by (rule list_all2_trans [OF _ prepared_links [OF links] new(2)]) (auto simp: g_def)
  then have "(\<forall>m \<in> set new. m_UserID m = u \<and> m_EnvironmentID m = e) \<and> map m_RoleID new = ids"
    by (induction rule: list_all2_induct) simp_all
  with new(1,3,4) q w1 show ?thesis by (intro exI [of _ new]) (auto simp: quiet_def)
qed

lemma replacePermissions_Inr:
  assumes "replacePermissions i ids actor E w = (Inr x, w')"
  shows "\<exists>new. database w' = grants_update (\<lambda>rows. filter (\<lambda>g. g_RoleID g \<noteq> i) rows @ new) (database w) \<and>
    (\<forall>g \<in> set new. g_RoleID g = i) \<and> map g_PermissionID new = ids \<and>
    cache w' = cache w \<and> (\<forall>t. t \<noteq> GrantsTable \<longrightarrow> last_id w' t = last_id w t)"
proof (cases "ids = []")
  case True
  with assms show ?thesis by (intro exI [of _ "[]"]) (auto simp: replacePermissions_def deleteM_def run_simps)
next
  case False
  define h where "h = (\<lambda>p. \<lparr>r_ID = 0, r_CreatedAt = 0, r_UpdatedAt = 0, g_RoleID = i, g_PermissionID = p, g_CreatedBy = actor\<rparr>)"
  from False assms obtain w1 links w2 where
    w1: "w1 = w\<lparr>database := grants_update (filter (\<lambda>g. g_RoleID g \<noteq> i)) (database w), tick := Suc (tick w)\<rparr>"
    and links: "forM (\<lambda>i. RecordPrepareInsert (h i)) ids E w1 = (Inr links, w2)"
    and ins: "insertAllM GrantsTable grants grants_update (\<lambda>E r row. g_RoleID r = g_RoleID row \<and>
        g_PermissionID r = g_PermissionID row) (\<lambda>i row. row\<lparr>r_ID := i\<rparr>) links E w2 = (Inr x, w')"
    by (auto simp: replacePermissions_def deleteM_def run_simps h_def)
  from insertAllM_Inr [OF ins] obtain new where new: "database w' = grants_update (\<lambda>old. old @ new) (database w2)"
    "list_all2 (\<lambda>x y. \<exists>i. y = x\<lparr>r_ID := i\<rparr>) links new" "cache w' = cache w2" "\<forall>t. t \<noteq> GrantsTable \<longrightarrow> last_id w' t = last_id w2 t" by blast
  have q: "quiet w1 w2" by (rule readsD [OF quiet_prepared links])
  have "list_all2 (\<lambda>x g. g_RoleID g = i \<and> g_PermissionID g = x) ids new"
    by (rule list_all2_trans [OF _ prepared_links [OF links] new(2)]) (auto simp: h_def)
  then have "(\<forall>g \<in> set new. g_RoleID g = i) \<and> map g_PermissionID new = ids"
    by (induction rule: list_all2_induct) simp_all
  with new(1,3,4) q w1 show ?thesis by (intro exI [of _ new]) (auto simp: quiet_def)
qed

text \<open>As many rows as identifiers: every identifier is there.\<close>

lemma covered:
  assumes "distinct (map g rows)" "length (filter (\<lambda>r. g r \<in> set ids \<and> Q r) rows) = length ids" "i \<in> set ids"
  shows "\<exists>r \<in> set rows. g r = i \<and> Q r"
proof -
  let ?S = "set (map g (filter (\<lambda>r. g r \<in> set ids \<and> Q r) rows))"
  have "card ?S = length ids"
    using assms(1,2) distinct_card [OF distinct_map_filter [OF assms(1), of "\<lambda>r. g r \<in> set ids \<and> Q r"]] by simp
  then have "?S = set ids" by (intro card_seteq) (use card_length [of ids] in auto)
  with assms(3) have "i \<in> ?S" by simp
  then show ?thesis by auto
qed

definition member_rows :: "int \<Rightarrow> int \<Rightarrow> member_row list \<Rightarrow> member_row list \<Rightarrow> member_row list" where
  "member_rows u e new rows = filter (\<lambda>m. \<not> (m_UserID m = u \<and> m_EnvironmentID m = e)) rows @ new"

lemma ReplaceRoles_Inr:
  assumes run: "ReplaceRoles \<lparr>MRU_EnvironmentID = e, MRU_UserID = u, MRU_RoleIDs = ids, MRU_ActorID = actor\<rparr> log E w = (Inr x, w')"
    and dist: "distinct (map ID (roles (database w)))"
  shows "\<exists>new rows row. database w' = audit_logs_update (\<lambda>logs. logs @ [row]) (environments_update (\<lambda>_. rows)
      (members_update (member_rows u e new) (database w))) \<and> bumped {e} (environments (database w)) rows \<and>
    (\<forall>m \<in> set new. m_UserID m = u \<and> m_EnvironmentID m = e) \<and> map m_RoleID new = ids \<and>
    (\<forall>i \<in> set ids. \<exists>r \<in> set (roles (database w)). ID r = i \<and> DeletedAt r = None) \<and>
    (ids \<noteq> [] \<longrightarrow> \<not> (\<exists>p \<in> set (permissions (database w)). \<exists>g \<in> set (grants (database w)).
       g_PermissionID g = r_ID p \<and> g_RoleID g \<in> set ids \<and> like_text E (pm_Key p) ''system:%'')) \<and>
    cache w' = cache w \<and> (\<forall>t. t \<noteq> MembersTable \<longrightarrow> t \<noteq> AuditLogsTable \<longrightarrow> last_id w' t = last_id w t)"
proof -
  from run obtain w1 w2 w3 w4 where lock: "lockMember e u E w = (Inr (), w1)" and roles: "lockRoles ids E w1 = (Inr (), w2)"
    and links: "replaceLinks e u ids actor E w2 = (Inr (), w3)"
    and bump: "bumpEnvironmentPermissionGenerations [e] actor E w3 = (Inr (), w4)"
    and aud: "RecordForEnvironment e (log\<lparr>a_ResourceID := FormatInt u\<rparr>) E w4 = (Inr x, w')"
    by (auto simp: ReplaceRoles_def run_simps)
  have "reads (lockMember e u)" unfolding lockMember_def by (intro reads_intro)
  then have q: "quiet w w1" by (rule readsD) (rule lock)
  have q2: "quiet w w2" and found: "ids \<noteq> [] \<Longrightarrow> length (filter (\<lambda>r. ID r \<in> set ids \<and> DeletedAt r = None) (roles (database w))) = length ids"
    and plain: "ids \<noteq> [] \<Longrightarrow> \<not> (\<exists>p \<in> set (permissions (database w)). \<exists>g \<in> set (grants (database w)).
       g_PermissionID g = r_ID p \<and> g_RoleID g \<in> set ids \<and> like_text E (pm_Key p) ''system:%'')"
    using roles q by (auto simp: lockRoles_def ensureRolesContainNoSystemPermissions_def run_simps quiet_def list_ex_iff split: if_splits)
  have "\<exists>r \<in> set (roles (database w)). ID r = i \<and> DeletedAt r = None" if "i \<in> set ids" for i
    using covered [OF dist _ that] found that by fastforce
  moreover from replaceLinks_Inr [OF links] obtain new where "database w3 = members_update (member_rows u e new) (database w2)"
    "\<forall>m \<in> set new. m_UserID m = u \<and> m_EnvironmentID m = e" "map m_RoleID new = ids" "cache w3 = cache w2"
    "\<forall>t. t \<noteq> MembersTable \<longrightarrow> last_id w3 t = last_id w2 t" unfolding member_rows_def by blast
  moreover from bump_all [OF bump] obtain rows where "database w4 = environments_update (\<lambda>_. rows) (database w3)"
    "bumped {e} (environments (database w3)) rows" "cache w4 = cache w3" "last_id w4 = last_id w3" by auto
  moreover from RecordForEnvironment_Inr [OF aud] obtain row where "database w' = audit_logs_update (\<lambda>logs. logs @ [row]) (database w4)"
    "cache w' = cache w4" "last_id w' = (last_id w4)(AuditLogsTable := last_id w4 AuditLogsTable + 1)" by blast
  ultimately show ?thesis
    using q2 plain by (intro exI [of _ new] exI [of _ rows] exI [of _ row]) (simp add: quiet_def)
qed

lemma advances_members: "commits access_ok (ReplaceRoles mru log)"
proof -
  have "access_ok w'" if run: "ReplaceRoles mru log E w = (Inr a, w')" and ok: "access_ok w" for E w a w'
  proof -
    obtain e u ids actor where mru: "mru = \<lparr>MRU_EnvironmentID = e, MRU_UserID = u, MRU_RoleIDs = ids, MRU_ActorID = actor\<rparr>"
      by (cases mru)
    have dist: "distinct (map ID (roles (database w)))" using ok by (simp add: access_ok_def)
    from ReplaceRoles_Inr [OF run [unfolded mru] dist] obtain new rows row where
      d: "database w' = audit_logs_update (\<lambda>logs. logs @ [row]) (environments_update (\<lambda>_. rows) (members_update (member_rows u e new) (database w)))"
      and bump: "bumped {e} (environments (database w)) rows" and new: "\<forall>m \<in> set new. m_UserID m = u \<and> m_EnvironmentID m = e" "map m_RoleID new = ids"
      and live: "\<forall>i \<in> set ids. \<exists>r \<in> set (roles (database w)). ID r = i \<and> DeletedAt r = None"
      and store: "cache w' = cache w" and last: "\<forall>t. t \<noteq> MembersTable \<longrightarrow> t \<noteq> AuditLogsTable \<longrightarrow> last_id w' t = last_id w t" by blast
    have held: "m_RoleID m \<le> last_id w RolesTable" if "m \<in> set (members (database w'))" for m
    proof (cases "m \<in> set new")
      case True
      then have "m_RoleID m \<in> set ids" using new(2) by auto
      with live ok show ?thesis by (fastforce simp: access_ok_def)
    next
      case False
      with that ok show ?thesis by (auto simp: d member_rows_def access_ok_def)
    qed
    show ?thesis
    proof (rule access_bumped [OF ok store])
      show "set (granted_keys v i (database w')) = set (granted_keys v i (database w))" if "i \<notin> {e}" for v i
      proof -
        have "{m \<in> set (members (database w')). m_EnvironmentID m = i} = {m \<in> set (members (database w)). m_EnvironmentID m = i}"
          using that new(1) by (auto simp: d member_rows_def)
        then have mem: "m \<in> set (members (database w')) \<and> m_EnvironmentID m = i \<longleftrightarrow> m \<in> set (members (database w)) \<and> m_EnvironmentID m = i" for m
          by blast
        have "k \<in> set (granted_keys v i (database w')) \<longleftrightarrow> k \<in> set (granted_keys v i (database w))" for k
          unfolding granted_iff using mem by (simp add: d) blast
        then show ?thesis by blast
      qed
    qed (use ok held last bump in \<open>auto simp: d access_ok_def\<close>)
  qed
  then show ?thesis
    unfolding commits_def ReplaceRoles_def replaceLinks_def by (auto intro!: database_intro database_RecordForEnvironment)
qed

lemma RecordSystem_Inr:
  assumes "RecordSystem log E w = (Inr u, w')"
  shows "\<exists>row. database w' = audit_logs_update (\<lambda>rows. rows @ [row]) (database w) \<and> cache w' = cache w \<and>
    last_id w' = (last_id w)(AuditLogsTable := last_id w AuditLogsTable + 1)"
  using assms by (auto simp: RecordSystem_def RecordPrepareInsert_def insertTimes_def insertAudit_def run_simps split: if_splits)

lemma role_UpdatePermissions_Inr:
  assumes run: "role_UpdatePermissions i ids actor log E w = (Inr assignments, w')"
  shows "\<exists>new rows f row. database w' = audit_logs_update (\<lambda>logs. logs @ [row]) (environments_update (\<lambda>_. rows)
      (roles_update (update_rows (\<lambda>r. ID r = i \<and> DeletedAt r = None) f)
        (grants_update (\<lambda>old. filter (\<lambda>g. g_RoleID g \<noteq> i) old @ new) (database w)))) \<and>
    bumped (m_EnvironmentID ` {m \<in> set (members (database w)). m_RoleID m = i}) (environments (database w)) rows \<and>
    (\<forall>r. ID (f r) = ID r \<and> DeletedAt (f r) = DeletedAt r) \<and> (\<forall>g \<in> set new. g_RoleID g = i) \<and> map g_PermissionID new = ids \<and>
    (ids \<noteq> [] \<longrightarrow> (\<forall>p \<in> set (permissions (database w)). r_ID p \<in> set ids \<longrightarrow> \<not> systemKey (pm_Key p))) \<and>
    cache w' = cache w \<and> (\<forall>t. t \<noteq> GrantsTable \<longrightarrow> t \<noteq> AuditLogsTable \<longrightarrow> last_id w' t = last_id w t)"
proof -
  from run obtain role w1 w2 w3 w4 w5 where lock: "lockRole i E w = (Inr role, w1)" and perms: "lockPermissions ids E w1 = (Inr (), w2)"
    and asg: "lockAssignments i E w2 = (Inr assignments, w3)" and rep: "replacePermissions i ids actor E w3 = (Inr (), w4)"
    and adv: "advancePermissionGenerations i actor assignments E w4 = (Inr (), w5)" and aud: "role_recordAudit i log E w5 = (Inr (), w')"
    by (auto simp: role_UpdatePermissions_def run_simps)
  have q1: "quiet w w1" using lock by (auto simp: lockRole_def getM_Inr)
  have q2: "quiet w w2" and plain: "ids \<noteq> [] \<Longrightarrow> \<forall>p \<in> set (permissions (database w)). r_ID p \<in> set ids \<longrightarrow> \<not> systemKey (pm_Key p)"
    using perms q1 by (auto simp: lockPermissions_def run_simps quiet_def list_ex_iff split: if_splits)
  have q3: "quiet w w3" and envs: "set (map Assignment_EnvironmentID assignments) = (m_EnvironmentID ` {m \<in> set (members (database w)). m_RoleID m = i})"
    using asg q2 by (auto simp: lockAssignments_def run_simps quiet_def image_image)
  from replacePermissions_Inr [OF rep] obtain new where
    new: "database w4 = grants_update (\<lambda>old. filter (\<lambda>g. g_RoleID g \<noteq> i) old @ new) (database w3)" "\<forall>g \<in> set new. g_RoleID g = i"
      "map g_PermissionID new = ids" "cache w4 = cache w3" "\<forall>t. t \<noteq> GrantsTable \<longrightarrow> last_id w4 t = last_id w3 t" by blast
  define f where "f = (\<lambda>now (r :: role_row). r\<lparr>Version := Version r + 1, UpdatedBy := actor, UpdatedAt := now\<rparr>)"
  from adv obtain now n where bump: "bumpEnvironmentPermissionGenerations (map Assignment_EnvironmentID assignments) actor E
      (w4\<lparr>database := roles_update (update_rows (\<lambda>r. ID r = i \<and> DeletedAt r = None) (f now)) (database w4), tick := n\<rparr>) = (Inr (), w5)"
    by (auto simp: advancePermissionGenerations_def run_simps f_def)
  from bump_all [OF bump, unfolded envs] obtain rows where rows: "database w5 = environments_update (\<lambda>_. rows)
      (roles_update (update_rows (\<lambda>r. ID r = i \<and> DeletedAt r = None) (f now)) (database w4))"
    "bumped (m_EnvironmentID ` {m \<in> set (members (database w)). m_RoleID m = i}) (environments (database w4)) rows"
    "cache w5 = cache w4" "last_id w5 = last_id w4" by auto
  from RecordSystem_Inr [OF aud [unfolded role_recordAudit_def]] obtain row where
    row: "database w' = audit_logs_update (\<lambda>logs. logs @ [row]) (database w5)" "cache w' = cache w5"
    "last_id w' = (last_id w5)(AuditLogsTable := last_id w5 AuditLogsTable + 1)" by blast
  have d3: "database w3 = database w" "cache w3 = cache w" "last_id w3 = last_id w" using q3 by (simp_all add: quiet_def)
  show ?thesis
  proof (rule exI [of _ new], rule exI [of _ rows], rule exI [of _ "f now"], rule exI [of _ row], intro conjI)
    show "database w' = audit_logs_update (\<lambda>logs. logs @ [row]) (environments_update (\<lambda>_. rows)
      (roles_update (update_rows (\<lambda>r. ID r = i \<and> DeletedAt r = None) (f now))
        (grants_update (\<lambda>old. filter (\<lambda>g. g_RoleID g \<noteq> i) old @ new) (database w))))"
      by (simp only: row(1) rows(1) new(1) d3)
    show "bumped (m_EnvironmentID ` {m \<in> set (members (database w)). m_RoleID m = i}) (environments (database w)) rows"
      using rows(2) by (simp add: new(1) d3)
    show "cache w' = cache w" by (simp only: row rows new d3)
    show "\<forall>t. t \<noteq> GrantsTable \<longrightarrow> t \<noteq> AuditLogsTable \<longrightarrow> last_id w' t = last_id w t" using new(5) by (simp add: row rows d3)
  qed (use new(2,3) plain in \<open>simp_all add: f_def\<close>)
qed

lemma advances_grants: "commits access_ok (role_UpdatePermissions i ids actor log)"
proof -
  have "access_ok w'" if run: "role_UpdatePermissions i ids actor log E w = (Inr a, w')" and ok: "access_ok w" for E w a w'
  proof -
    let ?B = "(m_EnvironmentID ` {m \<in> set (members (database w)). m_RoleID m = i})"
    from role_UpdatePermissions_Inr [OF run] obtain new rows f row where
      d: "database w' = audit_logs_update (\<lambda>logs. logs @ [row]) (environments_update (\<lambda>_. rows)
        (roles_update (update_rows (\<lambda>r. ID r = i \<and> DeletedAt r = None) f)
          (grants_update (\<lambda>old. filter (\<lambda>g. g_RoleID g \<noteq> i) old @ new) (database w))))"
      and bump: "bumped ?B (environments (database w)) rows" and f: "\<forall>r. ID (f r) = ID r \<and> DeletedAt (f r) = DeletedAt r"
      and new: "\<forall>g \<in> set new. g_RoleID g = i" and store: "cache w' = cache w"
      and last: "\<forall>t. t \<noteq> GrantsTable \<longrightarrow> t \<noteq> AuditLogsTable \<longrightarrow> last_id w' t = last_id w t" by blast
    have rows': "roles (database w') = update_rows (\<lambda>r. ID r = i \<and> DeletedAt r = None) f (roles (database w))" by (simp add: d)
    have ids: "map ID (roles (database w')) = map ID (roles (database w))" using f by (simp add: rows' map_update_rows)
    have live: "(\<exists>r \<in> set (roles (database w')). ID r = j \<and> DeletedAt r = None) \<longleftrightarrow> (\<exists>r \<in> set (roles (database w)). ID r = j \<and> DeletedAt r = None)" for j
      unfolding rows' set_update_rows bex_simps by (rule bex_cong [OF refl]) (use f in auto)
    show ?thesis
    proof (rule access_bumped [OF ok store])
      show "set (granted_keys v e (database w')) = set (granted_keys v e (database w))" if e: "e \<notin> ?B" for v e
      proof -
        have "(\<exists>g \<in> set (grants (database w')). g_PermissionID g = q \<and> g_RoleID g = m_RoleID m) \<longleftrightarrow>
            (\<exists>g \<in> set (grants (database w)). g_PermissionID g = q \<and> g_RoleID g = m_RoleID m)"
          if "m \<in> set (members (database w))" "m_EnvironmentID m = e" for m q
        proof -
          from that e have "m_RoleID m \<noteq> i" by blast
          with new show ?thesis by (auto simp: d)
        qed
        moreover have "permissions (database w') = permissions (database w)" "members (database w') = members (database w)" by (simp_all add: d)
        ultimately have "k \<in> set (granted_keys v e (database w')) \<longleftrightarrow> k \<in> set (granted_keys v e (database w))" for k
          unfolding granted_iff live by (intro bex_cong) auto
        then show ?thesis by blast
      qed
      show "ID r \<le> last_id w' RolesTable" if "r \<in> set (roles (database w'))" for r
        using that ok last f by (auto simp: rows' set_update_rows access_ok_def)
    qed (use ok last bump ids in \<open>auto simp: d access_ok_def\<close>)
  qed
  then show ?thesis
    unfolding commits_def role_UpdatePermissions_def replacePermissions_def advancePermissionGenerations_def by (auto intro!: database_intro)
qed

interpretation acc_admin: admin_relation access
proof unfold_locales
  show "obeys access (Resolve u e)" for u e by (rule obeys_mono [OF tenant_resolve tenant_access])
  show "obeys access (cacheDeleteM key)" for key by (rule obeys_mono [OF tenant_cache(2) tenant_access])
qed (erule acc.committed, (rule advances_environments advances_roles advances_members advances_grants) |
     erule apart_tx, (intro apt.compose apart_bodies apart_audits))+

end
