(* ===== verification/Access_Props.thy ===== *)
theory Access_Props
  imports Access_Admin
begin

text \<open>
  What holds of authorization and administration in every state the server reaches: decisions follow the stored
  grants, and changes of roles take effect at once.
\<close>

lemma server_step_access: "server_step E act w w' \<Longrightarrow> access E w w'"
  by (induction rule: server_step.induct)
    (auto simp: Publish_def Unpublish_def intro: tenant_access tnt_calls.editing acc_admin.administering
      publication_tenant [THEN obeysD])

lemma server_run_access: "server_run E acts w w' \<Longrightarrow> access E w w'"
  by (induction rule: server_run.induct) (auto simp: stays_def dest!: server_step_access)

lemma Require_access: "obeys access (Require u e keys)"
  by (rule acc_admin.require)

text \<open>
  C5. Authorization is never stale. Take any run of the server: configuration, publication, sign-in, imports, and
  administration that moves users between roles, rewrites the permissions of roles, deletes roles and edits
  environments, with any failures. In the state it reaches, \<^verbatim>\<open>Require\<close> lets a caller through only if the
  accounts, roles and grants stored at that moment allow it, although permission sets are served from
  the cache and a cleanup of old entries may have failed; and it does so when no statement fails.
\<close>

theorem authorization_never_stale:
  assumes "access_ok w" "server_run E acts w w'" "Require u e required E w' = (r, w'')"
  shows "(r = Inr () \<longrightarrow> authorised (database w') u e required) \<and>
    (reliable E \<and> authorised (database w') u e required \<longrightarrow> r = Inr ()) \<and> access_ok w' \<and> access_ok w''"
proof -
  from server_run_access [OF assms(2)] assms(1) have ok: "access_ok w'" by (simp add: stays_def)
  then have coh: "perm_coherent (database w') (cache w')" "plain_catalog (database w')" by (simp_all add: access_ok_def)
  from Require_effect [OF assms(3) coh] Require_total [of E w' u e required] coh assms(3)
  have "(r = Inr () \<longrightarrow> authorised (database w') u e required) \<and> (reliable E \<and> authorised (database w') u e required \<longrightarrow> r = Inr ())"
    by auto
  with obeysD [OF Require_access assms(3)] ok show ?thesis by (simp add: stays_def)
qed

text \<open>The keys a set of roles grants.\<close>

definition role_keys :: "db \<Rightarrow> int list \<Rightarrow> string set" where
  "role_keys d ids = {pm_Key p | p g. p \<in> set (permissions d) \<and> g \<in> set (grants d) \<and> g_PermissionID g = r_ID p \<and> g_RoleID g \<in> set ids}"

lemma member_keys:
  assumes "\<forall>m \<in> set new. m_UserID m = u \<and> m_EnvironmentID m = e" "map m_RoleID new = ids"
    "\<forall>i \<in> set ids. \<exists>r \<in> set (roles d). ID r = i \<and> DeletedAt r = None"
    "members d' = member_rows u e new (members d)" "roles d' = roles d" "grants d' = grants d" "permissions d' = permissions d"
  shows "set (granted_keys u e d') = role_keys d ids"
    "(v, i) \<noteq> (u, e) \<Longrightarrow> set (granted_keys v i d') = set (granted_keys v i d)"
proof -
  have ids: "set ids = m_RoleID ` set new" using assms(2) by auto
  have own: "m \<in> set (members d') \<and> m_UserID m = u \<and> m_EnvironmentID m = e \<longleftrightarrow> m \<in> set new" for m
    using assms(1) by (auto simp: assms(4) member_rows_def)
  have "k \<in> set (granted_keys u e d') \<longleftrightarrow> (\<exists>p \<in> set (permissions d). \<exists>m \<in> set new. k = pm_Key p \<and>
      (\<exists>g \<in> set (grants d). g_PermissionID g = r_ID p \<and> g_RoleID g = m_RoleID m))" for k
    unfolding granted_iff assms(5-7) using own assms(3) unfolding ids by blast
  then show "set (granted_keys u e d') = role_keys d ids"
    unfolding role_keys_def ids by blast
  assume "(v, i) \<noteq> (u, e)"
  then have other: "m \<in> set (members d') \<and> m_UserID m = v \<and> m_EnvironmentID m = i \<longleftrightarrow>
      m \<in> set (members d) \<and> m_UserID m = v \<and> m_EnvironmentID m = i" for m
    using assms(1) by (auto simp: assms(4) member_rows_def)
  have "k \<in> set (granted_keys v i d') \<longleftrightarrow> k \<in> set (granted_keys v i d)" for k
    unfolding granted_iff assms(5-7) using other by blast
  then show "set (granted_keys v i d') = set (granted_keys v i d)" by blast
qed

lemma Invalidate_frozen: "obeys frozen (Invalidate u e)"
  unfolding Invalidate_def Let_def by (intro frz.combine frz.reading [OF reads_permission_Identity])

text \<open>What replacing roles leaves of the environments: everything but the generation and the update stamps.\<close>

definition standing :: "engine \<Rightarrow> world \<Rightarrow> world \<Rightarrow> bool" where
  "standing E w w' \<longleftrightarrow> list_all2 (\<lambda>x y. ID y = ID x \<and> DeletedAt y = DeletedAt x \<and> e_Enabled y = e_Enabled x \<and> Version x \<le> Version y)
     (environments (database w)) (environments (database w'))"

interpretation std: effect standing
proof
  fix E w w' w''
  show "quiet w w' \<Longrightarrow> standing E w w'" by (simp add: standing_def quiet_def list.rel_refl)
  show "standing E w w' \<Longrightarrow> standing E w' w'' \<Longrightarrow> standing E w w''"
    unfolding standing_def by (erule list_all2_trans [rotated, rotated]) auto
qed

lemma standing_same: "environments (database w') = environments (database w) \<Longrightarrow> standing E w w'"
  by (simp add: standing_def list.rel_refl)

lemma ReplaceRoles_standing: "obeys standing (ReplaceRoles mru log)"
proof -
  have bump: "obeys standing (bumpEnvironmentPermissionGeneration actor e)" for actor e
  proof -
    have "obeys standing (updateM environments environments_update cond (\<lambda>e. e\<lparr>Version := Version e + 1, UpdatedBy := actor, UpdatedAt := now\<rparr>))" for cond now
      by (rule obeysI) (auto simp: standing_def updateM_def execM_def update_rows_def list_all2_map2 list.rel_refl intro!: list.rel_refl_strong split: option.splits)
    then show ?thesis unfolding bumpEnvironmentPermissionGeneration_def by (intro std.compose)
  qed
  have links: "obeys standing (deleteM members_update cond)" "obeys standing (fresh_id t)"
    "obeys standing (execM (\<lambda>E d. if c E d then (Inr (), members_update F d) else (Inl err, d)))" for cond t c F err
    by (rule obeysI, auto simp: deleteM_def execM_def fresh_id_def intro!: standing_same split: option.splits if_splits)+
  have aud: "obeys standing (RecordForEnvironment e log)" for e log
    by (rule obeys_mono [OF apart_audits(1)]) (auto simp: apart_def view_def intro: standing_same)
  show ?thesis
    unfolding ReplaceRoles_def lockMember_def lockRoles_def ensureRolesContainNoSystemPermissions_def replaceLinks_def bumpEnvironmentPermissionGenerations_def
      insertAllM_def RecordPrepareInsert_def insertTimes_def
    by (intro std.compose bump links aud)
qed

lemma live_environment_standing:
  assumes "standing E w w'" "live_environment (database w) e = Some env"
  shows "\<exists>env'. live_environment (database w') e = Some env' \<and> e_Enabled env' = e_Enabled env \<and> Version env \<le> Version env'"
proof -
  have "first_row (filter P xs) = Some env \<Longrightarrow> list_all2 R xs ys \<Longrightarrow> (\<And>x y. R x y \<Longrightarrow> P y = P x) \<Longrightarrow>
      \<exists>env'. first_row (filter P ys) = Some env' \<and> R env env'" for P R and xs ys :: "environment_row list"
    by (induction xs arbitrary: ys) (auto simp: first_row_def list_all2_Cons1)
  from this [OF assms(2) [unfolded live_environment_def] assms(1) [unfolded standing_def]]
  show ?thesis unfolding live_environment_def by auto
qed

text \<open>
  What a member with the given roles may do in an environment, from the stored account, environment and grants: a system administrator
  passes by the account alone; anyone else needs the environment enabled, at least one role, and every required key among those the
  roles grant.
\<close>

definition passes :: "db \<Rightarrow> int \<Rightarrow> int \<Rightarrow> int list \<Rightarrow> string list \<Rightarrow> bool" where
  "passes d u e ids required \<longleftrightarrow> (\<exists>user env. caller_row d u = Some user \<and> live_environment d e = Some env \<and>
     (u_IsSystemAdmin user \<or> e_Enabled env \<and> ids \<noteq> [] \<and> set required \<subseteq> role_keys d ids - {''''}))"

text \<open>
  C18. Changing the roles of a member takes effect at once and for nobody else. After a successful
  \<^verbatim>\<open>UpdateMemberRoles\<close>, which only a caller with \<^verbatim>\<open>environment:member:manage\<close> can make, what the member is granted in
  the environment is exactly what the given roles grant, and what any other user or environment is granted
  is unchanged. The next authorization of the member, through the cache, decides by the new roles: it passes only a
  system administrator, or a member with a new role in an enabled environment whose new roles grant every required key; and these it
  does pass when no statement fails, permissions that were just granted included.
\<close>

theorem member_roles_effective:
  assumes tx: "transaction_runner tx" and ok: "access_ok w"
    and run: "UpdateMemberRoles tx actor e u ids E w = (Inr x, w')" and req: "Require u e required E w' = (r, w'')"
  shows "authorised (database w) (Actor_UserID actor) e [EnvironmentMemberManage] \<and>
    set (granted_keys u e (database w')) = role_keys (database w) ids \<and>
    (\<forall>v i. (v, i) \<noteq> (u, e) \<longrightarrow> set (granted_keys v i (database w')) = set (granted_keys v i (database w))) \<and>
    (r = Inr () \<longrightarrow> passes (database w) u e ids required) \<and>
    (reliable E \<and> passes (database w) u e ids required \<longrightarrow> r = Inr ())"
proof -
  let ?mru = "\<lparr>MRU_EnvironmentID = e, MRU_UserID = u, MRU_RoleIDs = ids, MRU_ActorID = Actor_UserID actor\<rparr>"
  let ?log = "environmentAudit actor ''environment.member.roles.update'' ''user''"
  from run obtain w1 w2 rv where chk: "Require (Actor_UserID actor) e [EnvironmentMemberManage] E w = (Inr (), w1)"
    and rep: "tx (ReplaceRoles ?mru ?log) E w1 = (Inr (), w2)" and inv: "Invalidate u e E w2 = (rv, w')"
    by (auto simp: UpdateMemberRoles_def run_simps)
  have coh: "perm_coherent (database w) (cache w)" "plain_catalog (database w)" using ok by (simp_all add: access_ok_def)
  from Require_effect [OF chk coh] have auth: "authorised (database w) (Actor_UserID actor) e [EnvironmentMemberManage]"
    and d1: "database w1 = database w" by (auto simp: auth_frame_def)
  have dist: "distinct (map ID (roles (database w1)))" using ok d1 by (simp add: access_ok_def)
  note commit = tx_commit [OF tx rep]
  from ReplaceRoles_Inr [OF commit dist, unfolded d1] obtain new rows row where
    d2: "database w2 = audit_logs_update (\<lambda>logs. logs @ [row]) (environments_update (\<lambda>_. rows) (members_update (member_rows u e new) (database w)))"
    and new: "\<forall>m \<in> set new. m_UserID m = u \<and> m_EnvironmentID m = e" "map m_RoleID new = ids"
      "\<forall>i \<in> set ids. \<exists>r \<in> set (roles (database w)). ID r = i \<and> DeletedAt r = None" by blast
  have d': "database w' = database w2" using obeysD [OF Invalidate_frozen inv] by (simp add: frozen_def)
  have own: "set (granted_keys u e (database w')) = role_keys (database w) ids"
    and other: "(v, i) \<noteq> (u, e) \<Longrightarrow> set (granted_keys v i (database w')) = set (granted_keys v i (database w))" for v i
    using member_keys [OF new, of "database w'"] by (simp_all add: d' d2)
  have stand: "standing E w w'" using obeysD [OF ReplaceRoles_standing commit] by (simp add: standing_def d1 d')
  from auth obtain env where env: "0 < e" "live_environment (database w) e = Some env" "0 \<le> Version env"
    by (auto simp: authorised_def admitted_def)
  from live_environment_standing [OF stand env(2)] obtain env' where
    env': "live_environment (database w') e = Some env'" "e_Enabled env' = e_Enabled env" "Version env \<le> Version env'" by blast
  have row: "caller_row (database w') u = caller_row (database w) u" by (simp add: d' d2 caller_row_def)
  have mem: "is_member (database w') u e \<longleftrightarrow> ids \<noteq> []"
    using new(1,2) by (cases new) (auto simp: d' d2 is_member_def member_rows_def list_ex_iff)
  have eq: "authorised (database w') u e required \<longleftrightarrow> passes (database w) u e ids required"
    unfolding authorised_def admitted_def passes_def own row mem using env env' by auto
  have "access_ok w'"
    using obeysD [OF acc_admin.environments(7) [OF run_tx_runner tx] run] ok by (simp add: stays_def)
  then have coh': "perm_coherent (database w') (cache w')" "plain_catalog (database w')" by (simp_all add: access_ok_def)
  show ?thesis
    using auth own other Require_effect [OF req coh'] Require_total [of E w' u e required] coh' req eq by auto
qed

section \<open>A demotion\<close>

definition admin_user :: user_row where
  "admin_user = \<lparr>ID = 1, CreatedBy = 0, UpdatedBy = 0, CreatedAt = 1, UpdatedAt = 1, Version = 1, DeletedAt = None,
     u_Username = ''root'', u_DisplayName = ''Root'', u_PasswordHash = ''h'', u_Enabled = True,
     u_IsSystemAdmin = True, u_MustChangePassword = False, u_LastLoginAt = None\<rparr>"

definition staffed_world :: world where
  "staffed_world = example_world\<lparr>database := users_update (\<lambda>rows. admin_user # rows) example_db\<rparr>"

definition admin_actor :: Actor where
  "admin_actor = \<lparr>Actor_UserID = 1, Actor_RequestID = ''r2''\<rparr>"

definition demotion :: "unit result \<times> world" where
  "demotion = UpdateMemberRoles run_tx admin_actor 1 7 [] example_engine staffed_world"

lemma staffed_world_ok: "access_ok staffed_world"
proof -
  have "plain_catalog (database staffed_world)" "distinct (map ID (environments (database staffed_world)))"
    "\<forall>env \<in> set (environments (database staffed_world)). ID env \<le> last_id staffed_world EnvironmentsTable"
    "distinct (map ID (roles (database staffed_world)))" "\<forall>r \<in> set (roles (database staffed_world)). ID r \<le> last_id staffed_world RolesTable"
    "\<forall>m \<in> set (members (database staffed_world)). m_RoleID m \<le> last_id staffed_world RolesTable"
    by code_simp+
  then show ?thesis
    by (simp add: access_ok_def perm_coherent_def staffed_world_def example_world_def newMemory_def memory_holds_def)
qed

lemma demotion_done: "demotion = (Inr (), snd demotion)" "members (database (snd demotion)) = []"
proof -
  have "fst demotion = Inr ()" by code_simp
  then show "demotion = (Inr (), snd demotion)" by (simp add: prod_eq_iff)
  show "members (database (snd demotion)) = []" by code_simp
qed

theorem authorization_never_stale_witness:
  "fst (Require 7 1 [''config:write''] example_engine (snd demotion)) \<noteq> Inr ()"
proof -
  let ?run = "Require 7 1 [''config:write''] example_engine (snd demotion)"
  have "admin_call example_engine staffed_world (snd demotion)"
    using admin_call.member_roles [OF run_tx_runner demotion_done(1) [unfolded demotion_def]] by (simp add: demotion_def)
  then have run: "server_run example_engine [Nothing] staffed_world (snd demotion)"
    using server_run.continue [OF server_run.start server_step.administer] by fastforce
  have "map_option u_IsSystemAdmin (caller_row (database (snd demotion)) 7) = Some False" by code_simp
  then have "\<not> authorised (database (snd demotion)) 7 1 [''config:write'']"
    using demotion_done(2) by (auto simp: authorised_def admitted_def is_member_def)
  with authorization_never_stale [OF staffed_world_ok run surjective_pairing [of ?run]] show ?thesis by auto
qed

text \<open>The roles are taken away, and given regained.\<close>

definition promotion :: "unit result \<times> world" where
  "promotion = UpdateMemberRoles run_tx admin_actor 1 7 [4] example_engine (snd demotion)"

lemma promotion_done: "promotion = (Inr (), snd promotion)"
proof -
  have "fst promotion = Inr ()" by code_simp
  then show ?thesis by (simp add: prod_eq_iff)
qed

lemma demotion_ok: "access_ok (snd demotion)"
  using obeysD [OF acc_admin.environments(7) [OF run_tx_runner run_tx_runner] demotion_done(1) [unfolded demotion_def]] staffed_world_ok
  by (simp add: stays_def demotion_def)

theorem member_roles_effective_witness:
  "set (granted_keys 7 1 (database (snd demotion))) = {} \<and>
   fst (Require 7 1 [''config:read''] example_engine (snd demotion)) \<noteq> Inr () \<and>
   fst (Require 7 1 [''config:read''] example_engine (snd promotion)) = Inr ()"
proof (intro conjI)
  let ?out = "Require 7 1 [''config:read''] example_engine (snd demotion)" and ?again = "Require 7 1 [''config:read''] example_engine (snd promotion)"
  note out = member_roles_effective [OF run_tx_runner staffed_world_ok demotion_done(1) [unfolded demotion_def] surjective_pairing [of ?out, unfolded demotion_def]]
  note regained = member_roles_effective [OF run_tx_runner demotion_ok promotion_done [unfolded promotion_def] surjective_pairing [of ?again, unfolded promotion_def]]
  have keys: "role_keys (database staffed_world) [] = {}" by (simp add: role_keys_def)
  have "map_option u_IsSystemAdmin (caller_row (database staffed_world) 7) = Some False" by code_simp
  then have "\<not> passes (database staffed_world) 7 1 [] [''config:read'']" by (auto simp: passes_def)
  then show "set (granted_keys 7 1 (database (snd demotion))) = {}" "fst ?out \<noteq> Inr ()"
    using out keys by (auto simp: demotion_def)
  have "caller_row (database (snd demotion)) 7 \<noteq> None" "map_option e_Enabled (live_environment (database (snd demotion)) 1) = Some True"
    "list_ex (\<lambda>p. pm_Key p = ''config:read'' \<and> list_ex (\<lambda>g. g_PermissionID g = r_ID p \<and> g_RoleID g = 4) (grants (database (snd demotion))))
       (permissions (database (snd demotion)))" by code_simp+
  then have "passes (database (snd demotion)) 7 1 [4] [''config:read'']" by (fastforce simp: passes_def role_keys_def list_ex_iff)
  moreover have "reliable example_engine" by (simp add: reliable_def example_engine_def)
  ultimately show "fst ?again = Inr ()" using regained by (simp add: promotion_def)
qed

end
