(* ===== verification/Accounts.thy ===== *)
theory Accounts
  imports Access_Props
begin

text \<open>
  Accounts over the life of the server: the installation is set up once, an enabled administrator remains, and what
  ends an account's sessions.
\<close>

section \<open>The invariant\<close>

definition staffed :: "world \<Rightarrow> bool" where
  "staffed w \<longleftrightarrow> distinct (map ID (users (database w))) \<and> (\<forall>u \<in> set (users (database w)). ID u \<le> last_id w UsersTable) \<and>
     (\<exists>u \<in> set (users (database w)). active_admin u) \<and>
     (\<forall>x \<in> set (application_secrets (database w)). x_ID x = 1 \<longrightarrow> x_AdminInitialized x)"

interpretation stf: lasting staffed
proof
  fix w w' :: world
  assume ok: "staffed w" and same: "database w' = database w" and ids: "\<And>t. last_id w t \<le> last_id w' t"
  have "a \<le> last_id w' UsersTable" if "a \<le> last_id w UsersTable" for a using that ids [of UsersTable] by linarith
  with ok same show "staffed w'" by (simp add: staffed_def)
qed

lemma account_keeps: "ID (account u) = ID u" "active_admin (account u) = active_admin u"
  by (simp_all add: account_def active_admin_def)

lemma tenant_staffed: "tenant E w w' \<Longrightarrow> stays staffed E w w'"
proof -
  assume "tenant E w w'"
  then have acc: "map account (users (database w')) = map account (users (database w))"
    and rest: "application_secrets (database w') = application_secrets (database w)" "last_id w' UsersTable = last_id w UsersTable"
    by (simp_all add: tenant_def identity_def admin_ids_def)
  have ids: "map ID (users (database w')) = map ID (users (database w))"
    using arg_cong [OF acc, of "map ID"] by (simp add: comp_def account_keeps)
  have some: "(\<exists>u \<in> set us. active_admin u) \<longleftrightarrow> (\<exists>v \<in> set (map account us). active_admin v)"
    and all: "(\<forall>u \<in> set us. ID u \<le> n) \<longleftrightarrow> (\<forall>v \<in> set (map account us). ID v \<le> n)" for us n
    by (simp_all add: account_keeps)
  have "(\<exists>u \<in> set (users (database w')). active_admin u) \<longleftrightarrow> (\<exists>u \<in> set (users (database w)). active_admin u)"
    using some [of "users (database w')"] some [of "users (database w)"] by (simp only: acc)
  moreover have "(\<forall>u \<in> set (users (database w')). ID u \<le> n) \<longleftrightarrow> (\<forall>u \<in> set (users (database w)). ID u \<le> n)" for n
    using all [of "users (database w')" n] all [of "users (database w)" n] by (simp only: acc)
  ultimately show ?thesis unfolding stays_def staffed_def ids rest by simp
qed

section \<open>Operations that leave accounts alone\<close>

definition crew :: "engine \<Rightarrow> world \<Rightarrow> world \<Rightarrow> bool" where
  "crew E w w' \<longleftrightarrow> users (database w') = users (database w) \<and> application_secrets (database w') = application_secrets (database w) \<and>
     last_id w' UsersTable = last_id w UsersTable"

interpretation crw: transition crew
  by unfold_locales (auto simp: crew_def quiet_def)

lemma crew_staffed: "crew E w w' \<Longrightarrow> stays staffed E w w'"
  by (simp add: crew_def stays_def staffed_def)

lemma crew_tx: "transaction_runner tx \<Longrightarrow> obeys crew m \<Longrightarrow> obeys (stays staffed) (tx m)"
  by (rule obeys_mono [OF crw.transaction crew_staffed])

definition crewless :: "(('r list \<Rightarrow> 'r list) \<Rightarrow> db \<Rightarrow> db) \<Rightarrow> bool" where
  "crewless upd \<longleftrightarrow> (\<forall>F d. users (upd F d) = users d \<and> application_secrets (upd F d) = application_secrets d)"

lemma crewless_tables: "crewless environments_update" "crewless roles_update" "crewless members_update" "crewless grants_update"
  "crewless projects_update" "crewless audit_logs_update" "crewless refresh_tokens_update"
  by (simp_all add: crewless_def)

lemma crew_statements:
  assumes "crewless upd"
  shows "obeys crew (updateM sel upd cond f)" "obeys crew (deleteM upd cond)"
    "t \<noteq> UsersTable \<Longrightarrow> obeys crew (insertM t sel upd clash setID row)"
    "t \<noteq> UsersTable \<Longrightarrow> obeys crew (insertAllM t sel upd clash setID rows)"
proof -
  from assms have same: "users (upd F d) = users d" "application_secrets (upd F d) = application_secrets d" for F d
    by (simp_all add: crewless_def)
  have fresh: "t \<noteq> UsersTable \<Longrightarrow> obeys crew (fresh_id t)" for t by (auto simp: obeys_def crew_def fresh_id_def)
  have exec: "obeys crew (execM q)" if "\<And>E d. snd (q E d) = d \<or> (\<exists>F. snd (q E d) = upd F d)" for q :: "engine \<Rightarrow> db \<Rightarrow> 'z result \<times> db"
  proof (rule obeysI)
    fix E and w :: world and r :: "'z result" and w'
    assume "execM q E w = (r, w')"
    with that [of E "database w"] same show "crew E w w'" by (auto simp: crew_def execM_def split: option.splits prod.splits)
  qed
  show "obeys crew (updateM sel upd cond f)" unfolding updateM_def by (rule exec) auto
  show "obeys crew (deleteM upd cond)" unfolding deleteM_def by (rule exec) auto
  show "obeys crew (insertM t sel upd clash setID row)" if "t \<noteq> UsersTable"
    unfolding insertM_def by (intro crw.combine fresh exec that) auto
  show "obeys crew (insertAllM t sel upd clash setID rows)" if "t \<noteq> UsersTable"
    unfolding insertAllM_def by (intro crw.combine fresh exec that) auto
qed

lemma crew_prepare: "obeys crew (PrepareInsert m)" "obeys crew (RecordPrepareInsert rm)"
  unfolding PrepareInsert_def RecordPrepareInsert_def insertTimes_def by (intro crw.combine)+

lemmas crew_steps = crw.combine crew_prepare crew_statements crewless_tables table_name.distinct

lemma crew_audits:
  "obeys crew (RecordForEnvironment e log)" "obeys crew (RecordSystem log)" "obeys crew (environment_recordAudit e log)"
  "obeys crew (role_recordAudit e log)" "obeys crew (user_recordAudit e log)" "obeys crew (revokeUserSessions i now)"
  unfolding RecordForEnvironment_def RecordSystem_def insertAudit_def environment_recordAudit_def role_recordAudit_def user_recordAudit_def
    revokeUserSessions_def by (intro crew_steps)+

lemma crew_bodies:
  "obeys crew (environment_Create env log)" "obeys crew (environment_Update e eu log)" "obeys crew (role_Create role log)"
  "obeys crew (role_Update i ru log)" "obeys crew (role_Delete i user log)" "obeys crew (role_UpdatePermissions i ids user log)"
  "obeys crew (ReplaceRoles mru log)" "obeys crew (project_Create pr)" "obeys crew (project_Update i pu)"
  unfolding environment_Create_def insertEnvironment_def environment_Update_def role_Create_def insertRole_def role_Update_def
    role_Delete_def role_UpdatePermissions_def replacePermissions_def advancePermissionGenerations_def ReplaceRoles_def replaceLinks_def
    lockRole_def lockAssignments_def lockPermissions_def lockMember_def lockRoles_def ensureRolesContainNoSystemPermissions_def
    bumpEnvironmentPermissionGenerations_def bumpEnvironmentPermissionGeneration_def project_Create_def insertProject_def project_Update_def
  by (intro crew_steps crew_audits)+

section \<open>Changes of accounts\<close>

lemma staffed_update:
  assumes "staffed w" "users (database w') = update_rows cond f (users (database w))"
    "application_secrets (database w') = application_secrets (database w)" "last_id w' UsersTable = last_id w UsersTable"
    "\<And>r. ID (f r) = ID r" "\<exists>u \<in> set (users (database w)). active_admin (if cond u then f u else u)"
  shows "staffed w'"
proof -
  have "distinct (map ID (users (database w')))" using assms(1,2,5) by (simp add: staffed_def map_update_rows)
  moreover have "\<forall>u \<in> set (users (database w')). ID u \<le> last_id w' UsersTable"
    using assms(1,2,4,5) by (auto simp: staffed_def set_update_rows)
  moreover have "\<exists>u \<in> set (users (database w')). active_admin u" unfolding assms(2) set_update_rows using assms(6) by blast
  ultimately show ?thesis using assms(1,3) by (simp add: staffed_def)
qed

lemma staffed_insert:
  assumes "staffed w" "users (database w') = users (database w) @ [new]" "ID new = last_id w UsersTable + 1"
    "last_id w' UsersTable = last_id w UsersTable + 1" "application_secrets (database w') = application_secrets (database w)"
  shows "staffed w'"
proof -
  have old: "ID u \<le> last_id w UsersTable" if "u \<in> set (users (database w))" for u using assms(1) that by (simp add: staffed_def)
  have "distinct (map ID (users (database w')))" using assms(1,3) old by (force simp: assms(2) staffed_def)
  moreover have "ID u \<le> last_id w' UsersTable" if "u \<in> set (users (database w'))" for u
    using that old [of u] assms(3,4) by (auto simp: assms(2))
  ultimately show ?thesis using assms(1,5) by (auto simp: assms(2) staffed_def)
qed

lemma crewD:
  assumes "crew E w w'"
  shows "users (database w') = users (database w)" "application_secrets (database w') = application_secrets (database w)"
    "last_id w' UsersTable = last_id w UsersTable"
  using assms by (simp_all add: crew_def)

text \<open>The check before an administrator goes: two of them are read, one other than the account must be among these.\<close>

lemma ensureLastSystemAdmin_Inr:
  assumes "ensureLastSystemAdmin i E w = (Inr u, w')"
  shows "quiet w w'" "\<exists>other \<in> set (users (database w)). ID other \<noteq> i \<and> active_admin other"
proof -
  from assms show "quiet w w'" by (auto simp: ensureLastSystemAdmin_def run_simps)
  from assms have "filter (\<lambda>a. ID a \<noteq> i \<and> active_admin a) (take 2 (sort_key ID (filter active_admin (users (database w))))) \<noteq> []"
    by (auto simp: ensureLastSystemAdmin_def ensureSystemAdminSurvives_def guardR_def run_simps split: if_splits)
  then obtain a where a: "a \<in> set (take 2 (sort_key ID (filter active_admin (users (database w)))))" "ID a \<noteq> i" "active_admin a"
    by (auto simp: filter_empty_conv)
  from in_set_takeD [OF a(1)] have "a \<in> set (users (database w))" by simp
  with a show "\<exists>other \<in> set (users (database w)). ID other \<noteq> i \<and> active_admin other" by blast
qed

text \<open>A guarded edit of one account.\<close>

lemma staffed_guarded:
  assumes ok: "staffed w" and u: "u \<in> set (users (database w))" "ID u = i" and cond: "\<And>x. cond x \<Longrightarrow> ID x = i" and f: "\<And>x. ID (f x) = ID x"
    and same: "users (database w') = update_rows cond f (users (database w))"
      "application_secrets (database w') = application_secrets (database w)" "last_id w' UsersTable = last_id w UsersTable"
    and safe: "active_admin u \<Longrightarrow> active_admin (f u) \<or> (\<exists>other \<in> set (users (database w)). ID other \<noteq> i \<and> active_admin other)"
  shows "staffed w'"
proof (rule staffed_update [OF ok same f])
  have uniq: "x = u" if "x \<in> set (users (database w))" "ID x = i" for x
    using row_unique [of ID "users (database w)" x u] ok that u by (simp add: staffed_def)
  from ok obtain a where a: "a \<in> set (users (database w))" "active_admin a" by (auto simp: staffed_def)
  show "\<exists>x \<in> set (users (database w)). active_admin (if cond x then f x else x)"
  proof (cases "ID a = i")
    case False
    with a cond show ?thesis by auto
  next
    case True
    with uniq a have au: "a = u" by blast
    with a safe consider "active_admin (f u)" | other where "other \<in> set (users (database w))" "ID other \<noteq> i" "active_admin other" by blast
    then show ?thesis
    proof cases
      case 1
      with a au show ?thesis by (cases "cond u") auto
    next
      case 2
      with cond show ?thesis by auto
    qed
  qed
qed

lemma database_accounts [database_intro]:
  "database_only (user_recordAudit i log)" "database_only (lockManagedUser i)" "database_only (ensureLastSystemAdmin i)"
  "database_only (updateManagedUser i f v)" "database_only (revokeUserSessions i now)" "database_only (GetByID i)" "database_only loadState"
  "database_only markInitialized" "database_only (insertUser u)"
  unfolding user_recordAudit_def lockManagedUser_def requireUser_def ensureLastSystemAdmin_def updateManagedUser_def revokeUserSessions_def
    GetByID_def loadState_def markInitialized_def insertUser_def
  by (intro database_intro)+

lemma lockManagedUser_Inr:
  assumes "lockManagedUser i E w = (Inr u, w')"
  shows "u \<in> set (users (database w))" "ID u = i" "DeletedAt u = None" "quiet w w'"
  using assms by (auto simp: lockManagedUser_def requireUser_def run_simps split: option.splits dest!: first_row_Some)

lemma updateManagedUser_Inr:
  assumes "updateManagedUser i f v E w = (Inr x, w')"
  shows "database w' = users_update (update_rows (\<lambda>u. ID u = i \<and> DeletedAt u = None \<and> Version u = v) f) (database w)"
    "cache w' = cache w" "last_id w' = last_id w"
  using assms by (auto simp: updateManagedUser_def run_simps)

lemma staffed_updates: "commits staffed (UpdateManagedUser uu log)" "commits staffed (UpdateManagedStatus su log)"
  "commits staffed (UpdateManagedPassword i hash user log)"
proof -
  have "staffed w'" if run: "UpdateManagedUser uu log E w = (Inr a, w')" and ok: "staffed w" for E w a w'
  proof -
    from run obtain u w1 w2 x now w3 y where lock: "lockManagedUser (MUU_UserID uu) E w = (Inr u, w1)"
      and chk: "(if u_Enabled u \<and> u_IsSystemAdmin u \<and> \<not> MUU_SystemAdmin uu then ensureLastSystemAdmin (ID u) else returnM ()) E w1 = (Inr x, w2)"
      and upd: "updateManagedUser (MUU_UserID uu) (\<lambda>u. u\<lparr>u_DisplayName := MUU_DisplayName uu, u_IsSystemAdmin := MUU_SystemAdmin uu,
        UpdatedBy := MUU_ActorID uu, UpdatedAt := now, Version := MUU_Version uu + 1\<rparr>) (MUU_Version uu) E (w2\<lparr>tick := Suc (tick w2)\<rparr>) = (Inr (), w3)"
      and aud: "user_recordAudit (MUU_UserID uu) log E w3 = (Inr y, w')"
      by (auto simp: UpdateManagedUser_def Let_def run_basic bindM_Inr guardM_Inr)
    note l = lockManagedUser_Inr [OF lock] and c = crewD [OF obeysD [OF crew_audits(5) aud]] and f = updateManagedUser_Inr [OF upd]
    have q2: "quiet w w2" and other: "active_admin u \<Longrightarrow> \<not> MUU_SystemAdmin uu \<Longrightarrow>
        \<exists>other \<in> set (users (database w)). ID other \<noteq> MUU_UserID uu \<and> active_admin other"
      using chk l ensureLastSystemAdmin_Inr [of "ID u" E w1 x w2] by (auto simp: active_admin_def quiet_def run_basic split: if_splits)
    have d2: "database w2 = database w" "last_id w2 = last_id w" using q2 by (simp_all add: quiet_def)
    from c(1) f(1) d2 have same: "users (database w') = update_rows (\<lambda>u. ID u = MUU_UserID uu \<and> DeletedAt u = None \<and> Version u = MUU_Version uu)
        (\<lambda>u. u\<lparr>u_DisplayName := MUU_DisplayName uu, u_IsSystemAdmin := MUU_SystemAdmin uu, UpdatedBy := MUU_ActorID uu, UpdatedAt := now,
          Version := MUU_Version uu + 1\<rparr>) (users (database w))" by simp
    show ?thesis
      by (rule staffed_guarded [OF ok l(1,2) _ _ same]) (use other l in \<open>auto simp: c f d2 active_admin_def\<close>)
  qed
  then show "commits staffed (UpdateManagedUser uu log)"
    unfolding commits_def UpdateManagedUser_def Let_def by (auto intro!: database_intro)
  have "staffed w'" if run: "UpdateManagedStatus su log E w = (Inr a, w')" and ok: "staffed w" for E w a w'
  proof -
    from run obtain u w1 w2 x now w3 w4 y z where lock: "lockManagedUser (MUS_UserID su) E w = (Inr u, w1)"
      and chk: "(if u_Enabled u \<and> u_IsSystemAdmin u \<and> \<not> MUS_Enabled su then ensureLastSystemAdmin (ID u) else returnM ()) E w1 = (Inr x, w2)"
      and upd: "updateManagedUser (MUS_UserID su) (\<lambda>u. u\<lparr>u_Enabled := MUS_Enabled su, UpdatedBy := MUS_ActorID su, UpdatedAt := now,
        Version := MUS_Version su + 1\<rparr>) (MUS_Version su) E (w2\<lparr>tick := Suc (tick w2)\<rparr>) = (Inr (), w3)"
      and rev: "(if \<not> MUS_Enabled su then bindM nowM (revokeUserSessions (ID u)) else returnM ()) E w3 = (Inr z, w4)"
      and aud: "user_recordAudit (MUS_UserID su) log E w4 = (Inr y, w')"
      by (auto simp: UpdateManagedStatus_def Let_def run_basic bindM_Inr guardM_Inr)
    have "obeys crew (if \<not> MUS_Enabled su then bindM nowM (revokeUserSessions (ID u)) else returnM ())" by (intro crew_steps crew_audits)
    note c4 = crewD [OF obeysD [OF this rev]]
    note l = lockManagedUser_Inr [OF lock] and c = crewD [OF obeysD [OF crew_audits(5) aud]] and f = updateManagedUser_Inr [OF upd]
    have q2: "quiet w w2" and other: "active_admin u \<Longrightarrow> \<not> MUS_Enabled su \<Longrightarrow>
        \<exists>other \<in> set (users (database w)). ID other \<noteq> MUS_UserID su \<and> active_admin other"
      using chk l ensureLastSystemAdmin_Inr [of "ID u" E w1 x w2] by (auto simp: active_admin_def quiet_def run_basic split: if_splits)
    have d2: "database w2 = database w" "last_id w2 = last_id w" using q2 by (simp_all add: quiet_def)
    from c(1) c4(1) f(1) d2 have same: "users (database w') = update_rows (\<lambda>u. ID u = MUS_UserID su \<and> DeletedAt u = None \<and> Version u = MUS_Version su)
        (\<lambda>u. u\<lparr>u_Enabled := MUS_Enabled su, UpdatedBy := MUS_ActorID su, UpdatedAt := now, Version := MUS_Version su + 1\<rparr>)
        (users (database w))" by simp
    show ?thesis
      by (rule staffed_guarded [OF ok l(1,2) _ _ same]) (use other l in \<open>auto simp: c c4 f d2 active_admin_def\<close>)
  qed
  then show "commits staffed (UpdateManagedStatus su log)"
    unfolding commits_def UpdateManagedStatus_def Let_def by (auto intro!: database_intro)
  have "staffed w'" if run: "UpdateManagedPassword i hash user log E w = (Inr a, w')" and ok: "staffed w" for E w a w'
  proof -
    from run obtain u w1 now n w3 y z where lock: "lockManagedUser i E w = (Inr u, w1)"
      and rev: "revokeUserSessions (ID u) now E (w1\<lparr>database := users_update (update_rows (\<lambda>u. ID u = i \<and> DeletedAt u = None)
        (\<lambda>u. u\<lparr>Version := Version u + 1, u_PasswordHash := hash, u_MustChangePassword := False, UpdatedBy := user, UpdatedAt := now\<rparr>))
        (database w1), tick := n\<rparr>) = (Inr z, w3)"
      and aud: "user_recordAudit i log E w3 = (Inr y, w')"
      by (auto simp: UpdateManagedPassword_def run_simps)
    note l = lockManagedUser_Inr [OF lock] and c = crewD [OF obeysD [OF crew_audits(5) aud]] crewD [OF obeysD [OF crew_audits(6) rev]]
    have d1: "database w1 = database w" "last_id w1 = last_id w" using l(4) by (simp_all add: quiet_def)
    from c(1,4) d1 have same: "users (database w') = update_rows (\<lambda>u. ID u = i \<and> DeletedAt u = None)
        (\<lambda>u. u\<lparr>Version := Version u + 1, u_PasswordHash := hash, u_MustChangePassword := False, UpdatedBy := user, UpdatedAt := now\<rparr>)
        (users (database w))" by simp
    show ?thesis
      by (rule staffed_guarded [OF ok l(1,2) _ _ same]) (use l in \<open>auto simp: c d1 active_admin_def\<close>)
  qed
  then show "commits staffed (UpdateManagedPassword i hash user log)"
    unfolding commits_def UpdateManagedPassword_def by (auto intro!: database_intro)
qed

text \<open>Creating accounts, the first-run setup and the administrator command.\<close>

definition accounts_ok :: "world \<Rightarrow> bool" where
  "accounts_ok w \<longleftrightarrow> distinct (map ID (users (database w))) \<and> (\<forall>u \<in> set (users (database w)). ID u \<le> last_id w UsersTable)"

lemma insertUser_Inr:
  assumes "insertUser u E w = (Inr new, w')"
  shows "new = u\<lparr>ID := last_id w UsersTable + 1\<rparr>" "users (database w') = users (database w) @ [new]"
    "application_secrets (database w') = application_secrets (database w)" "last_id w' UsersTable = last_id w UsersTable + 1"
    "cache w' = cache w"
  using assms by (auto simp: insertUser_def run_simps)

lemma staffed_create: "commits staffed (CreateManagedUser acc log)"
proof -
  have "staffed w'" if run: "CreateManagedUser acc log E w = (Inr a, w')" and ok: "staffed w" for E w a w'
  proof -
    from run obtain m w1 new w2 y where prep: "PrepareInsert acc E w = (Inr m, w1)"
      and ins: "insertUser (m\<lparr>u_Enabled := True\<rparr>) E w1 = (Inr new, w2)"
      and aud: "user_recordAudit (ID new) log E w2 = (Inr y, w')"
      by (auto simp: CreateManagedUser_def run_basic bindM_Inr mapErrM_Inr)
    have d1: "database w1 = database w" "last_id w1 = last_id w" using PrepareInsert_Inr [OF prep] by (auto simp: quiet_def)
    note i = insertUser_Inr [OF ins] and c = crewD [OF obeysD [OF crew_audits(5) aud]]
    show ?thesis by (rule staffed_insert [OF ok, of _ new]) (simp_all add: c i d1)
  qed
  then show ?thesis
    unfolding commits_def CreateManagedUser_def by (auto intro!: database_intro)
qed

lemma loadState_Inr:
  assumes "loadState E w = (Inr x, w')"
  shows "x \<in> set (application_secrets (database w))" "x_ID x = 1" "quiet w w'"
  using assms by (auto simp: loadState_def run_simps split: option.splits dest!: first_row_Some)

lemma markInitialized_Inr:
  assumes "markInitialized E w = (Inr x, w')"
  shows "users (database w') = users (database w)" "last_id w' = last_id w"
    "application_secrets (database w') = update_rows (\<lambda>x. x_ID x = 1) (\<lambda>x. x\<lparr>x_AdminInitialized := True\<rparr>) (application_secrets (database w))"
  using assms by (auto simp: markInitialized_def run_simps)

lemma initialised_marked:
  "\<forall>x \<in> set (update_rows (\<lambda>x. x_ID x = 1) (\<lambda>x. x\<lparr>x_AdminInitialized := True\<rparr>) rows). x_ID x = 1 \<longrightarrow> x_AdminInitialized x"
  by (auto simp: set_update_rows)

lemma MarkInitialized_staffed: "staffed w \<Longrightarrow> MarkInitialized E w = (Inr x, w') \<Longrightarrow> staffed w'"
proof -
  assume ok: "staffed w" and run: "MarkInitialized E w = (Inr x, w')"
  from run obtain st w1 where load: "loadState E w = (Inr st, w1)"
    and rest: "(if x_AdminInitialized st then returnM () else markInitialized) E w1 = (Inr x, w')"
    by (auto simp: MarkInitialized_def run_basic bindM_Inr)
  from ok loadState_Inr [OF load] have "x_AdminInitialized st" by (simp add: staffed_def)
  with rest have "w' = w1" by (simp add: run_basic)
  with stf.idle [OF ok] loadState_Inr(3) [OF load] show ?thesis by (auto simp: quiet_def)
qed

lemma initial_refused:
  assumes "staffed w" "setup_CreateInitialAdmin acc E w = (r, w')"
  shows "\<exists>e. r = Inl e \<and> database w' = database w"
proof (cases "loadState E w")
  case (Pair x w1)
  show ?thesis
  proof (cases x)
    case (Inl e)
    with Pair assms(2) have "r = Inl e" "w' = w1" by (auto simp: setup_CreateInitialAdmin_def bindM_def)
    moreover have "database w1 = database w"
      using Pair Inl by (auto simp: loadState_def run_simps split: option.splits)
    ultimately show ?thesis by simp
  next
    case (Inr st)
    with Pair have load: "loadState E w = (Inr st, w1)" by simp
    with loadState_Inr [OF load] assms(1) have "x_AdminInitialized st" "database w1 = database w" by (auto simp: staffed_def quiet_def)
    with load assms(2) show ?thesis by (auto simp: setup_CreateInitialAdmin_def bindM_def guardM_def liftR_def guardR_def)
  qed
qed

lemma database_setup: "database_only (setup_CreateInitialAdmin acc)"
  unfolding setup_CreateInitialAdmin_def by (intro database_intro)

lemma staffed_setup: "commits staffed (setup_CreateInitialAdmin acc)"
  using database_setup initial_refused unfolding commits_def by blast

lemma promote_staffed:
  assumes "staffed w" "promoteSystemAdmin user display hash E w = (Inr x, w')"
  shows "staffed w'"
proof -
  from assms(2) obtain now w1 n z where rev: "revokeUserSessions (ID user) now E (w1\<lparr>database := users_update (update_rows (\<lambda>u. ID u = ID user)
      (\<lambda>u. u\<lparr>u_DisplayName := display, u_PasswordHash := hash, u_Enabled := True, u_IsSystemAdmin := True,
              u_MustChangePassword := False, DeletedAt := None, UpdatedAt := now, Version := Version user + 1\<rparr>)) (database w1), tick := n\<rparr>) = (Inr z, w')"
    and q: "quiet w w1"
    by (auto simp: promoteSystemAdmin_def run_simps)
  note c = crewD [OF obeysD [OF crew_audits(6) rev]]
  have d1: "database w1 = database w" "last_id w1 = last_id w" using q by (simp_all add: quiet_def)
  from assms(1) obtain a where a: "a \<in> set (users (database w))" "active_admin a" by (auto simp: staffed_def)
  show ?thesis
    by (rule staffed_update [OF assms(1), of w' "\<lambda>u. ID u = ID user" "\<lambda>u. u\<lparr>u_DisplayName := display, u_PasswordHash := hash, u_Enabled := True,
        u_IsSystemAdmin := True, u_MustChangePassword := False, DeletedAt := None, UpdatedAt := now, Version := Version user + 1\<rparr>"])
      (use a in \<open>auto simp: c d1 active_admin_def\<close>)
qed

lemma createSystemAdmin_staffed:
  assumes "staffed w" "createSystemAdmin name display hash E w = (Inr new, w')"
  shows "staffed w'"
proof -
  from assms(2) obtain m0 m w1 where prep: "PrepareInsert m0 E w = (Inr m, w1)" and ins: "insertUser m E w1 = (Inr new, w')"
    by (auto simp: createSystemAdmin_def run_basic bindM_Inr mapErrM_Inr)
  have d1: "database w1 = database w" "last_id w1 = last_id w" using PrepareInsert_Inr [OF prep] by (auto simp: quiet_def)
  note i = insertUser_Inr [OF ins]
  show ?thesis by (rule staffed_insert [OF assms(1), of _ new]) (simp_all add: i d1)
qed

lemma staffed_command: "commits staffed (bindM MarkInitialized (\<lambda>_. CreateOrPromoteSystemAdmin name display hash))"
proof -
  have "staffed w'" if run: "bindM MarkInitialized (\<lambda>_. CreateOrPromoteSystemAdmin name display hash) E w = (Inr a, w')" and ok: "staffed w" for E w a w'
  proof -
    from run obtain x w1 where mark: "MarkInitialized E w = (Inr x, w1)"
      and cmd: "CreateOrPromoteSystemAdmin name display hash E w1 = (Inr a, w')" by (auto simp: bindM_Inr)
    define found where "found = first_row (filter (\<lambda>u. same_text E (u_Username u) name) (users (database w1)))"
    define w2 where "w2 = w1\<lparr>tick := Suc (tick w1)\<rparr>"
    have q: "quiet w1 w2" by (simp add: quiet_def w2_def)
    from cmd have rest: "(case found of None \<Rightarrow> bindM (createSystemAdmin name display hash) (\<lambda>created. returnM (created, True))
        | Some user \<Rightarrow> bindM (promoteSystemAdmin user display hash) (\<lambda>_. bindM (GetByID (ID user)) (\<lambda>promoted. returnM (promoted, False)))) E w2 = (Inr a, w')"
      unfolding CreateOrPromoteSystemAdmin_def found_def w2_def by (auto simp: bindM_Inr mapErrM_Inr queryM_Inr)
    from MarkInitialized_staffed [OF ok mark] stf.idle [of w1 w2] q have ok2: "staffed w2" by (auto simp: quiet_def)
    show ?thesis
    proof (cases found)
      case None
      with rest createSystemAdmin_staffed [OF ok2] show ?thesis by (auto simp: run_basic bindM_Inr)
    next
      case (Some user)
      with rest obtain z w3 b where "promoteSystemAdmin user display hash E w2 = (Inr z, w3)" and get: "GetByID (ID user) E w3 = (Inr b, w')"
        by (auto simp: run_basic bindM_Inr)
      from promote_staffed [OF ok2 this(1)] have "staffed w3" .
      moreover have "quiet w3 w'" using get by (auto simp: GetByID_def requireUser_def run_simps split: option.splits)
      ultimately show ?thesis using stf.idle [of w3 w'] by (auto simp: quiet_def)
    qed
  qed
  then show ?thesis
    unfolding commits_def MarkInitialized_def CreateOrPromoteSystemAdmin_def createSystemAdmin_def promoteSystemAdmin_def
    by (auto intro!: database_intro)
qed

interpretation stf_admin: admin_relation "stays staffed"
proof unfold_locales
  show "obeys (stays staffed) (Resolve u e)" for u e by (rule obeys_mono [OF tenant_resolve tenant_staffed])
  show "obeys (stays staffed) (cacheDeleteM key)" for key by (rule obeys_mono [OF tenant_cache(2) tenant_staffed])
qed (erule stf.committed, (rule staffed_create staffed_updates staffed_setup staffed_command) |
     erule crew_tx, (intro crew_steps crew_audits crew_bodies))+

lemma server_step_staffed: "server_step E act w w' \<Longrightarrow> stays staffed E w w'"
  by (induction rule: server_step.induct)
    (auto simp: Publish_def Unpublish_def intro: tenant_staffed tnt_calls.editing stf_admin.administering
      publication_tenant [THEN obeysD])

lemma server_run_staffed: "server_run E acts w w' \<Longrightarrow> staffed w \<Longrightarrow> staffed w'"
  by (induction rule: server_run.induct) (auto simp: stays_def dest!: server_step_staffed)

end
