(* ===== verification/Account_Props.thy ===== *)
theory Account_Props
  imports Accounts Auth_Props
begin

text \<open>
  What holds of accounts in every state the server reaches, and what ends the sessions of an account.
\<close>

lemma RequireSystem_Inr:
  assumes "RequireSystem u key E w = (Inr x, w')"
  shows "quiet w w'" "\<exists>user. caller_row (database w) u = Some user \<and> u_IsSystemAdmin user"
  using assms
  by (auto simp: RequireSystem_def permission_SystemAdmin_def enabledUser_def caller_row_def getM_def run_simps split: option.splits if_splits)

text \<open>
  C6. The installation never loses its last administrator. In every state the server reaches from one that has an
  enabled administrator, whatever calls were made and whatever failed, by administrators who demote or disable
  each other or themselves, an enabled administrator remains, accounts have distinct identifiers, and the
  first-run setup stays closed.
\<close>

theorem administrators_survive:
  assumes "staffed w" "server_run E acts w w'"
  shows "(\<exists>u \<in> set (users (database w')). u_Enabled u \<and> u_IsSystemAdmin u \<and> DeletedAt u = None) \<and>
    distinct (map ID (users (database w'))) \<and>
    (\<forall>x \<in> set (application_secrets (database w')). x_ID x = 1 \<longrightarrow> x_AdminInitialized x)"
  using server_run_staffed [OF assms(2,1)] by (auto simp: staffed_def active_admin_def)

section \<open>The first-run setup\<close>

lemma setup_staffs:
  assumes "setup_CreateInitialAdmin acc E w = (Inr x, w')" "accounts_ok w" "active_admin acc"
  shows "staffed w'" "\<exists>u \<in> set (users (database w')). u_Username u = u_Username acc \<and> u_PasswordHash u = u_PasswordHash acc \<and> active_admin u"
proof -
  from assms(1) obtain st w1 m w2 new w3 where load: "loadState E w = (Inr st, w1)" and prep: "PrepareInsert acc E w1 = (Inr m, w2)"
    and ins: "insertUser m E w2 = (Inr new, w3)" and mark: "markInitialized E w3 = (Inr x, w')"
    by (auto simp: setup_CreateInitialAdmin_def bindM_Inr guardM_Inr mapErrM_Inr)
  from PrepareInsert_Inr [OF prep] obtain c u where m: "m = acc\<lparr>CreatedAt := c, UpdatedAt := u, Version := 1\<rparr>" and q2: "quiet w1 w2" by blast
  from loadState_Inr(3) [OF load] q2 have d2: "database w2 = database w" "last_id w2 = last_id w" by (simp_all add: quiet_def)
  note i = insertUser_Inr [OF ins] and k = markInitialized_Inr [OF mark]
  have new: "active_admin new" "u_Username new = u_Username acc" "u_PasswordHash new = u_PasswordHash acc" "ID new = last_id w UsersTable + 1"
    using assms(3) by (simp_all add: i(1) m d2 active_admin_def)
  have rows: "users (database w') = users (database w) @ [new]" by (simp add: k i d2)
  show "\<exists>u \<in> set (users (database w')). u_Username u = u_Username acc \<and> u_PasswordHash u = u_PasswordHash acc \<and> active_admin u"
    using new by (auto simp: rows)
  have old: "ID u \<le> last_id w UsersTable" if "u \<in> set (users (database w))" for u using assms(2) that by (simp add: accounts_ok_def)
  have "distinct (map ID (users (database w')))" using assms(2) old new(4) by (force simp: rows accounts_ok_def)
  moreover have "ID u \<le> last_id w' UsersTable" if "u \<in> set (users (database w'))" for u
    using that old [of u] new(4) by (auto simp: rows k i d2)
  moreover have "\<forall>x \<in> set (application_secrets (database w')). x_ID x = 1 \<longrightarrow> x_AdminInitialized x"
    unfolding k(3) by (rule initialised_marked)
  ultimately show "staffed w'" using new(1) by (auto simp: staffed_def rows)
qed

text \<open>
  C19. An installation is set up once. A successful \<^verbatim>\<open>CreateInitialAdmin\<close> on an installation without duplicate
  account identifiers stores an enabled administrator under the given name; from then on, after any run of the server,
  every further call of it is refused and changes nothing in the database.
\<close>

theorem setup_once:
  assumes tx: "transaction_runner tx" "transaction_runner tx'" and ok: "accounts_ok w"
    and first: "CreateInitialAdmin tx A name display password E w = (Inr x, w1)" and run: "server_run E acts w1 w2"
    and again: "CreateInitialAdmin tx' A' name' display' password' E w2 = (r, w3)"
  shows "(\<exists>u \<in> set (users (database w1)). u_Username u = name \<and> u_Enabled u \<and> u_IsSystemAdmin u \<and> DeletedAt u = None) \<and>
    (\<exists>e. r = Inl e) \<and> database w3 = database w2"
proof -
  from first obtain hash where body: "tx (setup_CreateInitialAdmin
       \<lparr>ID = 0, CreatedBy = 0, UpdatedBy = 0, CreatedAt = 0, UpdatedAt = 0, Version = 0, DeletedAt = None,
        u_Username = name, u_DisplayName = display, u_PasswordHash = hash, u_Enabled = True,
        u_IsSystemAdmin = True, u_MustChangePassword = False, u_LastLoginAt = None\<rparr>) E w = (Inr x, w1)"
    by (auto simp: CreateInitialAdmin_def hashPassword_def run_simps)
  note s = setup_staffs [OF tx_commit [OF tx(1) body] ok]
  have "staffed w2" using server_run_staffed [OF run s(1)] by (simp add: active_admin_def)
  note refused = initial_refused [OF this]
  from again have "(\<exists>e. r = Inl e) \<and> database w3 = database w2"
    unfolding CreateInitialAdmin_def
  proof (cases rule: bindM_elim)
    case (fails e)
    then show ?thesis by (auto simp: hashPassword_def run_simps)
  next
    case (continues hash' w0)
    have w0: "w0 = w2" using continues(1) by (auto simp: hashPassword_def run_simps)
    from continues(2) have "\<exists>e. r = Inl e"
      using tx_commit [OF tx(2)] refused unfolding w0 by (cases r) blast+
    with continues(2) tx_rollback [OF tx(2)] show ?thesis unfolding w0 by fastforce
  qed
  with s(2) show ?thesis by (auto simp: active_admin_def)
qed

section \<open>What ends the sessions of an account\<close>

definition revoke_user_rows :: "int \<Rightarrow> int \<Rightarrow> refresh_token_row list \<Rightarrow> refresh_token_row list" where
  "revoke_user_rows u now = update_rows (\<lambda>t. t_UserID t = u \<and> t_RevokedAt t = None) (\<lambda>t. t\<lparr>t_RevokedAt := Some now, r_UpdatedAt := now\<rparr>)"

lemma revoke_user_rows_effect:
  "\<forall>t \<in> set (revoke_user_rows u now rows). t_UserID t = u \<longrightarrow> t_RevokedAt t \<noteq> None"
  "filter (\<lambda>t. t_UserID t \<noteq> u) (revoke_user_rows u now rows) = filter (\<lambda>t. t_UserID t \<noteq> u) rows"
proof -
  show "\<forall>t \<in> set (revoke_user_rows u now rows). t_UserID t = u \<longrightarrow> t_RevokedAt t \<noteq> None"
    unfolding revoke_user_rows_def update_rows_ball by simp
  show "filter (\<lambda>t. t_UserID t \<noteq> u) (revoke_user_rows u now rows) = filter (\<lambda>t. t_UserID t \<noteq> u) rows"
    by (induction rows) (auto simp: revoke_user_rows_def update_rows_def)
qed

lemma revokeUserSessions_Inr:
  assumes "revokeUserSessions u now E w = (Inr x, w')"
  shows "database w' = refresh_tokens_update (revoke_user_rows u now) (database w)" "cache w' = cache w"
  using assms by (auto simp: revokeUserSessions_def revoke_user_rows_def run_simps)

lemma UpdateManagedStatus_off:
  assumes "UpdateManagedStatus su log E w = (Inr a, w')" "\<not> MUS_Enabled su"
  shows "\<exists>f now row. database w' = audit_logs_update (\<lambda>logs. logs @ [row]) (refresh_tokens_update (revoke_user_rows (MUS_UserID su) now)
      (users_update (update_rows (\<lambda>u. ID u = MUS_UserID su \<and> DeletedAt u = None \<and> Version u = MUS_Version su) f) (database w))) \<and>
    (\<forall>u. \<not> u_Enabled (f u)) \<and> cache w' = cache w \<and>
    (\<exists>u \<in> set (users (database w)). ID u = MUS_UserID su \<and> DeletedAt u = None \<and> Version u = MUS_Version su)"
proof -
  from assms obtain u w1 w2 x now w3 now' w4 y z where lock: "lockManagedUser (MUS_UserID su) E w = (Inr u, w1)" and ver: "Version u = MUS_Version su"
    and chk: "(if u_Enabled u \<and> u_IsSystemAdmin u then ensureLastSystemAdmin (ID u) else returnM ()) E w1 = (Inr x, w2)"
    and upd: "updateManagedUser (MUS_UserID su) (\<lambda>u. u\<lparr>u_Enabled := MUS_Enabled su, UpdatedBy := MUS_ActorID su, UpdatedAt := now,
      Version := MUS_Version su + 1\<rparr>) (MUS_Version su) E (w2\<lparr>tick := Suc (tick w2)\<rparr>) = (Inr (), w3)"
    and rev: "revokeUserSessions (ID u) now' E (w3\<lparr>tick := Suc (tick w3)\<rparr>) = (Inr z, w4)"
    and aud: "user_recordAudit (MUS_UserID su) log E w4 = (Inr y, w')"
    by (auto simp: UpdateManagedStatus_def Let_def run_basic bindM_Inr guardM_Inr)
  note l = lockManagedUser_Inr [OF lock] and f = updateManagedUser_Inr [OF upd] and v = revokeUserSessions_Inr [OF rev]
  have "quiet w w2" using chk l ensureLastSystemAdmin_Inr(1) [of "ID u" E w1 x w2] by (auto simp: quiet_def run_basic split: if_splits)
  then have d2: "database w2 = database w" "cache w2 = cache w" by (simp_all add: quiet_def)
  from RecordSystem_Inr [OF aud [unfolded user_recordAudit_def]] obtain row where
    d': "database w' = audit_logs_update (\<lambda>rows. rows @ [row]) (database w4)" "cache w' = cache w4" by blast
  show ?thesis
    by (intro exI [of _ "\<lambda>u. u\<lparr>u_Enabled := MUS_Enabled su, UpdatedBy := MUS_ActorID su, UpdatedAt := now, Version := MUS_Version su + 1\<rparr>"]
        exI [of _ now'] exI [of _ row]) (use assms(2) l ver in \<open>auto simp: d' v f d2\<close>)
qed

text \<open>
  C20. Disabling an account locks it out at once. After a successful \<^verbatim>\<open>UpdateStatus\<close> that disables an account, which
  only an enabled system administrator can make, the very next authorization of that account is refused for every
  environment and permission, although its permission set may still be cached; every refresh token it holds is
  revoked, tokens of other accounts are as before, and another enabled administrator remains.
\<close>

theorem disabled_account_locked_out:
  assumes tx: "transaction_runner tx" and ok: "staffed w" "access_ok w"
    and run: "UpdateStatus tx actor u False v E w = (Inr a, w')" and req: "Require u e required E w' = (r, w'')"
  shows "(\<exists>admin. caller_row (database w) (Actor_UserID actor) = Some admin \<and> u_IsSystemAdmin admin) \<and> r \<noteq> Inr () \<and>
    (\<forall>t \<in> set (refresh_tokens (database w')). t_UserID t = u \<longrightarrow> t_RevokedAt t \<noteq> None) \<and>
    filter (\<lambda>t. t_UserID t \<noteq> u) (refresh_tokens (database w')) = filter (\<lambda>t. t_UserID t \<noteq> u) (refresh_tokens (database w)) \<and>
    (\<exists>other \<in> set (users (database w')). ID other \<noteq> u \<and> active_admin other)"
proof -
  let ?su = "\<lparr>MUS_UserID = u, MUS_Enabled = False, MUS_Version = v, MUS_ActorID = Actor_UserID actor\<rparr>"
  from run obtain x w1 where chk: "RequireSystem (Actor_UserID actor) SystemUserManage E w = (Inr x, w1)"
    and body: "tx (UpdateManagedStatus ?su (userAudit actor ''user.status.update'')) E w1 = (Inr a, w')"
    by (auto simp: UpdateStatus_def bindM_Inr)
  note c = RequireSystem_Inr [OF chk]
  have d1: "database w1 = database w" using c(1) by (simp add: quiet_def)
  from UpdateManagedStatus_off [OF tx_commit [OF tx body]] obtain f now row acc where
    d: "database w' = audit_logs_update (\<lambda>logs. logs @ [row]) (refresh_tokens_update (revoke_user_rows u now)
      (users_update (update_rows (\<lambda>x. ID x = u \<and> DeletedAt x = None \<and> Version x = v) f) (database w)))"
    and f: "\<And>x. \<not> u_Enabled (f x)" and acc: "acc \<in> set (users (database w))" "ID acc = u" "DeletedAt acc = None" "Version acc = v"
    by (auto simp: d1)
  have uniq: "x = acc" if "x \<in> set (users (database w))" "ID x = u" for x
    using row_unique [of ID "users (database w)" x acc] ok(1) that acc by (simp add: staffed_def)
  have rows: "users (database w') = update_rows (\<lambda>x. ID x = u \<and> DeletedAt x = None \<and> Version x = v) f (users (database w))" by (simp add: d)
  have off: "\<forall>x \<in> set (users (database w')). ID x = u \<longrightarrow> \<not> u_Enabled x"
    unfolding rows update_rows_ball using f uniq acc(3,4) by fastforce
  then have none: "caller_row (database w') u = None"
    by (auto simp: caller_row_def first_row_None filter_empty_conv)
  have kept: "access_ok w'" "staffed w'"
    using obeysD [OF acc_admin.accounts(5) [OF tx run_tx_runner run_tx_runner] run]
      obeysD [OF stf_admin.accounts(5) [OF tx run_tx_runner run_tx_runner] run] ok by (simp_all add: stays_def)
  then have "r \<noteq> Inr ()"
    using Require_effect [OF req] none by (auto simp: access_ok_def authorised_def admitted_def)
  moreover have "\<exists>other \<in> set (users (database w')). ID other \<noteq> u \<and> active_admin other"
    using kept(2) off by (fastforce simp: staffed_def active_admin_def)
  ultimately show ?thesis
    using c(2) revoke_user_rows_effect [of u now "refresh_tokens (database w)"] by (auto simp: d)
qed

lemma UpdateManagedPassword_Inr:
  assumes "UpdateManagedPassword i hash user log E w = (Inr a, w')"
  shows "\<exists>f now row. database w' = audit_logs_update (\<lambda>logs. logs @ [row]) (refresh_tokens_update (revoke_user_rows i now)
      (users_update (update_rows (\<lambda>u. ID u = i \<and> DeletedAt u = None) f) (database w))) \<and>
    (\<forall>u. ID (f u) = ID u \<and> DeletedAt (f u) = DeletedAt u \<and> u_PasswordHash (f u) = hash \<and> u_Enabled (f u) = u_Enabled u) \<and>
    (\<exists>u \<in> set (users (database w)). ID u = i \<and> DeletedAt u = None)"
proof -
  from assms obtain u w1 now n w3 y z where lock: "lockManagedUser i E w = (Inr u, w1)"
    and rev: "revokeUserSessions (ID u) now E (w1\<lparr>database := users_update (update_rows (\<lambda>u. ID u = i \<and> DeletedAt u = None)
      (\<lambda>u. u\<lparr>Version := Version u + 1, u_PasswordHash := hash, u_MustChangePassword := False, UpdatedBy := user, UpdatedAt := now\<rparr>))
      (database w1), tick := n\<rparr>) = (Inr z, w3)"
    and aud: "user_recordAudit i log E w3 = (Inr y, w')"
    by (auto simp: UpdateManagedPassword_def run_simps)
  note l = lockManagedUser_Inr [OF lock] and v = revokeUserSessions_Inr [OF rev]
  have d1: "database w1 = database w" using l(4) by (simp add: quiet_def)
  from RecordSystem_Inr [OF aud [unfolded user_recordAudit_def]] obtain row where
    d': "database w' = audit_logs_update (\<lambda>rows. rows @ [row]) (database w3)" by blast
  show ?thesis
    by (intro exI [of _ "\<lambda>u. u\<lparr>Version := Version u + 1, u_PasswordHash := hash, u_MustChangePassword := False, UpdatedBy := user, UpdatedAt := now\<rparr>"]
        exI [of _ now] exI [of _ row]) (use l in \<open>auto simp: d' v d1\<close>)
qed

text \<open>
  C21. Changing a password works and ends every session. After a successful \<^verbatim>\<open>UpdatePassword\<close>, which only the account
  itself or a system administrator can make, the stored hash of the account accepts the new password, every refresh
  token of the account is revoked, and other accounts and their tokens are as before.
\<close>

theorem password_change_effective:
  assumes tx: "transaction_runner tx" and policy: "validateParams (auth_policy A) = Inr ()"
    and random: "\<forall>n b. auth_salt A n = Some b \<longrightarrow> length b = n" and size: "\<forall>pw salt t m p n. length (auth_argon A pw salt t m p n) = unat n"
    and run: "UpdatePassword tx A actor u plain E w = (Inr x, w')"
  shows "(Actor_UserID actor = u \<or> (\<exists>admin. caller_row (database w) (Actor_UserID actor) = Some admin \<and> u_IsSystemAdmin admin)) \<and>
    (\<exists>row \<in> set (users (database w')). ID row = u \<and> DeletedAt row = None \<and>
       Verify_password (auth_argon A) (auth_policy A) (u_PasswordHash row) plain = Inr (True, False)) \<and>
    (\<forall>t \<in> set (refresh_tokens (database w')). t_UserID t = u \<longrightarrow> t_RevokedAt t \<noteq> None) \<and>
    filter (\<lambda>t. t_UserID t \<noteq> u) (refresh_tokens (database w')) = filter (\<lambda>t. t_UserID t \<noteq> u) (refresh_tokens (database w)) \<and>
    filter (\<lambda>row. ID row \<noteq> u) (users (database w')) = filter (\<lambda>row. ID row \<noteq> u) (users (database w))"
proof -
  let ?log = "userAudit actor ''user.password.update''"
  from run obtain y w1 hash where
    chk: "(if Actor_UserID actor \<noteq> u then RequireSystem (Actor_UserID actor) SystemUserManage else returnM ()) E w = (Inr y, w1)"
    and hash: "Hash (auth_argon A) (auth_salt A) (auth_policy A) plain = Inr hash"
    and body: "tx (UpdateManagedPassword u hash (Actor_UserID actor) ?log) E w1 = (Inr x, w')"
    by (auto simp: UpdatePassword_def hashPassword_def bindM_Inr mapErrM_Inr run_basic liftR_def)
  have who: "Actor_UserID actor = u \<or> (\<exists>admin. caller_row (database w) (Actor_UserID actor) = Some admin \<and> u_IsSystemAdmin admin)"
    and d1: "database w1 = database w"
    using chk RequireSystem_Inr [of "Actor_UserID actor" SystemUserManage E w y w1] by (auto simp: quiet_def run_basic split: if_splits)
  from UpdateManagedPassword_Inr [OF tx_commit [OF tx body]] obtain f now row acc where
    d: "database w' = audit_logs_update (\<lambda>logs. logs @ [row]) (refresh_tokens_update (revoke_user_rows u now)
      (users_update (update_rows (\<lambda>x. ID x = u \<and> DeletedAt x = None) f) (database w)))"
    and f: "\<And>x. ID (f x) = ID x \<and> DeletedAt (f x) = DeletedAt x \<and> u_PasswordHash (f x) = hash"
    and acc: "acc \<in> set (users (database w))" "ID acc = u" "DeletedAt acc = None"
    by (auto simp: d1)
  have "Verify_password (auth_argon A) (auth_policy A) hash plain = Inr (True, False)"
    using Verify_Hash [OF policy random size hash, of "auth_policy A"] by auto
  moreover have "f acc \<in> set (users (database w'))" using acc by (auto simp: d set_update_rows intro!: image_eqI [of _ _ acc])
  moreover have "filter (\<lambda>row. ID row \<noteq> u) (update_rows (\<lambda>x. ID x = u \<and> DeletedAt x = None) f rows) = filter (\<lambda>row. ID row \<noteq> u) rows" for rows
    using f by (induction rows) (auto simp: update_rows_def)
  ultimately show ?thesis
    using who f [of acc] acc(2,3) revoke_user_rows_effect [of u now "refresh_tokens (database w)"] by (auto simp: d)
qed

section \<open>Accounts of an example installation\<close>

text \<open>The administrator of \<open>staffed_world\<close>, with the setup closed and two tokens of the other account.\<close>

definition installed_world :: world where
  "installed_world = staffed_world\<lparr>database := (database staffed_world)
     \<lparr>refresh_tokens := session_tokens, application_secrets := map (\<lambda>x. x\<lparr>x_AdminInitialized := True\<rparr>) (application_secrets (database staffed_world))\<rparr>\<rparr>"

lemma installed_world_ok: "staffed installed_world" "access_ok installed_world"
proof -
  show "staffed installed_world" by code_simp
  from staffed_world_ok show "access_ok installed_world"
    by (simp add: access_ok_def installed_world_def perm_coherent_def plain_catalog_def live_environment_def granted_keys_def)
qed

definition self_demotion :: "user_row result \<times> world" where
  "self_demotion = User_Update run_tx admin_actor \<lparr>UUpdate_UserID = 1, UUpdate_DisplayName = ''Root'', UUpdate_SystemAdmin = False, UUpdate_Version = 1\<rparr>
     example_engine installed_world"

theorem administrators_survive_witness:
  "\<exists>u \<in> set (users (database (snd self_demotion))). u_Enabled u \<and> u_IsSystemAdmin u \<and> DeletedAt u = None"
proof -
  have "admin_call example_engine installed_world (snd self_demotion)"
    by (rule admin_call.user_update [OF run_tx_runner]) (simp add: self_demotion_def, rule surjective_pairing)
  then have "server_run example_engine [Nothing] installed_world (snd self_demotion)"
    using server_run.continue [OF server_run.start server_step.administer] by fastforce
  from administrators_survive [OF installed_world_ok(1) this] show ?thesis by blast
qed

definition fresh_world :: world where
  "fresh_world = example_world\<lparr>database := example_db\<lparr>users := []\<rparr>\<rparr>"

definition first_setup :: "unit result \<times> world" where
  "first_setup = CreateInitialAdmin run_tx example_auth ''root'' ''Root'' ''open'' example_engine fresh_world"

theorem setup_once_witness:
  "\<exists>e. fst (CreateInitialAdmin run_tx example_auth ''eve'' ''Eve'' ''pw'' example_engine (snd first_setup)) = Inl e"
proof -
  let ?again = "CreateInitialAdmin run_tx example_auth ''eve'' ''Eve'' ''pw'' example_engine (snd first_setup)"
  have "accounts_ok fresh_world" by code_simp
  moreover have "fst first_setup = Inr ()" by code_simp
  then have "CreateInitialAdmin run_tx example_auth ''root'' ''Root'' ''open'' example_engine fresh_world = (Inr (), snd first_setup)"
    by (simp add: first_setup_def prod_eq_iff)
  ultimately show ?thesis
    using setup_once [OF run_tx_runner run_tx_runner _ _ server_run.start surjective_pairing [of ?again]] by blast
qed

definition lockout :: "user_row result \<times> world" where
  "lockout = UpdateStatus run_tx admin_actor 7 False 1 example_engine installed_world"

theorem disabled_account_locked_out_witness:
  "fst (Require 7 1 [''config:read''] example_engine (snd lockout)) \<noteq> Inr ()"
proof -
  let ?run = "Require 7 1 [''config:read''] example_engine (snd lockout)"
  have "\<not> isl (fst lockout)" by code_simp
  then obtain a where "UpdateStatus run_tx admin_actor 7 False 1 example_engine installed_world = (Inr a, snd lockout)"
    by (cases "fst lockout") (auto simp: lockout_def prod_eq_iff)
  from disabled_account_locked_out [OF run_tx_runner installed_world_ok this surjective_pairing [of ?run]] show ?thesis by simp
qed

definition own_change :: "unit result \<times> world" where
  "own_change = UpdatePassword run_tx example_auth example_actor 7 ''shut'' example_engine installed_world"

theorem password_change_effective_witness:
  "\<exists>row \<in> set (users (database (snd own_change))). ID row = 7 \<and>
     Verify_password toy_derivation defaultParams (u_PasswordHash row) ''shut'' = Inr (True, False)"
proof -
  have "fst own_change = Inr ()" by code_simp
  then have run: "UpdatePassword run_tx example_auth example_actor 7 ''shut'' example_engine installed_world = (Inr (), snd own_change)"
    by (simp add: own_change_def prod_eq_iff)
  have "validateParams (auth_policy example_auth) = Inr ()" by code_simp
  moreover have "\<forall>n b. auth_salt example_auth n = Some b \<longrightarrow> length b = n" by (simp add: example_auth_def example_random_def)
  moreover have "\<forall>pw salt t m p n. length (auth_argon example_auth pw salt t m p n) = unat n" by (auto simp: example_auth_def toy_derivation_def min_def)
  ultimately show ?thesis using password_change_effective [OF run_tx_runner _ _ _ run] by (auto simp: example_auth_def)
qed

end
