(* ===== verification/Media.thy ===== *)
theory Media
  imports Auth Password
begin

text \<open>
  What the asset code uses of Go's \<^verbatim>\<open>strings\<close>, \<^verbatim>\<open>path\<close>, \<^verbatim>\<open>unicode\<close> and \<^verbatim>\<open>mime\<close> packages: path cleaning and extensions,
  control characters, and \<^verbatim>\<open>mime.ParseMediaType\<close>, of which the code reads the media type and whether the text is
  accepted. \<open>split_on\<close> of \<open>Password\<close> is \<^verbatim>\<open>strings.Split\<close>.
\<close>

section \<open>Strings and paths\<close>

definition ContainsAny :: "string \<Rightarrow> string \<Rightarrow> bool" where
  "ContainsAny s chars \<longleftrightarrow> list_ex (\<lambda>c. c \<in> set chars) s"

definition HasPrefix :: "string \<Rightarrow> string \<Rightarrow> bool" where
  "HasPrefix s p \<longleftrightarrow> take (length p) s = p"

definition TrimPrefix :: "string \<Rightarrow> string \<Rightarrow> string" where
  "TrimPrefix s p = (if HasPrefix s p then drop (length p) s else s)"

definition TrimSuffix :: "string \<Rightarrow> string \<Rightarrow> string" where
  "TrimSuffix s p = (if length p \<le> length s \<and> drop (length s - length p) s = p then take (length s - length p) s else s)"

definition TrimLeftSpace :: "string \<Rightarrow> string" where
  "TrimLeftSpace s = concat (map snd (dropWhile (\<lambda>p. IsSpace (fst p)) (runes s)))"

text \<open>\<^verbatim>\<open>unicode.IsControl\<close>: the characters of category Cc.\<close>

definition IsControl :: "int \<Rightarrow> bool" where
  "IsControl r \<longleftrightarrow> between 0 31 r \<or> between 127 159 r"

definition clean_part :: "bool \<Rightarrow> string \<Rightarrow> string list \<Rightarrow> string list" where
  "clean_part rooted p stack =
     (if p = '''' \<or> p = ''.'' then stack
      else if p = ''..'' then
        (case stack of
           [] \<Rightarrow> if rooted then [] else [''..'']
         | up # below \<Rightarrow> if up = ''..'' then ''..'' # stack else below)
      else p # stack)"

definition path_Clean :: "string \<Rightarrow> string" where
  "path_Clean s =
     (let rooted = (s \<noteq> [] \<and> hd s = CHR ''/'');
          kept = join ''/'' (rev (fold (clean_part rooted) (split_on (CHR ''/'') s) []))
      in if rooted then CHR ''/'' # kept else if kept = '''' then ''.'' else kept)"

definition path_Ext :: "string \<Rightarrow> string" where
  "path_Ext s =
     (let seg = takeWhile (\<lambda>c. c \<noteq> CHR ''/'') (rev s)
      in if CHR ''.'' \<in> set seg then CHR ''.'' # rev (takeWhile (\<lambda>c. c \<noteq> CHR ''.'') seg) else '''')"

section \<open>Media types\<close>

definition isTSpecial :: "char \<Rightarrow> bool" where
  "isTSpecial c \<longleftrightarrow> c \<in> set (''()<>@,;:'' @ [backslash, quote_char] @ ''/[]?='')"

definition isTokenChar :: "char \<Rightarrow> bool" where
  "isTokenChar c \<longleftrightarrow> 32 < byte c \<and> byte c < 127 \<and> \<not> isTSpecial c"

definition mime_consumeToken :: "string \<Rightarrow> string \<times> string" where
  "mime_consumeToken s = (takeWhile isTokenChar s, dropWhile isTokenChar s)"

fun quoted_value :: "string \<Rightarrow> (string \<times> string) option" where
  "quoted_value [] = None"
| "quoted_value (c # s) =
     (if c = quote_char then Some ([], s)
      else case s of
        d # s' \<Rightarrow>
          if c = backslash \<and> isTSpecial d then map_option (\<lambda>(v, r). (d # v, r)) (quoted_value s')
          else if is_newline c then None else map_option (\<lambda>(v, r). (c # v, r)) (quoted_value s)
      | [] \<Rightarrow> None)"

definition consumeValue :: "string \<Rightarrow> string \<times> string" where
  "consumeValue v =
     (case v of
        [] \<Rightarrow> ([], [])
      | c # s \<Rightarrow> if c \<noteq> quote_char then mime_consumeToken v
                 else (case quoted_value s of Some res \<Rightarrow> res | None \<Rightarrow> ([], v)))"

text \<open>The parameter at the front of the text: its name, its value and the rest, or \<open>None\<close> when there is none.\<close>

definition consumeMediaParam :: "(int \<Rightarrow> string) \<Rightarrow> string \<Rightarrow> (string \<times> string \<times> string) option" where
  "consumeMediaParam lower v =
     (case TrimLeftSpace v of
        [] \<Rightarrow> None
      | c # r0 \<Rightarrow>
          if c \<noteq> CHR '';'' then None
          else case mime_consumeToken (TrimLeftSpace r0) of (param, r1) \<Rightarrow>
            if param = [] then None
            else case TrimLeftSpace r1 of
              [] \<Rightarrow> None
            | e # r2 \<Rightarrow>
                if e \<noteq> CHR ''='' then None
                else let r3 = TrimLeftSpace r2 in
                  case consumeValue r3 of (v', r4) \<Rightarrow>
                    if v' = [] \<and> r4 = r3 then None else Some (ToLower lower param, v', r4))"

text \<open>
  The parameters, of which only acceptance matters: a name given twice must have one value. Names with a star are
  kept apart per base name, which does not change when two entries have the same name. The rest of a consumed
  parameter is shorter, so the guard never refuses.
\<close>

function media_params :: "(int \<Rightarrow> string) \<Rightarrow> (string \<times> string) list \<Rightarrow> string \<Rightarrow> bool" where
  "media_params lower seen v =
     (case TrimLeftSpace v of
        [] \<Rightarrow> True
      | c # s \<Rightarrow>
          (case consumeMediaParam lower (c # s) of
             None \<Rightarrow> TrimSpace (c # s) = '';''
           | Some (key, value', rest) \<Rightarrow>
               (case map_of seen key of
                  Some old \<Rightarrow> if old = value' \<and> length rest < length v then media_params lower seen rest else False
                | None \<Rightarrow> if length rest < length v then media_params lower ((key, value') # seen) rest else False)))"
  by pat_completeness auto
termination
  by (relation "measure (\<lambda>(l, seen, v). length v)") auto

declare media_params.simps [simp del]

definition checkMediaType :: "string \<Rightarrow> bool" where
  "checkMediaType s =
     (case mime_consumeToken s of (typ, rest) \<Rightarrow>
        if typ = [] then False
        else case rest of
          [] \<Rightarrow> True
        | c # r \<Rightarrow>
            c = CHR ''/'' \<and> (case mime_consumeToken r of (subtype, r') \<Rightarrow> subtype \<noteq> [] \<and> r' = []))"

definition ParseMediaType :: "(int \<Rightarrow> string) \<Rightarrow> string \<Rightarrow> string option" where
  "ParseMediaType lower v =
     (let base = takeWhile (\<lambda>c. c \<noteq> CHR '';'') v;
          mediatype = TrimSpace (ToLower lower base)
      in if checkMediaType mediatype \<and> media_params lower [] (drop (length base) v) then Some mediatype else None)"

section \<open>Facts\<close>

lemma split_on_nonempty: "split_on c s \<noteq> []"
  by (cases s) auto

lemma join_split: "join [c] (split_on c s) = s"
proof (induction s)
  case (Cons a s)
  obtain x xs where xs: "split_on c s = x # xs" using split_on_nonempty by (cases "split_on c s") auto
  with Cons show ?case by (cases xs) auto
qed simp

lemma split_on_clean: "p \<in> set (split_on c s) \<Longrightarrow> c \<notin> set p"
proof (induction s arbitrary: p)
  case (Cons a s)
  obtain x xs where xs: "split_on c s = x # xs" using split_on_nonempty by (cases "split_on c s") auto
  with Cons show ?case by (auto split: if_splits)
qed simp

lemma split_join: "ps \<noteq> [] \<Longrightarrow> \<forall>p \<in> set ps. c \<notin> set p \<Longrightarrow> split_on c (join [c] ps) = ps"
proof (induction ps)
  case (Cons p ps)
  then show ?case by (cases ps) (auto simp: split_on_last split_on_prefix)
qed simp

lemma fold_clean_plain:
  "\<forall>p \<in> set ps. p \<notin> {'''', ''.'', ''..''} \<Longrightarrow> fold (clean_part rooted) ps stack = rev ps @ stack"
  by (induction ps arbitrary: stack) (simp_all add: clean_part_def)

lemma path_Clean_plain:
  assumes "\<forall>p \<in> set (split_on (CHR ''/'') s). p \<notin> {'''', ''.'', ''..''}"
  shows "path_Clean s = s"
proof -
  have ne: "s \<noteq> []"
  proof
    assume "s = []"
    with assms show False by simp
  qed
  have "hd s \<noteq> CHR ''/''"
  proof
    assume "hd s = CHR ''/''"
    with ne obtain t where "s = CHR ''/'' # t" by (cases s) simp_all
    with assms show False by simp
  qed
  with ne show ?thesis
    using fold_clean_plain [OF assms, of False "[]"] join_split [of "CHR ''/''" s] by (simp add: path_Clean_def Let_def)
qed

lemma path_Ext_dot: "CHR ''.'' \<notin> set e \<Longrightarrow> CHR ''/'' \<notin> set e \<Longrightarrow> path_Ext (s @ CHR ''.'' # e) = CHR ''.'' # e"
proof -
  assume e: "CHR ''.'' \<notin> set e" "CHR ''/'' \<notin> set e"
  have "takeWhile (\<lambda>c. c \<noteq> CHR ''/'') (rev e @ CHR ''.'' # rev s) = rev e @ CHR ''.'' # takeWhile (\<lambda>c. c \<noteq> CHR ''/'') (rev s)"
    using e(2) by (subst takeWhile_append2) auto
  moreover have "takeWhile (\<lambda>c. c \<noteq> CHR ''.'') (rev e @ CHR ''.'' # t) = rev e" for t
    using e(1) by (subst takeWhile_append2) auto
  ultimately show ?thesis by (simp add: path_Ext_def)
qed

lemma path_Ext_suffix: "path_Ext s \<noteq> '''' \<Longrightarrow> \<exists>t e. s = t @ path_Ext s \<and> path_Ext s = CHR ''.'' # e \<and> CHR ''.'' \<notin> set e \<and> CHR ''/'' \<notin> set e"
proof -
  let ?seg = "takeWhile (\<lambda>c. c \<noteq> CHR ''/'') (rev s)"
  let ?e = "takeWhile (\<lambda>c. c \<noteq> CHR ''.'') ?seg"
  assume "path_Ext s \<noteq> ''''"
  then have dot: "CHR ''.'' \<in> set ?seg" and ext: "path_Ext s = CHR ''.'' # rev ?e" by (auto simp: path_Ext_def Let_def split: if_splits)
  from dot have ne: "dropWhile (\<lambda>c. c \<noteq> CHR ''.'') ?seg \<noteq> []" by (simp add: dropWhile_eq_Nil_conv)
  define d where "d = dropWhile (\<lambda>c. c \<noteq> CHR ''.'') ?seg"
  define z where "z = dropWhile (\<lambda>c. c \<noteq> CHR ''/'') (rev s)"
  obtain a t where t: "d = a # t" using ne unfolding d_def by (cases "dropWhile (\<lambda>c. c \<noteq> CHR ''.'') ?seg") simp_all
  have "a = CHR ''.''" using hd_dropWhile [OF ne] t by (simp add: d_def)
  moreover have "?seg = ?e @ d" by (simp add: d_def)
  moreover have "rev s = ?seg @ z" by (simp add: z_def)
  ultimately have "rev s = ?e @ CHR ''.'' # t @ z" using t by (metis append.assoc append_Cons)
  then have "rev (rev s) = rev (?e @ CHR ''.'' # t @ z)" by (rule arg_cong)
  then have "s = rev (t @ z) @ CHR ''.'' # rev ?e" by simp
  moreover have "CHR ''.'' \<notin> set (rev ?e)" "CHR ''/'' \<notin> set (rev ?e)" by (auto dest: set_takeWhileD)
  ultimately show ?thesis unfolding ext by blast
qed

lemma TrimSuffix_append: "TrimSuffix (s @ p) p = s"
  by (simp add: TrimSuffix_def)

end
