(* ===== verification/Object_Key.thy ===== *)
theory Object_Key
  imports Media Permission_Props
begin

text \<open>
  Object keys (\<^verbatim>\<open>server/internal/infra/object/key.go\<close>) and the provider-neutral part of object storage
  (\<^verbatim>\<open>object/storage.go\<close>): the errors, the upload input and metadata, and their validation. The UUID parser is a third-party
  package: \<open>uuid s\<close> is the canonical text of the UUID that \<open>s\<close> denotes. \<open>lower\<close> is the Unicode table of
  \<^verbatim>\<open>unicode.ToLower\<close> beyond ASCII.
\<close>

section \<open>Errors\<close>

datatype asset_sentinel =
    Object_ErrInvalidInput
  | ErrObjectNotFound
  | ErrObjectConflict
  | ErrObjectIntegrity
  | ErrStorageUnavailable
  | Asset_ErrInvalidInput
  | Asset_ErrForbidden
  | ErrProjectNotFound
  | ErrAssetNotFound
  | ErrAssetConflict
  | ErrAssetIntegrity
  | ErrDependency

text \<open>An error of the asset code: a sentinel, an error of another package, or a message around the errors it wraps.\<close>

datatype asset_err = Sentinel asset_sentinel | Foreign err | Wraps string "asset_err list"

fun asset_Is :: "asset_sentinel \<Rightarrow> asset_err \<Rightarrow> bool" where
  "asset_Is target (Sentinel s) \<longleftrightarrow> s = target"
| "asset_Is target (Foreign e) \<longleftrightarrow> False"
| "asset_Is target (Wraps m es) \<longleftrightarrow> list_ex (asset_Is target) es"

type_synonym 'a asset_result = "asset_err + 'a"

definition object_invalid :: "string \<Rightarrow> asset_err" where
  "object_invalid m = Wraps m [Sentinel Object_ErrInvalidInput]"

definition object_integrity :: "string \<Rightarrow> asset_err" where
  "object_integrity m = Wraps m [Sentinel ErrObjectIntegrity]"

definition storage_unavailable :: "string \<Rightarrow> asset_err" where
  "storage_unavailable m = Wraps m [Sentinel ErrStorageUnavailable]"

lemma asset_Is_wrapped [simp]:
  "asset_Is t (object_invalid m) \<longleftrightarrow> t = Object_ErrInvalidInput" "asset_Is t (object_integrity m) \<longleftrightarrow> t = ErrObjectIntegrity"
  "asset_Is t (storage_unavailable m) \<longleftrightarrow> t = ErrStorageUnavailable"
  by (auto simp: object_invalid_def object_integrity_def storage_unavailable_def)

definition bindA :: "'a asset_result \<Rightarrow> ('a \<Rightarrow> 'b asset_result) \<Rightarrow> 'b asset_result" where
  "bindA r f = (case r of Inl e \<Rightarrow> Inl e | Inr x \<Rightarrow> f x)"

lemma bindA_Inr: "bindA r f = Inr y \<longleftrightarrow> (\<exists>x. r = Inr x \<and> f x = Inr y)"
  by (auto simp: bindA_def split: sum.splits)

section \<open>Keys\<close>

record ObjectScope =
  Scope_EnvironmentID :: int
  Scope_ProjectID :: int
  Scope_ObjectID :: string
  Scope_Extension :: string
  Scope_Temporary :: bool

text \<open>A character range over the runes of the text; bytes beyond ASCII never pass.\<close>

definition plain_extension :: "string \<Rightarrow> bool" where
  "plain_extension s \<longleftrightarrow> list_all (\<lambda>(r, bytes). between 97 122 r \<or> between 48 57 r) (runes s)"

definition buildObjectKey ::
  "(string \<Rightarrow> string option) \<Rightarrow> (int \<Rightarrow> string) \<Rightarrow> int \<Rightarrow> int \<Rightarrow> string \<Rightarrow> string \<Rightarrow> bool \<Rightarrow> string asset_result" where
  "buildObjectKey uuid lower environmentID projectID objectID extension temporary =
     (if environmentID \<le> 0 \<or> projectID \<le> 0 then Inl (object_invalid ''environment and project IDs must be positive'')
      else if uuid objectID \<noteq> Some objectID then Inl (object_invalid ''object ID must be a canonical UUID'')
      else if length extension < 2 \<or> hd extension \<noteq> CHR ''.'' \<or> extension \<noteq> ToLower lower extension
      then Inl (object_invalid ''extension must be lowercase and start with a dot'')
      else if \<not> plain_extension (tl extension) then Inl (object_invalid ''extension contains unsupported characters'')
      else Inr ((if temporary then ''uploads/'' else '''') @ ''environments/'' @ FormatInt environmentID @ ''/projects/'' @
                FormatInt projectID @ ''/assets/'' @ objectID @ extension))"

definition BuildObjectKey ::
  "(string \<Rightarrow> string option) \<Rightarrow> (int \<Rightarrow> string) \<Rightarrow> int \<Rightarrow> int \<Rightarrow> string \<Rightarrow> string \<Rightarrow> string asset_result" where
  "BuildObjectKey uuid lower environmentID projectID objectID extension =
     buildObjectKey uuid lower environmentID projectID objectID extension False"

definition BuildUploadObjectKey ::
  "(string \<Rightarrow> string option) \<Rightarrow> (int \<Rightarrow> string) \<Rightarrow> int \<Rightarrow> int \<Rightarrow> string \<Rightarrow> string \<Rightarrow> string asset_result" where
  "BuildUploadObjectKey uuid lower environmentID projectID objectID extension =
     buildObjectKey uuid lower environmentID projectID objectID extension True"

definition parseCanonicalPositiveID :: "string \<Rightarrow> int asset_result" where
  "parseCanonicalPositiveID v =
     (case ParseInt64 v of
        None \<Rightarrow> Inl (object_invalid ''object scope ID is invalid'')
      | Some parsed \<Rightarrow>
          if parsed \<le> 0 \<or> FormatInt parsed \<noteq> v then Inl (object_invalid ''object scope ID is invalid'') else Inr parsed)"

text \<open>The bytes no key may have: backslash, NUL, carriage return and line feed.\<close>

definition key_forbidden :: string where
  "key_forbidden = [backslash, char_of (0 :: int), char_of (13 :: int), char_of (10 :: int)]"

definition parse_parts ::
  "(string \<Rightarrow> string option) \<Rightarrow> (int \<Rightarrow> string) \<Rightarrow> bool \<Rightarrow> string list \<Rightarrow> ObjectScope asset_result" where
  "parse_parts uuid lower temporary parts =
     (if length parts \<noteq> 6 \<or> parts ! 0 \<noteq> ''environments'' \<or> parts ! 2 \<noteq> ''projects'' \<or> parts ! 4 \<noteq> ''assets''
      then Inl (object_invalid ''object key has an invalid scope'')
      else
        bindA (parseCanonicalPositiveID (parts ! 1)) (\<lambda>environmentID.
        bindA (parseCanonicalPositiveID (parts ! 3)) (\<lambda>projectID.
        let extension = path_Ext (parts ! 5);
            objectID = TrimSuffix (parts ! 5) extension
        in if uuid objectID \<noteq> Some objectID \<or> extension = '''' \<or> extension \<noteq> ToLower lower extension
           then Inl (object_invalid ''object filename is invalid'')
           else if \<not> plain_extension (tl extension) then Inl (object_invalid ''object extension is invalid'')
           else Inr \<lparr>Scope_EnvironmentID = environmentID, Scope_ProjectID = projectID, Scope_ObjectID = objectID,
                     Scope_Extension = extension, Scope_Temporary = temporary\<rparr>)))"

definition is_upload :: "string list \<Rightarrow> bool" where
  "is_upload parts \<longleftrightarrow> length parts = 7 \<and> parts ! 0 = ''uploads''"

definition ParseObjectKey :: "(string \<Rightarrow> string option) \<Rightarrow> (int \<Rightarrow> string) \<Rightarrow> string \<Rightarrow> ObjectScope asset_result" where
  "ParseObjectKey uuid lower key =
     (if key = '''' \<or> length key > 512 \<or> ContainsAny key key_forbidden \<or> path_Clean key \<noteq> key \<or> HasPrefix key ''/''
      then Inl (object_invalid ''object key is not canonical'')
      else
        let parts = split_on (CHR ''/'') key;
            temporary = is_upload parts
        in parse_parts uuid lower temporary (if temporary then tl parts else parts))"

section \<open>Uploads and metadata\<close>

text \<open>Durations and instants are nanoseconds.\<close>

definition MaxUploadSize :: "64 word" where "MaxUploadSize = 64 * 1024 * 1024"
definition DefaultUploadTTL :: int where "DefaultUploadTTL = 15 * 60 * 1000000000"
definition day_ns :: int where "day_ns = 24 * 3600 * 1000000000"

record PresignUploadInput =
  Presign_Key :: string
  Presign_ContentType :: string
  Presign_Size :: "64 word"
  Presign_ExpiresIn :: int

record UploadTicket =
  Ticket_Key :: string
  Ticket_URL :: string
  Ticket_Method :: string
  Ticket_Headers :: "(string \<times> string) list"
  Ticket_FormFields :: "(string \<times> string) list"
  Ticket_ExpiresAt :: int

record Metadata =
  Metadata_Key :: string
  Metadata_URL :: string
  Metadata_ETag :: string
  Metadata_ContentType :: string
  Metadata_Size :: "64 word"
  Metadata_DeclaredContentType :: string
  Metadata_DeclaredSize :: "64 word"
  Metadata_LastModified :: int

definition line_breaks :: string where "line_breaks = [char_of (13 :: int), char_of (10 :: int)]"

definition normalizeContentType :: "(int \<Rightarrow> string) \<Rightarrow> string \<Rightarrow> string asset_result" where
  "normalizeContentType lower v =
     (if TrimSpace v \<noteq> v \<or> v = '''' \<or> ContainsAny v line_breaks then Inl (object_invalid ''content type is invalid'')
      else case ParseMediaType lower v of
             None \<Rightarrow> Inl (object_invalid ''content type is invalid'')
           | Some mediaType \<Rightarrow>
               if CHR ''/'' \<notin> set mediaType then Inl (object_invalid ''content type is invalid'')
               else Inr (ToLower lower mediaType))"

definition validatePresignInput :: "(string \<Rightarrow> string option) \<Rightarrow> (int \<Rightarrow> string) \<Rightarrow> PresignUploadInput \<Rightarrow> string asset_result" where
  "validatePresignInput uuid lower input =
     bindA (ParseObjectKey uuid lower (Presign_Key input)) (\<lambda>_.
     if Presign_Size input = 0 \<or> Presign_Size input > MaxUploadSize
     then Inl (object_invalid ''size must be between one and the maximum'')
     else bindA (normalizeContentType lower (Presign_ContentType input)) (\<lambda>contentType.
       if Presign_ExpiresIn input \<le> 0 \<or> Presign_ExpiresIn input > day_ns
       then Inl (object_invalid ''upload expiry must be between zero and 24 hours'') else Inr contentType))"

definition validateCompletedMetadata :: "(int \<Rightarrow> string) \<Rightarrow> Metadata \<Rightarrow> Metadata asset_result" where
  "validateCompletedMetadata lower metadata =
     (if Metadata_Size metadata = 0 \<or> Metadata_DeclaredSize metadata = 0 \<or> Metadata_Size metadata \<noteq> Metadata_DeclaredSize metadata
      then Inl (object_integrity ''object size differs from its signed declaration'')
      else case normalizeContentType lower (Metadata_ContentType metadata) of
        Inl _ \<Rightarrow> Inl (object_integrity ''object content type is invalid'')
      | Inr actualType \<Rightarrow>
          (case normalizeContentType lower (Metadata_DeclaredContentType metadata) of
             Inl _ \<Rightarrow> Inl (object_integrity ''object content type differs from its signed declaration'')
           | Inr declaredType \<Rightarrow>
               if actualType \<noteq> declaredType
               then Inl (object_integrity ''object content type differs from its signed declaration'')
               else Inr (metadata\<lparr>Metadata_ContentType := actualType, Metadata_DeclaredContentType := declaredType\<rparr>)))"

section \<open>Keys are canonical\<close>

definition scope_char :: "char \<Rightarrow> bool" where
  "scope_char c \<longleftrightarrow> is_lower c \<or> is_digit c"

lemma scope_char_plain: "scope_char c \<Longrightarrow> plain_char c \<and> byte c < 128 \<and> c \<noteq> CHR ''/'' \<and> c \<noteq> CHR ''.'' \<and> \<not> is_upper c"
  by (auto simp: scope_char_def plain_char_def is_lower_def is_digit_def is_upper_def between_def)

lemma decode_rune_high: "128 \<le> byte a \<Longrightarrow> 128 \<le> fst (decode_rune (a # s))"
proof -
  assume a: "128 \<le> byte a"
  have c: "cont x \<Longrightarrow> 128 \<le> byte x" "between lo hi n \<Longrightarrow> lo \<le> n" for x lo hi n by (auto simp: cont_def between_def)
  show ?thesis
  proof (cases s)
    case Nil
    with a show ?thesis by (simp add: RuneError_def)
  next
    case (Cons b s')
    show ?thesis
    proof (cases "between 194 223 (byte a) \<and> cont b")
      case True
      with a Cons c(1) [of b] c(2) [of 194 223 "byte a"] show ?thesis by simp
    next
      case two: False
      show ?thesis
      proof (cases s')
        case Nil
        with a Cons two show ?thesis by (auto simp: RuneError_def)
      next
        case s': (Cons x s'')
        show ?thesis
        proof (cases "cont x \<and> (byte a = 224 \<and> between 160 191 (byte b) \<or> (between 225 236 (byte a) \<or> between 238 239 (byte a)) \<and> cont b \<or>
            byte a = 237 \<and> between 128 159 (byte b))")
          case True
          with a Cons two s' c(1) [of x] c(1) [of b] c(2) [of 160 191 "byte b"] c(2) [of 225 236 "byte a"] c(2) [of 238 239 "byte a"]
            c(2) [of 128 159 "byte b"] show ?thesis by auto
        next
          case three: False
          show ?thesis
          proof (cases s'')
            case Nil
            with a Cons two s' three show ?thesis by (auto simp: RuneError_def)
          next
            case (Cons d r)
            with a \<open>s = b # s'\<close> two s' three c(1) [of x] c(1) [of b] c(1) [of d] c(2) [of 144 191 "byte b"] c(2) [of 241 243 "byte a"]
              c(2) [of 128 143 "byte b"] show ?thesis by (auto simp: RuneError_def)
          qed
        qed
      qed
    qed
  qed
qed

lemma plain_extension_iff: "plain_extension s \<longleftrightarrow> list_all scope_char s"
proof
  assume "list_all scope_char s"
  then show "plain_extension s"
    using scope_char_plain by (auto simp: plain_extension_def runes_ascii_string list_all_iff scope_char_def is_lower_def is_digit_def between_def)
next
  assume "plain_extension s"
  then show "list_all scope_char s"
  proof (induction s)
    case (Cons a s)
    have low: "byte a < 128"
    proof (rule ccontr)
      assume "\<not> byte a < 128"
      with decode_rune_high [of a s] Cons.prems show False
        by (auto simp: plain_extension_def Let_def between_def split: prod.splits simp del: decode_rune.simps)
    qed
    with Cons show ?case
      by (auto simp: plain_extension_def runes_ascii scope_char_def is_lower_def is_digit_def between_def simp del: decode_rune.simps runes.simps(2))
  qed simp
qed

text \<open>What is documented of canonical UUID texts: 36 characters, hexadecimal digits in lower case and hyphens.\<close>

definition canonical_uuids :: "(string \<Rightarrow> string option) \<Rightarrow> bool" where
  "canonical_uuids uuid \<longleftrightarrow> (\<forall>s. uuid s = Some s \<longrightarrow> length s = 36 \<and> list_all (\<lambda>c. scope_char c \<or> c = CHR ''-'') s)"

definition path_char :: "char \<Rightarrow> bool" where
  "path_char c \<longleftrightarrow> scope_char c \<or> c = CHR ''-'' \<or> c = CHR ''.''"

definition key_parts :: "ObjectScope \<Rightarrow> string list" where
  "key_parts s = (if Scope_Temporary s then [''uploads''] else []) @
     [''environments'', FormatInt (Scope_EnvironmentID s), ''projects'', FormatInt (Scope_ProjectID s), ''assets'',
      Scope_ObjectID s @ Scope_Extension s]"

definition build_scope :: "(string \<Rightarrow> string option) \<Rightarrow> (int \<Rightarrow> string) \<Rightarrow> ObjectScope \<Rightarrow> string asset_result" where
  "build_scope uuid lower s = buildObjectKey uuid lower (Scope_EnvironmentID s) (Scope_ProjectID s) (Scope_ObjectID s) (Scope_Extension s) (Scope_Temporary s)"

lemma ToLower_plain: "list_all (\<lambda>c. byte c < 128 \<and> \<not> is_upper c) s \<Longrightarrow> ToLower lower s = s"
  by (auto simp: ToLower_def list_all_iff lower_ascii_def intro!: map_idI)

lemma extension_iff:
  "(\<not> length x < 2 \<and> hd x = CHR ''.'' \<and> x = ToLower lower x \<and> plain_extension (tl x)) \<longleftrightarrow>
   (\<exists>e. x = CHR ''.'' # e \<and> e \<noteq> [] \<and> list_all scope_char e)"
proof
  assume h: "\<not> length x < 2 \<and> hd x = CHR ''.'' \<and> x = ToLower lower x \<and> plain_extension (tl x)"
  then obtain e where "x = CHR ''.'' # e" "e \<noteq> []" by (cases x) auto
  with h show "\<exists>e. x = CHR ''.'' # e \<and> e \<noteq> [] \<and> list_all scope_char e" by (simp add: plain_extension_iff)
next
  assume "\<exists>e. x = CHR ''.'' # e \<and> e \<noteq> [] \<and> list_all scope_char e"
  then obtain e where e: "x = CHR ''.'' # e" "e \<noteq> []" "list_all scope_char e" by blast
  then have "list_all (\<lambda>c. byte c < 128 \<and> \<not> is_upper c) x"
    using scope_char_plain by (auto simp: list_all_iff is_upper_def between_def)
  with e show "\<not> length x < 2 \<and> hd x = CHR ''.'' \<and> x = ToLower lower x \<and> plain_extension (tl x)"
    by (cases e) (simp_all add: ToLower_plain plain_extension_iff)
qed

lemma build_scope_Inr:
  "build_scope uuid lower s = Inr key \<longleftrightarrow> 0 < Scope_EnvironmentID s \<and> 0 < Scope_ProjectID s \<and>
    uuid (Scope_ObjectID s) = Some (Scope_ObjectID s) \<and>
    (\<exists>e. Scope_Extension s = CHR ''.'' # e \<and> e \<noteq> [] \<and> list_all scope_char e) \<and> key = join ''/'' (key_parts s)"
  unfolding extension_iff [symmetric, of _ lower]
  by (auto simp: build_scope_def buildObjectKey_def key_parts_def)

lemma key_parts_plain:
  assumes "canonical_uuids uuid" "uuid (Scope_ObjectID s) = Some (Scope_ObjectID s)"
    "Scope_Extension s = CHR ''.'' # e" "list_all scope_char e" "p \<in> set (key_parts s)"
  shows "list_all path_char p" "p \<notin> {'''', ''.'', ''..''}"
proof -
  have num: "list_all path_char (FormatInt n)" "FormatInt n \<noteq> ''''" "FormatInt n \<noteq> ''.''" "FormatInt n \<noteq> ''..''" for n
  proof -
    have chars: "c \<in> set (FormatInt n) \<Longrightarrow> is_digit c \<or> c = CHR ''-''" for c by (rule FormatInt_chars)
    then show "list_all path_char (FormatInt n)" by (auto simp: list_all_iff path_char_def scope_char_def)
    have "CHR ''.'' \<notin> set (FormatInt n)" using chars [of "CHR ''.''"] by (auto simp: is_digit_def)
    then show "FormatInt n \<noteq> ''.''" "FormatInt n \<noteq> ''..''" by auto
    show "FormatInt n \<noteq> ''''" by (simp add: FormatInt_def)
  qed
  have id: "length (Scope_ObjectID s) = 36" "list_all path_char (Scope_ObjectID s)"
    using assms(1,2) by (auto simp: canonical_uuids_def list_all_iff path_char_def)
  have lit: "list_all path_char ''uploads''" "list_all path_char ''environments''" "list_all path_char ''projects''" "list_all path_char ''assets''"
    by code_simp+
  have ext: "list_all path_char (Scope_Extension s)" using assms(3,4) by (auto simp: list_all_iff path_char_def)
  from assms(5) consider "p \<in> {''uploads'', ''environments'', ''projects'', ''assets''}" | n where "p = FormatInt n"
    | "p = Scope_ObjectID s @ Scope_Extension s" by (auto simp: key_parts_def split: if_splits)
  note parts = this
  from parts show "list_all path_char p" by cases (use num lit id ext in auto)
  from parts show "p \<notin> {'''', ''.'', ''..''}"
  proof cases
    case 3
    with id(1) have "2 < length p" by simp
    then show ?thesis by auto
  qed (use num in auto)
qed

lemma parseCanonicalPositiveID_Inr: "parseCanonicalPositiveID v = Inr n \<longleftrightarrow> v = FormatInt n \<and> 0 < n \<and> n < 2 ^ 63"
proof
  assume h: "parseCanonicalPositiveID v = Inr n"
  then have "ParseInt64 v = Some n" "0 < n" "v = FormatInt n"
    by (auto simp: parseCanonicalPositiveID_def split: option.splits if_splits)
  moreover from this(1) have "n < 2 ^ 63" by (auto simp: ParseInt64_def Let_def split: if_splits list.splits prod.splits)
  ultimately show "v = FormatInt n \<and> 0 < n \<and> n < 2 ^ 63" by simp
next
  assume "v = FormatInt n \<and> 0 < n \<and> n < 2 ^ 63"
  then show "parseCanonicalPositiveID v = Inr n" using ParseInt64_FormatInt [of n] by (simp add: parseCanonicalPositiveID_def)
qed

lemma path_char_facts: "path_char c \<Longrightarrow> c \<noteq> CHR ''/'' \<and> plain_char c"
  by (auto simp: path_char_def scope_char_def plain_char_def is_lower_def is_digit_def between_def)

lemma forbidden_not_plain: "c \<in> set key_forbidden \<Longrightarrow> \<not> plain_char c"
  by (auto simp: key_forbidden_def plain_char_def backslash_def)

lemma join_chars: "c \<in> set (join [d] ps) \<Longrightarrow> c = d \<or> (\<exists>p \<in> set ps. c \<in> set p)"
  by (induction "[d]" ps rule: join.induct) auto

text \<open>A key that is built is clean, and its parts are read back.\<close>

lemma built_key:
  assumes "canonical_uuids uuid" "uuid (Scope_ObjectID s) = Some (Scope_ObjectID s)"
    "Scope_Extension s = CHR ''.'' # e" "list_all scope_char e"
  shows "split_on (CHR ''/'') (join ''/'' (key_parts s)) = key_parts s" "path_Clean (join ''/'' (key_parts s)) = join ''/'' (key_parts s)"
    "\<not> ContainsAny (join ''/'' (key_parts s)) key_forbidden" "list_all plain_char (join ''/'' (key_parts s))"
    "hd (join ''/'' (key_parts s)) \<noteq> CHR ''/''"
proof -
  note parts = key_parts_plain [OF assms]
  have ne: "key_parts s \<noteq> []" by (simp add: key_parts_def)
  have slash: "\<forall>p \<in> set (key_parts s). CHR ''/'' \<notin> set p"
    using parts(1) path_char_facts by (fastforce simp: list_all_iff)
  show split: "split_on (CHR ''/'') (join ''/'' (key_parts s)) = key_parts s" by (rule split_join [OF ne slash])
  show "path_Clean (join ''/'' (key_parts s)) = join ''/'' (key_parts s)"
    by (rule path_Clean_plain) (use split parts(2) in auto)
  have plain: "plain_char c" if "c \<in> set (join ''/'' (key_parts s))" for c
  proof -
    from join_chars [OF that] parts(1) have "c = CHR ''/'' \<or> path_char c" by (auto simp: list_all_iff)
    moreover have "plain_char (CHR ''/'')" by code_simp
    ultimately show ?thesis using path_char_facts by blast
  qed
  then show "list_all plain_char (join ''/'' (key_parts s))" by (simp add: list_all_iff)
  from plain show "\<not> ContainsAny (join ''/'' (key_parts s)) key_forbidden"
    using forbidden_not_plain by (auto simp: ContainsAny_def list_ex_iff)
  show "hd (join ''/'' (key_parts s)) \<noteq> CHR ''/''" by (simp add: key_parts_def)
qed

lemma ParseObjectKey_built:
  assumes "canonical_uuids uuid" "0 < Scope_EnvironmentID s" "Scope_EnvironmentID s < 2 ^ 63" "0 < Scope_ProjectID s" "Scope_ProjectID s < 2 ^ 63"
    "uuid (Scope_ObjectID s) = Some (Scope_ObjectID s)" "Scope_Extension s = CHR ''.'' # e" "list_all scope_char e"
    "length (join ''/'' (key_parts s)) \<le> 512"
  shows "ParseObjectKey uuid lower (join ''/'' (key_parts s)) = Inr s"
proof -
  note b = built_key [OF assms(1,6,7,8)]
  have "CHR ''.'' \<notin> set e" "CHR ''/'' \<notin> set e" using assms(8) scope_char_plain by (auto simp: list_all_iff)
  then have ext: "path_Ext (Scope_ObjectID s @ Scope_Extension s) = Scope_Extension s" by (simp add: assms(7) path_Ext_dot)
  have low: "ToLower lower (Scope_Extension s) = Scope_Extension s"
    using assms(8) scope_char_plain by (intro ToLower_plain) (auto simp: assms(7) list_all_iff is_upper_def between_def)
  have "join ''/'' (key_parts s) \<noteq> ''''" by (simp add: key_parts_def)
  moreover from this b(5) have "\<not> HasPrefix (join ''/'' (key_parts s)) ''/''"
    by (cases "join ''/'' (key_parts s)") (auto simp: HasPrefix_def)
  moreover have ids: "parseCanonicalPositiveID (FormatInt (Scope_EnvironmentID s)) = Inr (Scope_EnvironmentID s)"
    "parseCanonicalPositiveID (FormatInt (Scope_ProjectID s)) = Inr (Scope_ProjectID s)"
    using assms(2-5) by (simp_all add: parseCanonicalPositiveID_Inr)
  ultimately have key: "ParseObjectKey uuid lower (join ''/'' (key_parts s)) =
      parse_parts uuid lower (is_upload (key_parts s)) (if is_upload (key_parts s) then tl (key_parts s) else key_parts s)"
    using assms(9) b(1-3) by (simp add: ParseObjectKey_def Let_def)
  have "is_upload (key_parts s) \<longleftrightarrow> Scope_Temporary s"
    "(if Scope_Temporary s then tl (key_parts s) else key_parts s) = [''environments'', FormatInt (Scope_EnvironmentID s), ''projects'',
      FormatInt (Scope_ProjectID s), ''assets'', Scope_ObjectID s @ Scope_Extension s]"
    by (simp_all add: key_parts_def is_upload_def)
  note key = key [unfolded this]
  show ?thesis
    unfolding key using ids ext low assms(6-8) by (simp add: parse_parts_def bindA_def Let_def TrimSuffix_append plain_extension_iff)
qed

lemma six_parts: "length ps = 6 \<longleftrightarrow> (\<exists>a b c d e f. ps = [a, b, c, d, e, f])"
  by (auto simp: length_Suc_conv numeral_eq_Suc)

lemma ParseObjectKey_Inr:
  assumes "ParseObjectKey uuid lower key = Inr s"
  shows "key = join ''/'' (key_parts s)" "0 < Scope_EnvironmentID s" "Scope_EnvironmentID s < 2 ^ 63" "0 < Scope_ProjectID s"
    "Scope_ProjectID s < 2 ^ 63" "uuid (Scope_ObjectID s) = Some (Scope_ObjectID s)"
    "\<exists>e. Scope_Extension s = CHR ''.'' # e \<and> list_all scope_char e" "length key \<le> 512"
proof -
  define parts where "parts = split_on (CHR ''/'') key"
  define temporary where "temporary = is_upload parts"
  define ps where "ps = (if temporary then tl parts else parts)"
  have len: "length key \<le> 512" using assms by (auto simp: ParseObjectKey_def split: if_splits)
  have rest: "parse_parts uuid lower temporary ps = Inr s"
    using assms unfolding parts_def temporary_def ps_def by (simp add: ParseObjectKey_def Let_def split: if_split_asm)
  then have shape: "length ps = 6" "ps ! 0 = ''environments''" "ps ! 2 = ''projects''" "ps ! 4 = ''assets''"
    by (simp_all add: parse_parts_def split: if_split_asm)
  from rest obtain environmentID projectID where ids: "ps ! 1 = FormatInt environmentID" "0 < environmentID" "environmentID < 2 ^ 63"
      "ps ! 3 = FormatInt projectID" "0 < projectID" "projectID < 2 ^ 63"
    and ext: "uuid (TrimSuffix (ps ! 5) (path_Ext (ps ! 5))) = Some (TrimSuffix (ps ! 5) (path_Ext (ps ! 5)))" "path_Ext (ps ! 5) \<noteq> ''''"
      "plain_extension (tl (path_Ext (ps ! 5)))"
    and s: "s = \<lparr>Scope_EnvironmentID = environmentID, Scope_ProjectID = projectID, Scope_ObjectID = TrimSuffix (ps ! 5) (path_Ext (ps ! 5)),
      Scope_Extension = path_Ext (ps ! 5), Scope_Temporary = temporary\<rparr>"
    using shape by (auto simp: parse_parts_def bindA_Inr parseCanonicalPositiveID_Inr Let_def split: if_split_asm)
  from path_Ext_suffix [OF ext(2)] obtain t e where t: "ps ! 5 = t @ path_Ext (ps ! 5)" "path_Ext (ps ! 5) = CHR ''.'' # e" by blast
  then have name: "TrimSuffix (ps ! 5) (path_Ext (ps ! 5)) = t" by (metis TrimSuffix_append)
  from shape(1) obtain a b c d f g where ps: "ps = [a, b, c, d, f, g]" by (auto simp: six_parts)
  have "ps = [''environments'', FormatInt environmentID, ''projects'', FormatInt projectID, ''assets'', t @ path_Ext (ps ! 5)]"
    using shape ids(1,4) t(1) by (simp add: ps)
  moreover have "parts = (if temporary then [''uploads''] else []) @ ps"
    by (cases parts) (auto simp: ps_def temporary_def is_upload_def)
  ultimately have "parts = key_parts s" by (simp add: key_parts_def s name)
  then show "key = join ''/'' (key_parts s)" using join_split [of "CHR ''/''" key] by (simp add: parts_def)
  show "\<exists>e. Scope_Extension s = CHR ''.'' # e \<and> list_all scope_char e" using ext(3) t(2) by (simp add: s plain_extension_iff)
  show "0 < Scope_EnvironmentID s" "Scope_EnvironmentID s < 2 ^ 63" "0 < Scope_ProjectID s" "Scope_ProjectID s < 2 ^ 63"
    "uuid (Scope_ObjectID s) = Some (Scope_ObjectID s)" "length key \<le> 512"
    using ids ext(1) len by (simp_all add: s)
qed

text \<open>
  C26. Object keys are read back exactly. Under the documented shape of UUID texts, a key that is built for an
  environment, a project, an object and an extension, for a published object or for an upload, is parsed to exactly these,
  provided it stays within 512 bytes and the identifiers within 64 bits; and a key that is accepted, whatever its
  sender, is the one that is built from what it is parsed to. The one exception is a file name with an empty
  extension after its dot, which is accepted and never built.
\<close>

theorem object_key_exact:
  assumes "canonical_uuids uuid" "Scope_Extension s \<noteq> ''.''"
  shows "ParseObjectKey uuid lower key = Inr s \<longleftrightarrow>
    buildObjectKey uuid lower (Scope_EnvironmentID s) (Scope_ProjectID s) (Scope_ObjectID s) (Scope_Extension s) (Scope_Temporary s) = Inr key \<and>
    length key \<le> 512 \<and> Scope_EnvironmentID s < 2 ^ 63 \<and> Scope_ProjectID s < 2 ^ 63"
  unfolding build_scope_def [symmetric] build_scope_Inr
proof (intro iffI)
  assume "ParseObjectKey uuid lower key = Inr s"
  note p = ParseObjectKey_Inr [OF this]
  with assms(2) show "(0 < Scope_EnvironmentID s \<and> 0 < Scope_ProjectID s \<and> uuid (Scope_ObjectID s) = Some (Scope_ObjectID s) \<and>
      (\<exists>e. Scope_Extension s = CHR ''.'' # e \<and> e \<noteq> [] \<and> list_all scope_char e) \<and> key = join ''/'' (key_parts s)) \<and>
    length key \<le> 512 \<and> Scope_EnvironmentID s < 2 ^ 63 \<and> Scope_ProjectID s < 2 ^ 63" by auto
qed (use ParseObjectKey_built [OF assms(1)] in blast)

definition plain_uuid :: "string \<Rightarrow> string option" where
  "plain_uuid s = (if length s = 36 \<and> list_all (\<lambda>c. scope_char c \<or> c = CHR ''-'') s then Some s else None)"

lemma plain_uuid_canonical: "canonical_uuids plain_uuid"
  by (simp add: canonical_uuids_def plain_uuid_def)

definition example_uuid :: string where "example_uuid = ''0f8fad5b-d9cb-469f-a165-70867728950e''"

definition example_object :: string where
  "example_object = ''environments/1/projects/1/assets/'' @ example_uuid @ ''.png''"

definition example_scope :: ObjectScope where
  "example_scope = \<lparr>Scope_EnvironmentID = 1, Scope_ProjectID = 1, Scope_ObjectID = example_uuid, Scope_Extension = ''.png'', Scope_Temporary = False\<rparr>"

lemma example_object_built: "BuildObjectKey plain_uuid (\<lambda>r. []) 1 1 example_uuid ''.png'' = Inr example_object"
  by code_simp

theorem object_key_exact_witness: "ParseObjectKey plain_uuid (\<lambda>r. []) example_object = Inr example_scope"
proof -
  have "Scope_Extension example_scope \<noteq> ''.''" "length example_object \<le> 512" by code_simp+
  with object_key_exact [OF plain_uuid_canonical, of example_scope] example_object_built show ?thesis
    by (simp add: BuildObjectKey_def example_scope_def)
qed

text \<open>The exception: a name that ends with its dot.\<close>

lemma empty_extension_parsed:
  "ParseObjectKey plain_uuid lower (''environments/1/projects/1/assets/'' @ example_uuid @ ''.'') = Inr (example_scope\<lparr>Scope_Extension := ''.''\<rparr>)"
  "BuildObjectKey plain_uuid lower 1 1 example_uuid ''.'' = Inl (object_invalid ''extension must be lowercase and start with a dot'')"
proof -
  let ?s = "example_scope\<lparr>Scope_Extension := ''.''\<rparr>"
  have id: "plain_uuid example_uuid = Some example_uuid" by code_simp
  have key: "join ''/'' (key_parts ?s) = ''environments/1/projects/1/assets/'' @ example_uuid @ ''.''" by code_simp
  then have "length (join ''/'' (key_parts ?s)) \<le> 512" by (simp add: example_uuid_def)
  then show "ParseObjectKey plain_uuid lower (''environments/1/projects/1/assets/'' @ example_uuid @ ''.'') = Inr ?s"
    using ParseObjectKey_built [OF plain_uuid_canonical, of ?s "[]" lower] id key by (simp add: example_scope_def)
  show "BuildObjectKey plain_uuid lower 1 1 example_uuid ''.'' = Inl (object_invalid ''extension must be lowercase and start with a dot'')"
    using id by (simp add: BuildObjectKey_def buildObjectKey_def)
qed

end
