(* ===== verification/Object_Local.thy ===== *)
theory Object_Local
  imports Object_Key Codec SafeInt
begin

text \<open>
  The local object storage (\<^verbatim>\<open>server/internal/infra/object/local.go\<close>, with \<^verbatim>\<open>util/safefile\<close>). The state is the tree under
  the storage root: every path, as the list of its names, has a node. Each system call may fail for a reason of its
  own; the \<open>n\<close>-th call fails when the environment says so. HMAC-SHA256, the text form of instants in JSON and the random
  names of temporary files are arguments. Requests are handled one after the other.
\<close>

section \<open>The file system\<close>

datatype node = Directory | Symlink | RegularFile string int

record local_files =
  nodes :: "(string list \<times> node) list"
  os_tick :: nat

record local_env =
  os_failure :: "nat \<Rightarrow> bool"
  local_now :: "nat \<Rightarrow> int"
  local_ctx :: "nat \<Rightarrow> err option"
  temp_name :: "nat \<Rightarrow> string"

record local_config =
  local_uuid :: "string \<Rightarrow> string option"
  local_lower :: "int \<Rightarrow> string"
  signingKey :: string
  local_hmac :: "string \<Rightarrow> string \<Rightarrow> string"
  time_json :: "int \<Rightarrow> string option"
  time_of_json :: "string \<Rightarrow> int option"

datatype os_error = NotExist | Exist | OtherOS

type_synonym ('e, 'a) F = "local_env \<Rightarrow> local_files \<Rightarrow> ('e + 'a) \<times> local_files"

definition returnF :: "'a \<Rightarrow> ('e, 'a) F" where "returnF x = (\<lambda>V f. (Inr x, f))"

definition failF :: "'e \<Rightarrow> ('e, 'a) F" where "failF e = (\<lambda>V f. (Inl e, f))"

definition bindF :: "('e, 'a) F \<Rightarrow> ('a \<Rightarrow> ('e, 'b) F) \<Rightarrow> ('e, 'b) F" where
  "bindF m k = (\<lambda>V f. case m V f of (Inl e, f') \<Rightarrow> (Inl e, f') | (Inr x, f') \<Rightarrow> k x V f')"

definition attemptF :: "('e, 'a) F \<Rightarrow> ('d, 'e + 'a) F" where
  "attemptF m = (\<lambda>V f. case m V f of (r, f') \<Rightarrow> (Inr r, f'))"

definition liftF :: "('e + 'a) \<Rightarrow> ('e, 'a) F" where "liftF r = (\<lambda>V f. (r, f))"

definition ctxErr :: "(asset_err, unit) F" where
  "ctxErr = (\<lambda>V f. (case local_ctx V (os_tick f) of None \<Rightarrow> Inr () | Some e \<Rightarrow> Inl (Foreign e), f\<lparr>os_tick := Suc (os_tick f)\<rparr>))"

definition nowF :: "('e, int) F" where
  "nowF = (\<lambda>V f. (Inr (local_now V (os_tick f)), f\<lparr>os_tick := Suc (os_tick f)\<rparr>))"

definition node_at :: "local_files \<Rightarrow> string list \<Rightarrow> node option" where
  "node_at f p = map_of (nodes f) p"

definition put_node :: "string list \<Rightarrow> node \<Rightarrow> local_files \<Rightarrow> local_files" where
  "put_node p n f = f\<lparr>nodes := (p, n) # filter (\<lambda>x. fst x \<noteq> p) (nodes f)\<rparr>"

definition drop_node :: "string list \<Rightarrow> local_files \<Rightarrow> local_files" where
  "drop_node p f = f\<lparr>nodes := filter (\<lambda>x. fst x \<noteq> p) (nodes f)\<rparr>"

text \<open>One system call: it fails without effect, or does its work.\<close>

definition os_call :: "(local_files \<Rightarrow> (os_error + 'a) \<times> local_files) \<Rightarrow> (os_error, 'a) F" where
  "os_call q = (\<lambda>V f.
     if os_failure V (os_tick f) then (Inl OtherOS, f\<lparr>os_tick := Suc (os_tick f)\<rparr>)
     else case q f of (r, f') \<Rightarrow> (r, f'\<lparr>os_tick := Suc (os_tick f)\<rparr>))"

definition os_Lstat :: "string list \<Rightarrow> (os_error, node) F" where
  "os_Lstat p = os_call (\<lambda>f. (case node_at f p of None \<Rightarrow> Inl NotExist | Some n \<Rightarrow> Inr n, f))"

text \<open>A new entry needs its directory and a free name.\<close>

definition new_entry :: "string list \<Rightarrow> node \<Rightarrow> local_files \<Rightarrow> (os_error + unit) \<times> local_files" where
  "new_entry p n f =
     (if node_at f p \<noteq> None then (Inl Exist, f)
      else if node_at f (butlast p) \<noteq> Some Directory then (Inl NotExist, f) else (Inr (), put_node p n f))"

definition os_Mkdir :: "string list \<Rightarrow> (os_error, unit) F" where
  "os_Mkdir p = os_call (new_entry p Directory)"

definition os_OpenRoot :: "(os_error, unit) F" where
  "os_OpenRoot = os_call (\<lambda>f. (case node_at f [] of
     None \<Rightarrow> Inl NotExist | Some n \<Rightarrow> if n = Directory then Inr () else Inl OtherOS, f))"

definition os_ReadFile :: "string list \<Rightarrow> (os_error, string) F" where
  "os_ReadFile p = os_call (\<lambda>f. (case node_at f p of
     None \<Rightarrow> Inl NotExist | Some (RegularFile content t) \<Rightarrow> Inr content | Some _ \<Rightarrow> Inl OtherOS, f))"

definition has_entries :: "local_files \<Rightarrow> string list \<Rightarrow> bool" where
  "has_entries f p \<longleftrightarrow> list_ex (\<lambda>(q, n). q \<noteq> p \<and> take (length p) q = p) (nodes f)"

definition os_Remove :: "string list \<Rightarrow> (os_error, unit) F" where
  "os_Remove p = os_call (\<lambda>f. case node_at f p of
     None \<Rightarrow> (Inl NotExist, f)
   | Some n \<Rightarrow> if n = Directory \<and> has_entries f p then (Inl OtherOS, f) else (Inr (), drop_node p f))"

text \<open>
  Creation with \<^verbatim>\<open>O_EXCL\<close>, and \<^verbatim>\<open>os.Link\<close> of a file to a new name. A clash of a temporary name is an error here, where
  \<^verbatim>\<open>os.CreateTemp\<close> tries another name, and a failing write leaves the new file empty, where it may hold a part of the content; the
  code only links a file whose writing, synchronisation and closing succeeded.
\<close>

definition os_Create :: "string list \<Rightarrow> string \<Rightarrow> int \<Rightarrow> (os_error, unit) F" where
  "os_Create p content t = os_call (new_entry p (RegularFile content t))"

definition os_Write :: "string list \<Rightarrow> string \<Rightarrow> int \<Rightarrow> (os_error, unit) F" where
  "os_Write p content t = os_call (\<lambda>f. (Inr (), put_node p (RegularFile content t) f))"

definition os_Link :: "string list \<Rightarrow> string list \<Rightarrow> (os_error, unit) F" where
  "os_Link old new = os_call (\<lambda>f. case node_at f old of
     None \<Rightarrow> (Inl NotExist, f)
   | Some n \<Rightarrow> new_entry new n f)"

text \<open>Calls that leave the tree alone: changing a mode, closing a file.\<close>

definition os_Quiet :: "(os_error, unit) F" where
  "os_Quiet = os_call (\<lambda>f. (Inr (), f))"

definition orF :: "asset_err \<Rightarrow> (os_error, 'a) F \<Rightarrow> (asset_err, 'a) F" where
  "orF e m = (\<lambda>V f. case m V f of (Inl x, f') \<Rightarrow> (Inl e, f') | (Inr a, f') \<Rightarrow> (Inr a, f'))"

section \<open>Paths\<close>

definition classifyLocalReadError :: "os_error \<Rightarrow> asset_err" where
  "classifyLocalReadError e = (if e = NotExist then Sentinel ErrObjectNotFound else storage_unavailable ''read local object'')"

definition readF :: "(os_error, 'a) F \<Rightarrow> (asset_err, 'a) F" where
  "readF m = (\<lambda>V f. case m V f of (Inl x, f') \<Rightarrow> (Inl (classifyLocalReadError x), f') | (Inr a, f') \<Rightarrow> (Inr a, f'))"

definition createLocalDirectory :: "string list \<Rightarrow> (os_error, node) F" where
  "createLocalDirectory directory =
     bindF (attemptF (os_Mkdir directory)) (\<lambda>r.
       if r = Inl NotExist \<or> r = Inl OtherOS then failF OtherOS else os_Lstat directory)"

fun createSafeDirectories :: "string list \<Rightarrow> string list \<Rightarrow> (asset_err, unit) F" where
  "createSafeDirectories current [] = returnF ()"
| "createSafeDirectories current (part # parts) =
     (let current = current @ [part] in
      bindF (attemptF (os_Lstat current)) (\<lambda>info.
      bindF (if info = Inl NotExist then attemptF (createLocalDirectory current) else returnF info) (\<lambda>info.
      if info = Inr Directory then createSafeDirectories current parts
      else failF (object_integrity ''local object directory is unsafe''))))"

fun rejectSymlinkPath :: "string list \<Rightarrow> string list \<Rightarrow> (asset_err, unit) F" where
  "rejectSymlinkPath current [] = returnF ()"
| "rejectSymlinkPath current (part # parts) =
     (let current = current @ [part] in
      bindF (attemptF (os_Lstat current)) (\<lambda>info.
      case info of
        Inl e \<Rightarrow> failF (if e = NotExist then Sentinel ErrObjectNotFound else storage_unavailable ''read local object directory'')
      | Inr n \<Rightarrow> if n = Directory then rejectSymlinkPath current parts
                 else failF (object_integrity ''local object directory is unsafe'')))"

text \<open>The names of a path under the root; \<^verbatim>\<open>filepath.Rel\<close> of the joined path is the cleaned key.\<close>

definition safePath :: "local_config \<Rightarrow> string \<Rightarrow> bool \<Rightarrow> (asset_err, string list) F" where
  "safePath C key createParents =
     bindF (liftF (ParseObjectKey (local_uuid C) (local_lower C) key)) (\<lambda>_.
     let relative = path_Clean key; candidate = split_on (CHR ''/'') relative in
     if relative = ''.'' \<or> relative = ''..'' \<or> HasPrefix relative ''../'' \<or> HasPrefix relative ''/''
     then failF (object_invalid ''object path escapes storage root'')
     else bindF (if createParents then createSafeDirectories [] (butlast candidate) else rejectSymlinkPath [] (butlast candidate))
            (\<lambda>_. returnF candidate))"

section \<open>JSON of tickets and metadata\<close>

record localUploadClaims =
  Upload_Key :: string
  Upload_ContentType :: string
  Upload_Size :: "64 word"
  Upload_ExpiresAt :: int

record localMetadata =
  Local_ContentType :: string
  Local_DeclaredContentType :: string
  Local_DeclaredSize :: "64 word"
  Local_CreatedAt :: int

text \<open>The members of an object text, each with the text of its value; \<^verbatim>\<open>null\<close> has none.\<close>

definition object_members :: "string \<Rightarrow> (string \<times> string) list option" where
  "object_members t =
     (case parse_value 0 t of
        Some (JNull, r) \<Rightarrow> if skip_ws r = [] then Some [] else None
      | Some (JObject ms, r) \<Rightarrow>
          if skip_ws r \<noteq> [] then None else if ms = [] then Some []
          else map_option fst (raw_members 1 (tl (skip_ws t)))
      | _ \<Rightarrow> None)"

text \<open>A member value read into a field: \<open>None\<close> is a type error, \<open>Some None\<close> leaves the field as it is.\<close>

definition string_field :: "string \<Rightarrow> string option option" where
  "string_field raw = (case parse_value 0 raw of
     Some (JString s, r) \<Rightarrow> Some (Some s) | Some (JNull, r) \<Rightarrow> Some None | _ \<Rightarrow> None)"

definition uint64_field :: "string \<Rightarrow> 64 word option option" where
  "uint64_field raw = (case parse_value 0 raw of
     Some (JNumber t, r) \<Rightarrow> if list_all is_digit t \<and> decimal_value 0 t < 2 ^ 64 then Some (Some (word_of_int (decimal_value 0 t))) else None
   | Some (JNull, r) \<Rightarrow> Some None | _ \<Rightarrow> None)"

definition int64_field :: "string \<Rightarrow> int option option" where
  "int64_field raw = (case parse_value 0 raw of
     Some (JNumber t, r) \<Rightarrow> map_option Some (ParseInt64 t) | Some (JNull, r) \<Rightarrow> Some None | _ \<Rightarrow> None)"

definition set_field :: "('a \<Rightarrow> 'r \<Rightarrow> 'r) \<Rightarrow> 'a option option \<Rightarrow> 'r \<Rightarrow> 'r option" where
  "set_field upd v r = (case v of None \<Rightarrow> None | Some None \<Rightarrow> Some r | Some (Some x) \<Rightarrow> Some (upd x r))"

fun read_members :: "(string \<Rightarrow> string \<Rightarrow> 'r \<Rightarrow> 'r option) \<Rightarrow> (string \<times> string) list \<Rightarrow> 'r \<Rightarrow> 'r option" where
  "read_members member [] r = Some r"
| "read_members member ((k, raw) # ms) r = Option.bind (member k raw r) (read_members member ms)"

definition claims_member :: "string \<Rightarrow> string \<Rightarrow> localUploadClaims \<Rightarrow> localUploadClaims option" where
  "claims_member k raw c =
     (if same_name ''key'' k then set_field (\<lambda>v. Upload_Key_update (\<lambda>_. v)) (string_field raw) c
      else if same_name ''content_type'' k then set_field (\<lambda>v. Upload_ContentType_update (\<lambda>_. v)) (string_field raw) c
      else if same_name ''size'' k then set_field (\<lambda>v. Upload_Size_update (\<lambda>_. v)) (uint64_field raw) c
      else if same_name ''expires_at'' k then set_field (\<lambda>v. Upload_ExpiresAt_update (\<lambda>_. v)) (int64_field raw) c
      else Some c)"

definition decode_claims :: "string \<Rightarrow> localUploadClaims option" where
  "decode_claims t = Option.bind (object_members t) (\<lambda>ms.
     read_members claims_member ms \<lparr>Upload_Key = '''', Upload_ContentType = '''', Upload_Size = 0, Upload_ExpiresAt = 0\<rparr>)"

definition claims_json :: "localUploadClaims \<Rightarrow> string" where
  "claims_json c = ordered_object
     [(''key'', JString (Upload_Key c)), (''content_type'', JString (Upload_ContentType c)),
      (''size'', JNumber (FormatInt (uint (Upload_Size c)))), (''expires_at'', JNumber (FormatInt (Upload_ExpiresAt c)))]"

definition metadata_member :: "local_config \<Rightarrow> string \<Rightarrow> string \<Rightarrow> localMetadata \<Rightarrow> localMetadata option" where
  "metadata_member C k raw m =
     (if same_name ''content_type'' k then set_field (\<lambda>v. Local_ContentType_update (\<lambda>_. v)) (string_field raw) m
      else if same_name ''declared_content_type'' k then set_field (\<lambda>v. Local_DeclaredContentType_update (\<lambda>_. v)) (string_field raw) m
      else if same_name ''declared_size'' k then set_field (\<lambda>v. Local_DeclaredSize_update (\<lambda>_. v)) (uint64_field raw) m
      else if same_name ''created_at'' k
      then if raw = ''null'' then Some m else map_option (\<lambda>t. m\<lparr>Local_CreatedAt := t\<rparr>) (time_of_json C raw)
      else Some m)"

definition decode_metadata :: "local_config \<Rightarrow> string \<Rightarrow> localMetadata option" where
  "decode_metadata C t = Option.bind (object_members t) (\<lambda>ms.
     read_members (metadata_member C) ms
       \<lparr>Local_ContentType = '''', Local_DeclaredContentType = '''', Local_DeclaredSize = 0, Local_CreatedAt = 0\<rparr>)"

definition metadata_json :: "local_config \<Rightarrow> localMetadata \<Rightarrow> string option" where
  "metadata_json C m = map_option (\<lambda>created.
     ''{'' @ join '','' [marshal_string ''content_type'' @ '':'' @ marshal_string (Local_ContentType m),
       marshal_string ''declared_content_type'' @ '':'' @ marshal_string (Local_DeclaredContentType m),
       marshal_string ''declared_size'' @ '':'' @ FormatInt (uint (Local_DeclaredSize m)),
       marshal_string ''created_at'' @ '':'' @ created] @ ''}'') (time_json C (Local_CreatedAt m))"

section \<open>Upload tickets\<close>

definition LocalUploadPath :: string where "LocalUploadPath = ''/api/assets/upload''"
definition LocalObjectPathPrefix :: string where "LocalObjectPathPrefix = ''/api/assets/objects/''"
definition localMetadataSuffix :: string where "localMetadataSuffix = ''.kirby-metadata''"
definition second_ns :: int where "second_ns = 1000000000"

definition signClaims :: "local_config \<Rightarrow> localUploadClaims \<Rightarrow> string" where
  "signClaims C claims =
     (let encoded = EncodeToString (claims_json claims)
      in encoded @ ''.'' @ EncodeToString (local_hmac C (signingKey C) encoded))"

definition invalid_ticket :: asset_err where "invalid_ticket = Wraps ''invalid upload ticket'' []"

definition verifyToken :: "local_config \<Rightarrow> string \<Rightarrow> (asset_err, localUploadClaims) F" where
  "verifyToken C token =
     (let parts = split_on (CHR ''.'') token in
      if length parts \<noteq> 2 \<or> parts ! 0 = '''' \<or> parts ! 1 = '''' then failF invalid_ticket
      else if DecodeString (parts ! 1) \<noteq> Some (local_hmac C (signingKey C) (parts ! 0)) then failF invalid_ticket
      else case DecodeString (parts ! 0) of
        None \<Rightarrow> failF invalid_ticket
      | Some payload \<Rightarrow>
          (case decode_claims payload of
             None \<Rightarrow> failF invalid_ticket
           | Some claims \<Rightarrow>
               (case validatePresignInput (local_uuid C) (local_lower C)
                       \<lparr>Presign_Key = Upload_Key claims, Presign_ContentType = Upload_ContentType claims,
                        Presign_Size = Upload_Size claims, Presign_ExpiresIn = second_ns\<rparr> of
                  Inl e \<Rightarrow> failF invalid_ticket
                | Inr _ \<Rightarrow>
                    bindF nowF (\<lambda>now.
                    if \<not> now < Upload_ExpiresAt claims * second_ns then failF (Wraps ''expired upload ticket'' [])
                    else returnF claims))))"

definition local_PresignUpload :: "local_config \<Rightarrow> PresignUploadInput \<Rightarrow> (asset_err, UploadTicket) F" where
  "local_PresignUpload C input =
     bindF ctxErr (\<lambda>_.
     bindF (liftF (validatePresignInput (local_uuid C) (local_lower C) input)) (\<lambda>contentType.
     bindF nowF (\<lambda>now.
     let expiresAt = now + Presign_ExpiresIn input;
         token = signClaims C \<lparr>Upload_Key = Presign_Key input, Upload_ContentType = contentType, Upload_Size = Presign_Size input,
                               Upload_ExpiresAt = expiresAt div second_ns\<rparr>
     in returnF \<lparr>Ticket_Key = Presign_Key input, Ticket_URL = LocalUploadPath @ ''?token='' @ token, Ticket_Method = ''PUT'',
                  Ticket_Headers = [(''Content-Type'', contentType)], Ticket_FormFields = [], Ticket_ExpiresAt = expiresAt\<rparr>)))"

section \<open>Reading and deleting\<close>

definition object_path :: "string \<Rightarrow> string list" where "object_path key = split_on (CHR ''/'') key"

definition local_ReadMetadata :: "local_config \<Rightarrow> string \<Rightarrow> (asset_err, Metadata) F" where
  "local_ReadMetadata C key =
     bindF ctxErr (\<lambda>_.
     bindF (safePath C key False) (\<lambda>_.
     bindF (readF os_OpenRoot) (\<lambda>_.
     bindF (readF (os_Lstat (object_path key))) (\<lambda>info.
     case info of
       RegularFile content modified \<Rightarrow>
         bindF (readF (os_Lstat (object_path (key @ localMetadataSuffix)))) (\<lambda>metadataInfo.
         case metadataInfo of
           RegularFile _ _ \<Rightarrow>
             bindF (readF (os_ReadFile (object_path (key @ localMetadataSuffix)))) (\<lambda>encoded.
             case decode_metadata C encoded of
               None \<Rightarrow> failF (object_integrity ''local metadata cannot be decoded'')
             | Some stored \<Rightarrow>
                 (case Uint64FromInt64 (word_of_int (int (length content))) of
                    Inl _ \<Rightarrow> failF (object_integrity ''local object size is invalid'')
                  | Inr bytes \<Rightarrow>
                      returnF \<lparr>Metadata_Key = key, Metadata_URL = LocalObjectPathPrefix @ key, Metadata_ETag = '''',
                               Metadata_ContentType = Local_ContentType stored, Metadata_Size = bytes,
                               Metadata_DeclaredContentType = Local_DeclaredContentType stored,
                               Metadata_DeclaredSize = Local_DeclaredSize stored, Metadata_LastModified = modified\<rparr>))
         | _ \<Rightarrow> failF (object_integrity ''local metadata is not a regular file''))
     | _ \<Rightarrow> failF (object_integrity ''local object is not a regular file'')))))"

definition local_CompleteUpload :: "local_config \<Rightarrow> string \<Rightarrow> (asset_err, Metadata) F" where
  "local_CompleteUpload C key =
     bindF (local_ReadMetadata C key) (\<lambda>metadata. liftF (validateCompletedMetadata (local_lower C) metadata))"

definition local_DeleteIncomplete :: "local_config \<Rightarrow> string \<Rightarrow> (asset_err, unit) F" where
  "local_DeleteIncomplete C key =
     bindF ctxErr (\<lambda>_.
     bindF (safePath C key False) (\<lambda>objectPath.
     bindF (attemptF (os_Remove objectPath)) (\<lambda>first.
     bindF (attemptF (os_Remove (object_path (key @ localMetadataSuffix)))) (\<lambda>second.
     let failures = filter (\<lambda>r. r \<notin> {Inr (), Inl NotExist}) [first, second]
     in if failures = [] then returnF ()
        else failF (Wraps '''' (map (\<lambda>_. storage_unavailable ''remove local object data'') failures))))))"

definition local_Close :: "local_config \<Rightarrow> local_config" where
  "local_Close C = C\<lparr>signingKey := map (\<lambda>_. char_of (0 :: int)) (signingKey C)\<rparr>"

section \<open>Uploads\<close>

record http_request =
  Req_Method :: string
  Req_Path :: string
  Req_Authorization :: string
  Req_APIKey :: string
  Req_Cookie :: string
  Req_ContentType :: string
  Req_Token :: string
  Req_ContentLength :: "64 word"
  Req_Body :: string
  Req_BodyFails :: bool

text \<open>\<^verbatim>\<open>writeExclusiveFile\<close>: the file is created, written and closed, and removed again when one of these fails.\<close>

definition writeExclusiveFile :: "string list \<Rightarrow> string \<Rightarrow> (os_error, unit) F" where
  "writeExclusiveFile p contents =
     bindF os_Quiet (\<lambda>_.
     bindF nowF (\<lambda>now.
     bindF (os_Create p '''' now) (\<lambda>_.
     bindF (attemptF (os_Write p contents now)) (\<lambda>written.
     bindF (attemptF os_Quiet) (\<lambda>closed.
     if isl written \<or> isl closed then bindF (attemptF (os_Remove p)) (\<lambda>_. failF OtherOS) else returnF ())))))"

definition publishUpload :: "local_config \<Rightarrow> localUploadClaims \<Rightarrow> string list \<Rightarrow> (asset_err, unit) F" where
  "publishUpload C claims objectPath =
     bindF nowF (\<lambda>now.
     case metadata_json C \<lparr>Local_ContentType = Upload_ContentType claims, Local_DeclaredContentType = Upload_ContentType claims,
                           Local_DeclaredSize = Upload_Size claims, Local_CreatedAt = now\<rparr> of
       None \<Rightarrow> bindF (attemptF (os_Remove objectPath)) (\<lambda>_. failF (storage_unavailable ''encode local upload metadata''))
     | Some encoded \<Rightarrow>
         bindF (attemptF (writeExclusiveFile (object_path (Upload_Key claims @ localMetadataSuffix)) encoded)) (\<lambda>r.
         if isl r then bindF (attemptF (os_Remove objectPath)) (\<lambda>_. failF (storage_unavailable ''publish local upload metadata''))
         else returnF ()))"

text \<open>
  What the copy writes: at most one byte more than declared. A reader that fails is noticed unless the limit is reached first.
\<close>

definition copyUpload :: "localUploadClaims \<Rightarrow> http_request \<Rightarrow> string list \<Rightarrow> (asset_err, unit) F" where
  "copyUpload claims request temporary =
     bindF (orF (storage_unavailable ''secure local upload'') os_Quiet) (\<lambda>_.
     case Int64FromUint64 (Upload_Size claims) of
       Inl _ \<Rightarrow> failF (object_invalid ''upload size is invalid'')
     | Inr limit \<Rightarrow>
         if sint limit = MaxInt64 then failF (object_invalid ''upload size is invalid'')
         else
           let copied = take (nat (sint limit + 1)) (Req_Body request);
               readError = (Req_BodyFails request \<and> int (length (Req_Body request)) < sint limit + 1)
           in bindF nowF (\<lambda>now.
              bindF (attemptF (os_Write temporary copied now)) (\<lambda>written.
              bindF (attemptF os_Quiet) (\<lambda>closed.
              if isl written \<or> readError \<or> isl closed then failF (storage_unavailable ''write local upload'')
              else if Uint64FromInt64 (word_of_int (int (length copied))) \<noteq> Inr (Upload_Size claims)
              then failF (object_integrity ''uploaded size does not match declaration'')
              else returnF ()))))"

definition writeUpload :: "local_config \<Rightarrow> localUploadClaims \<Rightarrow> http_request \<Rightarrow> (asset_err, unit) F" where
  "writeUpload C claims request =
     bindF ctxErr (\<lambda>_.
     bindF (safePath C (Upload_Key claims) True) (\<lambda>objectPath.
     bindF (attemptF (os_Lstat objectPath)) (\<lambda>found.
     case found of
       Inr _ \<Rightarrow> failF (object_integrity ''object already exists'')
     | Inl e \<Rightarrow>
         if e \<noteq> NotExist then failF (storage_unavailable ''inspect local object'')
         else
           bindF (\<lambda>V f. (Inr (butlast objectPath @ [''.kirby-upload-'' @ temp_name V (os_tick f)]), f)) (\<lambda>temporary.
           bindF (orF (storage_unavailable ''create local upload'') (os_Create temporary '''' 0)) (\<lambda>_.
           bindF (attemptF (
             bindF (copyUpload claims request temporary) (\<lambda>_.
             bindF (orF (storage_unavailable ''publish local upload'') (os_Link temporary objectPath)) (\<lambda>_.
             publishUpload C claims objectPath)))) (\<lambda>r.
           bindF (attemptF (os_Remove temporary)) (\<lambda>_. liftF r)))))))"

text \<open>A response: a status without content, or an object that is served with its headers.\<close>

datatype response = Status int | Serves Metadata string

definition uploadStatus :: "asset_err \<Rightarrow> int" where
  "uploadStatus e = (if asset_Is Object_ErrInvalidInput e \<or> asset_Is ErrObjectIntegrity e then 400 else 500)"

definition handleUpload :: "local_config \<Rightarrow> http_request \<Rightarrow> ('e, response) F" where
  "handleUpload C request =
     (if Req_Method request \<noteq> ''PUT'' then returnF (Status 405)
      else if Req_Authorization request \<noteq> '''' \<or> Req_APIKey request \<noteq> '''' \<or> Req_Cookie request \<noteq> '''' then returnF (Status 400)
      else
        bindF (attemptF (verifyToken C (Req_Token request))) (\<lambda>r.
        case r of
          Inl _ \<Rightarrow> returnF (Status 401)
        | Inr claims \<Rightarrow>
            if map_option (ToLower (local_lower C)) (ParseMediaType (local_lower C) (Req_ContentType request)) \<noteq> Some (Upload_ContentType claims)
            then returnF (Status 400)
            else if sint (Req_ContentLength request) \<ge> 0 \<and> Uint64FromInt64 (Req_ContentLength request) \<noteq> Inr (Upload_Size claims)
            then returnF (Status 400)
            else bindF (attemptF (writeUpload C claims request)) (\<lambda>r.
              case r of Inl e \<Rightarrow> returnF (Status (uploadStatus e)) | Inr _ \<Rightarrow> returnF (Status 204))))"

definition handleObject :: "local_config \<Rightarrow> http_request \<Rightarrow> ('e, response) F" where
  "handleObject C request =
     (if Req_Method request \<noteq> ''GET'' \<and> Req_Method request \<noteq> ''HEAD'' then returnF (Status 405)
      else
        let key = TrimPrefix (Req_Path request) LocalObjectPathPrefix in
        bindF (attemptF (local_CompleteUpload C key)) (\<lambda>r.
        case r of
          Inl e \<Rightarrow> returnF (Status (if asset_Is ErrObjectNotFound e \<or> asset_Is Object_ErrInvalidInput e then 404 else 500))
        | Inr metadata \<Rightarrow>
            bindF (attemptF os_OpenRoot) (\<lambda>opened.
            if isl opened then returnF (Status 404)
            else bindF (attemptF (os_ReadFile (object_path key))) (\<lambda>file.
              case file of Inl _ \<Rightarrow> returnF (Status 404) | Inr content \<Rightarrow> returnF (Serves metadata content)))))"

definition ServeHTTP :: "local_config \<Rightarrow> http_request \<Rightarrow> ('e, response) F" where
  "ServeHTTP C request =
     (if Req_Path request = LocalUploadPath then handleUpload C request
      else if HasPrefix (Req_Path request) LocalObjectPathPrefix then handleObject C request
      else returnF (Status 404))"

end
