(* ===== verification/Object_Props.thy ===== *)
theory Object_Props
  imports Object_Local
begin

text \<open>
  What the local object storage guarantees: uploads only add files, an object appears only under a ticket that was
  signed for it, and a ticket that is used as issued leads to a complete object.
\<close>

section \<open>Runs\<close>

named_theorems file_simps "results of the file system combinators"

lemma bindF_run [file_simps]:
  "bindF m k V f = (r, f') \<longleftrightarrow> (\<exists>e. m V f = (Inl e, f') \<and> r = Inl e) \<or> (\<exists>x f1. m V f = (Inr x, f1) \<and> k x V f1 = (r, f'))"
  by (auto simp: bindF_def split: prod.splits sum.splits)

lemma basic_run [file_simps]:
  "returnF x V f = (r, f') \<longleftrightarrow> r = Inr x \<and> f' = f" "failF e V f = (r, f') \<longleftrightarrow> r = Inl e \<and> f' = f"
  "liftF y V f = (r, f') \<longleftrightarrow> y = r \<and> f' = f"
  by (auto simp: returnF_def failF_def liftF_def)

lemma attemptF_run [file_simps]: "attemptF m V f = (r, f') \<longleftrightarrow> (\<exists>y. r = Inr y \<and> m V f = (y, f'))"
  by (auto simp: attemptF_def split: prod.splits)

lemma map_of_without: "map_of (filter (\<lambda>x. fst x \<noteq> p) xs) q = (if q = p then None else map_of xs q)"
  by (induction xs) auto

lemma node_put [simp]: "node_at (put_node p n f) q = (if q = p then Some n else node_at f q)"
  by (simp add: node_at_def put_node_def map_of_without)

lemma node_drop [simp]: "node_at (drop_node p f) q = (if q = p then None else node_at f q)"
  by (simp add: node_at_def drop_node_def map_of_without)

lemma node_tick [simp]: "node_at (f\<lparr>os_tick := n\<rparr>) q = node_at f q"
  by (simp add: node_at_def)

section \<open>Uploads only add files\<close>

text \<open>
  \<open>extends A f0 f\<close>: everything in \<open>f0\<close> is still there, and whatever is new satisfies \<open>A\<close>. An operation that keeps
  this from any state onwards is safe for \<open>A\<close>.
\<close>

definition extends :: "(string list \<Rightarrow> node \<Rightarrow> bool) \<Rightarrow> local_files \<Rightarrow> local_files \<Rightarrow> bool" where
  "extends A f0 f \<longleftrightarrow> (\<forall>p n. node_at f0 p = Some n \<longrightarrow> node_at f p = Some n) \<and>
     (\<forall>p n. node_at f p = Some n \<longrightarrow> node_at f0 p = Some n \<or> A p n)"

definition keeps :: "(string list \<Rightarrow> node \<Rightarrow> bool) \<Rightarrow> local_files \<Rightarrow> ('e, 'a) F \<Rightarrow> bool" where
  "keeps A f0 m \<longleftrightarrow> (\<forall>V f r f'. extends A f0 f \<longrightarrow> m V f = (r, f') \<longrightarrow> extends A f0 f')"

lemma keepsD: "keeps A f0 m \<Longrightarrow> extends A f0 f \<Longrightarrow> m V f = (r, f') \<Longrightarrow> extends A f0 f'"
  unfolding keeps_def by blast

lemma keepsI: "(\<And>V f r f'. extends A f0 f \<Longrightarrow> m V f = (r, f') \<Longrightarrow> extends A f0 f') \<Longrightarrow> keeps A f0 m"
  unfolding keeps_def by blast

lemma os_Create_Inr: "os_Create p c t V f = (Inr u, f') \<Longrightarrow> node_at f p = None"
  by (auto simp: os_Create_def os_call_def new_entry_def split: if_splits)

lemma extends_tick [simp]: "extends A f0 (f\<lparr>os_tick := n\<rparr>) = extends A f0 f"
  by (simp add: extends_def)

lemma extends_put: "extends A f0 f \<Longrightarrow> node_at f0 p = None \<Longrightarrow> A p n \<Longrightarrow> extends A f0 (put_node p n f)"
  by (auto simp: extends_def)

lemma extends_drop: "extends A f0 f \<Longrightarrow> node_at f0 p = None \<Longrightarrow> extends A f0 (drop_node p f)"
  by (auto simp: extends_def)

lemma extends_free: "extends A f0 f \<Longrightarrow> node_at f p = None \<Longrightarrow> node_at f0 p = None"
  by (cases "node_at f0 p") (auto simp: extends_def)

locale additions =
  fixes A :: "string list \<Rightarrow> node \<Rightarrow> bool" and f0 :: local_files
  assumes directory: "A p Directory"
begin

lemma basic: "keeps A f0 (returnF x)" "keeps A f0 (failF e)" "keeps A f0 (liftF y)" "keeps A f0 nowF" "keeps A f0 ctxErr"
  by (auto simp: keeps_def file_simps nowF_def ctxErr_def)

lemma bind: "keeps A f0 m \<Longrightarrow> (\<And>x. keeps A f0 (k x)) \<Longrightarrow> keeps A f0 (bindF m k)"
  unfolding keeps_def bindF_run by blast

lemma wrapped: "keeps A f0 m \<Longrightarrow> keeps A f0 (attemptF m)" "keeps A f0 n \<Longrightarrow> keeps A f0 (orF e n)" "keeps A f0 n \<Longrightarrow> keeps A f0 (readF n)"
  by (auto simp: keeps_def attemptF_run orF_def readF_def split: prod.splits sum.splits)

lemma branch: "(b \<Longrightarrow> keeps A f0 m) \<Longrightarrow> (\<not> b \<Longrightarrow> keeps A f0 n) \<Longrightarrow> keeps A f0 (if b then m else n)"
  by simp

lemma cases_sum: "(\<And>e. keeps A f0 (g e)) \<Longrightarrow> (\<And>x. keeps A f0 (h x)) \<Longrightarrow> keeps A f0 (case r of Inl e \<Rightarrow> g e | Inr x \<Rightarrow> h x)"
  by (cases r) simp_all

lemma cases_option: "keeps A f0 g \<Longrightarrow> (\<And>x. keeps A f0 (h x)) \<Longrightarrow> keeps A f0 (case r of None \<Rightarrow> g | Some x \<Rightarrow> h x)"
  by (cases r) simp_all

lemma cases_node: "keeps A f0 g \<Longrightarrow> keeps A f0 g' \<Longrightarrow> (\<And>c t. keeps A f0 (h c t)) \<Longrightarrow>
    keeps A f0 (case n of Directory \<Rightarrow> g | Symlink \<Rightarrow> g' | RegularFile c t \<Rightarrow> h c t)"
  by (cases n) simp_all

lemma call: "(\<And>f r f'. extends A f0 f \<Longrightarrow> q f = (r, f') \<Longrightarrow> extends A f0 f') \<Longrightarrow> keeps A f0 (os_call q)"
  by (auto simp: keeps_def os_call_def split: if_splits prod.splits)

lemma reads: "keeps A f0 (os_Lstat p)" "keeps A f0 os_OpenRoot" "keeps A f0 (os_ReadFile p)" "keeps A f0 os_Quiet"
  unfolding os_Lstat_def os_OpenRoot_def os_ReadFile_def os_Quiet_def by (rule call; simp)+

lemma entry: "A p n \<Longrightarrow> extends A f0 f \<Longrightarrow> new_entry p n f = (r, f') \<Longrightarrow> extends A f0 f'"
  by (auto simp: new_entry_def intro: extends_put extends_free split: if_splits)

lemma creates: "A p Directory \<Longrightarrow> keeps A f0 (os_Mkdir p)" "A p (RegularFile c t) \<Longrightarrow> keeps A f0 (os_Create p c t)"
  unfolding os_Mkdir_def os_Create_def by (rule call, erule entry; assumption)+

lemma own: "node_at f0 p = None \<Longrightarrow> keeps A f0 (os_Remove p)" "node_at f0 p = None \<Longrightarrow> A p (RegularFile c t) \<Longrightarrow> keeps A f0 (os_Write p c t)"
  unfolding os_Remove_def os_Write_def
  by (rule call, auto intro: extends_put extends_drop split: option.splits if_splits)+

lemmas steps = basic bind wrapped branch cases_sum cases_option cases_node reads creates own

lemma create: "keeps A f0 (createSafeDirectories current parts)"
proof (induction parts arbitrary: current)
  case (Cons part parts)
  then show ?case
    unfolding createSafeDirectories.simps Let_def createLocalDirectory_def by (intro steps directory)
qed (simp add: steps)

lemma reject: "keeps A f0 (rejectSymlinkPath current parts)"
proof (induction parts arbitrary: current)
  case (Cons part parts)
  then show ?case unfolding rejectSymlinkPath.simps Let_def by (intro steps)
qed (simp add: steps)

lemma safe: "keeps A f0 (safePath C key b)"
  unfolding safePath_def Let_def by (intro steps create reject)

text \<open>A step whose success shows a fact that what follows needs.\<close>

lemma guarded:
  assumes "keeps A f0 m" "\<And>V f x f'. extends A f0 f \<Longrightarrow> m V f = (Inr x, f') \<Longrightarrow> P x" "\<And>x. P x \<Longrightarrow> keeps A f0 (k x)"
  shows "keeps A f0 (bindF m k)"
  using assms unfolding keeps_def bindF_run by blast

lemma fresh_file:
  assumes "\<And>c t. A p (RegularFile c t)" "node_at f0 p = None \<Longrightarrow> keeps A f0 n"
  shows "keeps A f0 (bindF (os_Create p c t) (\<lambda>_. n))"
proof (rule guarded [where P = "\<lambda>_. node_at f0 p = None"])
  show "keeps A f0 (os_Create p c t)" by (intro steps assms(1))
  show "extends A f0 f \<Longrightarrow> os_Create p c t V f = (Inr x, f') \<Longrightarrow> node_at f0 p = None" for V f x f'
    by (rule extends_free [OF _ os_Create_Inr])
qed (rule assms(2))

lemma fresh_file_or:
  assumes "\<And>c t. A p (RegularFile c t)" "node_at f0 p = None \<Longrightarrow> keeps A f0 n"
  shows "keeps A f0 (bindF (orF e (os_Create p c t)) (\<lambda>_. n))"
proof (rule guarded [where P = "\<lambda>_. node_at f0 p = None"])
  show "keeps A f0 (orF e (os_Create p c t))" by (intro steps assms(1))
  show "extends A f0 f \<Longrightarrow> orF e (os_Create p c t) V f = (Inr x, f') \<Longrightarrow> node_at f0 p = None" for V f x f'
    using extends_free os_Create_Inr by (fastforce simp: orF_def split: prod.splits sum.splits)
qed (rule assms(2))

lemma exclusive:
  assumes "\<And>c t. A p (RegularFile c t)"
  shows "keeps A f0 (writeExclusiveFile p contents)"
  unfolding writeExclusiveFile_def by (intro basic bind reads fresh_file assms) (intro steps assms; assumption)+

end

definition temp_path :: "string list \<Rightarrow> bool" where
  "temp_path p \<longleftrightarrow> (\<exists>q x. p = q @ [''.kirby-upload-'' @ x])"

definition upload_node :: "localUploadClaims \<Rightarrow> http_request \<Rightarrow> string list \<Rightarrow> node \<Rightarrow> bool" where
  "upload_node claims request p n \<longleftrightarrow> n = Directory \<or> temp_path p \<or> p = object_path (Upload_Key claims @ localMetadataSuffix) \<or>
     p = object_path (Upload_Key claims) \<and> (\<exists>t. n = RegularFile (Req_Body request) t) \<and> int (length (Req_Body request)) = uint (Upload_Size claims)"

interpretation upl: additions "upload_node claims request" f0 for claims request f0
  by unfold_locales (simp add: upload_node_def)

lemma safePath_Inr:
  assumes "safePath C key b V f = (Inr p, f')"
  shows "p = object_path key" "\<exists>s. ParseObjectKey (local_uuid C) (local_lower C) key = Inr s"
proof -
  from assms obtain s where s: "ParseObjectKey (local_uuid C) (local_lower C) key = Inr s" and p: "p = split_on (CHR ''/'') (path_Clean key)"
    by (auto simp: safePath_def file_simps Let_def split: if_splits)
  from s have "path_Clean key = key" by (auto simp: ParseObjectKey_def split: if_splits)
  with p show "p = object_path key" by (simp add: object_path_def)
  from s show "\<exists>s. ParseObjectKey (local_uuid C) (local_lower C) key = Inr s" by blast
qed

lemma length_word: "n < 2 ^ 63 \<Longrightarrow> sint (word_of_int (int n) :: 64 word) = int n"
  by (rule sint_word_of_int_small) simp_all

lemma not_isl: "\<not> isl r \<longleftrightarrow> (\<exists>x. r = Inr x)"
  by (cases r) auto

lemma copyUpload_Inr:
  assumes "copyUpload claims request temporary V f = (Inr u, f')"
  shows "\<exists>t. node_at f' temporary = Some (RegularFile (Req_Body request) t)" "int (length (Req_Body request)) = uint (Upload_Size claims)"
proof -
  from assms obtain limit where lim: "Int64FromUint64 (Upload_Size claims) = Inr limit" "sint limit \<noteq> MaxInt64"
    by (auto simp: copyUpload_def file_simps split: sum.splits if_splits)
  then have bound: "uint (Upload_Size claims) \<le> MaxInt64" "limit = word_of_int (uint (Upload_Size claims))"
    by (auto simp: Int64FromUint64_def split: if_splits)
  then have s: "sint limit = uint (Upload_Size claims)"
    unfolding bound(2) by (intro sint_word_of_int_small) (simp_all add: MaxInt64_def)
  define copied where "copied = take (nat (sint limit + 1)) (Req_Body request)"
  from assms lim obtain now f1 f2 where wr: "os_Write temporary copied now V f1 = (Inr (), f2)"
    and sz: "Uint64FromInt64 (word_of_int (int (length copied))) = Inr (Upload_Size claims)" and q: "os_Quiet V f2 = (Inr (), f')"
    by (auto simp: copyUpload_def file_simps copied_def [symmetric] Let_def not_isl split: sum.splits if_splits)
  have "sint limit + 1 < 2 ^ 63" using s bound lim(2) by (simp add: MaxInt64_def)
  moreover have "int (length copied) \<le> sint limit + 1"
  proof -
    have "length copied \<le> nat (sint limit + 1)" by (simp add: copied_def)
    moreover have "0 \<le> sint limit" using s by simp
    ultimately show ?thesis by linarith
  qed
  ultimately have "int (length copied) < 2 ^ 63" by linarith
  then have len: "length copied < 2 ^ 63" by simp
  with sz have same: "Upload_Size claims = word_of_int (int (length copied))"
    by (auto simp: Uint64FromInt64_def length_word split: if_splits)
  then have "uint (Upload_Size claims) = int (length copied)" using len unfolding same uint_word_of_int by (simp del: of_int_of_nat_eq)
  with s have body: "copied = Req_Body request" "int (length (Req_Body request)) = uint (Upload_Size claims)"
    by (auto simp: copied_def min_def split: if_splits)
  then show "int (length (Req_Body request)) = uint (Upload_Size claims)" by simp
  from wr q body show "\<exists>t. node_at f' temporary = Some (RegularFile (Req_Body request) t)"
    by (auto simp: os_Write_def os_Quiet_def os_call_def split: if_splits)
qed

text \<open>Linking the copied file to the object's name, and what follows.\<close>

lemma link_keeps:
  assumes temp: "temp_path temporary" "node_at f0 temporary = None" and obj: "node_at f0 (object_path (Upload_Key claims)) = None"
    and k: "\<And>x. keeps (upload_node claims request) f0 (k x)"
  shows "keeps (upload_node claims request) f0 (bindF (copyUpload claims request temporary) (\<lambda>_.
    bindF (orF e (os_Link temporary (object_path (Upload_Key claims)))) k))"
proof (rule keepsI)
  let ?A = "upload_node claims request" and ?p = "object_path (Upload_Key claims)"
  fix V f r f'
  assume ext: "extends ?A f0 f" and run: "bindF (copyUpload claims request temporary) (\<lambda>_. bindF (orF e (os_Link temporary ?p)) k) V f = (r, f')"
  have copy: "keeps ?A f0 (copyUpload claims request temporary)"
    unfolding copyUpload_def Let_def by (intro upl.steps temp) (use temp in \<open>simp add: upload_node_def\<close>)
  from run consider err where "copyUpload claims request temporary V f = (Inl err, f')"
    | x f1 where "copyUpload claims request temporary V f = (Inr x, f1)" "bindF (orF e (os_Link temporary ?p)) k V f1 = (r, f')"
    by (auto simp: file_simps)
  then show "extends ?A f0 f'"
  proof cases
    case 1
    then show ?thesis by (rule keepsD [OF copy ext])
  next
    case 2
    have ext1: "extends ?A f0 f1" by (rule keepsD [OF copy ext 2(1)])
    from copyUpload_Inr [OF 2(1)] obtain t where t: "node_at f1 temporary = Some (RegularFile (Req_Body request) t)"
      and len: "int (length (Req_Body request)) = uint (Upload_Size claims)" by blast
    have ok: "?A ?p (RegularFile (Req_Body request) t)" using len by (auto simp: upload_node_def)
    have "extends ?A f0 f2" if "os_Link temporary ?p V f1 = (y, f2)" for y f2
      using that upl.entry [OF ok ext1] ext1 by (auto simp: os_Link_def os_call_def t split: if_splits prod.splits)
    with 2(2) show ?thesis
      using keepsD [OF k] by (auto simp: file_simps orF_def split: prod.splits sum.splits)
  qed
qed

lemma publish_keeps:
  assumes "node_at f0 (object_path (Upload_Key claims)) = None"
  shows "keeps (upload_node claims request) f0 (publishUpload C claims (object_path (Upload_Key claims)))"
  unfolding publishUpload_def
  by (intro upl.steps upl.exclusive assms) (simp add: upload_node_def)

lemma writeUpload_keeps: "keeps (upload_node claims request) f0 (writeUpload C claims request)"
proof -
  let ?A = "upload_node claims request" and ?p = "object_path (Upload_Key claims)"
  have rest: "keeps ?A f0 (bindF (\<lambda>V f. (Inr (butlast ?p @ [''.kirby-upload-'' @ temp_name V (os_tick f)]), f)) (\<lambda>temporary.
      bindF (orF (storage_unavailable ''create local upload'') (os_Create temporary '''' 0)) (\<lambda>_.
      bindF (attemptF (bindF (copyUpload claims request temporary) (\<lambda>_.
        bindF (orF (storage_unavailable ''publish local upload'') (os_Link temporary ?p)) (\<lambda>_. publishUpload C claims ?p)))) (\<lambda>r.
      bindF (attemptF (os_Remove temporary)) (\<lambda>_. liftF r)))))" if free: "node_at f0 ?p = None"
  proof (rule upl.guarded [where P = temp_path])
    show "temp_path x" if "(\<lambda>V f. (Inr (butlast ?p @ [''.kirby-upload-'' @ temp_name V (os_tick f)]), f)) V f = (Inr x, f')" for V f x f'
      using that by (auto simp: temp_path_def)
    show "keeps ?A f0 (bindF (orF (storage_unavailable ''create local upload'') (os_Create temporary '''' 0)) (\<lambda>_.
      bindF (attemptF (bindF (copyUpload claims request temporary) (\<lambda>_.
        bindF (orF (storage_unavailable ''publish local upload'') (os_Link temporary ?p)) (\<lambda>_. publishUpload C claims ?p)))) (\<lambda>r.
      bindF (attemptF (os_Remove temporary)) (\<lambda>_. liftF r))))" if temp: "temp_path temporary" for temporary
      by (intro upl.fresh_file_or upl.basic upl.bind upl.wrapped(1) link_keeps publish_keeps upl.own temp free; (assumption | simp add: upload_node_def temp))
  qed (auto simp: keeps_def)
  have path: "P x = ?p" if "safePath C (Upload_Key claims) True V f = (Inr x, f')" "P = (\<lambda>x. x)" for P V f x f'
    using safePath_Inr(1) [OF that(1)] that(2) by simp
  show ?thesis
    unfolding writeUpload_def
  proof (rule upl.bind [OF upl.basic(5)], rule upl.guarded [where P = "\<lambda>x. x = ?p", OF upl.safe])
    fix objectPath
    assume [simp]: "objectPath = ?p"
    show "keeps ?A f0 (bindF (attemptF (os_Lstat objectPath)) (\<lambda>found. case found of
       Inr _ \<Rightarrow> failF (object_integrity ''object already exists'')
     | Inl e \<Rightarrow> if e \<noteq> NotExist then failF (storage_unavailable ''inspect local object'')
         else bindF (\<lambda>V f. (Inr (butlast objectPath @ [''.kirby-upload-'' @ temp_name V (os_tick f)]), f)) (\<lambda>temporary.
           bindF (orF (storage_unavailable ''create local upload'') (os_Create temporary '''' 0)) (\<lambda>_.
           bindF (attemptF (bindF (copyUpload claims request temporary) (\<lambda>_.
             bindF (orF (storage_unavailable ''publish local upload'') (os_Link temporary objectPath)) (\<lambda>_.
             publishUpload C claims objectPath)))) (\<lambda>r.
           bindF (attemptF (os_Remove temporary)) (\<lambda>_. liftF r))))))"
    proof (rule upl.guarded [where P = "\<lambda>found. found = Inl NotExist \<longrightarrow> node_at f0 ?p = None"])
      show "keeps ?A f0 (attemptF (os_Lstat objectPath))" by (intro upl.steps)
      show "found = Inl NotExist \<longrightarrow> node_at f0 ?p = None" if "extends ?A f0 f" "attemptF (os_Lstat objectPath) V f = (Inr found, f')" for V f found f'
        using that extends_free [OF that(1), of ?p]
        by (auto simp: file_simps os_Lstat_def os_call_def split: if_splits option.splits)
    qed (use rest in \<open>auto intro: upl.basic split: sum.splits\<close>)
  qed (use safePath_Inr(1) in blast)
qed

section \<open>Tickets\<close>

text \<open>What a ticket has to carry: a signature of this server over the claims, and claims within the limits that have not expired.\<close>

definition signed_ticket :: "local_config \<Rightarrow> string \<Rightarrow> int \<Rightarrow> localUploadClaims \<Rightarrow> bool" where
  "signed_ticket C token now claims \<longleftrightarrow>
     (\<exists>encoded signature payload. token = encoded @ ''.'' @ signature \<and>
        DecodeString signature = Some (local_hmac C (signingKey C) encoded) \<and>
        DecodeString encoded = Some payload \<and> decode_claims payload = Some claims) \<and>
     (\<exists>s. ParseObjectKey (local_uuid C) (local_lower C) (Upload_Key claims) = Inr s) \<and>
     0 < Upload_Size claims \<and> Upload_Size claims \<le> MaxUploadSize \<and> now < Upload_ExpiresAt claims * second_ns"

lemma verifyToken_Inr:
  assumes "verifyToken C token V f = (Inr claims, f')"
  shows "signed_ticket C token (local_now V (os_tick f)) claims" "nodes f' = nodes f"
proof -
  define parts where "parts = split_on (CHR ''.'') token"
  have two: "length parts = 2" using assms by (simp add: verifyToken_def parts_def Let_def file_simps split: if_splits)
  then have "parts = [parts ! 0, parts ! 1]" by (auto simp: length_Suc_conv numeral_eq_Suc)
  then have token: "token = parts ! 0 @ ''.'' @ parts ! 1"
    using join_split [of "CHR ''.''" token] by (metis parts_def join.simps(2,3) append.assoc)
  from assms obtain payload where p: "DecodeString (parts ! 1) = Some (local_hmac C (signingKey C) (parts ! 0))"
      "DecodeString (parts ! 0) = Some payload" "decode_claims payload = Some claims"
    and rest: "(case validatePresignInput (local_uuid C) (local_lower C) \<lparr>Presign_Key = Upload_Key claims, Presign_ContentType = Upload_ContentType claims,
        Presign_Size = Upload_Size claims, Presign_ExpiresIn = second_ns\<rparr> of Inl e \<Rightarrow> failF invalid_ticket | Inr _ \<Rightarrow> bindF nowF (\<lambda>now.
        if \<not> now < Upload_ExpiresAt claims * second_ns then failF (Wraps ''expired upload ticket'' []) else returnF claims)) V f = (Inr claims, f')"
    by (auto simp: verifyToken_def parts_def [symmetric] Let_def file_simps split: if_splits option.splits sum.splits)
  then have "\<exists>s. ParseObjectKey (local_uuid C) (local_lower C) (Upload_Key claims) = Inr s" "0 < Upload_Size claims" "Upload_Size claims \<le> MaxUploadSize"
      "local_now V (os_tick f) < Upload_ExpiresAt claims * second_ns" and same: "nodes f' = nodes f"
    by (auto simp: file_simps nowF_def validatePresignInput_def bindA_def word_gt_0 not_less split: sum.splits if_splits)
  with p token show "signed_ticket C token (local_now V (os_tick f)) claims" unfolding signed_ticket_def by blast
  show "nodes f' = nodes f" by (rule same)
qed

section \<open>Requests\<close>

interpretation rdr: additions "\<lambda>p n. n = Directory" f0 for f0
  by unfold_locales simp

lemma handleUpload_cases:
  fixes r :: "asset_err + response"
  assumes "handleUpload C request V f = (r, f')"
  shows "(\<forall>p. node_at f' p = node_at f p) \<or> (\<exists>claims f1 y. Req_Method request = ''PUT'' \<and>
    verifyToken C (Req_Token request) V f = (Inr claims, f1) \<and> writeUpload C claims request V f1 = (y, f'))"
proof -
  have quiet: "node_at f' p = node_at f p" if "verifyToken C (Req_Token request) V f = (y, f')" for y p f'
  proof -
    have "nodes f' = nodes f"
      using that by (auto simp: verifyToken_def Let_def file_simps nowF_def split: if_splits option.splits sum.splits)
    then show ?thesis by (simp add: node_at_def)
  qed
  obtain y f1 where ver: "verifyToken C (Req_Token request) V f = (y, f1)" by fastforce
  show ?thesis
  proof (cases y)
    case (Inl e)
    with assms ver quiet [OF ver] show ?thesis by (auto simp: handleUpload_def file_simps split: if_splits)
  next
    case (Inr claims)
    obtain z f2 where wr: "writeUpload C claims request V f1 = (z, f2)" by fastforce
    with Inr assms ver have "f' = f \<or> f' = f1 \<or> Req_Method request = ''PUT'' \<and> (\<exists>z. writeUpload C claims request V f1 = (z, f'))"
      by (cases z) (auto simp: handleUpload_def file_simps split: if_splits)
    with Inr ver quiet [OF ver] show ?thesis by auto
  qed
qed

lemma handleObject_quiet:
  fixes r :: "asset_err + response"
  assumes "handleObject C request V f = (r, f')"
  shows "extends (\<lambda>p n. n = Directory) f f'"
proof -
  have "keeps (\<lambda>p n. n = Directory) f (handleObject C request)"
    unfolding handleObject_def local_CompleteUpload_def local_ReadMetadata_def Let_def by (intro rdr.steps rdr.safe)
  moreover have "extends (\<lambda>p n. n = Directory) f f" by (simp add: extends_def)
  ultimately show ?thesis using assms by (rule keepsD)
qed

lemma object_path_inject: "object_path k = object_path k' \<longleftrightarrow> k = k'"
  unfolding object_path_def by (metis join_split)

lemma object_not_other:
  assumes "canonical_uuids uuid" "ParseObjectKey uuid lower key = Inr s"
  shows "\<not> temp_path (object_path key)" "object_path key \<noteq> object_path (key' @ localMetadataSuffix)"
proof -
  note p = ParseObjectKey_Inr [OF assms(2)]
  from p(7) obtain e where e: "Scope_Extension s = CHR ''.'' # e" "list_all scope_char e" by blast
  have path: "object_path key = key_parts s"
    unfolding object_path_def p(1) by (rule built_key(1) [OF assms(1) p(6) e])
  from assms(1) p(6) have u: "length (Scope_ObjectID s) = 36" "list_all (\<lambda>c. scope_char c \<or> c = CHR ''-'') (Scope_ObjectID s)"
    unfolding canonical_uuids_def by blast+
  then obtain c rest where id: "Scope_ObjectID s = c # rest" by (cases "Scope_ObjectID s") auto
  with u(2) have c: "c \<noteq> CHR ''.''" using scope_char_plain [of c] by auto
  have last: "last (key_parts s) = Scope_ObjectID s @ Scope_Extension s" by (simp add: key_parts_def)
  show "\<not> temp_path (object_path key)"
  proof
    assume "temp_path (object_path key)"
    then obtain q x where "key_parts s = q @ [''.kirby-upload-'' @ x]" unfolding temp_path_def path by blast
    then have "last (key_parts s) = ''.kirby-upload-'' @ x" by (simp only: last_snoc)
    with last have "Scope_ObjectID s @ Scope_Extension s = ''.kirby-upload-'' @ x" by simp
    with id c show False by simp
  qed
  show "object_path key \<noteq> object_path (key' @ localMetadataSuffix)"
  proof
    assume "object_path key = object_path (key' @ localMetadataSuffix)"
    then have same: "key = key' @ localMetadataSuffix" by (simp add: object_path_inject)
    have "CHR ''.'' \<notin> set e" "CHR ''/'' \<notin> set e" using e(2) scope_char_plain by (auto simp: list_all_iff)
    moreover have "\<exists>front. key = front @ CHR ''.'' # e"
      by (cases "Scope_Temporary s") (auto simp: p(1) key_parts_def e(1))
    ultimately have "path_Ext key = CHR ''.'' # e" using path_Ext_dot by blast
    moreover have "path_Ext key = localMetadataSuffix"
      using path_Ext_dot [of "''kirby-metadata''" key'] by (simp add: same localMetadataSuffix_def)
    ultimately have "e = ''kirby-metadata''" by (simp add: localMetadataSuffix_def)
    with e(2) show False by (simp add: scope_char_def is_lower_def is_digit_def between_def)
  qed
qed

text \<open>
  C8. The local storage never changes what it has stored, and stores only what was signed. For any request to the upload
  and object routes, with any failures of the file system: every file and directory that was there is there
  unchanged; and an object that is new at a key was put there by a \<^verbatim>\<open>PUT\<close> that carried a ticket signed by this
  server for that key, unexpired and within the size limit, its content is exactly the body of that request, and its
  length is exactly the declared one.
\<close>

theorem uploads_only_add:
  fixes r :: "asset_err + response"
  assumes uuids: "canonical_uuids (local_uuid C)" and run: "ServeHTTP C request V f = (r, f')"
  shows "(\<forall>p n. node_at f p = Some n \<longrightarrow> node_at f' p = Some n) \<and>
    (\<forall>key s content t. ParseObjectKey (local_uuid C) (local_lower C) key = Inr s \<longrightarrow> node_at f (object_path key) = None \<longrightarrow>
       node_at f' (object_path key) = Some (RegularFile content t) \<longrightarrow>
       Req_Method request = ''PUT'' \<and> content = Req_Body request \<and>
       (\<exists>claims. signed_ticket C (Req_Token request) (local_now V (os_tick f)) claims \<and> Upload_Key claims = key \<and>
          int (length content) = uint (Upload_Size claims)))"
proof -
  from run consider "handleUpload C request V f = (r, f')" | "handleObject C request V f = (r, f')" | "f' = f"
    by (auto simp: ServeHTTP_def file_simps split: if_splits)
  then show ?thesis
  proof cases
    case 1
    from handleUpload_cases [OF this] show ?thesis
    proof (elim disjE exE conjE)
      fix claims f1 y
      assume put: "Req_Method request = ''PUT''" and ver: "verifyToken C (Req_Token request) V f = (Inr claims, f1)"
        and wr: "writeUpload C claims request V f1 = (y, f')"
      note v = verifyToken_Inr [OF ver]
      have "extends (upload_node claims request) f f1" using v(2) by (simp add: extends_def node_at_def)
      from keepsD [OF writeUpload_keeps this wr] have ext: "extends (upload_node claims request) f f'" .
      have "content = Req_Body request \<and> Upload_Key claims = key \<and> int (length content) = uint (Upload_Size claims)"
        if key: "ParseObjectKey (local_uuid C) (local_lower C) key = Inr s" and "node_at f (object_path key) = None"
          "node_at f' (object_path key) = Some (RegularFile content t)" for key s content t
      proof -
        from that(2,3) ext have "upload_node claims request (object_path key) (RegularFile content t)" unfolding extends_def by fastforce
        with object_not_other [OF uuids key] show ?thesis by (auto simp: upload_node_def object_path_inject)
      qed
      with ext put v(1) show ?thesis unfolding extends_def by blast
    qed auto
  next
    case 2
    note ext = handleObject_quiet [OF this]
    have "node_at f (object_path key) \<noteq> None" if "node_at f' (object_path key) = Some (RegularFile content t)" for key content t
      using ext that unfolding extends_def by fastforce
    with ext show ?thesis unfolding extends_def by blast
  qed auto
qed

end
