(* ===== verification/Object_Text.thy ===== *)
theory Object_Text
  imports Object_Local
begin

text \<open>
  The texts of upload tickets and of the metadata beside an object are read back as they were written, and a normalised
  media type is stable under normalisation and parsing.
\<close>

section \<open>Texts of JSON values\<close>

text \<open>Printable ASCII without quote and backslash; three of these characters are written as escapes.\<close>

definition text_char :: "char \<Rightarrow> bool" where
  "text_char c \<longleftrightarrow> 32 \<le> byte c \<and> byte c < 127 \<and> byte c \<noteq> 34 \<and> byte c \<noteq> 92"

lemma byte_marks:
  "byte c = 34 \<longleftrightarrow> c = quote_char" "byte c = 92 \<longleftrightarrow> c = backslash" "byte c = 38 \<longleftrightarrow> c = CHR ''&''"
  "byte c = 60 \<longleftrightarrow> c = CHR ''<''" "byte c = 62 \<longleftrightarrow> c = CHR ''>''"
  using of_char_eq_iff [of c quote_char, where ?'a = int] of_char_eq_iff [of c backslash, where ?'a = int]
    of_char_eq_iff [of c "CHR ''&''", where ?'a = int] of_char_eq_iff [of c "CHR ''<''", where ?'a = int]
    of_char_eq_iff [of c "CHR ''>''", where ?'a = int]
  by (simp_all add: quote_char_def backslash_def)

lemma char_marks: "char_of (38 :: int) = CHR ''&''" "char_of (60 :: int) = CHR ''<''" "char_of (62 :: int) = CHR ''>''"
  by code_simp+

lemma string_unit_escape:
  assumes "text_char c"
  shows "string_unit (escape_rune (byte c, [c]) @ r) = Some ([c], r)" "escape_rune (byte c, [c]) \<noteq> []"
    "hd (escape_rune (byte c, [c])) \<noteq> quote_char"
proof -
  have c: "32 \<le> byte c" "byte c < 127" "byte c \<noteq> 34" "byte c \<noteq> 92" "c \<noteq> quote_char" "c \<noteq> backslash"
    using assms by (auto simp: text_char_def quote_char_def backslash_def)
  have cases: "escape_rune (byte c, [c]) = (if byte c \<in> {38, 60, 62} then hex4 (byte c) else [c])"
    using c by (auto simp: escape_rune_def RuneError_def)
  have esc: "string_unit (hex4 (byte c) @ r) = Some ([c], r)" if "byte c \<in> {38, 60, 62}"
  proof -
    from that consider "c = CHR ''&''" | "c = CHR ''<''" | "c = CHR ''>''" unfolding insert_iff byte_marks by blast
    then show ?thesis
      by cases (simp_all add: hex4_def Schema_Values.hex_digit_def string_unit_def unicode_escape_def getu4_def hex_val_def is_digit_def digit_val_def
        between_def encode_rune_def Let_def char_marks)
  qed
  show "string_unit (escape_rune (byte c, [c]) @ r) = Some ([c], r)"
    unfolding cases using esc c decode_rune_ascii [of c r] by (auto simp: string_unit_def RuneError_def simp del: decode_rune.simps)
  show "escape_rune (byte c, [c]) \<noteq> []" "hd (escape_rune (byte c, [c])) \<noteq> quote_char"
    unfolding cases using c by (auto simp: hex4_def backslash_def quote_char_def)
qed

lemma parse_string_marshal: "list_all text_char s \<Longrightarrow> parse_string (concat (map escape_rune (map (\<lambda>c. (byte c, [c])) s)) @ quote_char # r) = Some (s, r)"
proof (induction s)
  case Nil
  then show ?case by (simp add: parse_string.simps)
next
  case (Cons c s)
  let ?e = "escape_rune (byte c, [c])" and ?rest = "concat (map escape_rune (map (\<lambda>c. (byte c, [c])) s)) @ quote_char # r"
  have c: "text_char c" using Cons.prems by simp
  note u = string_unit_escape [OF c]
  obtain x xs where e: "?e = x # xs" "x \<noteq> quote_char" using u(2,3) by (cases ?e) auto
  have "parse_string (?e @ ?rest) = map_option (\<lambda>(bs, q). ([c] @ bs, q)) (parse_string ?rest)"
    using u(1) [of ?rest] e by (subst parse_string.simps) simp
  with Cons show ?case by simp
qed

text \<open>\<open>value_text v x\<close>: the text is read as the value whatever follows in an object.\<close>

definition value_text :: "string \<Rightarrow> json \<Rightarrow> bool" where
  "value_text v x \<longleftrightarrow> v \<noteq> [] \<and> \<not> json_space (hd v) \<and>
     (\<forall>d r. r = [] \<or> hd r = CHR '','' \<or> hd r = CHR ''}'' \<longrightarrow> parse_value d (v @ r) = Some (x, r))"

lemma value_text_string:
  assumes "list_all text_char s"
  shows "value_text (marshal_string s) (JString s)"
proof -
  have "list_all (\<lambda>c. byte c < 128) s" using assms by (auto simp: list_all_iff text_char_def)
  then have m: "marshal_string s = quote_char # concat (map escape_rune (map (\<lambda>c. (byte c, [c])) s)) @ [quote_char]"
    by (simp add: marshal_string_def runes_ascii_string)
  have "parse_value d (marshal_string s @ r) = Some (JString s, r)" for d r
    unfolding m using parse_string_marshal [OF assms, of r]
    by (subst parse_value.simps) (simp add: json_space_def, simp add: quote_char_def)
  then show ?thesis by (simp add: value_text_def m json_space_def quote_char_def)
qed

lemma decimal_head: "0 < n \<Longrightarrow> hd (decimal n) \<noteq> CHR ''0''"
proof (induction n rule: decimal.induct)
  case (1 n)
  show ?case
  proof (cases "n < 10")
    case True
    with 1 have "byte (digit_char n) \<noteq> 48" by (simp add: of_char_digit_char)
    then have "digit_char n \<noteq> CHR ''0''" by auto
    with True show ?thesis by (simp add: decimal.simps [of n])
  next
    case False
    with 1 show ?thesis by (simp add: decimal.simps [of n])
  qed
qed

lemma value_text_number:
  assumes "0 \<le> n"
  shows "value_text (FormatInt n) (JNumber (FormatInt n))"
proof -
  have form: "FormatInt n = decimal n" using assms by (simp add: FormatInt_def)
  obtain c cs where cs: "decimal n = c # cs" by (meson neq_Nil_conv decimal_nonempty)
  have digits: "list_all is_digit (decimal n)" using assms by (rule list_all_is_digit_decimal)
  then have c: "is_digit c" by (simp add: cs)
  have zero: "cs = []" if "c = CHR ''0''"
  proof -
    have "n = 0" using decimal_head [of n] assms cs that by (cases "n = 0") auto
    then show ?thesis using cs by (simp add: decimal.simps)
  qed
  have "parse_value d (decimal n @ r) = Some (JNumber (decimal n), r)" if r: "r = [] \<or> hd r = CHR '','' \<or> hd r = CHR ''}''" for d r
  proof -
    have stop: "takeWhile is_digit (decimal n @ r) = decimal n" "dropWhile is_digit (decimal n @ r) = r"
      using r digits by (cases r; auto simp: list_all_iff is_digit_def takeWhile_append2 dropWhile_append2)+
    have "parse_int_part (decimal n @ r) = Some (decimal n, r)"
      using c zero stop by (auto simp: parse_int_part_def cs)
    moreover have "parse_frac_part r = Some ([], r)" "parse_exp_part r = Some ([], r)"
      using r by (cases r; auto simp: parse_frac_part_def parse_exp_part_def)+
    moreover have "c \<noteq> CHR ''-''" using c by (auto simp: is_digit_def)
    ultimately have num: "parse_number (decimal n @ r) = Some (decimal n, r)" by (simp add: parse_number_def cs)
    have other: "\<not> json_space c" "c \<noteq> quote_char" "c \<noteq> CHR ''[''" "c \<noteq> CHR ''{''" "c \<noteq> CHR ''t''" "c \<noteq> CHR ''f''" "c \<noteq> CHR ''n''"
      using c by (auto simp: is_digit_def json_space_def quote_char_def)
    with num show ?thesis by (subst parse_value.simps) (auto simp: cs)
  qed
  moreover have "\<not> json_space c" using c by (auto simp: is_digit_def json_space_def)
  ultimately show ?thesis unfolding form value_text_def by (simp add: cs)
qed


section \<open>Objects\<close>

text \<open>The text of an object with the given names and value texts, in order.\<close>

definition object_text :: "(string \<times> string) list \<Rightarrow> string" where
  "object_text ms = join '','' (map (\<lambda>(k, v). marshal_string k @ '':'' @ v) ms)"

lemma skip_ws_plain: "s \<noteq> [] \<Longrightarrow> \<not> json_space (hd s) \<Longrightarrow> skip_ws s = s"
  by (cases s) (simp_all add: skip_ws_def)

lemma member_head:
  assumes "list_all text_char k"
  shows "\<exists>t. marshal_string k @ r = quote_char # t \<and> parse_string t = Some (k, r)"
proof -
  have "list_all (\<lambda>c. byte c < 128) k" using assms by (auto simp: list_all_iff text_char_def)
  then have "marshal_string k = quote_char # concat (map escape_rune (map (\<lambda>c. (byte c, [c])) k)) @ [quote_char]"
    by (simp add: marshal_string_def runes_ascii_string)
  with parse_string_marshal [OF assms, of r] show ?thesis by simp
qed

lemma colon_plain: "\<not> json_space (CHR '':'')" "\<not> json_space (CHR '','')" "\<not> json_space (CHR ''}'')" "\<not> json_space quote_char"
  by (simp_all add: json_space_def quote_char_def)

lemma parse_object_text:
  assumes "ms \<noteq> []" "\<forall>(k, v, x) \<in> set ms. list_all text_char k \<and> value_text v x"
  shows "parse_members d (object_text (map (\<lambda>(k, v, x). (k, v)) ms) @ CHR ''}'' # r) = Some (map (\<lambda>(k, v, x). (k, x)) ms, r)"
    "raw_members d (object_text (map (\<lambda>(k, v, x). (k, v)) ms) @ CHR ''}'' # r) = Some (map (\<lambda>(k, v, x). (k, v)) ms, r)"
proof -
  have "parse_members d (object_text (map (\<lambda>(k, v, x). (k, v)) ms) @ CHR ''}'' # r) = Some (map (\<lambda>(k, v, x). (k, x)) ms, r) \<and>
    raw_members d (object_text (map (\<lambda>(k, v, x). (k, v)) ms) @ CHR ''}'' # r) = Some (map (\<lambda>(k, v, x). (k, v)) ms, r)"
    using assms
  proof (induction ms)
    case (Cons m ms)
    obtain k v x where m: "m = (k, v, x)" by (cases m)
    from Cons.prems m have k: "list_all text_char k" and v: "value_text v x" by auto
    define after where "after = (if ms = [] then CHR ''}'' # r else CHR '','' # object_text (map (\<lambda>(k, v, x). (k, v)) ms) @ CHR ''}'' # r)"
    have whole: "object_text (map (\<lambda>(k, v, x). (k, v)) (m # ms)) @ CHR ''}'' # r = marshal_string k @ CHR '':'' # v @ after"
      by (cases ms) (simp_all add: object_text_def after_def m)
    obtain t where t: "marshal_string k @ CHR '':'' # v @ after = quote_char # t" "parse_string t = Some (k, CHR '':'' # v @ after)"
      using member_head [OF k] by blast
    have len: "length (v @ after) < length (quote_char # t)" using arg_cong [OF t(1), of length] by simp
    have pv: "parse_value d (v @ after) = Some (x, after)" using v by (auto simp: value_text_def after_def)
    have ws: "skip_ws (v @ after) = v @ after" using v by (intro skip_ws_plain) (auto simp: value_text_def)
    have ws2: "skip_ws after = after" by (rule skip_ws_plain) (auto simp: after_def colon_plain)
    have raw: "raw_value d (v @ after) = Some (v, after)" by (simp add: raw_value_def pv ws)
    have ws1: "skip_ws (quote_char # t) = quote_char # t" "skip_ws (CHR '':'' # v @ after) = CHR '':'' # v @ after"
      by (rule skip_ws_plain; simp add: colon_plain)+
    show ?case
    proof (cases "ms = []")
      case True
      show ?thesis unfolding whole t(1)
        by (subst parse_members.simps, subst raw_members.simps) (use True t(2) len pv ws1 ws2 raw in \<open>auto simp: after_def m\<close>)
    next
      case False
      with Cons have ih: "parse_members d (object_text (map (\<lambda>(k, v, x). (k, v)) ms) @ CHR ''}'' # r) = Some (map (\<lambda>(k, v, x). (k, x)) ms, r)"
        "raw_members d (object_text (map (\<lambda>(k, v, x). (k, v)) ms) @ CHR ''}'' # r) = Some (map (\<lambda>(k, v, x). (k, v)) ms, r)" by auto
      show ?thesis unfolding whole t(1)
        by (subst parse_members.simps, subst raw_members.simps) (use False t(2) len pv ws1 ws2 raw ih in \<open>auto simp: after_def m\<close>)
    qed
  qed simp
  then show "parse_members d (object_text (map (\<lambda>(k, v, x). (k, v)) ms) @ CHR ''}'' # r) = Some (map (\<lambda>(k, v, x). (k, x)) ms, r)"
    "raw_members d (object_text (map (\<lambda>(k, v, x). (k, v)) ms) @ CHR ''}'' # r) = Some (map (\<lambda>(k, v, x). (k, v)) ms, r)" by auto
qed

lemma object_members_text:
  assumes "ms \<noteq> []" "\<forall>(k, v, x) \<in> set ms. list_all text_char k \<and> value_text v x"
  shows "object_members (CHR ''{'' # object_text (map (\<lambda>(k, v, x). (k, v)) ms) @ ''}'') = Some (map (\<lambda>(k, v, x). (k, v)) ms)"
proof -
  let ?t = "object_text (map (\<lambda>(k, v, x). (k, v)) ms) @ ''}''"
  note p = parse_object_text [OF assms, of _ "[]"]
  obtain k v x rest where m: "ms = (k, v, x) # rest" using assms(1) by (cases ms) auto
  then have "list_all text_char k" using assms(2) by auto
  then obtain t where "?t = quote_char # t"
    using member_head [of k] by (cases rest) (fastforce simp: m object_text_def)+
  then have "strip_prefix ''}'' (skip_ws ?t) = None" by (simp add: skip_ws_plain colon_plain) (simp add: quote_char_def)
  then have "parse_value 0 (CHR ''{'' # ?t) = Some (JObject (rev (map (\<lambda>(k, v, x). (k, x)) ms)), [])"
    using p(1) [of "0 + 1"] by (subst parse_value.simps) (simp add: max_depth_def json_space_def, simp add: quote_char_def)
  moreover have "skip_ws (CHR ''{'' # ?t) = CHR ''{'' # ?t" by (rule skip_ws_plain) (simp_all add: json_space_def)
  ultimately show ?thesis using p(2) [of 1] assms(1) by (simp add: object_members_def skip_ws_def)
qed


section \<open>Tickets and metadata are read back\<close>

lemma text_letters [simp]:
  "text_char (CHR ''a'')" "text_char (CHR ''c'')" "text_char (CHR ''d'')" "text_char (CHR ''e'')" "text_char (CHR ''i'')" "text_char (CHR ''k'')" "text_char (CHR ''l'')" "text_char (CHR ''n'')" "text_char (CHR ''o'')" "text_char (CHR ''p'')" "text_char (CHR ''r'')" "text_char (CHR ''s'')" "text_char (CHR ''t'')" "text_char (CHR ''x'')" "text_char (CHR ''y'')" "text_char (CHR ''z'')" "text_char (CHR ''_'')"
  by (simp_all add: text_char_def)

lemma string_field_marshal: "list_all text_char s \<Longrightarrow> string_field (marshal_string s) = Some (Some s)"
  using value_text_string [of s] unfolding value_text_def string_field_def by (metis (no_types, lifting) append_Nil2 option.case(2) case_prod_conv json.case(4))

lemma parse_number_text: "0 \<le> n \<Longrightarrow> parse_value 0 (FormatInt n) = Some (JNumber (FormatInt n), [])"
  using value_text_number [of n] unfolding value_text_def by (metis append_Nil2)

lemma number_fields:
  "uint64_field (FormatInt (uint (w :: 64 word))) = Some (Some w)"
  "0 \<le> n \<Longrightarrow> n < 2 ^ 63 \<Longrightarrow> int64_field (FormatInt n) = Some (Some n)"
proof -
  have "uint w < 2 ^ 64" using uint_lt2p [of w] by simp
  then show "uint64_field (FormatInt (uint w)) = Some (Some w)"
    by (simp add: uint64_field_def parse_number_text) (simp add: FormatInt_def list_all_is_digit_decimal decimal_value_decimal)
  show "int64_field (FormatInt n) = Some (Some n)" if "0 \<le> n" "n < 2 ^ 63"
    using that by (simp add: int64_field_def parse_number_text ParseInt64_FormatInt)
qed

lemma names_apart:
  "same_name n n" "\<not> same_name ''key'' ''content_type''" "\<not> same_name ''key'' ''size''" "\<not> same_name ''key'' ''expires_at''"
  "\<not> same_name ''content_type'' ''size''" "\<not> same_name ''content_type'' ''expires_at''" "\<not> same_name ''size'' ''expires_at''"
  "\<not> same_name ''content_type'' ''declared_content_type''" "\<not> same_name ''content_type'' ''declared_size''" "\<not> same_name ''content_type'' ''created_at''"
  "\<not> same_name ''declared_content_type'' ''declared_size''" "\<not> same_name ''declared_content_type'' ''created_at''"
  "\<not> same_name ''declared_size'' ''created_at''"
  by (simp add: same_name_def) code_simp+

lemma decode_claims_json:
  assumes "list_all text_char (Upload_Key c)" "list_all text_char (Upload_ContentType c)" "0 \<le> Upload_ExpiresAt c" "Upload_ExpiresAt c < 2 ^ 63"
  shows "decode_claims (claims_json c) = Some c"
proof -
  let ?ms = "[(''key'', marshal_string (Upload_Key c), JString (Upload_Key c)),
    (''content_type'', marshal_string (Upload_ContentType c), JString (Upload_ContentType c)),
    (''size'', FormatInt (uint (Upload_Size c)), JNumber (FormatInt (uint (Upload_Size c)))),
    (''expires_at'', FormatInt (Upload_ExpiresAt c), JNumber (FormatInt (Upload_ExpiresAt c)))]"
  have "object_members (CHR ''{'' # object_text (map (\<lambda>(k, v, x). (k, v)) ?ms) @ ''}'') = Some (map (\<lambda>(k, v, x). (k, v)) ?ms)"
    using assms by (intro object_members_text) (auto intro: value_text_string value_text_number)
  then have "object_members (claims_json c) = Some (map (\<lambda>(k, v, x). (k, v)) ?ms)" by (simp add: claims_json_def object_text_def)
  with assms show ?thesis
    by (simp add: decode_claims_def claims_member_def names_apart set_field_def string_field_marshal number_fields)
qed

text \<open>What is documented of the text of an instant in JSON: a string of plain characters that is read back as the instant.\<close>

definition json_times :: "local_config \<Rightarrow> bool" where
  "json_times C \<longleftrightarrow> (\<forall>t raw. time_json C t = Some raw \<longrightarrow> time_of_json C raw = Some t \<and> (\<exists>s. raw = marshal_string s \<and> list_all text_char s))"

lemma decode_metadata_json:
  assumes "json_times C" "list_all text_char (Local_ContentType m)" "list_all text_char (Local_DeclaredContentType m)" "metadata_json C m = Some encoded"
  shows "decode_metadata C encoded = Some m"
proof -
  from assms(4) obtain raw where raw: "time_json C (Local_CreatedAt m) = Some raw" by (auto simp: metadata_json_def)
  with assms(1) obtain s where s: "time_of_json C raw = Some (Local_CreatedAt m)" "raw = marshal_string s" "list_all text_char s"
    unfolding json_times_def by blast
  let ?ms = "[(''content_type'', marshal_string (Local_ContentType m), JString (Local_ContentType m)),
    (''declared_content_type'', marshal_string (Local_DeclaredContentType m), JString (Local_DeclaredContentType m)),
    (''declared_size'', FormatInt (uint (Local_DeclaredSize m)), JNumber (FormatInt (uint (Local_DeclaredSize m)))),
    (''created_at'', raw, JString s)]"
  have "object_members (CHR ''{'' # object_text (map (\<lambda>(k, v, x). (k, v)) ?ms) @ ''}'') = Some (map (\<lambda>(k, v, x). (k, v)) ?ms)"
    using assms s by (intro object_members_text) (auto intro: value_text_string value_text_number)
  then have "object_members encoded = Some (map (\<lambda>(k, v, x). (k, v)) ?ms)"
    using assms(4) raw by (auto simp: metadata_json_def object_text_def)
  moreover have "raw \<noteq> ''null''" by (simp add: s(2) marshal_string_def quote_char_def)
  ultimately show ?thesis using assms s(1)
    by (simp add: decode_metadata_def metadata_member_def names_apart set_field_def string_field_marshal number_fields)
qed

section \<open>Media types\<close>

definition media_char :: "char \<Rightarrow> bool" where
  "media_char c \<longleftrightarrow> (isTokenChar c \<or> c = CHR ''/'') \<and> \<not> is_upper c"

lemma media_char_facts:
  assumes "media_char c"
  shows "text_char c" "33 \<le> byte c" "byte c < 128" "c \<noteq> CHR '';''" "byte c \<noteq> 10" "byte c \<noteq> 13"
  using assms by (auto simp: media_char_def text_char_def isTokenChar_def isTSpecial_def byte_marks) (simp_all add: quote_char_def backslash_def)


lemma lower_ascii_byte: "byte (lower_ascii c) = (if is_upper c then byte c + 32 else byte c)"
  by (simp add: lower_ascii_def is_upper_def between_def)

lemma upper_plain: "is_upper c \<Longrightarrow> \<not> isTSpecial c \<and> \<not> isTSpecial (lower_ascii c)"
proof -
  assume u: "is_upper c"
  have "\<not> isTSpecial d" if "65 \<le> byte d \<and> byte d \<le> 90 \<or> 97 \<le> byte d \<and> byte d \<le> 122" for d
    using that by (auto simp: isTSpecial_def quote_char_def backslash_def)
  with u show ?thesis by (simp add: lower_ascii_byte is_upper_def between_def)
qed

lemma isTokenChar_lower: "isTokenChar (lower_ascii c) \<longleftrightarrow> isTokenChar c"
  using upper_plain [of c] by (cases "is_upper c") (auto simp: isTokenChar_def lower_ascii_byte is_upper_def between_def, simp_all add: lower_ascii_def is_upper_def between_def)

lemma lower_ascii_facts: "\<not> is_upper (lower_ascii c)" "lower_ascii c = CHR ''/'' \<longleftrightarrow> c = CHR ''/''"
proof -
  show "\<not> is_upper (lower_ascii c)" by (auto simp: is_upper_def between_def lower_ascii_byte)
  show "lower_ascii c = CHR ''/'' \<longleftrightarrow> c = CHR ''/''"
    using arg_cong [of "lower_ascii c" "CHR ''/''" byte] lower_ascii_byte [of c] by (auto simp: lower_ascii_def is_upper_def between_def)
qed

lemma checkMediaType_chars: "checkMediaType m \<Longrightarrow> c \<in> set m \<Longrightarrow> isTokenChar c \<or> c = CHR ''/''"
proof -
  assume m: "checkMediaType m" and c: "c \<in> set m"
  have "dropWhile isTokenChar m = [] \<or> (\<exists>r. dropWhile isTokenChar m = CHR ''/'' # r \<and> dropWhile isTokenChar r = [])"
    using m by (auto simp: checkMediaType_def mime_consumeToken_def split: list.splits if_splits)
  moreover have "c \<in> set (takeWhile isTokenChar m) \<or> c \<in> set (dropWhile isTokenChar m)"
    using c by (metis Un_iff set_append takeWhile_dropWhile_id)
  ultimately show ?thesis by (auto simp: dropWhile_eq_Nil_conv dest: set_takeWhileD set_dropWhileD)
qed

lemma checkMediaType_lower: "checkMediaType (map lower_ascii m) = checkMediaType m"
proof -
  have token: "mime_consumeToken (map lower_ascii s) = (map lower_ascii (fst (mime_consumeToken s)), map lower_ascii (snd (mime_consumeToken s)))" for s
    by (simp add: mime_consumeToken_def takeWhile_map dropWhile_map comp_def isTokenChar_lower)
  obtain x r where x: "mime_consumeToken m = (x, r)" by fastforce
  show ?thesis
  proof (cases r)
    case Nil
    with x show ?thesis by (simp add: checkMediaType_def token)
  next
    case (Cons c s)
    obtain y q where "mime_consumeToken s = (y, q)" by fastforce
    with x Cons show ?thesis by (simp add: checkMediaType_def token lower_ascii_facts)
  qed
qed

lemma normalizeContentType_stable:
  assumes "normalizeContentType lower v = Inr t"
  shows "list_all media_char t" "normalizeContentType lower t = Inr t" "ParseMediaType lower t = Some t" "ToLower lower t = t"
proof -
  from assms obtain m where m: "ParseMediaType lower v = Some m" "CHR ''/'' \<in> set m" "t = ToLower lower m"
    by (auto simp: normalizeContentType_def split: if_splits option.splits)
  then have ok: "checkMediaType m" by (auto simp: ParseMediaType_def Let_def split: if_splits)
  have "list_all (\<lambda>c. byte c < 128) m"
    using checkMediaType_chars [OF ok] by (fastforce simp: list_all_iff isTokenChar_def)
  then have t: "t = map lower_ascii m" by (simp add: m(3) ToLower_def)
  show media: "list_all media_char t"
    using checkMediaType_chars [OF ok] by (auto simp: t list_all_iff media_char_def isTokenChar_lower lower_ascii_facts)
  then have chars: "c \<in> set t \<Longrightarrow> media_char c" for c by (simp add: list_all_iff)
  show low: "ToLower lower t = t"
    using media media_char_facts(3) by (intro ToLower_plain) (auto simp: list_all_iff media_char_def)
  have trim: "TrimSpace t = t" using chars media_char_facts(2,3) by (intro TrimSpace_plain) auto
  have base: "takeWhile (\<lambda>c. c \<noteq> CHR '';'') t = t" using chars media_char_facts(4) by (auto simp: takeWhile_eq_all_conv)
  have "media_params lower [] []" by (simp add: media_params.simps TrimLeftSpace_def)
  then show parse: "ParseMediaType lower t = Some t"
    using ok by (simp add: ParseMediaType_def base low trim) (simp add: t checkMediaType_lower)
  have slash: "CHR ''/'' \<in> set t" using m(2) lower_ascii_facts(2) [of "CHR ''/''"] by (auto simp: t image_iff intro!: bexI [of _ "CHR ''/''"])
  have "\<not> ContainsAny t line_breaks"
    using chars media_char_facts(5,6) by (fastforce simp: ContainsAny_def list_ex_iff line_breaks_def)
  moreover have "t \<noteq> []" using slash by auto
  ultimately show "normalizeContentType lower t = Inr t"
    using parse slash low trim by (simp add: normalizeContentType_def)
qed

end
