(* ===== verification/Object_Live.thy ===== *)
theory Object_Live
  imports Object_Props Object_Text
begin

text \<open>
  A ticket used as it was issued works: with a file system that does not fail, the upload is stored, and completing it
  returns the declared size and content type.
\<close>

section \<open>Successful runs\<close>

text \<open>\<open>reaches m V f x g\<close>: the operation returns \<open>x\<close> and leaves the tree \<open>g\<close>.\<close>

definition calm :: "local_env \<Rightarrow> bool" where
  "calm V \<longleftrightarrow> (\<forall>n. \<not> os_failure V n \<and> local_ctx V n = None)"

definition reaches :: "('e, 'a) F \<Rightarrow> local_env \<Rightarrow> local_files \<Rightarrow> 'a \<Rightarrow> (string list \<Rightarrow> node option) \<Rightarrow> bool" where
  "reaches m V f x g \<longleftrightarrow> (\<exists>f'. m V f = (Inr x, f') \<and> node_at f' = g)"

lemma reaches_bind:
  assumes "reaches m V f x g" "\<And>f'. node_at f' = g \<Longrightarrow> reaches (k x) V f' y h"
  shows "reaches (bindF m k) V f y h"
  using assms by (fastforce simp: reaches_def bindF_def)

lemma reaches_basic:
  assumes "node_at f = g"
  shows "reaches (returnF x) V f x g" "reaches (liftF (Inr x)) V f x g" "reaches nowF V f (local_now V (os_tick f)) g"
  using assms by (auto simp: reaches_def returnF_def liftF_def nowF_def)

definition ends :: "('e, 'a) F \<Rightarrow> local_env \<Rightarrow> local_files \<Rightarrow> ('a \<Rightarrow> (string list \<Rightarrow> node option) \<Rightarrow> bool) \<Rightarrow> bool" where
  "ends m V f Q \<longleftrightarrow> (\<exists>x g. reaches m V f x g \<and> Q x g)"

lemma ends_bind:
  assumes "reaches m V f x g" "\<And>f'. node_at f' = g \<Longrightarrow> ends (k x) V f' Q"
  shows "ends (bindF m k) V f Q"
  using assms by (fastforce simp: ends_def reaches_def bindF_def)

lemma ends_then:
  assumes "ends m V f P" "\<And>x f'. P x (node_at f') \<Longrightarrow> ends (k x) V f' Q"
  shows "ends (bindF m k) V f Q"
  using assms unfolding ends_def reaches_def bindF_def by fastforce

lemma ends_now: "node_at f = g \<Longrightarrow> (\<And>t f'. node_at f' = g \<Longrightarrow> ends (k t) V f' Q) \<Longrightarrow> ends (bindF nowF k) V f Q"
  by (rule ends_bind, rule reaches_basic)

lemma ends_return: "Q x (node_at f) \<Longrightarrow> ends (returnF x) V f Q"
  by (auto simp: ends_def reaches_def returnF_def)

lemma ends_attempt: "ends m V f (\<lambda>x. Q (Inr x)) \<Longrightarrow> ends (attemptF m) V f Q"
  by (auto simp: ends_def reaches_def attemptF_def)

lemma reaches_attempt: "reaches m V f x g \<Longrightarrow> reaches (attemptF m) V f (Inr x) g"
  by (auto simp: reaches_def attemptF_def)

lemma reaches_orF: "reaches m V f x g \<Longrightarrow> reaches (orF e m) V f x g"
  by (auto simp: reaches_def orF_def)

lemma reaches_readF: "reaches m V f x g \<Longrightarrow> reaches (readF m) V f x g"
  by (auto simp: reaches_def readF_def)

lemma calm_call: "calm V \<Longrightarrow> q f = (r, f1) \<Longrightarrow> os_call q V f = (r, f1\<lparr>os_tick := Suc (os_tick f)\<rparr>)"
  by (simp add: calm_def os_call_def)

lemma reaches_call: "calm V \<Longrightarrow> q f = (Inr x, f1) \<Longrightarrow> node_at f1 = g \<Longrightarrow> reaches (os_call q) V f x g"
  by (auto simp: reaches_def calm_call fun_eq_iff)

lemma node_maps: "node_at (put_node p n f) = (node_at f)(p \<mapsto> n)" "node_at (drop_node p f) = (node_at f)(p := None)"
  by (simp_all add: fun_eq_iff)

lemma reaches_calls:
  assumes "calm V" "node_at f = g"
  shows "reaches ctxErr V f () g" "reaches os_Quiet V f () g" "g p = Some n \<Longrightarrow> reaches (os_Lstat p) V f n g"
    "g p = None \<Longrightarrow> reaches (attemptF (os_Lstat p)) V f (Inl NotExist) g"
    "g [] = Some Directory \<Longrightarrow> reaches os_OpenRoot V f () g" "g p = Some (RegularFile c t) \<Longrightarrow> reaches (os_ReadFile p) V f c g"
    "g p = None \<Longrightarrow> g (butlast p) = Some Directory \<Longrightarrow> reaches (os_Mkdir p) V f () (g(p \<mapsto> Directory))"
    "g p = None \<Longrightarrow> g (butlast p) = Some Directory \<Longrightarrow> reaches (os_Create p c t) V f () (g(p \<mapsto> RegularFile c t))"
    "reaches (os_Write p c t) V f () (g(p \<mapsto> RegularFile c t))"
    "g p = Some n \<Longrightarrow> g q = None \<Longrightarrow> g (butlast q) = Some Directory \<Longrightarrow> reaches (os_Link p q) V f () (g(q \<mapsto> n))"
    "g p = Some (RegularFile c t) \<Longrightarrow> reaches (os_Remove p) V f () (g(p := None))"
proof -
  have new: "reaches (os_call (new_entry p n)) V f () (g(p \<mapsto> n))" if "g p = None" "g (butlast p) = Some Directory" for p n
    using assms that by (intro reaches_call) (auto simp: new_entry_def node_maps)
  then show "g p = None \<Longrightarrow> g (butlast p) = Some Directory \<Longrightarrow> reaches (os_Mkdir p) V f () (g(p \<mapsto> Directory))"
    "g p = None \<Longrightarrow> g (butlast p) = Some Directory \<Longrightarrow> reaches (os_Create p c t) V f () (g(p \<mapsto> RegularFile c t))"
    by (simp_all add: os_Mkdir_def os_Create_def)
  show "reaches ctxErr V f () g" "g p = None \<Longrightarrow> reaches (attemptF (os_Lstat p)) V f (Inl NotExist) g"
    using assms by (auto simp: reaches_def ctxErr_def calm_def fun_eq_iff os_Lstat_def attemptF_def os_call_def)
  show "reaches os_Quiet V f () g" "g p = Some n \<Longrightarrow> reaches (os_Lstat p) V f n g" "g [] = Some Directory \<Longrightarrow> reaches os_OpenRoot V f () g"
    "g p = Some (RegularFile c t) \<Longrightarrow> reaches (os_ReadFile p) V f c g"
    "reaches (os_Write p c t) V f () (g(p \<mapsto> RegularFile c t))"
    "g p = Some n \<Longrightarrow> g q = None \<Longrightarrow> g (butlast q) = Some Directory \<Longrightarrow> reaches (os_Link p q) V f () (g(q \<mapsto> n))"
    "g p = Some (RegularFile c t) \<Longrightarrow> reaches (os_Remove p) V f () (g(p := None))"
    unfolding os_Quiet_def os_Lstat_def os_OpenRoot_def os_ReadFile_def os_Write_def os_Link_def os_Remove_def
    using assms by (auto intro!: reaches_call simp: new_entry_def node_maps)
qed

section \<open>Directories\<close>

text \<open>The tree with the directories from \<open>current\<close> along the names.\<close>

fun with_dirs :: "string list \<Rightarrow> string list \<Rightarrow> (string list \<Rightarrow> node option) \<Rightarrow> string list \<Rightarrow> node option" where
  "with_dirs current [] g = g"
| "with_dirs current (part # parts) g = with_dirs (current @ [part]) parts (g(current @ [part] \<mapsto> Directory))"

lemma with_dirs_at:
  "with_dirs current parts g p = (if \<exists>i. 0 < i \<and> i \<le> length parts \<and> p = current @ take i parts then Some Directory else g p)"
proof (induction parts arbitrary: current g)
  case (Cons part parts)
  have split: "(\<exists>i. 0 < i \<and> i \<le> length (part # parts) \<and> p = current @ take i (part # parts)) \<longleftrightarrow>
    p = current @ [part] \<or> (\<exists>i. 0 < i \<and> i \<le> length parts \<and> p = (current @ [part]) @ take i parts)"
  proof
    assume "\<exists>i. 0 < i \<and> i \<le> length (part # parts) \<and> p = current @ take i (part # parts)"
    then obtain i where i: "0 < i" "i \<le> length (part # parts)" "p = current @ take i (part # parts)" by blast
    then obtain j where "i = Suc j" by (cases i) auto
    with i show "p = current @ [part] \<or> (\<exists>i. 0 < i \<and> i \<le> length parts \<and> p = (current @ [part]) @ take i parts)"
      by (cases "j = 0") auto
  next
    assume "p = current @ [part] \<or> (\<exists>i. 0 < i \<and> i \<le> length parts \<and> p = (current @ [part]) @ take i parts)"
    then show "\<exists>i. 0 < i \<and> i \<le> length (part # parts) \<and> p = current @ take i (part # parts)"
    proof (elim disjE exE conjE)
      fix i assume "0 < i" "i \<le> length parts" "p = (current @ [part]) @ take i parts"
      then show ?thesis by (intro exI [of _ "Suc i"]) simp
    qed (intro exI [of _ 1], simp)
  qed
  show ?case unfolding with_dirs.simps Cons.IH split by auto
qed auto

lemma reaches_directories:
  assumes "calm V" "node_at f = g" "g current = Some Directory"
    "\<And>i. 0 < i \<Longrightarrow> i \<le> length parts \<Longrightarrow> g (current @ take i parts) \<in> {None, Some Directory}"
  shows "reaches (createSafeDirectories current parts) V f () (with_dirs current parts g)"
  using assms(2-4)
proof (induction parts arbitrary: current f g)
  case Nil
  then show ?case by (simp add: reaches_basic)
next
  case (Cons part parts)
  let ?p = "current @ [part]" and ?g = "g(current @ [part] \<mapsto> Directory)"
  have rest: "reaches (createSafeDirectories ?p parts) V f1 () (with_dirs current (part # parts) g)" if "node_at f1 = ?g" for f1
  proof -
    have "?g (?p @ take i parts) \<in> {None, Some Directory}" if "0 < i" "i \<le> length parts" for i
      using Cons.prems(3) [of "Suc i"] that by auto
    then show ?thesis unfolding with_dirs.simps by (intro Cons.IH that) simp_all
  qed
  have one: "g ?p = None \<or> g ?p = Some Directory" using Cons.prems(3) [of 1] by simp
  have make: "reaches (attemptF (createLocalDirectory ?p)) V f1 (Inr Directory) ?g" if "node_at f1 = g" "g ?p = None" for f1
  proof -
    note mk = reaches_attempt [OF reaches_calls(7) [OF assms(1) that(1), of ?p]]
    show ?thesis unfolding createLocalDirectory_def
      by (intro reaches_attempt, rule reaches_bind [OF mk]) (use that Cons.prems(2) assms(1) in \<open>auto intro: reaches_calls(3)\<close>)
  qed
  define info where "info = (case g ?p of None \<Rightarrow> Inl NotExist | Some n \<Rightarrow> Inr n)"
  have stat: "reaches (attemptF (os_Lstat ?p)) V f info g"
    using Cons.prems(1) assms(1) by (auto simp: info_def intro: reaches_calls(4) reaches_attempt reaches_calls(3) split: option.split)
  have second: "reaches (if info = Inl NotExist then attemptF (createLocalDirectory ?p) else returnF info) V f1 (Inr Directory) ?g" if "node_at f1 = g" for f1
    using one make [OF that] that by (auto simp: info_def fun_upd_idem intro: reaches_basic)
  show ?case unfolding createSafeDirectories.simps Let_def
    by (rule reaches_bind [OF stat], rule reaches_bind [OF second], assumption) (simp add: rest del: with_dirs.simps)
qed


section \<open>Paths of a key\<close>

lemma split_on_append: "c \<notin> set t \<Longrightarrow> split_on c (s @ t) = butlast (split_on c s) @ [last (split_on c s) @ t]"
proof (induction s)
  case Nil
  then show ?case by (simp add: split_on_last)
next
  case (Cons a s)
  obtain x xs where "split_on c s = x # xs" using split_on_nonempty by (cases "split_on c s") auto
  with Cons show ?case by (cases "xs = []") auto
qed

definition sidecar_path :: "string \<Rightarrow> string list" where
  "sidecar_path key = object_path (key @ localMetadataSuffix)"

definition upload_temp :: "string \<Rightarrow> string \<Rightarrow> string list" where
  "upload_temp key name = butlast (object_path key) @ [''.kirby-upload-'' @ name]"

lemma sidecar_parts: "sidecar_path key = butlast (object_path key) @ [last (object_path key) @ localMetadataSuffix]"
  unfolding sidecar_path_def object_path_def by (rule split_on_append) (simp add: localMetadataSuffix_def)

lemma object_path_parts: "object_path key = butlast (object_path key) @ [last (object_path key)]"
  by (simp add: object_path_def split_on_nonempty)

lemma key_paths:
  assumes "canonical_uuids uuid" "ParseObjectKey uuid lower key = Inr s"
  shows "path_Clean key = key" "key \<notin> {''.'', ''..''}" "\<not> HasPrefix key ''../''" "\<not> HasPrefix key ''/''" "list_all text_char key"
    "object_path key \<noteq> sidecar_path key" "object_path key \<noteq> upload_temp key name" "sidecar_path key \<noteq> upload_temp key name"
proof -
  note p = ParseObjectKey_Inr [OF assms(2)]
  from p(7) obtain e where e: "Scope_Extension s = CHR ''.'' # e" "list_all scope_char e" by blast
  note b = built_key [OF assms(1) p(6) e, folded p(1)]
  show "path_Clean key = key" by (rule b(2))
  have "\<exists>c t. key = c # t \<and> c \<noteq> CHR ''.'' \<and> c \<noteq> CHR ''/''" by (cases "Scope_Temporary s") (auto simp: p(1) key_parts_def)
  then show "key \<notin> {''.'', ''..''}" "\<not> HasPrefix key ''../''" "\<not> HasPrefix key ''/''" by (auto simp: HasPrefix_def)
  show "list_all text_char key" using b(4) by (auto simp: list_all_iff plain_char_def text_char_def)
  show "object_path key \<noteq> sidecar_path key" by (subst object_path_parts) (simp add: sidecar_parts localMetadataSuffix_def)
  from object_not_other(1) [OF assms] show apart: "object_path key \<noteq> upload_temp key name" unfolding temp_path_def upload_temp_def by blast
  show "sidecar_path key \<noteq> upload_temp key name"
  proof
    assume "sidecar_path key = upload_temp key name"
    then have "last (object_path key) @ localMetadataSuffix = ''.kirby-upload-'' @ name" by (simp add: sidecar_parts upload_temp_def)
    moreover have "object_path key = key_parts s" using b(1) p(1) by (simp add: object_path_def)
    ultimately have eq: "(Scope_ObjectID s @ Scope_Extension s) @ localMetadataSuffix = ''.kirby-upload-'' @ name" by (simp add: key_parts_def)
    have u: "length (Scope_ObjectID s) = 36" "list_all (\<lambda>c. scope_char c \<or> c = CHR ''-'') (Scope_ObjectID s)"
      using assms(1) p(6) unfolding canonical_uuids_def by blast+
    then obtain c rest where id: "Scope_ObjectID s = c # rest" by (cases "Scope_ObjectID s") auto
    with u(2) have "c \<noteq> CHR ''.''" using scope_char_plain [of c] by auto
    with eq id show False by simp
  qed
qed

definition dirs_to :: "string \<Rightarrow> (string list \<Rightarrow> node option) \<Rightarrow> string list \<Rightarrow> node option" where
  "dirs_to key g = with_dirs [] (butlast (object_path key)) g"

lemma dirs_to_at:
  "length (butlast (object_path key)) < length p \<Longrightarrow> dirs_to key g p = g p"
  "g [] = Some Directory \<Longrightarrow> i \<le> length (butlast (object_path key)) \<Longrightarrow> dirs_to key g (take i (butlast (object_path key))) = Some Directory"
  by (auto simp: dirs_to_def with_dirs_at)

lemma reaches_create:
  assumes "canonical_uuids (local_uuid C)" "ParseObjectKey (local_uuid C) (local_lower C) key = Inr s" "calm V" "node_at f = g"
    "g [] = Some Directory" "\<And>i. i < length (object_path key) \<Longrightarrow> g (take i (object_path key)) \<in> {None, Some Directory}"
  shows "reaches (safePath C key True) V f (object_path key) (dirs_to key g)"
proof -
  have "reaches (createSafeDirectories [] (butlast (object_path key))) V f1 () (dirs_to key g)" if "node_at f1 = g" for f1
    unfolding dirs_to_def using assms(5,6) that
    by (intro reaches_directories assms(3)) (auto simp: take_butlast)
  note dirs = this
  show ?thesis unfolding safePath_def Let_def assms(2) key_paths [OF assms(1,2)]
    using key_paths(2-4) [OF assms(1,2)] assms(4)
    by (intro reaches_bind [OF reaches_basic(2) [OF assms(4)]])
      (auto simp: object_path_def [symmetric] intro!: reaches_bind [OF dirs] reaches_basic)
qed

lemma reaches_reject:
  assumes "calm V" "node_at f = g" "\<And>i. 0 < i \<Longrightarrow> i \<le> length parts \<Longrightarrow> g (current @ take i parts) = Some Directory"
  shows "reaches (rejectSymlinkPath current parts) V f () g"
  using assms(2,3)
proof (induction parts arbitrary: current f)
  case (Cons part parts)
  have one: "g (current @ [part]) = Some Directory" using Cons.prems(2) [of 1] by simp
  note stat = reaches_attempt [OF reaches_calls(3) [OF assms(1) Cons.prems(1) one]]
  have rest: "g ((current @ [part]) @ take i parts) = Some Directory" if "0 < i" "i \<le> length parts" for i
    using Cons.prems(2) [of "Suc i"] that by simp
  show ?case unfolding rejectSymlinkPath.simps Let_def
    by (rule reaches_bind [OF stat]) (simp, rule Cons.IH, assumption, rule rest)
qed (simp add: reaches_basic)

lemma reaches_open:
  assumes "canonical_uuids (local_uuid C)" "ParseObjectKey (local_uuid C) (local_lower C) key = Inr s" "calm V" "node_at f = g"
    "\<And>i. i < length (object_path key) \<Longrightarrow> g (take i (object_path key)) = Some Directory"
  shows "reaches (safePath C key False) V f (object_path key) g"
proof -
  have "reaches (rejectSymlinkPath [] (butlast (object_path key))) V f1 () g" if "node_at f1 = g" for f1
    using assms(5) that by (intro reaches_reject assms(3)) (auto simp: take_butlast)
  note dirs = this
  show ?thesis unfolding safePath_def Let_def assms(2) key_paths [OF assms(1,2)]
    using key_paths(2-4) [OF assms(1,2)] assms(4)
    by (intro reaches_bind [OF reaches_basic(2) [OF assms(4)]])
      (auto simp: object_path_def [symmetric] intro!: reaches_bind [OF dirs] reaches_basic)
qed


section \<open>The upload\<close>

lemma size_words:
  assumes "w \<le> MaxUploadSize" "int (length body) = uint (w :: 64 word)"
  shows "Int64FromUint64 w = Inr w" "sint w = uint w" "uint w < 2 ^ 32" "Uint64FromInt64 (word_of_int (int (length body))) = Inr w"
proof -
  from assms(1) have "uint w \<le> uint MaxUploadSize" by (simp add: word_le_def)
  then show small: "uint w < 2 ^ 32" by (simp add: MaxUploadSize_def)
  have "- (2 ^ 63) \<le> uint w" by (rule order_trans [OF _ uint_ge_0]) simp
  with small have "signed_take_bit 63 (uint w) = uint w" by (intro signed_take_bit_int_eq_self) simp_all
  then show same: "sint w = uint w" by (simp add: sint_uint)
  then show "Int64FromUint64 w = Inr w" by (simp add: Int64FromUint64_exact)
  show "Uint64FromInt64 (word_of_int (int (length body))) = Inr w" unfolding assms(2) by (simp add: Uint64FromInt64_exact same)
qed

lemma ends_copy:
  assumes "calm V" "node_at f = g" "Upload_Size claims \<le> MaxUploadSize" "int (length (Req_Body request)) = uint (Upload_Size claims)"
    "\<not> Req_BodyFails request"
  shows "ends (copyUpload claims request T) V f (\<lambda>_ h. \<exists>t. h = g(T \<mapsto> RegularFile (Req_Body request) t))"
proof -
  note w = size_words [OF assms(3,4)]
  have body: "take (nat (uint (Upload_Size claims) + 1)) (Req_Body request) = Req_Body request" using assms(4) by simp
  have max: "uint (Upload_Size claims) \<noteq> MaxInt64" using w(3) by (simp add: MaxInt64_def)
  show ?thesis
    unfolding copyUpload_def w(1) sum.case w(2) body w(4) Let_def if_not_P [OF max]
    by (rule ends_bind [OF reaches_orF [OF reaches_calls(2) [OF assms(1,2)]]], rule ends_now, assumption,
        rule ends_bind [OF reaches_attempt [OF reaches_calls(9) [OF assms(1)]]], assumption,
        rule ends_bind [OF reaches_attempt [OF reaches_calls(2) [OF assms(1)]]], assumption)
      (use assms(5) in \<open>auto intro!: ends_return\<close>)
qed


definition declared :: "localUploadClaims \<Rightarrow> int \<Rightarrow> localMetadata" where
  "declared claims at = \<lparr>Local_ContentType = Upload_ContentType claims, Local_DeclaredContentType = Upload_ContentType claims,
     Local_DeclaredSize = Upload_Size claims, Local_CreatedAt = at\<rparr>"

lemma ends_exclusive:
  assumes "calm V" "node_at f = g" "g p = None" "g (butlast p) = Some Directory"
  shows "ends (writeExclusiveFile p contents) V f (\<lambda>_ h. \<exists>t. h = g(p \<mapsto> RegularFile contents t))"
  unfolding writeExclusiveFile_def
  by (rule ends_bind [OF reaches_calls(2) [OF assms(1,2)]], rule ends_now, assumption,
      rule ends_bind [OF reaches_calls(8) [OF assms(1) _ assms(3,4)]], assumption,
      rule ends_bind [OF reaches_attempt [OF reaches_calls(9) [OF assms(1)]]], assumption,
      rule ends_bind [OF reaches_attempt [OF reaches_calls(2) [OF assms(1)]]], assumption)
    (auto intro!: ends_return)

lemma ends_publish:
  assumes "calm V" "node_at f = g" "json_times C" "\<And>n. time_json C (local_now V n) \<noteq> None" "list_all text_char (Upload_ContentType claims)"
    "g (sidecar_path (Upload_Key claims)) = None" "g (butlast (sidecar_path (Upload_Key claims))) = Some Directory"
  shows "ends (publishUpload C claims P) V f (\<lambda>_ h. \<exists>encoded at t. decode_metadata C encoded = Some (declared claims at) \<and>
    h = g(sidecar_path (Upload_Key claims) \<mapsto> RegularFile encoded t))"
proof -
  let ?at = "local_now V (os_tick f)"
  obtain encoded where e: "metadata_json C (declared claims ?at) = Some encoded"
    using assms(4) [of "os_tick f"] by (auto simp: metadata_json_def declared_def)
  have d: "decode_metadata C encoded = Some (declared claims ?at)"
    by (rule decode_metadata_json [OF assms(3) _ _ e]) (simp_all add: declared_def assms(5))
  have side: "ends (attemptF (writeExclusiveFile (sidecar_path (Upload_Key claims)) encoded)) V f1
    (\<lambda>r h. \<not> isl r \<and> (\<exists>t. h = g(sidecar_path (Upload_Key claims) \<mapsto> RegularFile encoded t)))" if "node_at f1 = g" for f1
    by (rule ends_attempt) (use ends_exclusive [OF assms(1) that assms(6,7)] in simp)
  show ?thesis unfolding publishUpload_def sidecar_path_def [symmetric] declared_def [symmetric]
    by (rule ends_bind [OF reaches_basic(3) [OF assms(2)]], unfold e option.case, rule ends_then [OF side], assumption)
      (use d in \<open>auto intro!: ends_return\<close>)
qed

definition stored :: "local_config \<Rightarrow> localUploadClaims \<Rightarrow> string \<Rightarrow> (string list \<Rightarrow> node option) \<Rightarrow> (string list \<Rightarrow> node option) \<Rightarrow> bool" where
  "stored C claims body g h \<longleftrightarrow> (\<exists>encoded at t t'. decode_metadata C encoded = Some (declared claims at) \<and>
     h = g(object_path (Upload_Key claims) \<mapsto> RegularFile body t, sidecar_path (Upload_Key claims) \<mapsto> RegularFile encoded t'))"

text \<open>A temporary file \<open>T\<close> in a directory that exists, with the names of the object and of its metadata free.\<close>

definition room :: "localUploadClaims \<Rightarrow> string list \<Rightarrow> (string list \<Rightarrow> node option) \<Rightarrow> bool" where
  "room claims T g \<longleftrightarrow> (let P = object_path (Upload_Key claims); S = sidecar_path (Upload_Key claims) in
     g P = None \<and> g S = None \<and> g T = None \<and> P \<noteq> S \<and> P \<noteq> T \<and> S \<noteq> T \<and> butlast S = butlast P \<and> butlast T = butlast P \<and>
     g (butlast P) = Some Directory \<and> butlast P \<notin> {P, S, T})"

lemma ends_body:
  assumes "calm V" "room claims T g" "json_times C" "\<And>n. time_json C (local_now V n) \<noteq> None" "list_all text_char (Upload_ContentType claims)"
    "Upload_Size claims \<le> MaxUploadSize" "int (length (Req_Body request)) = uint (Upload_Size claims)" "\<not> Req_BodyFails request"
    "node_at f = g(T \<mapsto> RegularFile '''' 0)"
  shows "ends (bindF (copyUpload claims request T) (\<lambda>_.
      bindF (orF (storage_unavailable ''publish local upload'') (os_Link T (object_path (Upload_Key claims)))) (\<lambda>_.
      publishUpload C claims (object_path (Upload_Key claims))))) V f
    (\<lambda>_ h. \<exists>t. stored C claims (Req_Body request) (g(T \<mapsto> RegularFile (Req_Body request) t)) h)"
proof (rule ends_then [OF ends_copy [OF assms(1,9,6,7,8)]], elim exE)
  let ?P = "object_path (Upload_Key claims)"
  fix f1 t
  let ?n = "RegularFile (Req_Body request) t"
  assume "node_at f1 = g(T \<mapsto> RegularFile '''' 0, T \<mapsto> ?n)"
  then have f1: "node_at f1 = g(T \<mapsto> ?n)" by simp
  have link: "reaches (os_Link T ?P) V f1 () (g(T \<mapsto> ?n, ?P \<mapsto> ?n))"
    by (rule reaches_calls(10) [OF assms(1) f1]) (use assms(2) in \<open>auto simp: room_def Let_def\<close>)
  have publish: "ends (publishUpload C claims ?P) V f2 (\<lambda>_ h. \<exists>t. stored C claims (Req_Body request) (g(T \<mapsto> RegularFile (Req_Body request) t)) h)"
    if f2: "node_at f2 = g(T \<mapsto> ?n, ?P \<mapsto> ?n)" for f2
  proof -
    have "ends (publishUpload C claims ?P) V f2 (\<lambda>_ h. \<exists>encoded at t'. decode_metadata C encoded = Some (declared claims at) \<and>
      h = (g(T \<mapsto> ?n, ?P \<mapsto> ?n))(sidecar_path (Upload_Key claims) \<mapsto> RegularFile encoded t'))"
      by (rule ends_publish [OF assms(1) f2 assms(3-5)]) (use assms(2) in \<open>auto simp: room_def Let_def\<close>)
    then show ?thesis unfolding ends_def stored_def by blast
  qed
  show "ends (bindF (orF (storage_unavailable ''publish local upload'') (os_Link T ?P)) (\<lambda>_. publishUpload C claims ?P)) V f1
    (\<lambda>_ h. \<exists>t. stored C claims (Req_Body request) (g(T \<mapsto> RegularFile (Req_Body request) t)) h)"
    by (rule ends_bind [OF reaches_orF [OF link]]) (rule publish)
qed


lemma ends_temporary:
  assumes "calm V" "room claims T g" "json_times C" "\<And>n. time_json C (local_now V n) \<noteq> None" "list_all text_char (Upload_ContentType claims)"
    "Upload_Size claims \<le> MaxUploadSize" "int (length (Req_Body request)) = uint (Upload_Size claims)" "\<not> Req_BodyFails request"
    "node_at f = g"
  shows "ends (bindF (orF (storage_unavailable ''create local upload'') (os_Create T '''' 0)) (\<lambda>_.
      bindF (attemptF (bindF (copyUpload claims request T) (\<lambda>_.
        bindF (orF (storage_unavailable ''publish local upload'') (os_Link T (object_path (Upload_Key claims)))) (\<lambda>_.
        publishUpload C claims (object_path (Upload_Key claims)))))) (\<lambda>r.
      bindF (attemptF (os_Remove T)) (\<lambda>_. liftF r)))) V f (\<lambda>_. stored C claims (Req_Body request) g)"
proof -
  let ?P = "object_path (Upload_Key claims)" and ?S = "sidecar_path (Upload_Key claims)"
  let ?cleanup = "\<lambda>r. bindF (attemptF (os_Remove T)) (\<lambda>_. liftF r)"
  have create: "reaches (os_Create T '''' 0) V f () (g(T \<mapsto> RegularFile '''' 0))"
    by (rule reaches_calls(8) [OF assms(1,9)]) (use assms(2) in \<open>auto simp: room_def Let_def\<close>)
  have cleanup: "ends (?cleanup (Inr u)) V f1 (\<lambda>_. stored C claims (Req_Body request) g)"
    if stored: "stored C claims (Req_Body request) (g(T \<mapsto> RegularFile (Req_Body request) t)) (node_at f1)" for f1 t u
  proof -
    from stored obtain encoded at t1 t2 where e: "decode_metadata C encoded = Some (declared claims at)"
      "node_at f1 = g(T \<mapsto> RegularFile (Req_Body request) t, ?P \<mapsto> RegularFile (Req_Body request) t1, ?S \<mapsto> RegularFile encoded t2)"
      unfolding stored_def by blast
    have gone: "(g(T \<mapsto> RegularFile (Req_Body request) t, ?P \<mapsto> RegularFile (Req_Body request) t1, ?S \<mapsto> RegularFile encoded t2))(T := None)
      = g(?P \<mapsto> RegularFile (Req_Body request) t1, ?S \<mapsto> RegularFile encoded t2)"
      using assms(2) by (auto simp: room_def Let_def fun_eq_iff)
    have "reaches (os_Remove T) V f1 () (g(?P \<mapsto> RegularFile (Req_Body request) t1, ?S \<mapsto> RegularFile encoded t2))"
      unfolding gone [symmetric] by (rule reaches_calls(11) [OF assms(1) e(2)]) (use assms(2) in \<open>auto simp: room_def Let_def\<close>)
    from reaches_attempt [OF this] show ?thesis
      by (rule ends_bind) (use e(1) in \<open>auto simp: ends_def stored_def intro!: exI reaches_basic\<close>)
  qed
  have body: "ends (attemptF (bindF (copyUpload claims request T) (\<lambda>_.
        bindF (orF (storage_unavailable ''publish local upload'') (os_Link T ?P)) (\<lambda>_. publishUpload C claims ?P)))) V f1
      (\<lambda>r h. (\<exists>u. r = Inr u) \<and> (\<exists>t. stored C claims (Req_Body request) (g(T \<mapsto> RegularFile (Req_Body request) t)) h))"
    if "node_at f1 = g(T \<mapsto> RegularFile '''' 0)" for f1
    by (rule ends_attempt) (use ends_body [OF assms(1-8) that] in simp)
  show ?thesis
    by (rule ends_bind [OF reaches_orF [OF create]], rule ends_then [OF body], assumption) (auto intro: cleanup)
qed

text \<open>What an upload needs of the tree: a root, directories or nothing on the way, and free names.\<close>

definition upload_room :: "local_env \<Rightarrow> string \<Rightarrow> (string list \<Rightarrow> node option) \<Rightarrow> bool" where
  "upload_room V key g \<longleftrightarrow> g [] = Some Directory \<and>
     (\<forall>i < length (object_path key). g (take i (object_path key)) \<in> {None, Some Directory}) \<and>
     g (object_path key) = None \<and> g (sidecar_path key) = None \<and> (\<forall>n. g (upload_temp key (temp_name V n)) = None)"

lemma ends_writeUpload:
  assumes "canonical_uuids (local_uuid C)" "ParseObjectKey (local_uuid C) (local_lower C) (Upload_Key claims) = Inr s" "calm V" "node_at f = g"
    "upload_room V (Upload_Key claims) g" "json_times C" "\<And>n. time_json C (local_now V n) \<noteq> None" "list_all text_char (Upload_ContentType claims)"
    "Upload_Size claims \<le> MaxUploadSize" "int (length (Req_Body request)) = uint (Upload_Size claims)" "\<not> Req_BodyFails request"
  shows "ends (writeUpload C claims request) V f (\<lambda>_. stored C claims (Req_Body request) (dirs_to (Upload_Key claims) g))"
proof -
  let ?P = "object_path (Upload_Key claims)" and ?S = "sidecar_path (Upload_Key claims)" and ?g = "dirs_to (Upload_Key claims) g"
  have long: "length (butlast ?P) < length ?P" "length (butlast ?P) < length ?S" "length (butlast ?P) < length (upload_temp (Upload_Key claims) n)" for n
    by (simp_all add: object_path_def split_on_nonempty sidecar_parts upload_temp_def)
  have root: "g [] = Some Directory" and way: "\<And>i. i < length ?P \<Longrightarrow> g (take i ?P) \<in> {None, Some Directory}"
    using assms(5) by (auto simp: upload_room_def)
  have free: "?g ?P = None" "?g ?S = None" "?g (upload_temp (Upload_Key claims) (temp_name V n)) = None" for n
    using dirs_to_at(1) long assms(5) by (simp_all add: upload_room_def)
  have dir: "?g (butlast ?P) = Some Directory" using dirs_to_at(2) [of g "length (butlast ?P)" "Upload_Key claims"] root by simp
  have "butlast ?P \<notin> {?P, ?S, upload_temp (Upload_Key claims) n}" for n using long(1,2) long(3) [of n] by (metis empty_iff insert_iff less_irrefl)
  with free dir key_paths(6-8) [OF assms(1,2)] have room: "room claims (upload_temp (Upload_Key claims) (temp_name V n)) ?g" for n
    by (simp add: room_def Let_def sidecar_parts upload_temp_def)
  have name: "reaches (\<lambda>V f. (Inr (butlast ?P @ [''.kirby-upload-'' @ temp_name V (os_tick f)]), f)) V f1
      (upload_temp (Upload_Key claims) (temp_name V (os_tick f1))) ?g" if "node_at f1 = ?g" for f1
    using that by (simp add: reaches_def upload_temp_def)
  show ?thesis unfolding writeUpload_def
    by (rule ends_bind [OF reaches_calls(1) [OF assms(3,4)]], rule ends_bind [OF reaches_create [where g = g, OF assms(1-3) _ root way]], assumption, assumption,
        rule ends_bind [OF reaches_calls(4) [where g = ?g, OF assms(3) _ free(1)]], assumption)
      (unfold sum.case, simp only: simp_thms if_False, rule ends_bind [OF name], assumption, rule ends_temporary [OF assms(3) room assms(6-11)])
qed


section \<open>Completion\<close>

definition as_declared :: "localUploadClaims \<Rightarrow> Metadata \<Rightarrow> bool" where
  "as_declared claims m \<longleftrightarrow> Metadata_Key m = Upload_Key claims \<and> Metadata_URL m = LocalObjectPathPrefix @ Upload_Key claims \<and>
     Metadata_Size m = Upload_Size claims \<and> Metadata_DeclaredSize m = Upload_Size claims \<and>
     Metadata_ContentType m = Upload_ContentType claims \<and> Metadata_DeclaredContentType m = Upload_ContentType claims"

lemma stored_tree:
  assumes "canonical_uuids (local_uuid C)" "ParseObjectKey (local_uuid C) (local_lower C) (Upload_Key claims) = Inr s"
    "stored C claims body (dirs_to (Upload_Key claims) g) h" "g [] = Some Directory"
  shows "\<exists>encoded at t t'. decode_metadata C encoded = Some (declared claims at) \<and>
      h (object_path (Upload_Key claims)) = Some (RegularFile body t) \<and> h (sidecar_path (Upload_Key claims)) = Some (RegularFile encoded t')"
    "\<And>i. i < length (object_path (Upload_Key claims)) \<Longrightarrow> h (take i (object_path (Upload_Key claims))) = Some Directory"
proof -
  let ?P = "object_path (Upload_Key claims)" and ?S = "sidecar_path (Upload_Key claims)"
  from assms(3) obtain encoded at t t' where e: "decode_metadata C encoded = Some (declared claims at)"
    "h = (dirs_to (Upload_Key claims) g)(?P \<mapsto> RegularFile body t, ?S \<mapsto> RegularFile encoded t')" unfolding stored_def by blast
  then show "\<exists>encoded at t t'. decode_metadata C encoded = Some (declared claims at) \<and>
      h ?P = Some (RegularFile body t) \<and> h ?S = Some (RegularFile encoded t')"
    using key_paths(6) [OF assms(1,2)] by auto
  show "h (take i ?P) = Some Directory" if "i < length ?P" for i
  proof -
    have len: "length ?P = Suc (length (butlast ?P))" "length ?S = length ?P" by (simp_all add: object_path_def split_on_nonempty sidecar_parts)
    have "take i ?P \<noteq> ?P" "take i ?P \<noteq> ?S" using that len by (metis length_take min.absorb4 less_irrefl)+
    moreover have "take i ?P = take i (butlast ?P)" using that by (simp add: take_butlast)
    moreover have "i \<le> length (butlast ?P)" using that len(1) by linarith
    ultimately show ?thesis using dirs_to_at(2) [of g i "Upload_Key claims"] assms(4) by (simp add: e(2))
  qed
qed

lemma ends_complete:
  assumes "canonical_uuids (local_uuid C)" "ParseObjectKey (local_uuid C) (local_lower C) (Upload_Key claims) = Inr s" "calm V"
    "stored C claims body (dirs_to (Upload_Key claims) g) (node_at f)" "g [] = Some Directory"
    "Upload_Size claims \<le> MaxUploadSize" "Upload_Size claims \<noteq> 0" "int (length body) = uint (Upload_Size claims)"
    "normalizeContentType (local_lower C) (Upload_ContentType claims) = Inr (Upload_ContentType claims)"
  shows "ends (local_CompleteUpload C (Upload_Key claims)) V f (\<lambda>m h. as_declared claims m \<and> h = node_at f)"
proof -
  let ?P = "object_path (Upload_Key claims)" and ?S = "sidecar_path (Upload_Key claims)" and ?h = "node_at f"
  note tree = stored_tree [OF assms(1,2,4,5)]
  from tree(1) obtain encoded at t t' where e: "decode_metadata C encoded = Some (declared claims at)"
    and P: "?h ?P = Some (RegularFile body t)" and S: "?h ?S = Some (RegularFile encoded t')" by blast
  note dirs = tree(2)
  have root: "?h [] = Some Directory" using dirs [of 0] by (simp add: object_path_def split_on_nonempty)
  note w = size_words [OF assms(6,8)]
  let ?m = "\<lparr>Metadata_Key = Upload_Key claims, Metadata_URL = LocalObjectPathPrefix @ Upload_Key claims, Metadata_ETag = '''',
    Metadata_ContentType = Upload_ContentType claims, Metadata_Size = Upload_Size claims, Metadata_DeclaredContentType = Upload_ContentType claims,
    Metadata_DeclaredSize = Upload_Size claims, Metadata_LastModified = t\<rparr>"
  have read: "reaches (local_ReadMetadata C (Upload_Key claims)) V f ?m ?h"
    unfolding local_ReadMetadata_def sidecar_path_def [symmetric]
    by (rule reaches_bind [OF reaches_calls(1) [OF assms(3) refl]], rule reaches_bind [OF reaches_open [where g = ?h, OF assms(1-3) _ dirs]], assumption, assumption,
        rule reaches_bind [OF reaches_readF [OF reaches_calls(5) [where g = ?h, OF assms(3) _ root]]], assumption,
        rule reaches_bind [OF reaches_readF [OF reaches_calls(3) [where g = ?h, OF assms(3) _ P]]], assumption, unfold node.case,
        rule reaches_bind [OF reaches_readF [OF reaches_calls(3) [where g = ?h, OF assms(3) _ S]]], assumption, unfold node.case,
        rule reaches_bind [OF reaches_readF [OF reaches_calls(6) [where g = ?h, OF assms(3) _ S]]], assumption)
      (unfold e w(4) option.case sum.case declared_def, simp add: reaches_basic)
  have valid: "validateCompletedMetadata (local_lower C) ?m = Inr ?m"
    using assms(7,9) by (simp add: validateCompletedMetadata_def)
  show ?thesis unfolding local_CompleteUpload_def
    by (rule ends_bind [OF read]) (auto simp: valid ends_def as_declared_def intro!: exI reaches_basic)
qed

section \<open>Tickets\<close>

lemma reaches_verify:
  assumes "canonical_uuids (local_uuid C)" "ParseObjectKey (local_uuid C) (local_lower C) (Upload_Key claims) = Inr s"
    "\<And>key m. local_hmac C key m \<noteq> ''''" "Upload_Size claims \<noteq> 0" "Upload_Size claims \<le> MaxUploadSize"
    "normalizeContentType (local_lower C) (Upload_ContentType claims) = Inr (Upload_ContentType claims)"
    "0 \<le> Upload_ExpiresAt claims" "Upload_ExpiresAt claims < 2 ^ 63" "local_now V (os_tick f) < Upload_ExpiresAt claims * second_ns" "node_at f = g"
  shows "reaches (verifyToken C (signClaims C claims)) V f claims g"
proof -
  let ?e = "EncodeToString (claims_json claims)"
  let ?s = "EncodeToString (local_hmac C (signingKey C) ?e)"
  have dot: "CHR ''.'' \<notin> set (EncodeToString x)" for x using b64_text_chars [OF Encode_b64_text] by force
  have split: "split_on (CHR ''.'') (signClaims C claims) = [?e, ?s]"
    using split_on_prefix [OF dot] split_on_last [OF dot] by (simp add: signClaims_def Let_def)
  have nonempty: "EncodeToString x \<noteq> ''''" if "x \<noteq> ''''" for x
  proof
    assume "EncodeToString x = ''''"
    then have "DecodeString [] = Some x" using Decode_Encode [of x] by simp
    moreover have "DecodeString [] = Some []" using Decode_Encode [of "[]"] by simp
    ultimately show False using that by simp
  qed
  have texts: "list_all text_char (Upload_Key claims)" "list_all text_char (Upload_ContentType claims)"
    using key_paths(5) [OF assms(1,2)] normalizeContentType_stable(1) [OF assms(6)] media_char_facts(1) by (auto simp: list_all_iff)
  have claims: "decode_claims (claims_json claims) = Some claims" by (rule decode_claims_json [OF texts assms(7,8)])
  have "claims_json claims \<noteq> ''''" by (simp add: claims_json_def)
  then have ne: "?e \<noteq> ''''" "?s \<noteq> ''''" using nonempty assms(3) by blast+
  have valid: "validatePresignInput (local_uuid C) (local_lower C) \<lparr>Presign_Key = Upload_Key claims, Presign_ContentType = Upload_ContentType claims,
      Presign_Size = Upload_Size claims, Presign_ExpiresIn = second_ns\<rparr> = Inr (Upload_ContentType claims)"
    using assms(2,4-6) by (simp add: validatePresignInput_def bindA_def second_ns_def day_ns_def not_less [symmetric])
  show ?thesis unfolding verifyToken_def Let_def split
    using ne assms(9,10) by (simp add: Decode_Encode claims valid) (auto simp: reaches_def bindF_def nowF_def returnF_def)
qed


lemma ends_eq: "ends m V f Q \<longleftrightarrow> (\<exists>x f'. m V f = (Inr x, f') \<and> Q x (node_at f'))"
  by (auto simp: ends_def reaches_def)

definition carries :: "local_config \<Rightarrow> localUploadClaims \<Rightarrow> http_request \<Rightarrow> bool" where
  "carries C claims request \<longleftrightarrow> Req_Path request = LocalUploadPath \<and> Req_Token request = signClaims C claims \<and> Req_Method request = ''PUT'' \<and>
     Req_ContentType request = Upload_ContentType claims \<and> Req_Authorization request = '''' \<and> Req_APIKey request = '''' \<and>
     Req_Cookie request = '''' \<and> Req_ContentLength request = Upload_Size claims \<and>
     int (length (Req_Body request)) = uint (Upload_Size claims) \<and> \<not> Req_BodyFails request"

lemma served:
  assumes "canonical_uuids (local_uuid C)" "\<And>key m. local_hmac C key m \<noteq> ''''" "json_times C"
    and s: "ParseObjectKey (local_uuid C) (local_lower C) (Upload_Key claims) = Inr s" "Upload_Size claims \<noteq> 0" "Upload_Size claims \<le> MaxUploadSize"
      "normalizeContentType (local_lower C) v = Inr (Upload_ContentType claims)"
    and "0 \<le> Upload_ExpiresAt claims" "Upload_ExpiresAt claims < 2 ^ 63" "calm V" "\<And>n. time_json C (local_now V n) \<noteq> None"
      "\<And>n. local_now V n < Upload_ExpiresAt claims * second_ns" "upload_room V (Upload_Key claims) (node_at f)" "carries C claims request"
  shows "\<exists>f'. ServeHTTP C request V f = (Inr (Status 204) :: asset_err + response, f') \<and>
    stored C claims (Req_Body request) (dirs_to (Upload_Key claims) (node_at f)) (node_at f')"
proof -
  note n = normalizeContentType_stable [OF s(4)]
  have texts: "list_all text_char (Upload_ContentType claims)" using n(1) media_char_facts(1) by (auto simp: list_all_iff)
  have request: "int (length (Req_Body request)) = uint (Upload_Size claims)" "\<not> Req_BodyFails request" "Req_Token request = signClaims C claims"
    using assms(14) by (simp_all add: carries_def)
  obtain f1 where f1: "verifyToken C (Req_Token request) V f = (Inr claims, f1)" "node_at f1 = node_at f"
    using reaches_verify [OF assms(1) s(1) assms(2) s(2,3) n(2) assms(8,9,12) refl] by (auto simp: reaches_def request(3))
  from ends_writeUpload [OF assms(1) s(1) assms(10) f1(2) assms(13,3,11) texts s(3) request(1,2)] obtain f' where
    f': "writeUpload C claims request V f1 = (Inr (), f')" "stored C claims (Req_Body request) (dirs_to (Upload_Key claims) (node_at f)) (node_at f')"
    by (auto simp: ends_eq)
  have "ServeHTTP C request V f = (Inr (Status 204) :: asset_err + response, f')"
    using assms(14) f1(1) f'(1) n(3,4) size_words [OF s(3) request(1)] unfolding carries_def
    by (simp add: ServeHTTP_def handleUpload_def bindF_def attemptF_def returnF_def Uint64FromInt64_exact)
  with f'(2) show ?thesis by blast
qed

lemma stored_object:
  assumes "canonical_uuids (local_uuid C)" "ParseObjectKey (local_uuid C) (local_lower C) (Upload_Key claims) = Inr s" "stored C claims body g h"
  shows "\<exists>t. h (object_path (Upload_Key claims)) = Some (RegularFile body t)"
  using assms(3) key_paths(6) [OF assms(1,2)] by (auto simp: stored_def)

text \<open>A request that uses the ticket as issued: the issued token, method and header, no credentials, and a body of the declared length.\<close>

definition follows_ticket :: "UploadTicket \<Rightarrow> 64 word \<Rightarrow> http_request \<Rightarrow> bool" where
  "follows_ticket ticket declared_size request \<longleftrightarrow>
     Req_Path request @ ''?token='' @ Req_Token request = Ticket_URL ticket \<and> Req_Path request = LocalUploadPath \<and>
     Req_Method request = Ticket_Method ticket \<and> [(''Content-Type'', Req_ContentType request)] = Ticket_Headers ticket \<and>
     Req_Authorization request = '''' \<and> Req_APIKey request = '''' \<and> Req_Cookie request = '''' \<and>
     Req_ContentLength request = declared_size \<and> int (length (Req_Body request)) = uint declared_size \<and> \<not> Req_BodyFails request"

lemma presigned:
  assumes "local_PresignUpload C input V f = (Inr ticket, f')"
  shows "\<exists>now contentType. validatePresignInput (local_uuid C) (local_lower C) input = Inr contentType \<and>
    now = local_now V (Suc (os_tick f)) \<and> Ticket_ExpiresAt ticket = now + Presign_ExpiresIn input \<and>
    Ticket_Key ticket = Presign_Key input \<and> Ticket_Method ticket = ''PUT'' \<and> Ticket_Headers ticket = [(''Content-Type'', contentType)] \<and>
    Ticket_URL ticket = LocalUploadPath @ ''?token='' @ signClaims C \<lparr>Upload_Key = Presign_Key input, Upload_ContentType = contentType,
      Upload_Size = Presign_Size input, Upload_ExpiresAt = (now + Presign_ExpiresIn input) div second_ns\<rparr>"
  using assms by (auto simp: local_PresignUpload_def file_simps Let_def ctxErr_def nowF_def split: option.splits)

text \<open>
  C9. A ticket that is used as it was issued works. When the file system does not fail, the names the upload needs are free,
  the clock is before the second in which the ticket expires, and instants have a JSON text: the request is answered
  with 204, the object is then stored with exactly the body of the request, and completing the upload
  returns its metadata with the declared key, size and content type.
\<close>

theorem upload_completes:
  assumes "canonical_uuids (local_uuid C)" "\<And>key m. local_hmac C key m \<noteq> ''''" "json_times C"
    and issued: "local_PresignUpload C input V0 f0 = (Inr ticket, f0')" "0 \<le> Ticket_ExpiresAt ticket" "Ticket_ExpiresAt ticket < 2 ^ 63 * second_ns"
    and "calm V" "\<And>n. time_json C (local_now V n) \<noteq> None" "\<And>n. local_now V n < Ticket_ExpiresAt ticket div second_ns * second_ns"
    and "upload_room V (Ticket_Key ticket) (node_at f)" "follows_ticket ticket (Presign_Size input) request"
  shows "\<exists>f' f'' m t. ServeHTTP C request V f = (Inr (Status 204) :: asset_err + response, f') \<and>
    node_at f' (object_path (Ticket_Key ticket)) = Some (RegularFile (Req_Body request) t) \<and>
    local_CompleteUpload C (Ticket_Key ticket) V f' = (Inr m, f'') \<and> Metadata_Key m = Ticket_Key ticket \<and>
    Metadata_Size m = Presign_Size input \<and> [(''Content-Type'', Metadata_ContentType m)] = Ticket_Headers ticket"
proof -
  from presigned [OF issued(1)] obtain contentType where v: "validatePresignInput (local_uuid C) (local_lower C) input = Inr contentType"
    and k: "Ticket_Key ticket = Presign_Key input" "Ticket_Method ticket = ''PUT''" "Ticket_Headers ticket = [(''Content-Type'', contentType)]"
      "Ticket_URL ticket = LocalUploadPath @ ''?token='' @ signClaims C \<lparr>Upload_Key = Presign_Key input, Upload_ContentType = contentType,
        Upload_Size = Presign_Size input, Upload_ExpiresAt = Ticket_ExpiresAt ticket div second_ns\<rparr>"
    by auto
  define claims where "claims = \<lparr>Upload_Key = Presign_Key input, Upload_ContentType = contentType,
    Upload_Size = Presign_Size input, Upload_ExpiresAt = Ticket_ExpiresAt ticket div second_ns\<rparr>"
  from v obtain s where s: "ParseObjectKey (local_uuid C) (local_lower C) (Upload_Key claims) = Inr s"
      "Upload_Size claims \<noteq> 0" "Upload_Size claims \<le> MaxUploadSize"
      "normalizeContentType (local_lower C) (Presign_ContentType input) = Inr (Upload_ContentType claims)"
    by (auto simp: validatePresignInput_def claims_def bindA_Inr split: if_splits)
  have expiry: "0 \<le> Upload_ExpiresAt claims" "Upload_ExpiresAt claims < 2 ^ 63" "\<And>n. local_now V n < Upload_ExpiresAt claims * second_ns"
    using issued(2,3) assms(9) by (simp_all add: claims_def second_ns_def)
  have room: "upload_room V (Upload_Key claims) (node_at f)" using assms(10) k(1) by (simp add: claims_def)
  have carries: "carries C claims request" using assms(11) k by (auto simp: follows_ticket_def claims_def carries_def)
  from served [OF assms(1-3) s expiry(1,2) assms(7,8) expiry(3) room carries] obtain f' where
    f': "ServeHTTP C request V f = (Inr (Status 204) :: asset_err + response, f')"
      "stored C claims (Req_Body request) (dirs_to (Upload_Key claims) (node_at f)) (node_at f')" by blast
  have root: "node_at f [] = Some Directory" using room by (simp add: upload_room_def)
  have bytes: "int (length (Req_Body request)) = uint (Upload_Size claims)" using carries by (simp add: carries_def)
  from ends_complete [OF assms(1) s(1) assms(7) f'(2) root s(3,2) bytes normalizeContentType_stable(2) [OF s(4)]] obtain m f'' where
    m: "local_CompleteUpload C (Upload_Key claims) V f' = (Inr m, f'')" "as_declared claims m" by (auto simp: ends_eq)
  from stored_object [OF assms(1) s(1) f'(2)] m k f'(1) show ?thesis by (auto simp: claims_def as_declared_def)
qed

section \<open>An example storage\<close>

definition example_storage :: local_config where
  "example_storage = \<lparr>local_uuid = plain_uuid, local_lower = (\<lambda>r. []), signingKey = ''secret'', local_hmac = (\<lambda>key m. ''mac'' @ take 8 m),
     time_json = (\<lambda>t. if t = 5 * second_ns then Some (marshal_string ''1970'') else None),
     time_of_json = (\<lambda>raw. if raw = marshal_string ''1970'' then Some (5 * second_ns) else None)\<rparr>"

definition example_calm :: local_env where
  "example_calm = \<lparr>os_failure = (\<lambda>n. False), local_now = (\<lambda>n. 5 * second_ns), local_ctx = (\<lambda>n. None), temp_name = (\<lambda>n. ''1'')\<rparr>"

definition example_tree :: local_files where
  "example_tree = \<lparr>nodes = [([], Directory)], os_tick = 0\<rparr>"

definition example_input :: PresignUploadInput where
  "example_input = \<lparr>Presign_Key = example_object, Presign_ContentType = ''image/png'', Presign_Size = 3, Presign_ExpiresIn = 60 * second_ns\<rparr>"

definition example_claims :: localUploadClaims where
  "example_claims = \<lparr>Upload_Key = example_object, Upload_ContentType = ''image/png'', Upload_Size = 3, Upload_ExpiresAt = 65\<rparr>"

definition example_ticket :: UploadTicket where
  "example_ticket = \<lparr>Ticket_Key = example_object, Ticket_URL = LocalUploadPath @ ''?token='' @ signClaims example_storage example_claims,
     Ticket_Method = ''PUT'', Ticket_Headers = [(''Content-Type'', ''image/png'')], Ticket_FormFields = [], Ticket_ExpiresAt = 65 * second_ns\<rparr>"

definition example_put :: http_request where
  "example_put = \<lparr>Req_Method = ''PUT'', Req_Path = LocalUploadPath, Req_Authorization = '''', Req_APIKey = '''', Req_Cookie = '''',
     Req_ContentType = ''image/png'', Req_Token = signClaims example_storage example_claims, Req_ContentLength = 3, Req_Body = ''png'',
     Req_BodyFails = False\<rparr>"

lemma example_parsed: "ParseObjectKey plain_uuid (\<lambda>r. []) example_object = Inr example_scope"
proof -
  have id: "plain_uuid example_uuid = Some example_uuid" by code_simp
  have key: "join ''/'' (key_parts example_scope) = example_object" by code_simp
  have "length example_object \<le> 512" by code_simp
  then show ?thesis
    using ParseObjectKey_built [OF plain_uuid_canonical, of example_scope "''png''" "\<lambda>r. []"] id key
    by (simp add: example_scope_def scope_char_def is_lower_def between_def)
qed

lemma example_media: "normalizeContentType (\<lambda>r. []) ''image/png'' = Inr ''image/png''"
  by code_simp

lemma example_facts:
  "canonical_uuids (local_uuid example_storage)" "local_hmac example_storage k m \<noteq> ''''" "json_times example_storage" "calm example_calm"
  "time_json example_storage (local_now example_calm n) \<noteq> None" "carries example_storage example_claims example_put"
  by (auto simp: example_storage_def plain_uuid_canonical json_times_def calm_def example_calm_def carries_def example_put_def example_claims_def
      text_char_def intro!: exI [of _ "''1970''"])

lemma example_room: "upload_room example_calm example_object (node_at example_tree)"
  by (auto simp: upload_room_def example_tree_def node_at_def sidecar_parts upload_temp_def object_path_def split_on_nonempty)

lemma example_issued: "local_PresignUpload example_storage example_input example_calm example_tree = (Inr example_ticket, example_tree\<lparr>os_tick := Suc (Suc 0)\<rparr>)"
proof -
  have "validatePresignInput plain_uuid (\<lambda>r. []) example_input = Inr ''image/png''"
    by (simp add: validatePresignInput_def example_input_def bindA_def example_parsed example_media MaxUploadSize_def second_ns_def day_ns_def)
  then show ?thesis
    by (simp add: local_PresignUpload_def bindF_def ctxErr_def nowF_def liftF_def returnF_def example_storage_def example_calm_def example_input_def
        example_ticket_def example_claims_def example_tree_def second_ns_def)
qed


lemma example_claims_valid:
  "ParseObjectKey (local_uuid example_storage) (local_lower example_storage) (Upload_Key example_claims) = Inr example_scope"
  "Upload_Size example_claims \<noteq> 0" "Upload_Size example_claims \<le> MaxUploadSize"
  "normalizeContentType (local_lower example_storage) ''image/png'' = Inr (Upload_ContentType example_claims)"
  using example_parsed example_media by (simp_all add: example_storage_def example_claims_def MaxUploadSize_def)

lemma example_uploaded:
  "\<exists>f'. ServeHTTP example_storage example_put example_calm example_tree = (Inr (Status 204) :: asset_err + response, f') \<and>
    stored example_storage example_claims ''png'' (dirs_to example_object (node_at example_tree)) (node_at f')"
proof -
  have c: "0 \<le> Upload_ExpiresAt example_claims" "Upload_ExpiresAt example_claims < 2 ^ 63"
    "local_now example_calm n < Upload_ExpiresAt example_claims * second_ns" for n
    by (simp_all add: example_claims_def example_calm_def second_ns_def)
  have room: "upload_room example_calm (Upload_Key example_claims) (node_at example_tree)" using example_room by (simp add: example_claims_def)
  from served [OF example_facts(1-3) example_claims_valid c(1,2) example_facts(4,5) c(3) room example_facts(6)] show ?thesis
    by (simp add: example_claims_def example_put_def)
qed

theorem upload_completes_witness:
  "\<exists>f' f'' m t. ServeHTTP example_storage example_put example_calm example_tree = (Inr (Status 204) :: asset_err + response, f') \<and>
    node_at f' (object_path example_object) = Some (RegularFile ''png'' t) \<and>
    local_CompleteUpload example_storage example_object example_calm f' = (Inr m, f'') \<and> Metadata_Key m = example_object \<and> Metadata_Size m = 3"
proof -
  have "follows_ticket example_ticket (Presign_Size example_input) example_put"
    by (simp add: follows_ticket_def example_ticket_def example_input_def example_put_def)
  moreover have "0 \<le> Ticket_ExpiresAt example_ticket" "Ticket_ExpiresAt example_ticket < 2 ^ 63 * second_ns"
    "local_now example_calm n < Ticket_ExpiresAt example_ticket div second_ns * second_ns" for n
    by (simp_all add: example_ticket_def second_ns_def example_calm_def)
  moreover have "upload_room example_calm (Ticket_Key example_ticket) (node_at example_tree)" using example_room by (simp add: example_ticket_def)
  ultimately show ?thesis
    using upload_completes [OF example_facts(1-3) example_issued _ _ example_facts(4,5), of example_tree example_put]
    by (auto simp: example_ticket_def example_input_def example_put_def)
qed

theorem uploads_only_add_witness:
  "\<exists>f' t. ServeHTTP example_storage example_put example_calm example_tree = (Inr (Status 204) :: asset_err + response, f') \<and>
    node_at f' [] = Some Directory \<and> node_at f' (object_path example_object) = Some (RegularFile ''png'' t) \<and>
    (\<exists>claims. signed_ticket example_storage (Req_Token example_put) (5 * second_ns) claims \<and> Upload_Key claims = example_object \<and> 3 = uint (Upload_Size claims))"
proof -
  note s = example_claims_valid
  from example_uploaded obtain f' where
    run: "ServeHTTP example_storage example_put example_calm example_tree = (Inr (Status 204) :: asset_err + response, f')"
      "stored example_storage example_claims ''png'' (dirs_to example_object (node_at example_tree)) (node_at f')" by blast
  from stored_object [OF example_facts(1) s(1) run(2)] obtain t where
    t: "node_at f' (object_path example_object) = Some (RegularFile ''png'' t)" by (auto simp: example_claims_def example_put_def)
  have before: "node_at example_tree [] = Some Directory" "node_at example_tree (object_path example_object) = None"
    using example_room by (simp_all add: upload_room_def)
  have key: "ParseObjectKey (local_uuid example_storage) (local_lower example_storage) example_object = Inr example_scope"
    using s(1) by (simp add: example_claims_def)
  note only = uploads_only_add [OF example_facts(1) run(1)]
  from only before(1) have "node_at f' [] = Some Directory" by blast
  moreover from only key before(2) t have "\<exists>claims. signed_ticket example_storage (Req_Token example_put) (local_now example_calm (os_tick example_tree)) claims \<and>
    Upload_Key claims = example_object \<and> int (length ''png'') = uint (Upload_Size claims)" by blast
  ultimately show ?thesis using run(1) t by (auto simp: example_calm_def)
qed

end
