(* ===== verification/Asset.thy ===== *)
theory Asset
  imports Object_Live Admin
begin

text \<open>
  The asset operations (\<^verbatim>\<open>server/internal/logic/asset.go\<close>, with \<^verbatim>\<open>assetPublicError\<close> of \<^verbatim>\<open>service/asset.go\<close>): upload policy,
  tickets, completion. The object storage is a record of its three operations on a state of its own; the local storage of
  \<open>Object_Local\<close> is one instance. The state of an operation is the database world and the storage.
\<close>

section \<open>State\<close>

record 's ObjectStorage =
  PresignUpload :: "PresignUploadInput \<Rightarrow> 's \<Rightarrow> UploadTicket asset_result \<times> 's"
  CompleteUpload :: "string \<Rightarrow> 's \<Rightarrow> Metadata asset_result \<times> 's"
  DeleteIncomplete :: "string \<Rightarrow> 's \<Rightarrow> unit asset_result \<times> 's"

type_synonym ('s, 'a) asset_op = "engine \<Rightarrow> world \<times> 's \<Rightarrow> 'a asset_result \<times> world \<times> 's"

definition returnO :: "'a \<Rightarrow> ('s, 'a) asset_op" where "returnO x = (\<lambda>E s. (Inr x, s))"

definition failO :: "asset_err \<Rightarrow> ('s, 'a) asset_op" where "failO e = (\<lambda>E s. (Inl e, s))"

definition bindO :: "('s, 'a) asset_op \<Rightarrow> ('a \<Rightarrow> ('s, 'b) asset_op) \<Rightarrow> ('s, 'b) asset_op" where
  "bindO m k = (\<lambda>E s. case m E s of (Inl e, s') \<Rightarrow> (Inl e, s') | (Inr x, s') \<Rightarrow> k x E s')"

definition attemptO :: "('s, 'a) asset_op \<Rightarrow> ('s, 'a asset_result) asset_op" where
  "attemptO m = (\<lambda>E s. case m E s of (r, s') \<Rightarrow> (Inr r, s'))"

definition worldO :: "'a M \<Rightarrow> ('s, err + 'a) asset_op" where
  "worldO m = (\<lambda>E (w, s). case m E w of (r, w') \<Rightarrow> (Inr r, w', s))"

definition storageO :: "('s \<Rightarrow> 'a asset_result \<times> 's) \<Rightarrow> ('s, 'a asset_result) asset_op" where
  "storageO m = (\<lambda>E (w, s). case m s of (r, s') \<Rightarrow> (Inr r, w, s'))"

section \<open>Policy\<close>

definition PermissionAssetWrite :: string where "PermissionAssetWrite = ''asset:write''"
definition DefaultMaxSize :: "64 word" where "DefaultMaxSize = MaxUploadSize"

record Policy =
  MaxSize :: "64 word"
  AllowedByExt :: "(string \<times> string list) list"
  UploadLifetime :: int

definition DefaultPolicy :: Policy where
  "DefaultPolicy = \<lparr>MaxSize = DefaultMaxSize,
     AllowedByExt = [
       (''.png'', [''image/png'']),
       (''.jpg'', [''image/jpeg'']),
       (''.jpeg'', [''image/jpeg'']),
       (''.gif'', [''image/gif'']),
       (''.webp'', [''image/webp'']),
       (''.avif'', [''image/avif'']),
       (''.mp4'', [''video/mp4'']),
       (''.webm'', [''video/webm'']),
       (''.mov'', [''video/quicktime'']),
       (''.mp3'', [''audio/mpeg'']),
       (''.wav'', [''audio/wav'', ''audio/x-wav'']),
       (''.ogg'', [''audio/ogg'', ''video/ogg'']),
       (''.pdf'', [''application/pdf'']),
       (''.txt'', [''text/plain'']),
       (''.csv'', [''text/csv'', ''application/csv'']),
       (''.json'', [''application/json'']),
       (''.yaml'', [''application/yaml'', ''application/x-yaml'', ''text/yaml'']),
       (''.yml'', [''application/yaml'', ''application/x-yaml'', ''text/yaml'']),
       (''.zip'', [''application/zip'', ''application/x-zip-compressed'']),
       (''.gz'', [''application/gzip'', ''application/x-gzip'']),
       (''.tar'', [''application/x-tar'']),
       (''.doc'', [''application/msword'']),
       (''.docx'', [''application/vnd.openxmlformats-officedocument.wordprocessingml.document'']),
       (''.xls'', [''application/vnd.ms-excel'']),
       (''.xlsx'', [''application/vnd.openxmlformats-officedocument.spreadsheetml.sheet'']),
       (''.ppt'', [''application/vnd.ms-powerpoint'']),
       (''.pptx'', [''application/vnd.openxmlformats-officedocument.presentationml.presentation''])],
     UploadLifetime = DefaultUploadTTL\<rparr>"

record PresignInput =
  In_EnvironmentID :: int
  In_ProjectID :: int
  In_Filename :: string
  In_ContentType :: string
  In_Size :: "64 word"

text \<open>The logic with its dependencies. The operations take the authenticated caller of the context as an argument.\<close>

record 's AssetLogic =
  asset_storage :: "'s ObjectStorage"
  asset_policy :: Policy
  asset_uuid :: "string \<Rightarrow> string option"
  asset_lower :: "int \<Rightarrow> string"

fun validatePolicyMIMETypes :: "(int \<Rightarrow> string) \<Rightarrow> string list \<Rightarrow> unit asset_result" where
  "validatePolicyMIMETypes lower [] = Inr ()"
| "validatePolicyMIMETypes lower (contentType # contentTypes) =
     (if ParseMediaType lower contentType \<noteq> Some (ToLower lower contentType)
      then Inl (Wraps ''asset upload policy contains an invalid MIME type'' [])
      else validatePolicyMIMETypes lower contentTypes)"

text \<open>The extensions are visited in the order of the list.\<close>

fun validate_extensions :: "(int \<Rightarrow> string) \<Rightarrow> (string \<times> string list) list \<Rightarrow> unit asset_result" where
  "validate_extensions lower [] = Inr ()"
| "validate_extensions lower ((extension, contentTypes) # rest) =
     (if extension = '''' \<or> extension \<noteq> ToLower lower extension \<or> \<not> HasPrefix extension ''.'' \<or> contentTypes = []
      then Inl (Wraps ''asset upload policy contains an invalid extension'' [])
      else bindA (validatePolicyMIMETypes lower contentTypes) (\<lambda>_. validate_extensions lower rest))"

definition validatePolicy :: "(int \<Rightarrow> string) \<Rightarrow> Policy \<Rightarrow> unit asset_result" where
  "validatePolicy lower policy =
     (if MaxSize policy = 0 \<or> UploadLifetime policy \<le> 0 \<or> UploadLifetime policy > day_ns \<or> AllowedByExt policy = []
      then Inl (Wraps ''asset upload policy is invalid'' [])
      else validate_extensions lower (AllowedByExt policy))"

definition newLogic ::
  "'s ObjectStorage \<Rightarrow> (string \<Rightarrow> string option) \<Rightarrow> (int \<Rightarrow> string) \<Rightarrow> Policy \<Rightarrow> 's AssetLogic asset_result" where
  "newLogic storage uuid lower policy =
     bindA (validatePolicy lower policy) (\<lambda>_.
     Inr \<lparr>asset_storage = storage, asset_policy = policy, asset_uuid = uuid, asset_lower = lower\<rparr>)"

definition NewAssetLogic :: "'s ObjectStorage \<Rightarrow> (string \<Rightarrow> string option) \<Rightarrow> (int \<Rightarrow> string) \<Rightarrow> 's AssetLogic asset_result" where
  "NewAssetLogic storage uuid lower = newLogic storage uuid lower DefaultPolicy"

definition asset_invalid :: "string \<Rightarrow> asset_err" where
  "asset_invalid m = Wraps m [Sentinel Asset_ErrInvalidInput]"

definition asset_integrity :: "string \<Rightarrow> asset_err" where
  "asset_integrity m = Wraps m [Sentinel ErrAssetIntegrity]"

definition dependency :: "string \<Rightarrow> asset_err \<Rightarrow> asset_err" where
  "dependency m e = Wraps m [Sentinel ErrDependency, e]"

definition filename_forbidden :: string where
  "filename_forbidden = CHR ''/'' # key_forbidden"

definition validateUpload :: "'s AssetLogic \<Rightarrow> string \<Rightarrow> string \<Rightarrow> 64 word \<Rightarrow> (string \<times> string) asset_result" where
  "validateUpload L filename contentType bytes =
     (if filename = '''' \<or> length filename > 255 \<or> TrimSpace filename \<noteq> filename \<or> ContainsAny filename filename_forbidden
      then Inl (asset_invalid ''filename is invalid'')
      else if list_ex (\<lambda>(r, raw). IsControl r) (runes filename) then Inl (asset_invalid ''filename contains control characters'')
      else if filename = ''.'' \<or> filename = ''..'' then Inl (asset_invalid ''filename is invalid'')
      else
        let extension = ToLower (asset_lower L) (path_Ext filename) in
        case map_of (AllowedByExt (asset_policy L)) extension of
          None \<Rightarrow> Inl (asset_invalid ''file extension is not allowed'')
        | Some allowedTypes \<Rightarrow>
            if bytes = 0 \<or> bytes > MaxSize (asset_policy L) then Inl (asset_invalid ''file size exceeds upload policy'')
            else case ParseMediaType (asset_lower L) contentType of
              None \<Rightarrow> Inl (asset_invalid ''content type is invalid'')
            | Some mediaType \<Rightarrow>
                if TrimSpace contentType \<noteq> contentType \<or> ContainsAny contentType line_breaks
                then Inl (asset_invalid ''content type is invalid'')
                else let mediaType = ToLower (asset_lower L) mediaType
                     in if mediaType \<in> set allowedTypes then Inr (extension, mediaType)
                        else Inl (asset_invalid ''MIME type does not match file extension''))"

text \<open>\<^verbatim>\<open>strings.EqualFold\<close> where one text is ASCII, as a parsed media type is.\<close>

definition EqualFold :: "string \<Rightarrow> string \<Rightarrow> bool" where
  "EqualFold s t \<longleftrightarrow> fold_name s = fold_name t"

definition validateCompleted :: "'s AssetLogic \<Rightarrow> string \<Rightarrow> Metadata \<Rightarrow> unit asset_result" where
  "validateCompleted L extension metadata =
     (if Metadata_Size metadata = 0 \<or> Metadata_Size metadata > MaxSize (asset_policy L)
      then Inl (asset_integrity ''completed asset size is invalid'')
      else case map_of (AllowedByExt (asset_policy L)) extension of
        None \<Rightarrow> Inl (asset_integrity ''completed asset extension is invalid'')
      | Some allowedTypes \<Rightarrow>
          (case ParseMediaType (asset_lower L) (Metadata_ContentType metadata) of
             None \<Rightarrow> Inl (asset_integrity ''completed asset MIME type is invalid'')
           | Some mediaType \<Rightarrow>
               if list_ex (EqualFold mediaType) allowedTypes then Inr ()
               else Inl (asset_integrity ''completed asset MIME type does not match its extension'')))"

section \<open>Access\<close>

definition HasEnvironmentPermission :: "int option \<Rightarrow> int \<Rightarrow> string \<Rightarrow> bool M" where
  "HasEnvironmentPermission caller environmentID key =
     (case ActorFromContext caller None '''' of
        Inl e \<Rightarrow> failM e
      | Inr actor \<Rightarrow>
          bindM (attemptM (Require (Actor_UserID actor) environmentID [key])) (\<lambda>r.
          case r of Inl e \<Rightarrow> if e = Forbidden then returnM False else failM e | Inr _ \<Rightarrow> returnM True))"

definition ProjectExists :: "int \<Rightarrow> int \<Rightarrow> bool M" where
  "ProjectExists environmentID projectID =
     bindM (attemptM (project_FindByID environmentID projectID)) (\<lambda>r.
     case r of Inl e \<Rightarrow> if isNotFound e then returnM False else failM e | Inr _ \<Rightarrow> returnM True)"

definition requireAccess :: "int option \<Rightarrow> int \<Rightarrow> int \<Rightarrow> ('s, unit) asset_op" where
  "requireAccess caller environmentID projectID =
     bindO (worldO (HasEnvironmentPermission caller environmentID PermissionAssetWrite)) (\<lambda>allowed.
     case allowed of
       Inl e \<Rightarrow> failO (dependency ''check environment permission'' (Foreign e))
     | Inr False \<Rightarrow> failO (Wraps '''' [Sentinel Asset_ErrForbidden])
     | Inr True \<Rightarrow>
         bindO (worldO (ProjectExists environmentID projectID)) (\<lambda>found.
         case found of
           Inl e \<Rightarrow> failO (dependency ''check project scope'' (Foreign e))
         | Inr False \<Rightarrow> failO (Wraps '''' [Sentinel ErrProjectNotFound])
         | Inr True \<Rightarrow> returnO ()))"

section \<open>Tickets and completion\<close>

text \<open>\<open>newID\<close> is the identifier the random generator returns, or its error.\<close>

definition Presign :: "'s AssetLogic \<Rightarrow> int option \<Rightarrow> string result \<Rightarrow> PresignInput \<Rightarrow> ('s, UploadTicket) asset_op" where
  "Presign L caller newID input =
     (case validateUpload L (In_Filename input) (In_ContentType input) (In_Size input) of
        Inl e \<Rightarrow> failO e
      | Inr (extension, contentType) \<Rightarrow>
          bindO (requireAccess caller (In_EnvironmentID input) (In_ProjectID input)) (\<lambda>_.
          case newID of
            Inl e \<Rightarrow> failO (dependency ''generate object ID'' (Foreign e))
          | Inr objectID \<Rightarrow>
              (case BuildObjectKey (asset_uuid L) (asset_lower L) (In_EnvironmentID input) (In_ProjectID input) objectID extension of
                 Inl e \<Rightarrow> failO (dependency ''generated object key is invalid'' e)
               | Inr key \<Rightarrow>
                   bindO (storageO (PresignUpload (asset_storage L)
                     \<lparr>Presign_Key = key, Presign_ContentType = contentType, Presign_Size = In_Size input,
                      Presign_ExpiresIn = UploadLifetime (asset_policy L)\<rparr>)) (\<lambda>ticket.
                   case ticket of Inl e \<Rightarrow> failO (dependency ''create upload ticket'' e) | Inr ticket \<Rightarrow> returnO ticket))))"

definition completeObject :: "'s AssetLogic \<Rightarrow> string \<Rightarrow> ('s, Metadata) asset_op" where
  "completeObject L key =
     bindO (storageO (CompleteUpload (asset_storage L) key)) (\<lambda>r.
     case r of
       Inr metadata \<Rightarrow> returnO metadata
     | Inl e \<Rightarrow>
         if asset_Is ErrObjectNotFound e then failO (Wraps '''' [Sentinel ErrAssetNotFound, e])
         else if asset_Is ErrObjectIntegrity e then
           bindO (storageO (DeleteIncomplete (asset_storage L) key)) (\<lambda>deleted.
           case deleted of
             Inl deleteErr \<Rightarrow> failO (dependency ''remove invalid object'' (Wraps '''' [e, deleteErr]))
           | Inr _ \<Rightarrow> failO (Wraps ''stored metadata differs from upload declaration'' [Sentinel ErrAssetIntegrity, e]))
         else if asset_Is ErrObjectConflict e then failO (Wraps '''' [Sentinel ErrAssetConflict, e])
         else failO (dependency ''inspect uploaded object'' e))"

definition same_publication :: "ObjectScope \<Rightarrow> ObjectScope asset_result \<Rightarrow> bool" where
  "same_publication scope r \<longleftrightarrow> (case r of
     Inl e \<Rightarrow> False
   | Inr publishedScope \<Rightarrow>
       \<not> Scope_Temporary publishedScope \<and> Scope_EnvironmentID publishedScope = Scope_EnvironmentID scope \<and>
       Scope_ProjectID publishedScope = Scope_ProjectID scope \<and> Scope_Extension publishedScope = Scope_Extension scope)"

definition validatePublication :: "'s AssetLogic \<Rightarrow> ObjectScope \<Rightarrow> Metadata \<Rightarrow> ('s, unit) asset_op" where
  "validatePublication L scope metadata =
     (if \<not> same_publication scope (ParseObjectKey (asset_uuid L) (asset_lower L) (Metadata_Key metadata))
      then failO (asset_integrity ''storage returned an invalid published object scope'')
      else case validateCompleted L (Scope_Extension scope) metadata of
        Inr _ \<Rightarrow> returnO ()
      | Inl e \<Rightarrow>
          bindO (storageO (DeleteIncomplete (asset_storage L) (Metadata_Key metadata))) (\<lambda>deleted.
          case deleted of
            Inl deleteErr \<Rightarrow> failO (dependency ''remove invalid object'' (Wraps '''' [e, deleteErr]))
          | Inr _ \<Rightarrow> failO e))"

definition Asset_Complete :: "'s AssetLogic \<Rightarrow> int option \<Rightarrow> int \<Rightarrow> int \<Rightarrow> string \<Rightarrow> ('s, Metadata) asset_op" where
  "Asset_Complete L caller environmentID projectID key =
     (case ParseObjectKey (asset_uuid L) (asset_lower L) key of
        Inl e \<Rightarrow> failO (asset_invalid ''object key is invalid'')
      | Inr scope \<Rightarrow>
          if Scope_EnvironmentID scope \<noteq> environmentID \<or> Scope_ProjectID scope \<noteq> projectID
          then failO (Wraps ''object belongs to another environment or project'' [Sentinel Asset_ErrForbidden])
          else
            bindO (requireAccess caller environmentID projectID) (\<lambda>_.
            bindO (completeObject L key) (\<lambda>metadata.
            bindO (validatePublication L scope metadata) (\<lambda>_. returnO metadata))))"

section \<open>Public errors\<close>

datatype api_error = API string string

definition assetPublicError :: "asset_err \<Rightarrow> api_error" where
  "assetPublicError e =
     (if asset_Is Asset_ErrInvalidInput e then API ''InvalidParam'' ''asset request is invalid''
      else if asset_Is Asset_ErrForbidden e then API ''Forbidden'' ''asset operation is not permitted''
      else if asset_Is ErrProjectNotFound e \<or> asset_Is ErrAssetNotFound e then API ''NotFound'' ''asset scope was not found''
      else if asset_Is ErrAssetConflict e then API ''Conflict'' ''asset upload was already completed''
      else if asset_Is ErrAssetIntegrity e then API ''BadRequest'' ''uploaded asset failed integrity validation''
      else API ''Internal'' ''asset operation failed'')"

end
