(* ===== verification/Asset_Props.thy ===== *)
theory Asset_Props
  imports Asset Example_World
begin

text \<open>
  What the asset operations guarantee over any object storage: access is checked before the storage is touched, what is
  returned satisfies the policy, and what fails it is removed. The locale \<open>in_place_storage\<close> states what the last claim
  needs of a storage; the local storage satisfies it.
\<close>

section \<open>Runs\<close>

lemma bindO_run [file_simps]:
  "bindO m k E s = (r, s') \<longleftrightarrow> (\<exists>e. m E s = (Inl e, s') \<and> r = Inl e) \<or> (\<exists>x s1. m E s = (Inr x, s1) \<and> k x E s1 = (r, s'))"
  by (auto simp: bindO_def split: prod.splits sum.splits)

lemma basicO_run [file_simps]:
  "returnO x E s = (r, s') \<longleftrightarrow> r = Inr x \<and> s' = s" "failO e E s = (r, s') \<longleftrightarrow> r = Inl e \<and> s' = s"
  "worldO m E (w, t) = (q, w', t') \<longleftrightarrow> (\<exists>y. q = Inr y \<and> m E w = (y, w') \<and> t' = t)"
  "storageO n E (w, t) = (z, w', t') \<longleftrightarrow> (\<exists>y. z = Inr y \<and> n t = (y, t') \<and> w' = w)"
  by (auto simp: returnO_def failO_def worldO_def storageO_def split: prod.splits)

section \<open>Access\<close>

definition project_in :: "db \<Rightarrow> int \<Rightarrow> int \<Rightarrow> bool" where
  "project_in d environmentID projectID \<longleftrightarrow> (\<exists>p \<in> set (projects d). ID p = projectID \<and> DeletedAt p = None \<and>
     (\<exists>e \<in> set (environments d). ID e = environmentID \<and> e_ProjectID e = projectID \<and> DeletedAt e = None))"

definition may_write :: "db \<Rightarrow> int option \<Rightarrow> int \<Rightarrow> int \<Rightarrow> bool" where
  "may_write d caller environmentID projectID \<longleftrightarrow>
     (\<exists>u. caller = Some u \<and> 0 < u \<and> authorised d u environmentID [PermissionAssetWrite]) \<and> project_in d environmentID projectID"

lemma HasEnvironmentPermission_effect:
  assumes "HasEnvironmentPermission caller e key E w = (r, w')" "perm_coherent (database w) (cache w)" "plain_catalog (database w)"
  shows "database w' = database w" "r = Inr True \<Longrightarrow> \<exists>u. caller = Some u \<and> 0 < u \<and> authorised (database w) u e [key]"
proof -
  have "database w' = database w \<and> (r = Inr True \<longrightarrow> (\<exists>u. caller = Some u \<and> 0 < u \<and> authorised (database w) u e [key]))"
  proof (cases "ActorFromContext caller None ''''")
    case (Inl e)
    with assms(1) show ?thesis by (auto simp: HasEnvironmentPermission_def run_simps)
  next
    case (Inr actor)
    then have u: "caller = Some (Actor_UserID actor)" "0 < Actor_UserID actor"
      by (auto simp: ActorFromContext_def Let_def split: option.splits if_splits)
    obtain q w1 where req: "Require (Actor_UserID actor) e [key] E w = (q, w1)" by fastforce
    with assms(1) Inr have "w' = w1" "r = Inr True \<Longrightarrow> q = Inr ()"
      by (auto simp: HasEnvironmentPermission_def attempt_case run_simps split: if_splits sum.splits)
    with Require_effect [OF req assms(2,3)] u show ?thesis by (auto simp: auth_frame_def)
  qed
  then show "database w' = database w" "r = Inr True \<Longrightarrow> \<exists>u. caller = Some u \<and> 0 < u \<and> authorised (database w) u e [key]" by auto
qed

lemma ProjectExists_effect:
  assumes "ProjectExists e p E w = (r, w')" "0 < e"
  shows "database w' = database w" "r = Inr True \<Longrightarrow> project_in (database w) e p"
proof -
  obtain q w1 where find: "project_FindByID e p E w = (q, w1)" by fastforce
  then have same: "database w1 = database w"
    using readsD [of "project_FindByID e p"] unfolding project_FindByID_def by (auto simp: quiet_def intro!: reads_intro)
  from assms(1) find have w': "w' = w1" "r = Inr True \<Longrightarrow> \<exists>row. q = Inr row"
    by (cases q; auto simp: ProjectExists_def attempt_case run_simps split: if_splits)+
  show "database w' = database w" using w'(1) same by simp
  assume "r = Inr True"
  with w'(2) find obtain row where "project_FindByID e p E w = (Inr row, w1)" by auto
  then have "row \<in> set (projectScope (\<lambda>p' e'. ID e' = e \<and> ID p' = p) (database w))"
    using assms(2) unfolding project_FindByID_def by (auto dest!: getM_member)
  then show "project_in (database w) e p" by (fastforce simp: projectScope_def project_in_def)
qed

lemma requireAccess_effect:
  assumes "requireAccess caller e p E (w, s) = (r, w', s')" "0 < e" "perm_coherent (database w) (cache w)" "plain_catalog (database w)"
  shows "database w' = database w" "s' = s" "r = Inr () \<Longrightarrow> may_write (database w) caller e p"
proof -
  obtain a w1 where has: "HasEnvironmentPermission caller e PermissionAssetWrite E w = (a, w1)" by fastforce
  note h = HasEnvironmentPermission_effect [OF has assms(3,4)]
  have "database w' = database w \<and> s' = s \<and> (r = Inr () \<longrightarrow> may_write (database w) caller e p)"
  proof (cases "a = Inr True")
    case False
    then have "w' = w1 \<and> s' = s \<and> isl r"
      using assms(1) has by (auto simp: requireAccess_def file_simps split: sum.splits bool.splits)
    with h(1) show ?thesis by auto
  next
    case True
    obtain b w2 where ex: "ProjectExists e p E w1 = (b, w2)" by fastforce
    with True assms(1) has have "w' = w2" "s' = s" "r = Inr () \<Longrightarrow> b = Inr True"
      by (auto simp: requireAccess_def file_simps split: sum.splits bool.splits)
    with ProjectExists_effect [OF ex assms(2)] h(1) h(2) [OF True] show ?thesis by (auto simp: may_write_def)
  qed
  then show "database w' = database w" "s' = s" "r = Inr () \<Longrightarrow> may_write (database w) caller e p" by auto
qed

lemma requireAccess_total:
  assumes "reliable E" "may_write (database w) caller e p" "0 < e" "perm_coherent (database w) (cache w)" "plain_catalog (database w)"
  shows "\<exists>w'. requireAccess caller e p E (w, s) = (Inr (), w', s)"
proof -
  from assms(2) obtain u where u: "caller = Some u" "0 < u" "authorised (database w) u e [PermissionAssetWrite]" and proj: "project_in (database w) e p"
    by (auto simp: may_write_def)
  obtain w1 where req: "Require u e [PermissionAssetWrite] E w = (Inr (), w1)"
    using Require_total [OF assms(1) u(3) assms(4,5)] by (metis prod.collapse)
  then have has: "HasEnvironmentPermission caller e PermissionAssetWrite E w = (Inr True, w1)"
    using u(1,2) by (simp add: HasEnvironmentPermission_def ActorFromContext_def bindM_def attemptM_def returnM_def)
  have db: "database w1 = database w" using Require_effect [OF req assms(4,5)] by (simp add: auth_frame_def)
  have "projectScope (\<lambda>p' e'. ID e' = e \<and> ID p' = p) (database w1) \<noteq> []"
    using proj unfolding db project_in_def projectScope_def by (fastforce simp: filter_empty_conv)
  then obtain row where "first_row (projectScope (\<lambda>p' e'. ID e' = e \<and> ID p' = p) (database w1)) = Some row"
    by (cases "projectScope (\<lambda>p' e'. ID e' = e \<and> ID p' = p) (database w1)") (auto simp: first_row_def)
  then have "ProjectExists e p E w1 = (Inr True, w1\<lparr>tick := Suc (tick w1)\<rparr>)"
    using getM_reliable [OF assms(1), of "\<lambda>E. projectScope (\<lambda>p' e'. ID e' = e \<and> ID p' = p)" w1 row "''project''"] assms(3) by (simp add: ProjectExists_def project_FindByID_def bindM_def attemptM_def returnM_def)
  with has show ?thesis by (simp add: requireAccess_def bindO_def worldO_def returnO_def)
qed

section \<open>The server's policy\<close>

text \<open>The built-in policy is consistent, so the logic is always constructed.\<close>

lemma DefaultPolicy_valid: "validatePolicy lower DefaultPolicy = Inr ()"
  by code_simp

lemma NewAssetLogic_total: "\<exists>L. NewAssetLogic storage uuid lower = Inr L \<and> asset_storage L = storage \<and> asset_policy L = DefaultPolicy"
  by (simp add: NewAssetLogic_def newLogic_def bindA_def DefaultPolicy_valid)

section \<open>Completion\<close>

definition within_policy :: "'s AssetLogic \<Rightarrow> ObjectScope \<Rightarrow> Metadata \<Rightarrow> bool" where
  "within_policy L scope m \<longleftrightarrow>
     (\<exists>published. ParseObjectKey (asset_uuid L) (asset_lower L) (Metadata_Key m) = Inr published \<and> \<not> Scope_Temporary published \<and>
        Scope_EnvironmentID published = Scope_EnvironmentID scope \<and> Scope_ProjectID published = Scope_ProjectID scope \<and>
        Scope_Extension published = Scope_Extension scope) \<and>
     0 < Metadata_Size m \<and> Metadata_Size m \<le> MaxSize (asset_policy L) \<and>
     (\<exists>types mediaType. map_of (AllowedByExt (asset_policy L)) (Scope_Extension scope) = Some types \<and>
        ParseMediaType (asset_lower L) (Metadata_ContentType m) = Some mediaType \<and> (\<exists>t \<in> set types. EqualFold mediaType t))"

text \<open>Steps that leave the database world alone.\<close>

definition storage_only :: "('s, 'a) asset_op \<Rightarrow> bool" where
  "storage_only m \<longleftrightarrow> (\<forall>E w s r w' s'. m E (w, s) = (r, w', s') \<longrightarrow> w' = w)"

lemma storage_steps:
  "storage_only (returnO x)" "storage_only (failO e)" "storage_only (storageO n)"
  "(\<And>e. storage_only (f e)) \<Longrightarrow> (\<And>x. storage_only (g x)) \<Longrightarrow> storage_only (case q of Inl e \<Rightarrow> f e | Inr x \<Rightarrow> g x)"
  "storage_only m \<Longrightarrow> storage_only m' \<Longrightarrow> storage_only (if b then m else m')"
  unfolding storage_only_def by (auto simp: file_simps split: sum.splits)

lemma storageD: "storage_only m \<Longrightarrow> m E (w, s) = (r, w', s') \<Longrightarrow> w' = w"
  unfolding storage_only_def by blast

lemma storage_bind: "storage_only m \<Longrightarrow> (\<And>x. storage_only (k x)) \<Longrightarrow> storage_only (bindO m k)"
  unfolding storage_only_def bindO_run split_paired_Ex by metis

lemma completeObject_storage: "storage_only (completeObject L key)"
  unfolding completeObject_def by (intro storage_steps storage_bind)

lemma completeObject_Inr:
  assumes "completeObject L key E (w, s) = (Inr m, w', s')"
  shows "CompleteUpload (asset_storage L) key s = (Inr m, s')"
proof -
  obtain r s1 where r: "CompleteUpload (asset_storage L) key s = (r, s1)" by fastforce
  obtain d s2 where d: "DeleteIncomplete (asset_storage L) key s1 = (d, s2)" by fastforce
  show ?thesis using assms r d by (cases r; cases d) (auto simp: completeObject_def file_simps split: if_splits)
qed

lemma validatePublication_storage: "storage_only (validatePublication L scope m)"
  unfolding validatePublication_def by (intro storage_steps storage_bind)

lemma validatePublication_Inr:
  assumes "validatePublication L scope m E (w, s) = (Inr u, w', s')"
  shows "within_policy L scope m \<and> s' = s"
proof -
  have same: "same_publication scope (ParseObjectKey (asset_uuid L) (asset_lower L) (Metadata_Key m))"
    using assms by (auto simp: validatePublication_def file_simps split: if_splits)
  have valid: "validateCompleted L (Scope_Extension scope) m = Inr ()"
  proof (cases "validateCompleted L (Scope_Extension scope) m")
    case (Inl e)
    obtain d s1 where "DeleteIncomplete (asset_storage L) (Metadata_Key m) s = (d, s1)" by fastforce
    with Inl same assms show ?thesis by (cases d) (auto simp: validatePublication_def file_simps)
  qed auto
  with same assms have "s' = s" by (auto simp: validatePublication_def file_simps)
  with same valid show ?thesis
    by (auto simp: within_policy_def same_publication_def validateCompleted_def list_ex_iff word_gt_0 not_less
        split: sum.splits option.splits if_splits)
qed

text \<open>
  C10. Completing an asset is guarded and checked, whatever the storage does. The database is not changed. The storage is only
  touched when the key parses to the given environment and project, the project is live in that environment, and the
  caller holds the write permission for assets there. And metadata is returned only for a published (not temporary) key of the same
  environment, project and extension, with a size of at least one byte and at most the limit and a media type that
  the policy allows for that extension.
\<close>

theorem asset_completion_guarded:
  assumes "perm_coherent (database w) (cache w)" "plain_catalog (database w)"
    and run: "Asset_Complete L caller environmentID projectID key E (w, s) = (r, w', s')"
  shows "database w' = database w \<and>
    ((\<exists>e. r = Inl e) \<and> s' = s \<or>
     may_write (database w) caller environmentID projectID \<and>
     (\<exists>scope. ParseObjectKey (asset_uuid L) (asset_lower L) key = Inr scope \<and> Scope_EnvironmentID scope = environmentID \<and>
        Scope_ProjectID scope = projectID \<and> (\<forall>m. r = Inr m \<longrightarrow> within_policy L scope m)))"
proof (cases "ParseObjectKey (asset_uuid L) (asset_lower L) key")
  case (Inl e)
  with run show ?thesis by (auto simp: Asset_Complete_def file_simps)
next
  case (Inr scope)
  show ?thesis
  proof (cases "Scope_EnvironmentID scope = environmentID \<and> Scope_ProjectID scope = projectID")
    case False
    with run Inr show ?thesis by (auto simp: Asset_Complete_def file_simps)
  next
    case True
    have pos: "0 < environmentID" using ParseObjectKey_Inr(2) [OF Inr] True by simp
    obtain a w1 s1 where acc: "requireAccess caller environmentID projectID E (w, s) = (a, w1, s1)" by (metis prod_cases3)
    note access = requireAccess_effect [OF acc pos assms(1,2)]
    show ?thesis
    proof (cases a)
      case fails: (Inl e)
      with run Inr True acc have "r = Inl e" "w' = w1" "s' = s1" by (auto simp: Asset_Complete_def file_simps)
      with access(1,2) show ?thesis by simp
    next
      case ok: (Inr u)
      obtain b w2 s2 where obj: "completeObject L key E (w1, s1) = (b, w2, s2)" by (metis prod_cases3)
      have w2: "w2 = w1" by (rule storageD [OF completeObject_storage obj])
      have rest: "w' = w1 \<and> (\<forall>m. r = Inr m \<longrightarrow> within_policy L scope m)"
      proof (cases b)
        case (Inl e)
        with run Inr True acc ok obj w2 show ?thesis by (auto simp: Asset_Complete_def file_simps)
      next
        case metadata: (Inr m)
        obtain c w3 s3 where pub: "validatePublication L scope m E (w2, s2) = (c, w3, s3)" by (metis prod_cases3)
        have "w3 = w2" by (rule storageD [OF validatePublication_storage pub])
        moreover have "within_policy L scope m" if "c = Inr ()" using validatePublication_Inr [of L scope m E w2 s2] pub that by simp
        ultimately show ?thesis using run Inr True acc ok obj metadata pub w2 by (cases c) (auto simp: Asset_Complete_def file_simps)
      qed
      from ok have "a = Inr ()" by simp
      with rest access Inr True show ?thesis by auto
    qed
  qed
qed

section \<open>Invalid objects are removed\<close>

text \<open>The errors of the asset operations, and an error that is an integrity failure and none of the others.\<close>

definition asset_sentinels :: "asset_sentinel set" where
  "asset_sentinels = {Asset_ErrInvalidInput, Asset_ErrForbidden, ErrProjectNotFound, ErrAssetNotFound, ErrAssetConflict, ErrAssetIntegrity, ErrDependency}"

definition storage_error :: "asset_err \<Rightarrow> bool" where
  "storage_error e \<longleftrightarrow> (\<forall>t \<in> asset_sentinels. \<not> asset_Is t e)"

definition integrity_failure :: "asset_err \<Rightarrow> bool" where
  "integrity_failure e \<longleftrightarrow> (\<forall>t \<in> asset_sentinels. asset_Is t e \<longleftrightarrow> t = ErrAssetIntegrity)"

lemma storage_errorD: "storage_error e \<Longrightarrow> t \<in> asset_sentinels \<Longrightarrow> \<not> asset_Is t e"
  unfolding storage_error_def by blast

lemma storage_error_plain [simp]:
  "storage_error (object_invalid m)" "storage_error (object_integrity m)" "storage_error (storage_unavailable m)" "storage_error (Foreign x)"
  "storage_error (Sentinel t) \<longleftrightarrow> t \<notin> asset_sentinels" "storage_error (Wraps m es) \<longleftrightarrow> list_all storage_error es"
  by (auto simp: storage_error_def asset_sentinels_def list_ex_iff list_all_iff)

lemma asset_sentinels_storage [simp]: "ErrObjectNotFound \<notin> asset_sentinels" "ErrObjectConflict \<notin> asset_sentinels" "ErrObjectIntegrity \<notin> asset_sentinels"
  "ErrStorageUnavailable \<notin> asset_sentinels" "Object_ErrInvalidInput \<notin> asset_sentinels"
  by (simp_all add: asset_sentinels_def)

lemma integrity_failures:
  "integrity_failure (asset_integrity m)" "storage_error e \<Longrightarrow> integrity_failure (Wraps m [Sentinel ErrAssetIntegrity, e])"
  by (auto simp: integrity_failure_def asset_sentinels_def asset_integrity_def storage_error_def)

lemma validateCompleted_failure: "validateCompleted L extension m = Inl e \<Longrightarrow> integrity_failure e"
  by (auto simp: validateCompleted_def integrity_failures split: if_splits option.splits)

lemma integrity_public: "integrity_failure e \<Longrightarrow> assetPublicError e = API ''BadRequest'' ''uploaded asset failed integrity validation''"
  by (simp add: integrity_failure_def asset_sentinels_def assetPublicError_def)

lemma within_policy_iff:
  "within_policy L scope m \<longleftrightarrow> same_publication scope (ParseObjectKey (asset_uuid L) (asset_lower L) (Metadata_Key m)) \<and>
     validateCompleted L (Scope_Extension scope) m = Inr ()"
  by (auto simp: within_policy_def same_publication_def validateCompleted_def list_ex_iff word_gt_0 not_less
      split: sum.splits option.splits if_splits)

text \<open>
  A storage that keeps an object under the key of its upload: deletion removes it, completion answers for the key
  it was asked for, and the errors are the storage's own.
\<close>

locale in_place_storage =
  fixes storage :: "'s ObjectStorage" and present :: "'s \<Rightarrow> string \<Rightarrow> bool"
  assumes delete_removes: "DeleteIncomplete storage key s = (Inr u, s') \<Longrightarrow> \<not> present s' key"
    and complete_key: "CompleteUpload storage key s = (Inr m, s') \<Longrightarrow> Metadata_Key m = key"
    and own_errors: "CompleteUpload storage key s = (Inl e, s') \<Longrightarrow> storage_error e"
      "DeleteIncomplete storage key s = (Inl e, s') \<Longrightarrow> storage_error e"
begin

text \<open>What the storage rejects: it reports an integrity error, or the metadata is outside the policy.\<close>

definition unfit :: "'s AssetLogic \<Rightarrow> ObjectScope \<Rightarrow> Metadata asset_result \<Rightarrow> bool" where
  "unfit L scope q \<longleftrightarrow> (case q of Inr m \<Rightarrow> \<not> within_policy L scope m | Inl e \<Rightarrow> asset_Is ErrObjectIntegrity e \<and> \<not> asset_Is ErrObjectNotFound e)"

text \<open>The end of a refusal, after the deletion.\<close>

definition refused :: "string \<Rightarrow> asset_err \<Rightarrow> 's \<Rightarrow> 's \<Rightarrow> bool" where
  "refused key e s s' \<longleftrightarrow> (case DeleteIncomplete storage key s of
     (Inr _, s1) \<Rightarrow> s' = s1 \<and> integrity_failure e
   | (Inl _, s1) \<Rightarrow> s' = s1 \<and> asset_Is ErrDependency e)"

lemma completeObject_fails:
  assumes "asset_storage L = storage" "completeObject L key E (w, s) = (Inl e, w', s')" "CompleteUpload storage key s = (q, s1)"
  shows "\<exists>e0. q = Inl e0 \<and> (unfit L scope q \<and> refused key e s1 s' \<or> \<not> unfit L scope q \<and> \<not> asset_Is ErrAssetIntegrity e)"
proof (cases q)
  case (Inr m)
  with assms show ?thesis by (auto simp: completeObject_def file_simps)
next
  case (Inl e0)
  note own = own_errors(1) [OF assms(3) [unfolded Inl]]
  have not: "\<not> asset_Is ErrAssetIntegrity e0" using own by (rule storage_errorD) (simp add: asset_sentinels_def)
  obtain d s2 where del: "DeleteIncomplete storage key s1 = (d, s2)" by fastforce
  show ?thesis
  proof (cases "unfit L scope q")
    case True
    with Inl assms del show ?thesis
      by (cases d) (auto simp: unfit_def refused_def completeObject_def file_simps dependency_def integrity_failures(2) [OF own])
  next
    case False
    with Inl assms not show ?thesis by (auto simp: unfit_def completeObject_def file_simps dependency_def split: if_splits)
  qed
qed

lemma validatePublication_fails:
  assumes "asset_storage L = storage" "validatePublication L scope m E (w, s) = (Inl e, w', s')"
    "same_publication scope (ParseObjectKey (asset_uuid L) (asset_lower L) (Metadata_Key m))"
  shows "\<not> within_policy L scope m \<and> refused (Metadata_Key m) e s s'"
proof -
  obtain d s2 where del: "DeleteIncomplete storage (Metadata_Key m) s = (d, s2)" by fastforce
  with assms show ?thesis
    by (cases "validateCompleted L (Scope_Extension scope) m"; cases d)
      (auto simp: within_policy_iff validatePublication_def refused_def file_simps dependency_def dest: validateCompleted_failure)
qed

lemma requireAccess_errors: "requireAccess caller e p E (w, s) = (Inl err, w', s') \<Longrightarrow> \<not> asset_Is ErrAssetIntegrity err"
proof -
  assume run: "requireAccess caller e p E (w, s) = (Inl err, w', s')"
  obtain a w1 where has: "HasEnvironmentPermission caller e PermissionAssetWrite E w = (a, w1)" by fastforce
  obtain b w2 where ex: "ProjectExists e p E w1 = (b, w2)" by fastforce
  have "a = Inr False \<or> a = Inr True \<or> (\<exists>x. a = Inl x)" "b = Inr False \<or> b = Inr True \<or> (\<exists>x. b = Inl x)" by (metis (full_types) sum.exhaust)+
  with run has ex show ?thesis by (elim disjE exE) (auto simp: requireAccess_def file_simps dependency_def)
qed

text \<open>Past the access check, completion is refused exactly when the object is unfit or the storage fails otherwise.\<close>

lemma Asset_Complete_checked:
  assumes "asset_storage L = storage" "Asset_Complete L caller environmentID projectID key E (w, s) = (r, w', s')"
    "ParseObjectKey (asset_uuid L) (asset_lower L) key = Inr scope" "\<not> Scope_Temporary scope"
    "Scope_EnvironmentID scope = environmentID" "Scope_ProjectID scope = projectID"
    "requireAccess caller environmentID projectID E (w, s) = (Inr (), w1, s1)" "CompleteUpload storage key s1 = (q, s2)"
  shows "if unfit L scope q then \<exists>e. r = Inl e \<and> refused key e s2 s' else \<forall>e. r = Inl e \<longrightarrow> \<not> asset_Is ErrAssetIntegrity e"
proof -
  obtain b w2 s3 where obj: "completeObject L key E (w1, s1) = (b, w2, s3)" by (metis prod_cases3)
  show ?thesis
  proof (cases b)
    case (Inl e)
    with assms obj have "r = Inl e" "s' = s3" by (auto simp: Asset_Complete_def file_simps)
    with completeObject_fails [OF assms(1) obj [unfolded Inl] assms(8), of scope] show ?thesis by auto
  next
    case (Inr m)
    from completeObject_Inr [OF obj [unfolded Inr]] assms(1,8) have q: "q = Inr m" "s3 = s2" by simp_all
    then have key: "Metadata_Key m = key" using complete_key assms(8) by blast
    then have same: "same_publication scope (ParseObjectKey (asset_uuid L) (asset_lower L) (Metadata_Key m))"
      using assms(3,4) by (simp add: same_publication_def)
    obtain c w3 s4 where pub: "validatePublication L scope m E (w2, s3) = (c, w3, s4)" by (metis prod_cases3)
    show ?thesis
    proof (cases c)
      case (Inl e)
      with Inr assms obj pub have "r = Inl e" "s' = s4" by (auto simp: Asset_Complete_def file_simps)
      with validatePublication_fails [OF assms(1) pub [unfolded Inl] same] show ?thesis by (simp add: unfit_def q key)
    next
      case valid: (Inr u)
      with Inr assms obj pub have "r = Inr m" by (auto simp: Asset_Complete_def file_simps)
      moreover have "within_policy L scope m" using validatePublication_Inr [of L scope m E w2 s3] pub valid by simp
      ultimately show ?thesis by (simp add: unfit_def q)
    qed
  qed
qed

lemma refused_removed: "refused key e s s' \<Longrightarrow> \<not> asset_Is ErrDependency e \<Longrightarrow> integrity_failure e \<and> \<not> present s' key"
  by (auto simp: refused_def split: prod.splits sum.splits dest: delete_removes)

lemma Asset_Complete_removed:
  assumes "asset_storage L = storage" "Asset_Complete L caller environmentID projectID key E (w, s) = (Inl e, w', s')"
    "ParseObjectKey (asset_uuid L) (asset_lower L) key = Inr scope" "\<not> Scope_Temporary scope"
    "asset_Is ErrAssetIntegrity e" "\<not> asset_Is ErrDependency e"
  shows "integrity_failure e \<and> \<not> present s' key"
proof -
  obtain a w1 s1 where acc: "requireAccess caller environmentID projectID E (w, s) = (a, w1, s1)" by (metis prod_cases3)
  obtain q s2 where compl: "CompleteUpload storage key s1 = (q, s2)" by fastforce
  have scope: "Scope_EnvironmentID scope = environmentID" "Scope_ProjectID scope = projectID" and a: "a = Inr ()"
    using assms(2,3,5) acc requireAccess_errors [of caller environmentID projectID E w s] unfolding Asset_Complete_def
    by (cases a; auto simp: file_simps split: if_splits)+
  from Asset_Complete_checked [OF assms(1-4) scope acc [unfolded a] compl] assms(5)
  have "refused key e s2 s'" by (auto split: if_splits)
  then show ?thesis using assms(6) by (rule refused_removed)
qed

end

section \<open>The local storage\<close>

definition local_storage :: "local_config \<Rightarrow> local_env \<Rightarrow> local_files ObjectStorage" where
  "local_storage C V = \<lparr>PresignUpload = (\<lambda>input. local_PresignUpload C input V), CompleteUpload = (\<lambda>key. local_CompleteUpload C key V),
     DeleteIncomplete = (\<lambda>key. local_DeleteIncomplete C key V)\<rparr>"

text \<open>The errors of the local storage are never those of the asset operations.\<close>

definition own_errors_only :: "(asset_err, 'a) F \<Rightarrow> bool" where
  "own_errors_only m \<longleftrightarrow> (\<forall>V f e f'. m V f = (Inl e, f') \<longrightarrow> storage_error e)"

lemma own_steps:
  "own_errors_only (returnF x)" "storage_error e \<Longrightarrow> own_errors_only (failF e)"
  "(\<And>e. q = Inl e \<Longrightarrow> storage_error e) \<Longrightarrow> own_errors_only (liftF q)"
  "own_errors_only ctxErr" "own_errors_only (readF n)" "own_errors_only (attemptF o')"
  "own_errors_only m \<Longrightarrow> own_errors_only m' \<Longrightarrow> own_errors_only (if b then m else m')"
  by (auto simp: own_errors_only_def file_simps ctxErr_def readF_def classifyLocalReadError_def split: option.splits sum.splits prod.splits if_splits)

lemma own_bind: "own_errors_only m \<Longrightarrow> (\<And>x. own_errors_only (k x)) \<Longrightarrow> own_errors_only (bindF m k)"
  unfolding own_errors_only_def bindF_run by blast

lemma own_cases:
  "(\<And>x. own_errors_only (g x)) \<Longrightarrow> (\<And>e. own_errors_only (h e)) \<Longrightarrow> own_errors_only (case q of Inl e \<Rightarrow> h e | Inr x \<Rightarrow> g x)"
  "own_errors_only a \<Longrightarrow> (\<And>x. own_errors_only (g x)) \<Longrightarrow> own_errors_only (case z of None \<Rightarrow> a | Some x \<Rightarrow> g x)"
  "own_errors_only a \<Longrightarrow> own_errors_only b \<Longrightarrow> (\<And>x y. own_errors_only (c x y)) \<Longrightarrow>
     own_errors_only (case n of Directory \<Rightarrow> a | Symlink \<Rightarrow> b | RegularFile x y \<Rightarrow> c x y)"
  by (auto split: sum.splits option.splits node.splits)

lemma own_directories: "own_errors_only (createSafeDirectories current parts)" "own_errors_only (rejectSymlinkPath current parts)"
  by (induction parts arbitrary: current) (auto simp: Let_def intro!: own_steps own_bind own_cases split: if_splits)

lemma ParseObjectKey_errors: "ParseObjectKey uuid lower key = Inl e \<Longrightarrow> storage_error e"
  by (auto simp: ParseObjectKey_def parse_parts_def parseCanonicalPositiveID_def bindA_def Let_def split: if_splits sum.splits option.splits)

lemma own_safePath: "own_errors_only (safePath C key b)"
  unfolding safePath_def Let_def by (intro own_steps own_bind own_cases own_directories) (auto dest: ParseObjectKey_errors)

lemma own_local: "own_errors_only (local_CompleteUpload C key)" "own_errors_only (local_DeleteIncomplete C key)"
proof -
  have "storage_error e" if "validateCompletedMetadata lower m = Inl e" for lower m e
    using that by (auto simp: validateCompletedMetadata_def split: if_splits sum.splits)
  then show "own_errors_only (local_CompleteUpload C key)"
    unfolding local_CompleteUpload_def local_ReadMetadata_def by (intro own_steps own_bind own_cases own_safePath) auto
  show "own_errors_only (local_DeleteIncomplete C key)"
    unfolding local_DeleteIncomplete_def Let_def by (intro own_steps own_bind own_cases own_safePath) auto
qed

lemma safePath_at: "safePath C key b V f = (Inr p, f') \<Longrightarrow> p = object_path key"
proof -
  assume run: "safePath C key b V f = (Inr p, f')"
  then obtain s where "ParseObjectKey (local_uuid C) (local_lower C) key = Inr s" by (auto simp: safePath_def file_simps)
  then have "path_Clean key = key" by (auto simp: ParseObjectKey_def split: if_splits)
  with run show ?thesis by (auto simp: safePath_def file_simps Let_def object_path_def split: if_splits)
qed

lemma os_Remove_gone: "os_Remove p V f = (r, f') \<Longrightarrow> r \<in> {Inr (), Inl NotExist} \<Longrightarrow> node_at f' p = None"
  by (auto simp: os_Remove_def os_call_def split: if_splits option.splits)

lemma os_Remove_less: "os_Remove p V f = (r, f') \<Longrightarrow> node_at f q = None \<Longrightarrow> node_at f' q = None"
  by (auto simp: os_Remove_def os_call_def split: if_splits option.splits)

lemma local_delete_removes:
  assumes "local_DeleteIncomplete C key V f = (Inr u, f')"
  shows "node_at f' (object_path key) = None"
proof -
  from assms obtain f1 first f2 second where rm: "os_Remove (object_path key) V f1 = (first, f2)"
      "os_Remove (object_path (key @ localMetadataSuffix)) V f2 = (second, f')" "first \<in> {Inr (), Inl NotExist}"
    by (auto simp: local_DeleteIncomplete_def file_simps Let_def dest!: safePath_at split: if_splits)
  show ?thesis by (rule os_Remove_less [OF rm(2) os_Remove_gone [OF rm(1,3)]])
qed

lemma own_errorsD: "own_errors_only m \<Longrightarrow> m V f = (Inl e, f') \<Longrightarrow> storage_error e"
  unfolding own_errors_only_def by blast

definition yields :: "('a \<Rightarrow> bool) \<Rightarrow> ('e, 'a) F \<Rightarrow> bool" where
  "yields P m \<longleftrightarrow> (\<forall>V f x f'. m V f = (Inr x, f') \<longrightarrow> P x)"

lemma yields_steps:
  "P x \<Longrightarrow> yields P (returnF x)" "yields P (failF e)" "(\<And>x. yields P (k x)) \<Longrightarrow> yields P (bindF m k)"
  "(\<And>x. yields P (g x)) \<Longrightarrow> (\<And>e. yields P (h e)) \<Longrightarrow> yields P (case q of Inl e \<Rightarrow> h e | Inr x \<Rightarrow> g x)"
  "yields P a \<Longrightarrow> (\<And>x. yields P (g x)) \<Longrightarrow> yields P (case z of None \<Rightarrow> a | Some x \<Rightarrow> g x)"
  "yields P a \<Longrightarrow> yields P b \<Longrightarrow> (\<And>x y. yields P (c x y)) \<Longrightarrow> yields P (case n of Directory \<Rightarrow> a | Symlink \<Rightarrow> b | RegularFile x y \<Rightarrow> c x y)"
  unfolding yields_def by (auto simp: file_simps split: sum.splits option.splits node.splits) blast

lemma local_complete_key: "local_CompleteUpload C key V f = (Inr m, f') \<Longrightarrow> Metadata_Key m = key"
proof -
  assume "local_CompleteUpload C key V f = (Inr m, f')"
  then obtain m' f1 where "local_ReadMetadata C key V f = (Inr m', f1)" and v: "validateCompletedMetadata (local_lower C) m' = Inr m"
    by (auto simp: local_CompleteUpload_def file_simps)
  moreover have "yields (\<lambda>m. Metadata_Key m = key) (local_ReadMetadata C key)"
    unfolding local_ReadMetadata_def by (intro yields_steps) simp
  ultimately have "Metadata_Key m' = key" unfolding yields_def by blast
  with v show ?thesis by (auto simp: validateCompletedMetadata_def split: if_splits sum.splits)
qed

interpretation lst: in_place_storage "local_storage C V" "\<lambda>f key. node_at f (object_path key) \<noteq> None" for C V
  by unfold_locales (auto simp: local_storage_def dest: local_delete_removes local_complete_key own_errorsD [OF own_local(1)] own_errorsD [OF own_local(2)])

text \<open>
  C11. An object that fails validation does not stay. With the local storage, let an upload with a published key be completed. If the
  caller has access and the stored object differs from its declaration or violates the policy, completion is refused:
  when the storage can delete the object, the object is gone and the client is told of a bad request, and when
  it cannot, the error is that of a failed dependency. And conversely, whenever completion ends with an integrity error
  without a failed dependency, the object is gone and the client is told of a bad request.
\<close>

theorem invalid_asset_removed:
  assumes storage: "asset_storage L = local_storage C V"
    and run: "Asset_Complete L caller environmentID projectID key E (w, f) = (r, w', f')"
    and scope: "ParseObjectKey (asset_uuid L) (asset_lower L) key = Inr scope" "\<not> Scope_Temporary scope"
  shows "(\<forall>w1 f1 q f2 d f3. Scope_EnvironmentID scope = environmentID \<longrightarrow> Scope_ProjectID scope = projectID \<longrightarrow>
      requireAccess caller environmentID projectID E (w, f) = (Inr (), w1, f1) \<longrightarrow> local_CompleteUpload C key V f1 = (q, f2) \<longrightarrow>
      (case q of Inr m \<Rightarrow> \<not> within_policy L scope m | Inl e \<Rightarrow> asset_Is ErrObjectIntegrity e \<and> \<not> asset_Is ErrObjectNotFound e) \<longrightarrow>
      local_DeleteIncomplete C key V f2 = (d, f3) \<longrightarrow>
      (\<exists>e. r = Inl e \<and> (if d = Inr () then node_at f' (object_path key) = None \<and>
           assetPublicError e = API ''BadRequest'' ''uploaded asset failed integrity validation'' else asset_Is ErrDependency e))) \<and>
    (\<forall>e. r = Inl e \<longrightarrow> asset_Is ErrAssetIntegrity e \<longrightarrow> \<not> asset_Is ErrDependency e \<longrightarrow>
      node_at f' (object_path key) = None \<and> assetPublicError e = API ''BadRequest'' ''uploaded asset failed integrity validation'')"
proof (intro conjI allI impI)
  fix w1 f1 q f2 d f3
  assume own: "Scope_EnvironmentID scope = environmentID" "Scope_ProjectID scope = projectID"
    and acc: "requireAccess caller environmentID projectID E (w, f) = (Inr (), w1, f1)" and compl: "local_CompleteUpload C key V f1 = (q, f2)"
    and bad: "case q of Inr m \<Rightarrow> \<not> within_policy L scope m | Inl e \<Rightarrow> asset_Is ErrObjectIntegrity e \<and> \<not> asset_Is ErrObjectNotFound e"
    and del: "local_DeleteIncomplete C key V f2 = (d, f3)"
  have "CompleteUpload (local_storage C V) key f1 = (q, f2)" using compl by (simp add: local_storage_def)
  from lst.Asset_Complete_checked [OF storage run scope own acc this] bad
  obtain e where e: "r = Inl e" "lst.refused C V key e f2 f'" by (auto simp: lst.unfit_def)
  have del': "DeleteIncomplete (local_storage C V) key f2 = (d, f3)" using del by (simp add: local_storage_def)
  show "\<exists>e. r = Inl e \<and> (if d = Inr () then node_at f' (object_path key) = None \<and>
      assetPublicError e = API ''BadRequest'' ''uploaded asset failed integrity validation'' else asset_Is ErrDependency e)"
  proof (cases "d = Inr ()")
    case True
    with e(2) del' have "f' = f3" "integrity_failure e" by (simp_all add: lst.refused_def)
    with e(1) del True local_delete_removes integrity_public show ?thesis by auto
  next
    case False
    with e del' show ?thesis by (cases d) (auto simp: lst.refused_def)
  qed
next
  fix e
  assume e: "r = Inl e" and i: "asset_Is ErrAssetIntegrity e" "\<not> asset_Is ErrDependency e"
  from lst.Asset_Complete_removed [OF storage run [unfolded e] scope i] integrity_public
  show "node_at f' (object_path key) = None" "assetPublicError e = API ''BadRequest'' ''uploaded asset failed integrity validation''" by auto
qed

section \<open>An example\<close>

lemma reaches_delete:
  assumes "canonical_uuids (local_uuid C)" "ParseObjectKey (local_uuid C) (local_lower C) (Upload_Key claims) = Inr s" "calm V"
    "stored C claims body (dirs_to (Upload_Key claims) g) (node_at f)" "g [] = Some Directory"
  shows "\<exists>f'. local_DeleteIncomplete C (Upload_Key claims) V f = (Inr (), f')"
proof -
  let ?P = "object_path (Upload_Key claims)" and ?S = "sidecar_path (Upload_Key claims)" and ?h = "node_at f"
  note tree = stored_tree [OF assms(1,2,4,5)]
  from tree(1) obtain encoded t t' where P: "?h ?P = Some (RegularFile body t)" and S: "?h ?S = Some (RegularFile encoded t')" by blast
  have S': "(?h(?P := None)) ?S = Some (RegularFile encoded t')" using S key_paths(6) [OF assms(1,2)] by simp
  have "reaches (local_DeleteIncomplete C (Upload_Key claims)) V f () (?h(?P := None, ?S := None))"
    unfolding local_DeleteIncomplete_def sidecar_path_def [symmetric] Let_def
    by (rule reaches_bind [OF reaches_calls(1) [OF assms(3) refl]], rule reaches_bind [OF reaches_open [where g = ?h, OF assms(1-3) _ tree(2)]], assumption, assumption,
        rule reaches_bind [OF reaches_attempt [OF reaches_calls(11) [where g = ?h, OF assms(3) _ P]]], assumption,
        rule reaches_bind [OF reaches_attempt [OF reaches_calls(11) [where g = "?h(?P := None)", OF assms(3) _ S']]], assumption)
      (simp add: reaches_basic)
  then show ?thesis by (auto simp: reaches_def)
qed

definition asset_world :: world where
  "asset_world = example_world\<lparr>database := example_db\<lparr>users := map (\<lambda>u. u\<lparr>u_IsSystemAdmin := True\<rparr>) (users example_db)\<rparr>\<rparr>"

definition asset_example :: "Policy \<Rightarrow> local_files AssetLogic" where
  "asset_example policy = \<lparr>asset_storage = local_storage example_storage example_calm, asset_policy = policy,
     asset_uuid = plain_uuid, asset_lower = (\<lambda>r. [])\<rparr>"

lemma asset_world_ok:
  "perm_coherent (database asset_world) (cache asset_world)" "plain_catalog (database asset_world)" "reliable example_engine"
  "may_write (database asset_world) (Some 7) 1 1"
proof -
  show "perm_coherent (database asset_world) (cache asset_world)"
    by (simp add: perm_coherent_def asset_world_def example_world_def newMemory_def memory_holds_def)
  show "plain_catalog (database asset_world)" by code_simp
  show "reliable example_engine" by (simp add: reliable_def example_engine_def)
  have "\<exists>env. admitted (database asset_world) 7 1 True env"
    by (auto simp: admitted_def asset_world_def example_world_def example_db_def caller_row_def live_environment_def first_row_def)
  then show "may_write (database asset_world) (Some 7) 1 1"
    by (auto simp: may_write_def authorised_def project_in_def asset_world_def example_world_def example_db_def)
qed

text \<open>After the example upload, access is granted and the storage completes it.\<close>

lemma example_completion:
  "\<exists>f w1 f1 m. requireAccess (Some 7) 1 1 example_engine (asset_world, f) = (Inr (), w1, f) \<and>
    local_CompleteUpload example_storage example_object example_calm f = (Inr m, f1) \<and> as_declared example_claims m \<and>
    stored example_storage example_claims ''png'' (dirs_to (Upload_Key example_claims) (node_at example_tree)) (node_at f1)"
proof -
  from example_uploaded obtain f where f: "stored example_storage example_claims ''png'' (dirs_to (Upload_Key example_claims) (node_at example_tree)) (node_at f)"
    by (auto simp: example_claims_def)
  note valid = example_claims_valid normalizeContentType_stable(2) [OF example_claims_valid(4)]
  have root: "node_at example_tree [] = Some Directory" using example_room by (simp add: upload_room_def)
  have "int (length ''png'') = uint (Upload_Size example_claims)" by (simp add: example_claims_def)
  from ends_complete [OF example_facts(1) valid(1) example_facts(4) f root valid(3,2) this valid(5)] obtain m f1 where
    m: "local_CompleteUpload example_storage (Upload_Key example_claims) example_calm f = (Inr m, f1)" "as_declared example_claims m" "node_at f1 = node_at f"
    by (auto simp: ends_eq)
  moreover obtain w1 where "requireAccess (Some 7) 1 1 example_engine (asset_world, f) = (Inr (), w1, f)"
    using requireAccess_total [OF asset_world_ok(3,4) _ asset_world_ok(1,2), of f] by auto
  ultimately show ?thesis using f by (auto simp: example_claims_def)
qed

lemma example_published:
  assumes "as_declared example_claims m"
  shows "Metadata_Key m = example_object" "Metadata_Size m = 3" "Metadata_ContentType m = ''image/png''"
    "same_publication example_scope (ParseObjectKey plain_uuid (\<lambda>r. []) (Metadata_Key m))"
  using assms by (simp_all add: as_declared_def example_claims_def example_parsed same_publication_def example_scope_def)

theorem asset_completion_guarded_witness:
  "\<exists>f m w' f'. Asset_Complete (asset_example DefaultPolicy) (Some 7) 1 1 example_object example_engine (asset_world, f) = (Inr m, w', f') \<and>
    database w' = database asset_world \<and> within_policy (asset_example DefaultPolicy) example_scope m"
proof -
  from example_completion obtain f w1 f1 m where c: "requireAccess (Some 7) 1 1 example_engine (asset_world, f) = (Inr (), w1, f)"
    "local_CompleteUpload example_storage example_object example_calm f = (Inr m, f1)" "as_declared example_claims m" by blast
  note p = example_published [OF c(3)]
  have media: "ParseMediaType (\<lambda>r. []) ''image/png'' = Some ''image/png''" by (rule normalizeContentType_stable(3) [OF example_media])
  have "validateCompleted (asset_example DefaultPolicy) ''.png'' m = Inr ()"
    using p(2,3) media by (simp add: validateCompleted_def asset_example_def DefaultPolicy_def DefaultMaxSize_def MaxUploadSize_def EqualFold_def)
  then have run: "Asset_Complete (asset_example DefaultPolicy) (Some 7) 1 1 example_object example_engine (asset_world, f) = (Inr m, w1, f1)"
    using c(1,2) p(4) example_parsed
    by (simp add: Asset_Complete_def asset_example_def example_scope_def bindO_def completeObject_def storageO_def local_storage_def returnO_def validatePublication_def)
  from asset_completion_guarded [OF asset_world_ok(1,2) run] have "database w1 = database asset_world"
    "within_policy (asset_example DefaultPolicy) example_scope m"
    using example_parsed by (auto simp: asset_example_def)
  with run show ?thesis by blast
qed

theorem invalid_asset_removed_witness:
  "\<exists>f e w' f'. Asset_Complete (asset_example (DefaultPolicy\<lparr>MaxSize := 2\<rparr>)) (Some 7) 1 1 example_object example_engine (asset_world, f) = (Inl e, w', f') \<and>
    assetPublicError e = API ''BadRequest'' ''uploaded asset failed integrity validation'' \<and> node_at f' (object_path example_object) = None"
proof -
  let ?L = "asset_example (DefaultPolicy\<lparr>MaxSize := 2\<rparr>)" and ?e = "asset_integrity ''completed asset size is invalid''"
  from example_completion obtain f w1 f1 m where c: "requireAccess (Some 7) 1 1 example_engine (asset_world, f) = (Inr (), w1, f)"
    "local_CompleteUpload example_storage example_object example_calm f = (Inr m, f1)" "as_declared example_claims m"
    "stored example_storage example_claims ''png'' (dirs_to (Upload_Key example_claims) (node_at example_tree)) (node_at f1)" by blast
  note p = example_published [OF c(3)]
  have root: "node_at example_tree [] = Some Directory" using example_room by (simp add: upload_room_def)
  from reaches_delete [OF example_facts(1) example_claims_valid(1) example_facts(4) c(4) root] obtain f2 where
    d: "local_DeleteIncomplete example_storage example_object example_calm f1 = (Inr (), f2)" by (auto simp: example_claims_def)
  have "validateCompleted ?L ''.png'' m = Inl ?e" using p(2) by (simp add: validateCompleted_def asset_example_def)
  then have run: "Asset_Complete ?L (Some 7) 1 1 example_object example_engine (asset_world, f) = (Inl ?e, w1, f2)"
    using c(1,2) d p(1,4) example_parsed
    by (simp add: Asset_Complete_def asset_example_def example_scope_def bindO_def completeObject_def storageO_def local_storage_def returnO_def validatePublication_def failO_def)
  have L: "asset_storage ?L = local_storage example_storage example_calm" "ParseObjectKey (asset_uuid ?L) (asset_lower ?L) example_object = Inr example_scope"
    "\<not> Scope_Temporary example_scope"
    using example_parsed by (simp_all add: asset_example_def) (simp add: example_scope_def)
  have bad: "\<not> within_policy ?L example_scope m" using p(2) by (simp add: within_policy_def asset_example_def)
  from invalid_asset_removed [OF L(1) run L(2,3)] c(1,2) d bad have "node_at f2 (object_path example_object) = None \<and>
      assetPublicError ?e = API ''BadRequest'' ''uploaded asset failed integrity validation''"
    by (fastforce simp: example_scope_def)
  with run show ?thesis by blast
qed

end
