(* ===== verification/Listing.thy ===== *)
theory Listing
  imports Admin Publish_Props
begin

text \<open>
  The loops over pages end with every row. On an engine that does not fail, the fuel of \<open>all_pages\<close> is enough, and the
  loops of \<^verbatim>\<open>logic/config.go\<close>, \<^verbatim>\<open>structure.go\<close>, \<^verbatim>\<open>enum.go\<close> and \<^verbatim>\<open>project.go\<close> return exactly the rows of their selection, converted,
  each once and in order.
\<close>

section \<open>Pages\<close>

lemma paginate_page:
  assumes "reliable E" "0 \<le> offset"
  shows "\<exists>w' res. paginate rows \<lparr>Page_Offset = offset, Page_Limit = MaxPageSize\<rparr> E w = (Inr res, w') \<and> database w' = database w \<and>
    Result_Items res = take 100 (drop (nat offset) (rows E (database w))) \<and> Result_Total res = int (length (rows E (database w)))"
proof -
  have "NormalizePage \<lparr>Page_Offset = offset, Page_Limit = MaxPageSize\<rparr> = \<lparr>Page_Offset = offset, Page_Limit = MaxPageSize\<rparr>"
    using assms(2) by (simp add: NormalizePage_def MaxPageSize_def)
  then show ?thesis
    using assms(1) by (auto simp: paginate_def Let_def bindM_def mapErrM_def queryM_reliable returnM_def MaxPageSize_def)
qed

text \<open>A conversion of rows that works row by row.\<close>

definition rowwise :: "('r list \<Rightarrow> 'b list result) \<Rightarrow> bool" where
  "rowwise convert \<longleftrightarrow> convert [] = Inr [] \<and>
     (\<forall>xs ys zs. convert (xs @ ys) = Inr zs \<longrightarrow> (\<exists>a b. convert xs = Inr a \<and> convert ys = Inr b \<and> zs = a @ b \<and> length a = length xs))"

lemma page_loop_complete:
  assumes "reliable E" "rowwise convert" "\<And>page. fetch page = paginate rows page" "convert (rows E (database w)) = Inr out"
    "k \<le> length (rows E (database w))" "convert (take k (rows E (database w))) = Inr items" "length (rows E (database w)) < k + 100 * fuel"
  shows "\<exists>w'. page_loop fuel fetch convert (int k) items E w = (Inr out, w')"
  using assms(4-7)
proof (induction fuel arbitrary: k items w)
  case (Suc fuel)
  let ?rows = "rows E (database w)"
  obtain w1 res where page: "fetch \<lparr>Page_Offset = int k, Page_Limit = MaxPageSize\<rparr> E w = (Inr res, w1)" and w1: "database w1 = database w"
    and res: "Result_Items res = take 100 (drop k ?rows)" "Result_Total res = int (length ?rows)"
    using paginate_page [OF assms(1), of "int k" rows w] by (auto simp: assms(3))
  have "convert ((take k ?rows @ take 100 (drop k ?rows)) @ drop 100 (drop k ?rows)) = Inr out"
    using Suc.prems(1) by (metis append.assoc append_take_drop_id)
  then obtain a b where ab: "convert (take k ?rows @ take 100 (drop k ?rows)) = Inr a" "convert (drop 100 (drop k ?rows)) = Inr b" "out = a @ b"
      "length a = length (take k ?rows @ take 100 (drop k ?rows))" using assms(2) unfolding rowwise_def by meson
  then obtain c where c: "convert (take 100 (drop k ?rows)) = Inr c" "a = items @ c"
    using assms(2) Suc.prems(3) unfolding rowwise_def by (metis sum.inject(2))
  have len: "length a = min (length ?rows) (k + 100)" using ab(4) Suc.prems(2) by auto
  show ?case
  proof (cases "length ?rows \<le> k + 100")
    case True
    then have "b = []" using ab(2) assms(2) by (simp add: rowwise_def)
    moreover have "int (length (items @ c)) \<ge> Result_Total res" using True len c(2) res(2) by simp
    ultimately have "page_loop (Suc fuel) fetch convert (int k) items E w = (Inr out, w1)"
      using page res(1) c ab(3) by (simp add: bindM_def liftR_def returnM_def Let_def)
    then show ?thesis by blast
  next
    case False
    then have more: "\<not> int (length (items @ c)) \<ge> Result_Total res" "Result_Items res \<noteq> []" using len c(2) res by auto
    have "convert (take (k + 100) (rows E (database w1))) = Inr (items @ c)"
      using ab(1) c(2) by (simp add: w1 take_add)
    then obtain w' where "page_loop fuel fetch convert (int (k + 100)) (items @ c) E w1 = (Inr out, w')"
      using Suc.IH [of w1 "k + 100" "items @ c"] Suc.prems(1,4) False by (auto simp: w1)
    then have "page_loop (Suc fuel) fetch convert (int k) items E w = (Inr out, w')"
      using page res(1) c more by (simp add: bindM_def liftR_def returnM_def Let_def MaxPageSize_def)
    then show ?thesis by blast
  qed
qed simp

lemma all_pages_complete:
  assumes "reliable E" "rowwise convert" "\<And>page. fetch page = paginate rows page" "convert (rows E (database w)) = Inr out"
    "length (rows E (database w)) \<le> length (table (database w))"
  shows "fst (all_pages table fetch convert E w) = Inr out"
  using page_loop_complete [OF assms(1-4), of 0 "[]" "Suc (length (table (database w)))"] assms(2,5)
  by (auto simp: all_pages_def rowwise_def)

section \<open>Conversions\<close>

lemma rowwise_Inr: "rowwise Inr"
  by (auto simp: rowwise_def)

lemma rowwise_forR: "rowwise (\<lambda>xs. bindR (forR f xs) (\<lambda>ys. Inr (map g ys)))"
proof -
  have "forR f (xs @ ys) = bindR (forR f xs) (\<lambda>a. bindR (forR f ys) (\<lambda>b. Inr (a @ b)))" for xs ys
    by (induction xs) (auto simp: bindR_def split: sum.splits)
  moreover have "forR f xs = Inr a \<Longrightarrow> length a = length xs" for xs a
    by (simp add: forR_Inr_iff list_all2_lengthD)
  ultimately show ?thesis by (fastforce simp: rowwise_def result_simps)
qed

section \<open>Selections\<close>

lemma concat_one:
  assumes "distinct (map ident ys)" "\<And>y. length (f y) \<le> 1" "\<And>y. f y \<noteq> [] \<Longrightarrow> ident y = i"
  shows "length (concat (map f ys)) \<le> 1"
  using assms(1)
proof (induction ys)
  case (Cons y ys)
  show ?case
  proof (cases "f y = []")
    case False
    then have "ident y = i" by (rule assms(3))
    then have "i \<notin> ident ` set ys" using Cons.prems by auto
    then have "\<forall>z \<in> set ys. f z = []" using assms(3) by blast
    then have "concat (map f ys) = []" by simp
    then show ?thesis using assms(2) [of y] by (simp only: list.map concat.simps append_Nil2)
  qed (use Cons in simp)
qed simp

lemma concat_rows: "(\<And>x. length (f x) \<le> 1) \<Longrightarrow> length (concat (map f xs)) \<le> length xs"
proof (induction xs)
  case (Cons x xs)
  from Cons.prems [of x] Cons.IH [OF Cons.prems] show ?case by simp
qed simp

lemma configScope_length:
  assumes "distinct (map ID (projects d))" "distinct (map ID (environments d))" "\<And>c p e. cond c p e \<Longrightarrow> ID e = i"
  shows "length (configScope cond d) \<le> length (configs d)"
  unfolding configScope_def
proof (rule concat_rows)
  fix c
  have inner: "length (concat (map (\<lambda>e. if ID p = c_ProjectID c \<and> DeletedAt p = None \<and> e_ProjectID e = ID p \<and> DeletedAt e = None \<and>
      DeletedAt c = None \<and> cond c p e then [c] else []) (environments d))) \<le> 1" for p
    by (rule concat_one [OF assms(2), where i = i]) (use assms(3) in \<open>auto split: if_splits\<close>)
  show "length (concat (map (\<lambda>p. concat (map (\<lambda>e. if ID p = c_ProjectID c \<and> DeletedAt p = None \<and> e_ProjectID e = ID p \<and> DeletedAt e = None \<and>
      DeletedAt c = None \<and> cond c p e then [c] else []) (environments d))) (projects d))) \<le> 1"
    by (rule concat_one [OF assms(1) inner, where i = "c_ProjectID c"]) (auto split: if_splits)
qed


lemma childScope_length:
  assumes "distinct (map ID (configs d))" "distinct (map ID (projects d))" "distinct (map ID (environments d))" "\<And>s c p e. cond s c p e \<Longrightarrow> ID e = i"
  shows "length (childScopeIncludingDeleted table cond d) \<le> length (table d)"
  unfolding childScopeIncludingDeleted_def
proof (rule concat_rows)
  fix s
  let ?row = "\<lambda>c p e. if ID c = d_ConfigID s \<and> DeletedAt c = None \<and> ID p = c_ProjectID c \<and> DeletedAt p = None \<and>
    e_ProjectID e = ID p \<and> DeletedAt e = None \<and> cond s c p e then [s] else []"
  have env: "length (concat (map (?row c p) (environments d))) \<le> 1" for c p
    by (rule concat_one [OF assms(3), where i = i]) (use assms(4) in \<open>auto split: if_splits\<close>)
  have project: "length (concat (map (\<lambda>p. concat (map (?row c p) (environments d))) (projects d))) \<le> 1" for c
    by (rule concat_one [OF assms(2) env, where i = "c_ProjectID c"]) (auto split: if_splits)
  show "length (concat (map (\<lambda>c. concat (map (\<lambda>p. concat (map (?row c p) (environments d))) (projects d))) (configs d))) \<le> 1"
    by (rule concat_one [OF assms(1) project, where i = "d_ConfigID s"]) (auto split: if_splits)
qed

section \<open>Listings\<close>

text \<open>What a listing selects, in its order: the live configs of an environment that pass the filter, and the live structures or enums of one config.\<close>

definition selected_configs :: "engine \<Rightarrow> int \<Rightarrow> ConfigFilter \<Rightarrow> db \<Rightarrow> config_row list" where
  "selected_configs E environmentID flt d = rev (sort_key ID (configScope (\<lambda>c p e.
     ID e = environmentID \<and> eqIf (Filter_ProjectID flt) (ID p) \<and> eqText E (Filter_ProjectKey flt) (p_Key p) \<and> eqText E (Filter_Key flt) (c_Key c)) d))"

definition selected_children :: "child_table \<Rightarrow> int \<Rightarrow> ChildFilter \<Rightarrow> db \<Rightarrow> child_row list" where
  "selected_children T environmentID flt d = sort_key ID (childScopeIncludingDeleted (ct_rows T) (\<lambda>s c p e.
     DeletedAt s = None \<and> ID e = environmentID \<and> ID p = CFilter_ProjectID flt \<and> ID c = CFilter_ConfigID flt \<and>
     neqIf (CFilter_IgnoreDependencyID flt) (ID s)) d)"

text \<open>
  C15. The listings that go through pages end and leave nothing out. When no statement fails and primary keys are unique, the
  loop over pages of configs returns exactly the selected rows, each once and in the order of the selection,
  however many pages there are; and the loops over the structures and the enums of a config return exactly their converted
  rows when these convert.
\<close>

theorem listings_complete:
  assumes "reliable E" "distinct (map ID (configs (database w)))" "distinct (map ID (projects (database w)))" "distinct (map ID (environments (database w)))"
  shows "fst (all_pages configs (config_List environmentID flt) Inr E w) = Inr (selected_configs E environmentID flt (database w)) \<and>
    (StructuresToProto K (selected_children structures_table environmentID cf (database w)) = Inr ss \<longrightarrow>
       fst (all_pages structure_rows (structure_List environmentID cf) (StructuresToProto K) E w) = Inr ss) \<and>
    (EnumsToProto (selected_children enums_table environmentID (cf\<lparr>CFilter_IgnoreDependencyID := None\<rparr>) (database w)) = Inr es \<longrightarrow>
       fst (all_pages enum_rows (enum_List environmentID cf) EnumsToProto E w) = Inr es)"
proof (intro conjI impI)
  have "length (selected_configs E environmentID flt (database w)) \<le> length (configs (database w))"
    unfolding selected_configs_def by (simp, rule configScope_length [OF assms(3,4), where i = environmentID]) simp
  then show "fst (all_pages configs (config_List environmentID flt) Inr E w) = Inr (selected_configs E environmentID flt (database w))"
    by (intro all_pages_complete [OF assms(1) rowwise_Inr, where rows = "\<lambda>E. selected_configs E environmentID flt"])
      (simp_all add: config_List_def selected_configs_def [abs_def])
  have child: "length (selected_children T e f (database w)) \<le> length (ct_rows T (database w))" for T e f
    unfolding selected_children_def by (simp, rule childScope_length [OF assms(2-4), where i = e]) simp
  have each: "rowwise (StructuresToProto K)" "rowwise EnumsToProto"
    using rowwise_forR [of "StructureToProto K" Some] rowwise_forR [of EnumToProto Some]
    by (simp_all add: StructuresToProto_def [abs_def] EnumsToProto_def [abs_def])
  show "fst (all_pages structure_rows (structure_List environmentID cf) (StructuresToProto K) E w) = Inr ss"
    if "StructuresToProto K (selected_children structures_table environmentID cf (database w)) = Inr ss"
    by (rule all_pages_complete [OF assms(1) each(1), where rows = "\<lambda>E. selected_children structures_table environmentID cf"])
      (use that child [of structures_table] in \<open>simp_all add: structure_List_def child_List_def selected_children_def [abs_def] structures_table_def\<close>)
  show "fst (all_pages enum_rows (enum_List environmentID cf) EnumsToProto E w) = Inr es"
    if "EnumsToProto (selected_children enums_table environmentID (cf\<lparr>CFilter_IgnoreDependencyID := None\<rparr>) (database w)) = Inr es"
    by (rule all_pages_complete [OF assms(1) each(2), where rows = "\<lambda>E. selected_children enums_table environmentID (cf\<lparr>CFilter_IgnoreDependencyID := None\<rparr>)"])
      (use that child [of enums_table environmentID "cf\<lparr>CFilter_IgnoreDependencyID := None\<rparr>"] in \<open>simp_all add: enum_List_def child_List_def selected_children_def [abs_def] enums_table_def\<close>)
qed


definition many_configs :: world where
  "many_configs = publish_world\<lparr>database := (database publish_world)\<lparr>configs := map (\<lambda>i. port_config\<lparr>ID := int i, c_Key := FormatInt (int i)\<rparr>) [1..<104]\<rparr>\<rparr>"

definition every_config :: ConfigFilter where
  "every_config = \<lparr>Filter_ProjectID = None, Filter_ProjectKey = None, Filter_Key = None\<rparr>"

theorem listings_complete_witness:
  "map ID (projr (fst (all_pages configs (config_List 1 every_config) Inr example_engine many_configs))) = rev (map int [1..<104])"
proof -
  have "reliable example_engine" by (simp add: reliable_def example_engine_def)
  moreover have "distinct (map ID (configs (database many_configs)))" "distinct (map ID (projects (database many_configs)))"
    "distinct (map ID (environments (database many_configs)))" by code_simp+
  ultimately have "fst (all_pages configs (config_List 1 every_config) Inr example_engine many_configs) =
      Inr (selected_configs example_engine 1 every_config (database many_configs))"
    using listings_complete [of example_engine many_configs 1 every_config] by blast
  moreover have "map ID (selected_configs example_engine 1 every_config (database many_configs)) = rev (map int [1..<104])" by code_simp
  ultimately show ?thesis by simp
qed

end
