(* ===== verification/Gate.thy ===== *)
theory Gate
  imports Asset
begin

text \<open>
  The gates in front of the operations (\<^verbatim>\<open>server/internal/middleware\<close>: \<^verbatim>\<open>admin_auth.go\<close>, \<^verbatim>\<open>rate_limit.go\<close>, \<^verbatim>\<open>runtime_auth.go\<close>,
  \<^verbatim>\<open>transport.go\<close>), the verification of access tokens (\<^verbatim>\<open>auth/jwt/jwt.go\<close>) and the public form of errors (\<^verbatim>\<open>permission/errors.go\<close>,
  \<^verbatim>\<open>service/errors.go\<close>). A handler is an operation of the server that takes what the gate puts into the context and ends
  with an API error or a reply. The JWT library is a third-party package: \<open>ParseWithClaims\<close> is the parser with the options
  the code sets, as a function of the key function, issuer, audience, time and token.
\<close>

type_synonym 'a reply = "(api_error + 'a) M"

definition deny :: "string \<Rightarrow> string \<Rightarrow> 'a reply" where
  "deny reason message = returnM (Inl (API reason message))"

section \<open>Access tokens\<close>

record jwt_header =
  Header_Method :: string
  Header_KID :: "string option"

record ParsedClaims =
  Parsed_SessionID :: string
  Parsed_Subject :: string
  Parsed_ID :: string
  Parsed_IssuedAt :: "int option"
  Parsed_NotBefore :: "int option"
  Parsed_ExpiresAt :: "int option"

record Manager =
  jwt_issuer :: string
  jwt_audience :: string
  jwt_keys :: "(string \<times> string) list"
  ParseWithClaims :: "(jwt_header \<Rightarrow> string option) \<Rightarrow> string \<Rightarrow> string \<Rightarrow> int \<Rightarrow> string \<Rightarrow> ParsedClaims option"

text \<open>
  A manager is built from the configured keys, which are a map; the error of an unusable key is the same for every key. The
  issuing side of the manager is part of the authentication settings.
\<close>

definition AccessTTL :: int where "AccessTTL = 15 * 60 * second_ns"

definition jwt_newManager ::
  "((jwt_header \<Rightarrow> string option) \<Rightarrow> string \<Rightarrow> string \<Rightarrow> int \<Rightarrow> string \<Rightarrow> ParsedClaims option) \<Rightarrow> string \<Rightarrow> string \<Rightarrow> int \<Rightarrow>
     (string \<times> string) list \<Rightarrow> string \<Rightarrow> Manager option" where
  "jwt_newManager parser issuer activeKID accessTTL keys audience =
     (if TrimSpace issuer = '''' then None
      else if TrimSpace audience = '''' then None
      else if accessTTL \<le> 0 then None
      else if accessTTL \<noteq> AccessTTL then None
      else if TrimSpace activeKID = '''' then None
      else if list_ex (\<lambda>(kid, secret). TrimSpace kid = '''' \<or> length secret < 32) keys then None
      else if map_of keys activeKID = None then None
      else Some \<lparr>jwt_issuer = issuer, jwt_audience = audience, jwt_keys = keys, ParseWithClaims = parser\<rparr>)"

definition Parsed_UserID :: "ParsedClaims \<Rightarrow> int option" where
  "Parsed_UserID claims = (case ParseInt64 (Parsed_Subject claims) of None \<Rightarrow> None | Some v \<Rightarrow> if v \<le> 0 then None else Some v)"

definition signing_key :: "Manager \<Rightarrow> jwt_header \<Rightarrow> string option" where
  "signing_key m header =
     (if Header_Method header \<noteq> ''HS256'' then None
      else case Header_KID header of
        None \<Rightarrow> None
      | Some kid \<Rightarrow> if TrimSpace kid = '''' then None else map_of (jwt_keys m) kid)"

definition jwt_Verify :: "Manager \<Rightarrow> string \<Rightarrow> ParsedClaims option M" where
  "jwt_Verify m encoded =
     (if TrimSpace encoded = '''' then returnM None
      else bindM nowM (\<lambda>now.
        returnM (case ParseWithClaims m (signing_key m) (jwt_issuer m) (jwt_audience m) now encoded of
          None \<Rightarrow> None
        | Some claims \<Rightarrow>
            if Parsed_IssuedAt claims = None \<or> Parsed_NotBefore claims = None \<or> Parsed_ExpiresAt claims = None \<or>
               Parsed_ID claims = '''' \<or> Parsed_SessionID claims = ''''
            then None
            else if Parsed_UserID claims = None then None else Some claims)))"

section \<open>Administrators\<close>

text \<open>\<^verbatim>\<open>strings.Fields\<close>: the maximal runs of characters that are not white space.\<close>

fun fields_of :: "string \<Rightarrow> (int \<times> string) list \<Rightarrow> string list" where
  "fields_of word [] = (if word = [] then [] else [word])"
| "fields_of word ((r, bytes) # rs) =
     (if IsSpace r then (if word = [] then [] else [word]) @ fields_of [] rs else fields_of (word @ bytes) rs)"

definition Fields :: "string \<Rightarrow> string list" where
  "Fields s = fields_of [] (runes s)"

record Principal =
  Principal_UserID :: int
  Principal_SessionID :: string

record transport =
  Transport_Authorization :: string
  Transport_Operation :: string

definition passwordOperation :: string where
  "passwordOperation = ''/kirby.admin.v1.UserService/UpdateUserPassword''"

definition AdminAuth :: "Manager \<Rightarrow> transport option \<Rightarrow> (Principal \<Rightarrow> 'a reply) \<Rightarrow> 'a reply" where
  "AdminAuth tokens serverTransport next' =
     (case serverTransport of
        None \<Rightarrow> deny ''Unauthorized'' ''authentication failed''
      | Some t \<Rightarrow>
          let parts = Fields (Transport_Authorization t) in
          if length parts \<noteq> 2 \<or> \<not> EqualFold ''Bearer'' (parts ! 0) then deny ''Unauthorized'' ''authentication failed''
          else bindM (jwt_Verify tokens (parts ! 1)) (\<lambda>verified.
            case verified of
              None \<Rightarrow> deny ''Unauthorized'' ''authentication failed''
            | Some claims \<Rightarrow>
                (case Parsed_UserID claims of
                   None \<Rightarrow> deny ''Unauthorized'' ''authentication failed''
                 | Some userID \<Rightarrow>
                     bindM (attemptM (GetByID userID)) (\<lambda>found.
                     case found of
                       Inl e \<Rightarrow> if errorsIs UserNotFound e then deny ''Unauthorized'' ''authentication failed''
                                else deny ''Internal'' ''authentication is unavailable''
                     | Inr user \<Rightarrow>
                         if \<not> u_Enabled user then deny ''Unauthorized'' ''authentication failed''
                         else if u_MustChangePassword user \<and> Transport_Operation t \<noteq> passwordOperation
                         then deny ''Forbidden'' ''password change required''
                         else next' \<lparr>Principal_UserID = userID, Principal_SessionID = Parsed_SessionID claims\<rparr>))))"

section \<open>Rate limits\<close>

definition digestIdentity :: "(string \<Rightarrow> string) \<Rightarrow> string \<Rightarrow> string" where
  "digestIdentity sha256 v = hex (sha256 (FormatInt (int (length v)) @ '':'' @ v))"

definition FixedWindowRateLimit :: "(string \<Rightarrow> string) \<Rightarrow> string \<Rightarrow> int \<Rightarrow> int \<Rightarrow> string \<Rightarrow> 'a reply \<Rightarrow> 'a reply" where
  "FixedWindowRateLimit sha256 namespace limit window identity next' =
     (if namespace = '''' \<or> limit \<le> 0 \<or> window \<le> 0 then deny ''Internal'' ''rate limiting is unavailable''
      else bindM (attemptM (cacheIncrementM (''rate:'' @ namespace @ '':'' @ digestIdentity sha256 identity) window)) (\<lambda>r.
        case r of
          Inl _ \<Rightarrow> deny ''Internal'' ''rate limiting is unavailable''
        | Inr count \<Rightarrow> if count > limit then deny ''TooManyRequests'' ''request rate limit exceeded'' else next'))"

text \<open>\<^verbatim>\<open>net.SplitHostPort\<close>, of which the host is read.\<close>

definition SplitHostPort :: "string \<Rightarrow> string option" where
  "SplitHostPort s =
     (if CHR '':'' \<notin> set s then None
      else let i = length s - Suc (length (takeWhile (\<lambda>c. c \<noteq> CHR '':'') (rev s))) in
        if hd s = CHR ''['' then
          let end' = length (takeWhile (\<lambda>c. c \<noteq> CHR '']'') s) in
          if end' = length s \<or> end' + 1 \<noteq> i then None
          else if CHR ''['' \<in> set (drop 1 s) \<or> CHR '']'' \<in> set (drop (end' + 1) s) then None
          else Some (take (end' - 1) (drop 1 s))
        else if CHR '':'' \<in> set (take i s) \<or> CHR ''['' \<in> set s \<or> CHR '']'' \<in> set s then None
        else Some (take i s))"

definition ClientIdentity :: "string option \<Rightarrow> string" where
  "ClientIdentity remoteAddr =
     (case remoteAddr of
        None \<Rightarrow> ''unknown''
      | Some address \<Rightarrow> (case SplitHostPort address of Some host \<Rightarrow> host | None \<Rightarrow> address))"

definition AuthorizationIdentity :: "string option \<Rightarrow> string option \<Rightarrow> string" where
  "AuthorizationIdentity authorization remoteAddr =
     (case authorization of
        Some v \<Rightarrow> if v \<noteq> '''' then v else ClientIdentity remoteAddr
      | None \<Rightarrow> ClientIdentity remoteAddr)"

text \<open>The header is looked up in the two spellings of the transports; \<^verbatim>\<open>strings.Cut\<close> splits at the first dot.\<close>

definition RuntimeIdentity :: "(string \<times> string) option \<Rightarrow> string option \<Rightarrow> string" where
  "RuntimeIdentity headers remoteAddr =
     (case headers of
        None \<Rightarrow> ClientIdentity remoteAddr
      | Some (http, grpc) \<Rightarrow>
          let v = (if http = '''' then grpc else http);
              publicID = takeWhile (\<lambda>c. c \<noteq> CHR ''.'') v
          in if CHR ''.'' \<in> set v \<and> publicID \<noteq> '''' then publicID else ClientIdentity remoteAddr)"

section \<open>Runtime credentials\<close>

definition HTTPAPIKey :: "string option \<Rightarrow> (string \<Rightarrow> 'a reply) \<Rightarrow> 'a reply" where
  "HTTPAPIKey header next' =
     (case header of
        None \<Rightarrow> deny ''Unauthorized'' ''API key authentication failed''
      | Some credential \<Rightarrow>
          if TrimSpace credential = '''' then deny ''Unauthorized'' ''API key authentication failed'' else next' credential)"

text \<open>Methods outside the runtime service run without a credential.\<close>

definition UnaryAPIKey :: "string option \<Rightarrow> string list \<Rightarrow> (string option \<Rightarrow> 'a reply) \<Rightarrow> 'a reply" where
  "UnaryAPIKey fullMethod values' handler =
     (if \<not> (case fullMethod of None \<Rightarrow> True | Some m \<Rightarrow> HasPrefix m ''/kirby.runtime.v1.Api/'') then handler None
      else if length values' \<noteq> 1 \<or> TrimSpace (hd values') = '''' then deny ''Unauthorized'' ''API key authentication failed''
      else handler (Some (hd values')))"

definition safeRequestID :: "string \<Rightarrow> bool" where
  "safeRequestID v \<longleftrightarrow> v \<noteq> '''' \<and> length v \<le> 128 \<and>
     list_all (\<lambda>(r, bytes). between 97 122 r \<or> between 65 90 r \<or> between 48 57 r \<or> r \<in> {46, 95, 58, 45}) (runes v)"

section \<open>Errors\<close>

text \<open>The error at the end of a chain of wrapped errors, which is the sentinel \<^verbatim>\<open>errors.Is\<close> finds.\<close>

fun root_err :: "err \<Rightarrow> err" where
  "root_err (Wrapped m e) = root_err e"
| "root_err (DatabaseError e) = root_err e"
| "root_err e = e"

definition permission_APIError :: "err \<Rightarrow> api_error" where
  "permission_APIError e =
     (case root_err e of
        Forbidden \<Rightarrow> API ''Forbidden'' ''permission denied''
      | EnvironmentNotFound \<Rightarrow> API ''NotFound'' ''resource not found''
      | NotFound _ \<Rightarrow> API ''NotFound'' ''resource not found''
      | UserNotFound \<Rightarrow> API ''NotFound'' ''resource not found''
      | InvalidArgument _ \<Rightarrow> API ''BadRequest'' ''invalid request''
      | NoRowsAffected _ \<Rightarrow> API ''Conflict'' ''operation conflicts with current state''
      | ConcurrentChange \<Rightarrow> API ''Conflict'' ''operation conflicts with current state''
      | root \<Rightarrow>
          if root \<in> {ErrUserVersionConflict, ErrLastSystemAdmin, ErrRoleInUse, ErrBuiltinRole, ErrSystemRolePermission,
                     ErrPermissionSetMismatch, ErrUserListLimit}
          then API ''Conflict'' ''operation conflicts with current state'' else API ''Internal'' ''operation failed'')"

definition apiError :: "err \<Rightarrow> api_error" where
  "apiError e =
     (case root_err e of
        Invalid _ \<Rightarrow> API ''BadRequest'' ''invalid configuration data''
      | Conflict _ \<Rightarrow> API ''Conflict'' ''operation conflicts with current configuration''
      | KeyConflict _ \<Rightarrow> API ''Conflict'' ''operation conflicts with current configuration''
      | _ \<Rightarrow> permission_APIError e)"

end
