(* ===== verification/Gate_Props.thy ===== *)
theory Gate_Props
  imports Gate Auth_Props Example_World
begin

text \<open>What the gates guarantee: who reaches an administrative operation, how a counting window limits the requests of a client,
  and that public errors carry no internal detail.\<close>

section \<open>Tokens in headers\<close>

lemma fields_plain:
  "(\<And>c. c \<in> set s \<Longrightarrow> 33 \<le> byte c \<and> byte c < 127) \<Longrightarrow> fields_of word (map (\<lambda>c. (byte c, [c])) s) = (if word @ s = [] then [] else [word @ s])"
proof (induction s arbitrary: word)
  case (Cons a s)
  have "33 \<le> byte a \<and> byte a < 127" using Cons.prems by simp
  then have "\<not> IsSpace (byte a)" by (auto simp: IsSpace_def between_def)
  with Cons show ?case by simp
qed simp

lemma Fields_bearer:
  assumes "\<And>c. c \<in> set token \<Longrightarrow> 33 \<le> byte c \<and> byte c < 127" "token \<noteq> ''''"
  shows "Fields (''Bearer '' @ token) = [''Bearer'', token]"
proof -
  have "list_all (\<lambda>c. byte c < 128) (''Bearer '' @ token)" using assms(1) by (fastforce simp: list_all_iff)
  then have "runes (''Bearer '' @ token) = map (\<lambda>c. (byte c, [c])) (''Bearer '' @ token)" by (rule runes_ascii_string)
  then show ?thesis using fields_plain [of token "[]"] assms
    by (simp add: Fields_def IsSpace_def between_def)
qed

section \<open>The library\<close>

text \<open>
  What is documented of the JWT library, for every key function. Signing claims with a header and a key gives a plain text, and
  parsing it with a key function that returns this key for this header gives the claims back, with times in whole
  seconds, while issuer, audience and times are valid. Parsing succeeds only for a token whose signature verifies under the
  key the key function returns for the header of the token, and before the token expires. The library is described by three
  functions: signing, verification of the signature of a token with a given header under a key, and decoding of the payload.
\<close>

record jwt_library =
  jwt_sign :: "jwt_header \<Rightarrow> string \<Rightarrow> Claims \<Rightarrow> string option"
  jwt_authentic :: "jwt_header \<Rightarrow> string \<Rightarrow> string \<Rightarrow> bool"
  jwt_payload :: "string \<Rightarrow> ParsedClaims option"

type_synonym jwt_parser = "(jwt_header \<Rightarrow> string option) \<Rightarrow> string \<Rightarrow> string \<Rightarrow> int \<Rightarrow> string \<Rightarrow> ParsedClaims option"

definition whole_second :: "int \<Rightarrow> int" where "whole_second t = t div second_ns * second_ns"

definition signed_claims :: "Claims \<Rightarrow> ParsedClaims" where
  "signed_claims c = \<lparr>Parsed_SessionID = Claims_SessionID c, Parsed_Subject = Claims_Subject c, Parsed_ID = Claims_ID c,
     Parsed_IssuedAt = Some (whole_second (Claims_IssuedAt c)), Parsed_NotBefore = Some (whole_second (Claims_NotBefore c)),
     Parsed_ExpiresAt = Some (whole_second (Claims_ExpiresAt c))\<rparr>"

definition parses_signed :: "jwt_library \<Rightarrow> jwt_parser \<Rightarrow> bool" where
  "parses_signed lib parse \<longleftrightarrow> (\<forall>header key c token. jwt_sign lib header key c = Some token \<longrightarrow>
     token \<noteq> '''' \<and> (\<forall>x \<in> set token. 33 \<le> byte x \<and> byte x < 127) \<and>
     (\<forall>keyfunc audience now. keyfunc header = Some key \<longrightarrow> Header_Method header = ''HS256'' \<longrightarrow> audience \<in> set (Claims_Audience c) \<longrightarrow>
        Claims_NotBefore c \<le> now \<longrightarrow> Claims_IssuedAt c \<le> now \<longrightarrow> now < whole_second (Claims_ExpiresAt c) \<longrightarrow>
        parse keyfunc (Claims_Issuer c) audience now token = Some (signed_claims c)))"

definition parses_authentic :: "jwt_library \<Rightarrow> jwt_parser \<Rightarrow> bool" where
  "parses_authentic lib parse \<longleftrightarrow> (\<forall>keyfunc issuer audience now token claims. parse keyfunc issuer audience now token = Some claims \<longrightarrow>
     jwt_payload lib token = Some claims \<and> (\<exists>header key. keyfunc header = Some key \<and> jwt_authentic lib header key token) \<and>
     (\<forall>t. Parsed_ExpiresAt claims = Some t \<longrightarrow> now < t))"

lemma jwt_newManager_Some:
  assumes "jwt_newManager parse issuer kid ttl keys audience = Some m"
  shows "ParseWithClaims m = parse" "jwt_issuer m = issuer" "jwt_audience m = audience" "jwt_keys m = keys" "TrimSpace kid \<noteq> ''''"
    "\<exists>secret. map_of keys kid = Some secret" "map_of keys other = Some secret \<Longrightarrow> 32 \<le> length secret"
  using assms map_of_SomeD [of keys other secret]
  by (auto simp: jwt_newManager_def list_ex_iff split: if_splits)

lemma signing_key_Some:
  "signing_key m header = Some key \<longleftrightarrow> (\<exists>kid. header = \<lparr>Header_Method = ''HS256'', Header_KID = Some kid\<rparr> \<and> TrimSpace kid \<noteq> '''' \<and>
     map_of (jwt_keys m) kid = Some key)"
  by (cases header) (auto simp: signing_key_def split: option.splits)

section \<open>Rate limits and public errors\<close>

definition rate_key :: "(string \<Rightarrow> string) \<Rightarrow> string \<Rightarrow> string \<Rightarrow> string" where
  "rate_key sha256 namespace identity = ''rate:'' @ namespace @ '':'' @ digestIdentity sha256 identity"

text \<open>
  Inside an open window the request counts, whatever becomes of it, and its handler runs only while the count stays within the
  limit; a request above the limit is refused before the handler and touches nothing but the counter.
\<close>

lemma rate_limit_counts:
  assumes "counter_at (rate_key sha256 namespace identity) n expiry (cache w)" "clock E (tick w) < expiry"
    "ctx_error E (tick w) = None" "namespace \<noteq> ''''" "0 < limit" "0 < window" "0 \<le> n" "n < MaxInt64_value"
  shows "\<exists>w1. counter_at (rate_key sha256 namespace identity) (n + 1) expiry (cache w1) \<and> database w1 = database w \<and>
    FixedWindowRateLimit sha256 namespace limit window identity next' E w =
      (if n < limit then next' E w1 else (Inr (Inl (API ''TooManyRequests'' ''request rate limit exceeded'')), w1))"
proof -
  define key where "key = rate_key sha256 namespace identity"
  obtain r s where step: "memory_Increment None (clock E (tick w)) key window (cache w) = (r, s)" by fastforce
  with Increment_counts [of key n expiry "cache w" "clock E (tick w)" window] assms key_def
  have "r = Inr (n + 1)" "counter_at key (n + 1) expiry s" by auto
  with step assms show ?thesis
    by (intro exI [of _ "w\<lparr>cache := s, tick := Suc (tick w)\<rparr>"])
      (auto simp: FixedWindowRateLimit_def bindM_def attemptM_def cacheIncrementM_def deny_def returnM_def key_def rate_key_def)
qed

lemma permission_APIError_texts:
  "permission_APIError e \<in> {API ''Forbidden'' ''permission denied'', API ''NotFound'' ''resource not found'', API ''BadRequest'' ''invalid request'',
     API ''Conflict'' ''operation conflicts with current state'', API ''Internal'' ''operation failed''}"
  by (cases "root_err e") (simp_all add: permission_APIError_def)

lemma apiError_texts:
  "apiError e \<in> {API ''BadRequest'' ''invalid configuration data'', API ''Conflict'' ''operation conflicts with current configuration''} \<union>
     range permission_APIError"
  by (cases "root_err e") (simp_all add: apiError_def)

section \<open>Administrators\<close>

definition live_account :: "db \<Rightarrow> int \<Rightarrow> user_row option" where
  "live_account d userID = first_row (filter (\<lambda>u. ID u = userID \<and> DeletedAt u = None) (users d))"

definition may_operate :: "user_row \<Rightarrow> string \<Rightarrow> bool" where
  "may_operate user operation \<longleftrightarrow> u_Enabled user \<and> (u_MustChangePassword user \<longrightarrow> operation = passwordOperation)"

text \<open>A token the server accepts: signed with one of its keys, of full length, not expired, and with every identity claim.\<close>

definition accepted_token :: "jwt_library \<Rightarrow> (string \<times> string) list \<Rightarrow> int \<Rightarrow> string \<Rightarrow> int \<Rightarrow> string \<Rightarrow> bool" where
  "accepted_token lib keys now encoded userID sessionID \<longleftrightarrow> (\<exists>kid secret claims expiresAt.
     map_of keys kid = Some secret \<and> TrimSpace kid \<noteq> '''' \<and> 32 \<le> length secret \<and>
     jwt_authentic lib \<lparr>Header_Method = ''HS256'', Header_KID = Some kid\<rparr> secret encoded \<and>
     jwt_payload lib encoded = Some claims \<and> Parsed_ExpiresAt claims = Some expiresAt \<and> now < expiresAt \<and>
     Parsed_IssuedAt claims \<noteq> None \<and> Parsed_NotBefore claims \<noteq> None \<and> Parsed_ID claims \<noteq> '''' \<and>
     Parsed_SessionID claims = sessionID \<and> sessionID \<noteq> '''' \<and> ParseInt64 (Parsed_Subject claims) = Some userID \<and> 0 < userID)"

lemma jwt_Verify_run:
  assumes "jwt_newManager parse issuer active ttl keys audience = Some m" "parses_authentic lib parse" "jwt_Verify m encoded E w = (r, w')"
  shows "quiet w w'" "r = Inr None \<or> (\<exists>claims u. r = Inr (Some claims) \<and> Parsed_UserID claims = Some u \<and>
    accepted_token lib keys (clock E (tick w)) encoded u (Parsed_SessionID claims))"
proof -
  note m = jwt_newManager_Some [OF assms(1)]
  show "quiet w w'" using assms(3)
    by (auto simp: jwt_Verify_def bindM_def returnM_def quiet_def nowM_def split: if_splits)
  show "r = Inr None \<or> (\<exists>claims u. r = Inr (Some claims) \<and> Parsed_UserID claims = Some u \<and>
    accepted_token lib keys (clock E (tick w)) encoded u (Parsed_SessionID claims))"
  proof (cases "r = Inr None")
    case False
    with assms(3) obtain claims u where c: "r = Inr (Some claims)" "Parsed_UserID claims = Some u"
      "parse (signing_key m) issuer audience (clock E (tick w)) encoded = Some claims"
      "Parsed_IssuedAt claims \<noteq> None" "Parsed_NotBefore claims \<noteq> None" "Parsed_ExpiresAt claims \<noteq> None"
      "Parsed_ID claims \<noteq> ''''" "Parsed_SessionID claims \<noteq> ''''"
      by (auto simp: jwt_Verify_def bindM_def returnM_def nowM_def m split: if_splits option.splits)
    from assms(2) c(3) obtain header key where k: "signing_key m header = Some key" "jwt_authentic lib header key encoded"
      and p: "jwt_payload lib encoded = Some claims" "\<forall>t. Parsed_ExpiresAt claims = Some t \<longrightarrow> clock E (tick w) < t"
      unfolding parses_authentic_def by blast
    from k obtain kid where "map_of keys kid = Some key" "TrimSpace kid \<noteq> ''''"
      "jwt_authentic lib \<lparr>Header_Method = ''HS256'', Header_KID = Some kid\<rparr> key encoded" by (auto simp: signing_key_Some m)
    moreover have "ParseInt64 (Parsed_Subject claims) = Some u" "0 < u" using c(2) by (auto simp: Parsed_UserID_def split: option.splits if_splits)
    ultimately have "accepted_token lib keys (clock E (tick w)) encoded u (Parsed_SessionID claims)"
      using c p m(7) unfolding accepted_token_def by blast
    with c show ?thesis by blast
  qed simp
qed

lemma GetByID_run:
  assumes "GetByID userID E w = (r, w')"
  shows "quiet w w'" "r = Inr user \<Longrightarrow> live_account (database w) userID = Some user"
proof -
  have "reads (GetByID userID)" unfolding GetByID_def requireUser_def by (intro reads_intro)
  from readsD [OF this assms] show "quiet w w'" .
  show "r = Inr user \<Longrightarrow> live_account (database w) userID = Some user"
    using assms by (auto simp: GetByID_def requireUser_def live_account_def run_simps split: option.splits)
qed

lemma deny_run [run_simps]: "deny a b E w = (r, w') \<longleftrightarrow> r = Inr (Inl (API a b)) \<and> w' = w"
  by (auto simp: deny_def returnM_def)

definition admits :: "jwt_library \<Rightarrow> (string \<times> string) list \<Rightarrow> transport option \<Rightarrow> int \<Rightarrow> db \<Rightarrow> Principal \<Rightarrow> bool" where
  "admits lib keys t now d p \<longleftrightarrow> (\<exists>transport scheme encoded user. t = Some transport \<and>
     Fields (Transport_Authorization transport) = [scheme, encoded] \<and> EqualFold ''Bearer'' scheme \<and>
     accepted_token lib keys now encoded (Principal_UserID p) (Principal_SessionID p) \<and>
     live_account d (Principal_UserID p) = Some user \<and> may_operate user (Transport_Operation transport))"

lemma account_gate:
  assumes "bindM (attemptM (GetByID u)) (\<lambda>found. case found of
      Inl e \<Rightarrow> if errorsIs UserNotFound e then deny a b else deny c d
    | Inr user \<Rightarrow> if \<not> u_Enabled user then deny a b
        else if u_MustChangePassword user \<and> operation \<noteq> passwordOperation then deny f g else k) E w = (r, w')"
  shows "(\<exists>denial. r = Inr (Inl denial)) \<and> quiet w w' \<or>
    (\<exists>user w1. live_account (database w) u = Some user \<and> may_operate user operation \<and> quiet w w1 \<and> k E w1 = (r, w'))"
proof -
  obtain found w1 where get: "GetByID u E w = (found, w1)" by fastforce
  note q = GetByID_run(1) [OF get]
  show ?thesis
  proof (cases found)
    case (Inl e)
    with assms get q show ?thesis by (auto simp: bindM_def attemptM_def run_simps split: if_splits)
  next
    case (Inr user)
    from GetByID_run(2) [OF get Inr] assms get Inr q show ?thesis
      by (cases "may_operate user operation") (auto simp: bindM_def attemptM_def run_simps may_operate_def split: if_splits)
  qed
qed

lemma AdminAuth_sound:
  assumes manager: "jwt_newManager parse issuer active ttl keys audience = Some m" and lib: "parses_authentic lib parse"
    and run: "AdminAuth m t h E w = (r, w')"
  shows "(\<exists>denial. r = Inr (Inl denial)) \<and> quiet w w' \<or>
    (\<exists>p w1. admits lib keys t (clock E (tick w)) (database w) p \<and> quiet w w1 \<and> h p E w1 = (r, w'))"
proof (cases "\<exists>tr. t = Some tr \<and> length (Fields (Transport_Authorization tr)) = 2 \<and> EqualFold ''Bearer'' (Fields (Transport_Authorization tr) ! 0)")
  case False
  then have "AdminAuth m t h E w = deny ''Unauthorized'' ''authentication failed'' E w"
    by (cases t) (auto simp: AdminAuth_def Let_def)
  with run show ?thesis by (auto simp: run_simps quiet_def)
next
  case True
  then obtain tr where tr: "t = Some tr" by blast
  define parts where "parts = Fields (Transport_Authorization tr)"
  from True tr have parts: "length parts = 2" "EqualFold ''Bearer'' (parts ! 0)" by (auto simp: parts_def)
  then have two: "parts = [parts ! 0, parts ! 1]" by (auto simp: length_Suc_conv numeral_eq_Suc)
  obtain v w1 where ver: "jwt_Verify m (parts ! 1) E w = (v, w1)" by fastforce
  note V = jwt_Verify_run [OF manager lib ver]
  show ?thesis
  proof (cases "v = Inr None")
    case True
    with run tr parts ver have "r = Inr (Inl (API ''Unauthorized'' ''authentication failed''))" "w' = w1"
      by (auto simp: AdminAuth_def parts_def [symmetric] bindM_def deny_def returnM_def)
    with V(1) show ?thesis by simp
  next
    case False
    with V(2) obtain claims u where c: "v = Inr (Some claims)" "Parsed_UserID claims = Some u"
      "accepted_token lib keys (clock E (tick w)) (parts ! 1) u (Parsed_SessionID claims)" by blast
    let ?p = "\<lparr>Principal_UserID = u, Principal_SessionID = Parsed_SessionID claims\<rparr>"
    have "bindM (attemptM (GetByID u)) (\<lambda>found. case found of
        Inl e \<Rightarrow> if errorsIs UserNotFound e then deny ''Unauthorized'' ''authentication failed'' else deny ''Internal'' ''authentication is unavailable''
      | Inr user \<Rightarrow> if \<not> u_Enabled user then deny ''Unauthorized'' ''authentication failed''
          else if u_MustChangePassword user \<and> Transport_Operation tr \<noteq> passwordOperation then deny ''Forbidden'' ''password change required''
          else h ?p) E w1 = (r, w')"
      using run tr parts ver c(1,2) by (simp add: AdminAuth_def parts_def [symmetric] bindM_def)
    from account_gate [OF this] show ?thesis
    proof
      assume "\<exists>user w2. live_account (database w1) u = Some user \<and> may_operate user (Transport_Operation tr) \<and> quiet w1 w2 \<and> h ?p E w2 = (r, w')"
      then obtain user w2 where u: "live_account (database w1) u = Some user" "may_operate user (Transport_Operation tr)" "quiet w1 w2" "h ?p E w2 = (r, w')" by blast
      have "admits lib keys t (clock E (tick w)) (database w) ?p"
        unfolding admits_def using tr two parts c(2,3) u(1,2) V(1) by (auto simp: parts_def quiet_def)
      with u(3,4) V(1) show ?thesis by (blast intro: quiet_trans)
    qed (use V(1) in \<open>blast intro: quiet_trans\<close>)
  qed
qed

lemma AdminAuth_complete:
  assumes manager: "jwt_newManager parse issuer kid ttl keys audience = Some m" and lib: "parses_signed lib parse" and "reliable E"
    and signer: "map_of keys kid = Some secret" "auth_sign A = jwt_sign lib \<lparr>Header_Method = ''HS256'', Header_KID = Some kid\<rparr> secret"
      "auth_issuer A = issuer" "auth_audience A = audience" "auth_tokenUUID A \<noteq> ''''"
    and issued: "Issue A u sessionID E0 w0 = (Inr (token, expiresAt), w0')" "u < 2 ^ 63"
    and time: "clock E0 (tick w0) \<le> clock E (tick w)" "clock E (tick w) < whole_second expiresAt"
    and account: "live_account (database w) u = Some user" "may_operate user operation"
  shows "\<exists>w1. quiet w w1 \<and> AdminAuth m (Some \<lparr>Transport_Authorization = ''Bearer '' @ token, Transport_Operation = operation\<rparr>) h E w =
    h \<lparr>Principal_UserID = u, Principal_SessionID = sessionID\<rparr> E w1"
proof -
  note m = jwt_newManager_Some [OF manager]
  define now where "now = clock E0 (tick w0)"
  define c where "c = \<lparr>Claims_SessionID = sessionID, Claims_Issuer = auth_issuer A, Claims_Subject = FormatInt u, Claims_Audience = [auth_audience A],
    Claims_ExpiresAt = now + auth_accessTTL A, Claims_NotBefore = now, Claims_IssuedAt = now, Claims_ID = auth_tokenUUID A\<rparr>"
  have u: "0 < u" "TrimSpace sessionID \<noteq> ''''" and sign: "auth_sign A c = Some token" "expiresAt = now + auth_accessTTL A"
    using issued(1) by (auto simp: Issue_def bindM_def nowM_def now_def c_def failM_def returnM_def Let_def split: if_splits option.splits)
  have key: "signing_key m \<lparr>Header_Method = ''HS256'', Header_KID = Some kid\<rparr> = Some secret"
    using signer(1) m(5) by (simp add: signing_key_Some m)
  note signed = lib [unfolded parses_signed_def, rule_format, OF sign(1) [unfolded signer(2)]]
  then have plain: "token \<noteq> ''''" "\<And>x. x \<in> set token \<Longrightarrow> 33 \<le> byte x \<and> byte x < 127" by blast+
  define claims where "claims = signed_claims c"
  have parsed: "ParseWithClaims m (signing_key m) (jwt_issuer m) (jwt_audience m) (clock E (tick w)) token = Some claims"
    using signed key signer(3,4) sign(2) time by (auto simp: claims_def c_def now_def m)
  have id: "Parsed_UserID claims = Some u"
    using u(1) issued(2) ParseInt64_FormatInt [of u] by (simp add: Parsed_UserID_def claims_def signed_claims_def c_def)
  have sid: "Parsed_SessionID claims = sessionID" by (simp add: claims_def signed_claims_def c_def)
  have "sessionID \<noteq> ''''" using u(2) by (auto simp: TrimSpace_def)
  moreover have "TrimSpace token \<noteq> ''''" using plain TrimSpace_plain [of token] by force
  ultimately have verify: "jwt_Verify m token E w = (Inr (Some claims), w\<lparr>tick := Suc (tick w)\<rparr>)"
    using parsed id signer(5) by (simp add: jwt_Verify_def bindM_def nowM_def returnM_def claims_def signed_claims_def c_def)
  have get: "GetByID u E (w\<lparr>tick := Suc (tick w)\<rparr>) = (Inr user, w\<lparr>tick := Suc (Suc (tick w))\<rparr>)"
    using account(1) assms(3) by (simp add: GetByID_def requireUser_def live_account_def bindM_def mapErrM_def queryM_reliable returnM_def)
  have "EqualFold ''Bearer'' ''Bearer''" by (simp add: EqualFold_def)
  then have "AdminAuth m (Some \<lparr>Transport_Authorization = ''Bearer '' @ token, Transport_Operation = operation\<rparr>) h E w =
      h \<lparr>Principal_UserID = u, Principal_SessionID = sessionID\<rparr> E (w\<lparr>tick := Suc (Suc (tick w))\<rparr>)"
    using Fields_bearer [OF plain(2,1)] verify id get account(2)
    by (cases "u_MustChangePassword user") (simp_all add: AdminAuth_def bindM_def attemptM_def may_operate_def sid)
  moreover have "quiet w (w\<lparr>tick := Suc (Suc (tick w))\<rparr>)" by (simp add: quiet_def)
  ultimately show ?thesis by blast
qed

text \<open>
  C3. The gate of the administrative API lets exactly the right callers through. Let the manager be built from the configured keys,
  and the JWT library parse as documented for every key function. Then an operation behind the gate runs only for a bearer token that
  is signed with HS256 under a configured key of at least 32 bytes, found by the key identifier in the token's header, has not
  expired and carries every identity claim, and whose account exists, is enabled, and either need not change its
  password or is doing just that; it then runs as the account and session in the token, on an unchanged database. Every other request is
  answered with an error and changes nothing. And a token the server issued under its active key is let through until the
  second it expires, as long as no statement fails and the account may still operate.
\<close>

theorem admin_gate:
  fixes h :: "Principal \<Rightarrow> 'a reply"
  assumes manager: "jwt_newManager parse issuer kid ttl keys audience = Some m"
    and lib: "parses_authentic lib parse" "parses_signed lib parse"
    and run: "AdminAuth m t h E w = (r, w')"
  shows "((\<exists>denial. r = Inr (Inl denial)) \<and> quiet w w' \<or>
      (\<exists>p w1. admits lib keys t (clock E (tick w)) (database w) p \<and> quiet w w1 \<and> h p E w1 = (r, w'))) \<and>
    (\<forall>A secret u sessionID E0 w0 token expiresAt w0' user operation.
       reliable E \<longrightarrow> map_of keys kid = Some secret \<longrightarrow>
       auth_sign A = jwt_sign lib \<lparr>Header_Method = ''HS256'', Header_KID = Some kid\<rparr> secret \<longrightarrow>
       auth_issuer A = issuer \<longrightarrow> auth_audience A = audience \<longrightarrow> auth_tokenUUID A \<noteq> '''' \<longrightarrow>
       Issue A u sessionID E0 w0 = (Inr (token, expiresAt), w0') \<longrightarrow> u < 2 ^ 63 \<longrightarrow>
       clock E0 (tick w0) \<le> clock E (tick w) \<longrightarrow> clock E (tick w) < whole_second expiresAt \<longrightarrow>
       live_account (database w) u = Some user \<longrightarrow> may_operate user operation \<longrightarrow>
       t = Some \<lparr>Transport_Authorization = ''Bearer '' @ token, Transport_Operation = operation\<rparr> \<longrightarrow>
       (\<exists>w1. quiet w w1 \<and> h \<lparr>Principal_UserID = u, Principal_SessionID = sessionID\<rparr> E w1 = (r, w')))"
proof (rule conjI [OF AdminAuth_sound [OF manager lib(1) run]], intro allI impI)
  fix A secret u sessionID E0 w0 token expiresAt w0' user operation
  assume "reliable E" "map_of keys kid = Some secret" "auth_sign A = jwt_sign lib \<lparr>Header_Method = ''HS256'', Header_KID = Some kid\<rparr> secret"
    "auth_issuer A = issuer" "auth_audience A = audience" "auth_tokenUUID A \<noteq> ''''"
    "Issue A u sessionID E0 w0 = (Inr (token, expiresAt), w0')" "u < 2 ^ 63" "clock E0 (tick w0) \<le> clock E (tick w)"
    "clock E (tick w) < whole_second expiresAt" "live_account (database w) u = Some user" "may_operate user operation"
    and t: "t = Some \<lparr>Transport_Authorization = ''Bearer '' @ token, Transport_Operation = operation\<rparr>"
  from AdminAuth_complete [OF manager lib(2) this(1-12), of h] run
  show "\<exists>w1. quiet w w1 \<and> h \<lparr>Principal_UserID = u, Principal_SessionID = sessionID\<rparr> E w1 = (r, w')" unfolding t by auto
qed

text \<open>A library with one token, for one key, and a manager that holds this key.\<close>

definition gate_claims :: Claims where
  "gate_claims = \<lparr>Claims_SessionID = ''s1'', Claims_Issuer = ''kirby'', Claims_Subject = ''7'', Claims_Audience = [''admin''],
     Claims_ExpiresAt = 1000 + AccessTTL, Claims_NotBefore = 1000, Claims_IssuedAt = 1000, Claims_ID = ''uuid-2''\<rparr>"

definition gate_secret :: string where "gate_secret = replicate 32 (CHR ''k'')"

definition gate_library :: jwt_library where
  "gate_library = \<lparr>jwt_sign = (\<lambda>header key c. if key = gate_secret \<and> c = gate_claims \<and>
       header = \<lparr>Header_Method = ''HS256'', Header_KID = Some ''k1''\<rparr> then Some ''token-1'' else None),
     jwt_authentic = (\<lambda>header key token. key = gate_secret \<and> token = ''token-1'' \<and> header = \<lparr>Header_Method = ''HS256'', Header_KID = Some ''k1''\<rparr>),
     jwt_payload = (\<lambda>token. if token = ''token-1'' then Some (signed_claims gate_claims) else None)\<rparr>"

definition gate_parser :: jwt_parser where
  "gate_parser keyfunc issuer audience now token =
     (if token = ''token-1'' \<and> keyfunc \<lparr>Header_Method = ''HS256'', Header_KID = Some ''k1''\<rparr> = Some gate_secret \<and> issuer = ''kirby'' \<and>
         audience = ''admin'' \<and> 1000 \<le> now \<and> now < whole_second (1000 + AccessTTL)
      then Some (signed_claims gate_claims) else None)"

definition gate_auth :: auth_config where
  "gate_auth = example_auth\<lparr>auth_sign := jwt_sign gate_library \<lparr>Header_Method = ''HS256'', Header_KID = Some ''k1''\<rparr> gate_secret,
     auth_accessTTL := AccessTTL\<rparr>"

definition gate_request :: "transport option" where
  "gate_request = Some \<lparr>Transport_Authorization = ''Bearer '' @ ''token-1'', Transport_Operation = ''/kirby.admin.v1.ConfigService/ListConfigs''\<rparr>"

lemma gate_library_ok: "parses_authentic gate_library gate_parser" "parses_signed gate_library gate_parser"
proof -
  show "parses_authentic gate_library gate_parser"
    by (auto simp: parses_authentic_def gate_parser_def gate_library_def signed_claims_def gate_claims_def split: if_splits)
  show "parses_signed gate_library gate_parser"
    by (auto simp: parses_signed_def gate_parser_def gate_library_def gate_claims_def split: if_splits)
qed

lemma gate_issue: "Issue gate_auth 7 ''s1'' example_engine example_world = (Inr (''token-1'', 1000 + AccessTTL), example_world\<lparr>tick := 1\<rparr>)"
proof -
  have "FormatInt 7 = ''7''" "TrimSpace ''s1'' \<noteq> ''''" by code_simp+
  then show ?thesis
    by (simp add: Issue_def bindM_def nowM_def gate_auth_def gate_library_def example_auth_def example_engine_def example_world_def gate_claims_def returnM_def)
qed

theorem admin_gate_witness:
  "\<exists>m. jwt_newManager gate_parser ''kirby'' ''k1'' AccessTTL [(''k1'', gate_secret)] ''admin'' = Some m \<and>
    fst (AdminAuth m gate_request (\<lambda>p. returnM (Inr (Principal_UserID p))) example_engine example_world) = Inr (Inr 7)"
proof -
  let ?h = "\<lambda>p. returnM (Inr (Principal_UserID p)) :: int reply" and ?keys = "[(''k1'', gate_secret)]"
  have "TrimSpace ''kirby'' \<noteq> ''''" "TrimSpace ''admin'' \<noteq> ''''" "TrimSpace ''k1'' \<noteq> ''''" by code_simp+
  then obtain m where m: "jwt_newManager gate_parser ''kirby'' ''k1'' AccessTTL ?keys ''admin'' = Some m"
    by (simp add: jwt_newManager_def AccessTTL_def second_ns_def gate_secret_def)
  obtain r w' where run: "AdminAuth m gate_request ?h example_engine example_world = (r, w')" by fastforce
  have "reliable example_engine" by (simp add: reliable_def example_engine_def)
  moreover have "auth_sign gate_auth = jwt_sign gate_library \<lparr>Header_Method = ''HS256'', Header_KID = Some ''k1''\<rparr> gate_secret"
    "auth_issuer gate_auth = ''kirby''" "auth_audience gate_auth = ''admin''" "auth_tokenUUID gate_auth \<noteq> ''''" "map_of ?keys ''k1'' = Some gate_secret"
    by (simp_all add: gate_auth_def example_auth_def)
  moreover have "clock example_engine (tick example_world) < whole_second (1000 + AccessTTL)"
    by (simp add: example_engine_def example_world_def whole_second_def second_ns_def AccessTTL_def)
  moreover have "\<exists>user. live_account (database example_world) 7 = Some user \<and> may_operate user ''/kirby.admin.v1.ConfigService/ListConfigs''"
    by (simp add: live_account_def example_world_def example_db_def first_row_def may_operate_def)
  ultimately have "\<exists>w1. quiet example_world w1 \<and> ?h \<lparr>Principal_UserID = 7, Principal_SessionID = ''s1''\<rparr> example_engine w1 = (r, w')"
    using admin_gate [OF m gate_library_ok run] gate_issue unfolding gate_request_def by fastforce
  then show ?thesis using m run by (auto simp: returnM_def)
qed

end
