(* ===== verification/Serving.thy ===== *)
theory Serving
  imports Access_Props
begin

text \<open>
  What clients read over time: publications and reads in any order, and the value served after a publication. A config that is
  deleted and created again starts its generations anew (\<^verbatim>\<open>repository/config.go\<close>), so these runs contain reads, publications
  and withdrawals.
\<close>

section \<open>Runs of publications and reads\<close>

text \<open>A run of reads, publications and withdrawals that leaves the releases of the configs in \<open>spared\<close> alone.\<close>

inductive serving :: "codec \<Rightarrow> engine \<Rightarrow> int set \<Rightarrow> world \<Rightarrow> world \<Rightarrow> bool" for K E spared where
  idle: "serving K E spared w w"
| read: "serving K E spared w w1 \<Longrightarrow> transaction_runner tx \<Longrightarrow> Read tx K hmac pepper full project key E w1 = (r, w2) \<Longrightarrow>
    serving K E spared w w2"
| publication: "serving K E spared w w1 \<Longrightarrow> transaction_runner tx \<Longrightarrow>
    Publish tx K iter actor e i v E w1 = (s, w2) \<or> Unpublish tx K iter actor e i v E w1 = (s, w2) \<Longrightarrow>
    (\<And>row. s = Inr row \<Longrightarrow> s_ConfigID row \<notin> spared) \<Longrightarrow> serving K E spared w w2"

text \<open>The states such runs start from: consistent, with caches that agree with the database, as an empty cache does.\<close>

definition serves_ok :: "codec \<Rightarrow> engine \<Rightarrow> world \<Rightarrow> bool" where
  "serves_ok K E w \<longleftrightarrow> collation E \<and> (\<forall>a. same_text E a a) \<and> invariant E w \<and> access_ok w \<and> content_coherent K (database w) (cache w)"

lemma empty_cache_coherent: "content_coherent K d newMemory"
  by (simp add: content_coherent_def newMemory_def memory_holds_def)

lemma serves_ok_config:
  assumes "serves_ok K E w" "c \<in> set (configs (database w))" "c' \<in> set (configs (database w))" "same_key E (config_key c) (config_key c')"
  shows "c = c'"
proof -
  have "invariant E w" using assms(1) by (simp add: serves_ok_def)
  then have ids: "distinct (map ID (configs (database w)))"
    and keys: "\<forall>c \<in> set (configs (database w)). \<forall>c' \<in> set (configs (database w)). ID c \<noteq> ID c' \<longrightarrow> \<not> same_key E (config_key c) (config_key c')"
    by (simp_all add: invariant_def tables_ok_def table_ok_def)
  from keys assms(2-4) have "ID c = ID c'" by blast
  with row_unique [OF ids assms(2,3)] show ?thesis by blast
qed

lemma serves_ok_tables:
  assumes "serves_ok K E w"
  shows "perm_coherent (database w) (cache w)" "plain_catalog (database w)" "distinct (map ID (snapshots (database w)))"
    "distinct (map ID (configs (database w)))" "content_coherent K (database w) (cache w)" "unique_config_keys (database w)"
    "int64_versions (database w)"
proof -
  note ok = assms [unfolded serves_ok_def]
  then have inv: "invariant E w" by blast
  show "perm_coherent (database w) (cache w)" "plain_catalog (database w)" "content_coherent K (database w) (cache w)"
    using ok by (simp_all add: access_ok_def)
  show "distinct (map ID (snapshots (database w)))" and ids: "distinct (map ID (configs (database w)))"
    using inv by (simp_all add: invariant_def tables_ok_def table_ok_def)
  have cfgs: "\<forall>c \<in> set (configs (database w)). config_ok c"
    using inv by (simp_all add: invariant_def tables_ok_def table_ok_def)
  show "int64_versions (database w)" using cfgs by (auto simp: int64_versions_def config_ok_def MaxInt64_value_def)
  have "inj_on config_key (set (configs (database w)))"
    by (rule inj_onI) (use serves_ok_config [OF assms] ok in auto)
  with ids show "unique_config_keys (database w)" by (simp add: unique_config_keys_def distinct_map)
qed

lemma serves_step:
  assumes "serves_ok K E w" "server_step E act w w'" "content_coherent K (database w') (cache w')"
  shows "serves_ok K E w'"
proof -
  have "access_ok w'" using server_step_access [OF assms(2)] assms(1) by (simp add: stays_def serves_ok_def)
  moreover have "invariant E w'" using server_step_refines [OF _ _ assms(2)] assms(1) by (simp add: serves_ok_def)
  ultimately show ?thesis using assms(1,3) by (simp add: serves_ok_def)
qed

section \<open>One step\<close>

text \<open>What is released of a config and its row stay as they are, and so do the projects.\<close>

definition keeps_release :: "int \<Rightarrow> db \<Rightarrow> db \<Rightarrow> bool" where
  "keeps_release configID d d' \<longleftrightarrow> projects d' = projects d \<and> (\<forall>p. release_of d' p configID = release_of d p configID) \<and>
     filter (\<lambda>c. ID c = configID) (configs d') = filter (\<lambda>c. ID c = configID) (configs d)"

lemma keeps_release_trans: "keeps_release i d d' \<Longrightarrow> keeps_release i d' d'' \<Longrightarrow> keeps_release i d d''"
  by (simp add: keeps_release_def)

lemma read_step:
  assumes "serves_ok K E w" "transaction_runner tx" "Read tx K hmac pepper full project key E w = (r, w')"
  shows "serves_ok K E w'" "keeps_release i (database w) (database w')"
proof -
  note eff = Read_effect [OF assms(2) serves_ok_tables(5-7) [OF assms(1)] assms(3)]
  show "serves_ok K E w'"
    by (rule serves_step [OF assms(1) server_step.edit [OF editing_call.read [OF assms(2,3)]]]) (use eff in blast)
  show "keeps_release i (database w) (database w')"
    using eff by (auto simp: read_effect_def keeps_release_def release_of_def)
qed

lemma publication_step:
  assumes ok: "serves_ok K E w" and tx: "transaction_runner tx"
    and run: "Publish tx K iter actor e i v E w = (s, w') \<or> Unpublish tx K iter actor e i v E w = (s, w')"
  shows "serves_ok K E w'" "(\<And>row. s = Inr row \<Longrightarrow> s_ConfigID row \<noteq> j) \<Longrightarrow> keeps_release j (database w) (database w')"
proof -
  note t = serves_ok_tables [OF ok]
  have "\<exists>act. server_step E act w w'"
  proof (cases s)
    case (Inl err)
    with run tx show ?thesis by (metis server_step.publish_refused server_step.unpublish_refused)
  next
    case (Inr row)
    with run tx show ?thesis by (metis server_step.publish server_step.unpublish)
  qed
  then show "serves_ok K E w'" using publication_keeps_cache [OF tx t(1-5) run] serves_step [OF ok] by blast
  assume other: "\<And>row. s = Inr row \<Longrightarrow> s_ConfigID row \<noteq> j"
  from run obtain q where q: "changePublication tx K iter q E w = (s, w')"
    "request_status q = SnapshotStatusUnreleased \<or> request_status q = SnapshotStatusReleased"
    unfolding Publish_def Unpublish_def by (metis publicationRequest.select_convs(5))
  note eff = changePublication_effect [OF tx q(1) t(1-4) q(2)]
  show "keeps_release j (database w) (database w')"
  proof (cases s)
    case (Inl err)
    with eff show ?thesis by (simp add: keeps_release_def)
  next
    case (Inr row)
    with eff obtain change where don: "publication_done K iter (database w) q change (database w')" and row: "row = change_result change" by auto
    from don obtain entry now where ready: "publication_ready K iter (database w) q change"
      and d': "database w' = audit_logs_update (\<lambda>rows. rows @ [entry]) (configs_update (next_generation (ID (change_config change)) now)
        (snapshots_update (publication_rows change) (database w)))" unfolding publication_done_def by blast
    have "s_ConfigID row = ID (change_config change)" using ready by (auto simp: row change_result_def Let_def publication_ready_def)
    with other Inr have j: "j \<noteq> ID (change_config change)" by auto
    have "release_of (database w') p j = release_of (snapshots_update (publication_rows change) (database w)) p j" for p
      by (simp add: d' release_of_def)
    then have "release_of (database w') p j = release_of (database w) p j" for p
      using publication_rows_other [OF ready t(3) j] by simp
    moreover have "filter (\<lambda>c. ID c = j) (configs (database w')) = filter (\<lambda>c. ID c = j) (configs (database w))"
      using j unfolding d' by (simp add: next_generation_def update_rows_def filter_map_stable)
    ultimately show ?thesis by (simp add: keeps_release_def d')
  qed
qed

lemma serving_run:
  assumes "serving K E spared w w'" "serves_ok K E w"
  shows "serves_ok K E w'" "i \<in> spared \<Longrightarrow> keeps_release i (database w) (database w')"
proof -
  have "serves_ok K E w' \<and> (i \<in> spared \<longrightarrow> keeps_release i (database w) (database w'))"
    using assms
  proof induction
    case (idle w)
    then show ?case by (simp add: keeps_release_def)
  next
    case (read w w1 tx hmac pepper full project key r w2)
    with read_step [OF _ read.hyps(2,3)] show ?case by (blast intro: keeps_release_trans)
  next
    case (publication w w1 tx iter actor e n v s w2)
    then have ok: "serves_ok K E w1" and before: "i \<in> spared \<longrightarrow> keeps_release i (database w) (database w1)" by blast+
    have "keeps_release i (database w1) (database w2)" if "i \<in> spared"
      by (rule publication_step(2) [OF ok publication.hyps(2,3)]) (use publication.hyps(4) that in blast)
    with before publication_step(1) [OF ok publication.hyps(2,3)] show ?case by (blast intro: keeps_release_trans)
  qed
  then show "serves_ok K E w'" "i \<in> spared \<Longrightarrow> keeps_release i (database w) (database w')" by blast+
qed

section \<open>After a publication\<close>

text \<open>A project key names a project: by the unique index of the projects, no other row has it.\<close>

definition names_project :: "db \<Rightarrow> string \<Rightarrow> int \<Rightarrow> bool" where
  "names_project d project projectID \<longleftrightarrow> (\<forall>p \<in> set (projects d). p_Key p = project \<longrightarrow> ID p = projectID)"

text \<open>
  C31. A published value is what clients read from then on. Start with consistent data and caches that agree with it (an empty
  cache does), let any reads, publications and withdrawals run, and let publishing a snapshot succeed. Then,
  after any further reads by any clients, and publications and withdrawals of other configs, with any failures, a runtime read of the
  config by the key of its project and its own key that answers carries the value stored in the published snapshot, and a
  generation one higher than before the publication.
\<close>

theorem published_value_is_served:
  assumes start: "serves_ok K E w0" "serving K E {} w0 w"
    and publish: "transaction_runner tx" "Publish tx K iter actor environmentID snapshotID expectedVersion E w = (Inr s, w1)"
    and later: "serving K E {s_ConfigID s} w1 w2"
    and read: "transaction_runner tx'" "Read tx' K hmac pepper full project (s_ConfigKey s) E w2 = (Inr res, w3)"
      "names_project (database w2) project (s_ProjectID s)"
  shows "\<exists>c \<in> set (configs (database w)). ID c = s_ConfigID s \<and> c_Key c = s_ConfigKey s \<and>
    content_value K (s_Content s) (ID c) (c_ProjectID c) (c_Key c) = Some (Runtime_Content res) \<and>
    Runtime_Version res = c_RuntimeVersion c + 1"
proof -
  let ?q = "\<lparr>request_actor = actor, request_environmentID = environmentID, request_snapshotID = snapshotID,
       request_expectedVersion = expectedVersion, request_status = SnapshotStatusReleased\<rparr>"
  have ok: "serves_ok K E w" by (rule serving_run(1) [OF start(2,1)])
  have ok1: "serves_ok K E w1" using publication_step(1) [OF ok publish(1)] publish(2) by blast
  note ok2 = serving_run(1) [OF later ok1]
  note t = serves_ok_tables [OF ok] and t2 = serves_ok_tables [OF ok2]
  have run: "changePublication tx K iter ?q E w = (Inr s, w1)" using publish(2) by (simp add: Publish_def)
  from changePublication_effect [OF publish(1) run t(1-4)] obtain change where
    don: "publication_done K iter (database w) ?q change (database w1)" and s: "s = change_result change" by auto
  let ?c = "change_config change"
  from don obtain row now where ready: "publication_ready K iter (database w) ?q change"
    and cfgs: "configs (database w1) = next_generation (ID ?c) now (configs (database w))"
    unfolding publication_done_def by auto
  note facts = published_facts [OF don _ t(3), simplified]
  have config: "?c \<in> set (configs (database w))" "s_ConfigID s = ID ?c" "s_ConfigKey s = c_Key ?c" "s_ProjectID s = c_ProjectID ?c"
    using ready by (auto simp: publication_ready_def Let_def s facts(2) release_row_def)
  have keeps: "keeps_release (ID ?c) (database w1) (database w2)" using serving_run(2) [OF later ok1] by (simp add: config(2))
  let ?c2 = "?c\<lparr>c_RuntimeVersion := c_RuntimeVersion ?c + 1, UpdatedAt := now\<rparr>"
  have "?c2 \<in> set (configs (database w1))" using config(1) by (auto simp: cfgs next_generation_def set_update_rows intro!: bexI [of _ ?c])
  then have "?c2 \<in> set (filter (\<lambda>c. ID c = ID ?c) (configs (database w1)))" by simp
  then have "?c2 \<in> set (filter (\<lambda>c. ID c = ID ?c) (configs (database w2)))" using keeps unfolding keeps_release_def by metis
  then have c2: "?c2 \<in> set (configs (database w2))" by simp
  from Read_effect [OF read(1) t2(5-7) read(2)] obtain p c where p: "p_Key p = project" "p \<in> set (projects (database w2))"
    and c: "c \<in> set (configs (database w2))" "c_ProjectID c = ID p" "same_text E (c_Key c) (s_ConfigKey s)"
      "released_value K (database w2) c = Some (Runtime_Content res)" "Runtime_Version res = c_RuntimeVersion c"
    unfolding served_def authenticates_def by blast
  have "ID p = c_ProjectID ?c" using read(3) p config(4) by (auto simp: names_project_def)
  then have "same_key E (config_key c) (config_key ?c2)" using c(2,3) config(3) by simp
  then have ceq: "c = ?c2" by (rule serves_ok_config [OF ok2 c(1) c2])
  have "release_of (database w1) (c_ProjectID ?c) (ID ?c) = Some s" by (rule release_of_unique) (simp add: facts(3) s)
  then have "release_of (database w2) (c_ProjectID ?c) (ID ?c) = Some s" using keeps by (simp add: keeps_release_def)
  with c(4,5) show ?thesis using config by (intro bexI [of _ ?c]) (auto simp: ceq released_value_def)
qed

section \<open>A client of the example installation\<close>

lemma runtime_world_serves: "serves_ok example_codec example_engine runtime_world"
proof -
  have "invariant example_engine runtime_world" by code_simp
  moreover have "\<forall>env \<in> set (environments (database runtime_world)). ID env \<le> last_id runtime_world EnvironmentsTable"
    "distinct (map ID (environments (database runtime_world)))" "distinct (map ID (roles (database runtime_world)))"
    "\<forall>r \<in> set (roles (database runtime_world)). ID r \<le> last_id runtime_world RolesTable"
    "\<forall>m \<in> set (members (database runtime_world)). m_RoleID m \<le> last_id runtime_world RolesTable" by code_simp+
  moreover have "\<not> memory_holds (cache runtime_world) k v" for k v
    by (simp add: runtime_world_def publish_world_def example_world_def newMemory_def memory_holds_def)
  ultimately show ?thesis using runtime_world_ok
    by (simp add: serves_ok_def access_ok_def collation_def example_engine_def)
qed

text \<open>The client reads, the snapshot is published, and the client reads twice.\<close>

lemma read_publish_read:
  "case example_read runtime_world of (_, w) \<Rightarrow> (case example_publish w of
     (Inl _, _) \<Rightarrow> False
   | (Inr s, w1) \<Rightarrow> s_ConfigKey s = ''port'' \<and> (case example_read w1 of (_, w2) \<Rightarrow>
       list_all (\<lambda>p. ID p = s_ProjectID s) (projects (database w2)) \<and> (case example_read w2 of
         (Inl _, _) \<Rightarrow> False | (Inr res, _) \<Rightarrow> Runtime_Content res = ''9090'' \<and> Runtime_Version res = 6)))"
  by code_simp

theorem published_value_is_served_witness:
  "\<exists>r w s w1 r' w2 res w3. example_read runtime_world = (r, w) \<and> example_publish w = (Inr s, w1) \<and> example_read w1 = (r', w2) \<and>
     example_read w2 = (Inr res, w3) \<and> Runtime_Content res = ''9090'' \<and>
     (\<exists>c \<in> set (configs (database w)). content_value example_codec (s_Content s) (ID c) (c_ProjectID c) (c_Key c) = Some (Runtime_Content res) \<and>
        Runtime_Version res = c_RuntimeVersion c + 1)"
proof -
  note outcome = read_publish_read
  obtain r w where r1: "example_read runtime_world = (r, w)" by fastforce
  obtain q w1 where r2: "example_publish w = (q, w1)" by fastforce
  obtain r' w2 where r3: "example_read w1 = (r', w2)" by fastforce
  obtain q' w3 where r4: "example_read w2 = (q', w3)" by fastforce
  from outcome obtain s where q: "q = Inr s" by (cases q) (auto simp: r1 r2)
  from outcome obtain res where q': "q' = Inr res" by (cases q') (auto simp: r1 r2 r3 r4 q)
  from outcome have vals: "s_ConfigKey s = ''port''" "list_all (\<lambda>p. ID p = s_ProjectID s) (projects (database w2))" "Runtime_Content res = ''9090''"
    by (simp_all add: r1 r2 r3 r4 q q')
  note run = r1 r2 [unfolded q] r3 r4 [unfolded q']
  note runs = run [unfolded example_read_def example_publish_def]
  have before: "serving example_codec example_engine {} runtime_world w" by (rule serving.read [OF serving.idle run_tx_runner runs(1)])
  have after: "serving example_codec example_engine {s_ConfigID s} w1 w2" by (rule serving.read [OF serving.idle run_tx_runner runs(3)])
  have "names_project (database w2) ''shop'' (s_ProjectID s)" using vals(2) by (simp add: names_project_def list_all_iff)
  from published_value_is_served [OF runtime_world_serves before run_tx_runner runs(2) after run_tx_runner runs(4) [folded vals(1)] this]
  show ?thesis using run vals(3) by blast
qed

end
