(* ===== verification/Spec2Isabelle.thy ===== *)
theory Spec2Isabelle
  imports Schema_Spec Import_Props Account_Props Asset_Props Listing Gate_Props Serving
begin

text \<open>
  Verification of the Kirby configuration server (\<^verbatim>\<open>src/server\<close>).

  \<^bold>\<open>The program.\<close> Kirby stores typed configurations. A project has environments, and configs; a config has structures, enums and a
  value, edited as a draft. A snapshot freezes a draft; publishing a snapshot releases it, and client programs read the released
  value of a config with an API key of the project. Members edit, publish and import under permissions their roles grant in an
  environment; administrators manage accounts, roles and environments; assets are uploaded to an object storage with signed
  tickets. A request passes a gate (\<^verbatim>\<open>middleware\<close>), runs an operation (\<^verbatim>\<open>logic\<close>) that checks permissions (\<^verbatim>\<open>permission\<close>), and
  reads and writes through repositories (\<^verbatim>\<open>repository\<close>) in a transaction, with a cache (\<^verbatim>\<open>infra/cache\<close>) for permission sets,
  published values and rate limits. Paths below are relative to \<^verbatim>\<open>src/server/internal\<close>.

  \<^bold>\<open>Shape of the model.\<close> A Go function that can fail is a function into \<open>err + 'a\<close> (\<open>result\<close>); a sentinel error is a constructor of
  \<open>err\<close>, \<^verbatim>\<open>fmt.Errorf("...: %w", err)\<close> is \<open>Wrapped\<close>, a panic is \<open>Panic\<close>. A Go string is its bytes. An operation on the database is
  a function of type \<open>'a M\<close> (theory \<open>Database\<close>): it takes an \<open>engine\<close> and a \<open>world\<close> (tables, cache, counter of interactions) and
  returns a result and the new world. The engine is what the outside world decides: which statement fails and how, the readings
  of the clock and of \<^verbatim>\<open>ctx.Err()\<close>, and how the database compares text. Every theorem is for all engines unless it says otherwise,
  so failures at every point of an operation are covered. Theorems quantify over the runner of
  transactions (\<open>transaction_runner\<close>), which restores the database when the body fails and may itself fail to commit; \<open>run_tx\<close>, whose
  commits succeed, is the instance of the examples. Operations run one after the other: the row locks of the code are taken to serialise them.
  \<^verbatim>\<open>int64\<close> and \<^verbatim>\<open>uint64\<close> are words where the code converts between widths (\<open>SafeInt\<close>); identifiers and versions
  are integers with their bounds written out where the code tests them.

  \<^bold>\<open>Theories.\<close>
  \<^item> \<open>Prelude\<close>, \<open>Text\<close>, \<open>Json\<close>, \<open>Media\<close>: errors and results, and what the code uses of the Go packages strings, strconv, utf8, time,
    encoding/json, path and mime.
  \<^item> \<open>SafeInt\<close> (\<^verbatim>\<open>util/safeint\<close>), \<open>Util_Set\<close> (\<^verbatim>\<open>util/set\<close>), \<open>Cache\<close> (\<^verbatim>\<open>infra/cache\<close>, the memory store).
  \<^item> \<open>Schema\<close>, \<open>Schema_Values\<close> (\<^verbatim>\<open>entity/schema.go\<close>); \<open>Schema_Props\<close> and \<open>Schema_Spec\<close> prove what a schema promises: the exact
    condition under which it is accepted, that the recursive value check decides a declarative conformance relation, that the
    editor tree and the default values always exist, that the offered choices create no cycle.
  \<^item> \<open>Database\<close> (\<^verbatim>\<open>model\<close>, statements), \<open>Scope\<close> (\<^verbatim>\<open>repository/scope.go, page.go\<close>), \<open>Repo_Config\<close>, \<open>Repo_Child\<close>, \<open>Repo_Auth\<close>,
    \<open>Repo_Identity\<close>, \<open>Repo_User\<close> (the other files of \<^verbatim>\<open>repository\<close>).
  \<^item> \<open>Permission\<close>, \<open>Permission_Props\<close> (\<^verbatim>\<open>permission\<close>): resolution of permission sets through a cache keyed by a generation of the
    environment; the decision is the one the stored grants give.
  \<^item> \<open>Codec\<close> (\<^verbatim>\<open>entity/snapshot.go, converter\<close>), \<open>Credential\<close> (\<^verbatim>\<open>auth/api_key\<close>), \<open>Password\<close> (\<^verbatim>\<open>auth/password\<close>): encodings and their
    round trips.
  \<^item> \<open>Publish\<close>, \<open>Publish_Props\<close>, \<open>Runtime_Props\<close> (\<^verbatim>\<open>logic/publish.go, runtime.go\<close>): the exact effect of a publication and of a
    withdrawal, and that a runtime read is authenticated and serves the released value, from the cache or not.
  \<^item> \<open>Operation\<close>, \<open>API_Key\<close> (\<^verbatim>\<open>logic/api_key.go\<close>), \<open>Snapshot\<close> (\<^verbatim>\<open>logic/snapshot.go\<close>), \<open>Drafts\<close> (\<^verbatim>\<open>logic/config.go\<close>), \<open>Children\<close>
    (\<^verbatim>\<open>logic/structure.go, enum.go\<close>), \<open>Import\<close> (\<^verbatim>\<open>logic/export.go, import.go\<close>), \<open>Admin\<close> (\<^verbatim>\<open>logic/environment.go, role.go, user.go,
    project.go, setup.go\<close>): the operations. \<open>Listing\<close> proves that the loops over pages return every row once.
  \<^item> \<open>Auth\<close>, \<open>Auth_Props\<close> (\<^verbatim>\<open>logic/auth.go, auth/session, auth/jwt\<close>): login, rotation of refresh tokens, replay, logout, limits.
  \<^item> \<open>Transition\<close>, \<open>Invariant\<close>, \<open>Statements\<close>, \<open>Calls\<close>, \<open>Server\<close>: the server as a state machine whose step is one call of any
    operation. The relation \<open>obeys\<close> says what a run may change; the locales \<open>effect\<close>, \<open>atomic_effect\<close>, \<open>transition\<close>,
    \<open>server_relation\<close> and \<open>admin_relation\<close> lift a relation from statements to operations once, and each invariant is an
    interpretation. The stored data stay consistent in every reachable state, and the machine refines an abstract store of
    releases that only publication and withdrawal change.
  \<^item> \<open>Access\<close>, \<open>Access_Admin\<close>, \<open>Access_Props\<close>: authorization is never stale, and a change of roles takes effect at once. \<open>Serving\<close>:
    after a publication every read serves the published value, through any reads and publications of other configs. \<open>Accounts\<close>,
    \<open>Account_Props\<close>: an enabled administrator remains, set-up happens once, disabling an account or changing its password ends
    its sessions. \<open>Import_Props\<close>: an idempotency key imports once.
  \<^item> \<open>Object_Key\<close> (\<^verbatim>\<open>infra/object/key.go, storage.go\<close>), \<open>Object_Local\<close> (\<^verbatim>\<open>infra/object/local.go, util/safefile\<close>), \<open>Object_Text\<close>,
    \<open>Object_Props\<close>, \<open>Object_Live\<close>: object keys are exact, an upload adds only the files its ticket was signed for, and a ticket used
    as issued leads to a complete object. \<open>Asset\<close>, \<open>Asset_Props\<close> (\<^verbatim>\<open>logic/asset.go, service/asset.go\<close>): access is checked before
    the storage is touched, and what fails the policy is removed, over any storage that satisfies the stated contract.
  \<^item> \<open>Gate\<close>, \<open>Gate_Props\<close> (\<^verbatim>\<open>middleware, auth/jwt, permission/errors.go, service/errors.go\<close>): who reaches an administrative
    operation, rate limits, and the public form of errors.
  \<^item> \<open>Example_World\<close>: the small installation the theorems are applied to.

  \<^bold>\<open>Interfaces.\<close> \<open>byte_store\<close> is the contract of a cache, \<open>transactional\<close> of a transaction runner, \<open>guarded_operation\<close> of an operation
  that checks, looks up and writes, \<open>checked_conversion\<close> of an integer conversion, \<open>member_set\<close> of the set, \<open>additions\<close> of file
  system calls that only add, \<open>in_place_storage\<close> of an object storage, and \<open>lasting\<close> of an invariant that operations keep. Each is
  interpreted on the model's definitions.

  \<^bold>\<open>Arguments.\<close> Code outside the repository enters as an argument, with what is relied on as a named hypothesis: the protobuf JSON
  codec (\<open>codec\<close>), SHA-256, HMAC, Argon2, random bytes, UUIDs, the JWT library (\<open>auth_sign\<close>, \<open>ParseWithClaims\<close>; \<open>parses_signed\<close> and
  \<open>parses_authentic\<close> state its documented behaviour for every key function, so the choice of the key is the server's own code), the file system (\<open>local_env\<close>), the Unicode table of lower-case letters beyond ASCII, the iteration order of Go
  maps (\<open>map_iteration\<close>), and the database engine.

  \<^bold>\<open>Fuel.\<close> The loops over pages carry one more unit than the table has rows; each round but the last meets at least one new row,
  and \<open>Listing\<close> proves that the fuel suffices. The resolver of permission sets retries \<open>maxResolveRetry\<close> times, as the code does.
  All other recursion is structural or has a termination proof; the recursion over structures of a schema ends because the set
  of structures on the current path grows inside the finite schema.

  \<^bold>\<open>Not modelled.\<close> Generated code (protobuf messages and validators, HTTP and gRPC stubs, lorm metadata); the services' copying of
  request and reply fields, cookies, origin checks and routing; the resolution of forwarded client addresses
  (\<^verbatim>\<open>middleware/client_ip.go\<close>), which is the parsing and classification of IP addresses by \<^verbatim>\<open>net/netip\<close>; the Redis cache and the S3
  storage, which run in other servers (their contracts are the locales \<open>byte_store\<close> and \<open>in_place_storage\<close>, stated here and shown
  for the local implementations); the creation of the storage root and its signing key; configuration files, logging, secrets
  and start-up; the terminal part of the command line; the developer tools and the web interface. The causes inside an
  unavailable-authentication error are dropped (\<open>authUnavailable\<close>), a clash of temporary file names is an error rather than a retry,
  and a failing write leaves no partial content (\<open>os_Create\<close>, \<open>os_Write\<close>); the wrap-around of \<^verbatim>\<open>time.Unix\<close> for expiry times beyond
  any the server signs is not modelled. Requests that interleave
  inside an operation are not modelled beyond the failures and retries the engine can cause.
\<close>

end
